(* ===== verification/Csd_Prelude.thy ===== *)
theory Csd_Prelude
  imports Main "HOL-Library.FSet" "HOL-Library.Char_ord" "HOL-Library.List_Lexorder"
    "HOL-Library.Product_Lexorder" "HOL-Library.Sublist"
begin

section \<open>Shared types, Python idioms and generic lemmas\<close>

text \<open>
  What the components share: strings as character lists (a character is a code point below
  256), Python's \<^verbatim>\<open>str\<close> of an integer, \<^verbatim>\<open>repr\<close> of a list of
  strings, \<^verbatim>\<open>sep.join\<close>, dictionaries built by a comprehension over a tuple
  (last value wins, first position is kept), finite sets as \<open>fset\<close>, and the list and
  dictionary lemmas that the component proofs use.
\<close>

named_theorems dict_simps "lookup in a dictionary built from a list"

subsection \<open>Dictionaries built by comprehension\<close>

text \<open>
  \<^verbatim>\<open>{key(x): x for x in xs}\<close>: a later element with the same key overwrites the
  value and keeps the position of the first one.
\<close>

definition dict_by :: "('a \<Rightarrow> 'k) \<Rightarrow> 'a list \<Rightarrow> ('k \<rightharpoonup> 'a)" where
  "dict_by key xs = map_of (rev (map (\<lambda>x. (key x, x)) xs))"

definition dict_keys :: "('a \<Rightarrow> 'k) \<Rightarrow> 'a list \<Rightarrow> 'k list" where
  "dict_keys key xs = rev (remdups (rev (map key xs)))"

lemma set_dict_keys [simp]: "set (dict_keys key xs) = key ` set xs"
  by (simp add: dict_keys_def)

lemma distinct_dict_keys [simp]: "distinct (dict_keys key xs)"
  by (simp add: dict_keys_def)

lemma dict_by_Nil [simp]: "dict_by key [] = Map.empty"
  by (simp add: dict_by_def)

lemma dict_by_append [dict_simps]:
  "dict_by key (xs @ ys) = dict_by key xs ++ dict_by key ys"
  by (simp add: dict_by_def)

lemma dict_by_Cons [dict_simps]:
  "dict_by key (x # xs) = [key x \<mapsto> x] ++ dict_by key xs"
  by (simp add: dict_by_def)

lemma dom_dict_by [simp]: "dom (dict_by key xs) = key ` set xs"
  by (force simp: dict_by_def dom_map_of_conv_image_fst image_image)

lemma dict_by_None_iff: "dict_by key xs k = None \<longleftrightarrow> k \<notin> key ` set xs"
  by (metis dom_dict_by domIff)

lemma dict_by_SomeD: "dict_by key xs k = Some x \<Longrightarrow> x \<in> set xs \<and> key x = k"
  unfolding dict_by_def by (drule map_of_SomeD) auto

lemma dict_by_ex: "k \<in> key ` set xs \<Longrightarrow> \<exists>x. dict_by key xs k = Some x"
  by (metis dict_by_None_iff not_None_eq)

lemma dict_by_distinct:
  assumes "distinct (map key xs)"
  shows "dict_by key xs k = Some x \<longleftrightarrow> x \<in> set xs \<and> key x = k"
proof
  assume "x \<in> set xs \<and> key x = k"
  then obtain y where y: "dict_by key xs k = Some y" using dict_by_ex by fastforce
  with dict_by_SomeD have "y \<in> set xs \<and> key y = k" by fastforce
  with \<open>x \<in> set xs \<and> key x = k\<close> assms have "y = x"
    by (metis distinct_map inj_onD)
  with y show "dict_by key xs k = Some x" by simp
qed (rule dict_by_SomeD)

lemma dict_by_map [dict_simps]:
  assumes "\<And>x. key (f x) = key x"
  shows "dict_by key (map f xs) k = map_option f (dict_by key xs k)"
  by (induction xs rule: rev_induct) (auto simp: dict_by_append dict_by_Cons assms map_add_def)

lemma map_key_map:
  assumes "\<And>x. key (f x) = key x"
  shows "map key (map f xs) = map key xs"
  by (simp add: assms)

text \<open>\<^verbatim>\<open>len(d) != len(xs)\<close> exactly when a key is repeated.\<close>

lemma length_dict_keys [simp]:
  "length (dict_keys key xs) = length xs \<longleftrightarrow> distinct (map key xs)"
proof -
  have "length (dict_keys key xs) = card (set (map key xs))"
    by (simp add: dict_keys_def length_remdups_card_conv)
  also have "\<dots> = length (map key xs) \<longleftrightarrow> distinct (map key xs)"
    by (metis card_distinct distinct_card)
  finally show ?thesis by simp
qed

text \<open>\<^verbatim>\<open>d.items()\<close> in dictionary order.\<close>

definition dict_items :: "('a \<Rightarrow> 'k) \<Rightarrow> 'a list \<Rightarrow> ('k \<times> 'a) list" where
  "dict_items key xs = map (\<lambda>k. (k, the (dict_by key xs k))) (dict_keys key xs)"

lemma set_dict_items: "(k, x) \<in> set (dict_items key xs) \<longleftrightarrow> dict_by key xs k = Some x"
proof
  assume "(k, x) \<in> set (dict_items key xs)"
  then have "k \<in> key ` set xs" and x: "x = the (dict_by key xs k)"
    by (auto simp: dict_items_def)
  then obtain y where "dict_by key xs k = Some y" using dict_by_ex by metis
  with x show "dict_by key xs k = Some x" by simp
next
  assume "dict_by key xs k = Some x"
  moreover from this have "k \<in> key ` set xs" using dict_by_SomeD by fastforce
  ultimately show "(k, x) \<in> set (dict_items key xs)"
    by (force simp: dict_items_def)
qed

lemma concat_dict_items_Nil_iff:
  "concat (map (\<lambda>(k, x). f k x) (dict_items key xs)) = [] \<longleftrightarrow>
   (\<forall>k x. dict_by key xs k = Some x \<longrightarrow> f k x = [])"
  using set_dict_items [of _ _ key xs] by (fastforce simp: concat_eq_Nil_conv)

subsection \<open>Finite sets\<close>

text \<open>\<^verbatim>\<open>frozenset(k for k in s if p(k))\<close> is \<open>ffilter\<close>; the order in
  which Python iterates over a set is not specified, and the model uses the sorted order.\<close>

abbreviation sorted_fset :: "'a::linorder fset \<Rightarrow> 'a list" where
  "sorted_fset \<equiv> sorted_list_of_fset"

definition dict_key_set :: "('a \<Rightarrow> 'k) \<Rightarrow> 'a list \<Rightarrow> 'k fset" where
  "dict_key_set key xs = fset_of_list (map key xs)"

lemma fset_dict_key_set [simp]: "fset (dict_key_set key xs) = key ` set xs"
  by (simp add: dict_key_set_def fset_of_list.rep_eq)

lemma sorted_fset_eq_Nil [simp]: "sorted_fset S = [] \<longleftrightarrow> S = {||}"
  by (metis fset_of_list_simps(1) sorted_list_of_fset_simps(2) bot_fset.rep_eq empty_set
      fset_inverse sorted_list_of_fset_simps(1) set_empty)

subsection \<open>Strings\<close>

fun nat_str :: "nat \<Rightarrow> string" where
  "nat_str n = (if n < 10 then [char_of (48 + n)] else nat_str (n div 10) @ [char_of (48 + n mod 10)])"

declare nat_str.simps [simp del]

text \<open>\<^verbatim>\<open>str(n)\<close> of an integer and \<^verbatim>\<open>str(b).lower()\<close> of a boolean.\<close>

definition py_str :: "int \<Rightarrow> string" where
  "py_str n = (if n < 0 then ''-'' @ nat_str (nat (- n)) else nat_str (nat n))"

definition py_bool_lower :: "bool \<Rightarrow> string" where
  "py_bool_lower b = (if b then ''true'' else ''false'')"

text \<open>\<^verbatim>\<open>sep.join(xs)\<close>.\<close>

fun join :: "string \<Rightarrow> string list \<Rightarrow> string" where
  "join sep [] = ''''"
| "join sep [x] = x"
| "join sep (x # y # ys) = x @ sep @ join sep (y # ys)"

text \<open>\<^verbatim>\<open>repr\<close> of a string of code points below 256, and of a list of strings.\<close>

definition hex_digit :: "nat \<Rightarrow> char" where
  "hex_digit n = (if n < 10 then char_of (48 + n) else char_of (87 + n))"

definition repr_char :: "char \<Rightarrow> char \<Rightarrow> string" where
  "repr_char q c = (let n = of_char c :: nat in
     if c = q \<or> n = 92 then [char_of (92::nat), c]
     else if n = 9 then [char_of (92::nat), CHR ''t'']
     else if n = 10 then [char_of (92::nat), CHR ''n'']
     else if n = 13 then [char_of (92::nat), CHR ''r'']
     else if n < 32 \<or> (127 \<le> n \<and> n \<le> 160) \<or> n = 173
       then [char_of (92::nat), CHR ''x'', hex_digit (n div 16), hex_digit (n mod 16)]
     else [c])"

definition repr_str :: "string \<Rightarrow> string" where
  "repr_str s = (let q = (if char_of (39::nat) \<in> set s \<and> char_of (34::nat) \<notin> set s
                          then char_of (34::nat) else char_of (39::nat))
                 in [q] @ concat (map (repr_char q) s) @ [q])"

definition repr_str_list :: "string list \<Rightarrow> string" where
  "repr_str_list xs = ''['' @ join '', '' (map repr_str xs) @ '']''"

subsection \<open>Generic list lemmas\<close>

lemma concat_map_Nil_iff: "concat (map f xs) = [] \<longleftrightarrow> (\<forall>x\<in>set xs. f x = [])"
  by auto

lemma take_prefix_iff: "take (length xs) ys = xs \<longleftrightarrow> prefix xs ys"
  by (metis prefix_def append_eq_conv_conj take_is_prefix)

end
