(* ===== verification/Effects.thy ===== *)
theory Effects
  imports Csd_Prelude
begin

section \<open>Operations with state and exceptions\<close>

text \<open>
  A Python operation that mutates a store and may raise is a function from the store to an
  outcome (\<open>Inl\<close> the exception, \<open>Inr\<close> the value) and the store it leaves behind:
  what was written before the exception stays written. \<open>seq_op\<close> is the statement sequence,
  \<open>catch_op\<close> is \<^verbatim>\<open>try ... except\<close>. The locale states what it takes for
  every operation built from them to respect a preorder on stores.
\<close>

type_synonym ('s, 'e, 'a) op = "'s \<Rightarrow> ('e + 'a) \<times> 's"

definition ret :: "'a \<Rightarrow> ('s, 'e, 'a) op" where
  "ret a = (\<lambda>s. (Inr a, s))"

definition raise_op :: "'e \<Rightarrow> ('s, 'e, 'a) op" where
  "raise_op e = (\<lambda>s. (Inl e, s))"

definition seq_op :: "('s, 'e, 'a) op \<Rightarrow> ('a \<Rightarrow> ('s, 'e, 'b) op) \<Rightarrow> ('s, 'e, 'b) op" where
  "seq_op m f = (\<lambda>s. case m s of (Inl e, t) \<Rightarrow> (Inl e, t) | (Inr a, t) \<Rightarrow> f a t)"

definition catch_op :: "('s, 'e, 'a) op \<Rightarrow> ('e \<Rightarrow> ('s, 'e, 'a) op) \<Rightarrow> ('s, 'e, 'a) op" where
  "catch_op m h = (\<lambda>s. case m s of (Inl e, t) \<Rightarrow> h e t | (Inr a, t) \<Rightarrow> (Inr a, t))"

text \<open>A value computed from the store without changing it, and a check that may raise.\<close>

definition read_op :: "('s \<Rightarrow> 'e + 'a) \<Rightarrow> ('s, 'e, 'a) op" where
  "read_op f = (\<lambda>s. (f s, s))"

definition write_op :: "('s \<Rightarrow> 's) \<Rightarrow> ('s, 'e, unit) op" where
  "write_op f = (\<lambda>s. (Inr (), f s))"

abbreviation lift_res :: "'e + 'a \<Rightarrow> ('s, 'e, 'a) op" where
  "lift_res r \<equiv> read_op (\<lambda>_. r)"

lemma op_simps [simp]:
  "ret a s = (Inr a, s)" "raise_op e s = (Inl e, s)" "read_op g s = (g s, s)"
  "write_op w s = (Inr (), w s)"
  by (simp_all add: ret_def raise_op_def read_op_def write_op_def)

lemma seq_op_Inr:
  "seq_op m f s = (Inr b, u) \<longleftrightarrow> (\<exists>a t. m s = (Inr a, t) \<and> f a t = (Inr b, u))"
  by (auto simp: seq_op_def split: prod.splits sum.splits)

lemma seq_op_Inl:
  "seq_op m f s = (Inl e, u) \<longleftrightarrow>
     m s = (Inl e, u) \<or> (\<exists>a t. m s = (Inr a, t) \<and> f a t = (Inl e, u))"
  by (auto simp: seq_op_def split: prod.splits sum.splits)

lemma seq_op_run [simp]: "m s = (Inr a, t) \<Longrightarrow> seq_op m f s = f a t"
  and seq_op_stop [simp]: "m s = (Inl e, t) \<Longrightarrow> seq_op m f s = (Inl e, t)"
  by (simp_all add: seq_op_def)

lemma seq_read: "seq_op (read_op g) f s = (case g s of Inl e \<Rightarrow> (Inl e, s) | Inr a \<Rightarrow> f a s)"
  by (simp add: seq_op_def split: sum.splits)

lemma seq_lift: "seq_op (lift_res (Inr a)) f = f a" "seq_op (lift_res (Inl e)) f = raise_op e"
  by (simp_all add: fun_eq_iff seq_read)

lemma seq_write [simp]: "seq_op (write_op w) f s = f () (w s)"
  by simp

locale effect_order =
  fixes leq :: "'s \<Rightarrow> 's \<Rightarrow> bool"
  assumes refl: "leq s s" and trans: "leq s t \<Longrightarrow> leq t u \<Longrightarrow> leq s u"
begin

definition conserves :: "('s, 'e, 'a) op \<Rightarrow> bool" where
  "conserves m \<longleftrightarrow> (\<forall>s. leq s (snd (m s)))"

lemma conservesI: "(\<And>s. leq s (snd (m s))) \<Longrightarrow> conserves m"
  and conservesD: "conserves m \<Longrightarrow> leq s (snd (m s))"
  and conserves_apply: "conserves m \<Longrightarrow> m s = (r, t) \<Longrightarrow> leq s t"
  unfolding conserves_def by (auto dest: spec [of _ s])

lemma conserves_pure [simp, intro]:
  "conserves (ret a)" "conserves (raise_op e)" "conserves (read_op g)"
  by (auto intro!: conservesI refl)

lemma conserves_seq [intro]:
  assumes "conserves m" and "\<And>a. conserves (f a)" shows "conserves (seq_op m f)"
proof (rule conservesI)
  fix s
  obtain r t where m: "m s = (r, t)" by fastforce
  then have "leq s t" using assms(1) by (rule conserves_apply [rotated])
  then show "leq s (snd (seq_op m f s))"
    using conservesD [OF assms(2)] trans by (cases r) (auto simp: seq_op_def m)
qed

text \<open>The same rule at one state, where the first operation may say more about its result.\<close>

lemma leq_seq:
  assumes "leq s (snd (m s))" and "\<And>a t. m s = (Inr a, t) \<Longrightarrow> leq t (snd (f a t))"
  shows "leq s (snd (seq_op m f s))"
  using assms trans by (fastforce simp: seq_op_def split: prod.splits sum.splits)

lemma conserves_catch [intro]:
  assumes "conserves m" and "\<And>e. conserves (h e)" shows "conserves (catch_op m h)"
proof (rule conservesI)
  fix s
  obtain r t where m: "m s = (r, t)" by fastforce
  then have "leq s t" using assms(1) by (rule conserves_apply [rotated])
  then show "leq s (snd (catch_op m h s))"
    using conservesD [OF assms(2)] trans by (cases r) (auto simp: catch_op_def m)
qed

lemma conserves_write: "(\<And>s. leq s (w s)) \<Longrightarrow> conserves (write_op w)"
  by (auto intro: conservesI)

end

section \<open>Runs of governed machines\<close>

text \<open>
  The interface that the stateful components share: a step relation labelled by events, an
  invariant that accepted steps keep, and a preorder that says what a step may never undo.
  Runs are inductive; the lemmas of the locale lift both laws from steps to runs.
\<close>

inductive run_of :: "('s \<Rightarrow> 'e \<Rightarrow> 's \<Rightarrow> bool) \<Rightarrow> 's \<Rightarrow> 'e list \<Rightarrow> 's \<Rightarrow> bool"
  for step :: "'s \<Rightarrow> 'e \<Rightarrow> 's \<Rightarrow> bool" where
  stop: "run_of step s [] s"
| more: "step s e t \<Longrightarrow> run_of step t es u \<Longrightarrow> run_of step s (e # es) u"

inductive_simps run_of_Nil [simp]: "run_of step s [] t"
inductive_simps run_of_Cons [simp]: "run_of step s (e # es) t"

lemma run_of_append:
  "run_of step s (es @ es') u \<longleftrightarrow> (\<exists>t. run_of step s es t \<and> run_of step t es' u)"
  by (induction es arbitrary: s) auto

locale governed_machine =
  fixes step :: "'s \<Rightarrow> 'e \<Rightarrow> 's \<Rightarrow> bool"
    and inv :: "'s \<Rightarrow> bool"
    and evolves :: "'s \<Rightarrow> 's \<Rightarrow> bool"
  assumes step_inv: "inv s \<Longrightarrow> step s e t \<Longrightarrow> inv t"
    and step_evolves: "inv s \<Longrightarrow> step s e t \<Longrightarrow> evolves s t"
    and evolves_refl: "evolves s s"
    and evolves_trans: "evolves s t \<Longrightarrow> evolves t u \<Longrightarrow> evolves s u"
begin

lemma run_inv: "run_of step s es t \<Longrightarrow> inv s \<Longrightarrow> inv t"
  by (induction rule: run_of.induct) (auto intro: step_inv)

lemma run_evolves: "run_of step s es t \<Longrightarrow> inv s \<Longrightarrow> evolves s t"
  by (induction rule: run_of.induct)
    (auto intro: evolves_refl evolves_trans step_evolves step_inv)

end

text \<open>A machine with a condition that no step can leave.\<close>

locale absorbing_machine = governed_machine step inv evolves
  for step :: "'s \<Rightarrow> 'e \<Rightarrow> 's \<Rightarrow> bool" and inv :: "'s \<Rightarrow> bool" and evolves :: "'s \<Rightarrow> 's \<Rightarrow> bool" +
  fixes final :: "'s \<Rightarrow> bool"
  assumes step_final: "inv s \<Longrightarrow> step s e t \<Longrightarrow> final s \<Longrightarrow> final t"
begin

lemma run_final: "run_of step s es t \<Longrightarrow> inv s \<Longrightarrow> final s \<Longrightarrow> final t"
  by (induction rule: run_of.induct) (auto intro: step_final step_inv)

end

end
