(* ===== verification/Kernel_Models.thy ===== *)
theory Kernel_Models
  imports Csd_Prelude
begin

section \<open>The kernel's domain model, events and traces\<close>

text \<open>
  \<^verbatim>\<open>kernel/models.py\<close>, \<^verbatim>\<open>kernel/events.py\<close> and
  \<^verbatim>\<open>kernel/trace.py\<close>: the immutable control state, the governed events and
  the public transition trace. Frozen dataclasses are records, string enumerations are
  datatypes with a \<open>_value\<close> function for \<^verbatim>\<open>.value\<close>, a tuple is a
  list and a \<^verbatim>\<open>frozenset\<close> an \<open>fset\<close>; logical times and versions are
  Python integers, hence \<open>int\<close>.
\<close>

subsection \<open>Enumerations\<close>

datatype EvidenceStatus = EvidenceCurrent | EvidenceInvalidated | EvidenceExpired

fun evidence_status_value :: "EvidenceStatus \<Rightarrow> string" where
  "evidence_status_value EvidenceCurrent = ''currentEvidence''"
| "evidence_status_value EvidenceInvalidated = ''invalidated''"
| "evidence_status_value EvidenceExpired = ''expired''"

datatype ObligationStatus = ObligationCurrent | ObligationPlanned | ObligationRetired

datatype SourceState = Connected | WiredInert | SourceUnknown

fun source_state_value :: "SourceState \<Rightarrow> string" where
  "source_state_value Connected = ''connected''"
| "source_state_value WiredInert = ''wiredInert''"
| "source_state_value SourceUnknown = ''sourceUnknown''"

datatype Assurance = AssurancePass | AssurancePartial | AssuranceFail
  | AssuranceUnverified | AssuranceStale | AssuranceNA

fun assurance_value :: "Assurance \<Rightarrow> string" where
  "assurance_value AssurancePass = ''pass''"
| "assurance_value AssurancePartial = ''partial''"
| "assurance_value AssuranceFail = ''fail''"
| "assurance_value AssuranceUnverified = ''unverified''"
| "assurance_value AssuranceStale = ''stale''"
| "assurance_value AssuranceNA = ''assuranceNA''"

datatype BasisKind = SourceBasis | DeploymentBasis | VerdictBasis

datatype RequestStatus = RequestPending | RequestClosed

text \<open>The set \<^verbatim>\<open>{Assurance.PASS, Assurance.PARTIAL, Assurance.FAIL}\<close> of
  substantive verdicts.\<close>

fun substantive :: "Assurance \<Rightarrow> bool" where
  "substantive AssurancePass = True"
| "substantive AssurancePartial = True"
| "substantive AssuranceFail = True"
| "substantive _ = False"

subsection \<open>Records\<close>

record Evidence =
  evidence_id :: string
  dimension :: string
  evidence_status :: EvidenceStatus
  dependencies :: "string fset"
  outcome :: "string option"
  issued_at :: int
  expires_at :: "int option"
  profile_id :: "string option"
  profile_version :: "int option"

definition invalidate :: "Evidence \<Rightarrow> Evidence" where
  "invalidate ev = (if evidence_status ev \<noteq> EvidenceCurrent then ev
                    else ev\<lparr>evidence_status := EvidenceInvalidated\<rparr>)"

definition expire :: "Evidence \<Rightarrow> Evidence" where
  "expire ev = (if evidence_status ev \<noteq> EvidenceCurrent then ev
                else ev\<lparr>evidence_status := EvidenceExpired\<rparr>)"

record Basis =
  basis_id :: string
  basis_kind :: BasisKind
  claim :: string
  member_evidence_ids :: "string fset"
  approved :: bool

record ReassessmentRequest =
  request_id :: string
  reason :: string
  requested_at :: int
  due_at :: int
  request_status :: RequestStatus
  closed_at :: "int option"

definition close :: "ReassessmentRequest \<Rightarrow> int \<Rightarrow> ReassessmentRequest" where
  "close rq at_time = (if request_status rq = RequestClosed then rq
                       else rq\<lparr>request_status := RequestClosed, closed_at := Some at_time\<rparr>)"

record HeartbeatState =
  interval :: int
  last_recorded_at :: int
  heartbeat_due_at :: int

record AuditEvent =
  audit_event_type :: string
  details :: "(string \<times> string) list"

text \<open>\<^verbatim>\<open>AuditEvent.create\<close>: the keyword arguments in the order of the
  sorted items.\<close>

definition create_audit :: "string \<Rightarrow> (string \<times> string) list \<Rightarrow> AuditEvent" where
  "create_audit event_type kwargs = \<lparr>audit_event_type = event_type, details = sort kwargs\<rparr>"

record ControlState =
  control_id :: string
  obligation :: ObligationStatus
  source_state :: SourceState
  assurance :: Assurance
  evidence :: "Evidence list"
  bases :: "Basis list"
  current_source_basis_ids :: "string fset"
  current_verdict_basis_ids :: "string fset"
  history :: "AuditEvent list"
  logical_time :: int
  required_profile_id :: "string option"
  required_profile_version :: "int option"
  reassessment_requests :: "ReassessmentRequest list"
  heartbeat :: "HeartbeatState option"

definition evidence_by_id :: "ControlState \<Rightarrow> (string \<rightharpoonup> Evidence)" where
  "evidence_by_id s = dict_by evidence_id (evidence s)"

definition bases_by_id :: "ControlState \<Rightarrow> (string \<rightharpoonup> Basis)" where
  "bases_by_id s = dict_by basis_id (bases s)"

definition requests_by_id :: "ControlState \<Rightarrow> (string \<rightharpoonup> ReassessmentRequest)" where
  "requests_by_id s = dict_by request_id (reassessment_requests s)"

text \<open>The key sets of the three dictionaries.\<close>

definition evidence_ids :: "ControlState \<Rightarrow> string fset" where
  "evidence_ids s = dict_key_set evidence_id (evidence s)"

definition basis_ids :: "ControlState \<Rightarrow> string fset" where
  "basis_ids s = dict_key_set basis_id (bases s)"

definition request_ids :: "ControlState \<Rightarrow> string fset" where
  "request_ids s = dict_key_set request_id (reassessment_requests s)"

subsection \<open>Events\<close>

record DependencyChange =
  dependency_id :: string
  apparent_direction :: "string option"

record Reassess =
  new_evidence :: "Evidence list"
  new_bases :: "Basis list"
  new_source_state :: "SourceState option"
  new_assurance :: "Assurance option"
  reassess_authority :: string
  close_request_ids :: "string list"

record RetireControl =
  retirement_evidence :: Evidence
  retire_authority :: string

record AdvanceClock =
  target_time :: int

record ProfileChange =
  new_profile_id :: string
  new_profile_version :: int
  profile_authority :: string
  profile_request_id :: "string option"
  profile_request_due_at :: "int option"

record RequestReassessment =
  new_request_id :: string
  request_reason :: string
  request_due_at :: int
  request_authority :: string

record RecordHeartbeat =
  at_time :: int
  heartbeat_interval :: "int option"
  heartbeat_authority :: string

datatype CsdEvent =
    EvDependencyChange DependencyChange
  | EvReassess Reassess
  | EvRetireControl RetireControl
  | EvAdvanceClock AdvanceClock
  | EvProfileChange ProfileChange
  | EvRequestReassessment RequestReassessment
  | EvRecordHeartbeat RecordHeartbeat

subsection \<open>Traces\<close>

record TransitionTrace =
  trace_event_type :: string
  invalidated_evidence :: "string list"
  preserved_evidence :: "string list"
  removed_bases :: "string list"
  surviving_bases :: "string list"
  previous_source_state :: "string option"
  resulting_source_state :: "string option"
  previous_assurance :: "string option"
  resulting_assurance :: "string option"
  forbidden_inferences :: "string list"
  rules_fired :: "string list"
  next_governed_step :: "string option"

text \<open>The exceptions of the kernel.\<close>

datatype kernel_error =
    TransitionError string
  | TemporalTransitionError string
  | TypeError string
  | OracleRejected string

subsection \<open>Lemmas\<close>

lemma invalidate_frame [simp]:
  "evidence_id (invalidate ev) = evidence_id ev" "dimension (invalidate ev) = dimension ev"
  "dependencies (invalidate ev) = dependencies ev" "outcome (invalidate ev) = outcome ev"
  "issued_at (invalidate ev) = issued_at ev" "expires_at (invalidate ev) = expires_at ev"
  "profile_id (invalidate ev) = profile_id ev"
  "profile_version (invalidate ev) = profile_version ev"
  by (simp_all add: invalidate_def)

lemma expire_frame [simp]:
  "evidence_id (expire ev) = evidence_id ev" "dimension (expire ev) = dimension ev"
  "dependencies (expire ev) = dependencies ev" "outcome (expire ev) = outcome ev"
  "issued_at (expire ev) = issued_at ev" "expires_at (expire ev) = expires_at ev"
  "profile_id (expire ev) = profile_id ev"
  "profile_version (expire ev) = profile_version ev"
  by (simp_all add: expire_def)

lemma close_frame [simp]:
  "request_id (close rq t) = request_id rq" "reason (close rq t) = reason rq"
  "requested_at (close rq t) = requested_at rq" "due_at (close rq t) = due_at rq"
  "request_status (close rq t) = RequestClosed"
  by (simp_all add: close_def)

lemma close_closed [simp]: "request_status rq = RequestClosed \<Longrightarrow> close rq t = rq"
  by (simp add: close_def)

lemma source_state_value_inject [simp]:
  "source_state_value a = source_state_value b \<longleftrightarrow> a = b"
  by (cases a; cases b) auto

lemma assurance_value_inject [simp]: "assurance_value a = assurance_value b \<longleftrightarrow> a = b"
  by (cases a; cases b) auto

lemma fset_ids [simp]:
  "fset (evidence_ids s) = evidence_id ` set (evidence s)"
  "fset (basis_ids s) = basis_id ` set (bases s)"
  "fset (request_ids s) = request_id ` set (reassessment_requests s)"
  by (simp_all add: evidence_ids_def basis_ids_def request_ids_def)

lemma by_id_None [dict_simps]:
  "evidence_by_id s k = None \<longleftrightarrow> k \<notin> evidence_id ` set (evidence s)"
  "bases_by_id s k = None \<longleftrightarrow> k \<notin> basis_id ` set (bases s)"
  "requests_by_id s k = None \<longleftrightarrow> k \<notin> request_id ` set (reassessment_requests s)"
  by (simp_all add: evidence_by_id_def bases_by_id_def requests_by_id_def dict_by_None_iff)

end
