(* ===== verification/Kernel_Temporal.thy ===== *)
theory Kernel_Temporal
  imports Kernel_Models
begin

section \<open>Logical-time and governance transitions\<close>

text \<open>
  \<^verbatim>\<open>kernel/temporal.py\<close>: advancing the clock, changing the required profile,
  requesting a reassessment, recording a heartbeat, and closing requests. A raised
  \<^verbatim>\<open>TemporalTransitionError\<close> is \<open>Inl\<close>; a transition returns the new
  state and its trace.
\<close>

fun is_temporal_event :: "CsdEvent \<Rightarrow> bool" where
  "is_temporal_event (EvAdvanceClock _) = True"
| "is_temporal_event (EvProfileChange _) = True"
| "is_temporal_event (EvRequestReassessment _) = True"
| "is_temporal_event (EvRecordHeartbeat _) = True"
| "is_temporal_event _ = False"

subsection \<open>Basis survival\<close>

definition evidence_matches_required_profile :: "ControlState \<Rightarrow> string \<Rightarrow> bool" where
  "evidence_matches_required_profile s eid =
     (case evidence_by_id s eid of
        None \<Rightarrow> False
      | Some item \<Rightarrow>
          if required_profile_id s = None \<or> profile_id item = None then True
          else profile_id item = required_profile_id s \<and>
               profile_version item = required_profile_version s)"

definition temporal_basis_is_current :: "ControlState \<Rightarrow> string \<Rightarrow> bool" where
  "temporal_basis_is_current s bid =
     (case bases_by_id s bid of
        None \<Rightarrow> False
      | Some b \<Rightarrow>
          if \<not> approved b \<or> member_evidence_ids b = {||} then False
          else \<forall>m\<in>fset (member_evidence_ids b).
            (case evidence_by_id s m of
               None \<Rightarrow> False
             | Some ev \<Rightarrow> evidence_status ev = EvidenceCurrent \<and>
                           evidence_matches_required_profile s m))"

definition temporal_surviving_bases :: "ControlState \<Rightarrow> string fset \<times> string fset" where
  "temporal_surviving_bases s =
     (ffilter (temporal_basis_is_current s) (current_source_basis_ids s),
      ffilter (temporal_basis_is_current s) (current_verdict_basis_ids s))"

definition canonical_claims ::
  "ControlState \<Rightarrow> ControlState \<Rightarrow> bool \<Rightarrow>
   SourceState \<times> Assurance \<times> string fset \<times> string fset" where
  "canonical_claims before interim force_stale =
    (let (source_bases, verdict_bases) = temporal_surviving_bases interim;
         source = (if source_state before \<noteq> SourceUnknown \<and> source_bases = {||}
                   then SourceUnknown else source_state before)
     in if obligation before \<noteq> ObligationCurrent
        then (source, AssuranceNA, source_bases, {||})
        else if force_stale \<and> substantive (assurance before)
        then (source, AssuranceStale, source_bases, {||})
        else if substantive (assurance before) \<and> verdict_bases = {||}
        then (source, AssuranceStale, source_bases, verdict_bases)
        else (source, assurance before, source_bases, verdict_bases))"

subsection \<open>Reassessment requests\<close>

definition request_from_event ::
  "RequestReassessment \<Rightarrow> int \<Rightarrow> kernel_error + ReassessmentRequest" where
  "request_from_event event now =
    (if request_authority event \<noteq> ''I3''
     then Inl (TemporalTransitionError ''reassessment request requires I3 authority'')
     else if new_request_id event = ''''
     then Inl (TemporalTransitionError ''reassessment request requires an identity'')
     else if request_due_at event < now
     then Inl (TemporalTransitionError
       ''reassessment request due time cannot precede logical time'')
     else Inr \<lparr>request_id = new_request_id event, reason = request_reason event,
       requested_at = now, due_at = request_due_at event, request_status = RequestPending,
       closed_at = None\<rparr>)"

definition close_reassessment_requests ::
  "ControlState \<Rightarrow> string list \<Rightarrow> kernel_error + ReassessmentRequest list" where
  "close_reassessment_requests s ids =
    (let requested = fset_of_list ids;
         missing = requested |-| request_ids s;
         already_closed = ffilter (\<lambda>rid. case requests_by_id s rid of
             None \<Rightarrow> False | Some rq \<Rightarrow> request_status rq = RequestClosed) requested
     in if \<not> distinct ids
        then Inl (TemporalTransitionError ''reassessment request closures must be unique'')
        else if missing \<noteq> {||}
        then Inl (TemporalTransitionError
          (''unknown reassessment requests: '' @ repr_str_list (sorted_fset missing)))
        else if already_closed \<noteq> {||}
        then Inl (TemporalTransitionError
          (''reassessment requests are already closed: '' @
           repr_str_list (sorted_fset already_closed)))
        else Inr (map (\<lambda>rq. if request_id rq |\<in>| requested then close rq (logical_time s) else rq)
          (reassessment_requests s)))"

subsection \<open>Advancing the clock\<close>

definition evidence_due :: "int \<Rightarrow> Evidence \<Rightarrow> bool" where
  "evidence_due t ev = (case expires_at ev of None \<Rightarrow> False | Some e \<Rightarrow> e \<le> t)"

definition expire_due :: "int \<Rightarrow> Evidence \<Rightarrow> Evidence" where
  "expire_due t ev =
     (if evidence_status ev = EvidenceCurrent \<and> evidence_due t ev then expire ev else ev)"

definition heartbeat_due :: "int \<Rightarrow> HeartbeatState option \<Rightarrow> bool" where
  "heartbeat_due t hb = (case hb of None \<Rightarrow> False | Some h \<Rightarrow> heartbeat_due_at h \<le> t)"

definition expired_ids :: "int \<Rightarrow> Evidence list \<Rightarrow> string fset" where
  "expired_ids t evs = fset_of_list (map evidence_id
     (filter (\<lambda>ev. evidence_status ev = EvidenceCurrent \<and> evidence_due t ev) evs))"

definition current_evidence_ids :: "Evidence list \<Rightarrow> string list" where
  "current_evidence_ids evs =
     sort (map evidence_id (filter (\<lambda>ev. evidence_status ev = EvidenceCurrent) evs))"

definition advance_clock_audit :: "ControlState \<Rightarrow> AdvanceClock \<Rightarrow> AuditEvent" where
  "advance_clock_audit s event = create_audit ''AdvanceClock''
     [(''from_time'', py_str (logical_time s)),
      (''target_time'', py_str (target_time event)),
      (''expired_evidence'',
        join '','' (sorted_fset (expired_ids (target_time event) (evidence s)))),
      (''heartbeat_missed'', py_bool_lower (heartbeat_due (target_time event) (heartbeat s)))]"

definition apply_advance_clock ::
  "ControlState \<Rightarrow> AdvanceClock \<Rightarrow> kernel_error + ControlState \<times> TransitionTrace" where
  "apply_advance_clock s event =
    (if target_time event < logical_time s
     then Inl (TemporalTransitionError ''logical time cannot move backward'')
     else
       (let expired = expired_ids (target_time event) (evidence s);
            heartbeat_missed = heartbeat_due (target_time event) (heartbeat s);
            interim = s\<lparr>evidence := map (expire_due (target_time event)) (evidence s),
                        logical_time := target_time event\<rparr>;
            (source, assur, source_bases, verdict_bases) =
              canonical_claims s interim heartbeat_missed;
            removed = (current_source_basis_ids s |\<union>| current_verdict_basis_ids s)
              |-| source_bases |-| verdict_bases;
            post = interim\<lparr>source_state := source, assurance := assur,
              current_source_basis_ids := source_bases,
              current_verdict_basis_ids := verdict_bases,
              history := history s @ [advance_clock_audit s event]\<rparr>
        in Inr (post, \<lparr>trace_event_type = ''AdvanceClock'',
          invalidated_evidence = sorted_fset expired,
          preserved_evidence = current_evidence_ids (evidence post),
          removed_bases = sorted_fset removed,
          surviving_bases = sorted_fset (source_bases |\<union>| verdict_bases),
          previous_source_state = Some (source_state_value (source_state s)),
          resulting_source_state = Some (source_state_value (source_state post)),
          previous_assurance = Some (assurance_value (assurance s)),
          resulting_assurance = Some (assurance_value (assurance post)),
          forbidden_inferences = [''heartbeat or expiry based substantive promotion''],
          rules_fired = [''T-INV-01'', ''T-INV-02'', ''T-INV-03'', ''T-INV-06''],
          next_governed_step = Some (if expired \<noteq> {||} \<or> heartbeat_missed
            then ''complete governed reassessment'' else ''none required'')\<rparr>)))"

subsection \<open>Changing the required profile\<close>

definition profile_incompatible_ids ::
  "string \<Rightarrow> int \<Rightarrow> Evidence list \<Rightarrow> string fset" where
  "profile_incompatible_ids pid ver evs = fset_of_list (map evidence_id
     (filter (\<lambda>ev. evidence_status ev = EvidenceCurrent \<and> profile_id ev \<noteq> None \<and>
        (profile_id ev \<noteq> Some pid \<or> profile_version ev \<noteq> Some ver)) evs))"

text \<open>\<^verbatim>\<open>event.request_id or "none"\<close>: an empty string is falsy.\<close>

definition str_or :: "string option \<Rightarrow> string \<Rightarrow> string" where
  "str_or x d = (case x of None \<Rightarrow> d | Some v \<Rightarrow> if v = '''' then d else v)"

definition profile_change_requests ::
  "ControlState \<Rightarrow> ProfileChange \<Rightarrow> kernel_error + ReassessmentRequest list" where
  "profile_change_requests s event =
    (case (profile_request_id event, profile_request_due_at event) of
       (Some rid, Some due) \<Rightarrow>
         if rid |\<in>| request_ids s
         then Inl (TemporalTransitionError ''profile change request identity already exists'')
         else (case request_from_event \<lparr>new_request_id = rid,
                  request_reason = ''required profile changed'', request_due_at = due,
                  request_authority = profile_authority event\<rparr> (logical_time s) of
                 Inl e \<Rightarrow> Inl e
               | Inr rq \<Rightarrow> Inr (reassessment_requests s @ [rq]))
     | _ \<Rightarrow> Inr (reassessment_requests s))"

definition profile_change_audit :: "ControlState \<Rightarrow> ProfileChange \<Rightarrow> AuditEvent" where
  "profile_change_audit s event = create_audit ''ProfileChange''
     [(''authority'', profile_authority event),
      (''profile_id'', new_profile_id event),
      (''profile_version'', py_str (new_profile_version event)),
      (''profile_incompatible_evidence'', join '','' (sorted_fset
        (profile_incompatible_ids (new_profile_id event) (new_profile_version event)
          (evidence s)))),
      (''request_id'', str_or (profile_request_id event) ''none'')]"

definition apply_profile_change ::
  "ControlState \<Rightarrow> ProfileChange \<Rightarrow> kernel_error + ControlState \<times> TransitionTrace" where
  "apply_profile_change s event =
    (if profile_authority event \<noteq> ''I3''
     then Inl (TemporalTransitionError ''profile change requires I3 authority'')
     else if new_profile_id event = '''' \<or> new_profile_version event \<le> 0
     then Inl (TemporalTransitionError ''profile identity and positive version are required'')
     else if required_profile_id s = Some (new_profile_id event) \<and>
       (case required_profile_version s of None \<Rightarrow> False
        | Some v \<Rightarrow> new_profile_version event \<le> v)
     then Inl (TemporalTransitionError ''profile version must advance monotonically'')
     else if (profile_request_id event = None) \<noteq> (profile_request_due_at event = None)
     then Inl (TemporalTransitionError
       ''profile request identity and due time must be supplied together'')
     else
       (case profile_change_requests s event of
          Inl e \<Rightarrow> Inl e
        | Inr requests \<Rightarrow>
          (let interim = s\<lparr>required_profile_id := Some (new_profile_id event),
                 required_profile_version := Some (new_profile_version event),
                 reassessment_requests := requests\<rparr>;
               (source, assur, source_bases, verdict_bases) = canonical_claims s interim False;
               removed = (current_source_basis_ids s |\<union>| current_verdict_basis_ids s)
                 |-| source_bases |-| verdict_bases;
               post = interim\<lparr>source_state := source, assurance := assur,
                 current_source_basis_ids := source_bases,
                 current_verdict_basis_ids := verdict_bases,
                 history := history s @ [profile_change_audit s event]\<rparr>
           in Inr (post, \<lparr>trace_event_type = ''ProfileChange'',
             invalidated_evidence = [],
             preserved_evidence = current_evidence_ids (evidence post),
             removed_bases = sorted_fset removed,
             surviving_bases = sorted_fset (source_bases |\<union>| verdict_bases),
             previous_source_state = Some (source_state_value (source_state s)),
             resulting_source_state = Some (source_state_value (source_state post)),
             previous_assurance = Some (assurance_value (assurance s)),
             resulting_assurance = Some (assurance_value (assurance post)),
             forbidden_inferences = [''profile-change based substantive promotion''],
             rules_fired = [''P-INV-01'', ''P-INV-02'', ''P-INV-03''],
             next_governed_step = Some (if profile_request_id event \<noteq> None
               then ''complete the profile-change reassessment request''
               else ''issue a governed reassessment request if current support was removed'')\<rparr>))))"

subsection \<open>Requesting a reassessment\<close>

definition request_reassessment_audit :: "RequestReassessment \<Rightarrow> AuditEvent" where
  "request_reassessment_audit event = create_audit ''RequestReassessment''
     [(''authority'', request_authority event), (''request_id'', new_request_id event),
      (''due_at'', py_str (request_due_at event)), (''reason'', request_reason event)]"

definition unchanged_claims_trace ::
  "string \<Rightarrow> ControlState \<Rightarrow> ControlState \<Rightarrow> string \<Rightarrow> string list \<Rightarrow> string \<Rightarrow> TransitionTrace" where
  "unchanged_claims_trace ty s post forbidden rules nxt =
     \<lparr>trace_event_type = ty, invalidated_evidence = [],
      preserved_evidence = sort (map evidence_id (evidence s)),
      removed_bases = [],
      surviving_bases =
        sorted_fset (current_source_basis_ids s |\<union>| current_verdict_basis_ids s),
      previous_source_state = Some (source_state_value (source_state s)),
      resulting_source_state = Some (source_state_value (source_state post)),
      previous_assurance = Some (assurance_value (assurance s)),
      resulting_assurance = Some (assurance_value (assurance post)),
      forbidden_inferences = [forbidden], rules_fired = rules,
      next_governed_step = Some nxt\<rparr>"

definition apply_request_reassessment ::
  "ControlState \<Rightarrow> RequestReassessment \<Rightarrow> kernel_error + ControlState \<times> TransitionTrace" where
  "apply_request_reassessment s event =
    (if new_request_id event |\<in>| request_ids s
     then Inl (TemporalTransitionError ''reassessment request identity already exists'')
     else
       (case request_from_event event (logical_time s) of
          Inl e \<Rightarrow> Inl e
        | Inr rq \<Rightarrow>
          (let post = s\<lparr>reassessment_requests := reassessment_requests s @ [rq],
                        history := history s @ [request_reassessment_audit event]\<rparr>
           in Inr (post, unchanged_claims_trace ''RequestReassessment'' s post
                ''request-based source state or verdict change''
                [''R-INV-01'', ''R-INV-02'']
                ''complete reassessment before the governed due time''))))"

subsection \<open>Recording a heartbeat\<close>

definition effective_interval :: "ControlState \<Rightarrow> RecordHeartbeat \<Rightarrow> int option" where
  "effective_interval s event =
     (case heartbeat_interval event of
        Some i \<Rightarrow> Some i
      | None \<Rightarrow> (case heartbeat s of None \<Rightarrow> None | Some h \<Rightarrow> Some (interval h)))"

definition record_heartbeat_audit :: "RecordHeartbeat \<Rightarrow> int \<Rightarrow> int \<Rightarrow> AuditEvent" where
  "record_heartbeat_audit event iv due = create_audit ''RecordHeartbeat''
     [(''authority'', heartbeat_authority event), (''at_time'', py_str (at_time event)),
      (''interval'', py_str iv), (''due_at'', py_str due)]"

definition apply_record_heartbeat ::
  "ControlState \<Rightarrow> RecordHeartbeat \<Rightarrow> kernel_error + ControlState \<times> TransitionTrace" where
  "apply_record_heartbeat s event =
    (if heartbeat_authority event \<noteq> ''I3''
     then Inl (TemporalTransitionError ''heartbeat recording requires I3 authority'')
     else if at_time event \<noteq> logical_time s
     then Inl (TemporalTransitionError
       ''heartbeat must be recorded at the current logical time'')
     else
       (case effective_interval s event of
          None \<Rightarrow> Inl (TemporalTransitionError ''heartbeat requires a positive interval'')
        | Some iv \<Rightarrow>
          if iv \<le> 0
          then Inl (TemporalTransitionError ''heartbeat requires a positive interval'')
          else
            (let hb = \<lparr>interval = iv, last_recorded_at = at_time event,
                       heartbeat_due_at = at_time event + iv\<rparr>;
                 post = s\<lparr>heartbeat := Some hb,
                   history := history s @
                     [record_heartbeat_audit event iv (heartbeat_due_at hb)]\<rparr>
             in Inr (post, unchanged_claims_trace ''RecordHeartbeat'' s post
                  ''heartbeat-based substantive promotion'' [''H-INV-01'', ''H-INV-02'']
                  (''record the next heartbeat by logical time '' @
                   py_str (heartbeat_due_at hb))))))"

end
