(* ===== verification/Kernel_Invariants.thy ===== *)
theory Kernel_Invariants
  imports Kernel_Models
begin

section \<open>The independent core verifier\<close>

text \<open>
  \<^verbatim>\<open>kernel/invariant_registry.py\<close> and \<^verbatim>\<open>kernel/invariants.py\<close>:
  the registered invariant identifiers, the violations and the three checks of a state, of
  a transition and of a transition against its event. Each loop that appends violations is a
  concatenation over the same collection; \<open>viol c i m\<close> is the violation that
  \<^verbatim>\<open>if c: violations.append(Violation(i, m))\<close> appends. The second part states
  what an empty list of violations means (\<open>state_ok\<close>, \<open>transition_ok\<close>),
  without dictionaries or loops.
\<close>

named_theorems verifier_simps "when a verifier layer reports nothing"

subsection \<open>Registry and violations\<close>

definition CORE_INVARIANT_IDS :: "string list" where
  "CORE_INVARIANT_IDS = [''G-INV-06'', ''G-INV-10'', ''G-INV-11'', ''G-INV-13'', ''INV-04'',
     ''INV-05'', ''INV-07'', ''INV-11'', ''INV-13'', ''INV-14'', ''INV-15'', ''INV-16'',
     ''INV-18'', ''INV-19'']"

definition TEMPORAL_INVARIANT_IDS :: "string list" where
  "TEMPORAL_INVARIANT_IDS = [''T-INV-01'', ''T-INV-02'', ''T-INV-03'', ''T-INV-04'',
     ''T-INV-06'', ''P-INV-01'', ''P-INV-02'', ''P-INV-03'', ''P-INV-04'', ''R-INV-01'',
     ''R-INV-02'', ''R-INV-03'', ''R-INV-04'', ''H-INV-01'', ''H-INV-02'', ''H-INV-03'']"

definition EXECUTABLE_INVARIANT_IDS :: "string list" where
  "EXECUTABLE_INVARIANT_IDS = CORE_INVARIANT_IDS @ TEMPORAL_INVARIANT_IDS"

record Violation =
  invariant_id :: string
  message :: string

text \<open>The check of \<^verbatim>\<open>Violation.__post_init__\<close>.\<close>

definition violation_registered :: "Violation \<Rightarrow> bool" where
  "violation_registered v \<longleftrightarrow> invariant_id v \<in> set EXECUTABLE_INVARIANT_IDS"

definition viol :: "bool \<Rightarrow> string \<Rightarrow> string \<Rightarrow> Violation list" where
  "viol c i m = (if c then [\<lparr>invariant_id = i, message = m\<rparr>] else [])"

lemma viol_Nil [simp]: "viol c i m = [] \<longleftrightarrow> \<not> c"
  by (simp add: viol_def)

subsection \<open>A single state\<close>

definition basis_is_supported :: "Basis \<Rightarrow> (string \<rightharpoonup> Evidence) \<Rightarrow> bool" where
  "basis_is_supported b evmap \<longleftrightarrow>
     member_evidence_ids b \<noteq> {||} \<and> approved b \<and>
     (\<forall>m\<in>fset (member_evidence_ids b).
        case evmap m of None \<Rightarrow> False | Some ev \<Rightarrow> evidence_status ev = EvidenceCurrent)"

text \<open>The loop body over the sorted current basis identifiers.\<close>

definition current_basis_violations :: "ControlState \<Rightarrow> string \<Rightarrow> Violation list" where
  "current_basis_violations s bid =
     (case bases_by_id s bid of
        None \<Rightarrow> viol True ''INV-07'' (''missing current basis '' @ bid)
      | Some b \<Rightarrow>
          viol (\<not> approved b) ''INV-07'' (''unapproved current basis '' @ bid) @
          viol (member_evidence_ids b = {||}) ''INV-07''
            (''current basis '' @ bid @ '' has no evidence'') @
          concat (map (\<lambda>m.
            (case evidence_by_id s m of
               None \<Rightarrow> viol True ''INV-07''
                 (''basis '' @ bid @ '' references missing evidence '' @ m)
             | Some item \<Rightarrow> viol (evidence_status item \<noteq> EvidenceCurrent) ''INV-13''
                 (''basis '' @ bid @ '' references non-current evidence '' @ m)))
            (sorted_fset (member_evidence_ids b))))"

definition source_basis_violations :: "ControlState \<Rightarrow> string \<Rightarrow> Violation list" where
  "source_basis_violations s bid =
     (case bases_by_id s bid of
        None \<Rightarrow> []
      | Some b \<Rightarrow>
          if basis_kind b \<noteq> SourceBasis
          then viol True ''INV-05'' (bid @ '' is not a source basis'')
          else viol (claim b \<noteq> source_state_value (source_state s)) ''INV-05''
            (''source basis '' @ bid @ '' claims '' @ claim b @ '', not '' @
             source_state_value (source_state s)))"

definition verdict_basis_violations :: "ControlState \<Rightarrow> string \<Rightarrow> Violation list" where
  "verdict_basis_violations s bid =
     (case bases_by_id s bid of
        None \<Rightarrow> []
      | Some b \<Rightarrow>
          if basis_kind b \<noteq> VerdictBasis
          then viol True ''INV-07'' (bid @ '' is not a verdict basis'')
          else viol (claim b \<noteq> assurance_value (assurance s)) ''INV-07''
            (''verdict basis '' @ bid @ '' claims '' @ claim b @ '', not '' @
             assurance_value (assurance s)))"

definition validate_state :: "ControlState \<Rightarrow> Violation list" where
  "validate_state s =
     viol (length (dict_keys evidence_id (evidence s)) \<noteq> length (evidence s))
       ''G-INV-06'' ''duplicate evidence identity'' @
     viol (length (dict_keys basis_id (bases s)) \<noteq> length (bases s))
       ''G-INV-11'' ''duplicate basis identity'' @
     concat (map (current_basis_violations s)
       (sorted_fset (current_source_basis_ids s |\<union>| current_verdict_basis_ids s))) @
     concat (map (source_basis_violations s) (sorted_fset (current_source_basis_ids s))) @
     concat (map (verdict_basis_violations s) (sorted_fset (current_verdict_basis_ids s))) @
     viol (source_state s \<noteq> SourceUnknown \<and> current_source_basis_ids s = {||})
       ''INV-05'' ''substantive source state has no current basis'' @
     viol (obligation s = ObligationCurrent \<and> substantive (assurance s) \<and>
           current_verdict_basis_ids s = {||})
       ''INV-07'' ''substantive verdict has no current basis'' @
     viol (obligation s \<noteq> ObligationCurrent \<and> assurance s \<noteq> AssuranceNA)
       ''INV-04'' ''non-current obligation must have assuranceNA''"

subsection \<open>A transition, independently of its event\<close>

definition evidence_transition_violations ::
  "ControlState \<Rightarrow> string \<Rightarrow> Evidence \<Rightarrow> Violation list" where
  "evidence_transition_violations after eid old =
     (case evidence_by_id after eid of
        None \<Rightarrow> viol True ''INV-19'' (''evidence '' @ eid @ '' was deleted'')
      | Some new \<Rightarrow>
          viol (evidence_status old \<noteq> EvidenceCurrent \<and> evidence_status new = EvidenceCurrent)
            ''INV-18'' (''evidence '' @ eid @ '' was reactivated'') @
          viol (evidence_id old \<noteq> evidence_id new \<or> dimension old \<noteq> dimension new \<or>
                dependencies old \<noteq> dependencies new \<or> outcome old \<noteq> outcome new)
            ''G-INV-06'' (''evidence '' @ eid @ '' was rewritten''))"

definition basis_transition_violations ::
  "ControlState \<Rightarrow> string \<Rightarrow> Basis \<Rightarrow> Violation list" where
  "basis_transition_violations after bid old =
     (case bases_by_id after bid of
        None \<Rightarrow> viol True ''INV-19'' (''basis '' @ bid @ '' was deleted'')
      | Some new \<Rightarrow> viol (old \<noteq> new) ''G-INV-11'' (''basis '' @ bid @ '' was rewritten''))"

definition validate_transition :: "ControlState \<Rightarrow> ControlState \<Rightarrow> Violation list" where
  "validate_transition before after =
     validate_state after @
     viol (take (length (history before)) (history after) \<noteq> history before)
       ''INV-19'' ''history is not append-only'' @
     concat (map (\<lambda>(eid, old). evidence_transition_violations after eid old)
       (dict_items evidence_id (evidence before))) @
     concat (map (\<lambda>(bid, old). basis_transition_violations after bid old)
       (dict_items basis_id (bases before)))"

subsection \<open>A transition against its event\<close>

definition surviving_ids ::
  "(Basis \<Rightarrow> bool) \<Rightarrow> (string \<rightharpoonup> Basis) \<Rightarrow> string fset \<Rightarrow> string fset" where
  "surviving_ids keep bmap ids =
     ffilter (\<lambda>bid. case bmap bid of None \<Rightarrow> False | Some b \<Rightarrow> keep b) ids"

definition validate_dependency_change ::
  "ControlState \<Rightarrow> DependencyChange \<Rightarrow> ControlState \<Rightarrow> Violation list" where
  "validate_dependency_change before event after =
    (let expected_source = surviving_ids (\<lambda>b. basis_is_supported b (evidence_by_id after))
           (bases_by_id after) (current_source_basis_ids before);
         expected_verdict = surviving_ids (\<lambda>b. basis_is_supported b (evidence_by_id after))
           (bases_by_id after) (current_verdict_basis_ids before);
         expected_source_state =
           (if source_state before \<noteq> SourceUnknown \<and> expected_source = {||}
            then SourceUnknown else source_state before);
         expected_assurance =
           (if obligation before \<noteq> ObligationCurrent then AssuranceNA
            else if substantive (assurance before) \<and> expected_verdict = {||}
            then AssuranceStale else assurance before)
     in
     viol (evidence_ids after \<noteq> evidence_ids before)
       ''INV-11'' ''dependency change altered evidence identities'' @
     viol (basis_ids after \<noteq> basis_ids before)
       ''INV-13'' ''dependency change altered basis identities'' @
     concat (map (\<lambda>(eid, old).
       (case evidence_by_id after eid of
          None \<Rightarrow> []
        | Some new \<Rightarrow>
            (let affected = (evidence_status old = EvidenceCurrent \<and>
                             dependency_id event |\<in>| dependencies old);
                 expected_status = (if affected then EvidenceInvalidated else evidence_status old)
             in viol (evidence_status new \<noteq> expected_status)
                  (if affected then ''INV-11'' else ''INV-14'')
                  (''evidence '' @ eid @ '' has '' @ evidence_status_value (evidence_status new) @
                   ''; expected '' @ evidence_status_value expected_status))))
       (dict_items evidence_id (evidence before))) @
     viol (current_source_basis_ids after \<noteq> expected_source)
       ''INV-13'' ''source-basis survival does not match impact'' @
     viol (current_verdict_basis_ids after \<noteq> expected_verdict)
       ''INV-16'' ''verdict-basis survival does not match impact'' @
     viol (source_state after \<noteq> expected_source_state)
       ''INV-15'' ''source-state result does not match basis survival'' @
     viol (assurance after \<noteq> expected_assurance)
       ''INV-15'' ''assurance result does not match basis survival'')"

text \<open>\<^verbatim>\<open>event.x or before.x\<close> for an optional enumeration member, which is
  never falsy.\<close>

definition or_else :: "'a option \<Rightarrow> 'a \<Rightarrow> 'a" where
  "or_else x d = (case x of None \<Rightarrow> d | Some y \<Rightarrow> y)"

definition validate_reassess ::
  "ControlState \<Rightarrow> Reassess \<Rightarrow> ControlState \<Rightarrow> Violation list" where
  "validate_reassess before event after =
    (let expected_new_evidence_ids = dict_key_set evidence_id (new_evidence event);
         expected_new_basis_ids = dict_key_set basis_id (new_bases event);
         resulting_source = or_else (new_source_state event) (source_state before);
         resulting_assurance = or_else (new_assurance event) (assurance before);
         expected_source = surviving_ids (\<lambda>b. basis_kind b = SourceBasis \<and>
             claim b = source_state_value resulting_source \<and>
             basis_is_supported b (evidence_by_id after))
           (bases_by_id after) (current_source_basis_ids before |\<union>| expected_new_basis_ids);
         expected_verdict = surviving_ids (\<lambda>b. basis_kind b = VerdictBasis \<and>
             claim b = assurance_value resulting_assurance \<and>
             basis_is_supported b (evidence_by_id after))
           (bases_by_id after) (current_verdict_basis_ids before |\<union>| expected_new_basis_ids)
     in
     viol (evidence_ids after |-| evidence_ids before \<noteq> expected_new_evidence_ids)
       ''INV-18'' ''reassessment evidence identities do not match the event'' @
     concat (map (\<lambda>(eid, expected).
       (case evidence_by_id after eid of
          None \<Rightarrow> []
        | Some actual \<Rightarrow> viol (actual \<noteq> expected) ''G-INV-06''
            (''reassessment evidence '' @ eid @ '' differs from the event'')))
       (dict_items evidence_id (new_evidence event))) @
     viol (basis_ids after |-| basis_ids before \<noteq> expected_new_basis_ids)
       ''G-INV-11'' ''reassessment basis identities do not match the event'' @
     concat (map (\<lambda>(bid, expected).
       (case bases_by_id after bid of
          None \<Rightarrow> []
        | Some actual \<Rightarrow> viol (actual \<noteq> expected) ''G-INV-11''
            (''reassessment basis '' @ bid @ '' differs from the event'')))
       (dict_items basis_id (new_bases event))) @
     viol (source_state after \<noteq> resulting_source)
       ''G-INV-10'' ''reassessment source state does not match the event'' @
     viol (assurance after \<noteq> resulting_assurance)
       ''G-INV-10'' ''reassessment assurance does not match the event'' @
     viol (current_source_basis_ids after \<noteq> expected_source)
       ''G-INV-10'' ''reassessment source references are not canonical'' @
     viol (current_verdict_basis_ids after \<noteq> expected_verdict)
       ''G-INV-10'' ''reassessment verdict references are not canonical'')"

definition validate_retirement ::
  "ControlState \<Rightarrow> RetireControl \<Rightarrow> ControlState \<Rightarrow> Violation list" where
  "validate_retirement before event after =
    (let expected_id = evidence_id (retirement_evidence event) in
     viol (evidence_ids after |-| evidence_ids before \<noteq> {|expected_id|})
       ''G-INV-13'' ''retirement evidence identity does not match the event'' @
     (case evidence_by_id after expected_id of
        None \<Rightarrow> []
      | Some actual \<Rightarrow> viol (actual \<noteq> retirement_evidence event)
          ''G-INV-06'' ''retirement evidence content does not match the event'') @
     viol (basis_ids after \<noteq> basis_ids before)
       ''G-INV-13'' ''retirement altered basis identities'' @
     viol (obligation after \<noteq> ObligationRetired)
       ''INV-04'' ''retirement did not retire the obligation'' @
     viol (assurance after \<noteq> AssuranceNA)
       ''INV-04'' ''retirement did not set assuranceNA'' @
     viol (source_state after \<noteq> SourceUnknown)
       ''INV-05'' ''retirement retained a substantive source state'' @
     viol (current_source_basis_ids after \<noteq> {||} \<or> current_verdict_basis_ids after \<noteq> {||})
       ''G-INV-13'' ''retirement retained current basis references'')"

text \<open>\<^verbatim>\<open>type(event).__name__\<close>.\<close>

fun event_type_name :: "CsdEvent \<Rightarrow> string" where
  "event_type_name (EvDependencyChange _) = ''DependencyChange''"
| "event_type_name (EvReassess _) = ''Reassess''"
| "event_type_name (EvRetireControl _) = ''RetireControl''"
| "event_type_name (EvAdvanceClock _) = ''AdvanceClock''"
| "event_type_name (EvProfileChange _) = ''ProfileChange''"
| "event_type_name (EvRequestReassessment _) = ''RequestReassessment''"
| "event_type_name (EvRecordHeartbeat _) = ''RecordHeartbeat''"

fun validate_event_transition ::
  "ControlState \<Rightarrow> CsdEvent \<Rightarrow> ControlState \<Rightarrow> kernel_error + Violation list" where
  "validate_event_transition before (EvDependencyChange event) after =
     Inr (validate_dependency_change before event after)"
| "validate_event_transition before (EvReassess event) after =
     Inr (validate_reassess before event after)"
| "validate_event_transition before (EvRetireControl event) after =
     Inr (validate_retirement before event after)"
| "validate_event_transition before event after =
     Inl (TypeError (''unsupported event type: '' @ event_type_name event))"

end
