(* ===== verification/Kernel_Transitions.thy ===== *)
theory Kernel_Transitions
  imports Kernel_Temporal Kernel_Invariants
begin

section \<open>Deterministic transitions of the kernel\<close>

text \<open>
  \<^verbatim>\<open>kernel/transitions.py\<close>: dependency change, reassessment and retirement,
  and the dispatch over all seven events. The checks of \<open>apply_reassess\<close> are kept in
  the order in which the code raises.
\<close>

subsection \<open>Dependency change\<close>

definition basis_is_current :: "ControlState \<Rightarrow> string \<Rightarrow> bool" where
  "basis_is_current s bid =
     (case bases_by_id s bid of
        None \<Rightarrow> False
      | Some b \<Rightarrow>
          if \<not> approved b \<or> member_evidence_ids b = {||} then False
          else \<forall>m\<in>fset (member_evidence_ids b).
            (case evidence_by_id s m of
               None \<Rightarrow> False
             | Some ev \<Rightarrow> evidence_status ev = EvidenceCurrent))"

definition basis_matches_claim :: "Basis \<Rightarrow> BasisKind \<Rightarrow> string \<Rightarrow> bool" where
  "basis_matches_claim b k c \<longleftrightarrow> basis_kind b = k \<and> claim b = c"

definition affected_by :: "string \<Rightarrow> Evidence \<Rightarrow> bool" where
  "affected_by dep ev \<longleftrightarrow> evidence_status ev = EvidenceCurrent \<and> dep |\<in>| dependencies ev"

definition invalidate_affected :: "string \<Rightarrow> Evidence \<Rightarrow> Evidence" where
  "invalidate_affected dep ev = (if affected_by dep ev then invalidate ev else ev)"

definition apply_dependency_change ::
  "ControlState \<Rightarrow> DependencyChange \<Rightarrow> ControlState \<times> TransitionTrace" where
  "apply_dependency_change s event =
    (let invalidated_ids = fset_of_list
           (map evidence_id (filter (affected_by (dependency_id event)) (evidence s)));
         interim = s\<lparr>evidence := map (invalidate_affected (dependency_id event)) (evidence s)\<rparr>;
         source_survivors = ffilter (basis_is_current interim) (current_source_basis_ids s);
         verdict_survivors = ffilter (basis_is_current interim) (current_verdict_basis_ids s);
         removed = (current_source_basis_ids s |\<union>| current_verdict_basis_ids s)
           |-| source_survivors |-| verdict_survivors;
         resulting_source =
           (if source_state s \<noteq> SourceUnknown \<and> source_survivors = {||}
            then SourceUnknown else source_state s);
         resulting_assur =
           (if obligation s \<noteq> ObligationCurrent then AssuranceNA
            else if substantive (assurance s) \<and> verdict_survivors = {||}
            then AssuranceStale else assurance s);
         event_record = create_audit ''DependencyChange''
           [(''dependency_id'', dependency_id event),
            (''apparent_direction'', str_or (apparent_direction event) ''unspecified'')];
         post = interim\<lparr>source_state := resulting_source, assurance := resulting_assur,
           current_source_basis_ids := source_survivors,
           current_verdict_basis_ids := verdict_survivors,
           history := history s @ [event_record]\<rparr>
     in (post, \<lparr>trace_event_type = ''DependencyChange'',
        invalidated_evidence = sorted_fset invalidated_ids,
        preserved_evidence = current_evidence_ids (evidence post),
        removed_bases = sorted_fset removed,
        surviving_bases = sorted_fset (source_survivors |\<union>| verdict_survivors),
        previous_source_state = Some (source_state_value (source_state s)),
        resulting_source_state = Some (source_state_value (source_state post)),
        previous_assurance = Some (assurance_value (assurance s)),
        resulting_assurance = Some (assurance_value (assurance post)),
        forbidden_inferences = [''replacement substantive state or verdict''],
        rules_fired = [''INV-11'', ''INV-12'', ''INV-13'', ''INV-14'', ''INV-15'', ''INV-16'',
          ''SYM-01''],
        next_governed_step = Some
          (if resulting_source = SourceUnknown \<or> resulting_assur = AssuranceStale
           then ''governed reassessment with new evidence and new approved basis''
           else ''none required for surviving current claims'')\<rparr>))"

subsection \<open>Reassessment\<close>

definition check_new_basis ::
  "string fset \<Rightarrow> SourceState \<Rightarrow> Assurance \<Rightarrow> Basis \<Rightarrow> kernel_error option" where
  "check_new_basis evidence_ids_after src assur b =
    (if \<not> approved b then Some (TransitionError ''new basis must be approved'')
     else if member_evidence_ids b = {||}
     then Some (TransitionError ''new basis must contain evidence'')
     else if \<not> member_evidence_ids b |\<subseteq>| evidence_ids_after
     then Some (TransitionError ''basis references unknown evidence'')
     else if basis_kind b = SourceBasis \<and> claim b \<noteq> source_state_value src
     then Some (TransitionError ''source basis claim does not match reassessed source state'')
     else if basis_kind b = VerdictBasis \<and> claim b \<noteq> assurance_value assur
     then Some (TransitionError ''verdict basis claim does not match reassessed assurance'')
     else None)"

fun first_error :: "('a \<Rightarrow> kernel_error option) \<Rightarrow> 'a list \<Rightarrow> kernel_error option" where
  "first_error f [] = None"
| "first_error f (x # xs) = (case f x of Some e \<Rightarrow> Some e | None \<Rightarrow> first_error f xs)"

definition check_reassess :: "ControlState \<Rightarrow> Reassess \<Rightarrow> kernel_error option" where
  "check_reassess s event =
    (let new_evidence_ids = dict_key_set evidence_id (new_evidence event);
         new_basis_ids = dict_key_set basis_id (new_bases event)
     in if reassess_authority event \<noteq> ''I3''
        then Some (TransitionError ''reassessment requires I3 authority'')
        else if evidence_ids s |\<inter>| new_evidence_ids \<noteq> {||}
        then Some (TransitionError ''reassessment must use new evidence identities'')
        else if basis_ids s |\<inter>| new_basis_ids \<noteq> {||}
        then Some (TransitionError ''reassessment must use new basis identities'')
        else if \<exists>ev\<in>set (new_evidence event). evidence_status ev \<noteq> EvidenceCurrent
        then Some (TransitionError ''new reassessment evidence must be current'')
        else if \<exists>ev\<in>set (new_evidence event). logical_time s < issued_at ev
        then Some (TransitionError
          ''new reassessment evidence cannot be issued in the future'')
        else first_error (check_new_basis (evidence_ids s |\<union>| new_evidence_ids)
          (or_else (new_source_state event) (source_state s))
          (or_else (new_assurance event) (assurance s))) (new_bases event))"

text \<open>The loop that adds the new bases of one kind to the surviving references.\<close>

definition new_ids_of_kind :: "BasisKind \<Rightarrow> Basis list \<Rightarrow> string fset" where
  "new_ids_of_kind k bs = fset_of_list (map basis_id (filter (\<lambda>b. basis_kind b = k) bs))"

definition retained_ids ::
  "ControlState \<Rightarrow> BasisKind \<Rightarrow> string \<Rightarrow> string fset \<Rightarrow> string fset" where
  "retained_ids s k c ids = ffilter (\<lambda>bid. case bases_by_id s bid of
     None \<Rightarrow> False | Some b \<Rightarrow> basis_matches_claim b k c) ids"

definition reassess_source_ids :: "ControlState \<Rightarrow> Reassess \<Rightarrow> SourceState \<Rightarrow> string fset" where
  "reassess_source_ids s event src =
    (if src = SourceUnknown then {||}
     else retained_ids s SourceBasis (source_state_value src) (current_source_basis_ids s)
       |\<union>| new_ids_of_kind SourceBasis (new_bases event))"

definition reassess_verdict_ids :: "ControlState \<Rightarrow> Reassess \<Rightarrow> Assurance \<Rightarrow> string fset" where
  "reassess_verdict_ids s event assur =
    (if \<not> substantive assur then {||}
     else retained_ids s VerdictBasis (assurance_value assur) (current_verdict_basis_ids s)
       |\<union>| new_ids_of_kind VerdictBasis (new_bases event))"

definition reassess_audit :: "Reassess \<Rightarrow> string list \<Rightarrow> string list \<Rightarrow> AuditEvent" where
  "reassess_audit event eids bids = create_audit ''Reassess''
     ([(''authority'', reassess_authority event), (''evidence_ids'', join '','' eids),
       (''basis_ids'', join '','' bids)] @
      (if close_request_ids event \<noteq> []
       then [(''closed_request_ids'', join '','' (sort (close_request_ids event)))] else []))"

definition apply_reassess ::
  "ControlState \<Rightarrow> Reassess \<Rightarrow> kernel_error + ControlState \<times> TransitionTrace" where
  "apply_reassess s event =
    (case check_reassess s event of
       Some e \<Rightarrow> Inl e
     | None \<Rightarrow>
       (case close_reassessment_requests s (close_request_ids event) of
          Inl e \<Rightarrow> Inl e
        | Inr requests \<Rightarrow>
          (let src = or_else (new_source_state event) (source_state s);
               assur = or_else (new_assurance event) (assurance s);
               source_basis_ids = reassess_source_ids s event src;
               verdict_basis_ids = reassess_verdict_ids s event assur;
               post = s\<lparr>evidence := evidence s @ new_evidence event,
                 bases := bases s @ new_bases event,
                 current_source_basis_ids := source_basis_ids,
                 current_verdict_basis_ids := verdict_basis_ids,
                 source_state := src, assurance := assur,
                 reassessment_requests := requests,
                 history := history s @ [reassess_audit event
                   (sorted_fset (dict_key_set evidence_id (new_evidence event)))
                   (sorted_fset (dict_key_set basis_id (new_bases event)))]\<rparr>
           in Inr (post, \<lparr>trace_event_type = ''Reassess'',
             invalidated_evidence = [],
             preserved_evidence = sorted_fset (evidence_ids s),
             removed_bases = [],
             surviving_bases = sorted_fset (source_basis_ids |\<union>| verdict_basis_ids),
             previous_source_state = Some (source_state_value (source_state s)),
             resulting_source_state = Some (source_state_value (source_state post)),
             previous_assurance = Some (assurance_value (assurance s)),
             resulting_assurance = Some (assurance_value (assurance post)),
             forbidden_inferences = [],
             rules_fired = [''INV-18'', ''INV-19'', ''G-INV-06'', ''G-INV-09'', ''G-INV-10'',
               ''G-INV-11'', ''R-INV-03''],
             next_governed_step =
               Some ''publish the new current view while retaining superseded history''\<rparr>))))"

subsection \<open>Retirement\<close>

definition apply_retire ::
  "ControlState \<Rightarrow> RetireControl \<Rightarrow> kernel_error + ControlState \<times> TransitionTrace" where
  "apply_retire s event =
    (if retire_authority event \<noteq> ''I3''
     then Inl (TransitionError ''retirement requires I3 authority'')
     else if evidence_id (retirement_evidence event) |\<in>| evidence_ids s
     then Inl (TransitionError ''retirement evidence must use a new identity'')
     else if evidence_status (retirement_evidence event) \<noteq> EvidenceCurrent
     then Inl (TransitionError ''retirement evidence must be current'')
     else
       (let post = s\<lparr>obligation := ObligationRetired, source_state := SourceUnknown,
              assurance := AssuranceNA,
              evidence := evidence s @ [retirement_evidence event],
              current_source_basis_ids := {||}, current_verdict_basis_ids := {||},
              history := history s @ [create_audit ''RetireControl''
                [(''authority'', retire_authority event),
                 (''evidence_id'', evidence_id (retirement_evidence event))]]\<rparr>
        in Inr (post, \<lparr>trace_event_type = ''RetireControl'',
          invalidated_evidence = [],
          preserved_evidence = sort (map evidence_id (evidence s)),
          removed_bases =
            sorted_fset (current_source_basis_ids s |\<union>| current_verdict_basis_ids s),
          surviving_bases = [],
          previous_source_state = Some (source_state_value (source_state s)),
          resulting_source_state = Some (source_state_value (source_state post)),
          previous_assurance = Some (assurance_value (assurance s)),
          resulting_assurance = Some (assurance_value (assurance post)),
          forbidden_inferences = [],
          rules_fired = [''INV-04'', ''INV-19'', ''G-INV-11'', ''G-INV-12'', ''G-INV-13''],
          next_governed_step =
            Some ''none unless the obligation is reintroduced through governance''\<rparr>)))"

subsection \<open>Dispatch\<close>

fun apply_event ::
  "ControlState \<Rightarrow> CsdEvent \<Rightarrow> kernel_error + ControlState \<times> TransitionTrace" where
  "apply_event s (EvDependencyChange event) = Inr (apply_dependency_change s event)"
| "apply_event s (EvReassess event) = apply_reassess s event"
| "apply_event s (EvRetireControl event) = apply_retire s event"
| "apply_event s (EvAdvanceClock event) = apply_advance_clock s event"
| "apply_event s (EvProfileChange event) = apply_profile_change s event"
| "apply_event s (EvRequestReassessment event) = apply_request_reassessment s event"
| "apply_event s (EvRecordHeartbeat event) = apply_record_heartbeat s event"

end
