(* ===== verification/Kernel_Temporal_Invariants.thy ===== *)
theory Kernel_Temporal_Invariants
  imports Kernel_Invariants
begin

section \<open>The independent temporal verifier\<close>

text \<open>
  \<^verbatim>\<open>kernel/temporal_invariants.py\<close>: the checks of logical time, profiles,
  requests and heartbeats, of a state, of a transition and of a transition against its
  event, with the exact audit record each temporal event must append.
\<close>

definition validate_exact_audit ::
  "ControlState \<Rightarrow> ControlState \<Rightarrow> AuditEvent \<Rightarrow> string \<Rightarrow> Violation list" where
  "validate_exact_audit before after expected iid =
     viol (history after \<noteq> history before @ [expected]) iid
       (audit_event_type expected @ '' audit append is not canonical'')"

definition matches_required_profile ::
  "Evidence \<Rightarrow> string option \<Rightarrow> int option \<Rightarrow> bool" where
  "matches_required_profile item pid ver \<longleftrightarrow>
     (if pid = None \<or> profile_id item = None then True
      else profile_id item = pid \<and> profile_version item = ver)"

definition profile_basis_is_supported ::
  "Basis \<Rightarrow> (string \<rightharpoonup> Evidence) \<Rightarrow> string option \<Rightarrow> int option \<Rightarrow> bool" where
  "profile_basis_is_supported b evmap pid ver \<longleftrightarrow>
     member_evidence_ids b \<noteq> {||} \<and> approved b \<and>
     (\<forall>m\<in>fset (member_evidence_ids b).
        case evmap m of None \<Rightarrow> False
        | Some ev \<Rightarrow> evidence_status ev = EvidenceCurrent \<and> matches_required_profile ev pid ver)"

definition expected_basis_survival ::
  "ControlState \<Rightarrow> (string \<rightharpoonup> Evidence) \<Rightarrow> string option \<Rightarrow> int option \<Rightarrow>
   string fset \<times> string fset" where
  "expected_basis_survival before evmap pid ver =
     (surviving_ids (\<lambda>b. profile_basis_is_supported b evmap pid ver)
        (bases_by_id before) (current_source_basis_ids before),
      surviving_ids (\<lambda>b. profile_basis_is_supported b evmap pid ver)
        (bases_by_id before) (current_verdict_basis_ids before))"

definition validate_profile_pair ::
  "string option \<Rightarrow> int option \<Rightarrow> string \<Rightarrow> Violation list" where
  "validate_profile_pair pid ver subject =
     viol ((pid = None) \<noteq> (ver = None)) ''P-INV-01''
       (subject @ '' has an incomplete profile binding'') @
     viol (case ver of None \<Rightarrow> False | Some v \<Rightarrow> v \<le> 0) ''P-INV-01''
       (subject @ '' has a non-positive profile version'')"

subsection \<open>A single state\<close>

definition evidence_time_violations :: "int \<Rightarrow> Evidence \<Rightarrow> Violation list" where
  "evidence_time_violations now item =
     viol (issued_at item < 0 \<or> now < issued_at item) ''T-INV-02''
       (''evidence '' @ evidence_id item @ '' has an invalid issue time'') @
     viol (case expires_at item of None \<Rightarrow> False | Some e \<Rightarrow> e \<le> issued_at item) ''T-INV-02''
       (''evidence '' @ evidence_id item @ '' has an invalid expiry'') @
     viol (evidence_status item = EvidenceCurrent \<and>
           (case expires_at item of None \<Rightarrow> False | Some e \<Rightarrow> e \<le> now)) ''T-INV-02''
       (''evidence '' @ evidence_id item @ '' remained current after expiry'') @
     viol (evidence_status item = EvidenceExpired \<and>
           (case expires_at item of None \<Rightarrow> False | Some e \<Rightarrow> now < e)) ''T-INV-02''
       (''evidence '' @ evidence_id item @ '' expired before its deadline'') @
     validate_profile_pair (profile_id item) (profile_version item)
       (''evidence '' @ evidence_id item)"

definition basis_profile_violations :: "ControlState \<Rightarrow> string \<Rightarrow> Violation list" where
  "basis_profile_violations s bid =
     (case bases_by_id s bid of
        None \<Rightarrow> []
      | Some b \<Rightarrow> viol (\<not> profile_basis_is_supported b (evidence_by_id s)
            (required_profile_id s) (required_profile_version s)) ''P-INV-02''
          (''current basis '' @ bid @ '' is incomplete under the required profile''))"

definition request_violations :: "int \<Rightarrow> ReassessmentRequest \<Rightarrow> Violation list" where
  "request_violations now rq =
     viol (requested_at rq < 0 \<or> now < requested_at rq) ''R-INV-01''
       (''request '' @ request_id rq @ '' has an invalid request time'') @
     viol (due_at rq < requested_at rq) ''R-INV-01''
       (''request '' @ request_id rq @ '' has an invalid due time'') @
     viol (request_status rq = RequestPending \<and> closed_at rq \<noteq> None) ''R-INV-03''
       (''pending request '' @ request_id rq @ '' has a close time'') @
     viol (request_status rq = RequestClosed \<and>
           (case closed_at rq of None \<Rightarrow> True | Some t \<Rightarrow> now < t)) ''R-INV-03''
       (''closed request '' @ request_id rq @ '' has an invalid close time'')"

definition heartbeat_violations :: "int \<Rightarrow> Assurance \<Rightarrow> HeartbeatState \<Rightarrow> Violation list" where
  "heartbeat_violations now assur hb =
     viol (interval hb \<le> 0) ''H-INV-01'' ''heartbeat interval must be positive'' @
     viol (now < last_recorded_at hb) ''H-INV-01'' ''heartbeat is recorded in the future'' @
     viol (heartbeat_due_at hb \<noteq> last_recorded_at hb + interval hb) ''H-INV-01''
       ''heartbeat deadline is not canonical'' @
     viol (heartbeat_due_at hb \<le> now \<and> substantive assur) ''T-INV-06''
       ''missed heartbeat retained a substantive verdict''"

definition validate_temporal_state :: "ControlState \<Rightarrow> Violation list" where
  "validate_temporal_state s =
     viol (logical_time s < 0) ''T-INV-01'' ''logical time cannot be negative'' @
     validate_profile_pair (required_profile_id s) (required_profile_version s)
       ''required profile'' @
     concat (map (evidence_time_violations (logical_time s)) (evidence s)) @
     concat (map (basis_profile_violations s)
       (sorted_fset (current_source_basis_ids s |\<union>| current_verdict_basis_ids s))) @
     viol (length (dict_keys request_id (reassessment_requests s)) \<noteq>
           length (reassessment_requests s))
       ''R-INV-01'' ''duplicate reassessment request identity'' @
     concat (map (request_violations (logical_time s)) (reassessment_requests s)) @
     (case heartbeat s of
        None \<Rightarrow> []
      | Some hb \<Rightarrow> heartbeat_violations (logical_time s) (assurance s) hb)"

subsection \<open>A transition, independently of its event\<close>

definition evidence_metadata_violations ::
  "ControlState \<Rightarrow> string \<Rightarrow> Evidence \<Rightarrow> Violation list" where
  "evidence_metadata_violations after eid old =
     (case evidence_by_id after eid of
        None \<Rightarrow> []
      | Some new \<Rightarrow> viol (issued_at old \<noteq> issued_at new \<or> expires_at old \<noteq> expires_at new \<or>
            profile_id old \<noteq> profile_id new \<or> profile_version old \<noteq> profile_version new)
          ''T-INV-03'' (''evidence '' @ eid @ '' temporal metadata was rewritten''))"

definition valid_closure :: "int \<Rightarrow> ReassessmentRequest \<Rightarrow> ReassessmentRequest \<Rightarrow> bool" where
  "valid_closure now old new \<longleftrightarrow> old = new \<or>
     (request_status old = RequestPending \<and> request_status new = RequestClosed \<and>
      closed_at new = Some now \<and>
      request_id old = request_id new \<and> reason old = reason new \<and>
      requested_at old = requested_at new \<and> due_at old = due_at new)"

definition request_transition_violations ::
  "ControlState \<Rightarrow> string \<Rightarrow> ReassessmentRequest \<Rightarrow> Violation list" where
  "request_transition_violations after rid old =
     (case requests_by_id after rid of
        None \<Rightarrow> viol True ''R-INV-03'' (''request '' @ rid @ '' was deleted'')
      | Some new \<Rightarrow> viol (\<not> valid_closure (logical_time after) old new) ''R-INV-03''
          (''request '' @ rid @ '' was rewritten''))"

definition validate_temporal_transition ::
  "ControlState \<Rightarrow> ControlState \<Rightarrow> Violation list" where
  "validate_temporal_transition before after =
     validate_temporal_state after @
     viol (logical_time after < logical_time before) ''T-INV-01''
       ''logical time moved backward'' @
     concat (map (\<lambda>(eid, old). evidence_metadata_violations after eid old)
       (dict_items evidence_id (evidence before))) @
     concat (map (\<lambda>(rid, old). request_transition_violations after rid old)
       (dict_items request_id (reassessment_requests before))) @
     viol (required_profile_id before = required_profile_id after \<and>
           (case (required_profile_version before, required_profile_version after) of
              (Some b, Some a) \<Rightarrow> a < b | _ \<Rightarrow> False)) ''P-INV-01''
       ''required profile version moved backward''"

subsection \<open>A transition against its event\<close>

definition unchanged_temporal_governance ::
  "ControlState \<Rightarrow> ControlState \<Rightarrow> bool \<Rightarrow> Violation list" where
  "unchanged_temporal_governance before after allow_requests =
     viol (logical_time after \<noteq> logical_time before) ''T-INV-01''
       ''event changed logical time unexpectedly'' @
     viol (required_profile_id after \<noteq> required_profile_id before \<or>
           required_profile_version after \<noteq> required_profile_version before) ''P-INV-01''
       ''event changed the required profile unexpectedly'' @
     viol (\<not> allow_requests \<and> reassessment_requests after \<noteq> reassessment_requests before)
       ''R-INV-03'' ''event changed requests unexpectedly'' @
     viol (heartbeat after \<noteq> heartbeat before) ''H-INV-01''
       ''event changed heartbeat state unexpectedly''"

definition validate_advance_clock ::
  "ControlState \<Rightarrow> AdvanceClock \<Rightarrow> ControlState \<Rightarrow> Violation list" where
  "validate_advance_clock before event after =
    (let (surviving_source, surviving_verdict) = expected_basis_survival before
           (evidence_by_id after) (required_profile_id after) (required_profile_version after);
         heartbeat_missed = (case heartbeat before of None \<Rightarrow> False
           | Some hb \<Rightarrow> heartbeat_due_at hb \<le> target_time event);
         expected_verdict_bases = (if heartbeat_missed then {||} else surviving_verdict);
         expected_source = (if source_state before \<noteq> SourceUnknown \<and> surviving_source = {||}
           then SourceUnknown else source_state before);
         expected_assurance = (if obligation before \<noteq> ObligationCurrent then AssuranceNA
           else if heartbeat_missed \<and> substantive (assurance before) \<or>
             substantive (assurance before) \<and> expected_verdict_bases = {||}
           then AssuranceStale else assurance before);
         should_expire = (\<lambda>ev. evidence_status ev = EvidenceCurrent \<and>
           (case expires_at ev of None \<Rightarrow> False | Some e \<Rightarrow> e \<le> target_time event))
     in
     viol (target_time event < logical_time before \<or> logical_time after \<noteq> target_time event)
       ''T-INV-01'' ''clock result does not match the target time'' @
     viol (evidence_ids after \<noteq> evidence_ids before) ''T-INV-02''
       ''clock advance altered evidence identities'' @
     viol (bases after \<noteq> bases before) ''T-INV-03'' ''clock advance rewrote historical bases'' @
     concat (map (\<lambda>(eid, old).
       (case evidence_by_id after eid of
          None \<Rightarrow> []
        | Some new \<Rightarrow>
            (let expected_status =
               (if should_expire old then EvidenceExpired else evidence_status old)
             in viol (evidence_status new \<noteq> expected_status) ''T-INV-02''
               (''evidence '' @ eid @ '' has '' @ evidence_status_value (evidence_status new) @
                ''; expected '' @ evidence_status_value expected_status))))
       (dict_items evidence_id (evidence before))) @
     viol (current_source_basis_ids after \<noteq> surviving_source) ''T-INV-03''
       ''clock source-basis survival is not canonical'' @
     viol (current_verdict_basis_ids after \<noteq> expected_verdict_bases) ''T-INV-06''
       ''clock verdict-basis survival is not canonical'' @
     viol (source_state after \<noteq> expected_source) ''T-INV-03''
       ''clock source result is not canonical'' @
     viol (assurance after \<noteq> expected_assurance) ''T-INV-06''
       ''clock assurance result is not canonical'' @
     viol (required_profile_id after \<noteq> required_profile_id before \<or>
           required_profile_version after \<noteq> required_profile_version before \<or>
           reassessment_requests after \<noteq> reassessment_requests before \<or>
           heartbeat after \<noteq> heartbeat before) ''T-INV-01''
       ''clock changed unrelated governance state'' @
     validate_exact_audit before after
       (create_audit ''AdvanceClock''
         [(''from_time'', py_str (logical_time before)),
          (''target_time'', py_str (target_time event)),
          (''expired_evidence'', join '','' (sorted_fset (fset_of_list
             (map evidence_id (filter should_expire (evidence before)))))),
          (''heartbeat_missed'', py_bool_lower heartbeat_missed)])
       ''T-INV-04'')"

definition validate_profile_change ::
  "ControlState \<Rightarrow> ProfileChange \<Rightarrow> ControlState \<Rightarrow> Violation list" where
  "validate_profile_change before event after =
    (let (expected_source_bases, expected_verdict_bases) = expected_basis_survival before
           (evidence_by_id after) (Some (new_profile_id event))
           (Some (new_profile_version event));
         expected_source = (if source_state before \<noteq> SourceUnknown \<and>
             expected_source_bases = {||} then SourceUnknown else source_state before);
         expected_assurance = (if obligation before \<noteq> ObligationCurrent then AssuranceNA
           else if substantive (assurance before) \<and> expected_verdict_bases = {||}
           then AssuranceStale else assurance before);
         expected_request_ids =
           (case profile_request_id event of None \<Rightarrow> {||} | Some rid \<Rightarrow> {|rid|});
         incompatible_ids = fset_of_list (map evidence_id (filter (\<lambda>ev.
           evidence_status ev = EvidenceCurrent \<and> profile_id ev \<noteq> None \<and>
           (profile_id ev \<noteq> Some (new_profile_id event) \<or>
            profile_version ev \<noteq> Some (new_profile_version event))) (evidence before)))
     in
     viol (profile_authority event \<noteq> ''I3'') ''P-INV-01''
       ''profile change requires I3 authority'' @
     viol (logical_time after \<noteq> logical_time before) ''P-INV-01''
       ''profile change altered logical time'' @
     viol (required_profile_id after \<noteq> Some (new_profile_id event) \<or>
           required_profile_version after \<noteq> Some (new_profile_version event)) ''P-INV-01''
       ''profile result does not match the event'' @
     viol (evidence after \<noteq> evidence before) ''P-INV-02''
       ''profile change rewrote historical evidence'' @
     viol (bases after \<noteq> bases before) ''P-INV-02''
       ''profile change rewrote historical bases'' @
     viol (current_source_basis_ids after \<noteq> expected_source_bases) ''P-INV-02''
       ''profile source-basis eligibility is not canonical'' @
     viol (current_verdict_basis_ids after \<noteq> expected_verdict_bases) ''P-INV-02''
       ''profile verdict-basis eligibility is not canonical'' @
     viol (source_state after \<noteq> expected_source) ''P-INV-02''
       ''profile source result is not canonical'' @
     viol (assurance after \<noteq> expected_assurance) ''P-INV-02''
       ''profile assurance result is not canonical'' @
     viol (obligation after \<noteq> obligation before) ''P-INV-02''
       ''profile change altered obligation state'' @
     viol (request_ids after |-| request_ids before \<noteq> expected_request_ids) ''P-INV-03''
       ''profile request identities do not match the event'' @
     (case (profile_request_id event, profile_request_due_at event) of
        (Some rid, Some due) \<Rightarrow>
          viol (requests_by_id after rid \<noteq> Some \<lparr>request_id = rid,
              reason = ''required profile changed'', requested_at = logical_time before,
              due_at = due, request_status = RequestPending, closed_at = None\<rparr>) ''P-INV-03''
            ''profile reassessment request is not canonical''
      | _ \<Rightarrow> []) @
     viol (heartbeat after \<noteq> heartbeat before) ''H-INV-01''
       ''profile change altered heartbeat state'' @
     validate_exact_audit before after
       (create_audit ''ProfileChange''
         [(''authority'', profile_authority event),
          (''profile_id'', new_profile_id event),
          (''profile_version'', py_str (new_profile_version event)),
          (''profile_incompatible_evidence'', join '','' (sorted_fset incompatible_ids)),
          (''request_id'', (case profile_request_id event of None \<Rightarrow> ''none''
             | Some v \<Rightarrow> if v = '''' then ''none'' else v))])
       ''P-INV-04'')"

text \<open>The comparison of everything a request or a heartbeat must not touch.\<close>

definition substantive_state_changed :: "ControlState \<Rightarrow> ControlState \<Rightarrow> bool" where
  "substantive_state_changed before after \<longleftrightarrow>
     evidence after \<noteq> evidence before \<or> bases after \<noteq> bases before \<or>
     current_source_basis_ids after \<noteq> current_source_basis_ids before \<or>
     current_verdict_basis_ids after \<noteq> current_verdict_basis_ids before \<or>
     source_state after \<noteq> source_state before \<or> assurance after \<noteq> assurance before \<or>
     obligation after \<noteq> obligation before"

definition validate_request ::
  "ControlState \<Rightarrow> RequestReassessment \<Rightarrow> ControlState \<Rightarrow> Violation list" where
  "validate_request before event after =
    (let expected = \<lparr>request_id = new_request_id event, reason = request_reason event,
           requested_at = logical_time before, due_at = request_due_at event,
           request_status = RequestPending, closed_at = None\<rparr>
     in
     unchanged_temporal_governance before after True @
     viol (request_authority event \<noteq> ''I3'') ''R-INV-01''
       ''reassessment request requires I3 authority'' @
     viol (substantive_state_changed before after) ''R-INV-02''
       ''reassessment request changed substantive state'' @
     viol (request_ids after |-| request_ids before \<noteq> {|new_request_id event|} \<or>
           requests_by_id after (new_request_id event) \<noteq> Some expected) ''R-INV-01''
       ''request result does not match the event'' @
     concat (map (\<lambda>(rid, existing).
       viol (requests_by_id after rid \<noteq> Some existing) ''R-INV-01''
         (''request creation rewrote existing request '' @ rid))
       (dict_items request_id (reassessment_requests before))) @
     validate_exact_audit before after
       (create_audit ''RequestReassessment''
         [(''authority'', request_authority event), (''request_id'', new_request_id event),
          (''due_at'', py_str (request_due_at event)), (''reason'', request_reason event)])
       ''R-INV-04'')"

definition validate_heartbeat ::
  "ControlState \<Rightarrow> RecordHeartbeat \<Rightarrow> ControlState \<Rightarrow> Violation list" where
  "validate_heartbeat before event after =
    (let iv = (case heartbeat_interval event of Some i \<Rightarrow> Some i
           | None \<Rightarrow> (case heartbeat before of None \<Rightarrow> None | Some h \<Rightarrow> Some (interval h)))
     in
     viol (heartbeat_authority event \<noteq> ''I3'') ''H-INV-01''
       ''heartbeat requires I3 authority'' @
     viol (logical_time after \<noteq> logical_time before) ''T-INV-01''
       ''heartbeat altered logical time'' @
     viol (required_profile_id after \<noteq> required_profile_id before \<or>
           required_profile_version after \<noteq> required_profile_version before) ''P-INV-01''
       ''heartbeat altered the required profile'' @
     viol (reassessment_requests after \<noteq> reassessment_requests before) ''R-INV-03''
       ''heartbeat altered reassessment requests'' @
     viol (substantive_state_changed before after \<or>
           reassessment_requests after \<noteq> reassessment_requests before) ''H-INV-02''
       ''heartbeat changed substantive state'' @
     viol (case (iv, heartbeat after) of
             (Some i, Some hb) \<Rightarrow> interval hb \<noteq> i \<or> last_recorded_at hb \<noteq> at_time event \<or>
               heartbeat_due_at hb \<noteq> at_time event + i
           | _ \<Rightarrow> True) ''H-INV-01'' ''heartbeat result does not match the event'' @
     (case iv of
        None \<Rightarrow> []
      | Some i \<Rightarrow> validate_exact_audit before after
          (create_audit ''RecordHeartbeat''
            [(''authority'', heartbeat_authority event), (''at_time'', py_str (at_time event)),
             (''interval'', py_str i), (''due_at'', py_str (at_time event + i))])
          ''H-INV-03''))"

definition validate_reassessment_requests ::
  "ControlState \<Rightarrow> Reassess \<Rightarrow> ControlState \<Rightarrow> Violation list" where
  "validate_reassessment_requests before event after =
    (let requested = fset_of_list (close_request_ids event);
         unknown_request_ids = requested |-| request_ids before;
         nonpending_request_ids = ffilter (\<lambda>rid. case requests_by_id before rid of
             None \<Rightarrow> False | Some rq \<Rightarrow> request_status rq \<noteq> RequestPending)
           (requested |\<inter>| request_ids before)
     in
     viol (\<not> distinct (close_request_ids event)) ''R-INV-03''
       ''request closure identities are duplicated'' @
     viol (unknown_request_ids \<noteq> {||}) ''R-INV-03''
       (''unknown request closure identities: '' @
        repr_str_list (sorted_fset unknown_request_ids)) @
     viol (nonpending_request_ids \<noteq> {||}) ''R-INV-03''
       (''request closures must target pending requests: '' @
        repr_str_list (sorted_fset nonpending_request_ids)) @
     viol (request_ids after \<noteq> request_ids before) ''R-INV-03''
       ''reassessment altered request identities'' @
     concat (map (\<lambda>(rid, old).
       (case requests_by_id after rid of
          None \<Rightarrow> []
        | Some new \<Rightarrow> viol (new \<noteq> (if rid |\<in>| requested then close old (logical_time before)
             else old)) ''R-INV-03''
             (''request '' @ rid @ '' closure does not match the event'')))
       (dict_items request_id (reassessment_requests before))))"

definition validate_reassess_temporal ::
  "ControlState \<Rightarrow> Reassess \<Rightarrow> ControlState \<Rightarrow> Violation list" where
  "validate_reassess_temporal before event after =
     unchanged_temporal_governance before after True @
     validate_reassessment_requests before event after @
     validate_exact_audit before after
       (create_audit ''Reassess''
         ([(''authority'', reassess_authority event),
           (''evidence_ids'', join '','' (sort (map evidence_id (new_evidence event)))),
           (''basis_ids'', join '','' (sort (map basis_id (new_bases event))))] @
          (if close_request_ids event \<noteq> []
           then [(''closed_request_ids'', join '','' (sort (close_request_ids event)))]
           else [])))
       ''R-INV-04''"

fun validate_temporal_event ::
  "ControlState \<Rightarrow> CsdEvent \<Rightarrow> ControlState \<Rightarrow> Violation list" where
  "validate_temporal_event before (EvAdvanceClock event) after =
     validate_advance_clock before event after"
| "validate_temporal_event before (EvProfileChange event) after =
     validate_profile_change before event after"
| "validate_temporal_event before (EvRequestReassessment event) after =
     validate_request before event after"
| "validate_temporal_event before (EvRecordHeartbeat event) after =
     validate_heartbeat before event after"
| "validate_temporal_event before (EvReassess event) after =
     validate_reassess_temporal before event after"
| "validate_temporal_event before _ after =
     unchanged_temporal_governance before after False"

end
