(* ===== verification/Kernel_Oracle.thy ===== *)
theory Kernel_Oracle
  imports Kernel_Transitions Kernel_Temporal_Invariants
begin

section \<open>The fail-closed oracle\<close>

text \<open>
  \<^verbatim>\<open>kernel/oracle.py\<close>: one governed transition, executed and independently
  verified; and sequences of accepted transitions, the runs of the kernel.
\<close>

definition format_violations :: "string \<Rightarrow> Violation list \<Rightarrow> string" where
  "format_violations prefix_text vs =
     prefix_text @ '': '' @ join ''; '' (map (\<lambda>v. invariant_id v @ '': '' @ message v) vs)"

record OracleResult =
  result_before :: ControlState
  result_after :: ControlState
  result_trace :: TransitionTrace
  result_violations :: "Violation list"

definition post_violations ::
  "ControlState \<Rightarrow> CsdEvent \<Rightarrow> ControlState \<Rightarrow> kernel_error + Violation list" where
  "post_violations s event after =
    (case (if is_temporal_event event then Inr [] else validate_event_transition s event after) of
       Inl e \<Rightarrow> Inl e
     | Inr core_event_violations \<Rightarrow>
         Inr (validate_transition s after @ validate_temporal_transition s after @
              core_event_violations @ validate_temporal_event s event after))"

definition oracle_apply :: "ControlState \<Rightarrow> CsdEvent \<Rightarrow> kernel_error + OracleResult" where
  "oracle_apply s event =
    (let initial = validate_state s @ validate_temporal_state s
     in if initial \<noteq> []
        then Inl (OracleRejected (format_violations ''invalid pre-state'' initial))
        else
          (case apply_event s event of
             Inl e \<Rightarrow> Inl e
           | Inr (after, trace) \<Rightarrow>
             (case post_violations s event after of
                Inl e \<Rightarrow> Inl e
              | Inr violations \<Rightarrow>
                 if violations \<noteq> []
                 then Inl (OracleRejected (format_violations ''invalid post-state'' violations))
                 else Inr \<lparr>result_before = s, result_after = after, result_trace = trace,
                   result_violations = []\<rparr>)))"

end
