(* ===== verification/Kernel_Verifier_Spec.thy ===== *)
theory Kernel_Verifier_Spec
  imports Kernel_Oracle
begin

section \<open>What an empty list of violations means\<close>

text \<open>
  The abstract specification of the two verifier layers: predicates over states and pairs of
  states, with no loops, messages or iteration order, and the equivalence of each with the
  executable check of the code. Every later proof goes through these predicates.
\<close>

subsection \<open>States\<close>

definition supported_reference ::
  "ControlState \<Rightarrow> BasisKind \<Rightarrow> string \<Rightarrow> string \<Rightarrow> bool" where
  "supported_reference s k c bid \<longleftrightarrow>
     (\<exists>b. bases_by_id s bid = Some b \<and> basis_kind b = k \<and> claim b = c \<and>
          basis_is_supported b (evidence_by_id s))"

definition state_ok :: "ControlState \<Rightarrow> bool" where
  "state_ok s \<longleftrightarrow>
     distinct (map evidence_id (evidence s)) \<and> distinct (map basis_id (bases s)) \<and>
     (\<forall>bid\<in>fset (current_source_basis_ids s).
        supported_reference s SourceBasis (source_state_value (source_state s)) bid) \<and>
     (\<forall>bid\<in>fset (current_verdict_basis_ids s).
        supported_reference s VerdictBasis (assurance_value (assurance s)) bid) \<and>
     (source_state s \<noteq> SourceUnknown \<longrightarrow> current_source_basis_ids s \<noteq> {||}) \<and>
     (obligation s = ObligationCurrent \<and> substantive (assurance s) \<longrightarrow>
        current_verdict_basis_ids s \<noteq> {||}) \<and>
     (obligation s \<noteq> ObligationCurrent \<longrightarrow> assurance s = AssuranceNA)"

lemma current_basis_violations_Nil:
  "current_basis_violations s bid = [] \<longleftrightarrow>
     (\<exists>b. bases_by_id s bid = Some b \<and> basis_is_supported b (evidence_by_id s))"
  by (auto simp: current_basis_violations_def basis_is_supported_def split: option.splits)

lemma source_basis_violations_Nil:
  "bases_by_id s bid = Some b \<Longrightarrow> source_basis_violations s bid = [] \<longleftrightarrow>
     basis_kind b = SourceBasis \<and> claim b = source_state_value (source_state s)"
  by (auto simp: source_basis_violations_def)

lemma verdict_basis_violations_Nil:
  "bases_by_id s bid = Some b \<Longrightarrow> verdict_basis_violations s bid = [] \<longleftrightarrow>
     basis_kind b = VerdictBasis \<and> claim b = assurance_value (assurance s)"
  by (auto simp: verdict_basis_violations_def)

lemma supported_reference_violations:
  "supported_reference s SourceBasis (source_state_value (source_state s)) bid \<longleftrightarrow>
     current_basis_violations s bid = [] \<and> source_basis_violations s bid = []"
  "supported_reference s VerdictBasis (assurance_value (assurance s)) bid \<longleftrightarrow>
     current_basis_violations s bid = [] \<and> verdict_basis_violations s bid = []"
  by (auto simp: supported_reference_def current_basis_violations_Nil
      source_basis_violations_Nil verdict_basis_violations_Nil)

lemma validate_state_Nil [verifier_simps]: "validate_state s = [] \<longleftrightarrow> state_ok s"
  by (auto simp: validate_state_def state_ok_def supported_reference_violations)

definition profile_pair_ok :: "string option \<Rightarrow> int option \<Rightarrow> bool" where
  "profile_pair_ok pid ver \<longleftrightarrow>
     (pid = None \<longleftrightarrow> ver = None) \<and> (\<forall>v. ver = Some v \<longrightarrow> 0 < v)"

definition evidence_time_ok :: "int \<Rightarrow> Evidence \<Rightarrow> bool" where
  "evidence_time_ok now ev \<longleftrightarrow>
     0 \<le> issued_at ev \<and> issued_at ev \<le> now \<and>
     (\<forall>e. expires_at ev = Some e \<longrightarrow> issued_at ev < e \<and>
        (evidence_status ev = EvidenceCurrent \<longrightarrow> now < e) \<and>
        (evidence_status ev = EvidenceExpired \<longrightarrow> e \<le> now)) \<and>
     profile_pair_ok (profile_id ev) (profile_version ev)"

definition request_ok :: "int \<Rightarrow> ReassessmentRequest \<Rightarrow> bool" where
  "request_ok now rq \<longleftrightarrow>
     0 \<le> requested_at rq \<and> requested_at rq \<le> now \<and> requested_at rq \<le> due_at rq \<and>
     (request_status rq = RequestPending \<longrightarrow> closed_at rq = None) \<and>
     (request_status rq = RequestClosed \<longrightarrow> (\<exists>t. closed_at rq = Some t \<and> t \<le> now))"

definition heartbeat_ok :: "int \<Rightarrow> Assurance \<Rightarrow> HeartbeatState \<Rightarrow> bool" where
  "heartbeat_ok now assur hb \<longleftrightarrow>
     0 < interval hb \<and> last_recorded_at hb \<le> now \<and>
     heartbeat_due_at hb = last_recorded_at hb + interval hb \<and>
     (substantive assur \<longrightarrow> now < heartbeat_due_at hb)"

definition profile_supported :: "ControlState \<Rightarrow> string \<Rightarrow> bool" where
  "profile_supported s bid \<longleftrightarrow>
     (\<forall>b. bases_by_id s bid = Some b \<longrightarrow> profile_basis_is_supported b (evidence_by_id s)
        (required_profile_id s) (required_profile_version s))"

definition temporal_ok :: "ControlState \<Rightarrow> bool" where
  "temporal_ok s \<longleftrightarrow>
     0 \<le> logical_time s \<and>
     profile_pair_ok (required_profile_id s) (required_profile_version s) \<and>
     (\<forall>ev\<in>set (evidence s). evidence_time_ok (logical_time s) ev) \<and>
     (\<forall>bid\<in>fset (current_source_basis_ids s) \<union> fset (current_verdict_basis_ids s).
        profile_supported s bid) \<and>
     distinct (map request_id (reassessment_requests s)) \<and>
     (\<forall>rq\<in>set (reassessment_requests s). request_ok (logical_time s) rq) \<and>
     (\<forall>hb. heartbeat s = Some hb \<longrightarrow> heartbeat_ok (logical_time s) (assurance s) hb)"

lemma validate_profile_pair_Nil [verifier_simps]:
  "validate_profile_pair pid ver subject = [] \<longleftrightarrow> profile_pair_ok pid ver"
  by (auto simp: validate_profile_pair_def profile_pair_ok_def split: option.splits)

lemma evidence_time_violations_Nil [verifier_simps]:
  "evidence_time_violations now ev = [] \<longleftrightarrow> evidence_time_ok now ev"
  by (auto simp: evidence_time_violations_def evidence_time_ok_def validate_profile_pair_Nil
      split: option.splits)

lemma request_violations_Nil [verifier_simps]:
  "request_violations now rq = [] \<longleftrightarrow> request_ok now rq"
  by (cases "request_status rq")
    (auto simp: request_violations_def request_ok_def split: option.splits)

lemma heartbeat_violations_Nil [verifier_simps]:
  "heartbeat_violations now assur hb = [] \<longleftrightarrow> heartbeat_ok now assur hb"
  by (auto simp: heartbeat_violations_def heartbeat_ok_def)

lemma basis_profile_violations_Nil [verifier_simps]:
  "basis_profile_violations s bid = [] \<longleftrightarrow> profile_supported s bid"
  by (auto simp: basis_profile_violations_def profile_supported_def split: option.splits)

lemma validate_temporal_state_Nil [verifier_simps]:
  "validate_temporal_state s = [] \<longleftrightarrow> temporal_ok s"
  by (auto simp: validate_temporal_state_def temporal_ok_def verifier_simps
      split: option.splits)

definition valid_state :: "ControlState \<Rightarrow> bool" where
  "valid_state s \<longleftrightarrow> state_ok s \<and> temporal_ok s"

subsection \<open>Transitions\<close>

definition same_content :: "Evidence \<Rightarrow> Evidence \<Rightarrow> bool" where
  "same_content old new \<longleftrightarrow>
     evidence_id old = evidence_id new \<and> dimension old = dimension new \<and>
     dependencies old = dependencies new \<and> outcome old = outcome new"

definition same_metadata :: "Evidence \<Rightarrow> Evidence \<Rightarrow> bool" where
  "same_metadata old new \<longleftrightarrow>
     issued_at old = issued_at new \<and> expires_at old = expires_at new \<and>
     profile_id old = profile_id new \<and> profile_version old = profile_version new"

definition evidence_step :: "Evidence \<Rightarrow> Evidence \<Rightarrow> bool" where
  "evidence_step old new \<longleftrightarrow>
     same_content old new \<and> same_metadata old new \<and>
     (evidence_status new = EvidenceCurrent \<longrightarrow> evidence_status old = EvidenceCurrent)"

definition profile_step :: "ControlState \<Rightarrow> ControlState \<Rightarrow> bool" where
  "profile_step before after \<longleftrightarrow>
     (required_profile_id before = required_profile_id after \<longrightarrow>
      (\<forall>b a. required_profile_version before = Some b \<and> required_profile_version after = Some a
         \<longrightarrow> b \<le> a))"

text \<open>Every transition that both transition checks accept extends the audit history, keeps
  every piece of evidence, basis and request, and only moves forward.\<close>

definition transition_ok :: "ControlState \<Rightarrow> ControlState \<Rightarrow> bool" where
  "transition_ok before after \<longleftrightarrow>
     prefix (history before) (history after) \<and>
     (\<forall>k old. evidence_by_id before k = Some old \<longrightarrow>
        (\<exists>new. evidence_by_id after k = Some new \<and> evidence_step old new)) \<and>
     (\<forall>k b. bases_by_id before k = Some b \<longrightarrow> bases_by_id after k = Some b) \<and>
     (\<forall>k old. requests_by_id before k = Some old \<longrightarrow>
        (\<exists>new. requests_by_id after k = Some new \<and>
           valid_closure (logical_time after) old new)) \<and>
     logical_time before \<le> logical_time after \<and> profile_step before after"

lemma evidence_transition_violations_Nil:
  "evidence_transition_violations after k old = [] \<longleftrightarrow>
     (\<exists>new. evidence_by_id after k = Some new \<and> same_content old new \<and>
        (evidence_status new = EvidenceCurrent \<longrightarrow> evidence_status old = EvidenceCurrent))"
  by (auto simp: evidence_transition_violations_def same_content_def split: option.splits)

lemma basis_transition_violations_Nil:
  "basis_transition_violations after k old = [] \<longleftrightarrow> bases_by_id after k = Some old"
  by (auto simp: basis_transition_violations_def split: option.splits)

lemma evidence_metadata_violations_Nil:
  "evidence_metadata_violations after k old = [] \<longleftrightarrow>
     (\<forall>new. evidence_by_id after k = Some new \<longrightarrow> same_metadata old new)"
  by (auto simp: evidence_metadata_violations_def same_metadata_def split: option.splits)

lemma request_transition_violations_Nil:
  "request_transition_violations after k old = [] \<longleftrightarrow>
     (\<exists>new. requests_by_id after k = Some new \<and> valid_closure (logical_time after) old new)"
  by (auto simp: request_transition_violations_def split: option.splits)

lemma validate_transition_Nil:
  "validate_transition before after = [] \<longleftrightarrow>
     state_ok after \<and> prefix (history before) (history after) \<and>
     (\<forall>k old. evidence_by_id before k = Some old \<longrightarrow>
        (\<exists>new. evidence_by_id after k = Some new \<and> same_content old new \<and>
          (evidence_status new = EvidenceCurrent \<longrightarrow> evidence_status old = EvidenceCurrent))) \<and>
     (\<forall>k b. bases_by_id before k = Some b \<longrightarrow> bases_by_id after k = Some b)"
  unfolding validate_transition_def append_is_Nil_conv viol_Nil not_not
    concat_dict_items_Nil_iff take_prefix_iff validate_state_Nil
    evidence_transition_violations_Nil basis_transition_violations_Nil
    evidence_by_id_def [of before, symmetric] bases_by_id_def [of before, symmetric] ..

lemma profile_step_alt:
  "profile_step before after \<longleftrightarrow>
     \<not> (required_profile_id before = required_profile_id after \<and>
        (case (required_profile_version before, required_profile_version after) of
           (Some b, Some a) \<Rightarrow> a < b | _ \<Rightarrow> False))"
  by (auto simp: profile_step_def split: option.splits)

lemma validate_temporal_transition_Nil:
  "validate_temporal_transition before after = [] \<longleftrightarrow>
     temporal_ok after \<and> logical_time before \<le> logical_time after \<and>
     (\<forall>k old. evidence_by_id before k = Some old \<longrightarrow>
        (\<forall>new. evidence_by_id after k = Some new \<longrightarrow> same_metadata old new)) \<and>
     (\<forall>k old. requests_by_id before k = Some old \<longrightarrow>
        (\<exists>new. requests_by_id after k = Some new \<and>
           valid_closure (logical_time after) old new)) \<and>
     profile_step before after"
  unfolding validate_temporal_transition_def append_is_Nil_conv viol_Nil not_less
    concat_dict_items_Nil_iff validate_temporal_state_Nil profile_step_alt
    evidence_metadata_violations_Nil request_transition_violations_Nil
    evidence_by_id_def [of before, symmetric] requests_by_id_def [of before, symmetric] ..

lemma transition_checks_Nil:
  "validate_transition before after @ validate_temporal_transition before after = [] \<longleftrightarrow>
     valid_state after \<and> transition_ok before after"
  unfolding append_is_Nil_conv validate_transition_Nil validate_temporal_transition_Nil
    valid_state_def transition_ok_def evidence_step_def
  by (auto; metis option.inject)

end
