(* ===== verification/Kernel_Acceptance.thy ===== *)
theory Kernel_Acceptance
  imports Kernel_Verifier_Spec
begin

section \<open>The transitions against the verifier\<close>

text \<open>
  For each event: what the transition changes (the frame lemmas), and that the independent
  verifier accepts the result. The lemmas \<open>state_ok_shrink\<close> and
  \<open>temporal_ok_step\<close> carry the part the events share: references only shrink, and a
  claim without a surviving reference is withdrawn.
\<close>

subsection \<open>Survival of references\<close>

lemma mem_surviving_ids [simp]:
  "bid |\<in>| surviving_ids keep bmap ids \<longleftrightarrow> bid |\<in>| ids \<and> (\<exists>b. bmap bid = Some b \<and> keep b)"
  by (auto simp: surviving_ids_def split: option.splits)

lemma ffilter_cong_mem:
  "(\<And>x. x |\<in>| A \<Longrightarrow> P x = Q x) \<Longrightarrow> ffilter P A = ffilter Q A"
  by (auto intro: fset_eqI)

lemma basis_is_current_surviving:
  "ffilter (basis_is_current s) ids =
   surviving_ids (\<lambda>b. basis_is_supported b (evidence_by_id s)) (bases_by_id s) ids"
  unfolding surviving_ids_def
  by (rule ffilter_cong_mem)
    (auto simp: basis_is_current_def basis_is_supported_def split: option.splits)

lemma matches_required_profile_eq:
  "evidence_by_id s m = Some ev \<Longrightarrow> evidence_matches_required_profile s m \<longleftrightarrow>
     matches_required_profile ev (required_profile_id s) (required_profile_version s)"
  by (simp add: evidence_matches_required_profile_def matches_required_profile_def)

lemma temporal_basis_is_current_surviving:
  "ffilter (temporal_basis_is_current s) ids =
   surviving_ids (\<lambda>b. profile_basis_is_supported b (evidence_by_id s)
     (required_profile_id s) (required_profile_version s)) (bases_by_id s) ids"
  unfolding surviving_ids_def
  by (rule ffilter_cong_mem)
    (auto simp: temporal_basis_is_current_def profile_basis_is_supported_def
      matches_required_profile_eq split: option.splits)

lemma profile_supported_imp_supported:
  "profile_basis_is_supported b evmap pid ver \<Longrightarrow> basis_is_supported b evmap"
  by (auto simp: profile_basis_is_supported_def basis_is_supported_def split: option.splits)

text \<open>Support only depends on the evidence that is still current, so it can only be lost
  when statuses move away from current and the metadata stays.\<close>

lemma profile_support_kept:
  assumes "profile_basis_is_supported b evmap pid ver" and "basis_is_supported b evmap'"
    and "\<And>k ev'. evmap' k = Some ev' \<Longrightarrow> \<exists>ev. evmap k = Some ev \<and> evidence_step ev ev'"
  shows "profile_basis_is_supported b evmap' pid ver"
  unfolding profile_basis_is_supported_def
proof (intro conjI ballI)
  show "member_evidence_ids b \<noteq> {||}" and "approved b"
    using assms(2) by (simp_all add: basis_is_supported_def)
next
  fix m assume m: "m |\<in>| member_evidence_ids b"
  then obtain ev' where ev': "evmap' m = Some ev'" "evidence_status ev' = EvidenceCurrent"
    using assms(2) by (auto simp: basis_is_supported_def split: option.splits)
  then obtain ev where ev: "evmap m = Some ev" "evidence_step ev ev'" using assms(3) by blast
  moreover have "matches_required_profile ev pid ver"
    using assms(1) m ev(1) by (auto simp: profile_basis_is_supported_def split: option.splits)
  ultimately show "case evmap' m of None \<Rightarrow> False | Some ev \<Rightarrow>
      evidence_status ev = EvidenceCurrent \<and> matches_required_profile ev pid ver"
    using ev' by (auto simp: evidence_step_def same_metadata_def matches_required_profile_def)
qed

subsection \<open>What the events share\<close>

text \<open>\<open>withdrawn s post\<close>: the claims of \<open>post\<close> are those of \<open>s\<close>, reduced to the references
  that survive; this is what every event but a reassessment and a retirement does.\<close>

definition withdrawn :: "ControlState \<Rightarrow> ControlState \<Rightarrow> bool" where
  "withdrawn s post \<longleftrightarrow>
     obligation post = obligation s \<and> bases post = bases s \<and>
     current_source_basis_ids post |\<subseteq>| current_source_basis_ids s \<and>
     current_verdict_basis_ids post |\<subseteq>| current_verdict_basis_ids s \<and>
     source_state post = (if source_state s \<noteq> SourceUnknown \<and>
        current_source_basis_ids post = {||} then SourceUnknown else source_state s) \<and>
     (assurance post = assurance s \<or> current_verdict_basis_ids post = {||} \<and>
        assurance post \<in> {AssuranceStale, AssuranceNA}) \<and>
     (obligation s \<noteq> ObligationCurrent \<longrightarrow> assurance post = AssuranceNA) \<and>
     (obligation s = ObligationCurrent \<and> substantive (assurance post) \<longrightarrow>
        current_verdict_basis_ids post \<noteq> {||})"

lemma state_ok_shrink:
  assumes "state_ok s" and "withdrawn s post"
    and "distinct (map evidence_id (evidence post))"
    and "\<And>bid b. bid |\<in>| current_source_basis_ids post |\<union>| current_verdict_basis_ids post \<Longrightarrow>
      bases_by_id s bid = Some b \<Longrightarrow> basis_is_supported b (evidence_by_id post)"
  shows "state_ok post"
proof -
  have bases: "bases_by_id post = bases_by_id s"
    using assms(2) by (simp add: withdrawn_def bases_by_id_def)
  have src: "supported_reference post SourceBasis (source_state_value (source_state post)) bid"
    if "bid |\<in>| current_source_basis_ids post" for bid
  proof -
    have "bid |\<in>| current_source_basis_ids s" and "source_state post = source_state s"
      using that assms(2) by (auto simp: withdrawn_def)
    then have "supported_reference s SourceBasis (source_state_value (source_state post)) bid"
      using assms(1) by (simp add: state_ok_def)
    then show ?thesis using that assms(4) by (fastforce simp: supported_reference_def bases)
  qed
  have ver: "supported_reference post VerdictBasis (assurance_value (assurance post)) bid"
    if "bid |\<in>| current_verdict_basis_ids post" for bid
  proof -
    have "bid |\<in>| current_verdict_basis_ids s" and "assurance post = assurance s"
      using that assms(2) by (auto simp: withdrawn_def)
    then have "supported_reference s VerdictBasis (assurance_value (assurance post)) bid"
      using assms(1) by (simp add: state_ok_def)
    then show ?thesis using that assms(4) by (fastforce simp: supported_reference_def bases)
  qed
  show ?thesis
    using src ver assms(1-3) unfolding state_ok_def withdrawn_def by (auto split: if_splits)
qed

lemma temporal_ok_step:
  assumes "temporal_ok s" and "logical_time s \<le> logical_time post"
    and "profile_pair_ok (required_profile_id post) (required_profile_version post)"
    and "\<And>ev. ev \<in> set (evidence post) \<Longrightarrow> evidence_time_ok (logical_time post) ev"
    and "\<And>bid b. bid |\<in>| current_source_basis_ids post |\<union>| current_verdict_basis_ids post \<Longrightarrow>
      bases_by_id post bid = Some b \<Longrightarrow> profile_basis_is_supported b (evidence_by_id post)
        (required_profile_id post) (required_profile_version post)"
    and "distinct (map request_id (reassessment_requests post))"
    and "\<And>rq. rq \<in> set (reassessment_requests post) \<Longrightarrow> request_ok (logical_time post) rq"
    and "\<And>hb. heartbeat post = Some hb \<Longrightarrow>
      heartbeat_ok (logical_time post) (assurance post) hb"
  shows "temporal_ok post"
  using assms unfolding temporal_ok_def profile_supported_def by (auto; linarith)

lemma request_ok_later: "request_ok t rq \<Longrightarrow> t \<le> t' \<Longrightarrow> request_ok t' rq"
  by (fastforce simp: request_ok_def)

lemma valid_closure_refl [simp]: "valid_closure t rq rq"
  by (simp add: valid_closure_def)

lemma evidence_step_refl [simp]: "evidence_step ev ev"
  by (simp add: evidence_step_def same_content_def same_metadata_def)

text \<open>Mapping a status change over the evidence.\<close>

lemma evidence_by_id_map:
  assumes "evidence post = map f (evidence s)" and "\<And>ev. evidence_id (f ev) = evidence_id ev"
  shows "evidence_by_id post k = map_option f (evidence_by_id s k)"
  using assms by (simp add: evidence_by_id_def dict_by_map)

lemma evidence_ids_map:
  assumes "evidence post = map f (evidence s)" and "\<And>ev. evidence_id (f ev) = evidence_id ev"
  shows "evidence_ids post = evidence_ids s"
  using assms by (intro fset_eqI) (simp add: image_image)

subsection \<open>Dependency change\<close>

lemma invalidate_affected_step [simp]:
  "evidence_step ev (invalidate_affected dep ev)"
  by (simp add: invalidate_affected_def invalidate_def evidence_step_def same_content_def
      same_metadata_def)

lemma invalidate_affected_id [simp]: "evidence_id (invalidate_affected dep ev) = evidence_id ev"
  by (simp add: invalidate_affected_def)

lemma dependency_change_frame:
  assumes "apply_dependency_change s e = (post, tr)"
  shows "evidence post = map (invalidate_affected (dependency_id e)) (evidence s)"
    and "bases post = bases s" and "obligation post = obligation s"
    and "control_id post = control_id s"
    and "logical_time post = logical_time s" and "heartbeat post = heartbeat s"
    and "required_profile_id post = required_profile_id s"
    and "required_profile_version post = required_profile_version s"
    and "reassessment_requests post = reassessment_requests s"
    and "\<exists>a. history post = history s @ [a]"
  using assms by (auto simp: apply_dependency_change_def Let_def)

lemma dependency_change_claims:
  assumes "apply_dependency_change s e = (post, tr)"
  shows "current_source_basis_ids post = surviving_ids (\<lambda>b. basis_is_supported b
      (evidence_by_id post)) (bases_by_id s) (current_source_basis_ids s)"
    and "current_verdict_basis_ids post = surviving_ids (\<lambda>b. basis_is_supported b
      (evidence_by_id post)) (bases_by_id s) (current_verdict_basis_ids s)"
    and "source_state post = (if source_state s \<noteq> SourceUnknown \<and>
      current_source_basis_ids post = {||} then SourceUnknown else source_state s)"
    and "assurance post = (if obligation s \<noteq> ObligationCurrent then AssuranceNA
      else if substantive (assurance s) \<and> current_verdict_basis_ids post = {||}
      then AssuranceStale else assurance s)"
proof -
  have post: "post = fst (apply_dependency_change s e)" using assms by simp
  show "current_source_basis_ids post = surviving_ids (\<lambda>b. basis_is_supported b
      (evidence_by_id post)) (bases_by_id s) (current_source_basis_ids s)"
    and "current_verdict_basis_ids post = surviving_ids (\<lambda>b. basis_is_supported b
      (evidence_by_id post)) (bases_by_id s) (current_verdict_basis_ids s)"
    and "source_state post = (if source_state s \<noteq> SourceUnknown \<and>
      current_source_basis_ids post = {||} then SourceUnknown else source_state s)"
    and "assurance post = (if obligation s \<noteq> ObligationCurrent then AssuranceNA
      else if substantive (assurance s) \<and> current_verdict_basis_ids post = {||}
      then AssuranceStale else assurance s)"
    unfolding post
    by (simp_all add: apply_dependency_change_def Let_def basis_is_current_surviving
        evidence_by_id_def bases_by_id_def)
qed

lemma dependency_change_withdrawn:
  assumes "state_ok s" and "apply_dependency_change s e = (post, tr)"
  shows "withdrawn s post"
proof -
  note claims = dependency_change_claims [OF assms(2)]
  have "current_source_basis_ids post |\<subseteq>| current_source_basis_ids s"
    and "current_verdict_basis_ids post |\<subseteq>| current_verdict_basis_ids s"
    unfolding claims(1,2) by auto
  then show ?thesis
    using assms(1) claims(3,4) dependency_change_frame(2,3) [OF assms(2)]
    by (auto simp: withdrawn_def state_ok_def)
qed

text \<open>
  The verifier's own survival sets use the bases and evidence after the event; both agree
  with the transition's.
\<close>

lemma dependency_change_valid:
  assumes "valid_state s" and "apply_dependency_change s e = (post, tr)"
  shows "valid_state post" and "transition_ok s post"
proof -
  note frame = dependency_change_frame [OF assms(2)]
  note claims = dependency_change_claims [OF assms(2)]
  have ok: "state_ok s" "temporal_ok s" using assms(1) by (simp_all add: valid_state_def)
  have evmap: "evidence_by_id post k = map_option (invalidate_affected (dependency_id e))
      (evidence_by_id s k)" for k
    by (rule evidence_by_id_map [OF frame(1)]) simp
  have bases: "bases_by_id post = bases_by_id s" by (simp add: bases_by_id_def frame)
  have "state_ok post"
    using ok(1) frame(1) claims(1,2)
    by (intro state_ok_shrink [OF ok(1) dependency_change_withdrawn [OF ok(1) assms(2)]])
      (auto simp: state_ok_def comp_def)
  moreover have "temporal_ok post"
  proof (rule temporal_ok_step [OF ok(2)])
    show "evidence_time_ok (logical_time post) ev" if "ev \<in> set (evidence post)" for ev
      using that ok(2) by (auto simp: frame temporal_ok_def evidence_time_ok_def
          invalidate_affected_def invalidate_def)
  next
    fix bid b
    assume "bid |\<in>| current_source_basis_ids post |\<union>| current_verdict_basis_ids post"
      and b: "bases_by_id post bid = Some b"
    then have cur: "bid |\<in>| current_source_basis_ids s |\<union>| current_verdict_basis_ids s"
      and sup: "basis_is_supported b (evidence_by_id post)"
      by (auto simp: claims bases)
    show "profile_basis_is_supported b (evidence_by_id post) (required_profile_id post)
        (required_profile_version post)"
    proof (rule profile_support_kept [OF _ sup, of "evidence_by_id s"])
      show "profile_basis_is_supported b (evidence_by_id s) (required_profile_id post)
          (required_profile_version post)"
        using cur b ok(2) by (auto simp: temporal_ok_def profile_supported_def bases frame)
    qed (auto simp: evmap)
  next
    show "heartbeat_ok (logical_time post) (assurance post) hb" if "heartbeat post = Some hb" for hb
      using that ok(2) by (auto simp: frame claims(4) temporal_ok_def heartbeat_ok_def)
  qed (use ok(2) in \<open>auto simp: frame temporal_ok_def\<close>)
  ultimately show "valid_state post" by (simp add: valid_state_def)
  show "transition_ok s post"
    using frame(10) by (auto simp: transition_ok_def evmap bases frame(1-9) requests_by_id_def
        profile_step_def prefix_def)
qed

lemma dependency_change_verified:
  assumes "apply_dependency_change s e = (post, tr)"
  shows "validate_dependency_change s e post = []"
    and "unchanged_temporal_governance s post False = []"
proof -
  note frame = dependency_change_frame [OF assms]
  note claims = dependency_change_claims [OF assms]
  have evmap: "evidence_by_id post k = map_option (invalidate_affected (dependency_id e))
      (evidence_by_id s k)" for k
    by (rule evidence_by_id_map [OF frame(1)]) simp
  have bases: "bases_by_id post = bases_by_id s" "basis_ids post = basis_ids s"
    by (simp_all add: bases_by_id_def basis_ids_def frame)
  have ids: "evidence_ids post = evidence_ids s" by (rule evidence_ids_map [OF frame(1)]) simp
  have status: "evidence_status (invalidate_affected (dependency_id e) old) =
      (if evidence_status old = EvidenceCurrent \<and> dependency_id e |\<in>| dependencies old
       then EvidenceInvalidated else evidence_status old)" for old
    by (simp add: invalidate_affected_def affected_by_def invalidate_def)
  show "validate_dependency_change s e post = []"
    unfolding validate_dependency_change_def Let_def append_is_Nil_conv viol_Nil
      concat_dict_items_Nil_iff evidence_by_id_def [of s, symmetric]
    using claims by (auto simp: evmap status ids bases split: option.splits)
  show "unchanged_temporal_governance s post False = []"
    by (simp add: unchanged_temporal_governance_def frame)
qed

subsection \<open>Retirement\<close>

lemma retire_frame:
  assumes "apply_retire s e = Inr (post, tr)"
  shows "evidence post = evidence s @ [retirement_evidence e]"
    and "bases post = bases s" and "obligation post = ObligationRetired"
    and "control_id post = control_id s"
    and "logical_time post = logical_time s" and "heartbeat post = heartbeat s"
    and "required_profile_id post = required_profile_id s"
    and "required_profile_version post = required_profile_version s"
    and "reassessment_requests post = reassessment_requests s"
    and "\<exists>a. history post = history s @ [a]"
    and "source_state post = SourceUnknown" and "assurance post = AssuranceNA"
    and "current_source_basis_ids post = {||}" and "current_verdict_basis_ids post = {||}"
    and "retire_authority e = ''I3''"
    and "evidence_id (retirement_evidence e) \<notin> evidence_id ` set (evidence s)"
    and "evidence_status (retirement_evidence e) = EvidenceCurrent"
  using assms by (auto simp: apply_retire_def Let_def split: if_splits)

text \<open>Appending evidence or bases with new identities leaves the old lookups alone.\<close>

lemma dict_by_append_new:
  assumes "dict_by key xs k = Some x" and "k \<notin> key ` set ys"
  shows "dict_by key (xs @ ys) k = Some x"
proof -
  have "dict_by key ys k = None" using assms(2) by (simp add: dict_by_None_iff)
  then show ?thesis using assms(1) by (simp add: dict_by_append map_add_def)
qed

lemma retire_valid:
  assumes "valid_state s" and "apply_retire s e = Inr (post, tr)"
    and "evidence_time_ok (logical_time s) (retirement_evidence e)"
  shows "valid_state post" and "transition_ok s post"
proof -
  note frame = retire_frame [OF assms(2)]
  have "state_ok post"
    using assms(1) frame(16) by (auto simp: valid_state_def state_ok_def frame)
  moreover have "temporal_ok post"
    using assms(1,3) by (auto simp: valid_state_def temporal_ok_def frame heartbeat_ok_def)
  ultimately show "valid_state post" by (simp add: valid_state_def)
  have "evidence_by_id post k = Some old" if "evidence_by_id s k = Some old" for k old
  proof -
    have "k \<noteq> evidence_id (retirement_evidence e)"
      using dict_by_SomeD [OF that [unfolded evidence_by_id_def]] frame(16) by (metis imageI)
    then show ?thesis
      using that dict_by_append_new [of evidence_id "evidence s" k old "[retirement_evidence e]"]
      by (simp add: evidence_by_id_def frame)
  qed
  then show "transition_ok s post"
    using frame(10) by (auto simp: transition_ok_def bases_by_id_def requests_by_id_def
        profile_step_def prefix_def frame(1-9))
qed

lemma retire_verified:
  assumes "apply_retire s e = Inr (post, tr)"
  shows "validate_retirement s e post = []"
    and "unchanged_temporal_governance s post False = []"
proof -
  note frame = retire_frame [OF assms]
  have "evidence_by_id post (evidence_id (retirement_evidence e)) = Some (retirement_evidence e)"
    by (simp add: evidence_by_id_def frame dict_by_append dict_by_Cons map_add_def)
  moreover have "evidence_ids post |-| evidence_ids s = {|evidence_id (retirement_evidence e)|}"
    using frame(16) by (intro fset_eqI) (auto simp: frame(1); metis imageI)
  ultimately show "validate_retirement s e post = []"
    by (simp add: validate_retirement_def Let_def frame basis_ids_def)
  show "unchanged_temporal_governance s post False = []"
    by (simp add: unchanged_temporal_governance_def frame)
qed

end
