(* ===== verification/Kernel_Temporal_Acceptance.thy ===== *)
theory Kernel_Temporal_Acceptance
  imports Kernel_Acceptance
begin

section \<open>The temporal transitions against the verifier\<close>

text \<open>
  Clock advance, profile change, reassessment request and heartbeat. Clock and profile
  changes are only accepted when the current verdict references belong to a substantive
  verdict (\<open>verdict_canonical\<close>): the verifier drops the references of a missed
  heartbeat unconditionally and never drops those of a non-current obligation, while the
  transition decides by the assurance.
\<close>

definition verdict_canonical :: "ControlState \<Rightarrow> bool" where
  "verdict_canonical s \<longleftrightarrow>
     (current_verdict_basis_ids s \<noteq> {||} \<longrightarrow> substantive (assurance s))"

definition surviving_under ::
  "ControlState \<Rightarrow> (string \<rightharpoonup> Evidence) \<Rightarrow> string option \<Rightarrow> int option \<Rightarrow> string fset \<Rightarrow> string fset"
  where "surviving_under s evmap pid ver ids =
     surviving_ids (\<lambda>b. profile_basis_is_supported b evmap pid ver) (bases_by_id s) ids"

lemma mem_surviving_under [simp]:
  "bid |\<in>| surviving_under s evmap pid ver ids \<longleftrightarrow> bid |\<in>| ids \<and>
     (\<exists>b. bases_by_id s bid = Some b \<and> profile_basis_is_supported b evmap pid ver)"
  by (simp add: surviving_under_def)

lemma surviving_under_empty [simp]: "surviving_under s evmap pid ver {||} = {||}"
  by (auto intro: fset_eqI)

lemma expected_basis_survival_eq:
  "expected_basis_survival s evmap pid ver =
     (surviving_under s evmap pid ver (current_source_basis_ids s),
      surviving_under s evmap pid ver (current_verdict_basis_ids s))"
  by (simp add: expected_basis_survival_def surviving_under_def)

text \<open>\<open>claims_after\<close>: what \<open>canonical_claims\<close> computes, for an interim state with
  the references of the state before.\<close>

lemma canonical_claims_eq:
  assumes "canonical_claims s interim force = (source, assur, sb, vb)"
    and "bases interim = bases s"
    and "current_source_basis_ids interim = current_source_basis_ids s"
    and "current_verdict_basis_ids interim = current_verdict_basis_ids s"
  shows "sb = surviving_under s (evidence_by_id interim) (required_profile_id interim)
      (required_profile_version interim) (current_source_basis_ids s)"
    and "vb = (if obligation s \<noteq> ObligationCurrent \<or> force \<and> substantive (assurance s) then {||}
      else surviving_under s (evidence_by_id interim) (required_profile_id interim)
        (required_profile_version interim) (current_verdict_basis_ids s))"
    and "source = (if source_state s \<noteq> SourceUnknown \<and> sb = {||} then SourceUnknown
      else source_state s)"
    and "assur = (if obligation s \<noteq> ObligationCurrent then AssuranceNA
      else if substantive (assurance s) \<and> (force \<or> vb = {||}) then AssuranceStale
      else assurance s)"
  using assms
  by (auto simp: canonical_claims_def temporal_surviving_bases_def Let_def surviving_under_def
      temporal_basis_is_current_surviving bases_by_id_def split: if_splits)

subsection \<open>Advancing the clock\<close>

lemma expire_due_step [simp]: "evidence_step ev (expire_due t ev)"
  by (simp add: expire_due_def expire_def evidence_step_def same_content_def same_metadata_def)

lemma expire_due_id [simp]: "evidence_id (expire_due t ev) = evidence_id ev"
  by (simp add: expire_due_def)

lemma expire_due_status:
  "evidence_status (expire_due t ev) =
     (if evidence_status ev = EvidenceCurrent \<and> evidence_due t ev then EvidenceExpired
      else evidence_status ev)"
  by (simp add: expire_due_def expire_def)

lemma expire_due_time_ok:
  assumes "evidence_time_ok now ev" and "now \<le> t"
  shows "evidence_time_ok t (expire_due t ev)"
  using assms
  by (auto simp: expire_due_def expire_def evidence_time_ok_def evidence_due_def
      split: option.splits)

lemma advance_clock_frame:
  assumes "apply_advance_clock s e = Inr (post, tr)"
  shows "evidence post = map (expire_due (target_time e)) (evidence s)"
    and "bases post = bases s" and "obligation post = obligation s"
    and "control_id post = control_id s"
    and "logical_time post = target_time e" and "heartbeat post = heartbeat s"
    and "required_profile_id post = required_profile_id s"
    and "required_profile_version post = required_profile_version s"
    and "reassessment_requests post = reassessment_requests s"
    and "history post = history s @ [advance_clock_audit s e]"
    and "logical_time s \<le> target_time e"
  using assms
  by (auto simp: apply_advance_clock_def Let_def split: if_splits prod.splits)

lemma advance_clock_claims:
  assumes "apply_advance_clock s e = Inr (post, tr)"
  defines "missed \<equiv> heartbeat_due (target_time e) (heartbeat s)"
  shows "current_source_basis_ids post = surviving_under s (evidence_by_id post)
      (required_profile_id s) (required_profile_version s) (current_source_basis_ids s)"
    and "current_verdict_basis_ids post = (if obligation s \<noteq> ObligationCurrent \<or>
        missed \<and> substantive (assurance s) then {||}
      else surviving_under s (evidence_by_id post) (required_profile_id s)
        (required_profile_version s) (current_verdict_basis_ids s))"
    and "source_state post = (if source_state s \<noteq> SourceUnknown \<and>
      current_source_basis_ids post = {||} then SourceUnknown else source_state s)"
    and "assurance post = (if obligation s \<noteq> ObligationCurrent then AssuranceNA
      else if substantive (assurance s) \<and> (missed \<or> current_verdict_basis_ids post = {||})
      then AssuranceStale else assurance s)"
proof -
  define interim where "interim = s\<lparr>evidence := map (expire_due (target_time e)) (evidence s),
    logical_time := target_time e\<rparr>"
  obtain source assur sb vb
    where c: "canonical_claims s interim missed = (source, assur, sb, vb)"
    by (cases "canonical_claims s interim missed")
  have post: "current_source_basis_ids post = sb" "current_verdict_basis_ids post = vb"
    "source_state post = source" "assurance post = assur"
    using assms(1) c
    by (auto simp: apply_advance_clock_def Let_def interim_def missed_def split: if_splits)
  have interim: "evidence_by_id interim = evidence_by_id post" "bases interim = bases s"
    "current_source_basis_ids interim = current_source_basis_ids s"
    "current_verdict_basis_ids interim = current_verdict_basis_ids s"
    "required_profile_id interim = required_profile_id s"
    "required_profile_version interim = required_profile_version s"
    by (simp_all add: interim_def evidence_by_id_def advance_clock_frame [OF assms(1)])
  note claims = canonical_claims_eq [OF c interim(2-4), unfolded interim, folded post]
  show "current_source_basis_ids post = surviving_under s (evidence_by_id post)
      (required_profile_id s) (required_profile_version s) (current_source_basis_ids s)"
    by (rule claims(1))
  show "current_verdict_basis_ids post = (if obligation s \<noteq> ObligationCurrent \<or>
        missed \<and> substantive (assurance s) then {||}
      else surviving_under s (evidence_by_id post) (required_profile_id s)
        (required_profile_version s) (current_verdict_basis_ids s))"
    by (rule claims(2))
  show "source_state post = (if source_state s \<noteq> SourceUnknown \<and>
      current_source_basis_ids post = {||} then SourceUnknown else source_state s)"
    by (rule claims(3))
  show "assurance post = (if obligation s \<noteq> ObligationCurrent then AssuranceNA
      else if substantive (assurance s) \<and> (missed \<or> current_verdict_basis_ids post = {||})
      then AssuranceStale else assurance s)"
    by (rule claims(4))
qed

text \<open>The withdrawal shared by the clock and the profile change.\<close>

lemma claims_withdrawn:
  assumes "state_ok s"
    and "obligation post = obligation s" "bases post = bases s"
    and "current_source_basis_ids post = surviving_under s m p v (current_source_basis_ids s)"
    and "current_verdict_basis_ids post = (if obligation s \<noteq> ObligationCurrent \<or>
      missed \<and> substantive (assurance s) then {||}
      else surviving_under s m p v (current_verdict_basis_ids s))"
    and "source_state post = (if source_state s \<noteq> SourceUnknown \<and>
      current_source_basis_ids post = {||} then SourceUnknown else source_state s)"
    and "assurance post = (if obligation s \<noteq> ObligationCurrent then AssuranceNA
      else if substantive (assurance s) \<and> (missed \<or> current_verdict_basis_ids post = {||})
      then AssuranceStale else assurance s)"
  shows "withdrawn s post"
proof -
  have "current_source_basis_ids post |\<subseteq>| current_source_basis_ids s"
    "current_verdict_basis_ids post |\<subseteq>| current_verdict_basis_ids s"
    unfolding assms(4,5) by auto
  moreover have "assurance post = assurance s \<or> current_verdict_basis_ids post = {||} \<and>
      assurance post \<in> {AssuranceStale, AssuranceNA}"
    using assms(1,5,7) by (auto simp: state_ok_def)
  ultimately show ?thesis
    using assms(1-3,6,7) by (auto simp: withdrawn_def state_ok_def)
qed

lemma advance_clock_valid:
  assumes "valid_state s" and "apply_advance_clock s e = Inr (post, tr)"
  shows "valid_state post" and "transition_ok s post"
proof -
  note frame = advance_clock_frame [OF assms(2)]
  note claims = advance_clock_claims [OF assms(2)]
  have ok: "state_ok s" "temporal_ok s" using assms(1) by (simp_all add: valid_state_def)
  have evmap: "evidence_by_id post k = map_option (expire_due (target_time e))
      (evidence_by_id s k)" for k
    by (rule evidence_by_id_map [OF frame(1)]) simp
  have bases: "bases_by_id post = bases_by_id s" by (simp add: bases_by_id_def frame)
  have refs: "profile_basis_is_supported b (evidence_by_id post) (required_profile_id s)
      (required_profile_version s)"
    if "bid |\<in>| current_source_basis_ids post |\<union>| current_verdict_basis_ids post"
      "bases_by_id s bid = Some b" for bid b
    using that by (auto simp: claims(1,2) split: if_splits)
  have "withdrawn s post"
    by (rule claims_withdrawn [OF ok(1) frame(3,2) claims])
  then have "state_ok post"
    by (rule state_ok_shrink [OF ok(1)])
      (use ok(1) in \<open>auto simp: frame(1) state_ok_def comp_def
        intro: profile_supported_imp_supported refs\<close>)
  moreover have "temporal_ok post"
  proof (rule temporal_ok_step [OF ok(2)])
    show "evidence_time_ok (logical_time post) ev" if "ev \<in> set (evidence post)" for ev
      using that ok(2) frame(11) by (auto simp: frame(1,5) temporal_ok_def intro: expire_due_time_ok)
    show "request_ok (logical_time post) rq" if "rq \<in> set (reassessment_requests post)" for rq
      using that ok(2) frame(11)
      by (auto simp: frame(5,9) temporal_ok_def intro: request_ok_later)
    show "heartbeat_ok (logical_time post) (assurance post) hb" if "heartbeat post = Some hb" for hb
      using that ok(2) frame(11) claims(4)
      by (auto simp: frame(5,6) temporal_ok_def heartbeat_ok_def heartbeat_due_def
          split: if_splits)
    show "profile_basis_is_supported b (evidence_by_id post) (required_profile_id post)
        (required_profile_version post)"
      if "bid |\<in>| current_source_basis_ids post |\<union>| current_verdict_basis_ids post"
        "bases_by_id post bid = Some b" for bid b
      using that by (auto simp: frame(7,8) bases intro: refs)
  qed (use ok(2) frame(11) in \<open>auto simp: frame(1-9) temporal_ok_def\<close>)
  ultimately show "valid_state post" by (simp add: valid_state_def)
  show "transition_ok s post"
    using frame(11) by (auto simp: transition_ok_def evmap bases frame(1-10) requests_by_id_def
        profile_step_def)
qed

lemma advance_clock_verified:
  assumes "valid_state s" and "verdict_canonical s" and "apply_advance_clock s e = Inr (post, tr)"
  shows "validate_advance_clock s e post = []"
proof -
  note frame = advance_clock_frame [OF assms(3)]
  note claims = advance_clock_claims [OF assms(3)]
  have ok: "state_ok s" using assms(1) by (simp add: valid_state_def)
  have evmap: "evidence_by_id post k = map_option (expire_due (target_time e))
      (evidence_by_id s k)" for k
    by (rule evidence_by_id_map [OF frame(1)]) simp
  have ids: "evidence_ids post = evidence_ids s" by (rule evidence_ids_map [OF frame(1)]) simp
  have missed: "(case heartbeat s of None \<Rightarrow> False | Some hb \<Rightarrow>
      heartbeat_due_at hb \<le> target_time e) = heartbeat_due (target_time e) (heartbeat s)"
    by (simp add: heartbeat_due_def)
  have due: "(case expires_at ev of None \<Rightarrow> False | Some x \<Rightarrow> x \<le> target_time e) =
      evidence_due (target_time e) ev" for ev
    by (simp add: evidence_due_def)
  have sub: "current_verdict_basis_ids s \<noteq> {||} \<Longrightarrow>
      obligation s = ObligationCurrent \<and> substantive (assurance s)"
    using assms(2) ok by (auto simp: verdict_canonical_def state_ok_def)
  have verdict: "current_verdict_basis_ids post =
      (if heartbeat_due (target_time e) (heartbeat s) then {||}
       else surviving_under s (evidence_by_id post) (required_profile_id s)
         (required_profile_version s) (current_verdict_basis_ids s))"
    using sub claims(2) by (cases "current_verdict_basis_ids s = {||}") auto
  show ?thesis
    unfolding validate_advance_clock_def Let_def expected_basis_survival_eq prod.case
      append_is_Nil_conv viol_Nil missed due
      concat_dict_items_Nil_iff evidence_by_id_def [of s, symmetric]
      validate_exact_audit_def not_not frame(7,8)
    using frame(11) claims(1,3,4)
    by (auto simp: evmap expire_due_status ids verdict frame(1-10) advance_clock_audit_def
        expired_ids_def split: option.splits)
qed

subsection \<open>Changing the required profile\<close>

lemma request_from_event_ok:
  assumes "request_from_event event now = Inr rq" and "0 \<le> now"
  shows "request_ok now rq" and "request_id rq = new_request_id event"
    and "rq = \<lparr>request_id = new_request_id event, reason = request_reason event,
      requested_at = now, due_at = request_due_at event, request_status = RequestPending,
      closed_at = None\<rparr>"
    and "request_authority event = ''I3''"
  using assms by (auto simp: request_from_event_def request_ok_def split: if_splits)

lemma profile_change_requests_cases:
  assumes "profile_change_requests s event = Inr requests"
    and "(profile_request_id event = None) = (profile_request_due_at event = None)"
    and "0 \<le> logical_time s"
  obtains (none) "profile_request_id event = None" and "requests = reassessment_requests s"
  | (one) rid due rq where "profile_request_id event = Some rid"
      and "profile_request_due_at event = Some due"
      and "rid \<notin> request_id ` set (reassessment_requests s)"
      and "requests = reassessment_requests s @ [rq]"
      and "request_ok (logical_time s) rq"
      and "rq = \<lparr>request_id = rid, reason = ''required profile changed'',
        requested_at = logical_time s, due_at = due, request_status = RequestPending,
        closed_at = None\<rparr>"
proof (cases "profile_request_id event")
  case None
  then show thesis using assms(1) none by (simp add: profile_change_requests_def)
next
  case (Some rid)
  with assms(2) obtain due where due: "profile_request_due_at event = Some due" by auto
  with Some assms(1) obtain rq where new: "rid |\<notin>| request_ids s"
    "requests = reassessment_requests s @ [rq]"
    and rq: "request_from_event \<lparr>new_request_id = rid,
        request_reason = ''required profile changed'', request_due_at = due,
        request_authority = profile_authority event\<rparr> (logical_time s) = Inr rq"
    by (auto simp: profile_change_requests_def split: if_splits sum.splits)
  show thesis
    using one [OF Some due _ new(2) request_from_event_ok(1) [OF rq assms(3)]]
      request_from_event_ok(3) [OF rq assms(3)] new(1) by simp
qed

lemma profile_change_frame:
  assumes "apply_profile_change s e = Inr (post, tr)"
  shows "evidence post = evidence s"
    and "bases post = bases s" and "obligation post = obligation s"
    and "control_id post = control_id s"
    and "logical_time post = logical_time s" and "heartbeat post = heartbeat s"
    and "required_profile_id post = Some (new_profile_id e)"
    and "required_profile_version post = Some (new_profile_version e)"
    and "history post = history s @ [profile_change_audit s e]"
    and "profile_change_requests s e = Inr (reassessment_requests post)"
    and "(profile_request_id e = None) = (profile_request_due_at e = None)"
    and "profile_authority e = ''I3''" and "0 < new_profile_version e"
    and "required_profile_id s = Some (new_profile_id e) \<Longrightarrow>
      required_profile_version s = Some v \<Longrightarrow> v < new_profile_version e"
  using assms
  by (auto simp: apply_profile_change_def Let_def split: if_splits prod.splits sum.splits
      option.splits)

lemma profile_change_claims:
  assumes "apply_profile_change s e = Inr (post, tr)"
  shows "current_source_basis_ids post = surviving_under s (evidence_by_id s)
      (Some (new_profile_id e)) (Some (new_profile_version e)) (current_source_basis_ids s)"
    and "current_verdict_basis_ids post = (if obligation s \<noteq> ObligationCurrent \<or>
        False \<and> substantive (assurance s) then {||}
      else surviving_under s (evidence_by_id s) (Some (new_profile_id e))
        (Some (new_profile_version e)) (current_verdict_basis_ids s))"
    and "source_state post = (if source_state s \<noteq> SourceUnknown \<and>
      current_source_basis_ids post = {||} then SourceUnknown else source_state s)"
    and "assurance post = (if obligation s \<noteq> ObligationCurrent then AssuranceNA
      else if substantive (assurance s) \<and> (False \<or> current_verdict_basis_ids post = {||})
      then AssuranceStale else assurance s)"
proof -
  obtain requests where requests: "profile_change_requests s e = Inr requests"
    using profile_change_frame(10) [OF assms] by blast
  define interim where "interim = s\<lparr>required_profile_id := Some (new_profile_id e),
    required_profile_version := Some (new_profile_version e),
    reassessment_requests := requests\<rparr>"
  obtain source assur sb vb
    where c: "canonical_claims s interim False = (source, assur, sb, vb)"
    by (cases "canonical_claims s interim False")
  have post: "current_source_basis_ids post = sb" "current_verdict_basis_ids post = vb"
    "source_state post = source" "assurance post = assur"
    using assms c requests
    by (auto simp: apply_profile_change_def Let_def interim_def split: if_splits)
  have interim: "evidence_by_id interim = evidence_by_id s" "bases interim = bases s"
    "current_source_basis_ids interim = current_source_basis_ids s"
    "current_verdict_basis_ids interim = current_verdict_basis_ids s"
    "required_profile_id interim = Some (new_profile_id e)"
    "required_profile_version interim = Some (new_profile_version e)"
    by (simp_all add: interim_def evidence_by_id_def)
  note claims = canonical_claims_eq [OF c interim(2-4), unfolded interim, folded post]
  show "current_source_basis_ids post = surviving_under s (evidence_by_id s)
      (Some (new_profile_id e)) (Some (new_profile_version e)) (current_source_basis_ids s)"
    by (rule claims(1))
  show "current_verdict_basis_ids post = (if obligation s \<noteq> ObligationCurrent \<or>
        False \<and> substantive (assurance s) then {||}
      else surviving_under s (evidence_by_id s) (Some (new_profile_id e))
        (Some (new_profile_version e)) (current_verdict_basis_ids s))"
    by (rule claims(2))
  show "source_state post = (if source_state s \<noteq> SourceUnknown \<and>
      current_source_basis_ids post = {||} then SourceUnknown else source_state s)"
    by (rule claims(3))
  show "assurance post = (if obligation s \<noteq> ObligationCurrent then AssuranceNA
      else if substantive (assurance s) \<and> (False \<or> current_verdict_basis_ids post = {||})
      then AssuranceStale else assurance s)"
    by (rule claims(4))
qed

text \<open>A request with a new identity extends the requests without touching the old ones.\<close>

lemma appended_request_ok:
  assumes "temporal_ok s" and "reassessment_requests post = reassessment_requests s @ [rq]"
    and "logical_time post = logical_time s" and "request_ok (logical_time s) rq"
    and "request_id rq \<notin> request_id ` set (reassessment_requests s)"
  shows "distinct (map request_id (reassessment_requests post))"
    and "\<And>r. r \<in> set (reassessment_requests post) \<Longrightarrow> request_ok (logical_time post) r"
    and "\<And>k old. requests_by_id s k = Some old \<Longrightarrow> requests_by_id post k = Some old"
    and "requests_by_id post (request_id rq) = Some rq"
    and "request_ids post |-| request_ids s = {|request_id rq|}"
proof -
  show "distinct (map request_id (reassessment_requests post))"
    using assms by (auto simp: temporal_ok_def)
  show "\<And>r. r \<in> set (reassessment_requests post) \<Longrightarrow> request_ok (logical_time post) r"
    using assms by (auto simp: temporal_ok_def)
  show "requests_by_id post k = Some old" if "requests_by_id s k = Some old" for k old
  proof -
    have "k \<noteq> request_id rq"
      using dict_by_SomeD [OF that [unfolded requests_by_id_def]] assms(5) by (metis imageI)
    then show ?thesis
      using that dict_by_append_new [of request_id "reassessment_requests s" k old "[rq]"]
      by (simp add: requests_by_id_def assms(2))
  qed
  show "requests_by_id post (request_id rq) = Some rq"
    by (simp add: requests_by_id_def assms(2) dict_by_append dict_by_Cons map_add_def)
  show "request_ids post |-| request_ids s = {|request_id rq|}"
    using assms(5) by (intro fset_eqI) (auto simp: assms(2); metis imageI)
qed

lemma profile_change_valid:
  assumes "valid_state s" and "apply_profile_change s e = Inr (post, tr)"
  shows "valid_state post" and "transition_ok s post"
proof -
  note frame = profile_change_frame [OF assms(2)]
  note claims = profile_change_claims [OF assms(2)]
  have ok: "state_ok s" "temporal_ok s" using assms(1) by (simp_all add: valid_state_def)
  have maps: "bases_by_id post = bases_by_id s" "evidence_by_id post = evidence_by_id s"
    by (simp_all add: bases_by_id_def evidence_by_id_def frame(1,2))
  have refs: "profile_basis_is_supported b (evidence_by_id s) (Some (new_profile_id e))
      (Some (new_profile_version e))"
    if "bid |\<in>| current_source_basis_ids post |\<union>| current_verdict_basis_ids post"
      "bases_by_id s bid = Some b" for bid b
    using that by (auto simp: claims(1,2) split: if_splits)
  have requests: "distinct (map request_id (reassessment_requests post)) \<and>
      (\<forall>r\<in>set (reassessment_requests post). request_ok (logical_time post) r) \<and>
      (\<forall>k old. requests_by_id s k = Some old \<longrightarrow> requests_by_id post k = Some old)"
  proof (rule profile_change_requests_cases [OF frame(10,11)])
    show "0 \<le> logical_time s" using ok(2) by (simp add: temporal_ok_def)
  next
    assume "reassessment_requests post = reassessment_requests s"
    then show ?thesis using ok(2) by (simp add: requests_by_id_def temporal_ok_def frame(5))
  next
    fix rid due rq
    assume new: "rid \<notin> request_id ` set (reassessment_requests s)"
      and post: "reassessment_requests post = reassessment_requests s @ [rq]"
      and rq: "request_ok (logical_time s) rq" "rq = \<lparr>request_id = rid,
        reason = ''required profile changed'', requested_at = logical_time s, due_at = due,
        request_status = RequestPending, closed_at = None\<rparr>"
    have "request_id rq \<notin> request_id ` set (reassessment_requests s)" using new rq(2) by simp
    from appended_request_ok(1-3) [OF ok(2) post frame(5) rq(1) this] show ?thesis by blast
  qed
  have "withdrawn s post"
    by (rule claims_withdrawn [OF ok(1) frame(3,2) claims])
  then have "state_ok post"
    by (rule state_ok_shrink [OF ok(1)])
      (use ok(1) in \<open>auto simp: frame(1) maps state_ok_def
        intro: profile_supported_imp_supported refs\<close>)
  moreover have "temporal_ok post"
  proof (rule temporal_ok_step [OF ok(2)])
    show "heartbeat_ok (logical_time post) (assurance post) hb" if "heartbeat post = Some hb" for hb
      using that ok(2) claims(4)
      by (auto simp: frame(5,6) temporal_ok_def heartbeat_ok_def split: if_splits)
    show "profile_basis_is_supported b (evidence_by_id post) (required_profile_id post)
        (required_profile_version post)"
      if "bid |\<in>| current_source_basis_ids post |\<union>| current_verdict_basis_ids post"
        "bases_by_id post bid = Some b" for bid b
      using that by (auto simp: frame(7,8) maps intro: refs)
  qed (use ok(2) frame(13) requests in \<open>auto simp: frame(1-8) temporal_ok_def profile_pair_ok_def\<close>)
  ultimately show "valid_state post" by (simp add: valid_state_def)
  show "transition_ok s post"
    using requests frame(14)
    by (auto simp: transition_ok_def maps frame(5,7-9) profile_step_def less_imp_le)
qed

lemma profile_change_verified:
  assumes "valid_state s" and "verdict_canonical s" and "apply_profile_change s e = Inr (post, tr)"
  shows "validate_profile_change s e post = []"
proof -
  note frame = profile_change_frame [OF assms(3)]
  note claims = profile_change_claims [OF assms(3)]
  have ok: "state_ok s" "temporal_ok s" using assms(1) by (simp_all add: valid_state_def)
  have maps: "evidence_by_id post = evidence_by_id s"
    by (simp add: evidence_by_id_def frame(1))
  have sub: "current_verdict_basis_ids s \<noteq> {||} \<Longrightarrow> obligation s = ObligationCurrent"
    using assms(2) ok by (auto simp: verdict_canonical_def state_ok_def)
  have verdict: "current_verdict_basis_ids post = surviving_under s (evidence_by_id s)
      (Some (new_profile_id e)) (Some (new_profile_version e)) (current_verdict_basis_ids s)"
    using sub claims(2) by (cases "current_verdict_basis_ids s = {||}") auto
  have requests: "request_ids post |-| request_ids s =
        (case profile_request_id e of None \<Rightarrow> {||} | Some rid \<Rightarrow> {|rid|}) \<and>
      (\<forall>rid due. profile_request_id e = Some rid \<longrightarrow> profile_request_due_at e = Some due \<longrightarrow>
        requests_by_id post rid = Some \<lparr>request_id = rid, reason = ''required profile changed'',
          requested_at = logical_time s, due_at = due, request_status = RequestPending,
          closed_at = None\<rparr>)"
  proof (rule profile_change_requests_cases [OF frame(10,11)])
    show "0 \<le> logical_time s" using ok(2) by (simp add: temporal_ok_def)
  next
    assume "profile_request_id e = None" "reassessment_requests post = reassessment_requests s"
    then show ?thesis by (auto simp: request_ids_def intro: fset_eqI)
  next
    fix rid due rq
    assume ev: "profile_request_id e = Some rid" "profile_request_due_at e = Some due"
      and new: "rid \<notin> request_id ` set (reassessment_requests s)"
      and post: "reassessment_requests post = reassessment_requests s @ [rq]"
      and rq: "request_ok (logical_time s) rq" "rq = \<lparr>request_id = rid,
        reason = ''required profile changed'', requested_at = logical_time s, due_at = due,
        request_status = RequestPending, closed_at = None\<rparr>"
    have "request_id rq \<notin> request_id ` set (reassessment_requests s)" using new rq(2) by simp
    from appended_request_ok(4,5) [OF ok(2) post frame(5) rq(1) this] ev rq(2)
    show ?thesis by simp
  qed
  show ?thesis
    unfolding validate_profile_change_def Let_def expected_basis_survival_eq prod.case
      append_is_Nil_conv viol_Nil validate_exact_audit_def not_not maps
    using claims(1,3,4) requests
    by (auto simp: verdict frame(1-9,12) profile_change_audit_def str_or_def
        profile_incompatible_ids_def split: option.splits)
qed

subsection \<open>Requests and heartbeats\<close>

lemma request_reassessment_frame:
  assumes "apply_request_reassessment s e = Inr (post, tr)"
  obtains rq where "request_from_event e (logical_time s) = Inr rq"
    and "new_request_id e \<notin> request_id ` set (reassessment_requests s)"
    and "post = s\<lparr>reassessment_requests := reassessment_requests s @ [rq],
      history := history s @ [request_reassessment_audit e]\<rparr>"
  using assms by (auto simp: apply_request_reassessment_def Let_def split: if_splits sum.splits)

lemma request_reassessment_accepted:
  assumes "valid_state s" and "apply_request_reassessment s e = Inr (post, tr)"
  shows "valid_state post" and "transition_ok s post" and "validate_request s e post = []"
proof -
  have ok: "state_ok s" "temporal_ok s" using assms(1) by (simp_all add: valid_state_def)
  then have now: "0 \<le> logical_time s" by (simp add: temporal_ok_def)
  obtain rq where rq: "request_from_event e (logical_time s) = Inr rq"
    and new: "new_request_id e \<notin> request_id ` set (reassessment_requests s)"
    and post: "post = s\<lparr>reassessment_requests := reassessment_requests s @ [rq],
      history := history s @ [request_reassessment_audit e]\<rparr>"
    by (rule request_reassessment_frame [OF assms(2)])
  note rqok = request_from_event_ok [OF rq now]
  have maps: "bases_by_id post = bases_by_id s" "evidence_by_id post = evidence_by_id s"
    by (simp_all add: bases_by_id_def evidence_by_id_def post)
  have "request_id rq \<notin> request_id ` set (reassessment_requests s)" using new rqok(2) by simp
  note app = appended_request_ok [OF ok(2) _ _ rqok(1) this, of post]
  have "state_ok post" using ok(1) by (simp add: state_ok_def supported_reference_def maps) (simp add: post)
  moreover have "temporal_ok post"
    using ok(2) app(1,2) by (simp add: temporal_ok_def profile_supported_def maps) (simp add: post)
  ultimately show "valid_state post" by (simp add: valid_state_def)
  have old: "requests_by_id post k = Some old" if "requests_by_id s k = Some old" for k old
    using app(3) that by (simp add: post)
  then show "transition_ok s post" 
    by (auto simp: transition_ok_def maps profile_step_def) (simp_all add: post)
  have req: "request_ids post |-| request_ids s = {|new_request_id e|}"
    "requests_by_id post (new_request_id e) = Some rq"
    using app(4,5) rqok(2) by (simp_all add: post)
  show "validate_request s e post = []"
    unfolding validate_request_def Let_def append_is_Nil_conv viol_Nil validate_exact_audit_def
      not_not concat_dict_items_Nil_iff requests_by_id_def [of s, symmetric] rqok(3) [symmetric]
    using old req rqok(4)
    by (simp add: unchanged_temporal_governance_def substantive_state_changed_def)
      (simp add: post request_reassessment_audit_def)
qed

lemma record_heartbeat_frame:
  assumes "apply_record_heartbeat s e = Inr (post, tr)"
  obtains iv where "effective_interval s e = Some iv" and "0 < iv"
    and "at_time e = logical_time s" and "heartbeat_authority e = ''I3''"
    and "post = s\<lparr>heartbeat := Some \<lparr>interval = iv, last_recorded_at = at_time e,
        heartbeat_due_at = at_time e + iv\<rparr>,
      history := history s @ [record_heartbeat_audit e iv (at_time e + iv)]\<rparr>"
  using assms by (auto simp: apply_record_heartbeat_def Let_def split: if_splits option.splits)

lemma record_heartbeat_accepted:
  assumes "valid_state s" and "apply_record_heartbeat s e = Inr (post, tr)"
  shows "valid_state post" and "transition_ok s post" and "validate_heartbeat s e post = []"
proof -
  have ok: "state_ok s" "temporal_ok s" using assms(1) by (simp_all add: valid_state_def)
  obtain iv where iv: "effective_interval s e = Some iv" "0 < iv" "at_time e = logical_time s"
    "heartbeat_authority e = ''I3''"
    and post: "post = s\<lparr>heartbeat := Some \<lparr>interval = iv, last_recorded_at = at_time e,
        heartbeat_due_at = at_time e + iv\<rparr>,
      history := history s @ [record_heartbeat_audit e iv (at_time e + iv)]\<rparr>"
    by (rule record_heartbeat_frame [OF assms(2)])
  have maps: "bases_by_id post = bases_by_id s" "evidence_by_id post = evidence_by_id s"
    "requests_by_id post = requests_by_id s"
    by (simp_all add: bases_by_id_def evidence_by_id_def requests_by_id_def post)
  have "state_ok post" using ok(1) by (simp add: state_ok_def supported_reference_def maps) (simp add: post)
  moreover have "temporal_ok post"
    using ok(2) iv(2,3) by (simp add: temporal_ok_def profile_supported_def maps)
      (simp add: post heartbeat_ok_def)
  ultimately show "valid_state post" by (simp add: valid_state_def)
  show "transition_ok s post"
    by (auto simp: transition_ok_def maps profile_step_def) (simp_all add: post)
  have "(case heartbeat_interval e of Some i \<Rightarrow> Some i
      | None \<Rightarrow> (case heartbeat s of None \<Rightarrow> None | Some h \<Rightarrow> Some (interval h))) = Some iv"
    using iv(1) by (simp add: effective_interval_def)
  then show "validate_heartbeat s e post = []"
    using iv(4)
    by (simp add: validate_heartbeat_def validate_exact_audit_def substantive_state_changed_def
        post record_heartbeat_audit_def)
qed

end
