(* ===== verification/Kernel_Reassess_Acceptance.thy ===== *)
theory Kernel_Reassess_Acceptance
  imports Kernel_Acceptance
begin

section \<open>Reassessment against the verifier\<close>

text \<open>
  A reassessment appends evidence and bases and installs a new claim. The transition checks
  less than the verifier, so acceptance needs the conditions collected in
  \<open>reassess_admissible\<close>: what a caller must supply beyond what \<open>apply_reassess\<close>
  itself rejects.
\<close>

text \<open>References exist only for a substantive source state and a substantive verdict; the
  transitions keep this.\<close>

definition claims_canonical :: "ControlState \<Rightarrow> bool" where
  "claims_canonical s \<longleftrightarrow>
     (current_source_basis_ids s \<noteq> {||} \<longrightarrow> source_state s \<noteq> SourceUnknown) \<and>
     (current_verdict_basis_ids s \<noteq> {||} \<longrightarrow> substantive (assurance s))"

definition evidence_after :: "ControlState \<Rightarrow> Reassess \<Rightarrow> (string \<rightharpoonup> Evidence)" where
  "evidence_after s e = dict_by evidence_id (evidence s @ new_evidence e)"

definition new_basis_supported :: "ControlState \<Rightarrow> Reassess \<Rightarrow> Basis \<Rightarrow> bool" where
  "new_basis_supported s e b \<longleftrightarrow> profile_basis_is_supported b (evidence_after s e)
     (required_profile_id s) (required_profile_version s)"

definition reassess_admissible :: "ControlState \<Rightarrow> Reassess \<Rightarrow> bool" where
  "reassess_admissible s e \<longleftrightarrow>
    (let src = or_else (new_source_state e) (source_state s);
         assur = or_else (new_assurance e) (assurance s)
     in distinct (map evidence_id (new_evidence e)) \<and> distinct (map basis_id (new_bases e)) \<and>
        (\<forall>ev\<in>set (new_evidence e). evidence_time_ok (logical_time s) ev) \<and>
        (\<forall>b\<in>set (new_bases e). basis_kind b = SourceBasis \<longrightarrow>
           src \<noteq> SourceUnknown \<and> new_basis_supported s e b) \<and>
        (\<forall>b\<in>set (new_bases e). basis_kind b = VerdictBasis \<longrightarrow>
           substantive assur \<and> new_basis_supported s e b) \<and>
        (src \<noteq> SourceUnknown \<longrightarrow> reassess_source_ids s e src \<noteq> {||}) \<and>
        (obligation s = ObligationCurrent \<and> substantive assur \<longrightarrow>
           reassess_verdict_ids s e assur \<noteq> {||}) \<and>
        (obligation s \<noteq> ObligationCurrent \<longrightarrow> assur = AssuranceNA) \<and>
        (substantive assur \<longrightarrow>
           (\<forall>hb. heartbeat s = Some hb \<longrightarrow> logical_time s < heartbeat_due_at hb)))"

subsection \<open>Frame\<close>

lemma first_error_None [simp]: "first_error f xs = None \<longleftrightarrow> (\<forall>x\<in>set xs. f x = None)"
  by (induction xs) (auto split: option.splits)

lemma check_reassess_None:
  assumes "check_reassess s e = None"
  shows "reassess_authority e = ''I3''"
    and "evidence_id ` set (evidence s) \<inter> evidence_id ` set (new_evidence e) = {}"
    and "basis_id ` set (bases s) \<inter> basis_id ` set (new_bases e) = {}"
    and "\<forall>ev\<in>set (new_evidence e). evidence_status ev = EvidenceCurrent"
    and "\<forall>b\<in>set (new_bases e).
      (basis_kind b = SourceBasis \<longrightarrow>
         claim b = source_state_value (or_else (new_source_state e) (source_state s))) \<and>
      (basis_kind b = VerdictBasis \<longrightarrow>
         claim b = assurance_value (or_else (new_assurance e) (assurance s)))"
proof -
  have checks: "reassess_authority e = ''I3'' \<and>
      evidence_ids s |\<inter>| dict_key_set evidence_id (new_evidence e) = {||} \<and>
      basis_ids s |\<inter>| dict_key_set basis_id (new_bases e) = {||} \<and>
      (\<forall>ev\<in>set (new_evidence e). evidence_status ev = EvidenceCurrent) \<and>
      (\<forall>b\<in>set (new_bases e). check_new_basis
        (evidence_ids s |\<union>| dict_key_set evidence_id (new_evidence e))
        (or_else (new_source_state e) (source_state s))
        (or_else (new_assurance e) (assurance s)) b = None)"
    using assms by (simp add: check_reassess_def Let_def split: if_splits)
  then have "fset (evidence_ids s |\<inter>| dict_key_set evidence_id (new_evidence e)) = {}"
    "fset (basis_ids s |\<inter>| dict_key_set basis_id (new_bases e)) = {}" by simp_all
  then show "evidence_id ` set (evidence s) \<inter> evidence_id ` set (new_evidence e) = {}"
    "basis_id ` set (bases s) \<inter> basis_id ` set (new_bases e) = {}"
    by (simp_all only: inf_fset.rep_eq fset_ids fset_dict_key_set)
  show "reassess_authority e = ''I3''"
    "\<forall>ev\<in>set (new_evidence e). evidence_status ev = EvidenceCurrent"
    using checks by simp_all
  show "\<forall>b\<in>set (new_bases e).
      (basis_kind b = SourceBasis \<longrightarrow>
         claim b = source_state_value (or_else (new_source_state e) (source_state s))) \<and>
      (basis_kind b = VerdictBasis \<longrightarrow>
         claim b = assurance_value (or_else (new_assurance e) (assurance s)))"
    using checks by (auto simp: check_new_basis_def split: if_splits)
qed

lemma reassess_frame:
  assumes "apply_reassess s e = Inr (post, tr)"
  defines "src \<equiv> or_else (new_source_state e) (source_state s)"
    and "assur \<equiv> or_else (new_assurance e) (assurance s)"
  shows "evidence post = evidence s @ new_evidence e" and "bases post = bases s @ new_bases e"
    and "obligation post = obligation s" and "control_id post = control_id s"
    and "logical_time post = logical_time s" and "heartbeat post = heartbeat s"
    and "required_profile_id post = required_profile_id s"
    and "required_profile_version post = required_profile_version s"
    and "history post = history s @ [reassess_audit e
      (sorted_fset (dict_key_set evidence_id (new_evidence e)))
      (sorted_fset (dict_key_set basis_id (new_bases e)))]"
    and "source_state post = src" and "assurance post = assur"
    and "current_source_basis_ids post = reassess_source_ids s e src"
    and "current_verdict_basis_ids post = reassess_verdict_ids s e assur"
    and "check_reassess s e = None"
    and "close_reassessment_requests s (close_request_ids e) = Inr (reassessment_requests post)"
  using assms by (auto simp: apply_reassess_def Let_def split: option.splits sum.splits)

lemma close_requests_frame:
  assumes "close_reassessment_requests s ids = Inr requests"
  shows "distinct ids" and "set ids \<subseteq> request_id ` set (reassessment_requests s)"
    and "\<And>rid rq. rid \<in> set ids \<Longrightarrow> requests_by_id s rid = Some rq \<Longrightarrow>
      request_status rq = RequestPending"
    and "requests = map (\<lambda>rq. if request_id rq \<in> set ids then close rq (logical_time s) else rq)
      (reassessment_requests s)"
proof -
  let ?req = "fset_of_list ids"
  let ?closed = "ffilter (\<lambda>rid. case requests_by_id s rid of
      None \<Rightarrow> False | Some rq \<Rightarrow> request_status rq = RequestClosed) ?req"
  have c: "distinct ids" "?req |-| request_ids s = {||}" "?closed = {||}"
    "requests = map (\<lambda>rq. if request_id rq |\<in>| ?req then close rq (logical_time s) else rq)
      (reassessment_requests s)"
    using assms by (auto simp: close_reassessment_requests_def Let_def split: if_splits)
  show "distinct ids" by (rule c(1))
  have "fset (?req |-| request_ids s) = {}" by (simp only: c(2) bot_fset.rep_eq)
  then show "set ids \<subseteq> request_id ` set (reassessment_requests s)"
    by (simp add: minus_fset.rep_eq fset_of_list.rep_eq)
  show "request_status rq = RequestPending"
    if "rid \<in> set ids" "requests_by_id s rid = Some rq" for rid rq
  proof (rule ccontr)
    assume "request_status rq \<noteq> RequestPending"
    then have "request_status rq = RequestClosed" by (cases "request_status rq") auto
    with that have "rid |\<in>| ?closed" by (simp add: fset_of_list_elem)
    with c(3) show False by simp
  qed
  show "requests = map (\<lambda>rq. if request_id rq \<in> set ids then close rq (logical_time s) else rq)
      (reassessment_requests s)"
    using c(4) by (simp add: fset_of_list_elem)
qed

lemma basis_is_supported_extend:
  assumes "\<And>k ev. evmap k = Some ev \<Longrightarrow> evmap' k = Some ev"
    and "basis_is_supported b evmap"
  shows "basis_is_supported b evmap'"
  using assms by (fastforce simp: basis_is_supported_def split: option.splits)

lemma profile_basis_is_supported_extend:
  assumes "\<And>k ev. evmap k = Some ev \<Longrightarrow> evmap' k = Some ev"
    and "profile_basis_is_supported b evmap pid ver"
  shows "profile_basis_is_supported b evmap' pid ver"
  using assms by (fastforce simp: profile_basis_is_supported_def split: option.splits)

subsection \<open>Closing requests\<close>

lemma closed_requests_ok:
  assumes "close_reassessment_requests s ids = Inr (reassessment_requests post)"
    and "temporal_ok s" and "logical_time post = logical_time s"
  shows "distinct (map request_id (reassessment_requests post))"
    and "\<And>rq. rq \<in> set (reassessment_requests post) \<Longrightarrow> request_ok (logical_time post) rq"
    and "\<And>k. requests_by_id post k = map_option
      (\<lambda>rq. if k \<in> set ids then close rq (logical_time s) else rq) (requests_by_id s k)"
    and "\<And>k old. requests_by_id s k = Some old \<Longrightarrow>
      \<exists>new. requests_by_id post k = Some new \<and> valid_closure (logical_time post) old new"
    and "request_ids post = request_ids s"
proof -
  note c = close_requests_frame [OF assms(1)]
  let ?f = "\<lambda>rq. if request_id rq \<in> set ids then close rq (logical_time s) else rq"
  have f_id: "request_id (?f rq) = request_id rq" for rq by simp
  have ids: "map request_id (reassessment_requests post) = map request_id (reassessment_requests s)"
    unfolding c(4) by (rule map_key_map) (rule f_id)
  show "request_ids post = request_ids s" by (simp only: request_ids_def dict_key_set_def ids)
  from ids show "distinct (map request_id (reassessment_requests post))"
    using assms(2) by (simp only: temporal_ok_def)
  show "request_ok (logical_time post) rq" if "rq \<in> set (reassessment_requests post)" for rq
    using that assms(2) by (auto simp: c(4) assms(3) temporal_ok_def request_ok_def close_def)
  have "requests_by_id post k = map_option ?f (requests_by_id s k)" for k
    unfolding requests_by_id_def c(4) by (rule dict_by_map) (rule f_id)
  then show lookup: "requests_by_id post k = map_option
      (\<lambda>rq. if k \<in> set ids then close rq (logical_time s) else rq) (requests_by_id s k)" for k
    by (auto simp: requests_by_id_def map_option_case split: option.splits
        dest!: dict_by_SomeD)
  show "\<exists>new. requests_by_id post k = Some new \<and> valid_closure (logical_time post) old new"
    if "requests_by_id s k = Some old" for k old
    using that c(3) [OF _ that] by (auto simp: lookup valid_closure_def close_def assms(3))
qed

subsection \<open>Validity and acceptance\<close>

lemma reassess_lookup:
  assumes "valid_state s" and "apply_reassess s e = Inr (post, tr)" and "reassess_admissible s e"
  shows "distinct (map evidence_id (evidence post))" and "distinct (map basis_id (bases post))"
    and "evidence_by_id post = evidence_after s e"
    and "\<And>k ev. evidence_by_id s k = Some ev \<Longrightarrow> evidence_by_id post k = Some ev"
    and "\<And>k b. bases_by_id s k = Some b \<Longrightarrow> bases_by_id post k = Some b"
    and "\<And>k b. bases_by_id post k = Some b \<longleftrightarrow>
      (b \<in> set (bases s) \<or> b \<in> set (new_bases e)) \<and> basis_id b = k"
    and "\<And>k ev. evidence_by_id post k = Some ev \<longleftrightarrow>
      (ev \<in> set (evidence s) \<or> ev \<in> set (new_evidence e)) \<and> evidence_id ev = k"
proof -
  note frame = reassess_frame [OF assms(2)]
  note checks = check_reassess_None [OF frame(14)]
  show dist: "distinct (map evidence_id (evidence post))" "distinct (map basis_id (bases post))"
    using assms(1,3) checks(2,3)
    by (simp_all add: frame(1,2) valid_state_def state_ok_def reassess_admissible_def Let_def)
  show "evidence_by_id post = evidence_after s e"
    by (simp add: evidence_by_id_def evidence_after_def frame(1))
  show bs: "bases_by_id post k = Some b \<longleftrightarrow>
      (b \<in> set (bases s) \<or> b \<in> set (new_bases e)) \<and> basis_id b = k" for k b
    using dict_by_distinct [OF dist(2), of k b] by (auto simp: bases_by_id_def frame(2))
  show es: "evidence_by_id post k = Some ev \<longleftrightarrow>
      (ev \<in> set (evidence s) \<or> ev \<in> set (new_evidence e)) \<and> evidence_id ev = k" for k ev
    using dict_by_distinct [OF dist(1), of k ev] by (auto simp: evidence_by_id_def frame(1))
  show "evidence_by_id post k = Some ev" if "evidence_by_id s k = Some ev" for k ev
    using dict_by_SomeD [OF that [unfolded evidence_by_id_def]] by (simp add: es)
  show "bases_by_id post k = Some b" if "bases_by_id s k = Some b" for k b
    using dict_by_SomeD [OF that [unfolded bases_by_id_def]] by (simp add: bs)
qed

text \<open>The references the transition installs, as the verifier recomputes them: one lemma for
  source and verdict references.\<close>

lemma installed_references:
  assumes lookup: "\<And>k b. bases_by_id post k = Some b \<longleftrightarrow>
      (b \<in> set (bases s) \<or> b \<in> set news) \<and> basis_id b = k"
    and old: "\<And>bid. bid |\<in>| ids \<Longrightarrow> supported_reference s knd c0 bid"
    and keep: "\<And>k b. bases_by_id s k = Some b \<Longrightarrow> bases_by_id post k = Some b"
    and mono: "\<And>k ev. evidence_by_id s k = Some ev \<Longrightarrow> evidence_by_id post k = Some ev"
    and new: "\<And>b. b \<in> set news \<Longrightarrow> basis_kind b = knd \<Longrightarrow>
      claim b = c \<and> basis_is_supported b (evidence_by_id post)"
    and fresh: "basis_id ` set (bases s) \<inter> basis_id ` set news = {}"
  shows "surviving_ids (\<lambda>b. basis_kind b = knd \<and> claim b = c \<and>
      basis_is_supported b (evidence_by_id post)) (bases_by_id post)
      (ids |\<union>| dict_key_set basis_id news) =
    retained_ids s knd c ids |\<union>| new_ids_of_kind knd news" (is "?L = ?R")
proof (rule fset_eqI)
  fix bid
  have new_mem: "bid |\<in>| new_ids_of_kind knd news \<longleftrightarrow>
      (\<exists>b\<in>set news. basis_kind b = knd \<and> basis_id b = bid)"
    by (auto simp: new_ids_of_kind_def fset_of_list_elem)
  have ret: "bid |\<in>| retained_ids s knd c ids \<longleftrightarrow> bid |\<in>| ids \<and>
      (\<exists>b. bases_by_id s bid = Some b \<and> basis_kind b = knd \<and> claim b = c)"
    by (auto simp: retained_ids_def basis_matches_claim_def split: option.splits)
  have sup: "basis_is_supported b (evidence_by_id post)"
    if "bid |\<in>| ids" "bases_by_id s bid = Some b" for b
    using old [OF that(1)] that(2) basis_is_supported_extend [of "evidence_by_id s", OF mono]
    by (auto simp: supported_reference_def)
  have ids_old: "\<exists>b. bases_by_id s bid = Some b" if "bid |\<in>| ids"
    using old [OF that] by (auto simp: supported_reference_def)
  show "bid |\<in>| ?L \<longleftrightarrow> bid |\<in>| ?R"
  proof
    assume "bid |\<in>| ?L"
    then obtain b where b: "bases_by_id post bid = Some b" "basis_kind b = knd" "claim b = c"
      and mem: "bid |\<in>| ids \<or> bid \<in> basis_id ` set news" by auto
    show "bid |\<in>| ?R"
    proof (cases "bid |\<in>| ids")
      case True
      then obtain b' where "bases_by_id s bid = Some b'" using ids_old by blast
      then show ?thesis using True b keep [of bid b'] by (auto simp: ret)
    next
      case False
      then have "b \<notin> set (bases s)" using mem b(1) fresh by (auto simp: lookup)
      then show ?thesis using b by (auto simp: new_mem lookup)
    qed
  next
    assume "bid |\<in>| ?R"
    then consider (old) "bid |\<in>| retained_ids s knd c ids" | (new) "bid |\<in>| new_ids_of_kind knd news"
      by auto
    then show "bid |\<in>| ?L"
    proof cases
      case old
      then show ?thesis using keep sup by (auto simp: ret)
    next
      case new
      then show ?thesis using assms(5) by (auto simp: new_mem lookup)
    qed
  qed
qed

lemma new_basis_claims:
  assumes "apply_reassess s e = Inr (post, tr)" and "reassess_admissible s e"
    and "evidence_by_id post = evidence_after s e"
  shows "b \<in> set (new_bases e) \<Longrightarrow> basis_kind b = SourceBasis \<Longrightarrow>
      claim b = source_state_value (source_state post) \<and>
      basis_is_supported b (evidence_by_id post)"
    and "b \<in> set (new_bases e) \<Longrightarrow> basis_kind b = VerdictBasis \<Longrightarrow>
      claim b = assurance_value (assurance post) \<and>
      basis_is_supported b (evidence_by_id post)"
  using check_reassess_None(5) [OF reassess_frame(14) [OF assms(1)]] assms(2,3)
    reassess_frame(10,11) [OF assms(1)]
  by (auto simp: reassess_admissible_def Let_def new_basis_supported_def
      intro: profile_supported_imp_supported)

lemma retained_ids_none:
  assumes "\<And>bid. bid |\<in>| ids \<Longrightarrow> supported_reference s knd c0 bid"
    and "ids \<noteq> {||} \<Longrightarrow> c \<noteq> c0"
  shows "retained_ids s knd c ids = {||}"
proof (rule ccontr)
  assume "retained_ids s knd c ids \<noteq> {||}"
  then obtain bid where "bid |\<in>| retained_ids s knd c ids" by (auto simp: fset_eq_iff)
  then obtain b where "bid |\<in>| ids" "bases_by_id s bid = Some b" "claim b = c"
    by (auto simp: retained_ids_def basis_matches_claim_def split: option.splits)
  moreover from this(1) have "c \<noteq> c0" using assms(2) by auto
  ultimately show False using assms(1) [of bid] by (simp add: supported_reference_def)
qed

lemma reassess_references:
  assumes "valid_state s" and "claims_canonical s"
    and "apply_reassess s e = Inr (post, tr)" and "reassess_admissible s e"
  shows "surviving_ids (\<lambda>b. basis_kind b = SourceBasis \<and>
        claim b = source_state_value (source_state post) \<and>
        basis_is_supported b (evidence_by_id post)) (bases_by_id post)
      (current_source_basis_ids s |\<union>| dict_key_set basis_id (new_bases e)) =
      current_source_basis_ids post" (is "?S = _")
    and "surviving_ids (\<lambda>b. basis_kind b = VerdictBasis \<and>
        claim b = assurance_value (assurance post) \<and>
        basis_is_supported b (evidence_by_id post)) (bases_by_id post)
      (current_verdict_basis_ids s |\<union>| dict_key_set basis_id (new_bases e)) =
      current_verdict_basis_ids post" (is "?V = _")
proof -
  note frame = reassess_frame [OF assms(3)]
  note lookup = reassess_lookup [OF assms(1,3,4)]
  note checks = check_reassess_None [OF frame(14)]
  have refs: "bid |\<in>| current_source_basis_ids s \<Longrightarrow>
        supported_reference s SourceBasis (source_state_value (source_state s)) bid"
      "bid |\<in>| current_verdict_basis_ids s \<Longrightarrow>
        supported_reference s VerdictBasis (assurance_value (assurance s)) bid" for bid
    using assms(1) by (simp_all add: valid_state_def state_ok_def)
  have S: "?S = retained_ids s SourceBasis (source_state_value (source_state post))
      (current_source_basis_ids s) |\<union>| new_ids_of_kind SourceBasis (new_bases e)"
    by (rule installed_references [OF lookup(6) refs(1) lookup(5,4)
          new_basis_claims(1) [OF assms(3,4) lookup(3)] checks(3)])
  have V: "?V = retained_ids s VerdictBasis (assurance_value (assurance post))
      (current_verdict_basis_ids s) |\<union>| new_ids_of_kind VerdictBasis (new_bases e)"
    by (rule installed_references [OF lookup(6) refs(2) lookup(5,4)
          new_basis_claims(2) [OF assms(3,4) lookup(3)] checks(3)])
  have none: "new_ids_of_kind SourceBasis (new_bases e) = {||}"
      if "source_state post = SourceUnknown"
    using that assms(4) frame(10)
    by (auto simp: new_ids_of_kind_def reassess_admissible_def Let_def filter_empty_conv)
  have nonv: "new_ids_of_kind VerdictBasis (new_bases e) = {||}"
      if "\<not> substantive (assurance post)"
    using that assms(4) frame(11)
    by (auto simp: new_ids_of_kind_def reassess_admissible_def Let_def filter_empty_conv)
  have rets: "retained_ids s SourceBasis (source_state_value SourceUnknown)
      (current_source_basis_ids s) = {||}"
    using assms(2)
    by (intro retained_ids_none [OF refs(1)]) (metis claims_canonical_def source_state_value_inject)+
  have retv: "retained_ids s VerdictBasis (assurance_value a)
      (current_verdict_basis_ids s) = {||}" if "\<not> substantive a" for a
    using assms(2) that
    by (intro retained_ids_none [OF refs(2)]) (metis claims_canonical_def assurance_value_inject)+
  show "?S = current_source_basis_ids post"
    unfolding S using none rets unfolding frame(12) reassess_source_ids_def frame(10)
    by (cases "or_else (new_source_state e) (source_state s) = SourceUnknown") simp_all
  show "?V = current_verdict_basis_ids post"
    unfolding V using nonv retv unfolding frame(13) reassess_verdict_ids_def frame(11)
    by (cases "substantive (or_else (new_assurance e) (assurance s))") simp_all
qed

lemma reassess_state_ok:
  assumes "valid_state s" and "claims_canonical s"
    and "apply_reassess s e = Inr (post, tr)" and "reassess_admissible s e"
  shows "state_ok post"
proof -
  note frame = reassess_frame [OF assms(3)]
  note lookup = reassess_lookup [OF assms(1,3,4)]
  note refs = reassess_references [OF assms]
  have "supported_reference post SourceBasis (source_state_value (source_state post)) bid"
    if "bid |\<in>| current_source_basis_ids post" for bid
    using that unfolding refs(1) [symmetric] by (auto simp: supported_reference_def)
  moreover have "supported_reference post VerdictBasis (assurance_value (assurance post)) bid"
    if "bid |\<in>| current_verdict_basis_ids post" for bid
    using that unfolding refs(2) [symmetric] by (auto simp: supported_reference_def)
  moreover have "source_state post \<noteq> SourceUnknown \<longrightarrow> current_source_basis_ids post \<noteq> {||}"
    "obligation post = ObligationCurrent \<and> substantive (assurance post) \<longrightarrow>
       current_verdict_basis_ids post \<noteq> {||}"
    "obligation post \<noteq> ObligationCurrent \<longrightarrow> assurance post = AssuranceNA"
    using assms(4) by (simp_all add: reassess_admissible_def Let_def frame(3,10-13))
  ultimately show ?thesis
    using lookup(1,2) unfolding state_ok_def by blast
qed

lemma reassess_profile_support:
  assumes "valid_state s" and "apply_reassess s e = Inr (post, tr)" and "reassess_admissible s e"
    and bid: "bid |\<in>| current_source_basis_ids post |\<union>| current_verdict_basis_ids post"
    and b: "bases_by_id post bid = Some b"
  shows "profile_basis_is_supported b (evidence_by_id post) (required_profile_id post)
    (required_profile_version post)"
proof -
  note frame = reassess_frame [OF assms(2)]
  note lookup = reassess_lookup [OF assms(1-3)]
  have "bid |\<in>| current_source_basis_ids s |\<union>| current_verdict_basis_ids s \<and>
      bases_by_id s bid = Some b \<or>
      b \<in> set (new_bases e) \<and> basis_kind b \<in> {SourceBasis, VerdictBasis}"
  proof -
    consider (kept) "bid |\<in>| current_source_basis_ids s |\<union>| current_verdict_basis_ids s"
        "bases_by_id s bid \<noteq> None"
      | (new) b' where "b' \<in> set (new_bases e)" "basis_id b' = bid"
        "basis_kind b' \<in> {SourceBasis, VerdictBasis}"
      using bid by (auto simp: frame(12,13) reassess_source_ids_def reassess_verdict_ids_def
          retained_ids_def new_ids_of_kind_def fset_of_list_elem split: if_splits option.splits)
    then show ?thesis
    proof cases
      case kept
      then show ?thesis using lookup(5) b by fastforce
    next
      case new
      then have "bases_by_id post bid = Some b'" by (simp add: lookup(6))
      then show ?thesis using new b by simp
    qed
  qed
  then show ?thesis
  proof
    assume old: "bid |\<in>| current_source_basis_ids s |\<union>| current_verdict_basis_ids s \<and>
      bases_by_id s bid = Some b"
    then have "profile_basis_is_supported b (evidence_by_id s) (required_profile_id s)
        (required_profile_version s)"
      using assms(1) by (auto simp: valid_state_def temporal_ok_def profile_supported_def)
    from profile_basis_is_supported_extend [OF lookup(4) this] show ?thesis
      by (simp add: frame(7,8))
  next
    assume "b \<in> set (new_bases e) \<and> basis_kind b \<in> {SourceBasis, VerdictBasis}"
    then show ?thesis
      using assms(3) by (auto simp: reassess_admissible_def Let_def new_basis_supported_def
          lookup(3) frame(7,8))
  qed
qed

lemma reassess_valid:
  assumes "valid_state s" and "claims_canonical s"
    and "apply_reassess s e = Inr (post, tr)" and "reassess_admissible s e"
  shows "valid_state post" and "transition_ok s post"
proof -
  note frame = reassess_frame [OF assms(3)]
  note lookup = reassess_lookup [OF assms(1,3,4)]
  have ok: "temporal_ok s" using assms(1) by (simp add: valid_state_def)
  note requests = closed_requests_ok [OF frame(15) ok frame(5)]
  have "temporal_ok post"
  proof (rule temporal_ok_step [OF ok])
    show "evidence_time_ok (logical_time post) ev" if "ev \<in> set (evidence post)" for ev
      using that ok assms(4)
      by (auto simp: frame(1,5) temporal_ok_def reassess_admissible_def Let_def)
    show "heartbeat_ok (logical_time post) (assurance post) hb" if "heartbeat post = Some hb" for hb
      using that ok assms(4) by (auto simp: frame(5,6,11) temporal_ok_def heartbeat_ok_def
          reassess_admissible_def Let_def)
  qed (use ok requests(1,2) reassess_profile_support [OF assms(1,3,4)]
      in \<open>auto simp: frame(5-8) temporal_ok_def\<close>)
  then show "valid_state post"
    using reassess_state_ok [OF assms] by (simp add: valid_state_def)
  show "transition_ok s post"
    using lookup(4,5) requests(4)
    by (auto simp: transition_ok_def frame(5,7-9) profile_step_def)
qed

lemma sorted_fset_dict_keys:
  assumes "distinct (map key xs)"
  shows "sorted_fset (dict_key_set key xs) = sort (map key xs)"
  using assms by (simp add: sorted_list_of_fset.rep_eq dict_key_set_def fset_of_list.rep_eq
      sorted_list_of_set_sort_remdups distinct_remdups_id flip: set_map)

lemma reassess_verified:
  assumes "valid_state s" and "claims_canonical s"
    and "apply_reassess s e = Inr (post, tr)" and "reassess_admissible s e"
  shows "validate_reassess s e post = []" and "validate_reassess_temporal s e post = []"
proof -
  note frame = reassess_frame [OF assms(3)]
  note lookup = reassess_lookup [OF assms(1,3,4)]
  note refs = reassess_references [OF assms]
  note checks = check_reassess_None [OF frame(14)]
  have ok: "temporal_ok s" using assms(1) by (simp add: valid_state_def)
  note requests = closed_requests_ok [OF frame(15) ok frame(5)]
  note closing = close_requests_frame [OF frame(15)]
  have dist: "distinct (map evidence_id (new_evidence e))" "distinct (map basis_id (new_bases e))"
    using assms(4) by (simp_all add: reassess_admissible_def Let_def)
  have eids: "evidence_ids post |-| evidence_ids s = dict_key_set evidence_id (new_evidence e)"
    using checks(2) by (intro fset_eqI) (auto simp: frame(1))
  have bids: "basis_ids post |-| basis_ids s = dict_key_set basis_id (new_bases e)"
    using checks(3) by (intro fset_eqI) (auto simp: frame(2))
  have evs: "evidence_by_id post k = Some ev"
    if "dict_by evidence_id (new_evidence e) k = Some ev" for k ev
    using dict_by_SomeD [OF that] by (simp add: lookup(7))
  have bs: "bases_by_id post k = Some b"
    if "dict_by basis_id (new_bases e) k = Some b" for k b
    using dict_by_SomeD [OF that] by (simp add: lookup(6))
  show "validate_reassess s e post = []"
    unfolding validate_reassess_def Let_def append_is_Nil_conv viol_Nil concat_dict_items_Nil_iff
      not_not frame(10,11) [symmetric]
    using refs eids bids evs bs by (auto split: option.splits)
  note rids = requests(5)
  have unknown: "fset_of_list (close_request_ids e) |-| request_ids s = {||}"
    using closing(2) by (auto simp: fset_of_list_elem intro!: fset_eqI)
  have pending: "ffilter (\<lambda>rid. case requests_by_id s rid of
      None \<Rightarrow> False | Some rq \<Rightarrow> request_status rq \<noteq> RequestPending)
      (fset_of_list (close_request_ids e) |\<inter>| request_ids s) = {||}"
    using closing(3) by (auto simp: fset_of_list_elem intro!: fset_eqI split: option.splits)
  have "validate_reassessment_requests s e post = []"
    unfolding validate_reassessment_requests_def Let_def append_is_Nil_conv viol_Nil
      concat_dict_items_Nil_iff requests_by_id_def [of s, symmetric] unknown pending rids
    using closing(1) by (auto simp: requests(3) fset_of_list_elem split: option.splits)
  then show "validate_reassess_temporal s e post = []"
    by (simp add: validate_reassess_temporal_def unchanged_temporal_governance_def frame(5-9)
        validate_exact_audit_def reassess_audit_def sorted_fset_dict_keys dist)
qed

end
