(* ===== verification/Kernel_Runs.thy ===== *)
theory Kernel_Runs
  imports Effects Kernel_Temporal_Acceptance Kernel_Reassess_Acceptance
begin

section \<open>Accepted transitions and runs of the kernel\<close>

text \<open>
  The oracle as a step relation, its runs, the invariant of the runs
  (\<open>kernel_inv\<close>: a valid state whose references belong to substantive claims) and what
  a run can never undo (\<open>evolved\<close>).
\<close>

subsection \<open>One step\<close>

inductive kernel_step :: "ControlState \<Rightarrow> CsdEvent \<Rightarrow> ControlState \<Rightarrow> bool" where
  accept: "oracle_apply s ev = Inr r \<Longrightarrow> kernel_step s ev (result_after r)"

inductive_cases kernel_stepE: "kernel_step s ev t"
inductive_simps kernel_step_iff: "kernel_step s ev t"

abbreviation kernel_run :: "ControlState \<Rightarrow> CsdEvent list \<Rightarrow> ControlState \<Rightarrow> bool" where
  "kernel_run \<equiv> run_of kernel_step"

text \<open>The executable form of a run: the first rejection stops it.\<close>

fun oracle_run :: "ControlState \<Rightarrow> CsdEvent list \<Rightarrow> kernel_error + ControlState" where
  "oracle_run s [] = Inr s"
| "oracle_run s (ev # evs) =
     (case oracle_apply s ev of Inl e \<Rightarrow> Inl e | Inr r \<Rightarrow> oracle_run (result_after r) evs)"

lemma oracle_apply_Inr:
  "oracle_apply s ev = Inr r \<longleftrightarrow>
     valid_state s \<and> apply_event s ev = Inr (result_after r, result_trace r) \<and>
     post_violations s ev (result_after r) = Inr [] \<and>
     r = \<lparr>result_before = s, result_after = result_after r, result_trace = result_trace r,
          result_violations = []\<rparr>"
  by (auto simp: oracle_apply_def Let_def valid_state_def validate_state_Nil
      validate_temporal_state_Nil split: sum.splits if_splits)

lemma post_violations_cases:
  "post_violations s ev post = Inr [] \<longleftrightarrow>
     valid_state post \<and> transition_ok s post \<and> validate_temporal_event s ev post = [] \<and>
     (\<not> is_temporal_event ev \<longrightarrow> validate_event_transition s ev post = Inr [])"
  using transition_checks_Nil [of s post]
  by (auto simp: post_violations_def split: sum.splits if_splits)

lemma kernel_stepD:
  assumes "kernel_step s ev t"
  shows "valid_state s" and "\<exists>tr. apply_event s ev = Inr (t, tr)" and "valid_state t"
    and "transition_ok s t"
  using assms
  by (auto simp: kernel_step_iff oracle_apply_Inr post_violations_cases)

lemma kernel_stepI:
  assumes "valid_state s" and "apply_event s ev = Inr (t, tr)"
    and "post_violations s ev t = Inr []"
  shows "oracle_apply s ev = Inr \<lparr>result_before = s, result_after = t, result_trace = tr,
      result_violations = []\<rparr>"
  by (subst oracle_apply_Inr) (use assms in simp)

lemma kernel_run_iff: "kernel_run s evs t \<longleftrightarrow> oracle_run s evs = Inr t"
  by (induction evs arbitrary: s) (auto simp: kernel_step_iff split: sum.splits)

subsection \<open>When the oracle accepts\<close>

text \<open>What the transition itself does not check: only the evidence a retirement or a
  reassessment brings in, and the references a reassessment installs.\<close>

fun event_admissible :: "ControlState \<Rightarrow> CsdEvent \<Rightarrow> bool" where
  "event_admissible s (EvReassess e) = reassess_admissible s e"
| "event_admissible s (EvRetireControl e) =
     evidence_time_ok (logical_time s) (retirement_evidence e)"
| "event_admissible s _ = True"

definition kernel_inv :: "ControlState \<Rightarrow> bool" where
  "kernel_inv s \<longleftrightarrow> valid_state s \<and> claims_canonical s"

lemma kernel_invD:
  assumes "kernel_inv s"
  shows "valid_state s" and "claims_canonical s" and "state_ok s" and "temporal_ok s"
    and "verdict_canonical s"
  using assms by (simp_all add: kernel_inv_def valid_state_def claims_canonical_def
      verdict_canonical_def)

lemma transition_accepted:
  assumes "kernel_inv s" and "apply_event s ev = Inr (post, tr)" and "event_admissible s ev"
  shows "post_violations s ev post = Inr []"
proof -
  note inv = kernel_invD [OF assms(1)]
  show ?thesis
  proof (cases ev)
    case (EvDependencyChange e)
    with assms(2) have "apply_dependency_change s e = (post, tr)" by simp
    with inv(1) EvDependencyChange show ?thesis
      by (simp add: post_violations_cases dependency_change_valid dependency_change_verified)
  next
    case (EvReassess e)
    with assms(2,3) have "apply_reassess s e = Inr (post, tr)" "reassess_admissible s e"
      by simp_all
    with inv(1,2) EvReassess show ?thesis
      by (simp add: post_violations_cases reassess_valid reassess_verified)
  next
    case (EvRetireControl e)
    with assms(2,3) have "apply_retire s e = Inr (post, tr)"
      "evidence_time_ok (logical_time s) (retirement_evidence e)" by simp_all
    with inv(1) EvRetireControl show ?thesis
      by (simp add: post_violations_cases retire_valid retire_verified)
  next
    case (EvAdvanceClock e)
    with assms(2) have "apply_advance_clock s e = Inr (post, tr)" by simp
    with inv(1,5) EvAdvanceClock show ?thesis
      by (simp add: post_violations_cases advance_clock_valid advance_clock_verified)
  next
    case (EvProfileChange e)
    with assms(2) have "apply_profile_change s e = Inr (post, tr)" by simp
    with inv(1,5) EvProfileChange show ?thesis
      by (simp add: post_violations_cases profile_change_valid profile_change_verified)
  next
    case (EvRequestReassessment e)
    with assms(2) have "apply_request_reassessment s e = Inr (post, tr)" by simp
    with inv(1) EvRequestReassessment show ?thesis
      by (simp add: post_violations_cases request_reassessment_accepted)
  next
    case (EvRecordHeartbeat e)
    with assms(2) have "apply_record_heartbeat s e = Inr (post, tr)" by simp
    with inv(1) EvRecordHeartbeat show ?thesis
      by (simp add: post_violations_cases record_heartbeat_accepted)
  qed
qed

subsection \<open>The invariant of the runs\<close>

lemma withdrawn_canonical:
  assumes "withdrawn s post" and "claims_canonical s"
  shows "claims_canonical post"
  using assms by (auto simp: withdrawn_def claims_canonical_def split: if_splits)

lemma apply_event_withdrawn:
  assumes "state_ok s" and "apply_event s ev = Inr (post, tr)"
    and "\<And>e. ev \<noteq> EvReassess e" and "\<And>e. ev \<noteq> EvRetireControl e"
  shows "withdrawn s post"
proof (cases ev)
  case (EvDependencyChange e)
  then show ?thesis using dependency_change_withdrawn [OF assms(1)] assms(2) by simp
next
  case (EvAdvanceClock e)
  then have a: "apply_advance_clock s e = Inr (post, tr)" using assms(2) by simp
  show ?thesis
    by (rule claims_withdrawn [OF assms(1) advance_clock_frame(3,2) [OF a]
          advance_clock_claims [OF a]])
next
  case (EvProfileChange e)
  then have a: "apply_profile_change s e = Inr (post, tr)" using assms(2) by simp
  show ?thesis
    by (rule claims_withdrawn [OF assms(1) profile_change_frame(3,2) [OF a]
          profile_change_claims [OF a]])
next
  case (EvRequestReassessment e)
  then have a: "apply_request_reassessment s e = Inr (post, tr)" using assms(2) by simp
  show ?thesis
    by (rule request_reassessment_frame [OF a])
      (use assms(1) in \<open>auto simp: withdrawn_def state_ok_def\<close>)
next
  case (EvRecordHeartbeat e)
  then have a: "apply_record_heartbeat s e = Inr (post, tr)" using assms(2) by simp
  show ?thesis
    by (rule record_heartbeat_frame [OF a])
      (use assms(1) in \<open>auto simp: withdrawn_def state_ok_def\<close>)
qed (use assms(3,4) in auto)

lemma apply_event_canonical:
  assumes "state_ok s" and "claims_canonical s" and "apply_event s ev = Inr (post, tr)"
  shows "claims_canonical post"
proof (cases ev)
  case (EvReassess e)
  then have "apply_reassess s e = Inr (post, tr)" using assms(3) by simp
  note frame = reassess_frame [OF this]
  show ?thesis
    by (simp add: claims_canonical_def frame(10-13) reassess_source_ids_def
        reassess_verdict_ids_def)
next
  case (EvRetireControl e)
  then have "apply_retire s e = Inr (post, tr)" using assms(3) by simp
  note frame = retire_frame [OF this]
  show ?thesis by (simp add: claims_canonical_def frame(13,14))
qed (use withdrawn_canonical [OF apply_event_withdrawn [OF assms(1,3)] assms(2)] in blast)+

lemma kernel_step_inv:
  assumes "kernel_step s ev t" and "kernel_inv s"
  shows "kernel_inv t"
  using kernel_stepD [OF assms(1)] apply_event_canonical kernel_invD [OF assms(2)]
  unfolding kernel_inv_def by blast

subsection \<open>What a run never undoes\<close>

definition request_evolved :: "ReassessmentRequest \<Rightarrow> ReassessmentRequest \<Rightarrow> bool" where
  "request_evolved old new \<longleftrightarrow>
     request_id old = request_id new \<and> reason old = reason new \<and>
     requested_at old = requested_at new \<and> due_at old = due_at new \<and>
     (request_status old = RequestClosed \<longrightarrow> new = old)"

definition evolved :: "ControlState \<Rightarrow> ControlState \<Rightarrow> bool" where
  "evolved before after \<longleftrightarrow>
     prefix (history before) (history after) \<and>
     (\<forall>k old. evidence_by_id before k = Some old \<longrightarrow>
        (\<exists>new. evidence_by_id after k = Some new \<and> evidence_step old new)) \<and>
     (\<forall>k b. bases_by_id before k = Some b \<longrightarrow> bases_by_id after k = Some b) \<and>
     (\<forall>k old. requests_by_id before k = Some old \<longrightarrow>
        (\<exists>new. requests_by_id after k = Some new \<and> request_evolved old new)) \<and>
     logical_time before \<le> logical_time after"

lemma evidence_step_trans: "evidence_step a b \<Longrightarrow> evidence_step b c \<Longrightarrow> evidence_step a c"
  by (auto simp: evidence_step_def same_content_def same_metadata_def)

lemma request_evolved_trans:
  "request_evolved a b \<Longrightarrow> request_evolved b c \<Longrightarrow> request_evolved a c"
  by (auto simp: request_evolved_def)

lemma valid_closure_evolved: "valid_closure t old new \<Longrightarrow> request_evolved old new"
  by (auto simp: valid_closure_def request_evolved_def)

lemma evolved_refl [simp]: "evolved s s"
  by (simp add: evolved_def request_evolved_def)

lemma transition_ok_evolved: "transition_ok s t \<Longrightarrow> evolved s t"
  unfolding transition_ok_def evolved_def by (meson valid_closure_evolved)

lemma evolved_trans: "evolved s t \<Longrightarrow> evolved t u \<Longrightarrow> evolved s u"
  unfolding evolved_def
  by (intro conjI)
    (meson prefix_order.trans evidence_step_trans request_evolved_trans order_trans)+

subsection \<open>Retirement is final\<close>

lemma apply_event_retired:
  assumes "apply_event s ev = Inr (post, tr)" and "obligation s = ObligationRetired"
  shows "obligation post = ObligationRetired"
proof (cases ev)
  case (EvDependencyChange e)
  then show ?thesis using assms dependency_change_frame(3) by fastforce
next
  case (EvReassess e)
  then show ?thesis using assms reassess_frame(3) by fastforce
next
  case (EvRetireControl e)
  then show ?thesis using assms retire_frame(3) by fastforce
next
  case (EvAdvanceClock e)
  then show ?thesis using assms advance_clock_frame(3) by fastforce
next
  case (EvProfileChange e)
  then show ?thesis using assms profile_change_frame(3) by fastforce
next
  case (EvRequestReassessment e)
  then have "apply_request_reassessment s e = Inr (post, tr)" using assms by simp
  then show ?thesis by (rule request_reassessment_frame) (use assms(2) in simp)
next
  case (EvRecordHeartbeat e)
  then have "apply_record_heartbeat s e = Inr (post, tr)" using assms by simp
  then show ?thesis by (rule record_heartbeat_frame) (use assms(2) in simp)
qed

subsection \<open>The kernel is a governed machine\<close>

interpretation kernel: absorbing_machine kernel_step kernel_inv evolved
  "\<lambda>s. obligation s = ObligationRetired"
proof unfold_locales
  show "kernel_inv s \<Longrightarrow> kernel_step s e t \<Longrightarrow> kernel_inv t" for s e t
    by (rule kernel_step_inv)
  show "kernel_step s e t \<Longrightarrow> evolved s t" for s e t
    by (rule transition_ok_evolved) (rule kernel_stepD)
  show "evolved s t \<Longrightarrow> evolved t u \<Longrightarrow> evolved s u" for s t u
    by (rule evolved_trans)
  show "kernel_step s e t \<Longrightarrow> obligation s = ObligationRetired \<Longrightarrow>
      obligation t = ObligationRetired" for s e t
    by (auto dest: kernel_stepD(2) apply_event_retired)
qed simp_all

end
