(* ===== verification/Kernel_Laws.thy ===== *)
theory Kernel_Laws
  imports Kernel_Runs
begin

section \<open>Algebraic laws of the transitions\<close>

text \<open>
  Up to the audit history: advancing the clock in two steps is advancing it once, dependency
  changes commute, and repeating one changes nothing. What each event leaves of the evidence,
  the references and the claims, and when each event is refused.
\<close>

definition same_but_history :: "ControlState \<Rightarrow> ControlState \<Rightarrow> bool" where
  "same_but_history s t \<longleftrightarrow> s\<lparr>history := []\<rparr> = t\<lparr>history := []\<rparr>"

lemma same_but_historyI:
  assumes "control_id s = control_id t" "obligation s = obligation t"
    "source_state s = source_state t" "assurance s = assurance t" "evidence s = evidence t"
    "bases s = bases t" "current_source_basis_ids s = current_source_basis_ids t"
    "current_verdict_basis_ids s = current_verdict_basis_ids t"
    "logical_time s = logical_time t" "required_profile_id s = required_profile_id t"
    "required_profile_version s = required_profile_version t"
    "reassessment_requests s = reassessment_requests t" "heartbeat s = heartbeat t"
  shows "same_but_history s t"
  unfolding same_but_history_def by (rule ControlState.equality) (simp_all add: assms)

text \<open>Support under later evidence implies support under earlier evidence.\<close>

lemma basis_is_supported_back:
  assumes "\<And>k. evmap' k = map_option f (evmap k)" and "\<And>ev. evidence_step ev (f ev)"
    and "basis_is_supported b evmap'"
  shows "basis_is_supported b evmap"
  using assms(3) assms(2) unfolding basis_is_supported_def evidence_step_def
  by (auto simp: assms(1) split: option.splits)

lemma profile_basis_is_supported_back:
  assumes "\<And>k. evmap' k = map_option f (evmap k)" and "\<And>ev. evidence_step ev (f ev)"
    and "profile_basis_is_supported b evmap' pid ver"
  shows "profile_basis_is_supported b evmap pid ver"
  using assms(3) assms(2) unfolding profile_basis_is_supported_def evidence_step_def
    same_metadata_def matches_required_profile_def
  by (auto simp: assms(1) split: option.splits)

lemma surviving_ids_twice:
  assumes "\<And>b. keep2 b \<Longrightarrow> keep1 b"
  shows "surviving_ids keep2 m (surviving_ids keep1 m ids) = surviving_ids keep2 m ids"
  using assms by (auto intro!: fset_eqI)

subsection \<open>Advancing the clock in two steps\<close>

lemma expire_due_twice: "t1 \<le> t2 \<Longrightarrow> expire_due t2 (expire_due t1 ev) = expire_due t2 ev"
  by (auto simp: expire_due_def expire_def evidence_due_def split: option.splits)

lemma apply_advance_clock_total:
  "(\<exists>post tr. apply_advance_clock s e = Inr (post, tr)) \<longleftrightarrow> logical_time s \<le> target_time e"
  by (auto simp: apply_advance_clock_def Let_def split: prod.splits)

lemma advance_clock_twice:
  assumes "apply_advance_clock s \<lparr>target_time = t1\<rparr> = Inr (s1, tr1)"
    and "apply_advance_clock s1 \<lparr>target_time = t2\<rparr> = Inr (s2, tr2)"
    and "apply_advance_clock s \<lparr>target_time = t2\<rparr> = Inr (u, tr)"
  shows "same_but_history s2 u"
proof -
  note f1 = advance_clock_frame [OF assms(1)] and f2 = advance_clock_frame [OF assms(2)]
    and f = advance_clock_frame [OF assms(3)]
  note c1 = advance_clock_claims [OF assms(1)] and c2 = advance_clock_claims [OF assms(2)]
    and c = advance_clock_claims [OF assms(3)]
  have le: "t1 \<le> t2" using f2(11) f1(5) by simp
  have ev: "evidence s2 = evidence u"
    using le by (simp add: f2(1) f1(1) f(1) expire_due_twice)
  have maps: "evidence_by_id s2 = evidence_by_id u" "bases_by_id s1 = bases_by_id s"
    by (simp_all add: evidence_by_id_def ev bases_by_id_def f1(2))
  have earlier: "profile_basis_is_supported b (evidence_by_id s1) pid ver"
    if "profile_basis_is_supported b (evidence_by_id u) pid ver" for b pid ver
  proof (rule profile_basis_is_supported_back [OF _ _ that])
    show "evidence_by_id u k = map_option (expire_due t2) (evidence_by_id s1 k)" for k
      using evidence_by_id_map [OF f2(1)] by (simp add: maps)
  qed simp
  have twice: "surviving_under s1 (evidence_by_id u) pid ver
      (surviving_under s (evidence_by_id s1) pid ver ids) =
      surviving_under s (evidence_by_id u) pid ver ids" for pid ver ids
    unfolding surviving_under_def maps by (rule surviving_ids_twice) (rule earlier)
  have missed: "heartbeat_due t1 (heartbeat s) \<Longrightarrow> heartbeat_due t2 (heartbeat s)"
    using le by (auto simp: heartbeat_due_def split: option.splits)
  have src: "current_source_basis_ids s2 = current_source_basis_ids u"
    by (simp add: c2(1) c1(1) c(1) f1(7,8) maps twice)
  have sub: "surviving_under s (evidence_by_id s1) pid ver ids = {||} \<Longrightarrow>
      surviving_under s (evidence_by_id u) pid ver ids = {||}" for pid ver ids
    using twice [of pid ver ids] by simp
  have ver: "current_verdict_basis_ids s2 = current_verdict_basis_ids u"
    using missed sub
    by (cases "obligation s = ObligationCurrent"; cases "substantive (assurance s)";
        cases "heartbeat_due t1 (heartbeat s)")
      (simp_all add: c2(2) c1(2,4) c(2) f1(3,6-8) maps twice)
  have sst: "source_state s2 = source_state u"
    using sub by (auto simp: c2(3) c1(3) c(3) src c1(1) c(1))
  have asr: "assurance s2 = assurance u"
    using missed sub
    by (cases "obligation s = ObligationCurrent"; cases "substantive (assurance s)";
        cases "heartbeat_due t1 (heartbeat s)")
      (auto simp: c2(4) c1(4) c(4) f1(3,6) ver c1(2) c(2))
  show ?thesis
    by (rule same_but_historyI)
      (simp_all add: src ver sst asr ev f1(2-9) f2(2-9) f(2-9))
qed

subsection \<open>Dependency changes commute\<close>

lemma invalidate_affected_commute:
  "invalidate_affected d2 (invalidate_affected d1 ev) =
   invalidate_affected d1 (invalidate_affected d2 ev)"
  by (auto simp: invalidate_affected_def affected_by_def invalidate_def)

lemma invalidate_affected_idem:
  "invalidate_affected d (invalidate_affected d ev) = invalidate_affected d ev"
  by (auto simp: invalidate_affected_def affected_by_def invalidate_def)

text \<open>The claims after two dependency changes, in terms of the final evidence alone.\<close>

lemma dependency_change_twice:
  assumes "apply_dependency_change s e1 = (s1, tr1)" and "apply_dependency_change s1 e2 = (s2, tr2)"
  shows "current_source_basis_ids s2 = surviving_ids (\<lambda>b. basis_is_supported b
        (evidence_by_id s2)) (bases_by_id s) (current_source_basis_ids s)"
    and "current_verdict_basis_ids s2 = surviving_ids (\<lambda>b. basis_is_supported b
        (evidence_by_id s2)) (bases_by_id s) (current_verdict_basis_ids s)"
    and "source_state s2 = (if source_state s \<noteq> SourceUnknown \<and>
        current_source_basis_ids s2 = {||} then SourceUnknown else source_state s)"
    and "assurance s2 = (if obligation s \<noteq> ObligationCurrent then AssuranceNA
        else if substantive (assurance s) \<and> current_verdict_basis_ids s2 = {||}
        then AssuranceStale else assurance s)"
proof -
  note f1 = dependency_change_frame [OF assms(1)] and f2 = dependency_change_frame [OF assms(2)]
  note c1 = dependency_change_claims [OF assms(1)] and c2 = dependency_change_claims [OF assms(2)]
  have maps: "bases_by_id s1 = bases_by_id s" by (simp add: bases_by_id_def f1(2))
  have earlier: "basis_is_supported b (evidence_by_id s1)"
    if "basis_is_supported b (evidence_by_id s2)" for b
    using evidence_by_id_map [OF f2(1)]
    by (intro basis_is_supported_back [OF _ _ that, of "invalidate_affected (dependency_id e2)"])
      simp_all
  have twice: "surviving_ids (\<lambda>b. basis_is_supported b (evidence_by_id s2)) (bases_by_id s)
      (surviving_ids (\<lambda>b. basis_is_supported b (evidence_by_id s1)) (bases_by_id s) ids) =
      surviving_ids (\<lambda>b. basis_is_supported b (evidence_by_id s2)) (bases_by_id s) ids" for ids
    by (rule surviving_ids_twice) (rule earlier)
  have empty: "surviving_ids keep m {||} = {||}" for keep m
    by (auto intro: fset_eqI)
  show src: "current_source_basis_ids s2 = surviving_ids (\<lambda>b. basis_is_supported b
        (evidence_by_id s2)) (bases_by_id s) (current_source_basis_ids s)"
    by (simp only: c2(1) c1(1) maps twice)
  show ver: "current_verdict_basis_ids s2 = surviving_ids (\<lambda>b. basis_is_supported b
        (evidence_by_id s2)) (bases_by_id s) (current_verdict_basis_ids s)"
    by (simp only: c2(2) c1(2) maps twice)
  have none: "current_source_basis_ids s1 = {||} \<Longrightarrow> current_source_basis_ids s2 = {||}"
    "current_verdict_basis_ids s1 = {||} \<Longrightarrow> current_verdict_basis_ids s2 = {||}"
    by (simp_all add: c2(1,2) empty)
  show "source_state s2 = (if source_state s \<noteq> SourceUnknown \<and>
        current_source_basis_ids s2 = {||} then SourceUnknown else source_state s)"
    using none(1) by (simp add: c2(3) c1(3))
  show "assurance s2 = (if obligation s \<noteq> ObligationCurrent then AssuranceNA
        else if substantive (assurance s) \<and> current_verdict_basis_ids s2 = {||}
        then AssuranceStale else assurance s)"
    using none(2) by (simp add: c2(4) c1(4) f1(3))
qed

lemma dependency_changes_commute:
  assumes "apply_dependency_change s e1 = (s1, tr1)" and "apply_dependency_change s1 e2 = (s12, tr2)"
    and "apply_dependency_change s e2 = (s2, tr3)" and "apply_dependency_change s2 e1 = (s21, tr4)"
  shows "same_but_history s12 s21"
proof -
  note f = dependency_change_frame [OF assms(1)] dependency_change_frame [OF assms(2)]
    dependency_change_frame [OF assms(3)] dependency_change_frame [OF assms(4)]
  note t12 = dependency_change_twice [OF assms(1,2)] and t21 = dependency_change_twice [OF assms(3,4)]
  have ev: "evidence s12 = evidence s21"
    by (simp add: dependency_change_frame(1) [OF assms(1)] dependency_change_frame(1) [OF assms(2)]
        dependency_change_frame(1) [OF assms(3)] dependency_change_frame(1) [OF assms(4)]
        invalidate_affected_commute)
  then have map: "evidence_by_id s12 = evidence_by_id s21" by (simp add: evidence_by_id_def)
  have src: "current_source_basis_ids s12 = current_source_basis_ids s21"
    and ver: "current_verdict_basis_ids s12 = current_verdict_basis_ids s21"
    by (simp_all only: t12(1,2) t21(1,2) map)
  show ?thesis
    by (rule same_but_historyI)
      (simp_all add: src ver ev t12(3,4) t21(3,4)
        dependency_change_frame(2-9) [OF assms(1)] dependency_change_frame(2-9) [OF assms(2)]
        dependency_change_frame(2-9) [OF assms(3)] dependency_change_frame(2-9) [OF assms(4)])
qed

lemma dependency_change_idempotent:
  assumes "apply_dependency_change s e = (s1, tr1)" and "apply_dependency_change s1 e = (s2, tr2)"
  shows "same_but_history s2 s1"
proof -
  note f1 = dependency_change_frame [OF assms(1)] and f2 = dependency_change_frame [OF assms(2)]
  note c = dependency_change_claims [OF assms(1)] and t = dependency_change_twice [OF assms]
  have ev: "evidence s2 = evidence s1" by (simp add: f2(1) f1(1) invalidate_affected_idem)
  then have map: "evidence_by_id s2 = evidence_by_id s1" by (simp add: evidence_by_id_def)
  have src: "current_source_basis_ids s2 = current_source_basis_ids s1"
    and ver: "current_verdict_basis_ids s2 = current_verdict_basis_ids s1"
    by (simp_all only: t(1,2) c(1,2) map)
  show ?thesis
    by (rule same_but_historyI) (simp_all add: src ver ev t(3,4) c(3,4) f1(2-9) f2(2-9))
qed

section \<open>What each event takes away\<close>

text \<open>
  The exact impact of a dependency change, of the passing of time and of a new profile: an
  event withdraws a reference if and only if it hits a piece of evidence the referenced basis
  rests on. Also: the trace reports exactly what happened, and no violation carries an
  unregistered identifier.
\<close>

definition untouched :: "ControlState \<Rightarrow> (Evidence \<Rightarrow> bool) \<Rightarrow> string \<Rightarrow> bool" where
  "untouched s hit bid \<longleftrightarrow>
     (\<forall>b m ev. bases_by_id s bid = Some b \<longrightarrow> m |\<in>| member_evidence_ids b \<longrightarrow>
        evidence_by_id s m = Some ev \<longrightarrow> \<not> hit ev)"

lemma supported_map_iff:
  assumes "basis_is_supported b evmap" and "\<And>k. evmap' k = map_option f (evmap k)"
    and "\<And>ev. evidence_status ev = EvidenceCurrent \<Longrightarrow>
      evidence_status (f ev) = EvidenceCurrent \<longleftrightarrow> \<not> hit ev"
  shows "basis_is_supported b evmap' \<longleftrightarrow>
     (\<forall>m ev. m |\<in>| member_evidence_ids b \<longrightarrow> evmap m = Some ev \<longrightarrow> \<not> hit ev)"
  using assms(1,3) unfolding basis_is_supported_def
  by (fastforce simp: assms(2) split: option.splits)

lemma profile_supported_map_iff:
  assumes "profile_basis_is_supported b evmap pid ver"
    and "\<And>k. evmap' k = map_option f (evmap k)" and "\<And>ev. evidence_step ev (f ev)"
    and "\<And>ev. evidence_status ev = EvidenceCurrent \<Longrightarrow>
      evidence_status (f ev) = EvidenceCurrent \<longleftrightarrow> \<not> hit ev"
  shows "profile_basis_is_supported b evmap' pid ver \<longleftrightarrow>
     (\<forall>m ev. m |\<in>| member_evidence_ids b \<longrightarrow> evmap m = Some ev \<longrightarrow> \<not> hit ev)"
proof -
  have sup: "basis_is_supported b evmap"
    by (rule profile_supported_imp_supported) (rule assms(1))
  have "profile_basis_is_supported b evmap' pid ver \<longleftrightarrow> basis_is_supported b evmap'"
  proof
    assume "basis_is_supported b evmap'"
    then show "profile_basis_is_supported b evmap' pid ver"
      using assms(2,3) by (intro profile_support_kept [OF assms(1)]) auto
  qed (rule profile_supported_imp_supported)
  with supported_map_iff [OF sup assms(2,4)] show ?thesis by simp
qed

text \<open>References of a valid state have a basis, supported with and without the profile.\<close>

lemma valid_reference:
  assumes "valid_state s"
    and "bid |\<in>| current_source_basis_ids s \<or> bid |\<in>| current_verdict_basis_ids s"
  obtains b where "bases_by_id s bid = Some b" and "basis_is_supported b (evidence_by_id s)"
    and "profile_basis_is_supported b (evidence_by_id s) (required_profile_id s)
      (required_profile_version s)"
proof -
  obtain b where b: "bases_by_id s bid = Some b" "basis_is_supported b (evidence_by_id s)"
    using assms by (auto simp: valid_state_def state_ok_def supported_reference_def)
  moreover have "profile_basis_is_supported b (evidence_by_id s) (required_profile_id s)
      (required_profile_version s)"
    using assms b(1) by (auto simp: valid_state_def temporal_ok_def profile_supported_def)
  ultimately show thesis using that by blast
qed

lemma surviving_ids_untouched:
  assumes "\<And>bid. bid |\<in>| ids \<Longrightarrow> \<exists>b. bases_by_id s bid = Some b \<and>
      (keep b \<longleftrightarrow> (\<forall>m ev. m |\<in>| member_evidence_ids b \<longrightarrow>
         evidence_by_id s m = Some ev \<longrightarrow> \<not> hit ev))"
  shows "surviving_ids keep (bases_by_id s) ids = ffilter (untouched s hit) ids"
proof (rule fset_eqI)
  fix bid
  show "bid |\<in>| surviving_ids keep (bases_by_id s) ids \<longleftrightarrow> bid |\<in>| ffilter (untouched s hit) ids"
  proof (cases "bid |\<in>| ids")
    case True
    from assms [OF this] show ?thesis using True by (auto simp: untouched_def)
  qed simp
qed

lemma dependency_change_survivors:
  assumes "valid_state s" and "apply_dependency_change s e = (post, tr)"
    and "ids = current_source_basis_ids s \<or> ids = current_verdict_basis_ids s"
  shows "surviving_ids (\<lambda>b. basis_is_supported b (evidence_by_id post)) (bases_by_id s) ids =
    ffilter (untouched s (affected_by (dependency_id e))) ids"
proof (rule surviving_ids_untouched)
  fix bid assume "bid |\<in>| ids"
  then obtain b where b: "bases_by_id s bid = Some b" "basis_is_supported b (evidence_by_id s)"
    using valid_reference [OF assms(1), of bid] assms(3) by blast
  have "basis_is_supported b (evidence_by_id post) \<longleftrightarrow>
      (\<forall>m ev. m |\<in>| member_evidence_ids b \<longrightarrow> evidence_by_id s m = Some ev \<longrightarrow>
         \<not> affected_by (dependency_id e) ev)"
    using evidence_by_id_map [OF dependency_change_frame(1) [OF assms(2)]]
    by (intro supported_map_iff [OF b(2), of _ "invalidate_affected (dependency_id e)"])
      (auto simp: invalidate_affected_def invalidate_def affected_by_def)
  with b(1) show "\<exists>b. bases_by_id s bid = Some b \<and> (basis_is_supported b (evidence_by_id post) \<longleftrightarrow>
      (\<forall>m ev. m |\<in>| member_evidence_ids b \<longrightarrow> evidence_by_id s m = Some ev \<longrightarrow>
         \<not> affected_by (dependency_id e) ev))" by blast
qed

lemma advance_clock_survivors:
  assumes "valid_state s" and "apply_advance_clock s e = Inr (post, tr)"
    and "ids = current_source_basis_ids s \<or> ids = current_verdict_basis_ids s"
  shows "surviving_under s (evidence_by_id post) (required_profile_id s)
      (required_profile_version s) ids =
    ffilter (untouched s (evidence_due (target_time e))) ids"
  unfolding surviving_under_def
proof (rule surviving_ids_untouched)
  fix bid assume "bid |\<in>| ids"
  then obtain b where b: "bases_by_id s bid = Some b"
    and sup: "profile_basis_is_supported b (evidence_by_id s) (required_profile_id s)
      (required_profile_version s)"
    using valid_reference [OF assms(1), of bid] assms(3) by blast
  have "profile_basis_is_supported b (evidence_by_id post) (required_profile_id s)
      (required_profile_version s) \<longleftrightarrow>
      (\<forall>m ev. m |\<in>| member_evidence_ids b \<longrightarrow> evidence_by_id s m = Some ev \<longrightarrow>
         \<not> evidence_due (target_time e) ev)"
    using evidence_by_id_map [OF advance_clock_frame(1) [OF assms(2)]]
    by (intro profile_supported_map_iff [OF sup, of _ "expire_due (target_time e)"])
      (auto simp: expire_due_status)
  with b show "\<exists>b. bases_by_id s bid = Some b \<and>
      (profile_basis_is_supported b (evidence_by_id post) (required_profile_id s)
        (required_profile_version s) \<longleftrightarrow>
      (\<forall>m ev. m |\<in>| member_evidence_ids b \<longrightarrow> evidence_by_id s m = Some ev \<longrightarrow>
         \<not> evidence_due (target_time e) ev))" by blast
qed

definition profile_incompatible :: "string \<Rightarrow> int \<Rightarrow> Evidence \<Rightarrow> bool" where
  "profile_incompatible pid ver ev \<longleftrightarrow>
     profile_id ev \<noteq> None \<and> (profile_id ev \<noteq> Some pid \<or> profile_version ev \<noteq> Some ver)"

lemma profile_change_survivors:
  assumes "valid_state s"
    and "ids = current_source_basis_ids s \<or> ids = current_verdict_basis_ids s"
  shows "surviving_under s (evidence_by_id s) (Some pid) (Some ver) ids =
    ffilter (untouched s (profile_incompatible pid ver)) ids"
  unfolding surviving_under_def
proof (rule surviving_ids_untouched)
  fix bid assume "bid |\<in>| ids"
  then obtain b where b: "bases_by_id s bid = Some b" "basis_is_supported b (evidence_by_id s)"
    using valid_reference [OF assms(1), of bid] assms(2) by blast
  have "profile_basis_is_supported b (evidence_by_id s) (Some pid) (Some ver) \<longleftrightarrow>
      (\<forall>m ev. m |\<in>| member_evidence_ids b \<longrightarrow> evidence_by_id s m = Some ev \<longrightarrow>
         \<not> profile_incompatible pid ver ev)"
    using b(2) unfolding profile_basis_is_supported_def basis_is_supported_def
      matches_required_profile_def profile_incompatible_def
    by (fastforce split: option.splits)
  with b(1) show "\<exists>b. bases_by_id s bid = Some b \<and>
      (profile_basis_is_supported b (evidence_by_id s) (Some pid) (Some ver) \<longleftrightarrow>
      (\<forall>m ev. m |\<in>| member_evidence_ids b \<longrightarrow> evidence_by_id s m = Some ev \<longrightarrow>
         \<not> profile_incompatible pid ver ev))" by blast
qed

subsection \<open>Traces\<close>

text \<open>What the public trace of a claim-withdrawing event says, against the two states.\<close>

definition trace_faithful :: "ControlState \<Rightarrow> ControlState \<Rightarrow> TransitionTrace \<Rightarrow> bool" where
  "trace_faithful s post tr \<longleftrightarrow>
     set (preserved_evidence tr) =
       evidence_id ` {ev \<in> set (evidence post). evidence_status ev = EvidenceCurrent} \<and>
     set (surviving_bases tr) =
       fset (current_source_basis_ids post) \<union> fset (current_verdict_basis_ids post) \<and>
     set (removed_bases tr) =
       (fset (current_source_basis_ids s) \<union> fset (current_verdict_basis_ids s)) -
       set (surviving_bases tr) \<and>
     previous_source_state tr = Some (source_state_value (source_state s)) \<and>
     resulting_source_state tr = Some (source_state_value (source_state post)) \<and>
     previous_assurance tr = Some (assurance_value (assurance s)) \<and>
     resulting_assurance tr = Some (assurance_value (assurance post))"

lemma set_current_evidence_ids:
  "set (current_evidence_ids evs) =
     evidence_id ` {ev \<in> set evs. evidence_status ev = EvidenceCurrent}"
  by (simp add: current_evidence_ids_def)

lemma dependency_change_trace:
  assumes "apply_dependency_change s e = (post, tr)"
  shows "trace_faithful s post tr"
    and "set (invalidated_evidence tr) =
      evidence_id ` {ev \<in> set (evidence s). affected_by (dependency_id e) ev}"
proof -
  have post: "post = fst (apply_dependency_change s e)" and tr: "tr = snd (apply_dependency_change s e)"
    using assms by simp_all
  show "trace_faithful s post tr"
    unfolding post tr
    by (auto simp: apply_dependency_change_def Let_def trace_faithful_def
        set_current_evidence_ids)
  show "set (invalidated_evidence tr) =
      evidence_id ` {ev \<in> set (evidence s). affected_by (dependency_id e) ev}"
    unfolding tr by (simp add: apply_dependency_change_def Let_def fset_of_list.rep_eq
        del: fset_of_list_map fset_of_list_filter)
qed

lemma advance_clock_trace:
  assumes "apply_advance_clock s e = Inr (post, tr)"
  shows "trace_faithful s post tr"
    and "set (invalidated_evidence tr) = evidence_id ` {ev \<in> set (evidence s).
      evidence_status ev = EvidenceCurrent \<and> evidence_due (target_time e) ev}"
proof -
  show "trace_faithful s post tr"
    using assms by (auto simp: apply_advance_clock_def Let_def trace_faithful_def
        set_current_evidence_ids split: if_splits prod.splits)
  show "set (invalidated_evidence tr) = evidence_id ` {ev \<in> set (evidence s).
      evidence_status ev = EvidenceCurrent \<and> evidence_due (target_time e) ev}"
    using assms by (auto simp: apply_advance_clock_def Let_def expired_ids_def
        fset_of_list.rep_eq split: if_splits prod.splits)
qed

lemma profile_change_trace:
  assumes "apply_profile_change s e = Inr (post, tr)"
  shows "trace_faithful s post tr" and "invalidated_evidence tr = []"
  using assms
  by (auto simp: apply_profile_change_def Let_def trace_faithful_def
      set_current_evidence_ids split: if_splits prod.splits sum.splits)

subsection \<open>Registered identifiers\<close>

lemma registered_ids [simp]:
  "violation_registered \<lparr>invariant_id = i, message = m\<rparr> \<longleftrightarrow> i \<in> set EXECUTABLE_INVARIANT_IDS"
  by (simp add: violation_registered_def)

lemma viol_registered [simp]:
  "list_all violation_registered (viol c i m) \<longleftrightarrow> (c \<longrightarrow> i \<in> set EXECUTABLE_INVARIANT_IDS)"
  by (simp add: viol_def)

lemma concat_registered [simp]:
  "list_all violation_registered (concat (map f xs)) \<longleftrightarrow>
     (\<forall>x\<in>set xs. list_all violation_registered (f x))"
  by (induction xs) auto

lemma all_ids_registered [simp]:
  "''G-INV-06'' \<in> set EXECUTABLE_INVARIANT_IDS" "''G-INV-10'' \<in> set EXECUTABLE_INVARIANT_IDS"
  "''G-INV-11'' \<in> set EXECUTABLE_INVARIANT_IDS" "''G-INV-13'' \<in> set EXECUTABLE_INVARIANT_IDS"
  "''INV-04'' \<in> set EXECUTABLE_INVARIANT_IDS" "''INV-05'' \<in> set EXECUTABLE_INVARIANT_IDS"
  "''INV-07'' \<in> set EXECUTABLE_INVARIANT_IDS" "''INV-11'' \<in> set EXECUTABLE_INVARIANT_IDS"
  "''INV-13'' \<in> set EXECUTABLE_INVARIANT_IDS" "''INV-14'' \<in> set EXECUTABLE_INVARIANT_IDS"
  "''INV-15'' \<in> set EXECUTABLE_INVARIANT_IDS" "''INV-16'' \<in> set EXECUTABLE_INVARIANT_IDS"
  "''INV-18'' \<in> set EXECUTABLE_INVARIANT_IDS" "''INV-19'' \<in> set EXECUTABLE_INVARIANT_IDS"
  "''T-INV-01'' \<in> set EXECUTABLE_INVARIANT_IDS" "''T-INV-02'' \<in> set EXECUTABLE_INVARIANT_IDS"
  "''T-INV-03'' \<in> set EXECUTABLE_INVARIANT_IDS" "''T-INV-04'' \<in> set EXECUTABLE_INVARIANT_IDS"
  "''T-INV-06'' \<in> set EXECUTABLE_INVARIANT_IDS" "''P-INV-01'' \<in> set EXECUTABLE_INVARIANT_IDS"
  "''P-INV-02'' \<in> set EXECUTABLE_INVARIANT_IDS" "''P-INV-03'' \<in> set EXECUTABLE_INVARIANT_IDS"
  "''P-INV-04'' \<in> set EXECUTABLE_INVARIANT_IDS" "''R-INV-01'' \<in> set EXECUTABLE_INVARIANT_IDS"
  "''R-INV-02'' \<in> set EXECUTABLE_INVARIANT_IDS" "''R-INV-03'' \<in> set EXECUTABLE_INVARIANT_IDS"
  "''R-INV-04'' \<in> set EXECUTABLE_INVARIANT_IDS" "''H-INV-01'' \<in> set EXECUTABLE_INVARIANT_IDS"
  "''H-INV-02'' \<in> set EXECUTABLE_INVARIANT_IDS" "''H-INV-03'' \<in> set EXECUTABLE_INVARIANT_IDS"
  by (simp_all add: EXECUTABLE_INVARIANT_IDS_def CORE_INVARIANT_IDS_def
      TEMPORAL_INVARIANT_IDS_def)

lemma validate_profile_pair_registered [simp]:
  "list_all violation_registered (validate_profile_pair pid ver subject)"
  by (simp add: validate_profile_pair_def)

lemma validate_exact_audit_registered [simp]:
  "i \<in> set EXECUTABLE_INVARIANT_IDS \<Longrightarrow>
   list_all violation_registered (validate_exact_audit before after expected i)"
  by (simp add: validate_exact_audit_def)

lemma unchanged_temporal_governance_registered [simp]:
  "list_all violation_registered (unchanged_temporal_governance before after allow)"
  by (simp add: unchanged_temporal_governance_def)

lemma validate_state_registered [simp]: "list_all violation_registered (validate_state s)"
  by (auto simp: validate_state_def current_basis_violations_def source_basis_violations_def
      verdict_basis_violations_def split: option.splits)

lemma validate_temporal_state_registered [simp]:
  "list_all violation_registered (validate_temporal_state s)"
  by (auto simp: validate_temporal_state_def evidence_time_violations_def
      basis_profile_violations_def request_violations_def heartbeat_violations_def
      split: option.splits)

lemma validate_transition_registered [simp]:
  "list_all violation_registered (validate_transition s t)"
  by (auto simp: validate_transition_def evidence_transition_violations_def
      basis_transition_violations_def split: option.splits)

lemma validate_temporal_transition_registered [simp]:
  "list_all violation_registered (validate_temporal_transition s t)"
  by (auto simp: validate_temporal_transition_def evidence_metadata_violations_def
      request_transition_violations_def split: option.splits)

lemma validate_event_transition_registered:
  "validate_event_transition s ev t = Inr vs \<Longrightarrow> list_all violation_registered vs"
  by (cases ev)
    (auto simp: validate_dependency_change_def validate_reassess_def validate_retirement_def
      Let_def split: option.splits)

lemma validate_temporal_event_registered [simp]:
  "list_all violation_registered (validate_temporal_event s ev t)"
  by (cases ev)
    (auto simp: validate_advance_clock_def validate_profile_change_def validate_request_def
      validate_heartbeat_def validate_reassess_temporal_def validate_reassessment_requests_def
      Let_def split: option.splits prod.splits)

end
