(* ===== verification/Kernel_Examples.thy ===== *)
theory Kernel_Examples
  imports Kernel_Laws
begin

section \<open>Concrete control states\<close>

text \<open>
  A control with a source and a verdict reference resting on one piece of evidence, a pending
  reassessment request and a heartbeat, and the events the witnesses of the kernel apply to it.
\<close>

definition ex_evidence :: Evidence where
  "ex_evidence = \<lparr>evidence_id = ''e1'', dimension = ''source'', evidence_status = EvidenceCurrent,
     dependencies = {|''repo''|}, outcome = None, issued_at = 0, expires_at = Some 10,
     profile_id = None, profile_version = None\<rparr>"

definition ex_source_basis :: Basis where
  "ex_source_basis = \<lparr>basis_id = ''b1'', basis_kind = SourceBasis, claim = ''connected'',
     member_evidence_ids = {|''e1''|}, approved = True\<rparr>"

definition ex_verdict_basis :: Basis where
  "ex_verdict_basis = \<lparr>basis_id = ''b2'', basis_kind = VerdictBasis, claim = ''pass'',
     member_evidence_ids = {|''e1''|}, approved = True\<rparr>"

definition ex_request :: ReassessmentRequest where
  "ex_request = \<lparr>request_id = ''r1'', reason = ''audit'', requested_at = 0, due_at = 7,
     request_status = RequestPending, closed_at = None\<rparr>"

definition ex_heartbeat :: HeartbeatState where
  "ex_heartbeat = \<lparr>interval = 5, last_recorded_at = 0, heartbeat_due_at = 5\<rparr>"

definition ex_state :: ControlState where
  "ex_state = \<lparr>control_id = ''c1'', obligation = ObligationCurrent, source_state = Connected,
     assurance = AssurancePass, evidence = [ex_evidence],
     bases = [ex_source_basis, ex_verdict_basis], current_source_basis_ids = {|''b1''|},
     current_verdict_basis_ids = {|''b2''|}, history = [], logical_time = 0,
     required_profile_id = None, required_profile_version = None,
     reassessment_requests = [ex_request], heartbeat = Some ex_heartbeat\<rparr>"

text \<open>A control with a verdict reference but no substantive verdict.\<close>

definition ex_unverified :: ControlState where
  "ex_unverified = ex_state\<lparr>assurance := AssuranceUnverified,
     bases := [ex_source_basis, ex_verdict_basis\<lparr>claim := ''unverified''\<rparr>]\<rparr>"

text \<open>The same control with a second, invalidated piece of evidence.\<close>

definition ex_aged :: ControlState where
  "ex_aged = ex_state\<lparr>evidence := [ex_evidence,
     ex_evidence\<lparr>evidence_id := ''e0'', evidence_status := EvidenceInvalidated\<rparr>]\<rparr>"

definition ex_new_evidence :: Evidence where
  "ex_new_evidence = ex_evidence\<lparr>evidence_id := ''e2'', expires_at := None\<rparr>"

definition ex_new_basis :: Basis where
  "ex_new_basis = \<lparr>basis_id = ''b3'', basis_kind = SourceBasis, claim = ''wiredInert'',
     member_evidence_ids = {|''e2''|}, approved = True\<rparr>"

definition ex_reassess :: Reassess where
  "ex_reassess = \<lparr>new_evidence = [ex_new_evidence], new_bases = [ex_new_basis],
     new_source_state = Some WiredInert, new_assurance = None, reassess_authority = ''I3'',
     close_request_ids = [''r1'']\<rparr>"

text \<open>A reassessment to the state Unknown that brings a basis for it.\<close>

definition ex_unknown_basis :: Basis where
  "ex_unknown_basis = ex_new_basis\<lparr>claim := ''sourceUnknown''\<rparr>"

definition ex_unknown_reassess :: Reassess where
  "ex_unknown_reassess = ex_reassess\<lparr>new_bases := [ex_unknown_basis],
     new_source_state := Some SourceUnknown\<rparr>"

definition ex_retire :: RetireControl where
  "ex_retire = \<lparr>retirement_evidence = ex_new_evidence, retire_authority = ''I3''\<rparr>"

definition ex_profile_change :: ProfileChange where
  "ex_profile_change = \<lparr>new_profile_id = ''p'', new_profile_version = 1,
     profile_authority = ''I3'', profile_request_id = None, profile_request_due_at = None\<rparr>"

definition ex_dependency_change :: "string \<Rightarrow> DependencyChange" where
  "ex_dependency_change d = \<lparr>dependency_id = d, apparent_direction = None\<rparr>"

lemmas ex_record_defs = ex_evidence_def ex_source_basis_def ex_verdict_basis_def ex_request_def
  ex_heartbeat_def ex_new_evidence_def ex_new_basis_def

lemmas ex_eval = ex_record_defs evidence_by_id_def bases_by_id_def requests_by_id_def dict_by_def
  basis_is_supported_def profile_basis_is_supported_def matches_required_profile_def
  supported_reference_def

lemma ex_state_valid: "valid_state ex_state"
  by (simp add: valid_state_def state_ok_def temporal_ok_def ex_state_def ex_eval
      evidence_time_ok_def profile_pair_ok_def request_ok_def heartbeat_ok_def
      profile_supported_def)

lemma ex_state_inv: "kernel_inv ex_state"
  using ex_state_valid by (simp add: kernel_inv_def claims_canonical_def ex_state_def)

lemma ex_unverified_valid: "valid_state ex_unverified"
  by (simp add: valid_state_def state_ok_def temporal_ok_def ex_unverified_def ex_state_def
      ex_eval evidence_time_ok_def profile_pair_ok_def request_ok_def heartbeat_ok_def
      profile_supported_def)

lemma ex_aged_inv: "kernel_inv ex_aged"
  by (simp add: kernel_inv_def claims_canonical_def valid_state_def state_ok_def temporal_ok_def
      ex_aged_def ex_state_def ex_eval evidence_time_ok_def profile_pair_ok_def request_ok_def
      heartbeat_ok_def profile_supported_def)

lemma ex_reassess_admissible: "reassess_admissible ex_state ex_reassess"
  by (auto intro!: exI [of _ "''b3''"] simp: reassess_admissible_def Let_def ex_state_def ex_reassess_def ex_eval
      or_else_def evidence_time_ok_def profile_pair_ok_def new_basis_supported_def
      evidence_after_def reassess_source_ids_def reassess_verdict_ids_def retained_ids_def
      new_ids_of_kind_def basis_matches_claim_def fset_eq_iff)

lemma ex_check_reassess: "check_reassess ex_state ex_reassess = None"
  by (simp add: check_reassess_def Let_def ex_state_def ex_reassess_def ex_record_defs
      or_else_def check_new_basis_def dict_key_set_def evidence_ids_def basis_ids_def
      fset_eq_iff)

lemma ex_close_requests:
  "close_reassessment_requests ex_state [''r1''] = Inr [close ex_request 0]"
  by (auto simp: close_reassessment_requests_def Let_def ex_state_def ex_eval request_ids_def
      dict_key_set_def fset_eq_iff)

lemma ex_reassess_applies: "\<exists>post tr. apply_reassess ex_state ex_reassess = Inr (post, tr)"
  using ex_check_reassess ex_close_requests
  by (simp add: apply_reassess_def Let_def ex_reassess_def)

lemma ex_unknown_reassess_applies:
  "\<exists>post tr. apply_reassess ex_state ex_unknown_reassess = Inr (post, tr)"
proof -
  have "check_reassess ex_state ex_unknown_reassess = None"
    by (simp add: check_reassess_def Let_def ex_state_def ex_unknown_reassess_def
        ex_unknown_basis_def ex_reassess_def ex_record_defs
        or_else_def check_new_basis_def dict_key_set_def evidence_ids_def basis_ids_def
        fset_eq_iff)
  then show ?thesis using ex_close_requests
    by (simp add: apply_reassess_def Let_def ex_unknown_reassess_def ex_reassess_def)
qed

lemma ex_retire_applies: "\<exists>post tr. apply_retire ex_state ex_retire = Inr (post, tr)"
  by (simp add: apply_retire_def Let_def ex_state_def ex_retire_def ex_record_defs
      evidence_ids_def dict_key_set_def)

lemma ex_retire_time: "evidence_time_ok (logical_time ex_state) (retirement_evidence ex_retire)"
  by (simp add: evidence_time_ok_def profile_pair_ok_def ex_state_def ex_retire_def
      ex_record_defs)

lemma ex_profile_applies:
  "\<exists>post tr. apply_profile_change ex_state ex_profile_change = Inr (post, tr)"
  by (simp add: apply_profile_change_def profile_change_requests_def Let_def ex_state_def
      ex_profile_change_def split: prod.splits)

lemma ex_clock_applies:
  "0 \<le> t \<Longrightarrow> \<exists>post tr. apply_advance_clock ex_state \<lparr>target_time = t\<rparr> = Inr (post, tr)"
  by (subst apply_advance_clock_total) (simp add: ex_state_def)

lemma ex_clock_run:
  assumes "0 \<le> t" shows "\<exists>u. oracle_run ex_state [EvAdvanceClock \<lparr>target_time = t\<rparr>] = Inr u"
proof -
  obtain post tr where "apply_event ex_state (EvAdvanceClock \<lparr>target_time = t\<rparr>) = Inr (post, tr)"
    using ex_clock_applies [OF assms] by auto
  from kernel_stepI [OF kernel_invD(1) [OF ex_state_inv] this
      transition_accepted [OF ex_state_inv this]]
  show ?thesis by simp
qed

end
