(* ===== verification/Kernel_Properties.thy ===== *)
theory Kernel_Properties
  imports Kernel_Examples
begin

section \<open>Properties of the kernel\<close>

text \<open>
  The theorems about \<^verbatim>\<open>src/csd_foundry/kernel\<close>: when the oracle accepts, what every
  run keeps, what it can never do, the exact effect of each event, and the two places where
  the transitions and the independent verifier disagree.
\<close>

subsection \<open>The oracle\<close>





subsection \<open>Runs\<close>

text \<open>C3: Every state that an accepted sequence of events reaches satisfies the kernel
  invariant again: no violation of the core or temporal state checks, and references only
  under substantive claims.\<close>

theorem run_keeps_invariant:
  assumes "kernel_inv s" and "oracle_run s evs = Inr t"
  shows "validate_state t = [] \<and> validate_temporal_state t = [] \<and> kernel_inv t"
proof -
  have "kernel_inv t"
    using kernel.run_inv [of s evs t] assms by (simp add: kernel_run_iff)
  then show ?thesis using kernel_invD(3,4) by (simp add: validate_state_Nil validate_temporal_state_Nil)
qed

theorem run_keeps_invariant_witness:
  "\<exists>u. oracle_run ex_state [EvAdvanceClock \<lparr>target_time = 6\<rparr>] = Inr u \<and> kernel_inv u"
  using ex_clock_run [of 6] run_keeps_invariant [OF ex_state_inv] by fastforce

text \<open>C4: The record is append-only along every run: the audit history is extended, evidence
  keeps its content and metadata and never becomes current again, bases are unchanged, requests
  keep their terms and a closed one is frozen, and logical time does not go backwards.\<close>

theorem run_append_only:
  assumes "kernel_inv s" and "oracle_run s evs = Inr t"
  shows "evolved s t"
  using kernel.run_evolves [of s evs t] assms by (simp add: kernel_run_iff)

theorem run_append_only_witness:
  "\<exists>u. oracle_run ex_state [EvAdvanceClock \<lparr>target_time = 6\<rparr>] = Inr u \<and> evolved ex_state u"
  using ex_clock_run [of 6] run_append_only [OF ex_state_inv] by fastforce

text \<open>C5: A substantive verdict is always backed. Whenever a run reaches a state whose
  current obligation carries Pass, Partial or Fail, there is an approved verdict basis that
  claims exactly this verdict and has evidence, all of it current, unexpired at the logical
  time and issued for the required profile, and the heartbeat is not overdue.\<close>

theorem verdict_is_backed:
  assumes "kernel_inv s" and "oracle_run s evs = Inr t"
    and "obligation t = ObligationCurrent" and "substantive (assurance t)"
  shows "(\<exists>bid b. bid |\<in>| current_verdict_basis_ids t \<and> bases_by_id t bid = Some b \<and>
      approved b \<and> basis_kind b = VerdictBasis \<and> claim b = assurance_value (assurance t) \<and>
      member_evidence_ids b \<noteq> {||} \<and>
      (\<forall>m. m |\<in>| member_evidence_ids b \<longrightarrow> (\<exists>ev. evidence_by_id t m = Some ev \<and>
         evidence_status ev = EvidenceCurrent \<and> \<not> evidence_due (logical_time t) ev \<and>
         matches_required_profile ev (required_profile_id t) (required_profile_version t)))) \<and>
    \<not> heartbeat_due (logical_time t) (heartbeat t)"
proof -
  have "kernel_inv t"
    using kernel.run_inv [of s evs t] assms(1,2) by (simp add: kernel_run_iff)
  note ok = kernel_invD [OF this]
  obtain bid where bid: "bid |\<in>| current_verdict_basis_ids t"
    using ok(3) assms(3,4) by (auto simp: state_ok_def)
  obtain b where b: "bases_by_id t bid = Some b" "basis_kind b = VerdictBasis"
      "claim b = assurance_value (assurance t)"
    using ok(3) bid by (auto simp: state_ok_def supported_reference_def)
  have sup: "profile_basis_is_supported b (evidence_by_id t) (required_profile_id t)
      (required_profile_version t)"
    using valid_reference [OF ok(1), of bid] bid b(1) by auto
  have unexpired: "\<not> evidence_due (logical_time t) ev"
    if "evidence_by_id t m = Some ev" "evidence_status ev = EvidenceCurrent" for m ev
  proof -
    have "ev \<in> set (evidence t)"
      using dict_by_SomeD [OF that(1) [unfolded evidence_by_id_def]] by simp
    then have "evidence_time_ok (logical_time t) ev" using ok(4) by (simp add: temporal_ok_def)
    then show ?thesis using that(2)
      by (auto simp: evidence_time_ok_def evidence_due_def split: option.splits)
  qed
  have members: "\<exists>ev. evidence_by_id t m = Some ev \<and> evidence_status ev = EvidenceCurrent \<and>
      \<not> evidence_due (logical_time t) ev \<and>
      matches_required_profile ev (required_profile_id t) (required_profile_version t)"
    if "m |\<in>| member_evidence_ids b" for m
    using sup that unexpired unfolding profile_basis_is_supported_def
    by (fastforce split: option.splits)
  have "\<exists>bid b. bid |\<in>| current_verdict_basis_ids t \<and> bases_by_id t bid = Some b \<and>
      approved b \<and> basis_kind b = VerdictBasis \<and> claim b = assurance_value (assurance t) \<and>
      member_evidence_ids b \<noteq> {||} \<and>
      (\<forall>m. m |\<in>| member_evidence_ids b \<longrightarrow> (\<exists>ev. evidence_by_id t m = Some ev \<and>
         evidence_status ev = EvidenceCurrent \<and> \<not> evidence_due (logical_time t) ev \<and>
         matches_required_profile ev (required_profile_id t) (required_profile_version t)))"
    using bid b sup members unfolding profile_basis_is_supported_def by blast
  moreover have "\<not> heartbeat_due (logical_time t) (heartbeat t)"
    using ok(4) assms(4)
    by (auto simp: temporal_ok_def heartbeat_ok_def heartbeat_due_def split: option.splits)
  ultimately show ?thesis by blast
qed

theorem verdict_is_backed_witness:
  "\<exists>bid b. bid |\<in>| current_verdict_basis_ids ex_state \<and> bases_by_id ex_state bid = Some b \<and>
     claim b = ''pass''"
proof -
  have "obligation ex_state = ObligationCurrent" "assurance ex_state = AssurancePass"
    by (simp_all add: ex_state_def)
  with verdict_is_backed [OF ex_state_inv, of "[]" ex_state] show ?thesis by auto
qed

text \<open>C6: Evidence that is not current never supports a claim again: once it is invalidated
  or expired, no later state of any run has a current reference whose basis contains it.\<close>

theorem stale_evidence_stays_out:
  assumes "kernel_inv s" and "oracle_run s evs = Inr t"
    and "evidence_by_id s k = Some ev" and "evidence_status ev \<noteq> EvidenceCurrent"
    and "bid |\<in>| current_source_basis_ids t |\<union>| current_verdict_basis_ids t"
    and "bases_by_id t bid = Some b"
  shows "k |\<notin>| member_evidence_ids b"
proof
  assume k: "k |\<in>| member_evidence_ids b"
  have run: "kernel_run s evs t" using assms(2) by (simp add: kernel_run_iff)
  have "valid_state t" using kernel_invD(1) kernel.run_inv [OF run assms(1)] by blast
  then have "basis_is_supported b (evidence_by_id t)"
    using valid_reference [of t bid] assms(5,6) by auto
  then obtain new where new: "evidence_by_id t k = Some new"
      "evidence_status new = EvidenceCurrent"
    using k by (auto simp: basis_is_supported_def split: option.splits)
  have "evolved s t" by (rule kernel.run_evolves [OF run assms(1)])
  with assms(3) new have "evidence_step ev new" by (fastforce simp: evolved_def)
  with new(2) assms(4) show False by (simp add: evidence_step_def)
qed

theorem stale_evidence_stays_out_witness: "''e0'' |\<notin>| member_evidence_ids ex_source_basis"
proof (rule stale_evidence_stays_out [OF ex_aged_inv, of "[]"])
  show "oracle_run ex_aged [] = Inr ex_aged" by simp
  show "evidence_by_id ex_aged ''e0'' =
      Some (ex_evidence\<lparr>evidence_id := ''e0'', evidence_status := EvidenceInvalidated\<rparr>)"
    by (simp add: ex_aged_def ex_eval)
  show "''b1'' |\<in>| current_source_basis_ids ex_aged |\<union>| current_verdict_basis_ids ex_aged"
    by (simp add: ex_aged_def ex_state_def)
  show "bases_by_id ex_aged ''b1'' = Some ex_source_basis"
    by (simp add: ex_aged_def ex_state_def ex_eval)
qed simp

fun reassess_event :: "CsdEvent \<Rightarrow> bool" where
  "reassess_event (EvReassess _) = True"
| "reassess_event _ = False"

definition demoted :: "ControlState \<Rightarrow> ControlState \<Rightarrow> bool" where
  "demoted s t \<longleftrightarrow>
     assurance t \<in> {assurance s, AssuranceStale, AssuranceNA} \<and>
     source_state t \<in> {source_state s, SourceUnknown} \<and>
     current_source_basis_ids t |\<subseteq>| current_source_basis_ids s \<and>
     current_verdict_basis_ids t |\<subseteq>| current_verdict_basis_ids s"

lemma demoted_refl: "demoted s s"
  by (simp add: demoted_def)

lemma demoted_trans: "demoted s t \<Longrightarrow> demoted t u \<Longrightarrow> demoted s u"
  by (auto simp: demoted_def)

lemma kernel_step_demoted:
  assumes "kernel_step s ev t" and "\<not> reassess_event ev"
  shows "demoted s t"
proof -
  note step = kernel_stepD [OF assms(1)]
  then obtain tr where app: "apply_event s ev = Inr (t, tr)" by blast
  show ?thesis
  proof (cases "\<exists>e. ev = EvRetireControl e")
    case True
    with app obtain e where "apply_retire s e = Inr (t, tr)" by auto
    from retire_frame [OF this] show ?thesis by (simp add: demoted_def)
  next
    case False
    moreover have "ev \<noteq> EvReassess e" for e using assms(2) by auto
    ultimately have "withdrawn s t"
      using apply_event_withdrawn [OF _ app] step(1) by (auto simp: valid_state_def)
    then show ?thesis by (auto simp: demoted_def withdrawn_def)
  qed
qed

text \<open>Nothing but a reassessment promotes a claim. Along a run without reassessments the
  assurance stays what it was or becomes Stale or not applicable, the source state stays what
  it was or becomes Unknown, and no reference is added.\<close>

theorem only_reassessment_promotes:
  assumes "oracle_run s evs = Inr t" and "list_all (\<lambda>ev. \<not> reassess_event ev) evs"
  shows "demoted s t"
proof -
  have "kernel_run s evs t" using assms(1) by (simp add: kernel_run_iff)
  then show ?thesis using assms(2)
    by (induction rule: run_of.induct)
      (auto intro: demoted_trans kernel_step_demoted demoted_refl)
qed

theorem only_reassessment_promotes_witness:
  "\<exists>u. oracle_run ex_state [EvAdvanceClock \<lparr>target_time = 6\<rparr>] = Inr u \<and> demoted ex_state u"
  using ex_clock_run [of 6] only_reassessment_promotes
    [of ex_state "[EvAdvanceClock \<lparr>target_time = 6\<rparr>]"] by fastforce

text \<open>Retirement is final: every state that a run reaches from a retired control is
  retired, carries no verdict and has no verdict reference, whatever the events are.\<close>

theorem retirement_is_final:
  assumes "kernel_inv s" and "oracle_run s evs = Inr t" and "obligation s = ObligationRetired"
  shows "obligation t = ObligationRetired \<and> assurance t = AssuranceNA \<and>
    current_verdict_basis_ids t = {||}"
proof -
  have run: "kernel_run s evs t" using assms(2) by (simp add: kernel_run_iff)
  have t: "kernel_inv t" by (rule kernel.run_inv [OF run assms(1)])
  have ret: "obligation t = ObligationRetired" by (rule kernel.run_final [OF run assms(1,3)])
  with kernel_invD(3) [OF t] have na: "assurance t = AssuranceNA" by (simp add: state_ok_def)
  with kernel_invD(2) [OF t] ret show ?thesis
    by (auto simp: claims_canonical_def)
qed

theorem retirement_is_final_witness:
  "\<exists>post tr u. apply_retire ex_state ex_retire = Inr (post, tr) \<and>
     oracle_run post [EvAdvanceClock \<lparr>target_time = 3\<rparr>] = Inr u \<and> assurance u = AssuranceNA"
proof -
  obtain post tr where p: "apply_retire ex_state ex_retire = Inr (post, tr)"
    using ex_retire_applies by blast
  then have "apply_event ex_state (EvRetireControl ex_retire) = Inr (post, tr)" by simp
  from kernel_stepI [OF kernel_invD(1) [OF ex_state_inv] this
      transition_accepted [OF ex_state_inv this]] ex_retire_time
  have "oracle_run ex_state [EvRetireControl ex_retire] = Inr post" by simp
  then have inv: "kernel_inv post"
    by (intro kernel.run_inv [OF _ ex_state_inv]) (rule kernel_run_iff [THEN iffD2])
  have "logical_time post = 0" by (simp add: retire_frame [OF p]) (simp add: ex_state_def)
  then obtain u tr' where "apply_event post (EvAdvanceClock \<lparr>target_time = 3\<rparr>) = Inr (u, tr')"
    using apply_advance_clock_total [of post "\<lparr>target_time = 3\<rparr>"] by auto
  from kernel_stepI [OF kernel_invD(1) [OF inv] this transition_accepted [OF inv this]]
  have run: "oracle_run post [EvAdvanceClock \<lparr>target_time = 3\<rparr>] = Inr u" by simp
  show ?thesis using retirement_is_final [OF inv run] retire_frame(3) [OF p] p run by blast
qed

subsection \<open>The effect of each event\<close>

text \<open>C31: The exact impact of a dependency change. On a valid state, precisely the current
  evidence that depends on the changed item becomes invalidated; a reference survives if and
  only if its basis contains none of it; the source state becomes Unknown, and a substantive
  verdict of a current obligation Stale, exactly when no reference is left.\<close>

theorem dependency_change_impact:
  assumes "valid_state s" and "apply_dependency_change s e = (post, tr)"
  shows "evidence post = map (\<lambda>ev. if affected_by (dependency_id e) ev
      then ev\<lparr>evidence_status := EvidenceInvalidated\<rparr> else ev) (evidence s) \<and>
    current_source_basis_ids post = ffilter (untouched s (affected_by (dependency_id e)))
      (current_source_basis_ids s) \<and>
    current_verdict_basis_ids post = ffilter (untouched s (affected_by (dependency_id e)))
      (current_verdict_basis_ids s) \<and>
    source_state post = (if source_state s \<noteq> SourceUnknown \<and>
      current_source_basis_ids post = {||} then SourceUnknown else source_state s) \<and>
    assurance post = (if obligation s \<noteq> ObligationCurrent then AssuranceNA
      else if substantive (assurance s) \<and> current_verdict_basis_ids post = {||}
      then AssuranceStale else assurance s)"
proof (intro conjI)
  note c = dependency_change_claims [OF assms(2)]
  show "evidence post = map (\<lambda>ev. if affected_by (dependency_id e) ev
      then ev\<lparr>evidence_status := EvidenceInvalidated\<rparr> else ev) (evidence s)"
    by (simp add: dependency_change_frame(1) [OF assms(2)] invalidate_affected_def affected_by_def invalidate_def)
  show "current_source_basis_ids post = ffilter (untouched s (affected_by (dependency_id e)))
      (current_source_basis_ids s)"
    unfolding c(1) by (rule dependency_change_survivors [OF assms]) simp
  show "current_verdict_basis_ids post = ffilter (untouched s (affected_by (dependency_id e)))
      (current_verdict_basis_ids s)"
    unfolding c(2) by (rule dependency_change_survivors [OF assms]) simp
qed (rule dependency_change_claims [OF assms(2)])+

theorem dependency_change_impact_witness:
  "source_state (fst (apply_dependency_change ex_state (ex_dependency_change ''repo''))) =
     SourceUnknown"
proof -
  obtain post tr where p: "apply_dependency_change ex_state (ex_dependency_change ''repo'') =
      (post, tr)" by fastforce
  have "\<not> untouched ex_state (affected_by ''repo'') ''b1''"
    by (simp add: untouched_def ex_state_def ex_eval affected_by_def)
  then have "ffilter (untouched ex_state (affected_by ''repo'')) {|''b1''|} = {||}"
    by (auto intro!: fset_eqI)
  with dependency_change_impact [OF kernel_invD(1) [OF ex_state_inv] p] p
  show ?thesis by (simp add: ex_dependency_change_def ex_state_def)
qed



text \<open>The exact impact of a new required profile. On a valid state, no evidence is
  rewritten; a reference survives if and only if its basis contains no evidence issued for
  another profile or version, and the claims are withdrawn exactly when none survives.\<close>

theorem profile_change_impact:
  assumes "valid_state s" and "apply_profile_change s e = Inr (post, tr)"
  shows "evidence post = evidence s \<and> bases post = bases s \<and>
    required_profile_id post = Some (new_profile_id e) \<and>
    required_profile_version post = Some (new_profile_version e) \<and>
    current_source_basis_ids post = ffilter
      (untouched s (profile_incompatible (new_profile_id e) (new_profile_version e)))
      (current_source_basis_ids s) \<and>
    source_state post = (if source_state s \<noteq> SourceUnknown \<and>
      current_source_basis_ids post = {||} then SourceUnknown else source_state s) \<and>
    (substantive (assurance post) \<longleftrightarrow> obligation s = ObligationCurrent \<and>
      substantive (assurance s) \<and>
      ffilter (untouched s (profile_incompatible (new_profile_id e) (new_profile_version e)))
        (current_verdict_basis_ids s) \<noteq> {||})"
proof (intro conjI)
  note c = profile_change_claims [OF assms(2)] and f = profile_change_frame [OF assms(2)]
  show "evidence post = evidence s" "bases post = bases s"
    "required_profile_id post = Some (new_profile_id e)"
    "required_profile_version post = Some (new_profile_version e)" by (rule f)+
  show "current_source_basis_ids post = ffilter
      (untouched s (profile_incompatible (new_profile_id e) (new_profile_version e)))
      (current_source_basis_ids s)"
    unfolding c(1) by (rule profile_change_survivors [OF assms(1)]) simp
  show "source_state post = (if source_state s \<noteq> SourceUnknown \<and>
      current_source_basis_ids post = {||} then SourceUnknown else source_state s)"
    by (rule c(3))
  have survivors: "surviving_under s (evidence_by_id s) (Some (new_profile_id e))
      (Some (new_profile_version e)) (current_verdict_basis_ids s) =
    ffilter (untouched s (profile_incompatible (new_profile_id e) (new_profile_version e)))
      (current_verdict_basis_ids s)"
    by (rule profile_change_survivors [OF assms(1)]) simp
  show "substantive (assurance post) \<longleftrightarrow> obligation s = ObligationCurrent \<and>
      substantive (assurance s) \<and>
      ffilter (untouched s (profile_incompatible (new_profile_id e) (new_profile_version e)))
        (current_verdict_basis_ids s) \<noteq> {||}"
    by (auto simp: c(2,4) survivors)
qed

theorem profile_change_impact_witness:
  "\<exists>post tr. apply_profile_change ex_state ex_profile_change = Inr (post, tr) \<and>
     required_profile_id post = Some ''p''"
proof -
  obtain post tr where p: "apply_profile_change ex_state ex_profile_change = Inr (post, tr)"
    using ex_profile_applies by blast
  from profile_change_impact [OF kernel_invD(1) [OF ex_state_inv] p] p
  show ?thesis by (auto simp: ex_profile_change_def)
qed

text \<open>Waiting composes. Advancing the clock to an intermediate time and then to a later one
  succeeds only if advancing directly does, and gives the same state up to the audit
  history.\<close>

theorem clock_advances_compose:
  assumes "apply_advance_clock s \<lparr>target_time = t1\<rparr> = Inr (s1, tr1)"
    and "apply_advance_clock s1 \<lparr>target_time = t2\<rparr> = Inr (s2, tr2)"
  shows "\<exists>u tr. apply_advance_clock s \<lparr>target_time = t2\<rparr> = Inr (u, tr) \<and>
    same_but_history s2 u"
proof -
  have "logical_time s \<le> t2"
    using advance_clock_frame(5,11) [OF assms(1)] advance_clock_frame(11) [OF assms(2)] by simp
  then obtain u tr where "apply_advance_clock s \<lparr>target_time = t2\<rparr> = Inr (u, tr)"
    using apply_advance_clock_total [of s "\<lparr>target_time = t2\<rparr>"] by auto
  with advance_clock_twice [OF assms this] show ?thesis by blast
qed

theorem clock_advances_compose_witness:
  "\<exists>s1 tr1 s2 tr2 u tr. apply_advance_clock ex_state \<lparr>target_time = 4\<rparr> = Inr (s1, tr1) \<and>
     apply_advance_clock s1 \<lparr>target_time = 12\<rparr> = Inr (s2, tr2) \<and>
     apply_advance_clock ex_state \<lparr>target_time = 12\<rparr> = Inr (u, tr) \<and> same_but_history s2 u"
proof -
  obtain s1 tr1 where 1: "apply_advance_clock ex_state \<lparr>target_time = 4\<rparr> = Inr (s1, tr1)"
    using ex_clock_applies [of 4] by auto
  have "logical_time s1 = 4" using advance_clock_frame(5) [OF 1] by simp
  then obtain s2 tr2 where 2: "apply_advance_clock s1 \<lparr>target_time = 12\<rparr> = Inr (s2, tr2)"
    using apply_advance_clock_total [of s1 "\<lparr>target_time = 12\<rparr>"] by auto
  from 1 2 clock_advances_compose [OF 1 2] show ?thesis by blast
qed

text \<open>Dependency changes commute and are idempotent, up to the audit history: the order
  and the multiplicity of change notifications does not matter.\<close>

theorem dependency_changes_confluent:
  "same_but_history
     (fst (apply_dependency_change (fst (apply_dependency_change s e1)) e2))
     (fst (apply_dependency_change (fst (apply_dependency_change s e2)) e1)) \<and>
   same_but_history
     (fst (apply_dependency_change (fst (apply_dependency_change s e1)) e1))
     (fst (apply_dependency_change s e1))"
  using dependency_changes_commute dependency_change_idempotent by (metis prod.collapse)

text \<open>The public trace is faithful. For a dependency change, a clock advance and a profile
  change it names exactly the evidence the event affected, the evidence still current, the
  references removed and kept, and the claims before and after.\<close>

theorem traces_are_faithful:
  "trace_faithful s (fst (apply_dependency_change s d)) (snd (apply_dependency_change s d)) \<and>
   set (invalidated_evidence (snd (apply_dependency_change s d))) =
     evidence_id ` {ev \<in> set (evidence s). affected_by (dependency_id d) ev} \<and>
   (case apply_advance_clock s a of
      Inl _ \<Rightarrow> target_time a < logical_time s
    | Inr (post, tr) \<Rightarrow> trace_faithful s post tr \<and> set (invalidated_evidence tr) =
        evidence_id ` {ev \<in> set (evidence s). evidence_status ev = EvidenceCurrent \<and>
          evidence_due (target_time a) ev}) \<and>
   (case apply_profile_change s p of
      Inl _ \<Rightarrow> True
    | Inr (post, tr) \<Rightarrow> trace_faithful s post tr \<and> invalidated_evidence tr = [])"
  using dependency_change_trace [of s d] advance_clock_trace [of s a] profile_change_trace [of s p]
    apply_advance_clock_total [of s a]
  by (cases "apply_dependency_change s d") (auto split: sum.splits)

text \<open>C33: Every violation the verifier emits, on any state, pair of states or event, carries an
  identifier of the invariant registry, so the registry names every executable check.\<close>

theorem violations_are_registered:
  "list_all violation_registered (validate_state s) \<and>
   list_all violation_registered (validate_temporal_state s) \<and>
   list_all violation_registered (validate_transition s t) \<and>
   list_all violation_registered (validate_temporal_transition s t) \<and>
   list_all violation_registered (validate_temporal_event s ev t) \<and>
   (case post_violations s ev t of
      Inl _ \<Rightarrow> True | Inr vs \<Rightarrow> list_all violation_registered vs)"
  using validate_event_transition_registered [of s ev t]
  by (auto simp: post_violations_def split: sum.splits)

text \<open>Closing requests succeeds exactly when the identifiers are distinct and each names a
  pending request; it then closes those requests at the current logical time and leaves every
  other one untouched.\<close>

theorem close_requests_spec:
  "close_reassessment_requests s ids = Inr requests \<longleftrightarrow>
     distinct ids \<and>
     list_all (\<lambda>rid. \<exists>rq. requests_by_id s rid = Some rq \<and>
       request_status rq = RequestPending) ids \<and>
     requests = map (\<lambda>rq. if request_id rq \<in> set ids then close rq (logical_time s) else rq)
       (reassessment_requests s)"
proof
  assume a: "close_reassessment_requests s ids = Inr requests"
  note c = close_requests_frame [OF a]
  have "\<exists>rq. requests_by_id s rid = Some rq" if "rid \<in> set ids" for rid
    using that c(2) dict_by_None_iff [of request_id "reassessment_requests s" rid]
    by (auto simp: requests_by_id_def)
  with c(1,3,4) show "distinct ids \<and>
     list_all (\<lambda>rid. \<exists>rq. requests_by_id s rid = Some rq \<and>
       request_status rq = RequestPending) ids \<and>
     requests = map (\<lambda>rq. if request_id rq \<in> set ids then close rq (logical_time s) else rq)
       (reassessment_requests s)"
    unfolding list_all_iff by blast
next
  assume a: "distinct ids \<and>
     list_all (\<lambda>rid. \<exists>rq. requests_by_id s rid = Some rq \<and>
       request_status rq = RequestPending) ids \<and>
     requests = map (\<lambda>rq. if request_id rq \<in> set ids then close rq (logical_time s) else rq)
       (reassessment_requests s)"
  then have "rid \<in> request_id ` set (reassessment_requests s)" if "rid \<in> set ids" for rid
    using that dict_by_None_iff [of request_id "reassessment_requests s" rid]
    by (fastforce simp: list_all_iff requests_by_id_def)
  then have "fset_of_list ids |-| request_ids s = {||}"
    by (auto simp: request_ids_def dict_key_set_def fset_of_list.rep_eq intro!: fset_eqI)
  moreover have "ffilter (\<lambda>rid. case requests_by_id s rid of
      None \<Rightarrow> False | Some rq \<Rightarrow> request_status rq = RequestClosed) (fset_of_list ids) = {||}"
    using a by (fastforce simp: list_all_iff fset_of_list.rep_eq intro!: fset_eqI
        split: option.splits)
  ultimately show "close_reassessment_requests s ids = Inr requests"
    using a by (simp add: close_reassessment_requests_def Let_def fset_of_list.rep_eq)
qed

text \<open>A heartbeat is recorded exactly when its authority is I3, its time is the current
  logical time and an explicit or inherited interval is positive; it then replaces the
  heartbeat, moves the due time one interval ahead and changes nothing but the history.\<close>

theorem record_heartbeat_spec:
  "(\<exists>tr. apply_record_heartbeat s e = Inr (post, tr)) \<longleftrightarrow>
     heartbeat_authority e = ''I3'' \<and> at_time e = logical_time s \<and>
     (\<exists>iv. effective_interval s e = Some iv \<and> 0 < iv \<and>
        post = s\<lparr>heartbeat := Some \<lparr>interval = iv, last_recorded_at = logical_time s,
            heartbeat_due_at = logical_time s + iv\<rparr>,
          history := history s @ [record_heartbeat_audit e iv (logical_time s + iv)]\<rparr>)"
  by (auto simp: apply_record_heartbeat_def Let_def split: option.splits)

lemma disjoint_fset_iff: "A |\<inter>| B = {||} \<longleftrightarrow> fset A \<inter> fset B = {}"
  by (auto simp: fset_eq_iff)

text \<open>A reassessment is accepted by its transition exactly when its authority is I3, its
  evidence and bases have new identities, the evidence is current and not from the future, each
  new basis is approved, non-empty, over known evidence and claims the resulting state, and the
  requests to close are pending.\<close>

theorem reassess_accepted_iff:
  "(\<exists>post tr. apply_reassess s e = Inr (post, tr)) \<longleftrightarrow>
     reassess_authority e = ''I3'' \<and>
     fset (evidence_ids s) \<inter> evidence_id ` set (new_evidence e) = {} \<and>
     fset (basis_ids s) \<inter> basis_id ` set (new_bases e) = {} \<and>
     list_all (\<lambda>ev. evidence_status ev = EvidenceCurrent \<and> issued_at ev \<le> logical_time s)
       (new_evidence e) \<and>
     list_all (\<lambda>b. approved b \<and> member_evidence_ids b \<noteq> {||} \<and>
       fset (member_evidence_ids b) \<subseteq>
         fset (evidence_ids s) \<union> evidence_id ` set (new_evidence e) \<and>
       (case basis_kind b of
          SourceBasis \<Rightarrow>
            claim b = source_state_value (or_else (new_source_state e) (source_state s))
        | VerdictBasis \<Rightarrow>
            claim b = assurance_value (or_else (new_assurance e) (assurance s))
        | DeploymentBasis \<Rightarrow> True))
       (new_bases e) \<and>
     (\<exists>requests. close_reassessment_requests s (close_request_ids e) = Inr requests)"
proof -
  let ?ids = "evidence_ids s |\<union>| dict_key_set evidence_id (new_evidence e)"
  let ?src = "or_else (new_source_state e) (source_state s)"
  let ?assur = "or_else (new_assurance e) (assurance s)"
  have basis: "check_new_basis ?ids ?src ?assur b = None \<longleftrightarrow>
      approved b \<and> member_evidence_ids b \<noteq> {||} \<and>
      fset (member_evidence_ids b) \<subseteq> fset (evidence_ids s) \<union> evidence_id ` set (new_evidence e) \<and>
      (case basis_kind b of SourceBasis \<Rightarrow> claim b = source_state_value ?src
       | VerdictBasis \<Rightarrow> claim b = assurance_value ?assur | DeploymentBasis \<Rightarrow> True)" for b
    by (cases "basis_kind b")
      (auto simp: check_new_basis_def less_eq_fset.rep_eq fset_of_list.rep_eq dict_key_set_def)
  have "check_reassess s e = None \<longleftrightarrow> reassess_authority e = ''I3'' \<and>
     fset (evidence_ids s) \<inter> evidence_id ` set (new_evidence e) = {} \<and>
     fset (basis_ids s) \<inter> basis_id ` set (new_bases e) = {} \<and>
     list_all (\<lambda>ev. evidence_status ev = EvidenceCurrent \<and> issued_at ev \<le> logical_time s)
       (new_evidence e) \<and>
     list_all (\<lambda>b. check_new_basis ?ids ?src ?assur b = None) (new_bases e)"
    by (auto simp: check_reassess_def Let_def disjoint_fset_iff first_error_None list_all_iff
        linorder_not_less linorder_not_le split: if_splits)
  then show ?thesis unfolding basis apply_reassess_def Let_def
    by (auto split: option.splits sum.splits)
qed

lemma verified_clock_clears_verdicts:
  assumes "validate_advance_clock s e post = []" and "heartbeat_due (target_time e) (heartbeat s)"
  shows "current_verdict_basis_ids post = {||}"
proof -
  obtain src ver where "expected_basis_survival s (evidence_by_id post) (required_profile_id post)
      (required_profile_version post) = (src, ver)" by fastforce
  moreover have "case heartbeat s of None \<Rightarrow> False
      | Some hb \<Rightarrow> heartbeat_due_at hb \<le> target_time e"
    using assms(2) by (simp add: heartbeat_due_def)
  ultimately show ?thesis
    using assms(1) unfolding validate_advance_clock_def Let_def append_is_Nil_conv viol_Nil
    by simp
qed

lemma oracle_rejects:
  assumes "valid_state s" and "apply_event s ev = Inr (post, tr)"
    and "post_violations s ev post = Inr vs" and "vs \<noteq> []"
  shows "\<exists>m. oracle_apply s ev = Inl (OracleRejected m)"
  using assms by (simp add: oracle_apply_def Let_def valid_state_def validate_state_Nil
      validate_temporal_state_Nil)



lemma verified_reassess_sources:
  assumes "validate_reassess s e post = []"
  shows "current_source_basis_ids post = surviving_ids (\<lambda>b. basis_kind b = SourceBasis \<and>
      claim b = source_state_value (or_else (new_source_state e) (source_state s)) \<and>
      basis_is_supported b (evidence_by_id post)) (bases_by_id post)
    (current_source_basis_ids s |\<union>| dict_key_set basis_id (new_bases e))"
  using assms unfolding validate_reassess_def Let_def append_is_Nil_conv viol_Nil by simp

text \<open>The reassessment transition and its verifier disagree on an event that the
  transition accepts. A new source basis that claims the state Unknown passes every check when
  the result is Unknown; the transition then drops all source references, while the verifier
  expects the supported basis among them, so the oracle rejects the reassessment.\<close>

theorem unknown_source_basis_rejected:
  assumes "valid_state s" and "apply_reassess s e = Inr (post, tr)"
    and "or_else (new_source_state e) (source_state s) = SourceUnknown"
    and "b \<in> set (new_bases e)" and "basis_kind b = SourceBasis"
    and "distinct (map basis_id (new_bases e))"
    and "basis_is_supported b (evidence_by_id post)"
  shows "\<exists>m. oracle_apply s (EvReassess e) = Inl (OracleRejected m)"
proof -
  note frame = reassess_frame [OF assms(2)]
  note checks = check_reassess_None [OF frame(14)]
  have "distinct (map basis_id (bases post))"
    using assms(1,6) checks(3) by (auto simp: frame(2) valid_state_def state_ok_def)
  moreover have "b \<in> set (bases post)" using assms(4) by (simp add: frame(2))
  ultimately have b: "bases_by_id post (basis_id b) = Some b"
    using dict_by_distinct by (fastforce simp: bases_by_id_def)
  have claim: "claim b = source_state_value SourceUnknown"
    using checks(5) assms(3-5) by auto
  have none: "current_source_basis_ids post = {||}"
    using assms(3) by (simp add: frame reassess_source_ids_def)
  have refs: "basis_id b |\<in>| surviving_ids (\<lambda>x. basis_kind x = SourceBasis \<and>
      claim x = source_state_value (or_else (new_source_state e) (source_state s)) \<and>
      basis_is_supported x (evidence_by_id post)) (bases_by_id post)
      (current_source_basis_ids s |\<union>| dict_key_set basis_id (new_bases e))"
    using b assms(3-5,7) claim by (auto simp: dict_key_set_def fset_of_list.rep_eq)
  have "validate_reassess s e post \<noteq> []"
  proof
    assume "validate_reassess s e post = []"
    from refs [folded verified_reassess_sources [OF this]] none show False by simp
  qed
  then show ?thesis
    by (intro oracle_rejects [OF assms(1), of _ post tr "validate_transition s post @
          validate_temporal_transition s post @ validate_reassess s e post @
          validate_reassess_temporal s e post"])
      (simp_all add: assms(2) post_violations_def)
qed

theorem unknown_source_basis_rejected_witness:
  "\<exists>m. oracle_apply ex_state (EvReassess ex_unknown_reassess) = Inl (OracleRejected m)"
proof -
  obtain post tr where p: "apply_reassess ex_state ex_unknown_reassess = Inr (post, tr)"
    using ex_unknown_reassess_applies by blast
  show ?thesis
  proof (rule unknown_source_basis_rejected [OF kernel_invD(1) [OF ex_state_inv] p])
    show "ex_unknown_basis \<in> set (new_bases ex_unknown_reassess)"
      "basis_kind ex_unknown_basis = SourceBasis"
      "or_else (new_source_state ex_unknown_reassess) (source_state ex_state) = SourceUnknown"
      "distinct (map basis_id (new_bases ex_unknown_reassess))"
      by (simp_all add: ex_unknown_reassess_def ex_unknown_basis_def ex_new_basis_def or_else_def)
    show "basis_is_supported ex_unknown_basis (evidence_by_id post)"
      by (simp add: evidence_by_id_def reassess_frame(1) [OF p])
        (simp add: ex_unknown_reassess_def ex_unknown_basis_def ex_reassess_def ex_state_def ex_eval)
  qed
qed

end
