(* ===== verification/Bytes.thy ===== *)
theory Bytes
  imports Csd_Prelude "HOL-Library.Word"
begin

section \<open>Bytes, UTF-8 and big-endian integers\<close>

text \<open>
  What the digest-bearing modules use of Python's \<^verbatim>\<open>bytes\<close>: UTF-8 encoding of a
  string of code points below 256, \<^verbatim>\<open>int.to_bytes(k, "big")\<close>,
  \<^verbatim>\<open>int.from_bytes(bs, "big")\<close> and \<^verbatim>\<open>bytes.hex()\<close>. Hash functions
  are not modelled: the definitions that hash take the hash function as an argument.
\<close>

type_synonym byte = "8 word"

subsection \<open>UTF-8\<close>

definition utf8_char :: "char \<Rightarrow> byte list" where
  "utf8_char c = (let n = of_char c :: nat in
     if n < 128 then [of_nat n] else [of_nat (192 + n div 64), of_nat (128 + n mod 64)])"

definition utf8 :: "string \<Rightarrow> byte list" where
  "utf8 s = concat (map utf8_char s)"

lemma utf8_Nil [simp]: "utf8 [] = []" and utf8_Cons: "utf8 (c # s) = utf8_char c @ utf8 s"
  and utf8_append: "utf8 (s @ t) = utf8 s @ utf8 t"
  by (simp_all add: utf8_def)

lemma of_nat_byte_eq: "m < 256 \<Longrightarrow> n < 256 \<Longrightarrow> (of_nat m :: byte) = of_nat n \<longleftrightarrow> m = n"
  by (simp add: word_of_nat_eq_iff take_bit_nat_eq_self)

lemma utf8_char_prefix_free:
  assumes "utf8_char c @ r = utf8_char d @ s"
  shows "c = d \<and> r = s"
proof -
  define m n where "m = (of_char c :: nat)" and "n = (of_char d :: nat)"
  have bound: "m < 256" "n < 256" by (simp_all add: m_def n_def)
  have "m = n \<and> r = s"
  proof (cases "m < 128"; cases "n < 128")
    assume "m < 128" "n < 128"
    then show ?thesis using assms bound by (simp add: utf8_char_def m_def n_def of_nat_byte_eq)
  next
    assume *: "m < 128" "\<not> n < 128"
    then have "192 + n div 64 < 256" using bound by simp
    then show ?thesis using assms bound *
      by (simp add: utf8_char_def m_def n_def Let_def of_nat_byte_eq del: of_nat_add)
  next
    assume *: "\<not> m < 128" "n < 128"
    then have "192 + m div 64 < 256" using bound by simp
    then show ?thesis using assms bound *
      by (simp add: utf8_char_def m_def n_def Let_def of_nat_byte_eq del: of_nat_add)
  next
    assume *: "\<not> m < 128" "\<not> n < 128"
    then have "192 + m div 64 < 256" "192 + n div 64 < 256" "128 + m mod 64 < 256"
      "128 + n mod 64 < 256" using bound by simp_all
    then have "m div 64 = n div 64 \<and> m mod 64 = n mod 64 \<and> r = s" using assms *
      by (simp add: utf8_char_def m_def n_def Let_def of_nat_byte_eq del: of_nat_add)
    then show ?thesis by (metis div_mod_decomp)
  qed
  then show ?thesis by (simp add: m_def n_def)
qed

lemma utf8_char_not_Nil [simp]: "utf8_char c \<noteq> []"
  by (simp add: utf8_char_def Let_def)

lemma utf8_inject [simp]: "utf8 s = utf8 t \<longleftrightarrow> s = t"
proof
  show "utf8 s = utf8 t \<Longrightarrow> s = t"
  proof (induction s arbitrary: t)
    case Nil
    then show ?case by (cases t) (auto simp: utf8_Cons)
  next
    case (Cons c s)
    show ?case
    proof (cases t)
      case Nil
      then show ?thesis using Cons.prems by (auto simp: utf8_Cons)
    next
      case (Cons d t')
      then show ?thesis using Cons.prems Cons.IH utf8_char_prefix_free
        by (metis utf8_Cons)
    qed
  qed
qed simp

subsection \<open>Big-endian integers\<close>

fun be_bytes :: "nat \<Rightarrow> int \<Rightarrow> byte list" where
  "be_bytes 0 n = []"
| "be_bytes (Suc k) n = be_bytes k (n div 256) @ [word_of_int n]"

definition from_be :: "byte list \<Rightarrow> int" where
  "from_be bs = foldl (\<lambda>a b. a * 256 + uint b) 0 bs"

lemma length_be_bytes [simp]: "length (be_bytes k n) = k"
  by (induction k arbitrary: n) auto

lemma from_be_Nil [simp]: "from_be [] = 0"
  and from_be_snoc [simp]: "from_be (bs @ [b]) = from_be bs * 256 + uint b"
  by (simp_all add: from_be_def)

lemma from_be_be_bytes: "0 \<le> n \<Longrightarrow> from_be (be_bytes k n) = n mod 256 ^ k"
proof (induction k arbitrary: n)
  case (Suc k)
  have "n mod (256 * 256 ^ k) = 256 * (n div 256 mod 256 ^ k) + n mod 256"
    by (rule zmod_zmult2_eq) simp
  then show ?case using Suc by (simp add: uint_word_of_int take_bit_eq_mod)
qed simp

lemma from_be_nonneg: "0 \<le> from_be bs"
  by (induction bs rule: rev_induct) auto

lemma uint_byte_less: "uint (b :: byte) < 256"
  using uint_lt2p [of b] by simp

lemma from_be_less: "from_be bs < 256 ^ length bs"
proof (induction bs rule: rev_induct)
  case (snoc b bs)
  then show ?case using uint_byte_less [of b] by simp
qed simp

lemma be_bytes_from_be: "be_bytes (length bs) (from_be bs) = bs"
proof (induction bs rule: rev_induct)
  case (snoc b bs)
  have "(from_be bs * 256 + uint b) div 256 = from_be bs"
    using uint_byte_less [of b] by simp
  moreover
  have "(256 :: byte) = 0" by transfer (simp add: take_bit_eq_mod)
  then have "word_of_int (from_be bs * 256 + uint b) = b"
    by (simp only: of_int_add of_int_mult of_int_numeral word_of_int_uint mult_zero_right add_0)
  ultimately show ?case using snoc by simp
qed simp

lemma be_bytes_inject:
  assumes "0 \<le> m" "m < 256 ^ k" "0 \<le> n" "n < 256 ^ k" and "be_bytes k m = be_bytes k n"
  shows "m = n"
proof -
  have "from_be (be_bytes k m) = from_be (be_bytes k n)" using assms(5) by simp
  then show ?thesis using assms(1-4) by (simp add: from_be_be_bytes)
qed

subsection \<open>Hexadecimal text\<close>

definition hex :: "byte list \<Rightarrow> string" where
  "hex bs = concat (map (\<lambda>b. [hex_digit (unat b div 16), hex_digit (unat b mod 16)]) bs)"

lemma length_hex [simp]: "length (hex bs) = 2 * length bs"
  by (induction bs) (auto simp: hex_def)

end
