(* ===== verification/Canonical_Json.thy ===== *)
theory Canonical_Json
  imports Bytes
begin

section \<open>Canonical integer-only JSON\<close>

text \<open>
  \<^verbatim>\<open>synthesis/v0_4/serialization.py\<close>: conversion of Python values to JSON values
  and their canonical bytes. A dictionary is the association list of its items in insertion
  order; \<^verbatim>\<open>json.dumps\<close> is written out for the arguments the module passes
  (\<^verbatim>\<open>ensure_ascii=False\<close>, compact separators, sorted keys).
\<close>

datatype json =
    JNull
  | JBool bool
  | JInt int
  | JStr string
  | JArr "json list"
  | JObj "(string \<times> json) list"

subsection \<open>\<^verbatim>\<open>json.dumps\<close>\<close>

definition esc_char :: "char \<Rightarrow> string" where
  "esc_char c = (let n = of_char c :: nat in
     if n = 34 \<or> n = 92 then [CHR 0x5C, c]
     else if n = 8 then [CHR 0x5C, CHR ''b'']
     else if n = 9 then [CHR 0x5C, CHR ''t'']
     else if n = 10 then [CHR 0x5C, CHR ''n'']
     else if n = 12 then [CHR 0x5C, CHR ''f'']
     else if n = 13 then [CHR 0x5C, CHR ''r'']
     else if n < 32
       then [CHR 0x5C, CHR ''u'', CHR ''0'', CHR ''0'',
             hex_digit (n div 16), hex_digit (n mod 16)]
     else [c])"

definition quote :: "string \<Rightarrow> string" where
  "quote s = [CHR 0x22] @ concat (map esc_char s) @ [CHR 0x22]"

fun json_dumps :: "json \<Rightarrow> string" where
  "json_dumps JNull = ''null''"
| "json_dumps (JBool b) = (if b then ''true'' else ''false'')"
| "json_dumps (JInt n) = py_str n"
| "json_dumps (JStr s) = quote s"
| "json_dumps (JArr xs) = ''['' @ join '','' (map json_dumps xs) @ '']''"
| "json_dumps (JObj ps) = ''{'' @ join '','' (map (\<lambda>(k, v). quote k @ '':'' @ v)
     (sort_key fst (map (\<lambda>(k, v). (k, json_dumps v)) ps))) @ ''}''"

text \<open>The same call without \<^verbatim>\<open>sort_keys\<close>: items in insertion order.\<close>

fun raw :: "json \<Rightarrow> string" where
  "raw JNull = ''null''"
| "raw (JBool b) = (if b then ''true'' else ''false'')"
| "raw (JInt n) = py_str n"
| "raw (JStr s) = quote s"
| "raw (JArr xs) = ''['' @ join '','' (map raw xs) @ '']''"
| "raw (JObj ps) = ''{'' @ join '','' (map (\<lambda>(k, v). quote k @ '':'' @ raw v) ps) @ ''}''"

subsection \<open>Python values\<close>

text \<open>The values the code distinguishes. A \<^verbatim>\<open>StrEnum\<close> member is a string; a
  dataclass carries its fields in order; a set its elements in iteration order; any other
  object the name of its type.\<close>

datatype pyval =
    PyNone
  | PyBool bool
  | PyInt int
  | PyStr string
  | PyFloat
  | PyDataclass "(string \<times> pyval) list"
  | PyDict "(pyval \<times> pyval) list"
  | PyList "pyval list"
  | PySet "pyval list"
  | PyOther string

datatype json_error = CanonicalSerializationError string

fun map_res :: "('a \<Rightarrow> 'e + 'b) \<Rightarrow> 'a list \<Rightarrow> 'e + 'b list" where
  "map_res f [] = Inr []"
| "map_res f (x # xs) = (case f x of
     Inl e \<Rightarrow> Inl e
   | Inr y \<Rightarrow> (case map_res f xs of Inl e \<Rightarrow> Inl e | Inr ys \<Rightarrow> Inr (y # ys)))"

lemma map_res_cong [fundef_cong]:
  "xs = ys \<Longrightarrow> (\<And>x. x \<in> set ys \<Longrightarrow> f x = g x) \<Longrightarrow> map_res f xs = map_res g ys"
  by (induction ys arbitrary: xs) (auto split: sum.splits)

lemma map_res_Inr:
  "map_res f xs = Inr ys \<longleftrightarrow> list_all2 (\<lambda>x y. f x = Inr y) xs ys"
proof (induction xs arbitrary: ys)
  case (Cons x xs)
  show ?case
  proof (cases "map_res f xs")
    case (Inl e)
    then have "\<not> list_all2 (\<lambda>x y. f x = Inr y) xs zs" for zs
      using Cons.IH [of zs] by simp
    then show ?thesis using Inl by (auto simp: list_all2_Cons1 split: sum.splits)
  next
    case (Inr zs)
    then have "list_all2 (\<lambda>x y. f x = Inr y) xs ws \<longleftrightarrow> zs = ws" for ws
      using Cons.IH [of ws] by simp
    then show ?thesis using Inr by (auto simp: list_all2_Cons1 split: sum.splits)
  qed
qed auto

text \<open>\<^verbatim>\<open>_sort_key\<close>.\<close>

definition json_sort_key :: "json \<Rightarrow> byte list" where
  "json_sort_key j = utf8 (json_dumps j)"

fun to_json_value :: "pyval \<Rightarrow> json_error + json" where
  "to_json_value PyNone = Inr JNull"
| "to_json_value (PyBool b) = Inr (JBool b)"
| "to_json_value (PyInt n) = Inr (JInt n)"
| "to_json_value (PyStr s) = Inr (JStr s)"
| "to_json_value PyFloat =
     Inl (CanonicalSerializationError ''floating-point semantic values are prohibited'')"
| "to_json_value (PyDataclass fields) =
     (case map_res (\<lambda>(k, v). case to_json_value v of Inl e \<Rightarrow> Inl e | Inr j \<Rightarrow> Inr (k, j)) fields
      of Inl e \<Rightarrow> Inl e | Inr ps \<Rightarrow> Inr (JObj ps))"
| "to_json_value (PyDict items) =
     (case map_res (\<lambda>(k, v). case k of
          PyStr s \<Rightarrow> (case to_json_value v of Inl e \<Rightarrow> Inl e | Inr j \<Rightarrow> Inr (s, j))
        | _ \<Rightarrow> Inl (CanonicalSerializationError
            ''canonical JSON object keys must be strings'')) items
      of Inl e \<Rightarrow> Inl e | Inr ps \<Rightarrow> Inr (JObj ps))"
| "to_json_value (PyList xs) =
     (case map_res to_json_value xs of Inl e \<Rightarrow> Inl e | Inr js \<Rightarrow> Inr (JArr js))"
| "to_json_value (PySet xs) =
     (case map_res to_json_value xs of
        Inl e \<Rightarrow> Inl e | Inr js \<Rightarrow> Inr (JArr (sort_key json_sort_key js)))"
| "to_json_value (PyOther name) =
     Inl (CanonicalSerializationError (''unsupported canonical JSON type: '' @ name))"

definition json_bytes :: "json \<Rightarrow> byte list" where
  "json_bytes j = utf8 (json_dumps j @ [CHR 0x0A])"

definition canonical_json_bytes :: "pyval \<Rightarrow> json_error + byte list" where
  "canonical_json_bytes v =
     (case to_json_value v of Inl e \<Rightarrow> Inl e | Inr j \<Rightarrow> Inr (json_bytes j))"

text \<open>\<^verbatim>\<open>canonical_sha256\<close>, for a given SHA-256.\<close>

definition canonical_sha256 :: "(byte list \<Rightarrow> byte list) \<Rightarrow> pyval \<Rightarrow> json_error + string" where
  "canonical_sha256 sha256 v =
     (case canonical_json_bytes v of Inl e \<Rightarrow> Inl e | Inr bs \<Rightarrow> Inr (hex (sha256 bs)))"

end
