(* ===== verification/Choice_Paths.thy ===== *)
theory Choice_Paths
  imports Canonical_Json
begin

section \<open>Seeds, keys and paths of deterministic choices\<close>

text \<open>
  \<^verbatim>\<open>synthesis/v0_4/choice_paths.py\<close>. A constructor that validates its arguments
  is a function into a sum; the tests for the exact Python class of an argument are discharged
  by the types of the model. SHA-256 is the argument \<open>sha256\<close>.
\<close>

datatype choice_error =
    ChoiceValidationError string
  | AttemptBudgetExhausted string
  | SerializationError json_error

definition MAX_ATTEMPT_INDEX :: int where "MAX_ATTEMPT_INDEX = 2 ^ 32 - 1"
definition MAX_UINT64 :: int where "MAX_UINT64 = 2 ^ 64 - 1"
definition ROOT_SEED_BYTES :: nat where "ROOT_SEED_BYTES = 32"

datatype SeedProvenance = UniformRandom256 | DeveloperText | KnownAnswerFixture

datatype ChoiceOperation = BoundedInteger | IntegerWeightedIndex | BooleanRatio

fun operation_value :: "ChoiceOperation \<Rightarrow> string" where
  "operation_value BoundedInteger = ''bounded_integer''"
| "operation_value IntegerWeightedIndex = ''integer_weighted_index''"
| "operation_value BooleanRatio = ''boolean_ratio''"

subsection \<open>Tokens\<close>

definition token_start :: "char \<Rightarrow> bool" where
  "token_start c = ((CHR ''a'' \<le> c \<and> c \<le> CHR ''z'') \<or> (CHR ''0'' \<le> c \<and> c \<le> CHR ''9''))"

definition token_char :: "char \<Rightarrow> bool" where
  "token_char c = (token_start c \<or> c = CHR ''.'' \<or> c = CHR ''_'' \<or> c = CHR ''-'')"

fun is_token :: "string \<Rightarrow> bool" where
  "is_token [] = False"
| "is_token (c # cs) = (token_start c \<and> list_all token_char cs)"

definition require_token :: "string \<Rightarrow> string \<Rightarrow> choice_error + string" where
  "require_token value field_name =
     (if \<not> is_token value
      then Inl (ChoiceValidationError (field_name @
        '' must match [a-z0-9][a-z0-9._-]* using ASCII lowercase tokens''))
      else Inr value)"

definition require_nonnegative_integer :: "int \<Rightarrow> string \<Rightarrow> choice_error + int" where
  "require_nonnegative_integer value field_name =
     (if value < 0 then Inl (ChoiceValidationError (field_name @ '' must be a nonnegative integer''))
      else Inr value)"

subsection \<open>Root seeds\<close>

record RootSeed =
  material :: "byte list"
  provenance :: SeedProvenance

definition root_seed :: "byte list \<Rightarrow> SeedProvenance \<Rightarrow> choice_error + RootSeed" where
  "root_seed m p =
     (if length m \<noteq> ROOT_SEED_BYTES
      then Inl (ChoiceValidationError ''root seed must contain exactly 32 bytes'')
      else if p = UniformRandom256 \<and>
        (m = replicate ROOT_SEED_BYTES 0 \<or> card (set m) = 1)
      then Inl (ChoiceValidationError
        ''release seed cannot use all-zero or repeated-byte fixture material'')
      else Inr \<lparr>material = m, provenance = p\<rparr>)"

definition hex_value :: "char \<Rightarrow> nat option" where
  "hex_value c = (let n = of_char c in
     if 48 \<le> n \<and> n < 58 then Some (n - 48)
     else if 97 \<le> n \<and> n < 103 then Some (n - 87) else None)"

text \<open>\<^verbatim>\<open>bytes.fromhex\<close> on lowercase hexadecimal digits.\<close>

fun from_hex_digits :: "string \<Rightarrow> byte list option" where
  "from_hex_digits [] = Some []"
| "from_hex_digits [c] = None"
| "from_hex_digits (c # d # cs) =
     (case (hex_value c, hex_value d, from_hex_digits cs) of
        (Some h, Some l, Some bs) \<Rightarrow> Some (of_nat (16 * h + l) # bs)
      | _ \<Rightarrow> None)"

definition is_hex_256 :: "string \<Rightarrow> bool" where
  "is_hex_256 s = (length s = 64 \<and> list_all (\<lambda>c. hex_value c \<noteq> None) s)"

definition root_seed_from_hex :: "string \<Rightarrow> SeedProvenance \<Rightarrow> choice_error + RootSeed" where
  "root_seed_from_hex value p =
     (if \<not> is_hex_256 value
      then Inl (ChoiceValidationError
        ''hex root seed must be exactly 64 lowercase hexadecimal characters'')
      else root_seed (case from_hex_digits value of Some bs \<Rightarrow> bs | None \<Rightarrow> []) p)"

definition root_seed_from_text ::
  "(byte list \<Rightarrow> byte list) \<Rightarrow> string \<Rightarrow> SeedProvenance \<Rightarrow> choice_error + RootSeed" where
  "root_seed_from_text sha256 value p =
     (if value = ''''
      then Inl (ChoiceValidationError ''text seed must be a nonempty string'')
      else if p = UniformRandom256
      then Inl (ChoiceValidationError ''release seed provenance cannot be derived from text'')
      else root_seed (sha256 (utf8 (''csd-root-seed-text/v1'' @ [CHR 0x00]) @ utf8 value)) p)"

definition release_eligible :: "RootSeed \<Rightarrow> bool" where
  "release_eligible seed = (provenance seed = UniformRandom256)"

definition seed_commitment :: "(byte list \<Rightarrow> byte list) \<Rightarrow> RootSeed \<Rightarrow> string" where
  "seed_commitment sha256 seed =
     hex (sha256 (utf8 (''csd-root-seed-commitment/v1'' @ [CHR 0x00]) @ material seed))"

subsection \<open>Keys\<close>

record SampleKey =
  release :: string
  target_id :: string
  sample_index :: int

definition sample_key_of :: "string \<Rightarrow> string \<Rightarrow> int \<Rightarrow> choice_error + SampleKey" where
  "sample_key_of rel target idx =
     (if rel \<noteq> ''v0.4'' then Inl (ChoiceValidationError ''sample release must be v0.4'')
      else (case require_token target ''target_id'' of
          Inl e \<Rightarrow> Inl e
        | Inr _ \<Rightarrow> (case require_nonnegative_integer idx ''sample_index'' of
            Inl e \<Rightarrow> Inl e
          | Inr _ \<Rightarrow> Inr \<lparr>release = rel, target_id = target, sample_index = idx\<rparr>)))"

record AttemptKey =
  sample_key :: SampleKey
  attempt_index :: int

definition attempt_key_of :: "SampleKey \<Rightarrow> int \<Rightarrow> choice_error + AttemptKey" where
  "attempt_key_of sk idx =
     (case require_nonnegative_integer idx ''attempt_index'' of
        Inl e \<Rightarrow> Inl e
      | Inr i \<Rightarrow>
          if MAX_ATTEMPT_INDEX < i
          then Inl (ChoiceValidationError
            (''attempt_index must be between 0 and '' @ py_str MAX_ATTEMPT_INDEX))
          else Inr \<lparr>sample_key = sk, attempt_index = idx\<rparr>)"

record AttemptRange =
  maximum_attempts :: int

definition attempt_range_of :: "int \<Rightarrow> choice_error + AttemptRange" where
  "attempt_range_of n =
     (case require_nonnegative_integer n ''maximum_attempts'' of
        Inl e \<Rightarrow> Inl e
      | Inr m \<Rightarrow>
          if \<not> (1 \<le> m \<and> m \<le> MAX_ATTEMPT_INDEX + 1)
          then Inl (ChoiceValidationError
            (''maximum_attempts must be between 1 and '' @ py_str (MAX_ATTEMPT_INDEX + 1)))
          else Inr \<lparr>maximum_attempts = n\<rparr>)"

definition range_contains :: "AttemptRange \<Rightarrow> int \<Rightarrow> bool" where
  "range_contains r i = (0 \<le> i \<and> i < maximum_attempts r)"

text \<open>\<^verbatim>\<open>lowest_accepted_attempt\<close>: the loop over the range. The validator's
  answer is \<open>None\<close> when it is not an exact boolean.\<close>

function lowest_from :: "int \<Rightarrow> (int \<Rightarrow> bool option) \<Rightarrow> int \<Rightarrow> choice_error + int" where
  "lowest_from n is_valid i =
     (if n \<le> i
      then Inl (AttemptBudgetExhausted
        (''no accepted attempt in deterministic range 0..'' @ py_str (n - 1)))
      else (case is_valid i of
          None \<Rightarrow> Inl (ChoiceValidationError ''attempt validator must return an exact boolean'')
        | Some accepted \<Rightarrow> if accepted then Inr i else lowest_from n is_valid (i + 1)))"
  by pat_completeness auto
termination by (relation "measure (\<lambda>(n, _, i). nat (n - i))") auto

declare lowest_from.simps [simp del]

definition lowest_accepted_attempt ::
  "AttemptRange \<Rightarrow> (int \<Rightarrow> bool option) \<Rightarrow> choice_error + int" where
  "lowest_accepted_attempt r is_valid = lowest_from (maximum_attempts r) is_valid 0"

subsection \<open>Paths\<close>

datatype ChoiceSegment = SegStr string | SegInt int

record ChoicePath =
  attempt_key :: AttemptKey
  namespace :: string
  segments :: "ChoiceSegment list"

fun check_segment :: "ChoiceSegment \<Rightarrow> choice_error option" where
  "check_segment (SegInt n) = (if n < 0
     then Some (ChoiceValidationError ''integer choice-path segments must be nonnegative'')
     else None)"
| "check_segment (SegStr s) =
     (case require_token s ''choice path string segment'' of Inl e \<Rightarrow> Some e | Inr _ \<Rightarrow> None)"

fun check_segments :: "ChoiceSegment list \<Rightarrow> choice_error option" where
  "check_segments [] = None"
| "check_segments (x # xs) =
     (case check_segment x of Some e \<Rightarrow> Some e | None \<Rightarrow> check_segments xs)"

definition choice_path_of ::
  "AttemptKey \<Rightarrow> string \<Rightarrow> ChoiceSegment list \<Rightarrow> choice_error + ChoicePath" where
  "choice_path_of k ns segs =
     (case require_token ns ''namespace'' of
        Inl e \<Rightarrow> Inl e
      | Inr _ \<Rightarrow>
          if segs = []
          then Inl (ChoiceValidationError ''choice path requires a nonempty immutable tuple'')
          else (case check_segments segs of
              Some e \<Rightarrow> Inl e
            | None \<Rightarrow> Inr \<lparr>attempt_key = k, namespace = ns, segments = segs\<rparr>))"

fun segment_value :: "ChoiceSegment \<Rightarrow> pyval" where
  "segment_value (SegStr s) = PyStr s"
| "segment_value (SegInt n) = PyInt n"

definition path_value :: "ChoicePath \<Rightarrow> pyval" where
  "path_value p = (let sample = sample_key (attempt_key p) in
     PyDict [(PyStr ''release'', PyStr (release sample)),
       (PyStr ''target_id'', PyStr (target_id sample)),
       (PyStr ''sample_index'', PyInt (sample_index sample)),
       (PyStr ''attempt_index'', PyInt (attempt_index (attempt_key p))),
       (PyStr ''namespace'', PyStr (namespace p)),
       (PyStr ''segments'', PyList (map segment_value (segments p)))])"

end
