(* ===== verification/Deterministic_Choices.thy ===== *)
theory Deterministic_Choices
  imports Choice_Paths
begin

section \<open>Deterministic choices by rejection sampling\<close>

text \<open>
  \<^verbatim>\<open>synthesis/v0_4/deterministic_choices.py\<close>. SHA-256 and HMAC-SHA-256 are the
  arguments \<open>sha256\<close> and \<open>hmac\<close>; nothing about them is assumed except, where a
  theorem says so, that a digest has 32 bytes. The two counter loops are written with the
  counter bounds of the code, so the functions are total for every \<open>hmac\<close>.
\<close>

definition ALGORITHM_ID :: string where "ALGORITHM_ID = ''csd-choice-hmac-sha256-rejection''"
definition ALGORITHM_VERSION :: int where "ALGORITHM_VERSION = 1"
definition PATH_SCHEMA_VERSION :: string where "PATH_SCHEMA_VERSION = ''csd-choice-path/0.4''"

definition CHOICE_PREFIX :: "byte list" where
  "CHOICE_PREFIX = utf8 (''csd-choice-hmac-sha256-rejection/v1'' @ [CHR 0x00])"

record CandidateDraw =
  cd_draw_index :: int
  cd_candidate_hex :: string
  cd_candidate :: int
  cd_block_count :: int

record BoundedIntegerResult =
  br_value :: int
  br_draw_index :: int
  br_candidate_hex :: string
  br_candidate :: int
  br_limit :: int
  br_width :: nat
  br_block_count :: int
  br_draws :: "CandidateDraw list"
  br_domain_digest :: string
  br_material_digest :: string

record WeightedChoiceResult =
  wr_selected_index :: nat
  wr_selected_value :: pyval
  wr_ticket :: BoundedIntegerResult
  wr_cumulative_weights :: "int list"

record BooleanChoiceResult =
  bc_selected :: bool
  bc_ticket :: BoundedIntegerResult

subsection \<open>Candidates\<close>

definition uint64 :: "int \<Rightarrow> string \<Rightarrow> choice_error + byte list" where
  "uint64 value field_name =
     (if \<not> (0 \<le> value \<and> value \<le> MAX_UINT64)
      then Inl (ChoiceValidationError (field_name @ '' exceeds unsigned 64-bit range''))
      else Inr (be_bytes 8 value))"

definition choice_material_value :: "ChoicePath \<Rightarrow> ChoiceOperation \<Rightarrow> string \<Rightarrow> pyval" where
  "choice_material_value path operation domain_digest =
     (let sample = sample_key (attempt_key path) in
      PyDict [(PyStr ''algorithm_id'', PyStr ALGORITHM_ID),
        (PyStr ''algorithm_version'', PyInt ALGORITHM_VERSION),
        (PyStr ''attempt_index'', PyInt (attempt_index (attempt_key path))),
        (PyStr ''domain_digest'', PyStr domain_digest),
        (PyStr ''namespace'', PyStr (namespace path)),
        (PyStr ''operation'', PyStr (operation_value operation)),
        (PyStr ''path_schema_version'', PyStr PATH_SCHEMA_VERSION),
        (PyStr ''release'', PyStr (release sample)),
        (PyStr ''sample_index'', PyInt (sample_index sample)),
        (PyStr ''segments'', PyList (map segment_value (segments path))),
        (PyStr ''target_id'', PyStr (target_id sample))])"

definition choice_material ::
  "ChoicePath \<Rightarrow> ChoiceOperation \<Rightarrow> string \<Rightarrow> json_error + byte list" where
  "choice_material path operation domain_digest =
     canonical_json_bytes (choice_material_value path operation domain_digest)"

definition canonical_choice_material ::
  "(byte list \<Rightarrow> byte list) \<Rightarrow> ChoicePath \<Rightarrow> ChoiceOperation \<Rightarrow> pyval \<Rightarrow> json_error + byte list" where
  "canonical_choice_material sha256 path operation domain =
     (case canonical_sha256 sha256 domain of
        Inl e \<Rightarrow> Inl e | Inr digest \<Rightarrow> choice_material path operation digest)"

definition hmac_message :: "byte list \<Rightarrow> int \<Rightarrow> int \<Rightarrow> choice_error + byte list" where
  "hmac_message mat draw_index block_index =
     (case uint64 (int (length mat)) ''material length'' of
        Inl e \<Rightarrow> Inl e
      | Inr len \<Rightarrow> (case uint64 draw_index ''draw_index'' of
          Inl e \<Rightarrow> Inl e
        | Inr d \<Rightarrow> (case uint64 block_index ''block_index'' of
            Inl e \<Rightarrow> Inl e
          | Inr b \<Rightarrow> Inr (CHOICE_PREFIX @ len @ mat @ d @ b))))"

definition hmac_block ::
  "(byte list \<Rightarrow> byte list \<Rightarrow> byte list) \<Rightarrow> RootSeed \<Rightarrow> byte list \<Rightarrow> int \<Rightarrow> int \<Rightarrow>
   choice_error + byte list" where
  "hmac_block hmac seed mat draw_index block_index =
     (case hmac_message mat draw_index block_index of
        Inl e \<Rightarrow> Inl e | Inr m \<Rightarrow> Inr (hmac (material seed) m))"

text \<open>The loop of \<^verbatim>\<open>_candidate_bytes\<close>, with the bytes collected so far.\<close>

function candidate_loop ::
  "(byte list \<Rightarrow> byte list \<Rightarrow> byte list) \<Rightarrow> RootSeed \<Rightarrow> byte list \<Rightarrow> int \<Rightarrow> nat \<Rightarrow>
   byte list \<Rightarrow> int \<Rightarrow> choice_error + byte list \<times> int" where
  "candidate_loop hmac seed mat draw_index width output block_index =
     (if length output < width
      then if MAX_UINT64 < block_index
        then Inl (ChoiceValidationError ''block counter exhausted'')
        else (case hmac_block hmac seed mat draw_index block_index of
            Inl e \<Rightarrow> Inl e
          | Inr block \<Rightarrow>
              candidate_loop hmac seed mat draw_index width (output @ block) (block_index + 1))
      else Inr (take width output, block_index))"
  by pat_completeness auto
termination
  by (relation "measure (\<lambda>(_, _, _, _, _, _, b). nat (MAX_UINT64 + 1 - b))") auto

declare candidate_loop.simps [simp del]

definition candidate_bytes ::
  "(byte list \<Rightarrow> byte list \<Rightarrow> byte list) \<Rightarrow> RootSeed \<Rightarrow> byte list \<Rightarrow> int \<Rightarrow> nat \<Rightarrow>
   choice_error + byte list \<times> int" where
  "candidate_bytes hmac seed mat draw_index width =
     candidate_loop hmac seed mat draw_index width [] 0"

subsection \<open>Bounded integers\<close>

fun bit_length :: "nat \<Rightarrow> nat" where
  "bit_length n = (if n = 0 then 0 else Suc (bit_length (n div 2)))"

declare bit_length.simps [simp del]

definition candidate_width :: "int \<Rightarrow> nat" where
  "candidate_width upper = max 1 ((bit_length (nat (upper - 1)) + 7) div 8)"

definition candidate_limit :: "int \<Rightarrow> int" where
  "candidate_limit upper =
     (let space = 2 ^ (candidate_width upper * 8) in space - space mod upper)"

text \<open>The rejection loop of \<^verbatim>\<open>_bounded_integer_for_domain\<close>.\<close>

function draw_loop ::
  "(byte list \<Rightarrow> byte list) \<Rightarrow> (byte list \<Rightarrow> byte list \<Rightarrow> byte list) \<Rightarrow> RootSeed \<Rightarrow>
   byte list \<Rightarrow> string \<Rightarrow> int \<Rightarrow> CandidateDraw list \<Rightarrow> int \<Rightarrow>
   choice_error + BoundedIntegerResult" where
  "draw_loop sha256 hmac seed mat digest upper draws draw_index =
     (if draw_index \<le> MAX_UINT64
      then (case candidate_bytes hmac seed mat draw_index (candidate_width upper) of
          Inl e \<Rightarrow> Inl e
        | Inr (bytes, blocks) \<Rightarrow>
            (let candidate = from_be bytes;
                 draw = \<lparr>cd_draw_index = draw_index, cd_candidate_hex = hex bytes,
                   cd_candidate = candidate, cd_block_count = blocks\<rparr>;
                 draws' = draws @ [draw]
             in if candidate < candidate_limit upper
                then Inr \<lparr>br_value = candidate mod upper, br_draw_index = draw_index,
                  br_candidate_hex = hex bytes, br_candidate = candidate,
                  br_limit = candidate_limit upper, br_width = candidate_width upper,
                  br_block_count = blocks, br_draws = draws', br_domain_digest = digest,
                  br_material_digest = hex (sha256 mat)\<rparr>
                else draw_loop sha256 hmac seed mat digest upper draws' (draw_index + 1)))
      else Inl (ChoiceValidationError ''draw counter exhausted''))"
  by pat_completeness auto
termination
  by (relation "measure (\<lambda>(_, _, _, _, _, _, _, d). nat (MAX_UINT64 + 1 - d))") auto

declare draw_loop.simps [simp del]

definition bounded_integer_for_domain ::
  "(byte list \<Rightarrow> byte list) \<Rightarrow> (byte list \<Rightarrow> byte list \<Rightarrow> byte list) \<Rightarrow> RootSeed \<Rightarrow>
   ChoicePath \<Rightarrow> ChoiceOperation \<Rightarrow> int \<Rightarrow> pyval \<Rightarrow> choice_error + BoundedIntegerResult" where
  "bounded_integer_for_domain sha256 hmac seed path operation upper domain =
     (if upper \<le> 0
      then Inl (ChoiceValidationError ''upper_exclusive must be positive'')
      else (case canonical_sha256 sha256 domain of
          Inl e \<Rightarrow> Inl (SerializationError e)
        | Inr digest \<Rightarrow> (case choice_material path operation digest of
            Inl e \<Rightarrow> Inl (SerializationError e)
          | Inr mat \<Rightarrow> draw_loop sha256 hmac seed mat digest upper [] 0)))"

definition bounded_integer ::
  "(byte list \<Rightarrow> byte list) \<Rightarrow> (byte list \<Rightarrow> byte list \<Rightarrow> byte list) \<Rightarrow> RootSeed \<Rightarrow>
   ChoicePath \<Rightarrow> int \<Rightarrow> choice_error + BoundedIntegerResult" where
  "bounded_integer sha256 hmac seed path upper =
     bounded_integer_for_domain sha256 hmac seed path BoundedInteger upper
       (PyDict [(PyStr ''upper_exclusive'', PyInt upper)])"

subsection \<open>Weighted choices and ratios\<close>

text \<open>\<^verbatim>\<open>bisect.bisect_right\<close> of the standard library.\<close>

function bisect_loop :: "int list \<Rightarrow> int \<Rightarrow> nat \<Rightarrow> nat \<Rightarrow> nat" where
  "bisect_loop a x lo hi =
     (if lo < hi
      then (let mid = (lo + hi) div 2 in
        if x < a ! mid then bisect_loop a x lo mid else bisect_loop a x (mid + 1) hi)
      else lo)"
  by pat_completeness auto
termination by (relation "measure (\<lambda>(_, _, lo, hi). hi - lo)") (auto simp: Let_def)

declare bisect_loop.simps [simp del]

definition bisect_right :: "int list \<Rightarrow> int \<Rightarrow> nat" where
  "bisect_right a x = bisect_loop a x 0 (length a)"

text \<open>The running totals; \<open>Inl\<close> for the first weight that is not positive.\<close>

fun accumulate :: "int \<Rightarrow> int list \<Rightarrow> choice_error + int list" where
  "accumulate acc [] = Inr []"
| "accumulate acc (w # ws) =
     (if w \<le> 0 then Inl (ChoiceValidationError ''weights must be positive integers'')
      else (case accumulate (acc + w) ws of
          Inl e \<Rightarrow> Inl e | Inr cs \<Rightarrow> Inr ((acc + w) # cs)))"

definition weighted_choice ::
  "(byte list \<Rightarrow> byte list) \<Rightarrow> (byte list \<Rightarrow> byte list \<Rightarrow> byte list) \<Rightarrow> RootSeed \<Rightarrow>
   ChoicePath \<Rightarrow> pyval list \<Rightarrow> int list \<Rightarrow> choice_error + WeightedChoiceResult" where
  "weighted_choice sha256 hmac seed path values weights =
     (if values = []
      then Inl (ChoiceValidationError ''weighted choice domain must be nonempty'')
      else if length values \<noteq> length weights
      then Inl (ChoiceValidationError ''weighted values and weights must have equal length'')
      else (case map_res canonical_json_bytes values of
          Inl e \<Rightarrow> Inl (SerializationError e)
        | Inr canonical_values \<Rightarrow>
            if \<not> distinct canonical_values
            then Inl (ChoiceValidationError
              ''weighted choice values must be canonically unique'')
            else (case accumulate 0 weights of
                Inl e \<Rightarrow> Inl e
              | Inr cumulative \<Rightarrow>
                (case bounded_integer_for_domain sha256 hmac seed path IntegerWeightedIndex
                    (last cumulative)
                    (PyDict [(PyStr ''values'', PyList values),
                      (PyStr ''weights'', PyList (map PyInt weights))]) of
                   Inl e \<Rightarrow> Inl e
                 | Inr ticket \<Rightarrow>
                   (let i = bisect_right cumulative (br_value ticket) in
                    Inr \<lparr>wr_selected_index = i, wr_selected_value = values ! i,
                      wr_ticket = ticket, wr_cumulative_weights = cumulative\<rparr>)))))"

definition choose_ratio ::
  "(byte list \<Rightarrow> byte list) \<Rightarrow> (byte list \<Rightarrow> byte list \<Rightarrow> byte list) \<Rightarrow> RootSeed \<Rightarrow>
   ChoicePath \<Rightarrow> int \<Rightarrow> int \<Rightarrow> choice_error + BooleanChoiceResult" where
  "choose_ratio sha256 hmac seed path numerator denominator =
     (if denominator \<le> 0
      then Inl (ChoiceValidationError ''denominator must be positive'')
      else if \<not> (0 \<le> numerator \<and> numerator \<le> denominator)
      then Inl (ChoiceValidationError ''numerator must be between zero and denominator'')
      else (case bounded_integer_for_domain sha256 hmac seed path BooleanRatio denominator
          (PyDict [(PyStr ''numerator'', PyInt numerator),
            (PyStr ''denominator'', PyInt denominator)]) of
         Inl e \<Rightarrow> Inl e
       | Inr ticket \<Rightarrow>
           Inr \<lparr>bc_selected = (br_value ticket < numerator), bc_ticket = ticket\<rparr>))"

end
