(* ===== verification/Canonical_Json_Spec.thy ===== *)
theory Canonical_Json_Spec
  imports Canonical_Json "HOL-Library.Multiset"
begin

section \<open>Canonical JSON determines the value\<close>

text \<open>
  The canonical text is a prefix-free code of the JSON value with sorted keys: two values have
  the same canonical bytes if and only if they are equal up to the insertion order of their
  dictionaries. The proof goes through \<open>norm_json\<close>, which sorts every dictionary, and
  \<open>raw\<close>, which prints in the given order and is a prefix-free code.
\<close>

fun norm_json :: "json \<Rightarrow> json" where
  "norm_json (JArr xs) = JArr (map norm_json xs)"
| "norm_json (JObj ps) = JObj (sort_key fst (map (\<lambda>(k, v). (k, norm_json v)) ps))"
| "norm_json j = j"

lemma insort_key_map: "map f (insort_key (k \<circ> f) x xs) = insort_key k (f x) (map f xs)"
  by (induction xs) auto

lemma sort_key_map: "sort_key k (map f xs) = map f (sort_key (k \<circ> f) xs)"
  by (induction xs) (simp_all add: insort_key_map [symmetric] comp_def)

lemma fst_case_prod [simp]: "fst \<circ> (\<lambda>(k, v). (k, f v)) = fst"
  by auto

lemma json_dumps_norm: "json_dumps j = raw (norm_json j)"
proof (induction j)
  case (JObj ps)
  have "map (\<lambda>x. quote (fst x) @ CHR '':'' # json_dumps (snd x)) (sort_key fst ps) =
      map (\<lambda>x. quote (fst x) @ CHR '':'' # raw (norm_json (snd x))) (sort_key fst ps)"
  proof (rule map_cong [OF refl])
    fix x assume "x \<in> set (sort_key fst ps)"
    then have "json_dumps (snd x) = raw (norm_json (snd x))"
      using JObj [of x "snd x"] by (simp add: snds.simps)
    then show "quote (fst x) @ CHR '':'' # json_dumps (snd x) =
        quote (fst x) @ CHR '':'' # raw (norm_json (snd x))" by simp
  qed
  from arg_cong [OF this, of "join '',''"] show ?case
    by (simp only: json_dumps.simps norm_json.simps raw.simps sort_key_map map_map comp_def
        case_prod_unfold fst_conv snd_conv append_Cons append_Nil)
qed (simp_all add: comp_def cong: map_cong)

subsection \<open>Numbers\<close>

definition num_char :: "char \<Rightarrow> bool" where
  "num_char c \<longleftrightarrow> (of_char c :: nat) = 45 \<or> (of_char c :: nat) \<in> {48..<58}"

definition digits_value :: "string \<Rightarrow> nat" where
  "digits_value s = foldl (\<lambda>a c. 10 * a + (of_char c - 48)) 0 s"

lemma digits_value_nat_str: "digits_value (nat_str n) = n"
proof (induction n rule: nat_str.induct)
  case (1 n)
  show ?case
  proof (cases "n < 10")
    case True
    then show ?thesis by (subst nat_str.simps) (simp add: digits_value_def)
  next
    case False
    then have "digits_value (nat_str (n div 10) @ [char_of (48 + n mod 10)]) =
        10 * (n div 10) + n mod 10"
      using 1 by (simp add: digits_value_def)
    with False show ?thesis by (subst nat_str.simps) simp
  qed
qed

lemma nat_str_digits: "c \<in> set (nat_str n) \<Longrightarrow> (of_char c :: nat) \<in> {48..<58}"
proof (induction n rule: nat_str.induct)
  case (1 n)
  then show ?case by (subst (asm) nat_str.simps [of n]) (auto split: if_splits)
qed

lemma nat_str_not_Nil [simp]: "nat_str n \<noteq> []"
  by (subst nat_str.simps) simp

lemma nat_str_inject [simp]: "nat_str m = nat_str n \<longleftrightarrow> m = n"
  by (metis digits_value_nat_str)

lemma py_str_num_char: "c \<in> set (py_str n) \<Longrightarrow> num_char c"
  by (auto simp: py_str_def num_char_def dest: nat_str_digits split: if_splits)

lemma hd_nat_str: "48 \<le> (of_char (hd (nat_str n)) :: nat)"
  using nat_str_digits [of "hd (nat_str n)" n] by simp

lemma py_str_inject [simp]: "py_str m = py_str n \<longleftrightarrow> m = n"
proof
  have minus: "nat_str k \<noteq> CHR ''-'' # s" for k s
  proof
    assume "nat_str k = CHR ''-'' # s"
    with hd_nat_str [of k] show False by simp
  qed
  assume "py_str m = py_str n"
  then show "m = n" 
    using minus [symmetric] by (auto simp: py_str_def minus split: if_splits)
qed simp

lemma py_str_not_Nil [simp]: "py_str n \<noteq> []"
  by (simp add: py_str_def)

text \<open>What may follow a value: a comma, a closing bracket or the final newline.\<close>

definition delim :: "string \<Rightarrow> bool" where
  "delim r \<longleftrightarrow> r = [] \<or> hd r \<in> {CHR '','', CHR '']'', CHR ''}'', CHR 0x0A}"

lemma delim_not_num: "delim (c # r) \<Longrightarrow> \<not> num_char c"
  by (auto simp: delim_def num_char_def)

lemma takeWhile_num:
  assumes "\<And>c. c \<in> set s \<Longrightarrow> num_char c" and "delim r"
  shows "takeWhile num_char (s @ r) = s"
  using assms by (cases r) (auto simp: takeWhile_append2 delim_not_num)

lemma py_str_prefix_free:
  assumes "py_str m @ r = py_str n @ s" and "delim r" and "delim s"
  shows "m = n \<and> r = s"
proof -
  have "py_str m = py_str n"
    using takeWhile_num [of "py_str m", OF py_str_num_char assms(2)]
      takeWhile_num [of "py_str n", OF py_str_num_char assms(3)] assms(1) by simp
  with assms(1) show ?thesis by simp
qed

subsection \<open>Strings\<close>

lemma char_eqI: "(of_char c :: nat) = of_char d \<Longrightarrow> c = d"
  by simp

lemma of_char_hex_digit: "n < 16 \<Longrightarrow> of_char (hex_digit n) = (if n < 10 then 48 + n else 87 + n)"
  by (simp add: hex_digit_def)

lemma hex_digit_inject:
  assumes "m < 16" and "n < 16"
  shows "hex_digit m = hex_digit n \<longleftrightarrow> m = n"
proof
  assume "hex_digit m = hex_digit n"
  then have "(if m < 10 then 48 + m else 87 + m) = (if n < 10 then 48 + n else 87 + n)"
    using assms by (metis of_char_hex_digit)
  then show "m = n" by (auto split: if_splits)
qed simp

text \<open>An escape sequence is a backslash and a letter that determines the rest.\<close>

definition escape_letter :: "nat \<Rightarrow> char option" where
  "escape_letter n =
     (if n = 34 then Some (CHR 0x22) else if n = 92 then Some (CHR 0x5C)
      else if n = 8 then Some (CHR ''b'')
      else if n = 9 then Some (CHR ''t'') else if n = 10 then Some (CHR ''n'')
      else if n = 12 then Some (CHR ''f'') else if n = 13 then Some (CHR ''r'') else None)"

definition control_escape :: "nat \<Rightarrow> string" where
  "control_escape n = [CHR ''u'', CHR ''0'', CHR ''0'', hex_digit (n div 16), hex_digit (n mod 16)]"

lemma esc_char_alt:
  "esc_char c = (case escape_letter (of_char c) of
     Some l \<Rightarrow> [CHR 0x5C, l]
   | None \<Rightarrow> if (of_char c :: nat) < 32 then CHR 0x5C # control_escape (of_char c) else [c])"
proof -
  have "c = CHR 0x22" if "(of_char c :: nat) = 34" using that by (intro char_eqI) simp
  moreover have "c = CHR 0x5C" if "(of_char c :: nat) = 92" using that by (intro char_eqI) simp
  ultimately show ?thesis
    by (simp add: esc_char_def escape_letter_def control_escape_def Let_def)
qed

lemma escape_letter_inject:
  "escape_letter m = Some l \<Longrightarrow> escape_letter n = Some l \<Longrightarrow> m = n"
  by (auto simp: escape_letter_def split: if_splits)

lemma escape_letter_not_u [simp]: "escape_letter m \<noteq> Some (CHR ''u'')"
  by (auto simp: escape_letter_def)

lemma escape_letter_backslash [simp]:
  "escape_letter 92 = Some (CHR 0x5C)" "escape_letter 34 = Some (CHR 0x22)"
  by (simp_all add: escape_letter_def)

lemma control_escape_prefix_free:
  assumes "control_escape m @ r = control_escape n @ s" and "m < 32" and "n < 32"
  shows "m = n \<and> r = s"
proof -
  have "m div 16 < 16" "n div 16 < 16" "m mod 16 < 16" "n mod 16 < 16" using assms(2,3) by simp_all
  then have "m div 16 = n div 16" "m mod 16 = n mod 16" "r = s"
    using assms(1) by (simp_all add: control_escape_def hex_digit_inject)
  then show ?thesis by (metis div_mod_decomp)
qed

lemma esc_char_prefix_free:
  assumes "esc_char c @ r = esc_char d @ s"
  shows "c = d \<and> r = s"
proof (cases "escape_letter (of_char c)"; cases "escape_letter (of_char d)")
  fix l l' assume "escape_letter (of_char c) = Some l" "escape_letter (of_char d) = Some l'"
  then have "of_char c = (of_char d :: nat)" "r = s"
    using assms escape_letter_inject [of "of_char c" l "of_char d"] by (simp_all add: esc_char_alt)
  then show ?thesis using char_eqI by blast
next
  fix l assume "escape_letter (of_char c) = Some l" "escape_letter (of_char d) = None"
  then show ?thesis
    using assms by (auto simp: esc_char_alt control_escape_def split: if_splits)
next
  fix l assume "escape_letter (of_char c) = None" "escape_letter (of_char d) = Some l"
  then show ?thesis
    using assms by (auto simp: esc_char_alt control_escape_def split: if_splits)
next
  assume none: "escape_letter (of_char c) = None" "escape_letter (of_char d) = None"
  show ?thesis
  proof (cases "(of_char c :: nat) < 32 \<and> (of_char d :: nat) < 32")
    case True
    then have "control_escape (of_char c) @ r = control_escape (of_char d) @ s"
      using assms none by (simp add: esc_char_alt)
    from control_escape_prefix_free [OF this] True
    have "of_char c = (of_char d :: nat) \<and> r = s" by blast
    then show ?thesis using char_eqI by blast
  next
    case False
    with none show ?thesis using assms by (auto simp: esc_char_alt split: if_splits)
  qed
qed

lemma esc_char_Cons: obtains e es where "esc_char c = e # es" and "e \<noteq> CHR 0x22"
proof (cases "c = CHR 0x22")
  case False
  then show thesis
    by (cases "escape_letter (of_char c)"; cases "(of_char c :: nat) < 32")
      (rule that, simp add: esc_char_alt, simp)+
qed (use that in \<open>simp add: esc_char_alt\<close>)

lemma esc_prefix_free:
  "concat (map esc_char s) @ CHR 0x22 # r = concat (map esc_char t) @ CHR 0x22 # u \<Longrightarrow>
   s = t \<and> r = u"
proof (induction s arbitrary: t)
  case Nil
  show ?case
  proof (cases t)
    case (Cons d t')
    with Nil show ?thesis by (cases rule: esc_char_Cons [of d]) simp
  qed (use Nil in simp)
next
  case (Cons c s)
  show ?case
  proof (cases t)
    case Nil
    with Cons.prems show ?thesis by (cases rule: esc_char_Cons [of c]) simp
  next
    case (Cons d t')
    then have "esc_char c @ concat (map esc_char s) @ CHR 0x22 # r =
        esc_char d @ concat (map esc_char t') @ CHR 0x22 # u" using Cons.prems by simp
    then have "c = d" and "concat (map esc_char s) @ CHR 0x22 # r =
        concat (map esc_char t') @ CHR 0x22 # u"
      using esc_char_prefix_free by blast+
    with Cons.IH [of t'] Cons show ?thesis by simp
  qed
qed

lemma quote_prefix_free: "quote s @ r = quote t @ u \<Longrightarrow> s = t \<and> r = u"
  by (rule esc_prefix_free) (simp add: quote_def)

subsection \<open>Values\<close>

definition prefix_free_at :: "('a \<Rightarrow> string) \<Rightarrow> 'a \<Rightarrow> bool" where
  "prefix_free_at g x \<longleftrightarrow>
     (\<forall>y r s. g x @ r = g y @ s \<longrightarrow> delim r \<longrightarrow> delim s \<longrightarrow> x = y \<and> r = s)"

lemma prefix_free_atD:
  "prefix_free_at g x \<Longrightarrow> g x @ r = g y @ s \<Longrightarrow> delim r \<Longrightarrow> delim s \<Longrightarrow> x = y \<and> r = s"
  by (simp add: prefix_free_at_def)

lemma join_Cons: "join sep (x # xs) = x @ (if xs = [] then [] else sep @ join sep xs)"
  by (cases xs) auto

lemma delim_simps [simp]:
  "delim []" "delim (CHR '','' # r)" "delim (CHR '']'' # r)" "delim (CHR ''}'' # r)"
  "delim (CHR 0x0A # r)"
  by (simp_all add: delim_def)

lemma join_prefix_free:
  assumes "\<And>x. x \<in> set xs \<Longrightarrow> prefix_free_at g x"
    and "\<And>x. g x \<noteq> [] \<and> hd (g x) \<noteq> c" and "delim [c]" and "c \<noteq> CHR '',''"
    and "join '','' (map g xs) @ c # r = join '','' (map g ys) @ c # s"
  shows "xs = ys \<and> r = s"
  using assms(1,5)
proof (induction xs arbitrary: ys)
  case Nil
  show ?case
  proof (cases ys)
    case (Cons y ys')
    obtain e es where "g y = e # es" "e \<noteq> c" using assms(2) [of y] by (cases "g y") auto
    with Nil.prems(2) Cons show ?thesis by (simp add: join_Cons)
  qed (use Nil.prems(2) in simp)
next
  case (Cons x xs)
  obtain y ys' where ys: "ys = y # ys'"
  proof (cases ys)
    case Nil
    obtain e es where "g x = e # es" "e \<noteq> c" using assms(2) [of x] by (cases "g x") auto
    with Cons.prems(2) Nil show thesis by (simp add: join_Cons)
  qed (rule that)
  define rest where "rest zs u = (if zs = [] then [] else '','' @ join '','' (map g zs)) @ c # u"
    for zs u
  have "delim (rest zs u)" for zs u using assms(3) by (auto simp: rest_def delim_def)
  moreover have "g x @ rest xs r = g y @ rest ys' s"
    using Cons.prems(2) by (simp add: ys rest_def join_Cons)
  ultimately have eq: "x = y" "rest xs r = rest ys' s"
    using prefix_free_atD [OF Cons.prems(1) [of x]] by auto
  show ?case
  proof (cases "xs = []"; cases "ys' = []")
    assume "xs \<noteq> []" "ys' \<noteq> []"
    then have "join '','' (map g xs) @ c # r = join '','' (map g ys') @ c # s"
      using eq(2) by (simp add: rest_def)
    with Cons.IH [of ys'] Cons.prems(1) eq(1) ys show ?thesis by auto
  qed (use eq assms(4) ys in \<open>auto simp: rest_def\<close>)
qed

text \<open>The first character tells the kind of a value.\<close>

fun kind_char :: "json \<Rightarrow> char" where
  "kind_char JNull = CHR ''n''"
| "kind_char (JBool b) = (if b then CHR ''t'' else CHR ''f'')"
| "kind_char (JInt n) = hd (py_str n)"
| "kind_char (JStr s) = CHR 0x22"
| "kind_char (JArr xs) = CHR ''[''"
| "kind_char (JObj ps) = CHR ''{''"

lemma raw_kind: "raw v = kind_char v # tl (raw v)"
  by (cases v) (simp_all add: quote_def)

lemma num_char_hd: "num_char (hd (py_str n))"
  by (rule py_str_num_char [OF hd_in_set]) simp

lemma hd_py_str [simp]:
  "hd (py_str n) \<noteq> CHR ''n''" "hd (py_str n) \<noteq> CHR ''t''" "hd (py_str n) \<noteq> CHR ''f''"
  "hd (py_str n) \<noteq> CHR 0x22" "hd (py_str n) \<noteq> CHR ''[''" "hd (py_str n) \<noteq> CHR ''{''"
  "hd (py_str n) \<noteq> CHR '']''" "hd (py_str n) \<noteq> CHR ''}''"
  using num_char_hd [of n] by (auto simp: num_char_def)

lemmas hd_py_str_sym [simp] = hd_py_str [symmetric]

definition entry_text :: "string \<times> json \<Rightarrow> string" where
  "entry_text p = quote (fst p) @ '':'' @ raw (snd p)"

lemma raw_JObj: "raw (JObj ps) = ''{'' @ join '','' (map entry_text ps) @ ''}''"
  unfolding raw.simps entry_text_def [abs_def] case_prod_unfold ..

lemma entry_prefix_free:
  assumes "prefix_free_at raw (snd p)"
  shows "prefix_free_at entry_text p"
  unfolding prefix_free_at_def
proof (intro allI impI)
  fix q r s assume eq: "entry_text p @ r = entry_text q @ s" and d: "delim r" "delim s"
  then have "quote (fst p) @ '':'' @ raw (snd p) @ r = quote (fst q) @ '':'' @ raw (snd q) @ s"
    by (simp add: entry_text_def)
  from quote_prefix_free [OF this] have "fst p = fst q" "raw (snd p) @ r = raw (snd q) @ s"
    by simp_all
  with prefix_free_atD [OF assms _ d] show "p = q \<and> r = s" by (simp add: prod_eq_iff)
qed

lemma raw_same_kind: "raw v @ r = raw w @ s \<Longrightarrow> kind_char v = kind_char w"
  by (metis append_Cons list.sel(1) raw_kind)

lemma raw_prefix_free: "prefix_free_at raw v"
proof (induction v)
  case (JInt n)
  show ?case unfolding prefix_free_at_def
  proof (intro allI impI)
    fix w r s assume eq: "raw (JInt n) @ r = raw w @ s" and d: "delim r" "delim s"
    have "kind_char (JInt n) = kind_char w" by (rule raw_same_kind) (rule eq)
    then obtain m where w: "w = JInt m" by (cases w) (auto split: if_splits)
    with eq py_str_prefix_free [OF _ d] show "JInt n = w \<and> r = s" by simp
  qed
next
  case (JStr t)
  show ?case unfolding prefix_free_at_def
  proof (intro allI impI)
    fix w r s assume eq: "raw (JStr t) @ r = raw w @ s"
    have "kind_char (JStr t) = kind_char w" by (rule raw_same_kind) (rule eq)
    then obtain u where w: "w = JStr u" by (cases w) (auto split: if_splits)
    from eq have "quote t @ r = quote u @ s" by (simp add: w)
    from quote_prefix_free [OF this] show "JStr t = w \<and> r = s" by (simp add: w)
  qed
next
  case (JArr xs)
  show ?case unfolding prefix_free_at_def
  proof (intro allI impI)
    fix w r s assume eq: "raw (JArr xs) @ r = raw w @ s"
    have "kind_char (JArr xs) = kind_char w" by (rule raw_same_kind) (rule eq)
    then obtain ys where w: "w = JArr ys" by (cases w) (auto split: if_splits)
    have "kind_char v \<noteq> CHR '']''" for v by (cases v) auto
    then have "raw v \<noteq> [] \<and> hd (raw v) \<noteq> CHR '']''" for v
      using raw_kind [of v] by (metis list.distinct(1) list.sel(1))
    then have "xs = ys \<and> r = s"
      by (rule join_prefix_free [rotated]) (use eq w JArr in simp_all)
    then show "JArr xs = w \<and> r = s" by (simp add: w)
  qed
next
  case (JObj ps)
  show ?case unfolding prefix_free_at_def
  proof (intro allI impI)
    fix w r s assume eq: "raw (JObj ps) @ r = raw w @ s"
    have "kind_char (JObj ps) = kind_char w" by (rule raw_same_kind) (rule eq)
    then obtain qs where w: "w = JObj qs" by (cases w) (auto split: if_splits)
    have "prefix_free_at entry_text p" if "p \<in> set ps" for p
      using JObj [OF that, of "snd p"] by (intro entry_prefix_free) (simp add: snds.simps)
    moreover have "entry_text p \<noteq> [] \<and> hd (entry_text p) \<noteq> CHR ''}''" for p
      by (simp add: entry_text_def quote_def)
    moreover have "join '','' (map entry_text ps) @ CHR ''}'' # r =
        join '','' (map entry_text qs) @ CHR ''}'' # s"
      using eq unfolding w raw_JObj by simp
    ultimately have "ps = qs \<and> r = s" by (intro join_prefix_free) simp_all
    then show "JObj ps = w \<and> r = s" by (simp add: w)
  qed
next
  case JNull
  show ?case unfolding prefix_free_at_def
  proof (intro allI impI)
    fix w r s assume eq: "raw JNull @ r = raw w @ s"
    have "w = JNull" using raw_same_kind [OF eq] by (cases w) (auto split: if_splits)
    with eq show "JNull = w \<and> r = s" by simp
  qed
next
  case (JBool b)
  show ?case unfolding prefix_free_at_def
  proof (intro allI impI)
    fix w r s assume eq: "raw (JBool b) @ r = raw w @ s"
    have "w = JBool b" using raw_same_kind [OF eq] by (cases w) (auto split: if_splits)
    with eq show "JBool b = w \<and> r = s" by simp
  qed
qed

lemma json_bytes_eq_iff: "json_bytes i = json_bytes j \<longleftrightarrow> norm_json i = norm_json j"
proof
  assume "json_bytes i = json_bytes j"
  then have "raw (norm_json i) @ [CHR 0x0A] = raw (norm_json j) @ [CHR 0x0A]"
    by (simp add: json_bytes_def json_dumps_norm)
  from prefix_free_atD [OF raw_prefix_free this] show "norm_json i = norm_json j" by simp
qed (simp add: json_bytes_def json_dumps_norm)

subsection \<open>Properties\<close>

text \<open>C40: Canonical bytes identify values. Two Python values that convert to JSON have the
  same canonical bytes exactly when their JSON values agree up to the insertion order of
  dictionary keys; no two different values share a digest input.\<close>

theorem canonical_bytes_injective:
  assumes "to_json_value v = Inr i" and "to_json_value w = Inr j"
  shows "canonical_json_bytes v = canonical_json_bytes w \<longleftrightarrow> norm_json i = norm_json j"
  using assms by (simp add: canonical_json_bytes_def json_bytes_eq_iff)

theorem canonical_bytes_injective_witness:
  "canonical_json_bytes (PyList [PyInt 1, PyInt 23]) \<noteq>
     canonical_json_bytes (PyList [PyInt 12, PyInt 3])"
  using canonical_bytes_injective [of "PyList [PyInt 1, PyInt 23]" "JArr [JInt 1, JInt 23]"
      "PyList [PyInt 12, PyInt 3]" "JArr [JInt 12, JInt 3]"] by simp

lemma map_sort_key: "map k (sort_key k xs) = sort (map k xs)"
  by (simp add: sort_key_map comp_def)

lemma map_res_mset:
  assumes "map_res f xs = Inr js" and "mset ys = mset xs"
  obtains js' where "map_res f ys = Inr js'" and "mset js' = mset js"
proof -
  obtain js' where "list_all2 (\<lambda>x y. f x = Inr y) ys js'" "mset js' = mset js"
    using list_all2_reorder_left_invariance [of "\<lambda>x y. f x = Inr y" xs js ys] assms
    by (auto simp: map_res_Inr)
  then show thesis using that by (simp add: map_res_Inr)
qed

text \<open>The bytes of a set do not depend on the order in which Python iterates over it.\<close>

theorem set_bytes_order_independent:
  assumes "canonical_json_bytes (PySet xs) = Inr b" and "mset ys = mset xs"
  shows "canonical_json_bytes (PySet ys) = Inr b"
proof -
  obtain js where js: "map_res to_json_value xs = Inr js"
    and b: "b = json_bytes (JArr (sort_key json_sort_key js))"
    using assms(1) by (auto simp: canonical_json_bytes_def split: sum.splits)
  obtain js' where js': "map_res to_json_value ys = Inr js'" and "mset js' = mset js"
    by (rule map_res_mset [OF js assms(2)])
  then have "mset (sort (map json_sort_key js)) = mset (map json_sort_key js')" by simp
  then have "sort (map json_sort_key js') = sort (map json_sort_key js)"
    by (rule properties_for_sort) simp
  then have "map json_sort_key (sort_key json_sort_key js') =
      map json_sort_key (sort_key json_sort_key js)"
    by (simp only: map_sort_key)
  then have "map utf8 (map json_dumps (sort_key json_sort_key js')) =
      map utf8 (map json_dumps (sort_key json_sort_key js))"
    by (simp add: json_sort_key_def [abs_def] comp_def)
  moreover have "inj utf8" by (rule injI) simp
  ultimately have "map json_dumps (sort_key json_sort_key js') =
      map json_dumps (sort_key json_sort_key js)"
    by (simp only: inj_map_eq_map)
  then show ?thesis by (simp add: canonical_json_bytes_def js' b json_bytes_def)
qed

theorem set_bytes_order_independent_witness:
  "canonical_json_bytes (PySet [PyInt 2, PyStr ''a'']) =
   canonical_json_bytes (PySet [PyStr ''a'', PyInt 2])"
proof -
  obtain b where "canonical_json_bytes (PySet [PyStr ''a'', PyInt 2]) = Inr b"
    by (simp add: canonical_json_bytes_def)
  from set_bytes_order_independent [OF this, of "[PyInt 2, PyStr ''a'']"] this show ?thesis
    by simp
qed

end
