(* ===== verification/Choice_Facts.thy ===== *)
theory Choice_Facts
  imports Deterministic_Choices Canonical_Json_Spec
begin

section \<open>Facts about deterministic choices\<close>

text \<open>
  The loops of the choice modules against their declarative reading: the first accepted
  attempt, the first accepted draw, the bytes of a candidate, binary search as counting, and
  the injectivity of the hashed message.
\<close>

subsection \<open>The lowest accepted attempt\<close>

lemma all_from_step:
  fixes i :: int
  shows "(\<forall>j. i \<le> j \<and> j < k \<longrightarrow> P j) \<longleftrightarrow> (i < k \<longrightarrow> P i) \<and> (\<forall>j. i + 1 \<le> j \<and> j < k \<longrightarrow> P j)"
  by (metis order.order_iff_strict zless_add1_eq zle_add1_eq_le order.strict_trans1 zless_imp_add1_zle)

lemma lowest_from_Inr:
  "lowest_from n f i = Inr k \<longleftrightarrow>
     i \<le> k \<and> k < n \<and> f k = Some True \<and> (\<forall>j. i \<le> j \<and> j < k \<longrightarrow> f j = Some False)"
proof (induction n f i rule: lowest_from.induct)
  case (1 n f i)
  consider "n \<le> i" | "i < n" "f i = None" | "i < n" "f i = Some True" | "i < n" "f i = Some False"
    by (cases "f i") fastforce+
  then show ?case
  proof cases
    case 4
    then have "lowest_from n f i = lowest_from n f (i + 1)" by (subst lowest_from.simps) simp
    moreover have "k \<noteq> i" if "f k = Some True" using 4 that by auto
    moreover have "lowest_from n f (i + 1) = Inr k \<longleftrightarrow>
        i + 1 \<le> k \<and> k < n \<and> f k = Some True \<and> (\<forall>j. i + 1 \<le> j \<and> j < k \<longrightarrow> f j = Some False)"
      using 1 [of False] 4 by simp
    ultimately show ?thesis
      using 4 all_from_step [of i k "\<lambda>j. f j = Some False"]
        \<open>lowest_from n f i = lowest_from n f (i + 1)\<close>
      by fastforce
  next
    case 3
    then have "lowest_from n f i = Inr i" by (subst lowest_from.simps) simp
    moreover have "k = i" if "i \<le> k" "\<forall>j. i \<le> j \<and> j < k \<longrightarrow> f j = Some False"
      using 3 that by (metis order.order_iff_strict order_refl option.inject)
    ultimately show ?thesis using 3 by auto
  next
    case 2
    then have "\<exists>e. lowest_from n f i = Inl e" by (subst lowest_from.simps) simp
    moreover have "f k \<noteq> Some True \<or> \<not> (\<forall>j. i \<le> j \<and> j < k \<longrightarrow> f j = Some False)" if "i \<le> k"
      using 2 that by (metis order.order_iff_strict order_refl option.distinct(1))
    ultimately show ?thesis by auto
  next
    case 1
    then have "\<exists>e. lowest_from n f i = Inl e" by (subst lowest_from.simps) simp
    then show ?thesis using 1 by auto
  qed
qed

lemma lowest_from_Inl:
  "lowest_from n f i = Inl (AttemptBudgetExhausted m) \<Longrightarrow>
     \<forall>j. i \<le> j \<and> j < n \<longrightarrow> f j = Some False"
proof (induction n f i rule: lowest_from.induct)
  case (1 n f i)
  show ?case
  proof (cases "n \<le> i")
    case False
    then have *: "f i = Some False" "lowest_from n f (i + 1) = Inl (AttemptBudgetExhausted m)"
      using "1.prems" by (subst (asm) lowest_from.simps; auto split: option.splits if_splits)+
    with 1 False have "\<forall>j. i + 1 \<le> j \<and> j < n \<longrightarrow> f j = Some False" by simp
    with *(1) show ?thesis using all_from_step [of i n "\<lambda>j. f j = Some False"] by blast
  qed auto
qed

subsection \<open>Candidates\<close>

lemma uint64_eq: "0 \<le> v \<Longrightarrow> v \<le> MAX_UINT64 \<Longrightarrow> uint64 v f = Inr (be_bytes 8 v)"
  by (simp add: uint64_def)

lemma uint64_Inr: "uint64 v f = Inr bs \<longleftrightarrow> 0 \<le> v \<and> v \<le> MAX_UINT64 \<and> bs = be_bytes 8 v"
  by (auto simp: uint64_def)

lemma be_bytes_8_inject:
  "0 \<le> m \<Longrightarrow> m \<le> MAX_UINT64 \<Longrightarrow> 0 \<le> n \<Longrightarrow> n \<le> MAX_UINT64 \<Longrightarrow> be_bytes 8 m = be_bytes 8 n \<Longrightarrow> m = n"
  by (rule be_bytes_inject [of m 8 n]) (simp_all add: MAX_UINT64_def)

lemma candidate_loop_length:
  "candidate_loop hmac seed mat d w out b = Inr (bs, n) \<Longrightarrow> length bs = w"
proof (induction hmac seed mat d w out b arbitrary: bs n rule: candidate_loop.induct)
  case (1 hmac seed mat d w out b)
  from "1.prems" show ?case
    by (subst (asm) candidate_loop.simps) (auto split: if_splits sum.splits dest: "1.IH")
qed

lemma candidate_bytes_length: "candidate_bytes hmac seed mat d w = Inr (bs, n) \<Longrightarrow> length bs = w"
  unfolding candidate_bytes_def by (rule candidate_loop_length)

lemma hmac_block_Inr:
  assumes "int (length mat) \<le> MAX_UINT64" "0 \<le> d" "d \<le> MAX_UINT64" "0 \<le> b" "b \<le> MAX_UINT64"
  shows "\<exists>m. hmac_block hmac seed mat d b = Inr (hmac (material seed) m)"
  using assms by (auto simp: hmac_block_def hmac_message_def uint64_eq)

text \<open>The one law of HMAC-SHA-256 that the code relies on.\<close>

definition digest32 :: "(byte list \<Rightarrow> byte list \<Rightarrow> byte list) \<Rightarrow> bool" where
  "digest32 hmac \<longleftrightarrow> (\<forall>k m. length (hmac k m) = 32)"

text \<open>With 32-byte digests the candidate needs one block for every started 32 bytes.\<close>

lemma candidate_loop_total:
  assumes "digest32 hmac" and "int (length mat) \<le> MAX_UINT64"
    and "0 \<le> d" and "d \<le> MAX_UINT64" and "w \<le> 2 ^ 64"
  shows "length out = 32 * nat b \<Longrightarrow> 0 \<le> b \<Longrightarrow> b \<le> int ((w + 31) div 32) \<Longrightarrow>
    \<exists>bs. candidate_loop hmac seed mat d w out b = Inr (bs, int ((w + 31) div 32))"
proof (induction "(w + 31) div 32 - nat b" arbitrary: out b)
  case 0
  then have b: "b = int ((w + 31) div 32)" by simp
  then have "\<not> length out < w" using 0 by simp
  with b show ?case by (subst candidate_loop.simps) simp
next
  case (Suc x)
  then have "nat b < (w + 31) div 32" by simp
  then have less: "length out < w" using Suc.prems by simp
  have "(w + 31) div 32 \<le> 2 ^ 64" using assms(5) by simp
  then have "b \<le> MAX_UINT64" using \<open>nat b < (w + 31) div 32\<close> Suc.prems(2)
    by (simp add: MAX_UINT64_def)
  then obtain m where m: "hmac_block hmac seed mat d b = Inr (hmac (material seed) m)"
    using hmac_block_Inr [OF assms(2-4) Suc.prems(2)] by blast
  have "\<exists>bs. candidate_loop hmac seed mat d w (out @ hmac (material seed) m) (b + 1) =
      Inr (bs, int ((w + 31) div 32))"
  proof (rule Suc.hyps(1))
    show "x = (w + 31) div 32 - nat (b + 1)" using Suc.hyps(2) Suc.prems(2) by simp
    show "length (out @ hmac (material seed) m) = 32 * nat (b + 1)"
      using Suc.prems assms(1) by (simp add: digest32_def)
    show "b + 1 \<le> int ((w + 31) div 32)" "0 \<le> b + 1"
      using \<open>nat b < (w + 31) div 32\<close> Suc.prems(2) by linarith+
  qed
  then show ?case
    using less m \<open>b \<le> MAX_UINT64\<close> by (subst candidate_loop.simps) simp
qed

lemma candidate_bytes_total:
  assumes "digest32 hmac" and "int (length mat) \<le> MAX_UINT64"
    and "0 \<le> d" and "d \<le> MAX_UINT64" and "w \<le> 2 ^ 64"
  obtains bs where "candidate_bytes hmac seed mat d w = Inr (bs, int ((w + 31) div 32))"
    and "length bs = w"
  using candidate_loop_total [OF assms, where out = "[]" and b = 0 and seed = seed] candidate_bytes_length
  unfolding candidate_bytes_def by fastforce

subsection \<open>The width and the limit\<close>

lemma less_bit_length: "n < 2 ^ bit_length n"
proof (induction n rule: bit_length.induct)
  case (1 n)
  then show ?case by (subst bit_length.simps) auto
qed

lemma upper_le_space: "0 < u \<Longrightarrow> u \<le> 256 ^ candidate_width u"
proof -
  assume u: "0 < u"
  let ?b = "bit_length (nat (u - 1))"
  have "nat (u - 1) < 2 ^ ?b" by (rule less_bit_length)
  then have "int (nat (u - 1)) < int (2 ^ ?b)" by (simp only: of_nat_less_iff)
  then have "u \<le> 2 ^ ?b" using u by simp
  also have "\<dots> \<le> (2 :: int) ^ (8 * candidate_width u)"
    by (rule power_increasing) (auto simp: candidate_width_def)
  also have "\<dots> = 256 ^ candidate_width u" by (simp add: power_mult)
  finally show ?thesis .
qed

lemma candidate_limit_alt:
  "candidate_limit u = 256 ^ candidate_width u - 256 ^ candidate_width u mod u"
  by (simp add: candidate_limit_def Let_def power_mult mult.commute [of _ 8])

lemma candidate_limit_bounds:
  assumes "0 < u"
  shows "u dvd candidate_limit u" and "256 ^ candidate_width u < 2 * candidate_limit u"
    and "candidate_limit u \<le> 256 ^ candidate_width u"
proof -
  define s :: int where "s = 256 ^ candidate_width u"
  have alt: "candidate_limit u = s - s mod u" by (simp add: candidate_limit_alt s_def)
  show "u dvd candidate_limit u" by (simp add: alt)
  have s: "0 < s" "u \<le> s" using upper_le_space [OF assms] by (simp_all add: s_def)
  then have "0 < s div u" using assms by (simp add: pos_imp_zdiv_pos_iff)
  then have "u \<le> u * (s div u)" using assms by simp
  moreover have "s mod u < u" using assms by simp
  moreover have "u * (s div u) + s mod u = s" by simp
  moreover define p m where "p = u * (s div u)" and "m = s mod u"
  ultimately have "u \<le> p" "m < u" "p + m = s" by simp_all
  then have "s < 2 * (s - s mod u)" unfolding m_def [symmetric] by simp
  then show "256 ^ candidate_width u < 2 * candidate_limit u" by (simp only: alt s_def)
  have "candidate_limit u \<le> s" unfolding alt using assms by simp
  then show "candidate_limit u \<le> 256 ^ candidate_width u" by (simp only: s_def)
qed

subsection \<open>The rejection loop\<close>

text \<open>\<open>rejected\<close>: the candidate of this draw exists and is not below the limit.\<close>

definition candidate_at ::
  "(byte list \<Rightarrow> byte list \<Rightarrow> byte list) \<Rightarrow> RootSeed \<Rightarrow> byte list \<Rightarrow> int \<Rightarrow> int \<Rightarrow> int option" where
  "candidate_at hmac seed mat upper d =
     (case candidate_bytes hmac seed mat d (candidate_width upper) of
        Inl _ \<Rightarrow> None | Inr (bs, _) \<Rightarrow> Some (from_be bs))"

definition rejected ::
  "(byte list \<Rightarrow> byte list \<Rightarrow> byte list) \<Rightarrow> RootSeed \<Rightarrow> byte list \<Rightarrow> int \<Rightarrow> int \<Rightarrow> bool" where
  "rejected hmac seed mat upper d \<longleftrightarrow>
     (\<exists>c. candidate_at hmac seed mat upper d = Some c \<and> candidate_limit upper \<le> c)"

text \<open>What a result says about the draws it records.\<close>

definition draws_ok ::
  "(byte list \<Rightarrow> byte list \<Rightarrow> byte list) \<Rightarrow> RootSeed \<Rightarrow> byte list \<Rightarrow> int \<Rightarrow> CandidateDraw list \<Rightarrow> bool"
  where
  "draws_ok hmac seed mat upper draws \<longleftrightarrow>
     map cd_draw_index draws = [0..int (length draws) - 1] \<and>
     list_all (\<lambda>d. candidate_at hmac seed mat upper (cd_draw_index d) = Some (cd_candidate d))
       draws"

lemma draws_ok_Nil [simp]: "draws_ok hmac seed mat u []"
  by (simp add: draws_ok_def)

lemma draws_ok_snoc:
  assumes "draws_ok hmac seed mat u draws" and "cd_draw_index x = int (length draws)"
    and "candidate_at hmac seed mat u (cd_draw_index x) = Some (cd_candidate x)"
  shows "draws_ok hmac seed mat u (draws @ [x])"
  using assms upto_rec2 [of 0 "int (length draws)"] by (simp add: draws_ok_def)

lemma draw_loop_Inr:
  assumes "draw_loop sha256 hmac seed mat dg u draws d = Inr r"
    and "draws_ok hmac seed mat u draws" and "d = int (length draws)"
    and "list_all (\<lambda>x. candidate_limit u \<le> cd_candidate x) draws"
  shows "draws_ok hmac seed mat u (br_draws r) \<and> br_draws r \<noteq> [] \<and>
    list_all (\<lambda>x. candidate_limit u \<le> cd_candidate x) (butlast (br_draws r)) \<and>
    br_draw_index r = int (length (br_draws r)) - 1 \<and>
    br_candidate r = cd_candidate (last (br_draws r)) \<and>
    0 \<le> br_candidate r \<and> br_candidate r < candidate_limit u \<and>
    br_value r = br_candidate r mod u \<and> br_limit r = candidate_limit u \<and>
    br_width r = candidate_width u \<and> br_draw_index r \<le> MAX_UINT64"
  using assms
proof (induction sha256 hmac seed mat dg u draws d rule: draw_loop.induct)
  case (1 sha256 hmac seed mat dg u draws d)
  from "1.prems"(1) have d: "d \<le> MAX_UINT64"
    by (subst (asm) draw_loop.simps) (auto split: if_splits)
  then obtain bs n where c: "candidate_bytes hmac seed mat d (candidate_width u) = Inr (bs, n)"
    using "1.prems"(1) by (subst (asm) draw_loop.simps) (auto split: sum.splits)
  define x where "x = \<lparr>cd_draw_index = d, cd_candidate_hex = hex bs,
    cd_candidate = from_be bs, cd_block_count = n\<rparr>"
  have ok: "draws_ok hmac seed mat u (draws @ [x])"
    using "1.prems"(2,3) c by (intro draws_ok_snoc) (simp_all add: x_def candidate_at_def)
  show ?case
  proof (cases "from_be bs < candidate_limit u")
    case True
    then have r: "r = \<lparr>br_value = from_be bs mod u, br_draw_index = d,
        br_candidate_hex = hex bs, br_candidate = from_be bs,
        br_limit = candidate_limit u, br_width = candidate_width u,
        br_block_count = n, br_draws = draws @ [x], br_domain_digest = dg,
        br_material_digest = hex (sha256 mat)\<rparr>"
      using "1.prems"(1) c d by (subst (asm) draw_loop.simps) (simp add: Let_def x_def)
    show ?thesis using ok True "1.prems"(3,4) d by (simp add: r x_def from_be_nonneg)
  next
    case False
    then have "draw_loop sha256 hmac seed mat dg u (draws @ [x]) (d + 1) = Inr r"
      using "1.prems"(1) c d by (subst (asm) draw_loop.simps) (simp add: Let_def x_def)
    with "1.IH" [OF d c refl refl x_def refl] False ok "1.prems"(3,4)
    show ?thesis by (simp add: x_def)
  qed
qed

lemma draw_loop_digest:
  "draw_loop sha256 hmac seed mat dg u draws d = Inr r \<Longrightarrow> br_domain_digest r = dg"
proof (induction sha256 hmac seed mat dg u draws d rule: draw_loop.induct)
  case (1 sha256 hmac seed mat dg u draws d)
  from "1.prems" show ?case
    by (subst (asm) draw_loop.simps)
      (auto simp: Let_def split: if_splits sum.splits prod.splits dest: "1.IH" [OF _ _ refl refl refl refl])
qed

lemma draw_loop_accepts:
  assumes "d \<le> k" and "k \<le> MAX_UINT64"
    and "candidate_at hmac seed mat u k = Some c" and "c < candidate_limit u"
    and "\<And>j. d \<le> j \<Longrightarrow> j < k \<Longrightarrow> \<exists>x. candidate_at hmac seed mat u j = Some x"
  shows "\<exists>r. draw_loop sha256 hmac seed mat dg u draws d = Inr r"
  using assms
proof (induction sha256 hmac seed mat dg u draws d rule: draw_loop.induct)
  case (1 sha256 hmac seed mat dg u draws d)
  have d: "d \<le> MAX_UINT64" using "1.prems"(1,2) by simp
  have "\<exists>x. candidate_at hmac seed mat u d = Some x"
    using "1.prems"(1,3,5) by (cases "d = k") (auto simp: order.order_iff_strict)
  then obtain bs n where c: "candidate_bytes hmac seed mat d (candidate_width u) = Inr (bs, n)"
    by (auto simp: candidate_at_def split: sum.splits)
  define x where "x = \<lparr>cd_draw_index = d, cd_candidate_hex = hex bs,
    cd_candidate = from_be bs, cd_block_count = n\<rparr>"
  show ?case
  proof (cases "from_be bs < candidate_limit u")
    case True
    then show ?thesis using c d by (subst draw_loop.simps) (simp add: Let_def)
  next
    case False
    then have "d \<noteq> k" using c "1.prems"(3,4) by (auto simp: candidate_at_def)
    then have "\<exists>r. draw_loop sha256 hmac seed mat dg u (draws @ [x]) (d + 1) = Inr r"
      using "1.prems" False by (intro "1.IH" [OF d c refl refl x_def refl]) simp_all
    then show ?thesis using c d False by (subst draw_loop.simps) (simp add: Let_def x_def)
  qed
qed

subsection \<open>Uniformity\<close>

lemma card_residues:
  fixes u v q :: int
  assumes "0 < u" and "0 \<le> v" and "v < u" and "0 \<le> q"
  shows "card {c. 0 \<le> c \<and> c < u * q \<and> c mod u = v} = nat q"
proof -
  have "bij_betw (\<lambda>i. u * i + v) {0..<q} {c. 0 \<le> c \<and> c < u * q \<and> c mod u = v}"
  proof (rule bij_betw_byWitness [where f' = "\<lambda>c. c div u"])
    show "\<forall>i\<in>{0..<q}. (u * i + v) div u = i" using assms by simp
    show "\<forall>c\<in>{c. 0 \<le> c \<and> c < u * q \<and> c mod u = v}. u * (c div u) + v = c"
      by (auto simp: mult_div_mod_eq)
    have "u * i + v < u * q" if "i < q" for i
    proof -
      have "u * i + v < u * (i + 1)" using assms by (simp add: distrib_left)
      also have "\<dots> \<le> u * q" using that assms by (intro mult_left_mono) simp_all
      finally show ?thesis .
    qed
    then show "(\<lambda>i. u * i + v) ` {0..<q} \<subseteq> {c. 0 \<le> c \<and> c < u * q \<and> c mod u = v}"
      using assms by auto
    show "(\<lambda>c. c div u) ` {c. 0 \<le> c \<and> c < u * q \<and> c mod u = v} \<subseteq> {0..<q}"
      using assms by (auto simp: pos_imp_zdiv_nonneg_iff)
        (metis assms(1) mult.commute zdiv_mono1 div_mult_self1_is_m order_less_le linorder_not_le
          mult_div_mod_eq mult_less_cancel_left_pos order_le_less_trans le_add_same_cancel1
          pos_mod_sign)
  qed
  from bij_betw_same_card [OF this] show ?thesis by simp
qed

lemma card_byte_lists:
  assumes "A \<subseteq> {0..<256 ^ k}"
  shows "card {bs :: byte list. length bs = k \<and> from_be bs \<in> A} = card A"
proof -
  have "bij_betw from_be {bs :: byte list. length bs = k \<and> from_be bs \<in> A} A"
  proof (rule bij_betw_byWitness [where f' = "be_bytes k"])
    show "\<forall>bs\<in>{bs. length bs = k \<and> from_be bs \<in> A}. be_bytes k (from_be bs) = bs"
      using be_bytes_from_be by auto
    show "\<forall>n\<in>A. from_be (be_bytes k n) = n" using assms by (auto simp: from_be_be_bytes)
    then show "be_bytes k ` A \<subseteq> {bs. length bs = k \<and> from_be bs \<in> A}" by auto
  qed auto
  then show ?thesis by (rule bij_betw_same_card)
qed

subsection \<open>Domain separation\<close>

lemma hmac_message_inject:
  assumes "hmac_message m d b = Inr x" and "hmac_message m' d' b' = Inr x"
  shows "m = m' \<and> d = d' \<and> b = b'"
proof -
  have range: "int (length m) \<le> MAX_UINT64" "int (length m') \<le> MAX_UINT64"
      "0 \<le> d" "d \<le> MAX_UINT64" "0 \<le> d'" "d' \<le> MAX_UINT64"
      "0 \<le> b" "b \<le> MAX_UINT64" "0 \<le> b'" "b' \<le> MAX_UINT64"
    and x: "x = CHOICE_PREFIX @ be_bytes 8 (int (length m)) @ m @ be_bytes 8 d @ be_bytes 8 b"
      "x = CHOICE_PREFIX @ be_bytes 8 (int (length m')) @ m' @ be_bytes 8 d' @ be_bytes 8 b'"
    using assms by (auto simp: hmac_message_def uint64_Inr split: sum.splits)
  from x have "be_bytes 8 (int (length m)) = be_bytes 8 (int (length m'))"
    and rest: "m @ be_bytes 8 d @ be_bytes 8 b = m' @ be_bytes 8 d' @ be_bytes 8 b'" by simp_all
  with range have "length m = length m'" using be_bytes_8_inject by fastforce
  with rest have "m = m'" "be_bytes 8 d = be_bytes 8 d'" "be_bytes 8 b = be_bytes 8 b'" by simp_all
  with range show ?thesis using be_bytes_8_inject by blast
qed

lemma segment_json:
  "map_res to_json_value (map segment_value segs) =
     Inr (map (\<lambda>s. case s of SegStr t \<Rightarrow> JStr t | SegInt n \<Rightarrow> JInt n) segs)"
proof (induction segs)
  case (Cons x segs)
  then show ?case by (cases x) simp_all
qed simp

definition material_json :: "ChoicePath \<Rightarrow> ChoiceOperation \<Rightarrow> string \<Rightarrow> json" where
  "material_json path operation dg = JObj [
     (''algorithm_id'', JStr ALGORITHM_ID), (''algorithm_version'', JInt ALGORITHM_VERSION),
     (''attempt_index'', JInt (attempt_index (attempt_key path))),
     (''domain_digest'', JStr dg), (''namespace'', JStr (namespace path)),
     (''operation'', JStr (operation_value operation)),
     (''path_schema_version'', JStr PATH_SCHEMA_VERSION),
     (''release'', JStr (release (sample_key (attempt_key path)))),
     (''sample_index'', JInt (sample_index (sample_key (attempt_key path)))),
     (''segments'', JArr (map (\<lambda>s. case s of SegStr t \<Rightarrow> JStr t | SegInt n \<Rightarrow> JInt n)
       (segments path))),
     (''target_id'', JStr (target_id (sample_key (attempt_key path))))]"

lemma choice_material_eq:
  "choice_material path operation dg = Inr (json_bytes (material_json path operation dg))"
  by (simp add: choice_material_def choice_material_value_def canonical_json_bytes_def
      material_json_def Let_def segment_json)

lemma norm_material: "norm_json (material_json path operation dg) = material_json path operation dg"
proof -
  have "map norm_json (map (\<lambda>s. case s of SegStr t \<Rightarrow> JStr t | SegInt n \<Rightarrow> JInt n) segs) =
      map (\<lambda>s. case s of SegStr t \<Rightarrow> JStr t | SegInt n \<Rightarrow> JInt n) segs" for segs
    by (auto split: ChoiceSegment.splits)
  then show ?thesis
    unfolding material_json_def norm_json.simps
    by (subst sort_key_id_if_sorted) simp_all
qed

lemma segment_code_inject:
  "map (\<lambda>s. case s of SegStr t \<Rightarrow> JStr t | SegInt n \<Rightarrow> JInt n) xs =
   map (\<lambda>s. case s of SegStr t \<Rightarrow> JStr t | SegInt n \<Rightarrow> JInt n) ys \<Longrightarrow> xs = ys"
proof (induction xs arbitrary: ys)
  case (Cons x xs)
  then obtain y ys' where "ys = y # ys'" by (cases ys) auto
  with Cons show ?case by (auto split: ChoiceSegment.splits)
qed simp

lemma operation_value_inject: "operation_value a = operation_value b \<longleftrightarrow> a = b"
  by (cases a; cases b) simp_all

lemma choice_material_inject:
  fixes path path' :: ChoicePath
  assumes "choice_material path operation dg = choice_material path' operation' dg'"
  shows "path = path' \<and> operation = operation' \<and> dg = dg'"
proof -
  have "material_json path operation dg = material_json path' operation' dg'"
    using assms by (simp add: choice_material_eq json_bytes_eq_iff norm_material)
  then show ?thesis
    by (simp add: material_json_def operation_value_inject ChoicePath.equality
        AttemptKey.equality SampleKey.equality segment_code_inject)
qed

subsection \<open>Weighted choices\<close>

lemma bisect_loop_spec:
  assumes "sorted a" and "lo \<le> hi" and "hi \<le> length a" and "\<And>i. i < lo \<Longrightarrow> a ! i \<le> x"
    and "\<And>i. hi \<le> i \<Longrightarrow> i < length a \<Longrightarrow> x < a ! i"
  shows "bisect_loop a x lo hi \<le> length a \<and> (\<forall>i<bisect_loop a x lo hi. a ! i \<le> x) \<and>
    (\<forall>i. bisect_loop a x lo hi \<le> i \<and> i < length a \<longrightarrow> x < a ! i)"
  using assms
proof (induction a x lo hi rule: bisect_loop.induct)
  case (1 a x lo hi)
  define mid where "mid = (lo + hi) div 2"
  have mono: "a ! i \<le> a ! j" if "i \<le> j" "j < length a" for i j
    using "1.prems"(1) that by (rule sorted_nth_mono)
  show ?case
  proof (cases "lo < hi")
    case True
    then have mid: "lo \<le> mid" "mid < hi" "mid < length a"
      using "1.prems"(3) by (auto simp: mid_def)
    show ?thesis
    proof (cases "x < a ! mid")
      case x: True
      have "bisect_loop a x lo hi = bisect_loop a x lo mid"
        using True x by (subst bisect_loop.simps) (simp add: mid_def Let_def)
      moreover have "x < a ! i" if "mid \<le> i" "i < length a" for i
        using x mono [OF that] by simp
      ultimately show ?thesis
        using "1.IH"(1) [OF True mid_def x "1.prems"(1) mid(1) _ "1.prems"(4)] mid by simp
    next
      case x: False
      have "bisect_loop a x lo hi = bisect_loop a x (mid + 1) hi"
        using True x by (subst bisect_loop.simps) (simp add: mid_def Let_def)
      moreover have "a ! i \<le> x" if "i < mid + 1" for i
        using x mono [of i mid] that mid by simp
      ultimately show ?thesis
        using "1.IH"(2) [OF True mid_def x "1.prems"(1) _ "1.prems"(3) _ "1.prems"(5)] mid
        by simp
    qed
  next
    case False
    then have "bisect_loop a x lo hi = lo" by (subst bisect_loop.simps) simp
    then show ?thesis using "1.prems" False by simp
  qed
qed

lemma bisect_right_spec:
  assumes "sorted a"
  shows "bisect_right a x \<le> length a \<and> (\<forall>i<bisect_right a x. a ! i \<le> x) \<and>
    (\<forall>i. bisect_right a x \<le> i \<and> i < length a \<longrightarrow> x < a ! i)"
  unfolding bisect_right_def by (rule bisect_loop_spec [OF assms]) simp_all

lemma accumulate_Inr:
  "accumulate t ws = Inr cs \<Longrightarrow>
     list_all (\<lambda>w. 0 < w) ws \<and> length cs = length ws \<and>
     (\<forall>i<length ws. cs ! i = t + sum_list (take (Suc i) ws))"
proof (induction ws arbitrary: t cs)
  case (Cons w ws)
  then obtain cs' where "0 < w" "accumulate (t + w) ws = Inr cs'" "cs = (t + w) # cs'"
    by (auto split: if_splits sum.splits)
  with Cons.IH [OF this(2)] show ?case by (auto simp: nth_Cons split: nat.splits)
qed simp

lemma accumulate_total: "list_all (\<lambda>w. 0 < w) ws \<Longrightarrow> \<exists>cs. accumulate t ws = Inr cs"
  by (induction ws arbitrary: t) (auto split: sum.splits, metis sum.distinct(1))

text \<open>\<open>before ws i\<close>: the tickets of the values before position \<open>i\<close>.\<close>

definition before :: "int list \<Rightarrow> nat \<Rightarrow> int" where
  "before ws i = sum_list (take i ws)"

lemma before_mono:
  assumes "list_all (\<lambda>w. 0 < w) ws" and "i \<le> j"
  shows "before ws i \<le> before ws j"
proof -
  have "take j ws = take i ws @ take (j - i) (drop i ws)"
    using assms(2) by (metis le_add_diff_inverse take_add)
  moreover have "0 \<le> sum_list (take (j - i) (drop i ws))"
    using assms(1) by (intro sum_list_nonneg)
      (auto simp: list_all_iff dest!: in_set_takeD in_set_dropD)
  ultimately show ?thesis by (simp add: before_def)
qed

lemma before_Suc: "i < length ws \<Longrightarrow> before ws (Suc i) = before ws i + ws ! i"
  by (simp add: before_def take_Suc_conv_app_nth)

lemma accumulate_sorted:
  assumes "accumulate 0 ws = Inr cs"
  shows "sorted cs" and "length cs = length ws" and "\<And>i. i < length ws \<Longrightarrow> cs ! i = before ws (Suc i)"
    and "list_all (\<lambda>w. 0 < w) ws" and "ws \<noteq> [] \<Longrightarrow> last cs = sum_list ws"
proof -
  note a = accumulate_Inr [OF assms]
  show pos: "list_all (\<lambda>w. 0 < w) ws" and len: "length cs = length ws"
    and nth: "\<And>i. i < length ws \<Longrightarrow> cs ! i = before ws (Suc i)"
    using a by (simp_all add: before_def)
  show "sorted cs"
    unfolding sorted_iff_nth_mono using len nth before_mono [OF pos] by simp
  show "last cs = sum_list ws" if "ws \<noteq> []"
    using that len nth [of "length ws - 1"]
    by (cases "cs = []") (auto simp: last_conv_nth before_def)
qed

text \<open>A ticket selects the position whose interval contains it.\<close>

lemma bisect_selects:
  assumes "accumulate 0 ws = Inr cs" and "0 \<le> t" and "i < length ws"
  shows "bisect_right cs t = i \<longleftrightarrow> before ws i \<le> t \<and> t < before ws (Suc i)"
proof -
  note acc = accumulate_sorted [OF assms(1)] and b = bisect_right_spec [OF accumulate_sorted(1) [OF assms(1)], of t]
  show ?thesis
  proof
    assume i: "bisect_right cs t = i"
    have "t < before ws (Suc i)" using b i assms(3) acc(2,3) by auto
    moreover have "before ws i \<le> t"
    proof (cases i)
      case (Suc j)
      then have "cs ! j \<le> t" using b i by simp
      then show ?thesis using Suc acc(3) [of j] assms(3) by simp
    qed (use assms(2) in \<open>simp add: before_def\<close>)
    ultimately show "before ws i \<le> t \<and> t < before ws (Suc i)" by simp
  next
    assume t: "before ws i \<le> t \<and> t < before ws (Suc i)"
    show "bisect_right cs t = i"
    proof (rule ccontr)
      assume "bisect_right cs t \<noteq> i"
      then consider "bisect_right cs t < i" | "i < bisect_right cs t" by linarith
      then show False
      proof cases
        case 1
        define k where "k = bisect_right cs t"
        have "t < cs ! k" using b 1 assms(3) acc(2) by (auto simp: k_def)
        moreover have "cs ! k \<le> before ws i"
          using acc(3) [of k] 1 assms(3) before_mono [OF acc(4), of "Suc k" i] by (simp add: k_def)
        ultimately show False using t by simp
      next
        case 2
        then have "cs ! i \<le> t" using b by simp
        then show False using acc(3) [OF assms(3)] t by simp
      qed
    qed
  qed
qed

lemma bisect_in_range:
  assumes "accumulate 0 ws = Inr cs" and "ws \<noteq> []" and "0 \<le> t" and "t < sum_list ws"
  shows "bisect_right cs t < length ws"
proof (rule ccontr)
  assume "\<not> ?thesis"
  moreover have "length cs = length ws" "ws \<noteq> []" by (rule accumulate_sorted [OF assms(1)]) (rule assms)
  ultimately have "cs ! (length ws - 1) \<le> t"
    using bisect_right_spec [OF accumulate_sorted(1) [OF assms(1)], of t] by auto
  then show False
    using accumulate_sorted(3) [OF assms(1), of "length ws - 1"] assms(2,4) by (simp add: before_def)
qed

end
