(* ===== verification/Choice_Properties.thy ===== *)
theory Choice_Properties
  imports Choice_Facts
begin

section \<open>Properties of deterministic choices\<close>

text \<open>
  Correctness of the choice modules: the drawn value is in range and every value of the range
  is hit by equally many candidates, the loops return the first acceptable attempt or draw,
  weighted choices are exactly proportional, and distinct choice sites never share an HMAC
  message.
\<close>

definition ex_hmac :: "byte list \<Rightarrow> byte list \<Rightarrow> byte list" where
  "ex_hmac k m = replicate 32 1"

definition ex_sha256 :: "byte list \<Rightarrow> byte list" where
  "ex_sha256 m = replicate 32 0"

definition ex_seed :: RootSeed where
  "ex_seed = \<lparr>material = be_bytes 32 1, provenance = KnownAnswerFixture\<rparr>"

definition ex_path :: ChoicePath where
  "ex_path = \<lparr>attempt_key = \<lparr>sample_key = \<lparr>release = ''v0.4'', target_id = ''t'',
     sample_index = 0\<rparr>, attempt_index = 0\<rparr>, namespace = ''n'', segments = [SegInt 0]\<rparr>"

lemma digest32_ex_hmac: "digest32 ex_hmac"
  by (simp add: digest32_def ex_hmac_def)

definition ex_domain :: pyval where
  "ex_domain = PyDict [(PyStr ''upper_exclusive'', PyInt 10)]"

definition ex_digest :: string where
  "ex_digest = hex (replicate 32 0)"

definition ex_material :: "byte list" where
  "ex_material = json_bytes (material_json ex_path BoundedInteger ex_digest)"

lemma ex_domain_digest: "canonical_sha256 ex_sha256 ex_domain = Inr ex_digest"
  by (simp add: canonical_sha256_def canonical_json_bytes_def ex_domain_def ex_sha256_def
      ex_digest_def)

lemma ex_material: "choice_material ex_path BoundedInteger ex_digest = Inr ex_material"
  by (simp add: choice_material_eq ex_material_def)

lemma ex_material_length: "int (length ex_material) \<le> MAX_UINT64"
  by code_simp

lemma ex_width: "candidate_width 10 = 1"
  by (simp add: candidate_width_def bit_length.simps)

lemma ex_candidate:
  assumes "int (length mat) \<le> MAX_UINT64" and "candidate_width u = 1"
  shows "candidate_at ex_hmac ex_seed mat u 0 = Some 1"
proof -
  obtain m where "hmac_block ex_hmac ex_seed mat 0 0 = Inr (ex_hmac (material ex_seed) m)"
    using hmac_block_Inr [OF assms(1), of 0 0 ex_hmac ex_seed] by (auto simp: MAX_UINT64_def)
  then have block: "hmac_block ex_hmac ex_seed mat 0 0 = Inr (replicate 32 1)"
    by (simp add: ex_hmac_def)
  have "candidate_bytes ex_hmac ex_seed mat 0 1 = Inr ([1], 1)"
    unfolding candidate_bytes_def
    by (subst candidate_loop.simps, simp add: block MAX_UINT64_def,
        subst candidate_loop.simps, simp add: numeral_eq_Suc)
  then show ?thesis by (simp add: candidate_at_def assms(2) from_be_def)
qed

lemmas ex_candidate_10 = ex_candidate [OF ex_material_length ex_width]

lemma ex_limit: "candidate_limit 10 = 250"
  by (simp add: candidate_limit_def ex_width)

lemma ex_draw: "\<exists>r. bounded_integer ex_sha256 ex_hmac ex_seed ex_path 10 = Inr r"
proof -
  have "\<exists>r. draw_loop ex_sha256 ex_hmac ex_seed ex_material ex_digest 10 [] 0 = Inr r"
    by (rule draw_loop_accepts [OF _ _ ex_candidate_10])
      (simp_all add: ex_limit MAX_UINT64_def)
  then show ?thesis
    using ex_domain_digest ex_material
    by (simp add: bounded_integer_def bounded_integer_for_domain_def ex_domain_def)
qed

text \<open>C36: A bounded integer is correct: when the call returns, the value lies in the requested
  range and is the accepted candidate modulo the bound; the recorded draws are numbered from
  zero without a gap, each is the candidate the HMAC stream yields for its number, and every
  one before the last was rejected for being at or above the limit.\<close>

theorem bounded_integer_correct:
  assumes "bounded_integer sha256 hmac seed path u = Inr r"
  shows "0 \<le> br_value r \<and> br_value r < u \<and> br_value r = br_candidate r mod u \<and>
    br_candidate r < candidate_limit u \<and> br_limit r = candidate_limit u \<and>
    br_draw_index r = int (length (br_draws r)) - 1 \<and>
    br_candidate r = cd_candidate (last (br_draws r)) \<and>
    map cd_draw_index (br_draws r) = [0..br_draw_index r] \<and>
    list_all (\<lambda>d. candidate_limit u \<le> cd_candidate d) (butlast (br_draws r)) \<and>
    (\<exists>mat. choice_material path BoundedInteger (br_domain_digest r) = Inr mat \<and>
       list_all (\<lambda>d. candidate_at hmac seed mat u (cd_draw_index d) = Some (cd_candidate d))
         (br_draws r))"
proof -
  obtain dg mat where u: "0 < u" and mat: "choice_material path BoundedInteger dg = Inr mat"
    and loop: "draw_loop sha256 hmac seed mat dg u [] 0 = Inr r"
    using assms by (auto simp: bounded_integer_def bounded_integer_for_domain_def
        split: if_splits sum.splits)
  have r: "draws_ok hmac seed mat u (br_draws r) \<and> br_draws r \<noteq> [] \<and>
    list_all (\<lambda>x. candidate_limit u \<le> cd_candidate x) (butlast (br_draws r)) \<and>
    br_draw_index r = int (length (br_draws r)) - 1 \<and>
    br_candidate r = cd_candidate (last (br_draws r)) \<and>
    0 \<le> br_candidate r \<and> br_candidate r < candidate_limit u \<and>
    br_value r = br_candidate r mod u \<and> br_limit r = candidate_limit u \<and>
    br_width r = candidate_width u \<and> br_draw_index r \<le> MAX_UINT64"
    by (rule draw_loop_Inr [OF loop]) simp_all
  have "br_domain_digest r = dg" by (rule draw_loop_digest [OF loop])
  with r mat u show ?thesis by (auto simp: draws_ok_def)
qed

theorem bounded_integer_correct_witness:
  "\<exists>r. bounded_integer ex_sha256 ex_hmac ex_seed ex_path 10 = Inr r \<and> br_value r < 10"
  using ex_draw bounded_integer_correct [of ex_sha256 ex_hmac ex_seed ex_path 10] by blast

text \<open>C37: The draw is unbiased. For every positive bound, each value of the range is produced
  by exactly the same number of accepted candidate byte strings, and more than half of all
  byte strings are accepted.\<close>

theorem bounded_integer_unbiased:
  assumes "0 < u" and "0 \<le> v" and "v < u"
  shows "card {bs. length bs = candidate_width u \<and> from_be bs < candidate_limit u \<and>
      from_be bs mod u = v} = nat (candidate_limit u div u) \<and>
    256 ^ candidate_width u < 2 * candidate_limit u"
proof -
  define q where "q = candidate_limit u div u"
  have limit: "candidate_limit u = u * q" "0 \<le> q"
    using candidate_limit_bounds [OF assms(1)] assms(1)
    by (simp_all add: q_def pos_imp_zdiv_nonneg_iff)
  let ?A = "{c. 0 \<le> c \<and> c < u * q \<and> c mod u = v}"
  have "?A \<subseteq> {0..<256 ^ candidate_width u}"
    using candidate_limit_bounds(3) [OF assms(1)] limit by auto
  from card_byte_lists [OF this] card_residues [OF assms limit(2)]
  have "card {bs. length bs = candidate_width u \<and> from_be bs \<in> ?A} = nat q" by simp
  moreover have "{bs. length bs = candidate_width u \<and> from_be bs \<in> ?A} =
      {bs. length bs = candidate_width u \<and> from_be bs < candidate_limit u \<and>
        from_be bs mod u = v}"
    using from_be_nonneg limit by auto
  ultimately show ?thesis
    using candidate_limit_bounds(2) [OF assms(1)] limit assms(1) by simp
qed

theorem bounded_integer_unbiased_witness:
  "card {bs. length bs = candidate_width 10 \<and> from_be bs < candidate_limit 10 \<and>
      from_be bs mod 10 = 3} = 25"
  using bounded_integer_unbiased [of 10 3] by (simp add: candidate_limit_def candidate_width_def
      bit_length.simps)

lemma draw_loop_candidate:
  assumes "draw_loop sha256 hmac seed mat dg u [] 0 = Inr r"
  obtains k c where "0 \<le> k" "k \<le> MAX_UINT64" "candidate_at hmac seed mat u k = Some c"
    "c < candidate_limit u"
proof -
  have r: "draws_ok hmac seed mat u (br_draws r) \<and> br_draws r \<noteq> [] \<and>
    list_all (\<lambda>x. candidate_limit u \<le> cd_candidate x) (butlast (br_draws r)) \<and>
    br_draw_index r = int (length (br_draws r)) - 1 \<and>
    br_candidate r = cd_candidate (last (br_draws r)) \<and>
    0 \<le> br_candidate r \<and> br_candidate r < candidate_limit u \<and>
    br_value r = br_candidate r mod u \<and> br_limit r = candidate_limit u \<and>
    br_width r = candidate_width u \<and> br_draw_index r \<le> MAX_UINT64"
    by (rule draw_loop_Inr [OF assms]) simp_all
  have idx: "map cd_draw_index (br_draws r) = [0..br_draw_index r]"
    using r by (simp add: draws_ok_def)
  define d where "d = last (br_draws r)"
  have d: "d \<in> set (br_draws r)" using r by (simp add: d_def)
  then have "cd_draw_index d \<in> set [0..br_draw_index r]"
    using idx by (metis imageI set_map)
  moreover have "candidate_at hmac seed mat u (cd_draw_index d) = Some (cd_candidate d)"
    using r d by (simp add: draws_ok_def list_all_iff)
  ultimately show thesis
    using r by (intro that [of "cd_draw_index d" "cd_candidate d"]) (auto simp: d_def)
qed

text \<open>C38: The draw succeeds as soon as it can. With 32-byte digests and a material and a width
  that fit the counters, the call returns exactly when some draw number up to \<open>2^64 - 1\<close>
  has a candidate below the limit; every candidate exists and takes one HMAC block per
  started 32 bytes.\<close>

theorem bounded_integer_returns:
  assumes "digest32 hmac" and "0 < u"
    and "canonical_sha256 sha256 (PyDict [(PyStr ''upper_exclusive'', PyInt u)]) = Inr dg"
    and "choice_material path BoundedInteger dg = Inr mat"
    and "int (length mat) \<le> MAX_UINT64" and "candidate_width u \<le> 2 ^ 64"
  shows "(\<exists>r. bounded_integer sha256 hmac seed path u = Inr r) \<longleftrightarrow>
    (\<exists>k c. 0 \<le> k \<and> k \<le> MAX_UINT64 \<and> candidate_at hmac seed mat u k = Some c \<and>
       c < candidate_limit u)"
proof -
  have eq: "bounded_integer sha256 hmac seed path u = draw_loop sha256 hmac seed mat dg u [] 0"
    using assms(2-4) by (simp add: bounded_integer_def bounded_integer_for_domain_def)
  have cand: "\<exists>x. candidate_at hmac seed mat u j = Some x" if "0 \<le> j" "j \<le> MAX_UINT64" for j
  proof -
    note j = that
    obtain bs n where "candidate_bytes hmac seed mat j (candidate_width u) = Inr (bs, n)"
      by (rule candidate_bytes_total [OF assms(1,5) j assms(6)])
    then show ?thesis by (simp add: candidate_at_def)
  qed
  show ?thesis
  proof
    assume "\<exists>r. bounded_integer sha256 hmac seed path u = Inr r"
    then obtain r where loop: "draw_loop sha256 hmac seed mat dg u [] 0 = Inr r" using eq by auto
    show "\<exists>k c. 0 \<le> k \<and> k \<le> MAX_UINT64 \<and> candidate_at hmac seed mat u k = Some c \<and>
        c < candidate_limit u"
      by (rule draw_loop_candidate [OF loop]) (intro exI conjI)
  next
    assume "\<exists>k c. 0 \<le> k \<and> k \<le> MAX_UINT64 \<and> candidate_at hmac seed mat u k = Some c \<and>
        c < candidate_limit u"
    then obtain k c where k: "0 \<le> k" "k \<le> MAX_UINT64" "candidate_at hmac seed mat u k = Some c"
        "c < candidate_limit u" by blast
    show "\<exists>r. bounded_integer sha256 hmac seed path u = Inr r"
      unfolding eq using cand k(2) by (intro draw_loop_accepts [OF k]) simp
  qed
qed

theorem bounded_integer_returns_witness:
  "\<exists>r. bounded_integer ex_sha256 ex_hmac ex_seed ex_path 10 = Inr r"
proof -
  have "candidate_width 10 \<le> 2 ^ 64" by (simp add: ex_width)
  from bounded_integer_returns [OF digest32_ex_hmac _ ex_domain_digest [unfolded ex_domain_def]
      ex_material ex_material_length this, of ex_seed]
  show ?thesis using ex_candidate_10 ex_limit by (fastforce simp: MAX_UINT64_def)
qed

text \<open>C39: Choice sites are separated. If two draws feed the same message to the HMAC, they agree
  in everything: the attempt and sample keys, the namespace, the segments, the operation, the
  domain digest, the draw number and the block number.\<close>

theorem choice_sites_separated:
  fixes path path' :: ChoicePath
  assumes "choice_material path op dg = Inr mat" and "choice_material path' op' dg' = Inr mat'"
    and "hmac_message mat d b = Inr m" and "hmac_message mat' d' b' = Inr m"
  shows "path = path' \<and> op = op' \<and> dg = dg' \<and> d = d' \<and> b = b'"
  using hmac_message_inject [OF assms(3,4)] choice_material_inject [of path op dg path' op' dg']
    assms(1,2) by simp

theorem choice_sites_separated_witness:
  "\<exists>m. hmac_message ex_material 3 0 = Inr m \<and> hmac_message ex_material 4 0 \<noteq> Inr m"
proof -
  obtain m where m: "hmac_message ex_material 3 0 = Inr m"
    using ex_material_length by (simp add: hmac_message_def uint64_eq MAX_UINT64_def)
  moreover have "hmac_message ex_material 4 0 \<noteq> Inr m"
    using choice_sites_separated [OF ex_material ex_material m, of 4 0] by auto
  ultimately show ?thesis by blast
qed

text \<open>A weighted choice selects the value whose interval of running totals contains the
  ticket, and the ticket lies below the total weight.\<close>

theorem weighted_choice_correct:
  assumes "weighted_choice sha256 hmac seed path values weights = Inr w"
  shows "wr_selected_index w < length values \<and>
    wr_selected_value w = values ! wr_selected_index w \<and>
    0 \<le> br_value (wr_ticket w) \<and> br_value (wr_ticket w) < sum_list weights \<and>
    before weights (wr_selected_index w) \<le> br_value (wr_ticket w) \<and>
    br_value (wr_ticket w) < before weights (Suc (wr_selected_index w))"
proof -
  obtain cs ticket where len: "length values = length weights" and ne: "values \<noteq> []"
    and cs: "accumulate 0 weights = Inr cs"
    and ticket: "bounded_integer_for_domain sha256 hmac seed path IntegerWeightedIndex (last cs)
      (PyDict [(PyStr ''values'', PyList values), (PyStr ''weights'', PyList (map PyInt weights))])
      = Inr ticket"
    and w: "w = \<lparr>wr_selected_index = bisect_right cs (br_value ticket),
      wr_selected_value = values ! bisect_right cs (br_value ticket),
      wr_ticket = ticket, wr_cumulative_weights = cs\<rparr>"
    using assms by (auto simp: weighted_choice_def Let_def split: if_splits sum.splits)
  have ws: "weights \<noteq> []" using len ne by auto
  have last: "last cs = sum_list weights" by (rule accumulate_sorted(5) [OF cs ws])
  obtain dg mat where u: "0 < last cs"
    and loop: "draw_loop sha256 hmac seed mat dg (last cs) [] 0 = Inr ticket"
    using ticket by (auto simp: bounded_integer_for_domain_def split: if_splits sum.splits)
  have "br_value ticket = br_candidate ticket mod last cs"
    using draw_loop_Inr [OF loop] by simp
  then have t: "0 \<le> br_value ticket" "br_value ticket < sum_list weights"
    using u last by simp_all
  have i: "bisect_right cs (br_value ticket) < length weights"
    by (rule bisect_in_range [OF cs ws t])
  show ?thesis using t i len bisect_selects [OF cs t(1) i] by (simp add: w)
qed

definition ex_weighted_material :: "byte list" where
  "ex_weighted_material = json_bytes (material_json ex_path IntegerWeightedIndex ex_digest)"

lemma ex_weighted_material_length: "int (length ex_weighted_material) \<le> MAX_UINT64"
  by code_simp

lemma ex_weighted:
  "\<exists>w. weighted_choice ex_sha256 ex_hmac ex_seed ex_path [PyInt 7, PyInt 8] [1, 3] = Inr w"
proof -
  have width: "candidate_width 4 = 1" and limit: "candidate_limit 4 = 256"
    by (simp_all add: candidate_width_def candidate_limit_def bit_length.simps)
  have "\<exists>r. draw_loop ex_sha256 ex_hmac ex_seed ex_weighted_material ex_digest 4 [] 0 = Inr r"
    by (rule draw_loop_accepts [OF _ _ ex_candidate [OF ex_weighted_material_length width]])
      (simp_all add: limit MAX_UINT64_def)
  moreover have "canonical_sha256 ex_sha256 (PyDict [(PyStr ''values'', PyList [PyInt 7, PyInt 8]),
      (PyStr ''weights'', PyList [PyInt 1, PyInt 3])]) = Inr ex_digest"
    by (simp add: canonical_sha256_def canonical_json_bytes_def ex_sha256_def ex_digest_def)
  moreover have "map_res canonical_json_bytes [PyInt 7, PyInt 8] =
      Inr [json_bytes (JInt 7), json_bytes (JInt 8)]"
    by (simp add: canonical_json_bytes_def)
  moreover have "json_bytes (JInt 7) \<noteq> json_bytes (JInt 8)" by (simp add: json_bytes_eq_iff)
  ultimately show ?thesis
    by (auto simp: weighted_choice_def bounded_integer_for_domain_def choice_material_eq
        ex_weighted_material_def Let_def)
qed

theorem weighted_choice_correct_witness:
  "\<exists>w. weighted_choice ex_sha256 ex_hmac ex_seed ex_path [PyInt 7, PyInt 8] [1, 3] = Inr w \<and>
     wr_selected_index w < 2"
proof -
  obtain w where w: "weighted_choice ex_sha256 ex_hmac ex_seed ex_path [PyInt 7, PyInt 8] [1, 3] =
      Inr w" using ex_weighted by blast
  from weighted_choice_correct [OF w] w show ?thesis by auto
qed

text \<open>Weighted choices are exactly proportional: of the tickets below the total weight,
  precisely \<open>weights ! i\<close> select position \<open>i\<close>.\<close>

theorem weighted_choice_proportional:
  assumes "accumulate 0 weights = Inr cumulative" and "i < length weights"
  shows "card {t. 0 \<le> t \<and> t < sum_list weights \<and> bisect_right cumulative t = i} =
    nat (weights ! i)"
proof -
  note acc = accumulate_sorted [OF assms(1)]
  have total: "before weights (length weights) = sum_list weights" by (simp add: before_def)
  have "0 \<le> before weights i" using before_mono [OF acc(4), of 0 i] by (simp add: before_def)
  have "before weights (Suc i) \<le> sum_list weights"
    using before_mono [OF acc(4), of "Suc i" "length weights"] assms(2) total by simp
  have "{t. 0 \<le> t \<and> t < sum_list weights \<and> bisect_right cumulative t = i} =
      {before weights i..<before weights (Suc i)}"
  proof (intro set_eqI)
    fix t
    show "t \<in> {t. 0 \<le> t \<and> t < sum_list weights \<and> bisect_right cumulative t = i} \<longleftrightarrow>
        t \<in> {before weights i..<before weights (Suc i)}"
      using bisect_selects [OF assms(1) _ assms(2), of t] \<open>0 \<le> before weights i\<close>
        \<open>before weights (Suc i) \<le> sum_list weights\<close>
      by (cases "0 \<le> t") auto
  qed
  then show ?thesis using before_Suc [OF assms(2)] by simp
qed

theorem weighted_choice_proportional_witness:
  "card {t. 0 \<le> t \<and> t < sum_list [1, 3, 2] \<and> bisect_right [1, 4, 6] t = 1} = 3"
  using weighted_choice_proportional [of "[1, 3, 2]" "[1, 4, 6]" 1] by simp

text \<open>The lowest accepted attempt is the lowest: the call returns \<open>k\<close> exactly when the
  validator accepts \<open>k\<close>, which is inside the range, and rejects every attempt before it;
  exhaustion means that the validator rejected every attempt of the range.\<close>

theorem lowest_accepted_attempt_spec:
  "(lowest_accepted_attempt r f = Inr k \<longleftrightarrow>
      range_contains r k \<and> f k = Some True \<and> (\<forall>j. 0 \<le> j \<and> j < k \<longrightarrow> f j = Some False)) \<and>
   (lowest_accepted_attempt r f = Inl (AttemptBudgetExhausted m) \<longrightarrow>
      (\<forall>j. range_contains r j \<longrightarrow> f j = Some False))"
  using lowest_from_Inr [of "maximum_attempts r" f 0 k] lowest_from_Inl [of "maximum_attempts r" f 0 m]
  by (auto simp: lowest_accepted_attempt_def range_contains_def)

theorem lowest_accepted_attempt_spec_witness:
  "lowest_accepted_attempt \<lparr>maximum_attempts = 5\<rparr> (\<lambda>i. Some (2 \<le> i)) = Inr 2"
proof -
  have "range_contains \<lparr>maximum_attempts = 5\<rparr> 2" by (simp add: range_contains_def)
  then show ?thesis
    using lowest_accepted_attempt_spec [of "\<lparr>maximum_attempts = 5\<rparr>" "\<lambda>i. Some (2 \<le> i)" 2] by auto
qed

lemma hex_value_digit: "n < 16 \<Longrightarrow> hex_value (hex_digit n) = Some n"
  by (simp add: hex_value_def hex_digit_def Let_def)

lemma unat_byte_less: "unat (b :: byte) < 256"
  using unsigned_less [of b, where 'a = nat] by simp

lemma from_hex_digits_hex: "from_hex_digits (hex bs) = Some bs"
proof (induction bs)
  case (Cons b bs)
  have b: "unat b < 256" by (rule unat_byte_less)
  then have "unat b div 16 < 16" by simp
  moreover have "word_of_nat (16 * (unat b div 16) + unat b mod 16) = b" by simp
  ultimately show ?case using Cons by (simp add: hex_def hex_value_digit)
qed (simp add: hex_def)

lemma hex_digits: "list_all (\<lambda>c. hex_value c \<noteq> None) (hex bs)"
proof (induction bs)
  case (Cons b bs)
  have "unat b div 16 < 16" using unat_byte_less [of b] by simp
  with Cons show ?case by (simp add: hex_def hex_value_digit)
qed (simp add: hex_def)

text \<open>Hexadecimal seeds round trip: the lowercase digits of 32 bytes are accepted and give
  back the seed those bytes give.\<close>

theorem root_seed_hex_roundtrip:
  assumes "length m = ROOT_SEED_BYTES"
  shows "root_seed_from_hex (hex m) p = root_seed m p"
  using assms hex_digits [of m]
  by (simp add: root_seed_from_hex_def is_hex_256_def from_hex_digits_hex ROOT_SEED_BYTES_def)

theorem root_seed_hex_roundtrip_witness:
  "root_seed_from_hex (hex (be_bytes 32 1)) KnownAnswerFixture = root_seed (be_bytes 32 1) KnownAnswerFixture"
  by (rule root_seed_hex_roundtrip) (simp add: ROOT_SEED_BYTES_def)

end
