(* ===== verification/Governance_Canonical.thy ===== *)
theory Governance_Canonical
  imports Canonical_Json
begin

section \<open>Canonical bytes and digests of governance contracts\<close>

text \<open>
  \<^verbatim>\<open>governance/v0_5/canonicalization.py\<close>: normalisation of a JSON value under a
  schema (sorted keys with \<^verbatim>\<open>schema_version\<close> first, sets and multisets sorted by
  their canonical bytes), the canonical bytes and the domain-separated digest. A schema is
  reduced to what the module reads of it: its properties, its item schema and its collection
  kind. SHA-256 is an argument.
\<close>

datatype gov_error = GovernanceContractError string "string option"

datatype schema = Schema (sch_properties: "(string \<times> schema) list") (sch_items: "schema option")
  (sch_kind: "string option")

abbreviation any_schema :: schema where "any_schema \<equiv> Schema [] None None"

definition property_schema :: "schema \<Rightarrow> string \<Rightarrow> schema" where
  "property_schema s k = (case map_of (sch_properties s) k of None \<Rightarrow> any_schema | Some t \<Rightarrow> t)"

definition item_schema :: "schema \<Rightarrow> schema" where
  "item_schema s = (case sch_items s of None \<Rightarrow> any_schema | Some t \<Rightarrow> t)"

text \<open>\<^verbatim>\<open>_ordered_keys\<close>, as the key that sorts the items of an object.\<close>

definition gov_key :: "string \<Rightarrow> nat \<times> byte list" where
  "gov_key k = (if k = ''schema_version'' then 0 else 1, utf8 k)"

definition item_bytes :: "json \<Rightarrow> byte list" where
  "item_bytes j = utf8 (raw j)"

text \<open>The collection rules applied to the normalised items of an array.\<close>

definition order_items :: "string \<Rightarrow> json list \<Rightarrow> gov_error + json list" where
  "order_items kind items =
     (if kind = ''SET'' \<or> kind = ''MULTISET''
      then let keyed = sort_key item_bytes items
        in if kind = ''SET'' \<and> \<not> distinct_adj (map item_bytes keyed)
           then Inl (GovernanceContractError ''DUPLICATE_SET_MEMBER'' None)
           else Inr keyed
      else if kind \<noteq> ''ORDERED_SEQUENCE''
      then Inl (GovernanceContractError ''UNKNOWN_COLLECTION_KIND'' (Some kind))
      else Inr items)"

function gov_normalize :: "json \<Rightarrow> schema \<Rightarrow> gov_error + json" where
  "gov_normalize (JArr xs) s =
     (case map_res (\<lambda>x. gov_normalize x (item_schema s)) xs of
        Inl e \<Rightarrow> Inl e
      | Inr items \<Rightarrow>
        (case order_items
            (case sch_kind s of None \<Rightarrow> ''ORDERED_SEQUENCE'' | Some k \<Rightarrow> k) items of
           Inl e \<Rightarrow> Inl e | Inr ys \<Rightarrow> Inr (JArr ys)))"
| "gov_normalize (JObj ps) s =
     (case map_res (\<lambda>(k, v). case gov_normalize v (property_schema s k) of
          Inl e \<Rightarrow> Inl e | Inr w \<Rightarrow> Inr (k, w)) (sort_key (\<lambda>p. gov_key (fst p)) ps) of
        Inl e \<Rightarrow> Inl e | Inr qs \<Rightarrow> Inr (JObj qs))"
| "gov_normalize JNull s = Inr JNull"
| "gov_normalize (JBool b) s = Inr (JBool b)"
| "gov_normalize (JInt n) s = Inr (JInt n)"
| "gov_normalize (JStr t) s = Inr (JStr t)"
  by pat_completeness auto
termination
proof (relation "measure (\<lambda>(j, _). size j)", goal_cases)
  case (2 xs s x)
  then show ?case by (simp add: less_Suc_eq_le size_list_estimation')
next
  case (3 ps s p k v)
  then have "(k, v) \<in> set ps" by simp
  then have "size v < size_list (size_prod (\<lambda>_. 0) size) ps"
    by (induction ps) auto
  then show ?case by simp
qed simp

definition gov_canonical_bytes :: "json \<Rightarrow> schema \<Rightarrow> gov_error + byte list" where
  "gov_canonical_bytes v s =
     (case gov_normalize v s of
        Inl e \<Rightarrow> Inl e | Inr w \<Rightarrow> Inr (utf8 (raw w @ [CHR 0x0A])))"

text \<open>\<^verbatim>\<open>domain_digest\<close> of an object given by its items.\<close>

definition domain_digest ::
  "(byte list \<Rightarrow> byte list) \<Rightarrow> (string \<times> json) list \<Rightarrow> schema \<Rightarrow> string \<Rightarrow> string \<Rightarrow>
   gov_error + string" where
  "domain_digest sha256 value s digest_field domain_prefix =
     (if digest_field = '''' then Inl (GovernanceContractError ''DIGEST_FIELD_INVALID'' None)
      else if domain_prefix = ''''
      then Inl (GovernanceContractError ''DOMAIN_PREFIX_INVALID'' None)
      else (case gov_canonical_bytes (JObj (filter (\<lambda>p. fst p \<noteq> digest_field) value)) s of
          Inl e \<Rightarrow> Inl e
        | Inr bs \<Rightarrow> Inr (''sha256:'' @ hex (sha256 (utf8 domain_prefix @ bs)))))"

end
