(* ===== verification/Temporal_Contracts.thy ===== *)
theory Temporal_Contracts
  imports Governance_Canonical
begin

section \<open>The contracts of one clock tick\<close>

text \<open>
  The four contract types that \<^verbatim>\<open>governance/v0_5/temporal.py\<close> and
  \<^verbatim>\<open>temporal_store.py\<close> build and read, from \<^verbatim>\<open>contracts.py\<close> and the
  frozen schemas under \<^verbatim>\<open>schemas/v0.5\<close>. A contract is the record of its fields,
  the self-digest included; \<open>contract_items\<close> are the items of its JSON value, \<open>contract_error\<close>
  the validation every construction and every parse performs. The twelve other contract types
  never enter this protocol except through a digest.
\<close>

record ClockClaim =
  cc_attempt_id :: string
  cc_previous_committed_sequence :: int
  cc_previous_completion_digest :: "string option"
  cc_proposed_sequence :: int
  cc_validated_event_digest :: string
  cc_claimant_id :: string
  cc_claim_policy_digest :: string
  cc_digest :: string

record ClockCompletionReceipt =
  cp_clock_sequence :: int
  cp_previous_completion_digest :: "string option"
  cp_clock_claim_digest :: string
  cp_validated_event_digest :: string
  cp_semantic_projection_receipt_digest :: string
  cp_evidence_unit_root :: string
  cp_assumption_root :: string
  cp_alternative_model_root :: string
  cp_disposition_receipt_digest :: string
  cp_quarantine_epoch :: int
  cp_quarantine_marker_digests :: "string list"
  cp_completion_policy_digest :: string
  cp_digest :: string

record ClockProjectionFailure =
  pf_attempt_id :: string
  pf_previous_committed_sequence :: int
  pf_previous_completion_digest :: "string option"
  pf_proposed_sequence :: int
  pf_clock_claim_digest :: string
  pf_validated_event_digest :: string
  pf_failure_phase :: string
  pf_failure_code :: string
  pf_failure_detail_digest :: "string option"
  pf_recorded_against_tick :: int
  pf_digest :: string

record SemanticProjectionReceipt =
  sr_clock_claim_digest :: string
  sr_validated_event_digest :: string
  sr_projection_sequence :: int
  sr_pre_state_digest :: string
  sr_post_state_digest :: string
  sr_semantic_trace_digest :: string
  sr_semantic_policy_digest :: string
  sr_digest :: string

datatype Contract =
    CClaim ClockClaim
  | CCompletion ClockCompletionReceipt
  | CFailure ClockProjectionFailure
  | CSemantic SemanticProjectionReceipt

fun contract_name :: "Contract \<Rightarrow> string" where
  "contract_name (CClaim _) = ''clock-claim''"
| "contract_name (CCompletion _) = ''clock-completion-receipt''"
| "contract_name (CFailure _) = ''clock-projection-failure''"
| "contract_name (CSemantic _) = ''semantic-projection-receipt''"

fun contract_digest :: "Contract \<Rightarrow> string" where
  "contract_digest (CClaim c) = cc_digest c"
| "contract_digest (CCompletion c) = cp_digest c"
| "contract_digest (CFailure c) = pf_digest c"
| "contract_digest (CSemantic c) = sr_digest c"

definition CONTRACT_TYPES :: "string list" where
  "CONTRACT_TYPES = [''raw-event'', ''signature-set'', ''validation-policy'', ''validated-event'',
     ''event-validation-failure'', ''clock-claim'', ''clock-projection-failure'',
     ''semantic-projection-receipt'', ''registry-event'', ''disposition-receipt'',
     ''invalidation-event'', ''quarantine-marker'', ''clock-completion-receipt'',
     ''release-request'', ''promotion-request'', ''release-manifest'']"

subsection \<open>JSON values\<close>

fun json_opt :: "string option \<Rightarrow> json" where
  "json_opt None = JNull"
| "json_opt (Some s) = JStr s"

fun contract_items :: "Contract \<Rightarrow> (string \<times> json) list" where
  "contract_items (CClaim c) =
     [(''schema_version'', JStr ''clock-claim/1''),
      (''attempt_id'', JStr (cc_attempt_id c)),
      (''previous_committed_sequence'', JInt (cc_previous_committed_sequence c)),
      (''previous_completion_digest'', json_opt (cc_previous_completion_digest c)),
      (''proposed_sequence'', JInt (cc_proposed_sequence c)),
      (''validated_event_digest'', JStr (cc_validated_event_digest c)),
      (''claimant_id'', JStr (cc_claimant_id c)),
      (''claim_policy_digest'', JStr (cc_claim_policy_digest c)),
      (''clock_claim_digest'', JStr (cc_digest c))]"
| "contract_items (CCompletion c) =
     [(''schema_version'', JStr ''clock-completion-receipt/1''),
      (''clock_sequence'', JInt (cp_clock_sequence c)),
      (''previous_completion_digest'', json_opt (cp_previous_completion_digest c)),
      (''clock_claim_digest'', JStr (cp_clock_claim_digest c)),
      (''validated_event_digest'', JStr (cp_validated_event_digest c)),
      (''semantic_projection_receipt_digest'', JStr (cp_semantic_projection_receipt_digest c)),
      (''registry_root_digests'', JObj [(''evidence_unit'', JStr (cp_evidence_unit_root c)),
        (''assumption'', JStr (cp_assumption_root c)),
        (''alternative_model'', JStr (cp_alternative_model_root c))]),
      (''disposition_receipt_digest'', JStr (cp_disposition_receipt_digest c)),
      (''quarantine_epoch'', JInt (cp_quarantine_epoch c)),
      (''quarantine_marker_digests'', JArr (map JStr (cp_quarantine_marker_digests c))),
      (''completion_policy_digest'', JStr (cp_completion_policy_digest c)),
      (''clock_completion_receipt_digest'', JStr (cp_digest c))]"
| "contract_items (CFailure c) =
     [(''schema_version'', JStr ''clock-projection-failure/1''),
      (''attempt_id'', JStr (pf_attempt_id c)),
      (''previous_committed_sequence'', JInt (pf_previous_committed_sequence c)),
      (''previous_completion_digest'', json_opt (pf_previous_completion_digest c)),
      (''proposed_sequence'', JInt (pf_proposed_sequence c)),
      (''clock_claim_digest'', JStr (pf_clock_claim_digest c)),
      (''validated_event_digest'', JStr (pf_validated_event_digest c)),
      (''failure_phase'', JStr (pf_failure_phase c)),
      (''failure_code'', JStr (pf_failure_code c)),
      (''failure_detail_digest'', json_opt (pf_failure_detail_digest c)),
      (''recorded_against_tick'', JInt (pf_recorded_against_tick c)),
      (''clock_projection_failure_digest'', JStr (pf_digest c))]"
| "contract_items (CSemantic c) =
     [(''schema_version'', JStr ''semantic-projection-receipt/1''),
      (''clock_claim_digest'', JStr (sr_clock_claim_digest c)),
      (''validated_event_digest'', JStr (sr_validated_event_digest c)),
      (''projection_sequence'', JInt (sr_projection_sequence c)),
      (''pre_state_digest'', JStr (sr_pre_state_digest c)),
      (''post_state_digest'', JStr (sr_post_state_digest c)),
      (''semantic_trace_digest'', JStr (sr_semantic_trace_digest c)),
      (''semantic_policy_digest'', JStr (sr_semantic_policy_digest c)),
      (''projection_result'', JStr ''COMPLETED''),
      (''semantic_projection_receipt_digest'', JStr (sr_digest c))]"

text \<open>The digest field and the domain prefix of the catalog, and what normalisation reads of
  the schema: only the quarantine markers of a completion are a set.\<close>

fun digest_field :: "Contract \<Rightarrow> string" where
  "digest_field (CClaim _) = ''clock_claim_digest''"
| "digest_field (CCompletion _) = ''clock_completion_receipt_digest''"
| "digest_field (CFailure _) = ''clock_projection_failure_digest''"
| "digest_field (CSemantic _) = ''semantic_projection_receipt_digest''"

fun domain_prefix :: "Contract \<Rightarrow> string" where
  "domain_prefix (CClaim _) = ''CLOCK_CLAIM'' @ [CHR 0x00]"
| "domain_prefix (CCompletion _) = ''CLOCK_COMPLETION_RECEIPT'' @ [CHR 0x00]"
| "domain_prefix (CFailure _) = ''CLOCK_PROJECTION_FAILURE'' @ [CHR 0x00]"
| "domain_prefix (CSemantic _) = ''SEMANTIC_PROJECTION_RECEIPT'' @ [CHR 0x00]"

fun contract_schema :: "Contract \<Rightarrow> schema" where
  "contract_schema (CCompletion _) =
     Schema [(''quarantine_marker_digests'', Schema [] None (Some ''SET''))] None None"
| "contract_schema _ = any_schema"

subsection \<open>Validation\<close>

definition is_digest :: "string \<Rightarrow> bool" where
  "is_digest s = (take 7 s = ''sha256:'' \<and> length s = 71 \<and>
     list_all (\<lambda>c. CHR ''0'' \<le> c \<and> c \<le> CHR ''9'' \<or> CHR ''a'' \<le> c \<and> c \<le> CHR ''f'') (drop 7 s))"

definition alnum :: "char \<Rightarrow> bool" where
  "alnum c = (CHR ''A'' \<le> c \<and> c \<le> CHR ''Z'' \<or> CHR ''a'' \<le> c \<and> c \<le> CHR ''z'' \<or>
     CHR ''0'' \<le> c \<and> c \<le> CHR ''9'')"

fun is_path_token :: "string \<Rightarrow> bool" where
  "is_path_token [] = False"
| "is_path_token (c # cs) =
     (alnum c \<and> list_all (\<lambda>d. alnum d \<or> d \<in> set ''._:/-'') cs)"

text \<open>The schema patterns end in \<^verbatim>\<open>$\<close>, which Python's
  \<^verbatim>\<open>re.search\<close> also matches before a final line feed; the path checks of the
  store use \<^verbatim>\<open>fullmatch\<close> and do not.\<close>

definition dollar :: "(string \<Rightarrow> bool) \<Rightarrow> string \<Rightarrow> bool" where
  "dollar p s = (p s \<or> s \<noteq> [] \<and> last s = CHR 0x0A \<and> p (butlast s))"

definition schema_digest :: "string \<Rightarrow> bool" where
  "schema_digest = dollar is_digest"

definition schema_token :: "string \<Rightarrow> bool" where
  "schema_token = dollar is_path_token"

fun opt_digest :: "string option \<Rightarrow> bool" where
  "opt_digest None = True"
| "opt_digest (Some d) = schema_digest d"

definition PROJECTION_PHASES :: "string list" where
  "PROJECTION_PHASES = [''SEMANTIC'', ''EVIDENCE_REGISTRY'', ''ASSUMPTION_REGISTRY'',
     ''ALTERNATIVE_MODEL_REGISTRY'', ''DISPOSITION'', ''QUARANTINE_COMMIT'']"

fun schema_accepts :: "Contract \<Rightarrow> bool" where
  "schema_accepts (CClaim c) =
     (schema_token (cc_attempt_id c) \<and> 0 \<le> cc_previous_committed_sequence c \<and>
      opt_digest (cc_previous_completion_digest c) \<and> 1 \<le> cc_proposed_sequence c \<and>
      schema_digest (cc_validated_event_digest c) \<and> schema_token (cc_claimant_id c) \<and>
      schema_digest (cc_claim_policy_digest c) \<and> schema_digest (cc_digest c))"
| "schema_accepts (CCompletion c) =
     (1 \<le> cp_clock_sequence c \<and> opt_digest (cp_previous_completion_digest c) \<and>
      schema_digest (cp_clock_claim_digest c) \<and> schema_digest (cp_validated_event_digest c) \<and>
      schema_digest (cp_semantic_projection_receipt_digest c) \<and>
      schema_digest (cp_evidence_unit_root c) \<and> schema_digest (cp_assumption_root c) \<and>
      schema_digest (cp_alternative_model_root c) \<and> schema_digest (cp_disposition_receipt_digest c) \<and>
      0 \<le> cp_quarantine_epoch c \<and> list_all schema_digest (cp_quarantine_marker_digests c) \<and>
      schema_digest (cp_completion_policy_digest c) \<and> schema_digest (cp_digest c))"
| "schema_accepts (CFailure c) =
     (schema_token (pf_attempt_id c) \<and> 0 \<le> pf_previous_committed_sequence c \<and>
      opt_digest (pf_previous_completion_digest c) \<and> 1 \<le> pf_proposed_sequence c \<and>
      schema_digest (pf_clock_claim_digest c) \<and> schema_digest (pf_validated_event_digest c) \<and>
      pf_failure_phase c \<in> set PROJECTION_PHASES \<and> schema_token (pf_failure_code c) \<and>
      opt_digest (pf_failure_detail_digest c) \<and> 0 \<le> pf_recorded_against_tick c \<and>
      schema_digest (pf_digest c))"
| "schema_accepts (CSemantic c) =
     (schema_digest (sr_clock_claim_digest c) \<and> schema_digest (sr_validated_event_digest c) \<and>
      1 \<le> sr_projection_sequence c \<and> schema_digest (sr_pre_state_digest c) \<and>
      schema_digest (sr_post_state_digest c) \<and> schema_digest (sr_semantic_trace_digest c) \<and>
      schema_digest (sr_semantic_policy_digest c) \<and> schema_digest (sr_digest c))"

fun semantic_error :: "Contract \<Rightarrow> gov_error option" where
  "semantic_error (CClaim c) =
     (if cc_proposed_sequence c \<noteq> cc_previous_committed_sequence c + 1
      then Some (GovernanceContractError ''CLOCK_SEQUENCE_NOT_SUCCESSOR'' None) else None)"
| "semantic_error (CFailure c) =
     (if pf_proposed_sequence c \<noteq> pf_previous_committed_sequence c + 1
      then Some (GovernanceContractError ''CLOCK_SEQUENCE_NOT_SUCCESSOR'' None)
      else if pf_recorded_against_tick c \<noteq> pf_previous_committed_sequence c
      then Some (GovernanceContractError ''FAILURE_CONTEXT_TICK_MISMATCH'' None) else None)"
| "semantic_error _ = None"

definition expected_digest :: "(byte list \<Rightarrow> byte list) \<Rightarrow> Contract \<Rightarrow> gov_error + string" where
  "expected_digest sha256 c =
     domain_digest sha256 (contract_items c) (contract_schema c) (digest_field c) (domain_prefix c)"

text \<open>\<^verbatim>\<open>ContractObject.__post_init__\<close>.\<close>

definition contract_error :: "(byte list \<Rightarrow> byte list) \<Rightarrow> Contract \<Rightarrow> gov_error option" where
  "contract_error sha256 c =
     (if \<not> schema_accepts c then Some (GovernanceContractError ''SCHEMA_REJECTED'' None)
      else case semantic_error c of
        Some e \<Rightarrow> Some e
      | None \<Rightarrow>
          (case expected_digest sha256 c of
             Inl e \<Rightarrow> Some e
           | Inr d \<Rightarrow> if contract_digest c \<noteq> d
               then Some (GovernanceContractError ''DIGEST_MISMATCH'' (Some (digest_field c)))
               else None))"

text \<open>\<^verbatim>\<open>build\<close>: the digest is computed over the unsigned fields and put in.\<close>

fun with_digest :: "string \<Rightarrow> Contract \<Rightarrow> Contract" where
  "with_digest d (CClaim c) = CClaim (c\<lparr>cc_digest := d\<rparr>)"
| "with_digest d (CCompletion c) = CCompletion (c\<lparr>cp_digest := d\<rparr>)"
| "with_digest d (CFailure c) = CFailure (c\<lparr>pf_digest := d\<rparr>)"
| "with_digest d (CSemantic c) = CSemantic (c\<lparr>sr_digest := d\<rparr>)"

definition build_contract ::
  "(byte list \<Rightarrow> byte list) \<Rightarrow> Contract \<Rightarrow> gov_error + Contract" where
  "build_contract sha256 c =
     (case expected_digest sha256 c of
        Inl e \<Rightarrow> Inl e
      | Inr d \<Rightarrow> (case contract_error sha256 (with_digest d c) of
          Some e \<Rightarrow> Inl e | None \<Rightarrow> Inr (with_digest d c)))"

text \<open>The canonical form of a contract: what its canonical bytes determine. Only the order of
  the quarantine markers is lost.\<close>

fun canonical_contract :: "Contract \<Rightarrow> Contract" where
  "canonical_contract (CCompletion c) = CCompletion (c\<lparr>cp_quarantine_marker_digests :=
     sort_key (\<lambda>m. item_bytes (JStr m)) (cp_quarantine_marker_digests c)\<rparr>)"
| "canonical_contract c = c"

definition contract_bytes :: "Contract \<Rightarrow> gov_error + byte list" where
  "contract_bytes c = gov_canonical_bytes (JObj (contract_items c)) (contract_schema c)"

end
