(* ===== verification/Temporal_Store.thy ===== *)
theory Temporal_Store
  imports Temporal_Contracts Effects
begin

section \<open>The temporal store\<close>

text \<open>
  \<^verbatim>\<open>governance/v0_5/temporal_store.py\<close> with the data types of
  \<^verbatim>\<open>temporal.py\<close> it uses. The store directory is a record: immutable objects by
  contract name and digest, immutable attempt files by attempt directory and file name, the head
  file and the active-claim file. A file is the value its bytes spell out (a contract, a head, an
  active pointer, a projection bundle) or bytes that spell none of these; two files have the same
  bytes when they have the same value, which the injectivity of the JSON text justifies. Each
  operation is a function on the store that keeps what was written before an exception. The
  advisory lock makes the bodies marked as locked atomic.
\<close>

subsection \<open>Exceptions and data\<close>

datatype terr =
    TemporalProtocolError string
  | TemporalClaimRejected string
  | TemporalProjectionError string string "string option"
  | TemporalStoreError string
  | TemporalStoreConflictError string
  | ContractFault gov_error
  | OtherException string string

record TemporalHead =
  th_clock_sequence :: int
  th_completion_digest :: "string option"

definition temporal_head :: "int \<Rightarrow> string option \<Rightarrow> terr + TemporalHead" where
  "temporal_head n d =
     (if n < 0 then Inl (TemporalProtocolError ''clock sequence must be a nonnegative integer'')
      else if n = 0 \<and> d \<noteq> None
      then Inl (TemporalProtocolError ''genesis head cannot cite a completion'')
      else if n > 0 \<and> d = None
      then Inl (TemporalProtocolError ''non-genesis head must cite a completion'')
      else Inr \<lparr>th_clock_sequence = n, th_completion_digest = d\<rparr>)"

record ClaimInstallResult =
  ci_claim :: ClockClaim
  ci_acquired :: bool
  ci_reason :: string

record ProjectionArtifacts =
  pa_evidence_unit_root_digest :: string
  pa_assumption_root_digest :: string
  pa_alternative_model_root_digest :: string
  pa_disposition_receipt_digest :: string
  pa_quarantine_epoch :: int
  pa_quarantine_marker_digests :: "string list"
  pa_observed_phase_order :: "string list"
  pa_release_compilation_invocations :: int

text \<open>The projection bundle file, field by field.\<close>

record ProjectionBundle =
  pb_clock_claim_digest :: string
  pb_semantic_projection_receipt_digest :: string
  pb_evidence_unit :: string
  pb_assumption :: string
  pb_alternative_model :: string
  pb_disposition_receipt_digest :: string
  pb_quarantine_epoch :: int
  pb_quarantine_marker_digests :: "string list"
  pb_observed_phase_order :: "string list"
  pb_release_compilation_invocations :: int
  pb_digest :: string

datatype FileContent =
    FContract Contract
  | FHead int "string option"
  | FActive string
  | FBundle ProjectionBundle
  | FBytes "byte list"

record TemporalFiles =
  ts_objects :: "string \<times> string \<Rightarrow> FileContent option"
  ts_attempts :: "string \<times> string \<Rightarrow> FileContent option"
  ts_head :: "FileContent option"
  ts_active :: "FileContent option"

type_synonym 'a tstore = "(TemporalFiles, terr, 'a) op"

type_synonym hash = "byte list \<Rightarrow> byte list"

abbreviation conflict :: "string \<Rightarrow> terr" where
  "conflict \<equiv> TemporalStoreConflictError"

abbreviation require :: "bool \<Rightarrow> terr \<Rightarrow> terr + unit" where
  "require b e \<equiv> (if b then Inr () else Inl e)"

subsection \<open>Paths and files\<close>

definition token_check :: "string \<Rightarrow> terr + unit" where
  "token_check s = require (is_path_token s) (TemporalStoreError ''attempt path token is invalid'')"

definition object_path :: "string \<Rightarrow> string \<Rightarrow> terr + string \<times> string" where
  "object_path name digest =
     (if name \<notin> set CONTRACT_TYPES then Inl (TemporalStoreError ''unknown contract name'')
      else if \<not> is_digest digest
      then Inl (TemporalStoreError ''identity must be a canonical sha256 digest'')
      else Inr (name, digest))"

definition attempt_directory :: "hash \<Rightarrow> string \<Rightarrow> terr + string" where
  "attempt_directory sha256 attempt_id =
     (if is_path_token attempt_id
      then Inr (hex (sha256 (utf8 (''TEMPORAL_ATTEMPT_PATH'' @ [CHR 0x00] @ attempt_id))))
      else Inl (TemporalStoreError ''attempt path token is invalid''))"

text \<open>\<^verbatim>\<open>_install\<close>: link a file at a path that must not hold other bytes.\<close>

definition install_object :: "string \<times> string \<Rightarrow> FileContent \<Rightarrow> unit tstore" where
  "install_object path payload = (\<lambda>s. case ts_objects s path of
       Some old \<Rightarrow> (require (old = payload)
         (conflict ''immutable path contains different bytes''), s)
     | None \<Rightarrow> (Inr (), s\<lparr>ts_objects := (ts_objects s)(path \<mapsto> payload)\<rparr>))"

definition install_attempt :: "string \<times> string \<Rightarrow> FileContent \<Rightarrow> unit tstore" where
  "install_attempt path payload = (\<lambda>s. case ts_attempts s path of
       Some old \<Rightarrow> (require (old = payload)
         (conflict ''immutable path contains different bytes''), s)
     | None \<Rightarrow> (Inr (), s\<lparr>ts_attempts := (ts_attempts s)(path \<mapsto> payload)\<rparr>))"

definition missing_file :: terr where
  "missing_file = OtherException ''FileNotFoundError'' ''No such file or directory''"

definition read_attempt :: "string \<times> string \<Rightarrow> FileContent tstore" where
  "read_attempt path = read_op (\<lambda>s. case ts_attempts s path of
       None \<Rightarrow> Inl missing_file | Some f \<Rightarrow> Inr f)"

subsection \<open>Parsing\<close>

text \<open>\<^verbatim>\<open>_parse_contract\<close>: the JSON is read, validated as a contract of the given
  name (the \<^verbatim>\<open>schema_version\<close> constant rejects any other) and its canonical bytes
  compared with the file.\<close>

definition parse_contract_file :: "hash \<Rightarrow> string \<Rightarrow> FileContent \<Rightarrow> terr + Contract" where
  "parse_contract_file sha256 name payload =
     (case payload of
        FContract c \<Rightarrow>
          if contract_name c \<noteq> name \<or> contract_error sha256 c \<noteq> None
          then Inl (conflict ''stored contract fails validation'')
          else if canonical_contract c \<noteq> c
          then Inl (conflict ''stored contract bytes are not canonical'')
          else Inr c
      | FBytes _ \<Rightarrow> Inl (conflict ''stored contract bytes are invalid'')
      | _ \<Rightarrow> Inl (conflict ''stored contract fails validation''))"

definition parse_head :: "FileContent \<Rightarrow> terr + TemporalHead" where
  "parse_head payload =
     (case payload of
        FHead n d \<Rightarrow> temporal_head n d
      | FBytes _ \<Rightarrow> Inl (conflict ''temporal head bytes are invalid'')
      | _ \<Rightarrow> Inl (conflict ''temporal head schema is invalid''))"

definition head_file :: "TemporalHead \<Rightarrow> FileContent" where
  "head_file h = FHead (th_clock_sequence h) (th_completion_digest h)"

text \<open>The \<^verbatim>\<open>clock_claim_digest\<close> field of whatever object the active file
  holds; a value that is not a string is rejected like a bad digest.\<close>

fun claim_digest_field :: "FileContent \<Rightarrow> terr + string" where
  "claim_digest_field (FActive d) = Inr d"
| "claim_digest_field (FContract c) =
     (case map_of (contract_items c) ''clock_claim_digest'' of
        Some (JStr d) \<Rightarrow> Inr d
      | _ \<Rightarrow> Inl (TemporalStoreError ''identity must be a canonical sha256 digest''))"
| "claim_digest_field (FBundle b) = Inr (pb_clock_claim_digest b)"
| "claim_digest_field (FHead n d) =
     Inl (TemporalStoreError ''identity must be a canonical sha256 digest'')"
| "claim_digest_field (FBytes _) = Inl (conflict ''active claim bytes are invalid'')"

subsection \<open>Contracts\<close>

definition put_contract :: "Contract \<Rightarrow> unit tstore" where
  "put_contract c = seq_op (lift_res (object_path (contract_name c) (contract_digest c)))
     (\<lambda>path. install_object path (FContract (canonical_contract c)))"

definition lookup_contract ::
  "hash \<Rightarrow> string \<Rightarrow> string \<Rightarrow> TemporalFiles \<Rightarrow> terr + Contract option" where
  "lookup_contract sha256 name digest s =
     (case object_path name digest of
        Inl e \<Rightarrow> Inl e
      | Inr path \<Rightarrow> (case ts_objects s path of
          None \<Rightarrow> Inr None
        | Some payload \<Rightarrow> (case parse_contract_file sha256 name payload of
            Inl e \<Rightarrow> Inl e
          | Inr c \<Rightarrow> if contract_digest c \<noteq> digest
              then Inl (conflict ''stored contract identity path is invalid'')
              else Inr (Some c))))"

definition get_contract :: "hash \<Rightarrow> string \<Rightarrow> string \<Rightarrow> Contract option tstore" where
  "get_contract sha256 name digest = read_op (lookup_contract sha256 name digest)"

definition record_attempt_artifact ::
  "hash \<Rightarrow> string \<Rightarrow> string \<Rightarrow> Contract \<Rightarrow> unit tstore" where
  "record_attempt_artifact sha256 attempt_id artifact_name c =
     seq_op (lift_res (token_check attempt_id)) (\<lambda>_.
     seq_op (lift_res (token_check artifact_name)) (\<lambda>_.
     seq_op (put_contract c) (\<lambda>_.
     seq_op (lift_res (attempt_directory sha256 attempt_id)) (\<lambda>dir.
     install_attempt (dir, artifact_name @ ''.json'') (FContract (canonical_contract c))))))"

definition claim_attempt :: "ClockClaim \<Rightarrow> terr + string" where
  "claim_attempt claim = (case token_check (cc_attempt_id claim) of
     Inl e \<Rightarrow> Inl e | Inr _ \<Rightarrow> Inr (cc_attempt_id claim))"

definition claim_directory :: "hash \<Rightarrow> ClockClaim \<Rightarrow> terr + string" where
  "claim_directory sha256 claim = (case claim_attempt claim of
     Inl e \<Rightarrow> Inl e | Inr a \<Rightarrow> attempt_directory sha256 a)"

subsection \<open>The projection bundle\<close>

definition bundle_items :: "ProjectionBundle \<Rightarrow> (string \<times> json) list" where
  "bundle_items b =
     [(''schema_version'', JStr ''temporal-projection-bundle/1''),
      (''clock_claim_digest'', JStr (pb_clock_claim_digest b)),
      (''semantic_projection_receipt_digest'', JStr (pb_semantic_projection_receipt_digest b)),
      (''registry_root_digests'', JObj [(''evidence_unit'', JStr (pb_evidence_unit b)),
        (''assumption'', JStr (pb_assumption b)),
        (''alternative_model'', JStr (pb_alternative_model b))]),
      (''disposition_receipt_digest'', JStr (pb_disposition_receipt_digest b)),
      (''quarantine_epoch'', JInt (pb_quarantine_epoch b)),
      (''quarantine_marker_digests'', JArr (map JStr (pb_quarantine_marker_digests b))),
      (''observed_phase_order'', JArr (map JStr (pb_observed_phase_order b))),
      (''release_compilation_invocations'', JInt (pb_release_compilation_invocations b))]"

text \<open>\<^verbatim>\<open>_json_bytes\<close> escapes every character above ASCII.\<close>

definition ascii_char :: "char \<Rightarrow> string" where
  "ascii_char c = (let n = of_char c :: nat in
     if n < 127 then [c]
     else [CHR 0x5C, CHR ''u'', CHR ''0'', CHR ''0'', hex_digit (n div 16), hex_digit (n mod 16)])"

definition ascii_json_bytes :: "json \<Rightarrow> byte list" where
  "ascii_json_bytes j = utf8 (concat (map ascii_char (raw j)) @ [CHR 0x0A])"

definition bundle_digest :: "hash \<Rightarrow> ProjectionBundle \<Rightarrow> string" where
  "bundle_digest sha256 b = ''sha256:'' @ hex (sha256
     (utf8 (''TEMPORAL_PROJECTION_BUNDLE'' @ [CHR 0x00]) @ ascii_json_bytes (JObj (bundle_items b))))"

definition projection_bundle ::
  "hash \<Rightarrow> ClockClaim \<Rightarrow> SemanticProjectionReceipt \<Rightarrow> ProjectionArtifacts \<Rightarrow> ProjectionBundle"
where
  "projection_bundle sha256 claim semantic a =
     (let b = \<lparr>pb_clock_claim_digest = cc_digest claim,
        pb_semantic_projection_receipt_digest = sr_digest semantic,
        pb_evidence_unit = pa_evidence_unit_root_digest a,
        pb_assumption = pa_assumption_root_digest a,
        pb_alternative_model = pa_alternative_model_root_digest a,
        pb_disposition_receipt_digest = pa_disposition_receipt_digest a,
        pb_quarantine_epoch = pa_quarantine_epoch a,
        pb_quarantine_marker_digests = sort (pa_quarantine_marker_digests a),
        pb_observed_phase_order = pa_observed_phase_order a,
        pb_release_compilation_invocations = pa_release_compilation_invocations a,
        pb_digest = ''''\<rparr>
      in b\<lparr>pb_digest := bundle_digest sha256 b\<rparr>)"

definition STORE_PHASES :: "string list" where
  "STORE_PHASES = [''EVIDENCE_REGISTRY'', ''ASSUMPTION_REGISTRY'',
     ''ALTERNATIVE_MODEL_REGISTRY'', ''DISPOSITION'', ''QUARANTINE_COMMIT'']"

definition bundle_matches :: "ProjectionBundle \<Rightarrow> ClockClaim \<Rightarrow> ClockCompletionReceipt \<Rightarrow> bool" where
  "bundle_matches b claim completion =
     (pb_clock_claim_digest b = cc_digest claim \<and>
      pb_semantic_projection_receipt_digest b = cp_semantic_projection_receipt_digest completion \<and>
      pb_evidence_unit b = cp_evidence_unit_root completion \<and>
      pb_assumption b = cp_assumption_root completion \<and>
      pb_alternative_model b = cp_alternative_model_root completion \<and>
      pb_disposition_receipt_digest b = cp_disposition_receipt_digest completion \<and>
      pb_quarantine_epoch b = cp_quarantine_epoch completion \<and>
      pb_quarantine_marker_digests b = sort (cp_quarantine_marker_digests completion) \<and>
      pb_observed_phase_order b = STORE_PHASES \<and>
      pb_release_compilation_invocations b = 0)"

definition verify_projection_bundle ::
  "hash \<Rightarrow> FileContent \<Rightarrow> ClockClaim \<Rightarrow> ClockCompletionReceipt \<Rightarrow> terr + unit" where
  "verify_projection_bundle sha256 payload claim completion =
     (case payload of
        FBundle b \<Rightarrow>
          if pb_digest b \<noteq> bundle_digest sha256 b
          then Inl (conflict ''projection bundle digest is invalid'')
          else require (bundle_matches b claim completion)
            (conflict ''projection bundle does not match completion'')
      | FBytes _ \<Rightarrow> Inl (conflict ''projection bundle bytes are invalid'')
      | _ \<Rightarrow> Inl (conflict ''projection bundle digest is invalid''))"

definition record_projection_artifacts ::
  "hash \<Rightarrow> ClockClaim \<Rightarrow> SemanticProjectionReceipt \<Rightarrow> ProjectionArtifacts \<Rightarrow> unit tstore" where
  "record_projection_artifacts sha256 claim semantic artifacts =
     seq_op (lift_res (claim_directory sha256 claim)) (\<lambda>dir.
     install_attempt (dir, ''projection-bundle.json'')
       (FBundle (projection_bundle sha256 claim semantic artifacts)))"

subsection \<open>Checks between claim, failure and completion\<close>

definition verify_claim :: "TemporalHead \<Rightarrow> ClockClaim \<Rightarrow> terr + unit" where
  "verify_claim head claim =
     (if cc_previous_committed_sequence claim \<noteq> th_clock_sequence head \<or>
         cc_previous_completion_digest claim \<noteq> th_completion_digest head \<or>
         cc_proposed_sequence claim \<noteq> th_clock_sequence head + 1
      then Inl (conflict ''claim does not match its expected predecessor'') else Inr ())"

definition verify_failure :: "ClockClaim \<Rightarrow> ClockProjectionFailure \<Rightarrow> terr + unit" where
  "verify_failure claim failure =
     (if pf_attempt_id failure \<noteq> cc_attempt_id claim \<or>
         pf_previous_committed_sequence failure \<noteq> cc_previous_committed_sequence claim \<or>
         pf_previous_completion_digest failure \<noteq> cc_previous_completion_digest claim \<or>
         pf_proposed_sequence failure \<noteq> cc_proposed_sequence claim \<or>
         pf_validated_event_digest failure \<noteq> cc_validated_event_digest claim
      then Inl (conflict ''failure receipt does not match its claim'')
      else if pf_clock_claim_digest failure \<noteq> cc_digest claim
      then Inl (conflict ''failure receipt cites a different claim'') else Inr ())"

definition verify_completion :: "ClockClaim \<Rightarrow> ClockCompletionReceipt \<Rightarrow> terr + unit" where
  "verify_completion claim completion =
     (if cp_clock_claim_digest completion \<noteq> cc_digest claim \<or>
         cp_validated_event_digest completion \<noteq> cc_validated_event_digest claim \<or>
         cp_clock_sequence completion \<noteq> cc_proposed_sequence claim \<or>
         cp_previous_completion_digest completion \<noteq> cc_previous_completion_digest claim
      then Inl (conflict ''completion does not match its claim'') else Inr ())"

definition contract_res :: "gov_error + 'a \<Rightarrow> terr + 'a" where
  "contract_res r = (case r of Inl e \<Rightarrow> Inl (ContractFault e) | Inr a \<Rightarrow> Inr a)"

definition recovery_failure :: "hash \<Rightarrow> ClockClaim \<Rightarrow> terr + Contract" where
  "recovery_failure sha256 claim = contract_res (build_contract sha256 (CFailure
     \<lparr>pf_attempt_id = cc_attempt_id claim,
      pf_previous_committed_sequence = cc_previous_committed_sequence claim,
      pf_previous_completion_digest = cc_previous_completion_digest claim,
      pf_proposed_sequence = cc_proposed_sequence claim,
      pf_clock_claim_digest = cc_digest claim,
      pf_validated_event_digest = cc_validated_event_digest claim,
      pf_failure_phase = ''SEMANTIC'',
      pf_failure_code = ''RECOVERY_INCOMPLETE_ATTEMPT'',
      pf_failure_detail_digest = None,
      pf_recorded_against_tick = cc_previous_committed_sequence claim,
      pf_digest = ''''\<rparr>))"

subsection \<open>Head and active claim\<close>

definition head_of :: "TemporalFiles \<Rightarrow> terr + TemporalHead" where
  "head_of s = (case ts_head s of None \<Rightarrow> Inl missing_file | Some f \<Rightarrow> parse_head f)"

definition read_head :: "TemporalHead tstore" where
  "read_head = read_op head_of"

definition active_of :: "hash \<Rightarrow> TemporalFiles \<Rightarrow> terr + ClockClaim option" where
  "active_of sha256 s =
     (case ts_active s of
        None \<Rightarrow> Inr None
      | Some payload \<Rightarrow> (case claim_digest_field payload of
          Inl e \<Rightarrow> Inl e
        | Inr digest \<Rightarrow> (case lookup_contract sha256 ''clock-claim'' digest s of
            Inl e \<Rightarrow> Inl e
          | Inr (Some (CClaim c)) \<Rightarrow> Inr (Some c)
          | Inr _ \<Rightarrow> Inl (conflict ''active claim object is unavailable''))))"

definition read_active :: "hash \<Rightarrow> ClockClaim option tstore" where
  "read_active sha256 = read_op (active_of sha256)"

definition clear_active :: "unit tstore" where
  "clear_active = write_op (\<lambda>s. s\<lparr>ts_active := None\<rparr>)"

definition replace_active :: "ClockClaim \<Rightarrow> unit tstore" where
  "replace_active claim = write_op (\<lambda>s. s\<lparr>ts_active := Some (FActive (cc_digest claim))\<rparr>)"

definition replace_head :: "TemporalHead \<Rightarrow> unit tstore" where
  "replace_head h = write_op (\<lambda>s. s\<lparr>ts_head := Some (head_file h)\<rparr>)"

text \<open>\<^verbatim>\<open>FilesystemTemporalStore.__init__\<close> on a directory.\<close>

definition open_store :: "TemporalFiles \<Rightarrow> TemporalFiles" where
  "open_store s = (case ts_head s of
     None \<Rightarrow> s\<lparr>ts_head := Some (FHead 0 None)\<rparr> | Some _ \<Rightarrow> s)"

definition empty_directory :: TemporalFiles where
  "empty_directory = \<lparr>ts_objects = Map.empty, ts_attempts = Map.empty,
     ts_head = None, ts_active = None\<rparr>"

subsection \<open>Claims, failures and completions\<close>

definition claim_locked ::
  "hash \<Rightarrow> TemporalHead \<Rightarrow> ClockClaim \<Rightarrow> ClaimInstallResult tstore" where
  "claim_locked sha256 expected_head claim =
     seq_op read_head (\<lambda>head.
     if head \<noteq> expected_head
     then ret \<lparr>ci_claim = claim, ci_acquired = False, ci_reason = ''STALE_EXPECTED_HEAD''\<rparr>
     else seq_op (read_active sha256) (\<lambda>active.
     case active of
       Some c \<Rightarrow>
         if cc_digest c = cc_digest claim
         then ret \<lparr>ci_claim = claim, ci_acquired = True, ci_reason = ''IDEMPOTENT_ACTIVE_CLAIM''\<rparr>
         else ret \<lparr>ci_claim = claim, ci_acquired = False, ci_reason = ''ACTIVE_SUCCESSOR_EXISTS''\<rparr>
     | None \<Rightarrow> seq_op (replace_active claim) (\<lambda>_.
         ret \<lparr>ci_claim = claim, ci_acquired = True, ci_reason = ''CLAIM_ACQUIRED''\<rparr>)))"

definition claim_successor ::
  "hash \<Rightarrow> TemporalHead \<Rightarrow> ClockClaim \<Rightarrow> ClaimInstallResult tstore" where
  "claim_successor sha256 expected_head claim =
     seq_op (lift_res (verify_claim expected_head claim)) (\<lambda>_.
     seq_op (lift_res (claim_attempt claim)) (\<lambda>attempt.
     seq_op (record_attempt_artifact sha256 attempt ''claim'' (CClaim claim)) (\<lambda>_.
     claim_locked sha256 expected_head claim)))"

text \<open>\<^verbatim>\<open>active is None or active.digest != claim.digest\<close>.\<close>

definition owns :: "ClockClaim option \<Rightarrow> ClockClaim \<Rightarrow> bool" where
  "owns active claim = (case active of None \<Rightarrow> False | Some c \<Rightarrow> cc_digest c = cc_digest claim)"

definition failure_locked :: "hash \<Rightarrow> ClockClaim \<Rightarrow> unit tstore" where
  "failure_locked sha256 claim =
     seq_op (read_active sha256) (\<lambda>active.
     if \<not> owns active claim
     then raise_op (conflict ''failure does not own the active claim'')
     else clear_active)"

definition record_failure :: "hash \<Rightarrow> ClockClaim \<Rightarrow> ClockProjectionFailure \<Rightarrow> unit tstore" where
  "record_failure sha256 claim failure =
     seq_op (lift_res (verify_failure claim failure)) (\<lambda>_.
     seq_op (lift_res (claim_attempt claim)) (\<lambda>attempt.
     seq_op (record_attempt_artifact sha256 attempt ''failure'' (CFailure failure)) (\<lambda>_.
     failure_locked sha256 claim)))"

text \<open>The semantic receipt a completion cites must be in the store and be the attempt's.\<close>

definition check_semantic ::
  "hash \<Rightarrow> string \<Rightarrow> ClockCompletionReceipt \<Rightarrow> string \<Rightarrow> unit tstore" where
  "check_semantic sha256 dir completion message =
     seq_op (get_contract sha256 ''semantic-projection-receipt''
       (cp_semantic_projection_receipt_digest completion)) (\<lambda>semantic.
     case semantic of
       None \<Rightarrow> raise_op (conflict message)
     | Some c \<Rightarrow> seq_op (read_attempt (dir, ''semantic.json'')) (\<lambda>payload.
         lift_res (require (payload = FContract (canonical_contract c)) (conflict message))))"

definition prepare_completion ::
  "hash \<Rightarrow> ClockClaim \<Rightarrow> ClockCompletionReceipt \<Rightarrow> unit tstore" where
  "prepare_completion sha256 claim completion =
     seq_op (lift_res (verify_completion claim completion)) (\<lambda>_.
     seq_op (lift_res (claim_attempt claim)) (\<lambda>attempt.
     seq_op (lift_res (attempt_directory sha256 attempt)) (\<lambda>dir.
     seq_op (read_op (\<lambda>s. require (ts_attempts s (dir, ''projection-bundle.json'') \<noteq> None \<and>
         ts_attempts s (dir, ''semantic.json'') \<noteq> None)
       (conflict ''completion dependencies are incomplete''))) (\<lambda>_.
     seq_op (read_attempt (dir, ''projection-bundle.json'')) (\<lambda>payload.
     seq_op (lift_res (verify_projection_bundle sha256 payload claim completion)) (\<lambda>_.
     seq_op (check_semantic sha256 dir completion
       ''completion semantic receipt is unavailable'') (\<lambda>_.
     record_attempt_artifact sha256 attempt ''completion'' (CCompletion completion))))))))"

text \<open>\<^verbatim>\<open>_publish\<close>, under the lock.\<close>

definition publish ::
  "hash \<Rightarrow> TemporalHead \<Rightarrow> ClockClaim \<Rightarrow> ClockCompletionReceipt \<Rightarrow> TemporalHead tstore" where
  "publish sha256 expected_head claim completion =
     seq_op read_head (\<lambda>current.
     if th_clock_sequence current = cp_clock_sequence completion then
       (if th_completion_digest current \<noteq> Some (cp_digest completion)
        then raise_op (conflict ''clock sequence already committed with different bytes'')
        else seq_op clear_active (\<lambda>_. ret current))
     else if current \<noteq> expected_head
     then raise_op (conflict ''committed head changed before publication'')
     else seq_op (read_active sha256) (\<lambda>active.
       if \<not> owns active claim
       then raise_op (conflict ''completion does not own the active claim'')
       else seq_op (lift_res (temporal_head (cp_clock_sequence completion)
           (Some (cp_digest completion)))) (\<lambda>new_head.
         seq_op (replace_head new_head) (\<lambda>_.
         seq_op clear_active (\<lambda>_. ret new_head)))))"

definition publish_completion ::
  "hash \<Rightarrow> TemporalHead \<Rightarrow> ClockClaim \<Rightarrow> ClockCompletionReceipt \<Rightarrow> TemporalHead tstore" where
  "publish_completion sha256 expected_head claim completion =
     seq_op (prepare_completion sha256 claim completion) (\<lambda>_.
     publish sha256 expected_head claim completion)"

subsection \<open>Reading the committed chain\<close>

definition completion_object :: "hash \<Rightarrow> string \<Rightarrow> TemporalFiles \<Rightarrow> terr + ClockCompletionReceipt option"
where
  "completion_object sha256 digest s =
     (case lookup_contract sha256 ''clock-completion-receipt'' digest s of
        Inl e \<Rightarrow> Inl e
      | Inr (Some (CCompletion c)) \<Rightarrow> Inr (Some c)
      | Inr _ \<Rightarrow> Inr None)"

definition snapshot_of :: "hash \<Rightarrow> TemporalFiles \<Rightarrow> terr + ClockCompletionReceipt option" where
  "snapshot_of sha256 s =
     (case head_of s of
        Inl e \<Rightarrow> Inl e
      | Inr head \<Rightarrow> (case th_completion_digest head of
          None \<Rightarrow> Inr None
        | Some digest \<Rightarrow> (case completion_object sha256 digest s of
            Inl e \<Rightarrow> Inl e
          | Inr None \<Rightarrow> Inl (conflict ''committed completion is unavailable'')
          | Inr (Some c) \<Rightarrow> Inr (Some c))))"

definition current_snapshot :: "hash \<Rightarrow> ClockCompletionReceipt option tstore" where
  "current_snapshot sha256 = read_op (snapshot_of sha256)"

lemma lookup_contract_valid:
  "lookup_contract sha256 name digest s = Inr (Some c) \<Longrightarrow>
     contract_name c = name \<and> contract_digest c = digest \<and> contract_error sha256 c = None \<and>
     canonical_contract c = c \<and> is_digest digest \<and> name \<in> set CONTRACT_TYPES \<and>
     ts_objects s (name, digest) = Some (FContract c)"
  by (auto simp: lookup_contract_def object_path_def parse_contract_file_def
      split: sum.splits option.splits FileContent.splits if_splits)

lemma completion_object_positive:
  "completion_object sha256 digest s = Inr (Some c) \<Longrightarrow> 1 \<le> cp_clock_sequence c"
  by (auto simp: completion_object_def contract_error_def dest!: lookup_contract_valid
      split: sum.splits option.splits Contract.splits if_splits)

text \<open>The loop of \<^verbatim>\<open>reconstruct_chain\<close>, the receipts found so far in \<open>acc\<close>
  with the earliest first. It ends because a valid receipt has a positive sequence.\<close>

function chain_loop ::
  "hash \<Rightarrow> TemporalFiles \<Rightarrow> string option \<Rightarrow> int \<Rightarrow> ClockCompletionReceipt list \<Rightarrow>
   terr + ClockCompletionReceipt list" where
  "chain_loop sha256 s None expected acc =
     (if expected \<noteq> 0 then Inl (conflict ''completion chain does not terminate at genesis'')
      else Inr acc)"
| "chain_loop sha256 s (Some digest) expected acc =
     (case completion_object sha256 digest s of
        Inl e \<Rightarrow> Inl e
      | Inr None \<Rightarrow> Inl (conflict ''completion chain object is unavailable'')
      | Inr (Some c) \<Rightarrow>
          if cp_clock_sequence c \<noteq> expected
          then Inl (conflict ''completion chain is discontinuous'')
          else chain_loop sha256 s (cp_previous_completion_digest c) (expected - 1) (c # acc))"
  by pat_completeness auto
termination
  by (relation "measure (\<lambda>(_, _, _, expected, _). nat expected)")
    (auto dest: completion_object_positive)

definition chain_of :: "hash \<Rightarrow> TemporalFiles \<Rightarrow> terr + ClockCompletionReceipt list" where
  "chain_of sha256 s =
     (case head_of s of
        Inl e \<Rightarrow> Inl e
      | Inr head \<Rightarrow>
          chain_loop sha256 s (th_completion_digest head) (th_clock_sequence head) [])"

definition reconstruct_chain :: "hash \<Rightarrow> ClockCompletionReceipt list tstore" where
  "reconstruct_chain sha256 = read_op (chain_of sha256)"

subsection \<open>Recovery\<close>

definition verify_prepared ::
  "hash \<Rightarrow> ClockClaim \<Rightarrow> ClockCompletionReceipt \<Rightarrow> unit tstore" where
  "verify_prepared sha256 claim completion =
     seq_op (lift_res (verify_completion claim completion)) (\<lambda>_.
     seq_op (lift_res (claim_directory sha256 claim)) (\<lambda>dir.
     seq_op (read_attempt (dir, ''projection-bundle.json'')) (\<lambda>payload.
     seq_op (lift_res (verify_projection_bundle sha256 payload claim completion)) (\<lambda>_.
     check_semantic sha256 dir completion ''prepared semantic receipt is unavailable''))))"

text \<open>\<^verbatim>\<open>recover\<close> after the temporary files are gone: everything happens under the
  lock.\<close>

definition recover_prepared :: "hash \<Rightarrow> ClockClaim \<Rightarrow> FileContent \<Rightarrow> string tstore" where
  "recover_prepared sha256 active payload =
     seq_op (lift_res (parse_contract_file sha256 ''clock-completion-receipt'' payload)) (\<lambda>c.
     case c of
       CCompletion completion \<Rightarrow>
         seq_op (verify_prepared sha256 active completion) (\<lambda>_.
         seq_op (lift_res (temporal_head (cc_previous_committed_sequence active)
           (cc_previous_completion_digest active))) (\<lambda>expected.
         seq_op (publish sha256 expected active completion) (\<lambda>_.
         ret ''PREPARED_COMPLETION_PUBLISHED'')))
     | _ \<Rightarrow> raise_op (conflict ''prepared completion has wrong type''))"

definition recover_incomplete :: "hash \<Rightarrow> ClockClaim \<Rightarrow> string tstore" where
  "recover_incomplete sha256 active =
     seq_op (lift_res (recovery_failure sha256 active)) (\<lambda>failure.
     seq_op (lift_res (claim_attempt active)) (\<lambda>attempt.
     seq_op (record_attempt_artifact sha256 attempt ''failure'' failure) (\<lambda>_.
     seq_op clear_active (\<lambda>_. ret ''INCOMPLETE_ATTEMPT_FAILED''))))"

definition recover :: "hash \<Rightarrow> string tstore" where
  "recover sha256 =
     seq_op (read_active sha256) (\<lambda>active.
     case active of
       None \<Rightarrow> ret ''NO_ACTIVE_CLAIM''
     | Some claim \<Rightarrow>
         seq_op (lift_res (claim_directory sha256 claim)) (\<lambda>dir.
         seq_op (read_op (\<lambda>s. Inr (ts_attempts s (dir, ''completion.json'')))) (\<lambda>file.
         case file of
           Some payload \<Rightarrow> recover_prepared sha256 claim payload
         | None \<Rightarrow> recover_incomplete sha256 claim)))"

end
