(* ===== verification/Temporal_Coordinator.thy ===== *)
theory Temporal_Coordinator
  imports Temporal_Store
begin

section \<open>The temporal projection coordinator\<close>

text \<open>
  \<^verbatim>\<open>TemporalProjectionCoordinator\<close> of \<^verbatim>\<open>governance/v0_5/temporal.py\<close>:
  one tick from claim to completion or failure. The semantic projector and the ordered projection
  adapter are the two protocols the coordinator is given; they are functions of its record, which
  may raise. An event argument is a \<^verbatim>\<open>ValidatedEvent\<close>, of which the coordinator reads
  the digest, or some other object, which it rejects.
\<close>

datatype EventObject = ValidatedEvent (event_digest: string) | NotValidatedEvent

definition require_validated_event :: "EventObject \<Rightarrow> terr + string" where
  "require_validated_event value = (case value of
     ValidatedEvent d \<Rightarrow> Inr d
   | NotValidatedEvent \<Rightarrow>
       Inl (ContractFault (GovernanceContractError ''VALIDATION_RESULT_NOT_ACCEPTED'' None)))"

record Coordinator =
  co_project :: "ClockClaim \<Rightarrow> string \<Rightarrow> terr + SemanticProjectionReceipt"
  co_project_remaining ::
    "ClockClaim \<Rightarrow> string \<Rightarrow> SemanticProjectionReceipt \<Rightarrow> terr + ProjectionArtifacts"
  co_claim_policy_digest :: string
  co_completion_policy_digest :: string
  co_ordered_phases :: "string list"

record TemporalAttemptOutcome =
  ao_claim :: ClockClaim
  ao_semantic_receipt :: "SemanticProjectionReceipt option"
  ao_completion :: "ClockCompletionReceipt option"
  ao_failure :: "ClockProjectionFailure option"

definition attempt_outcome ::
  "ClockClaim \<Rightarrow> SemanticProjectionReceipt option \<Rightarrow> ClockCompletionReceipt option \<Rightarrow>
   ClockProjectionFailure option \<Rightarrow> terr + TemporalAttemptOutcome" where
  "attempt_outcome claim semantic completion failure =
     (if (completion \<noteq> None) = (failure \<noteq> None)
      then Inl (TemporalProtocolError
        ''attempt outcome must contain exactly one terminal receipt'')
      else Inr \<lparr>ao_claim = claim, ao_semantic_receipt = semantic,
        ao_completion = completion, ao_failure = failure\<rparr>)"

subsection \<open>The phase policy\<close>

fun json_strings :: "json list \<Rightarrow> string list option" where
  "json_strings [] = Some []"
| "json_strings (JStr s # xs) = map_option ((#) s) (json_strings xs)"
| "json_strings _ = None"

definition load_projection_order :: "(string \<times> json) list \<Rightarrow> terr + string list" where
  "load_projection_order policy =
     (let bad = Inl (ContractFault (GovernanceContractError ''PROJECTION_PHASE_POLICY_INVALID'' None))
      in case map_of policy ''ordered_phases'' of
        Some (JArr items) \<Rightarrow> (case json_strings items of
            None \<Rightarrow> bad
          | Some order \<Rightarrow>
              if order \<noteq> PROJECTION_PHASES \<or>
                 map_of policy ''release_compilation_phase'' \<notin> {None, Some JNull}
              then bad else Inr order)
      | _ \<Rightarrow> bad)"

text \<open>The constructor: the phase policy is read once.\<close>

definition coordinator ::
  "(ClockClaim \<Rightarrow> string \<Rightarrow> terr + SemanticProjectionReceipt) \<Rightarrow>
   (ClockClaim \<Rightarrow> string \<Rightarrow> SemanticProjectionReceipt \<Rightarrow> terr + ProjectionArtifacts) \<Rightarrow>
   string \<Rightarrow> string \<Rightarrow> (string \<times> json) list \<Rightarrow> terr + Coordinator" where
  "coordinator project project_remaining claim_policy completion_policy policy =
     (case load_projection_order policy of
        Inl e \<Rightarrow> Inl e
      | Inr order \<Rightarrow> Inr \<lparr>co_project = project, co_project_remaining = project_remaining,
          co_claim_policy_digest = claim_policy,
          co_completion_policy_digest = completion_policy, co_ordered_phases = order\<rparr>)"

subsection \<open>Checks and receipts\<close>

definition text_digest :: "hash \<Rightarrow> string \<Rightarrow> string" where
  "text_digest sha256 value = ''sha256:'' @ hex (sha256 (utf8 value))"

definition verify_claim_event :: "ClockClaim \<Rightarrow> string \<Rightarrow> terr + unit" where
  "verify_claim_event claim event = require (cc_validated_event_digest claim = event)
     (TemporalProjectionError ''SEMANTIC'' ''VALIDATED_EVENT_MISMATCH'' None)"

definition verify_semantic_receipt ::
  "ClockClaim \<Rightarrow> string \<Rightarrow> SemanticProjectionReceipt \<Rightarrow> terr + unit" where
  "verify_semantic_receipt claim event receipt =
     (if sr_clock_claim_digest receipt \<noteq> cc_digest claim
      then Inl (TemporalProjectionError ''SEMANTIC'' ''SEMANTIC_CLAIM_MISMATCH'' None)
      else if sr_validated_event_digest receipt \<noteq> event
      then Inl (TemporalProjectionError ''SEMANTIC'' ''SEMANTIC_EVENT_MISMATCH'' None)
      else if sr_projection_sequence receipt \<noteq> cc_proposed_sequence claim
      then Inl (TemporalProjectionError ''SEMANTIC'' ''SEMANTIC_SEQUENCE_MISMATCH'' None)
      else Inr ())"

text \<open>\<^verbatim>\<open>_require_digest\<close> looks at the prefix and the length only.\<close>

definition looks_like_digest :: "string \<Rightarrow> bool" where
  "looks_like_digest d = (take 7 d = ''sha256:'' \<and> length d = 71)"

definition verify_projection_artifacts ::
  "hash \<Rightarrow> Coordinator \<Rightarrow> ProjectionArtifacts \<Rightarrow> terr + unit" where
  "verify_projection_artifacts sha256 co a =
     (if pa_observed_phase_order a \<noteq> tl (co_ordered_phases co)
      then Inl (TemporalProjectionError ''QUARANTINE_COMMIT'' ''PROJECTION_ORDER_MISMATCH''
        (Some (text_digest sha256 (join ''|'' (pa_observed_phase_order a)))))
      else if pa_release_compilation_invocations a \<noteq> 0
      then Inl (TemporalProjectionError ''QUARANTINE_COMMIT'' ''RELEASE_COMPILATION_IN_TICK'' None)
      else if \<not> list_all looks_like_digest ([pa_evidence_unit_root_digest a,
          pa_assumption_root_digest a, pa_alternative_model_root_digest a,
          pa_disposition_receipt_digest a] @ pa_quarantine_marker_digests a)
      then Inl (TemporalProjectionError ''QUARANTINE_COMMIT'' ''PROJECTION_DIGEST_INVALID'' None)
      else if pa_quarantine_epoch a < 0
      then Inl (TemporalProjectionError ''QUARANTINE_COMMIT'' ''QUARANTINE_EPOCH_INVALID'' None)
      else Inr ())"

definition build_completion ::
  "hash \<Rightarrow> Coordinator \<Rightarrow> ClockClaim \<Rightarrow> string \<Rightarrow> SemanticProjectionReceipt \<Rightarrow>
   ProjectionArtifacts \<Rightarrow> terr + ClockCompletionReceipt" where
  "build_completion sha256 co claim event semantic a =
     (case build_contract sha256 (CCompletion
        \<lparr>cp_clock_sequence = cc_proposed_sequence claim,
         cp_previous_completion_digest = cc_previous_completion_digest claim,
         cp_clock_claim_digest = cc_digest claim,
         cp_validated_event_digest = event,
         cp_semantic_projection_receipt_digest = sr_digest semantic,
         cp_evidence_unit_root = pa_evidence_unit_root_digest a,
         cp_assumption_root = pa_assumption_root_digest a,
         cp_alternative_model_root = pa_alternative_model_root_digest a,
         cp_disposition_receipt_digest = pa_disposition_receipt_digest a,
         cp_quarantine_epoch = pa_quarantine_epoch a,
         cp_quarantine_marker_digests = pa_quarantine_marker_digests a,
         cp_completion_policy_digest = co_completion_policy_digest co,
         cp_digest = ''''\<rparr>) of
        Inl e \<Rightarrow> Inl (ContractFault e)
      | Inr (CCompletion c) \<Rightarrow> Inr c
      | Inr _ \<Rightarrow> Inl (ContractFault (GovernanceContractError ''UNKNOWN_CONTRACT'' None)))"

definition build_failure ::
  "hash \<Rightarrow> Coordinator \<Rightarrow> ClockClaim \<Rightarrow> string \<Rightarrow> string \<Rightarrow> string option \<Rightarrow>
   terr + ClockProjectionFailure" where
  "build_failure sha256 co claim phase code detail =
     (case build_contract sha256 (CFailure
        \<lparr>pf_attempt_id = cc_attempt_id claim,
         pf_previous_committed_sequence = cc_previous_committed_sequence claim,
         pf_previous_completion_digest = cc_previous_completion_digest claim,
         pf_proposed_sequence = cc_proposed_sequence claim,
         pf_clock_claim_digest = cc_digest claim,
         pf_validated_event_digest = cc_validated_event_digest claim,
         pf_failure_phase =
           (if phase \<in> set (co_ordered_phases co) then phase else ''SEMANTIC''),
         pf_failure_code = code,
         pf_failure_detail_digest = detail,
         pf_recorded_against_tick = cc_previous_committed_sequence claim,
         pf_digest = ''''\<rparr>) of
        Inl e \<Rightarrow> Inl (ContractFault e)
      | Inr (CFailure f) \<Rightarrow> Inr f
      | Inr _ \<Rightarrow> Inl (ContractFault (GovernanceContractError ''UNKNOWN_CONTRACT'' None)))"

text \<open>\<^verbatim>\<open>type(exc).__qualname__ + ":" + str(exc)\<close>.\<close>

fun exception_text :: "terr \<Rightarrow> string" where
  "exception_text (TemporalProtocolError m) = ''TemporalProtocolError:'' @ m"
| "exception_text (TemporalClaimRejected m) = ''TemporalClaimRejected:'' @ m"
| "exception_text (TemporalProjectionError p c d) =
     ''TemporalProjectionError:'' @ p @ '': '' @ c"
| "exception_text (TemporalStoreError m) = ''TemporalStoreError:'' @ m"
| "exception_text (TemporalStoreConflictError m) = ''TemporalStoreConflictError:'' @ m"
| "exception_text (ContractFault (GovernanceContractError code None)) =
     ''GovernanceContractError:'' @ code"
| "exception_text (ContractFault (GovernanceContractError code (Some detail))) =
     ''GovernanceContractError:'' @ code @ '':'' @ detail"
| "exception_text (OtherException name m) = name @ '':'' @ m"

subsection \<open>Claim\<close>

definition build_claim ::
  "hash \<Rightarrow> Coordinator \<Rightarrow> EventObject \<Rightarrow> string \<Rightarrow> string \<Rightarrow> TemporalHead option \<Rightarrow>
   (TemporalHead \<times> ClockClaim) tstore" where
  "build_claim sha256 co event attempt_id claimant_id observed_head =
     seq_op (lift_res (require_validated_event event)) (\<lambda>digest.
     seq_op (case observed_head of Some h \<Rightarrow> ret h | None \<Rightarrow> read_head) (\<lambda>head.
     seq_op (lift_res (contract_res (build_contract sha256 (CClaim
        \<lparr>cc_attempt_id = attempt_id,
         cc_previous_committed_sequence = th_clock_sequence head,
         cc_previous_completion_digest = th_completion_digest head,
         cc_proposed_sequence = th_clock_sequence head + 1,
         cc_validated_event_digest = digest,
         cc_claimant_id = claimant_id,
         cc_claim_policy_digest = co_claim_policy_digest co,
         cc_digest = ''''\<rparr>)))) (\<lambda>c.
     case c of
       CClaim claim \<Rightarrow> ret (head, claim)
     | _ \<Rightarrow> raise_op (ContractFault (GovernanceContractError ''UNKNOWN_CONTRACT'' None)))))"

definition coordinator_claim ::
  "hash \<Rightarrow> Coordinator \<Rightarrow> EventObject \<Rightarrow> string \<Rightarrow> string \<Rightarrow> TemporalHead option \<Rightarrow>
   (TemporalHead \<times> ClaimInstallResult) tstore" where
  "coordinator_claim sha256 co event attempt_id claimant_id observed_head =
     seq_op (build_claim sha256 co event attempt_id claimant_id observed_head) (\<lambda>(head, claim).
     seq_op (claim_successor sha256 head claim) (\<lambda>result. ret (head, result)))"

subsection \<open>Completion\<close>

text \<open>The body of the \<^verbatim>\<open>try\<close> block in two parts, because the failure handlers read
  the semantic receipt once the first has assigned it. The projector's result is assigned before
  it is verified.\<close>

definition project_semantic ::
  "hash \<Rightarrow> ClockClaim \<Rightarrow> string \<Rightarrow> SemanticProjectionReceipt \<Rightarrow> unit tstore" where
  "project_semantic sha256 claim event semantic =
     seq_op (lift_res (verify_semantic_receipt claim event semantic)) (\<lambda>_.
     seq_op (put_contract (CSemantic semantic)) (\<lambda>_.
     record_attempt_artifact sha256 (cc_attempt_id claim) ''semantic'' (CSemantic semantic)))"

definition project_and_publish ::
  "hash \<Rightarrow> Coordinator \<Rightarrow> TemporalHead \<Rightarrow> ClockClaim \<Rightarrow> string \<Rightarrow>
   SemanticProjectionReceipt \<Rightarrow> TemporalAttemptOutcome tstore" where
  "project_and_publish sha256 co expected_head claim event semantic =
     seq_op (project_semantic sha256 claim event semantic) (\<lambda>_.
     seq_op (lift_res (co_project_remaining co claim event semantic)) (\<lambda>artifacts.
     seq_op (lift_res (verify_projection_artifacts sha256 co artifacts)) (\<lambda>_.
     seq_op (record_projection_artifacts sha256 claim semantic artifacts) (\<lambda>_.
     seq_op (lift_res (build_completion sha256 co claim event semantic artifacts)) (\<lambda>completion.
     seq_op (prepare_completion sha256 claim completion) (\<lambda>_.
     seq_op (publish_completion sha256 expected_head claim completion) (\<lambda>_.
     lift_res (attempt_outcome claim (Some semantic) (Some completion) None))))))))"

definition fail_attempt ::
  "hash \<Rightarrow> Coordinator \<Rightarrow> ClockClaim \<Rightarrow> SemanticProjectionReceipt option \<Rightarrow> terr \<Rightarrow>
   TemporalAttemptOutcome tstore" where
  "fail_attempt sha256 co claim semantic exc =
     seq_op (lift_res (case exc of
         TemporalProjectionError phase code detail \<Rightarrow>
           build_failure sha256 co claim phase code detail
       | _ \<Rightarrow> build_failure sha256 co claim ''SEMANTIC'' ''UNHANDLED_PROJECTION_FAILURE''
           (Some (text_digest sha256 (exception_text exc))))) (\<lambda>failure.
     seq_op (record_failure sha256 claim failure) (\<lambda>_.
     lift_res (attempt_outcome claim semantic None (Some failure))))"

definition complete_claim ::
  "hash \<Rightarrow> Coordinator \<Rightarrow> TemporalHead \<Rightarrow> ClockClaim \<Rightarrow> EventObject \<Rightarrow>
   TemporalAttemptOutcome tstore" where
  "complete_claim sha256 co expected_head claim event =
     seq_op (lift_res (require_validated_event event)) (\<lambda>digest.
     seq_op (lift_res (verify_claim_event claim digest)) (\<lambda>_.
     case co_project co claim digest of
       Inl exc \<Rightarrow> fail_attempt sha256 co claim None exc
     | Inr semantic \<Rightarrow>
         catch_op (project_and_publish sha256 co expected_head claim digest semantic)
           (fail_attempt sha256 co claim (Some semantic))))"

definition execute ::
  "hash \<Rightarrow> Coordinator \<Rightarrow> EventObject \<Rightarrow> string \<Rightarrow> string \<Rightarrow> TemporalAttemptOutcome tstore"
where
  "execute sha256 co event attempt_id claimant_id =
     seq_op (coordinator_claim sha256 co event attempt_id claimant_id None) (\<lambda>(head, result).
     if \<not> ci_acquired result
     then raise_op (TemporalClaimRejected (ci_reason result))
     else complete_claim sha256 co head (ci_claim result) event)"

end
