(* ===== verification/Temporal_Facts.thy ===== *)
theory Temporal_Facts
  imports Temporal_Coordinator Canonical_Json_Spec
begin

section \<open>What the store operations leave alone\<close>

text \<open>
  Objects and attempt files are immutable under every operation of the store and of the
  coordinator, and only publication moves the head: both by interpreting the effect-order locale
  and composing along the operations. Then the canonical form of contracts, and what a valid
  contract gives.
\<close>

named_theorems op_rules "operations that respect an order on stores"

subsection \<open>Files are immutable\<close>

definition grows :: "TemporalFiles \<Rightarrow> TemporalFiles \<Rightarrow> bool" where
  "grows s t \<longleftrightarrow> ts_objects s \<subseteq>\<^sub>m ts_objects t \<and> ts_attempts s \<subseteq>\<^sub>m ts_attempts t"

interpretation growth: effect_order grows
  by unfold_locales (auto simp: grows_def intro: map_le_trans)

lemma growsD:
  "grows s t \<Longrightarrow> ts_objects s p = Some f \<Longrightarrow> ts_objects t p = Some f"
  "grows s t \<Longrightarrow> ts_attempts s q = Some f \<Longrightarrow> ts_attempts t q = Some f"
  by (metis domI grows_def map_le_def)+

lemma install_grows [op_rules]:
  "growth.conserves (install_object p f)" "growth.conserves (install_attempt q f)"
  by (auto intro!: growth.conservesI simp: install_object_def install_attempt_def grows_def
      map_le_def dom_def split: option.splits)

lemma writes_grow [op_rules]:
  "growth.conserves clear_active" "growth.conserves (replace_active c)"
  "growth.conserves (replace_head h)"
  by (auto intro!: growth.conserves_write
      simp: clear_active_def replace_active_def replace_head_def grows_def)

lemma reads_grow [op_rules]:
  "growth.conserves read_head" "growth.conserves (read_active sha256)"
  "growth.conserves (get_contract sha256 n d)" "growth.conserves (read_attempt q)"
  by (auto simp: read_head_def read_active_def get_contract_def read_attempt_def)

lemma put_grows [op_rules]: "growth.conserves (put_contract c)"
  unfolding put_contract_def by (intro growth.conserves_seq growth.conserves_pure op_rules)

lemma record_grows [op_rules]:
  "growth.conserves (record_attempt_artifact sha256 a n c)"
  "growth.conserves (record_projection_artifacts sha256 claim r arts)"
  unfolding record_attempt_artifact_def record_projection_artifacts_def
  by (intro growth.conserves_seq growth.conserves_pure op_rules)+

lemma claim_grows [op_rules]:
  "growth.conserves (claim_locked sha256 h c)" "growth.conserves (claim_successor sha256 h c)"
proof -
  show *: "growth.conserves (claim_locked sha256 h c)"
    unfolding claim_locked_def
    by (auto intro!: growth.conserves_seq op_rules split: option.splits)
  show "growth.conserves (claim_successor sha256 h c)"
    unfolding claim_successor_def
    by (intro growth.conserves_seq growth.conserves_pure op_rules *)
qed

lemma failure_grows [op_rules]:
  "growth.conserves (failure_locked sha256 c)" "growth.conserves (record_failure sha256 c f)"
proof -
  show *: "growth.conserves (failure_locked sha256 c)"
    unfolding failure_locked_def by (auto intro!: growth.conserves_seq op_rules)
  show "growth.conserves (record_failure sha256 c f)"
    unfolding record_failure_def
    by (intro growth.conserves_seq growth.conserves_pure op_rules *)
qed

lemma check_semantic_pure: "snd (check_semantic sha256 dir cp m s) = s"
  by (auto simp: check_semantic_def get_contract_def read_attempt_def seq_read
      split: sum.splits option.splits)

lemma check_semantic_grows [op_rules]: "growth.conserves (check_semantic sha256 dir cp m)"
  by (rule growth.conservesI) (simp add: check_semantic_pure growth.refl)

lemma completion_grows [op_rules]:
  "growth.conserves (prepare_completion sha256 c cp)"
  "growth.conserves (publish sha256 h c cp)"
  "growth.conserves (publish_completion sha256 h c cp)"
proof -
  show *: "growth.conserves (prepare_completion sha256 c cp)"
    unfolding prepare_completion_def by (intro growth.conserves_seq growth.conserves_pure op_rules)
  show **: "growth.conserves (publish sha256 h c cp)"
    unfolding publish_def by (auto intro!: growth.conserves_seq op_rules)
  show "growth.conserves (publish_completion sha256 h c cp)"
    unfolding publish_completion_def by (intro growth.conserves_seq * **)
qed

lemma recover_grows [op_rules]: "growth.conserves (recover sha256)"
proof -
  have v: "growth.conserves (verify_prepared sha256 c cp)" for c cp
    unfolding verify_prepared_def by (intro growth.conserves_seq growth.conserves_pure op_rules)
  have p: "growth.conserves (recover_prepared sha256 c f)" for c f
    unfolding recover_prepared_def
    by (auto intro!: growth.conserves_seq op_rules v split: Contract.splits)
  have "growth.conserves (recover_incomplete sha256 c)" for c
    unfolding recover_incomplete_def
    by (intro growth.conserves_seq growth.conserves_pure op_rules)
  with p show ?thesis
    unfolding recover_def by (auto intro!: growth.conserves_seq op_rules split: option.splits)
qed

lemma coordinator_grows [op_rules]:
  "growth.conserves (complete_claim sha256 co h c ev)"
  "growth.conserves (execute sha256 co ev a cl)"
proof -
  have b: "growth.conserves (build_claim sha256 co ev a cl oh)" for oh
    unfolding build_claim_def
    by (auto intro!: growth.conserves_seq op_rules split: option.splits Contract.splits)
  have s: "growth.conserves (project_semantic sha256 c d r)" for c d r
    unfolding project_semantic_def
    by (intro growth.conserves_seq growth.conserves_pure op_rules)
  have p: "growth.conserves (project_and_publish sha256 co h c d r)" for h c d r
    unfolding project_and_publish_def
    by (intro growth.conserves_seq growth.conserves_pure op_rules s)
  have f: "growth.conserves (fail_attempt sha256 co c r e)" for c r e
    unfolding fail_attempt_def by (intro growth.conserves_seq growth.conserves_pure op_rules)
  show c: "growth.conserves (complete_claim sha256 co h c ev)" for h c
    unfolding complete_claim_def
    by (auto intro!: growth.conserves_seq growth.conserves_catch p f split: sum.splits)
  have "growth.conserves (coordinator_claim sha256 co ev a cl oh)" for oh
    unfolding coordinator_claim_def
    by (auto intro!: growth.conserves_seq op_rules b split: prod.splits)
  then show "growth.conserves (execute sha256 co ev a cl)"
    unfolding execute_def by (auto intro!: growth.conserves_seq c split: prod.splits)
qed

subsection \<open>Only publication moves the head\<close>

definition same_head :: "TemporalFiles \<Rightarrow> TemporalFiles \<Rightarrow> bool" where
  "same_head s t \<longleftrightarrow> ts_head t = ts_head s"

interpretation headed: effect_order same_head
  by unfold_locales (auto simp: same_head_def)

lemma install_headed [op_rules]:
  "headed.conserves (install_object p f)" "headed.conserves (install_attempt q f)"
  "headed.conserves clear_active"
  by (auto intro!: headed.conservesI simp: install_object_def install_attempt_def same_head_def
      clear_active_def split: option.splits)

lemma record_headed [op_rules]:
  "headed.conserves (put_contract c)"
  "headed.conserves (record_attempt_artifact sha256 a n c)"
  "headed.conserves (record_projection_artifacts sha256 claim r arts)"
  unfolding record_attempt_artifact_def record_projection_artifacts_def put_contract_def
  by (intro headed.conserves_seq headed.conserves_pure op_rules)+

lemma failure_headed [op_rules]: "headed.conserves (record_failure sha256 c f)"
  unfolding record_failure_def failure_locked_def read_active_def
  by (auto intro!: headed.conserves_seq op_rules)

lemma prepare_headed [op_rules]:
  "headed.conserves (prepare_completion sha256 c cp)"
  "headed.conserves (project_semantic sha256 c d r)"
proof -
  have "headed.conserves (check_semantic sha256 dir cp m)" for dir m
    by (rule headed.conservesI) (simp add: check_semantic_pure headed.refl)
  then show "headed.conserves (prepare_completion sha256 c cp)"
    unfolding prepare_completion_def read_attempt_def
    by (intro headed.conserves_seq headed.conserves_pure op_rules)
  show "headed.conserves (project_semantic sha256 c d r)"
    unfolding project_semantic_def
    by (intro headed.conserves_seq headed.conserves_pure op_rules)
qed

end
