(* ===== verification/Governance_Facts.thy ===== *)
theory Governance_Facts
  imports Temporal_Contracts Canonical_Json_Spec
begin

section \<open>Canonical contracts\<close>

text \<open>
  Normalisation keeps the value of every key and forgets only the order of sets, so the
  canonical bytes of a tick contract determine it up to the order of its quarantine markers, and
  the digest does not see that order.
\<close>

subsection \<open>Sorting and pointwise related lists\<close>

lemma list_all2_insort_key:
  "list_all2 R xs ys \<Longrightarrow> R x y \<Longrightarrow> (\<And>a b. R a b \<Longrightarrow> k a = l b) \<Longrightarrow>
     list_all2 R (insort_key k x xs) (insort_key l y ys)"
  by (induction rule: list_all2_induct) auto

lemma list_all2_sort_key:
  "list_all2 R xs ys \<Longrightarrow> (\<And>a b. R a b \<Longrightarrow> k a = l b) \<Longrightarrow>
     list_all2 R (sort_key k xs) (sort_key l ys)"
  by (induction rule: list_all2_induct) (auto intro: list_all2_insort_key)

lemma map_res_cong2:
  "list_all2 (\<lambda>x y. f x = g y) xs ys \<Longrightarrow> map_res f xs = map_res g ys"
  by (induction rule: list_all2_induct) (auto split: sum.splits)

lemma sort_key_idem [simp]: "sort_key k (sort_key k xs) = sort_key k xs"
  by (simp add: sort_key_id_if_sorted)

lemma map_of_list_all2:
  "list_all2 (\<lambda>p q. fst p = fst q \<and> R (fst p) (snd p) (snd q)) ps qs \<Longrightarrow>
     map_of ps k = Some v \<Longrightarrow> \<exists>w. map_of qs k = Some w \<and> R k v w"
  by (induction rule: list_all2_induct) (auto split: if_splits)

subsection \<open>Normalisation of objects\<close>

lemma gov_normalize_object_cong:
  assumes "list_all2 (\<lambda>p q. fst p = fst q \<and>
    gov_normalize (snd p) (property_schema s (fst p)) =
    gov_normalize (snd q) (property_schema s (fst q))) ps qs"
  shows "gov_normalize (JObj ps) s = gov_normalize (JObj qs) s"
proof -
  have "list_all2 (\<lambda>p q. fst p = fst q \<and>
      gov_normalize (snd p) (property_schema s (fst p)) =
      gov_normalize (snd q) (property_schema s (fst q)))
    (sort_key (\<lambda>p. gov_key (fst p)) ps) (sort_key (\<lambda>p. gov_key (fst p)) qs)"
    using assms by (rule list_all2_sort_key) simp
  then have "list_all2 (\<lambda>p q.
      (case p of (k, v) \<Rightarrow> case gov_normalize v (property_schema s k) of
         Inl e \<Rightarrow> Inl e | Inr w \<Rightarrow> Inr (k, w)) =
      (case q of (k, v) \<Rightarrow> case gov_normalize v (property_schema s k) of
         Inl e \<Rightarrow> Inl e | Inr w \<Rightarrow> Inr (k, w)))
    (sort_key (\<lambda>p. gov_key (fst p)) ps) (sort_key (\<lambda>p. gov_key (fst p)) qs)"
    by (rule list.rel_mono_strong) (auto split: prod.splits)
  then have "map_res (\<lambda>(k, v). case gov_normalize v (property_schema s k) of
         Inl e \<Rightarrow> Inl e | Inr w \<Rightarrow> Inr (k, w)) (sort_key (\<lambda>p. gov_key (fst p)) ps) =
      map_res (\<lambda>(k, v). case gov_normalize v (property_schema s k) of
         Inl e \<Rightarrow> Inl e | Inr w \<Rightarrow> Inr (k, w)) (sort_key (\<lambda>p. gov_key (fst p)) qs)"
    by (rule map_res_cong2)
  then show ?thesis by simp
qed

lemma map_of_sort_key:
  assumes "distinct (map fst ps)" shows "map_of (sort_key f ps) = map_of ps"
  by (rule map_of_eqI [OF _ ]) (use assms in \<open>auto simp: map_of_eq_Some_iff distinct_map\<close>)

lemma gov_normalize_object_values:
  assumes "gov_normalize (JObj ps) s = Inr w" and "distinct (map fst ps)"
  obtains qs where "w = JObj qs" and
    "\<And>k v. map_of ps k = Some v \<Longrightarrow>
      \<exists>u. map_of qs k = Some u \<and> gov_normalize v (property_schema s k) = Inr u"
proof -
  let ?sorted = "sort_key (\<lambda>p. gov_key (fst p)) ps"
  obtain qs where w: "w = JObj qs" and res: "map_res (\<lambda>(k, v).
      case gov_normalize v (property_schema s k) of Inl e \<Rightarrow> Inl e | Inr w \<Rightarrow> Inr (k, w))
    ?sorted = Inr qs"
    using assms(1) by (auto split: sum.splits)
  from res have "list_all2 (\<lambda>p q. fst p = fst q \<and>
      gov_normalize (snd p) (property_schema s (fst p)) = Inr (snd q)) ?sorted qs"
    unfolding map_res_Inr by (rule list.rel_mono_strong) (auto split: prod.splits sum.splits)
  note map_of_list_all2 [OF this]
  with that [OF w] show thesis by (metis map_of_sort_key [OF assms(2)])
qed

lemma map_res_strings [simp]:
  "map_res (\<lambda>x. gov_normalize x t) (map JStr ms) = Inr (map JStr ms)"
  by (induction ms) auto

abbreviation sort_markers :: "string list \<Rightarrow> string list" where
  "sort_markers \<equiv> sort_key (\<lambda>m. item_bytes (JStr m))"

lemma gov_normalize_marker_set:
  "gov_normalize (JArr (map JStr ms)) (Schema [] None (Some ''SET'')) =
     (if distinct_adj (map (\<lambda>m. item_bytes (JStr m)) (sort_markers ms))
      then Inr (JArr (map JStr (sort_markers ms)))
      else Inl (GovernanceContractError ''DUPLICATE_SET_MEMBER'' None))"
proof -
  have "sort_key item_bytes (map JStr ms) = map JStr (sort_markers ms)"
    by (simp add: sort_key_map comp_def)
  then show ?thesis by (simp add: order_items_def Let_def comp_def)
qed

lemma gov_canonical_bytes_inject:
  assumes "gov_canonical_bytes v s = Inr b" and "gov_canonical_bytes w t = Inr b"
  obtains u where "gov_normalize v s = Inr u" and "gov_normalize w t = Inr u"
proof -
  obtain x y where *: "gov_normalize v s = Inr x" "gov_normalize w t = Inr y"
    and "raw x @ [CHR 0x0A] = raw y @ [CHR 0x0A]"
    using assms by (auto simp: gov_canonical_bytes_def split: sum.splits)
  from prefix_free_atD [OF raw_prefix_free this(3)] have "x = y" by simp
  with * that show thesis by simp
qed

subsection \<open>Contracts\<close>

lemma contract_canonical [simp]:
  "contract_name (canonical_contract c) = contract_name c"
  "contract_digest (canonical_contract c) = contract_digest c"
  "digest_field (canonical_contract c) = digest_field c"
  "domain_prefix (canonical_contract c) = domain_prefix c"
  "contract_schema (canonical_contract c) = contract_schema c"
  "semantic_error (canonical_contract c) = semantic_error c"
  "schema_accepts (canonical_contract c) = schema_accepts c"
  "canonical_contract (canonical_contract c) = canonical_contract c"
  by (cases c; simp add: list_all_iff)+

lemma canonical_items:
  assumes "contract_schema c = s"
  shows "list_all2 (\<lambda>p q. fst p = fst q \<and>
    gov_normalize (snd p) (property_schema s (fst p)) =
    gov_normalize (snd q) (property_schema s (fst q)))
   (contract_items (canonical_contract c)) (contract_items c)"
proof (cases c)
  case (CCompletion cp)
  then have "property_schema s ''quarantine_marker_digests'' = Schema [] None (Some ''SET'')"
    using assms by (auto simp: property_schema_def)
  then show ?thesis using CCompletion by (simp add: gov_normalize_marker_set
      del: gov_normalize.simps)
qed (auto intro: list.rel_refl)

lemma expected_digest_canonical [simp]:
  "expected_digest sha256 (canonical_contract c) = expected_digest sha256 c"
proof -
  let ?s = "contract_schema c" and ?f = "\<lambda>p. fst p \<noteq> digest_field c"
  have "list_all2 (\<lambda>p q. fst p = fst q \<and>
      gov_normalize (snd p) (property_schema ?s (fst p)) =
      gov_normalize (snd q) (property_schema ?s (fst q)))
    (filter ?f (contract_items (canonical_contract c))) (filter ?f (contract_items c))"
    using canonical_items [OF refl, of c] by (induction rule: list_all2_induct) auto
  from gov_normalize_object_cong [OF this] show ?thesis
    by (simp add: expected_digest_def domain_digest_def gov_canonical_bytes_def
        del: gov_normalize.simps)
qed

lemma contract_error_canonical [simp]:
  "contract_error sha256 (canonical_contract c) = contract_error sha256 c"
  by (auto simp: contract_error_def split: option.splits sum.splits)

lemma contract_bytes_canonical: "contract_bytes (canonical_contract c) = contract_bytes c"
  using gov_normalize_object_cong [OF canonical_items [OF refl], of c]
  by (simp add: contract_bytes_def gov_canonical_bytes_def del: gov_normalize.simps)

lemma contract_error_valid:
  assumes "contract_error sha256 c = None"
  shows "schema_accepts c" and "semantic_error c = None"
    and "expected_digest sha256 c = Inr (contract_digest c)"
  using assms by (auto simp: contract_error_def split: if_splits option.splits sum.splits)

lemma build_contract_valid:
  assumes "build_contract sha256 c = Inr b"
  shows "contract_error sha256 b = None" and "\<exists>d. b = with_digest d c"
  using assms by (auto simp: build_contract_def split: sum.splits option.splits)

lemma contract_name_type [simp]: "contract_name c \<in> set CONTRACT_TYPES"
  by (cases c) (simp_all add: CONTRACT_TYPES_def)

lemma contract_items_distinct [simp]: "distinct (map fst (contract_items c))"
  by (cases c) simp_all

subsection \<open>Building contracts\<close>

text \<open>The one thing a contract must satisfy to have canonical bytes at all.\<close>

fun markers_distinct :: "Contract \<Rightarrow> bool" where
  "markers_distinct (CCompletion c) = distinct (cp_quarantine_marker_digests c)"
| "markers_distinct _ = True"

lemma map_res_total:
  "(\<And>x. x \<in> set xs \<Longrightarrow> \<exists>y. f x = Inr y) \<Longrightarrow> \<exists>ys. map_res f xs = Inr ys"
proof (induction xs)
  case (Cons x xs)
  then obtain y ys where "f x = Inr y" "map_res f xs = Inr ys" by (metis list.set_intros)
  then show ?case by simp
qed simp

lemma gov_normalize_object_total:
  assumes "\<And>k v. (k, v) \<in> set ps \<Longrightarrow> \<exists>w. gov_normalize v (property_schema s k) = Inr w"
  shows "\<exists>w. gov_normalize (JObj ps) s = Inr w"
proof -
  let ?f = "\<lambda>(k, v). case gov_normalize v (property_schema s k) of
      Inl e \<Rightarrow> Inl e | Inr w \<Rightarrow> Inr (k, w)"
  have "\<exists>qs. map_res ?f (sort_key (\<lambda>p. gov_key (fst p)) ps) = Inr qs"
  proof (rule map_res_total)
    show "\<exists>y. ?f x = Inr y" if "x \<in> set (sort_key (\<lambda>p. gov_key (fst p)) ps)" for x
      using assms [of "fst x" "snd x"] that by (auto simp: case_prod_beta)
  qed
  then show ?thesis by auto
qed

lemma item_bytes_inject: "item_bytes (JStr m) = item_bytes (JStr n) \<longleftrightarrow> m = n"
proof
  assume "item_bytes (JStr m) = item_bytes (JStr n)"
  then have "quote m @ [] = quote n @ []" by (simp add: item_bytes_def)
  from quote_prefix_free [OF this] show "m = n" by simp
qed simp

lemma distinct_markers:
  assumes "distinct ms"
  shows "distinct_adj (map (\<lambda>m. item_bytes (JStr m)) (sort_markers ms))"
proof -
  have "distinct (map (\<lambda>m. item_bytes (JStr m)) (sort_markers ms))"
    using assms by (simp add: distinct_map inj_on_def item_bytes_inject)
  moreover have "distinct ys \<Longrightarrow> distinct_adj ys" for ys :: "byte list list"
    by (induction ys rule: induct_list012) auto
  ultimately show ?thesis by blast
qed

lemma contract_items_normalize:
  assumes "markers_distinct c" and "(k, v) \<in> set (contract_items c)"
  shows "\<exists>w. gov_normalize v (property_schema (contract_schema c) k) = Inr w"
proof (cases c)
  case (CCompletion cp)
  have opt: "\<exists>w. gov_normalize (json_opt x) t = Inr w" for x t by (cases x) auto
  have roots: "\<exists>w. gov_normalize (JObj [(''evidence_unit'', JStr x), (''assumption'', JStr y),
      (''alternative_model'', JStr z)]) t = Inr w" for x y z t
    by (rule gov_normalize_object_total) auto
  have "property_schema (contract_schema c) ''quarantine_marker_digests'' =
      Schema [] None (Some ''SET'')" using CCompletion by (simp add: property_schema_def)
  then show ?thesis using assms CCompletion opt roots distinct_markers
    by (auto simp: gov_normalize_marker_set simp del: gov_normalize.simps(1,2))
next
  case (CClaim x)
  then show ?thesis using assms by (auto simp: json_opt.simps split: option.splits)
      (metis gov_normalize.simps(3,6) json_opt.elims)
next
  case (CFailure x)
  then show ?thesis using assms
    by (auto; metis gov_normalize.simps(3,6) json_opt.elims)
next
  case (CSemantic x)
  then show ?thesis using assms by auto
qed

definition hash32 :: "(byte list \<Rightarrow> byte list) \<Rightarrow> bool" where
  "hash32 sha256 \<longleftrightarrow> (\<forall>m. length (sha256 m) = 32)"

lemma hex_digit_range:
  "n < 16 \<Longrightarrow> CHR ''0'' \<le> hex_digit n \<and> hex_digit n \<le> CHR ''9'' \<or>
     CHR ''a'' \<le> hex_digit n \<and> hex_digit n \<le> CHR ''f''"
  by (auto simp: less_eq_char_def of_char_hex_digit)

lemma hash_is_digest: "hash32 sha256 \<Longrightarrow> is_digest (''sha256:'' @ hex (sha256 m))"
proof -
  have "list_all (\<lambda>c. CHR ''0'' \<le> c \<and> c \<le> CHR ''9'' \<or> CHR ''a'' \<le> c \<and> c \<le> CHR ''f'') (hex bs)"
    for bs
  proof (induction bs)
    case (Cons b bs)
    have "unat b < 256" using unsigned_less [of b] by simp
    then have "unat b div 16 < 16" by simp
    then show ?case using Cons hex_digit_range by (simp add: hex_def)
  qed (simp add: hex_def)
  then show "hash32 sha256 \<Longrightarrow> is_digest (''sha256:'' @ hex (sha256 m))"
    by (simp add: is_digest_def hash32_def)
qed

lemma expected_digest_total:
  assumes "markers_distinct c"
  obtains m where "expected_digest sha256 c = Inr (''sha256:'' @ hex (sha256 m))"
proof -
  have "\<exists>w. gov_normalize (JObj (filter (\<lambda>p. fst p \<noteq> digest_field c) (contract_items c)))
      (contract_schema c) = Inr w"
    by (rule gov_normalize_object_total) (use contract_items_normalize [OF assms] in auto)
  moreover have "digest_field c \<noteq> []" "domain_prefix c \<noteq> []" by (cases c; simp)+
  ultimately show thesis using that
    by (auto simp: expected_digest_def domain_digest_def gov_canonical_bytes_def
        simp del: gov_normalize.simps)
qed

lemma expected_digest_with_digest [simp]:
  "expected_digest sha256 (with_digest d c) = expected_digest sha256 c"
  by (cases c) (simp_all add: expected_digest_def domain_digest_def)

lemma with_digest_digest [simp]: "contract_digest (with_digest d c) = d"
  and markers_distinct_with_digest [simp]: "markers_distinct (with_digest d c) = markers_distinct c"
  and semantic_error_with_digest [simp]: "semantic_error (with_digest d c) = semantic_error c"
  by (cases c; simp)+

lemma build_contract_total:
  assumes "hash32 sha256" and "markers_distinct c" and "semantic_error c = None"
    and "\<And>d. is_digest d \<Longrightarrow> schema_accepts (with_digest d c)"
  obtains d where "build_contract sha256 c = Inr (with_digest d c)" and "is_digest d"
    and "contract_error sha256 (with_digest d c) = None"
proof -
  obtain m where m: "expected_digest sha256 c = Inr (''sha256:'' @ hex (sha256 m))"
    using expected_digest_total [OF assms(2)] by blast
  have d: "is_digest (''sha256:'' @ hex (sha256 m))" by (rule hash_is_digest [OF assms(1)])
  have "contract_error sha256 (with_digest (''sha256:'' @ hex (sha256 m)) c) = None"
    using assms(3) assms(4) [OF d] m by (simp add: contract_error_def)
  then show thesis using that [OF _ d] m by (simp add: build_contract_def)
qed

lemma is_digest_schema [simp]: "is_digest d \<Longrightarrow> schema_digest d"
  by (simp add: schema_digest_def dollar_def)

subsection \<open>Canonical bytes identify contracts\<close>

lemma agreeing_objects:
  assumes "gov_normalize (JObj ps) s = Inr w" and "gov_normalize (JObj qs) t = Inr w"
    and "map fst ps = map fst qs" and "distinct (map fst ps)"
  shows "list_all2 (\<lambda>p q. gov_normalize (snd p) (property_schema s (fst p)) =
    gov_normalize (snd q) (property_schema t (fst q))) ps qs"
proof (rule list_all2_all_nthI)
  show "length ps = length qs" using assms(3) by (rule map_eq_imp_length_eq)
  obtain rs where w: "w = JObj rs" and rs: "\<And>k v. map_of ps k = Some v \<Longrightarrow>
      \<exists>u. map_of rs k = Some u \<and> gov_normalize v (property_schema s k) = Inr u"
    using gov_normalize_object_values [OF assms(1,4)] by metis
  obtain rs' where w': "w = JObj rs'" and rs': "\<And>k v. map_of qs k = Some v \<Longrightarrow>
      \<exists>u. map_of rs' k = Some u \<and> gov_normalize v (property_schema t k) = Inr u"
    using gov_normalize_object_values [OF assms(2)] assms(3,4) by metis
  fix i assume i: "i < length ps"
  then have j: "i < length qs" using \<open>length ps = length qs\<close> by simp
  have k: "fst (ps ! i) = fst (qs ! i)" using assms(3) i j by (metis nth_map)
  have "map_of ps (fst (ps ! i)) = Some (snd (ps ! i))"
    using assms(4) i by (simp add: map_of_eq_Some_iff)
  moreover have "map_of qs (fst (qs ! i)) = Some (snd (qs ! i))"
    using assms(3,4) j by (simp add: map_of_eq_Some_iff)
  ultimately show "gov_normalize (snd (ps ! i)) (property_schema s (fst (ps ! i))) =
      gov_normalize (snd (qs ! i)) (property_schema t (fst (qs ! i)))"
    using rs rs' w w' k by fastforce
qed

lemma normalize_opt [simp]: "gov_normalize (json_opt x) t = Inr (json_opt x)"
  by (cases x) auto

lemma json_opt_inject [simp]: "json_opt x = json_opt y \<longleftrightarrow> x = y"
  by (cases x; cases y) auto

abbreviation roots :: "string \<Rightarrow> string \<Rightarrow> string \<Rightarrow> json" where
  "roots x y z \<equiv> JObj [(''evidence_unit'', JStr x), (''assumption'', JStr y),
     (''alternative_model'', JStr z)]"

lemma normalize_roots:
  "gov_normalize (roots x y z) s = gov_normalize (roots x' y' z') s \<longleftrightarrow> x = x' \<and> y = y' \<and> z = z'"
proof
  assume eq: "gov_normalize (roots x y z) s = gov_normalize (roots x' y' z') s"
  have "\<exists>w. gov_normalize (roots x y z) s = Inr w"
    by (rule gov_normalize_object_total) auto
  then obtain w where w: "gov_normalize (roots x y z) s = Inr w" by blast
  from agreeing_objects [OF w w [unfolded eq]] show "x = x' \<and> y = y' \<and> z = z'" by simp
qed simp

lemma schema_version_item:
  "hd (contract_items c) = (''schema_version'', JStr (contract_name c @ ''/1''))"
  by (cases c) simp_all

lemma contract_bytes_inject:
  assumes "contract_bytes a = Inr x" and "contract_bytes b = Inr x"
    and "markers_distinct a" and "markers_distinct b"
  shows "canonical_contract a = canonical_contract b"
proof -
  obtain w where w: "gov_normalize (JObj (contract_items a)) (contract_schema a) = Inr w"
    "gov_normalize (JObj (contract_items b)) (contract_schema b) = Inr w"
    by (rule gov_canonical_bytes_inject [OF assms(1,2) [unfolded contract_bytes_def]])
  have version: "\<exists>rs. w = JObj rs \<and> map_of rs ''schema_version'' = Some (JStr (contract_name c @ ''/1''))"
    if n: "gov_normalize (JObj (contract_items c)) (contract_schema c) = Inr w" for c
  proof -
    have "map_of (contract_items c) ''schema_version'' = Some (JStr (contract_name c @ ''/1''))"
      by (cases c) simp_all
    moreover obtain rs where rs: "w = JObj rs" "\<And>k v. map_of (contract_items c) k = Some v \<Longrightarrow>
        \<exists>u. map_of rs k = Some u \<and> gov_normalize v (property_schema (contract_schema c) k) = Inr u"
      by (rule gov_normalize_object_values [OF n contract_items_distinct]) (rule that, assumption+)
    ultimately show ?thesis by fastforce
  qed
  have name: "contract_name a = contract_name b" using version [OF w(1)] version [OF w(2)] by auto
  then have "map fst (contract_items a) = map fst (contract_items b)"
    by (cases a; cases b) simp_all
  note agree = agreeing_objects [OF w this contract_items_distinct]
  show ?thesis
  proof (cases a)
    case (CClaim x)
    moreover from this obtain y where "b = CClaim y" using name by (cases b) simp_all
    ultimately show ?thesis using agree by simp
  next
    case (CCompletion x)
    moreover from this obtain y where "b = CCompletion y" using name by (cases b) simp_all
    moreover have "inj JStr" by (simp add: inj_on_def)
    ultimately show ?thesis using agree distinct_markers assms(3,4)
      by (cases x; cases y) (simp add: normalize_roots property_schema_def
          gov_normalize_marker_set inj_map_eq_map del: gov_normalize.simps(1,2))
  next
    case (CFailure x)
    moreover from this obtain y where "b = CFailure y" using name by (cases b) simp_all
    ultimately show ?thesis using agree by simp
  next
    case (CSemantic x)
    moreover from this obtain y where "b = CSemantic y" using name by (cases b) simp_all
    ultimately show ?thesis using agree by simp
  qed
qed

text \<open>The canonical bytes of a tick contract identify it. Two contracts with canonical bytes
  have the same bytes exactly when they are the same contract up to the order of the quarantine
  markers, which form a set; the digest does not see that order either. A contract without repeated
  markers always has canonical bytes.\<close>

theorem contract_bytes_identify:
  assumes "markers_distinct a" and "markers_distinct b"
  shows "(contract_bytes a = contract_bytes b \<longleftrightarrow> canonical_contract a = canonical_contract b) \<and>
    expected_digest sha256 (canonical_contract a) = expected_digest sha256 a"
proof -
  have total: "\<exists>x. contract_bytes c = Inr x" if "markers_distinct c" for c
    using gov_normalize_object_total [OF contract_items_normalize [OF that], of "contract_items c"]
    by (auto simp: contract_bytes_def gov_canonical_bytes_def simp del: gov_normalize.simps)
  have "canonical_contract a = canonical_contract b" if "contract_bytes a = contract_bytes b"
    using contract_bytes_inject [OF _ _ assms] total [OF assms(1)] that by metis
  moreover have "contract_bytes a = contract_bytes b"
    if "canonical_contract a = canonical_contract b"
    using that contract_bytes_canonical [of a] contract_bytes_canonical [of b] by simp
  ultimately show ?thesis by auto
qed

end
