(* ===== verification/Temporal_Machine.thy ===== *)
theory Temporal_Machine
  imports Temporal_Facts Governance_Facts Effects
begin

section \<open>The store as a machine of atomic steps\<close>

text \<open>
  Many processes use one store directory. What they do to it is a sequence of atomic steps:
  installing a file (which is immutable), or a body under the lock, or a body under the lock that
  the process does not survive, so that the active file is not removed although the head is already
  written. A step is guarded by what its caller has checked or installed before it, which no other
  process can undo. The invariant says that objects sit at their own identity, that attempt
  files name stored contracts, that the committed chain can be read back, and that the active
  claim succeeds the head or is the claim the head has just completed.
\<close>

subsection \<open>The invariant\<close>

definition stored :: "Contract \<Rightarrow> TemporalFiles \<Rightarrow> bool" where
  "stored c s \<longleftrightarrow> ts_objects s (contract_name c, contract_digest c) = Some (FContract c)"

definition objects_ok :: "hash \<Rightarrow> TemporalFiles \<Rightarrow> bool" where
  "objects_ok sha256 s \<longleftrightarrow> (\<forall>n d f. ts_objects s (n, d) = Some f \<longrightarrow>
     (\<exists>c. f = FContract c \<and> lookup_contract sha256 n d s = Inr (Some c)))"

definition attempts_ok :: "TemporalFiles \<Rightarrow> bool" where
  "attempts_ok s \<longleftrightarrow> (\<forall>q c. ts_attempts s q = Some (FContract c) \<longrightarrow> stored c s)"

definition committed_ok :: "hash \<Rightarrow> TemporalFiles \<Rightarrow> bool" where
  "committed_ok sha256 s \<longleftrightarrow> (\<exists>cs. chain_of sha256 s = Inr cs)"

text \<open>The claim proposes the successor of the head, or the head is its completion.\<close>

definition claim_at_head :: "hash \<Rightarrow> TemporalFiles \<Rightarrow> TemporalHead \<Rightarrow> ClockClaim \<Rightarrow> bool" where
  "claim_at_head sha256 s h c \<longleftrightarrow>
     cc_previous_committed_sequence c = th_clock_sequence h \<and>
       cc_previous_completion_digest c = th_completion_digest h \<or>
     cc_proposed_sequence c = th_clock_sequence h \<and>
       (\<exists>d cp. th_completion_digest h = Some d \<and> completion_object sha256 d s = Inr (Some cp) \<and>
          cp_clock_claim_digest cp = cc_digest c)"

definition active_ok :: "hash \<Rightarrow> TemporalFiles \<Rightarrow> bool" where
  "active_ok sha256 s \<longleftrightarrow> (\<exists>a h. active_of sha256 s = Inr a \<and> head_of s = Inr h \<and>
     (case a of None \<Rightarrow> True | Some c \<Rightarrow> claim_at_head sha256 s h c))"

definition store_ok :: "hash \<Rightarrow> TemporalFiles \<Rightarrow> bool" where
  "store_ok sha256 s \<longleftrightarrow>
     objects_ok sha256 s \<and> attempts_ok s \<and> committed_ok sha256 s \<and> active_ok sha256 s"

subsection \<open>Steps\<close>

datatype TemporalStep =
    PutContract Contract
  | PutArtifact string string Contract
  | PutBundle ClockClaim SemanticProjectionReceipt ProjectionArtifacts
  | AcquireClaim TemporalHead ClockClaim
  | RetireClaim ClockClaim
  | PublishHead TemporalHead ClockClaim ClockCompletionReceipt
  | TornPublish TemporalHead ClockClaim ClockCompletionReceipt
  | Recover
  | TornRecover

definition keep_active :: "TemporalFiles \<Rightarrow> TemporalFiles \<Rightarrow> TemporalFiles" where
  "keep_active s t = t\<lparr>ts_active := ts_active s\<rparr>"

text \<open>What the process knows when it enters the locked body of a publication.\<close>

definition may_publish :: "TemporalFiles \<Rightarrow> ClockClaim \<Rightarrow> ClockCompletionReceipt \<Rightarrow> bool" where
  "may_publish s claim cp \<longleftrightarrow> verify_completion claim cp = Inr () \<and> stored (CClaim claim) s \<and>
     stored (canonical_contract (CCompletion cp)) s"

inductive tstep :: "hash \<Rightarrow> TemporalFiles \<Rightarrow> TemporalStep \<Rightarrow> TemporalFiles \<Rightarrow> bool" for sha256 where
  st_put: "contract_error sha256 c = None \<Longrightarrow>
    tstep sha256 s (PutContract c) (snd (put_contract c s))"
| st_artifact: "contract_error sha256 c = None \<Longrightarrow>
    tstep sha256 s (PutArtifact a n c) (snd (record_attempt_artifact sha256 a n c s))"
| st_bundle: "tstep sha256 s (PutBundle claim r arts)
    (snd (record_projection_artifacts sha256 claim r arts s))"
| st_acquire: "verify_claim h claim = Inr () \<Longrightarrow> stored (CClaim claim) s \<Longrightarrow>
    tstep sha256 s (AcquireClaim h claim) (snd (claim_locked sha256 h claim s))"
| st_retire: "tstep sha256 s (RetireClaim claim) (snd (failure_locked sha256 claim s))"
| st_publish: "may_publish s claim cp \<Longrightarrow>
    tstep sha256 s (PublishHead h claim cp) (snd (publish sha256 h claim cp s))"
| st_torn_publish: "may_publish s claim cp \<Longrightarrow>
    tstep sha256 s (TornPublish h claim cp) (keep_active s (snd (publish sha256 h claim cp s)))"
| st_recover: "tstep sha256 s Recover (snd (recover sha256 s))"
| st_torn_recover: "tstep sha256 s TornRecover (keep_active s (snd (recover sha256 s)))"

inductive_cases tstepE: "tstep sha256 s e t"

subsection \<open>Reading is monotone\<close>

lemma lookup_contract_iff:
  "lookup_contract sha256 n d s = Inr (Some c) \<longleftrightarrow>
     n \<in> set CONTRACT_TYPES \<and> is_digest d \<and> ts_objects s (n, d) = Some (FContract c) \<and>
     contract_name c = n \<and> contract_digest c = d \<and> contract_error sha256 c = None \<and>
     canonical_contract c = c"
  using lookup_contract_valid [of sha256 n d s c]
  by (auto simp: lookup_contract_def object_path_def parse_contract_file_def)

lemma completion_object_iff:
  "completion_object sha256 d s = Inr (Some c) \<longleftrightarrow>
     lookup_contract sha256 ''clock-completion-receipt'' d s = Inr (Some (CCompletion c))"
  by (auto simp: completion_object_def split: sum.splits option.splits Contract.splits)

lemma active_of_None_iff: "active_of sha256 s = Inr None \<longleftrightarrow> ts_active s = None"
  by (auto simp: active_of_def split: sum.splits option.splits Contract.splits)

lemma active_of_Some_iff:
  "active_of sha256 s = Inr (Some c) \<longleftrightarrow>
     (\<exists>f d. ts_active s = Some f \<and> claim_digest_field f = Inr d \<and>
        lookup_contract sha256 ''clock-claim'' d s = Inr (Some (CClaim c)))"
  by (auto simp: active_of_def split: sum.splits option.splits Contract.splits)

lemma lookup_contract_mono:
  "lookup_contract sha256 n d s = Inr (Some c) \<Longrightarrow> grows s t \<Longrightarrow>
     lookup_contract sha256 n d t = Inr (Some c)"
  unfolding lookup_contract_iff using growsD(1) by blast

lemma completion_object_mono:
  "completion_object sha256 d s = Inr (Some c) \<Longrightarrow> grows s t \<Longrightarrow>
     completion_object sha256 d t = Inr (Some c)"
  unfolding completion_object_iff by (rule lookup_contract_mono)

lemma chain_loop_mono:
  "chain_loop sha256 s d n acc = Inr cs \<Longrightarrow> grows s t \<Longrightarrow>
     chain_loop sha256 t d n acc = Inr cs"
proof (induction sha256 s d n acc arbitrary: cs rule: chain_loop.induct)
  case (2 sha256 s digest expected acc)
  from "2.prems"(1) obtain c where c: "completion_object sha256 digest s = Inr (Some c)"
    "cp_clock_sequence c = expected"
    "chain_loop sha256 s (cp_previous_completion_digest c) (expected - 1) (c # acc) = Inr cs"
    by (auto split: sum.splits option.splits if_splits)
  from "2.IH" [OF c(1) refl _ c(3) "2.prems"(2)] c(2) completion_object_mono [OF c(1) "2.prems"(2)]
  show ?case by simp
qed auto

lemma stored_mono: "stored c s \<Longrightarrow> grows s t \<Longrightarrow> stored c t"
  by (auto simp: stored_def dest: growsD)

lemma claim_at_head_mono:
  "claim_at_head sha256 s h c \<Longrightarrow> grows s t \<Longrightarrow> claim_at_head sha256 t h c"
  unfolding claim_at_head_def using completion_object_mono by blast

lemma active_of_cong:
  assumes "grows s t" and "ts_active t = ts_active s" and "active_of sha256 s = Inr a"
  shows "active_of sha256 t = Inr a"
proof (cases a)
  case None
  then show ?thesis using assms(2,3) by (simp add: active_of_None_iff)
next
  case (Some c)
  then show ?thesis using assms(2,3) lookup_contract_mono [OF _ assms(1)]
    by (auto simp: active_of_Some_iff)
qed

lemma head_of_cong: "ts_head t = ts_head s \<Longrightarrow> head_of t = head_of s"
  by (simp add: head_of_def)

lemma chain_of_mono:
  assumes "chain_of sha256 s = Inr cs" and "grows s t" and "ts_head t = ts_head s"
  shows "chain_of sha256 t = Inr cs"
  using assms(1) chain_loop_mono [OF _ assms(2)]
  by (auto simp: chain_of_def head_of_cong [OF assms(3)] split: sum.splits)

text \<open>A change that keeps the head and either keeps the active claim or removes it.\<close>

lemma store_ok_frame:
  assumes "store_ok sha256 s" and "grows s t" and "ts_head t = ts_head s"
    and "ts_active t \<in> {ts_active s, None}" and "objects_ok sha256 t" and "attempts_ok t"
  shows "store_ok sha256 t"
proof -
  obtain a h where a: "active_of sha256 s = Inr a" "head_of s = Inr h"
    "case a of None \<Rightarrow> True | Some c \<Rightarrow> claim_at_head sha256 s h c"
    using assms(1) by (auto simp: store_ok_def active_ok_def)
  have "active_ok sha256 t"
  proof (cases "ts_active t = None")
    case True
    then show ?thesis using a(2)
      by (simp add: active_ok_def active_of_def head_of_cong [OF assms(3)])
  next
    case False
    then have "active_of sha256 t = Inr a" using active_of_cong [OF assms(2) _ a(1)] assms(4) by auto
    then show ?thesis using a(2,3) claim_at_head_mono [OF _ assms(2)]
      by (auto simp: active_ok_def head_of_cong [OF assms(3)] split: option.splits)
  qed
  moreover have "committed_ok sha256 t"
    using assms(1) chain_of_mono [OF _ assms(2,3)] by (auto simp: store_ok_def committed_ok_def)
  ultimately show ?thesis using assms(5,6) by (simp add: store_ok_def)
qed

end
