(* ===== verification/Temporal_Steps.thy ===== *)
theory Temporal_Steps
  imports Temporal_Machine
begin

section \<open>Every atomic step keeps the store\<close>

text \<open>
  The invariant of the store is kept by each atomic step, and each step extends the committed
  chain by at most one completion. The machine interface is interpreted on the step relation, so
  that both hold along every interleaving of processes and crashes.
\<close>

subsection \<open>Installing files\<close>

text \<open>A step that only adds valid files.\<close>

definition filed :: "hash \<Rightarrow> TemporalFiles \<Rightarrow> TemporalFiles \<Rightarrow> bool" where
  "filed sha256 s t \<longleftrightarrow> grows s t \<and> ts_head t = ts_head s \<and> ts_active t = ts_active s \<and>
     (objects_ok sha256 s \<and> attempts_ok s \<longrightarrow> objects_ok sha256 t \<and> attempts_ok t)"

interpretation filing: effect_order "filed sha256" for sha256
  by unfold_locales (auto simp: filed_def growth.refl intro: growth.trans)

lemma objects_okD:
  assumes "objects_ok sha256 s" and "ts_objects s (n, d) = Some f"
  obtains c where "f = FContract c" and "lookup_contract sha256 n d s = Inr (Some c)"
  using assms unfolding objects_ok_def by blast

lemma attempts_okD: "attempts_ok s \<Longrightarrow> ts_attempts s q = Some (FContract c) \<Longrightarrow> stored c s"
  unfolding attempts_ok_def by blast

lemma objects_okI:
  assumes "objects_ok sha256 s" and "grows s t"
    and "\<And>n d f. ts_objects t (n, d) = Some f \<Longrightarrow> ts_objects s (n, d) = None \<Longrightarrow>
      \<exists>c. f = FContract c \<and> lookup_contract sha256 n d t = Inr (Some c)"
  shows "objects_ok sha256 t"
  unfolding objects_ok_def
proof (intro allI impI)
  fix n d f assume f: "ts_objects t (n, d) = Some f"
  show "\<exists>c. f = FContract c \<and> lookup_contract sha256 n d t = Inr (Some c)"
  proof (cases "ts_objects s (n, d)")
    case None
    with f show ?thesis by (rule assms(3))
  next
    case (Some g)
    from objects_okD [OF assms(1) Some] obtain c
      where "g = FContract c" "lookup_contract sha256 n d s = Inr (Some c)" .
    then show ?thesis using lookup_contract_mono [OF _ assms(2)] growsD(1) [OF assms(2) Some] f
      by auto
  qed
qed

lemma attempts_ok_mono:
  assumes "attempts_ok s" and "grows s t"
    and "\<And>q c. ts_attempts t q = Some (FContract c) \<Longrightarrow> ts_attempts s q = None \<Longrightarrow> stored c t"
  shows "attempts_ok t"
  unfolding attempts_ok_def
proof (intro allI impI)
  fix q c assume c: "ts_attempts t q = Some (FContract c)"
  show "stored c t"
  proof (cases "ts_attempts s q")
    case None
    with c show ?thesis by (rule assms(3))
  next
    case (Some f)
    then have "stored c s" using c growsD(2) [OF assms(2) Some] attempts_okD [OF assms(1)]
      by simp
    then show ?thesis using assms(2) by (rule stored_mono)
  qed
qed

lemma put_contract_cases:
  obtains (same) "snd (put_contract c s) = s"
  | (new) "ts_objects s (contract_name c, contract_digest c) = None" "is_digest (contract_digest c)"
      "snd (put_contract c s) = s\<lparr>ts_objects := (ts_objects s)
        ((contract_name c, contract_digest c) \<mapsto> FContract (canonical_contract c))\<rparr>"
proof (cases "is_digest (contract_digest c)")
  case False
  then have "snd (put_contract c s) = s" by (simp add: put_contract_def object_path_def seq_read)
  then show thesis by (rule same)
next
  case True
  then show thesis using same new
    by (cases "ts_objects s (contract_name c, contract_digest c)")
      (simp_all add: put_contract_def object_path_def install_object_def seq_read)
qed

lemma put_contract_stored:
  "put_contract c s = (Inr u, t) \<Longrightarrow> stored (canonical_contract c) t"
  by (auto simp: put_contract_def object_path_def install_object_def stored_def seq_op_Inr
      split: if_splits option.splits)

lemma put_contract_filed:
  assumes "contract_error sha256 c = None"
  shows "filed sha256 s (snd (put_contract c s))"
proof (cases rule: put_contract_cases [of c s])
  case same
  then show ?thesis by (simp add: filing.refl)
next
  case new
  let ?t = "snd (put_contract c s)"
  have g: "grows s ?t" by (rule growth.conservesD [OF put_grows])
  have "objects_ok sha256 ?t" if "objects_ok sha256 s"
  proof (rule objects_okI [OF that g])
    fix n d f assume "ts_objects ?t (n, d) = Some f" "ts_objects s (n, d) = None"
    then have "n = contract_name c" "d = contract_digest c" "f = FContract (canonical_contract c)"
      using new(3) by (auto split: if_splits)
    then show "\<exists>c. f = FContract c \<and> lookup_contract sha256 n d ?t = Inr (Some c)"
      using new assms by (simp add: lookup_contract_iff)
  qed
  moreover have "attempts_ok ?t" if "attempts_ok s"
    using that g by (rule attempts_ok_mono) (use new(3) in auto)
  ultimately show ?thesis using new(3) g by (simp add: filed_def)
qed

lemma install_attempt_filed:
  assumes "\<And>c. f = FContract c \<Longrightarrow> stored c s"
  shows "filed sha256 s (snd (install_attempt q f s))"
proof -
  let ?t = "snd (install_attempt q f s)"
  have g: "grows s ?t" by (rule growth.conservesD [OF install_grows(2)])
  have t: "ts_objects ?t = ts_objects s \<and> ts_head ?t = ts_head s \<and> ts_active ?t = ts_active s \<and>
    (\<forall>p h. ts_attempts ?t p = Some h \<longrightarrow> ts_attempts s p = None \<longrightarrow> h = f)"
    by (auto simp: install_attempt_def split: option.splits if_splits)
  have "objects_ok sha256 ?t" if "objects_ok sha256 s"
    using that g by (rule objects_okI) (use t in auto)
  moreover have "attempts_ok ?t" if "attempts_ok s"
    using that g by (rule attempts_ok_mono) (use t assms stored_mono [OF _ g] in blast)
  ultimately show ?thesis using t g by (simp add: filed_def)
qed

lemma record_attempt_filed:
  assumes "contract_error sha256 c = None"
  shows "filed sha256 s (snd (record_attempt_artifact sha256 a n c s))"
proof (cases "is_path_token a \<and> is_path_token n")
  case False
  then show ?thesis
    by (auto simp: record_attempt_artifact_def token_check_def seq_read filing.refl)
next
  case True
  obtain r t where put: "put_contract c s = (r, t)" by fastforce
  then have t: "filed sha256 s t" using put_contract_filed [OF assms, of s] by simp
  show ?thesis
  proof (cases r)
    case (Inl e)
    then show ?thesis using True put t
      by (simp add: record_attempt_artifact_def token_check_def seq_read)
  next
    case (Inr u)
    then have "stored (canonical_contract c) t" using put put_contract_stored by blast
    then have "filed sha256 t (snd (install_attempt q (FContract (canonical_contract c)) t))" for q
      by (intro install_attempt_filed) auto
    then show ?thesis using True put t Inr
      by (auto simp: record_attempt_artifact_def token_check_def seq_read attempt_directory_def
          intro: filing.trans)
  qed
qed

lemma record_bundle_filed:
  "filed sha256 s (snd (record_projection_artifacts sha256 claim r arts s))"
  by (auto simp: record_projection_artifacts_def seq_read filing.refl
      split: sum.splits intro!: install_attempt_filed)

lemma filed_store_ok: "filed sha256 s t \<Longrightarrow> store_ok sha256 s \<Longrightarrow> store_ok sha256 t"
  by (rule store_ok_frame) (auto simp: filed_def store_ok_def)

subsection \<open>Locked bodies\<close>

lemma head_of_file: "temporal_head n d = Inr h \<Longrightarrow> ts_head t = Some (head_file h) \<Longrightarrow> head_of t = Inr h"
  by (auto simp: head_of_def parse_head_def head_file_def temporal_head_def split: if_splits)

lemma temporal_head_Inr:
  "temporal_head n d = Inr h \<Longrightarrow> th_clock_sequence h = n \<and> th_completion_digest h = d"
  by (auto simp: temporal_head_def split: if_splits)

lemma active_claim_stored:
  assumes "active_of sha256 s = Inr (Some a)"
  shows "stored (CClaim a) s" and "contract_error sha256 (CClaim a) = None"
    and "cc_proposed_sequence a = cc_previous_committed_sequence a + 1"
proof -
  show "stored (CClaim a) s" and *: "contract_error sha256 (CClaim a) = None"
    using assms by (auto simp: active_of_Some_iff lookup_contract_iff stored_def)
  show "cc_proposed_sequence a = cc_previous_committed_sequence a + 1"
    using contract_error_valid(2) [OF *] by (simp split: if_splits)
qed

lemma stored_same_claim:
  "stored (CClaim a) s \<Longrightarrow> stored (CClaim c) s \<Longrightarrow> cc_digest a = cc_digest c \<Longrightarrow> a = c"
  by (simp add: stored_def)

lemma store_okD:
  assumes "store_ok sha256 s"
  obtains cs a h where "objects_ok sha256 s" "attempts_ok s" "chain_of sha256 s = Inr cs"
    "active_of sha256 s = Inr a" "head_of s = Inr h"
    "\<And>c. a = Some c \<Longrightarrow> claim_at_head sha256 s h c"
  using assms unfolding store_ok_def committed_ok_def active_ok_def by (auto split: option.splits)

lemma clear_active_ok:
  assumes "store_ok sha256 s" shows "store_ok sha256 (s\<lparr>ts_active := None\<rparr>)"
proof -
  let ?t = "s\<lparr>ts_active := None\<rparr>"
  have g: "grows s ?t" by (simp add: grows_def)
  have "objects_ok sha256 ?t" "attempts_ok ?t"
    using assms g by (auto simp: store_ok_def intro: objects_okI attempts_ok_mono)
  then show ?thesis using store_ok_frame [OF assms g] by simp
qed

lemma claim_locked_eq:
  "claim_locked sha256 h claim s =
     (case head_of s of
        Inl e \<Rightarrow> (Inl e, s)
      | Inr cur \<Rightarrow>
          if cur \<noteq> h then (Inr \<lparr>ci_claim = claim, ci_acquired = False,
            ci_reason = ''STALE_EXPECTED_HEAD''\<rparr>, s)
          else (case active_of sha256 s of
            Inl e \<Rightarrow> (Inl e, s)
          | Inr (Some c) \<Rightarrow> (Inr (if cc_digest c = cc_digest claim
              then \<lparr>ci_claim = claim, ci_acquired = True, ci_reason = ''IDEMPOTENT_ACTIVE_CLAIM''\<rparr>
              else \<lparr>ci_claim = claim, ci_acquired = False,
                ci_reason = ''ACTIVE_SUCCESSOR_EXISTS''\<rparr>), s)
          | Inr None \<Rightarrow> (Inr \<lparr>ci_claim = claim, ci_acquired = True,
              ci_reason = ''CLAIM_ACQUIRED''\<rparr>,
              s\<lparr>ts_active := Some (FActive (cc_digest claim))\<rparr>)))"
  by (auto simp: claim_locked_def read_head_def read_active_def replace_active_def seq_read
      split: sum.split option.split)

lemma claim_locked_cases:
  obtains (same) "snd (claim_locked sha256 h claim s) = s"
  | (claimed) "head_of s = Inr h" "active_of sha256 s = Inr None"
      "snd (claim_locked sha256 h claim s) = s\<lparr>ts_active := Some (FActive (cc_digest claim))\<rparr>"
proof (cases "head_of s = Inr h \<and> active_of sha256 s = Inr None")
  case True
  then show thesis by (intro claimed) (simp_all add: claim_locked_eq)
next
  case False
  then show thesis
    by (intro same) (auto simp: claim_locked_eq split: sum.split option.split)
qed

lemma acquire_ok:
  assumes "store_ok sha256 s" and "verify_claim h claim = Inr ()" and "stored (CClaim claim) s"
  shows "store_ok sha256 (snd (claim_locked sha256 h claim s))"
proof (cases rule: claim_locked_cases [of sha256 h claim s])
  case same
  then show ?thesis using assms(1) by simp
next
  case claimed
  let ?t = "s\<lparr>ts_active := Some (FActive (cc_digest claim))\<rparr>"
  from store_okD [OF assms(1)] obtain cs where ok: "objects_ok sha256 s" "attempts_ok s"
    "chain_of sha256 s = Inr cs" by blast
  have g: "grows s ?t" by (simp add: grows_def)
  from objects_okD [OF ok(1)] assms(3)
  have "lookup_contract sha256 ''clock-claim'' (cc_digest claim) s = Inr (Some (CClaim claim))"
    by (fastforce simp: stored_def)
  then have "active_of sha256 ?t = Inr (Some claim)"
    using lookup_contract_mono [OF _ g] by (simp add: active_of_Some_iff)
  moreover have "claim_at_head sha256 ?t h claim"
    using assms(2) by (auto simp: verify_claim_def claim_at_head_def split: if_splits)
  moreover have "head_of ?t = Inr h" using claimed(1) by (simp add: head_of_def)
  ultimately have "active_ok sha256 ?t" by (simp add: active_ok_def)
  moreover have "chain_of sha256 ?t = Inr cs" using chain_of_mono [OF ok(3) g] by simp
  moreover have "objects_ok sha256 ?t" "attempts_ok ?t"
    using ok(1,2) g by (auto intro: objects_okI attempts_ok_mono)
  ultimately show ?thesis using claimed(3) by (simp add: store_ok_def committed_ok_def)
qed

lemma failure_locked_cases:
  obtains (same) e where "failure_locked sha256 claim s = (Inl e, s)"
  | (retired) a where "active_of sha256 s = Inr (Some a)" "cc_digest a = cc_digest claim"
      "failure_locked sha256 claim s = (Inr (), s\<lparr>ts_active := None\<rparr>)"
proof (cases "active_of sha256 s")
  case (Inl e)
  then show thesis using same by (simp add: failure_locked_def read_active_def seq_read)
next
  case (Inr a)
  then show thesis using same retired
    by (cases "owns a claim")
      (auto simp: failure_locked_def read_active_def seq_read clear_active_def owns_def
        split: option.splits)
qed

lemma retire_ok:
  "store_ok sha256 s \<Longrightarrow> store_ok sha256 (snd (failure_locked sha256 claim s))"
  by (cases rule: failure_locked_cases [of sha256 claim s]) (auto intro: clear_active_ok)

lemma publish_cases:
  obtains (raised) e where "publish sha256 h claim cp s = (Inl e, s)"
  | (again) cur where "head_of s = Inr cur" "th_clock_sequence cur = cp_clock_sequence cp"
      "th_completion_digest cur = Some (cp_digest cp)"
      "publish sha256 h claim cp s = (Inr cur, s\<lparr>ts_active := None\<rparr>)"
  | (advanced) a new where "head_of s = Inr h" "th_clock_sequence h \<noteq> cp_clock_sequence cp"
      "active_of sha256 s = Inr (Some a)" "cc_digest a = cc_digest claim"
      "temporal_head (cp_clock_sequence cp) (Some (cp_digest cp)) = Inr new"
      "publish sha256 h claim cp s =
         (Inr new, s\<lparr>ts_head := Some (head_file new), ts_active := None\<rparr>)"
proof (cases "head_of s")
  case (Inl e)
  then show thesis using raised by (simp add: publish_def read_head_def seq_read)
next
  case (Inr cur)
  note head = Inr
  show thesis
  proof (cases "th_clock_sequence cur = cp_clock_sequence cp")
    case True
    then show thesis using head raised again
      by (cases "th_completion_digest cur = Some (cp_digest cp)")
        (simp_all add: publish_def read_head_def seq_read clear_active_def)
  next
    case False
    note seq = False
    show thesis
    proof (cases "cur = h \<and> (\<exists>a. active_of sha256 s = Inr (Some a) \<and> cc_digest a = cc_digest claim)")
      case False
      then have "\<exists>e. publish sha256 h claim cp s = (Inl e, s)"
        using head seq by (cases "active_of sha256 s")
          (auto simp: publish_def read_head_def read_active_def seq_read owns_def
            split: option.splits)
      then show thesis using raised by blast
    next
      case True
      then obtain a where a: "active_of sha256 s = Inr (Some a)" "cc_digest a = cc_digest claim"
        and cur: "cur = h" by blast
      show thesis
      proof (cases "temporal_head (cp_clock_sequence cp) (Some (cp_digest cp))")
        case (Inl e)
        then have "publish sha256 h claim cp s = (Inl e, s)" using head seq a cur
          by (simp add: publish_def read_head_def read_active_def seq_read owns_def)
        then show thesis by (rule raised)
      next
        case (Inr new)
        then have "publish sha256 h claim cp s =
            (Inr new, s\<lparr>ts_head := Some (head_file new), ts_active := None\<rparr>)"
          using head seq a cur
          by (simp add: publish_def read_head_def read_active_def seq_read owns_def
              replace_head_def clear_active_def)
        then show thesis using advanced head seq a cur Inr by blast
      qed
    qed
  qed
qed

subsection \<open>Publication extends the chain\<close>

lemma chain_loop_acc:
  "chain_loop sha256 s d n acc = Inr cs \<Longrightarrow>
     chain_loop sha256 s d n (acc @ tail) = Inr (cs @ tail)"
proof (induction sha256 s d n acc arbitrary: cs rule: chain_loop.induct)
  case (2 sha256 s digest expected acc)
  from "2.prems" obtain c where c: "completion_object sha256 digest s = Inr (Some c)"
    "cp_clock_sequence c = expected"
    "chain_loop sha256 s (cp_previous_completion_digest c) (expected - 1) (c # acc) = Inr cs"
    by (auto split: sum.splits option.splits if_splits)
  from "2.IH" [OF c(1) refl _ c(3)] c(1,2) show ?case by simp
qed (auto split: if_splits)

definition advances :: "hash \<Rightarrow> TemporalFiles \<Rightarrow> TemporalFiles \<Rightarrow> bool" where
  "advances sha256 s t \<longleftrightarrow> grows s t \<and>
     (\<forall>cs. chain_of sha256 s = Inr cs \<longrightarrow> (\<exists>ds. chain_of sha256 t = Inr (cs @ ds)))"

lemma advances_refl: "advances sha256 s s"
  by (simp add: advances_def growth.refl)

lemma advances_trans: "advances sha256 s t \<Longrightarrow> advances sha256 t u \<Longrightarrow> advances sha256 s u"
  unfolding advances_def by (metis append.assoc growth.trans)

lemma same_head_advances:
  "grows s t \<Longrightarrow> ts_head t = ts_head s \<Longrightarrow> advances sha256 s t"
  unfolding advances_def by (metis append_Nil2 chain_of_mono)

lemma filed_advances: "filed sha256 s t \<Longrightarrow> advances sha256 s t"
  by (rule same_head_advances) (auto simp: filed_def)

lemma keep_active_advances: "advances sha256 s t \<Longrightarrow> advances sha256 s (keep_active s t)"
  by (erule advances_trans [OF _ same_head_advances]) (simp_all add: keep_active_def grows_def)

text \<open>The completion that a publication commits.\<close>

lemma published_completion:
  assumes "may_publish s claim cp" and "objects_ok sha256 s"
  obtains c where "canonical_contract (CCompletion cp) = CCompletion c"
    "completion_object sha256 (cp_digest cp) s = Inr (Some c)"
    "cp_clock_sequence c = cc_proposed_sequence claim" "cp_digest c = cp_digest cp"
    "cp_clock_sequence cp = cc_proposed_sequence claim"
    "cp_previous_completion_digest c = cc_previous_completion_digest claim"
    "cp_clock_claim_digest c = cc_digest claim"
proof -
  obtain c where c: "canonical_contract (CCompletion cp) = CCompletion c"
    "cp_clock_sequence c = cp_clock_sequence cp" "cp_digest c = cp_digest cp"
    "cp_previous_completion_digest c = cp_previous_completion_digest cp"
    "cp_clock_claim_digest c = cp_clock_claim_digest cp"
    by simp
  have "ts_objects s (''clock-completion-receipt'', cp_digest cp) = Some (FContract (CCompletion c))"
    using assms(1) c(1,3) by (simp add: may_publish_def stored_def)
  from objects_okD [OF assms(2) this] have "completion_object sha256 (cp_digest cp) s = Inr (Some c)"
    by (auto simp: completion_object_iff)
  moreover have "cp_clock_sequence cp = cc_proposed_sequence claim"
    "cp_previous_completion_digest cp = cc_previous_completion_digest claim"
    "cp_clock_claim_digest cp = cc_digest claim"
    using assms(1) by (auto simp: may_publish_def verify_completion_def split: if_splits)
  ultimately show thesis using that c by simp
qed

lemma advanced_ok:
  assumes "store_ok sha256 s" and "may_publish s claim cp" and "head_of s = Inr h"
    and "th_clock_sequence h \<noteq> cp_clock_sequence cp"
    and "active_of sha256 s = Inr (Some a)" and "cc_digest a = cc_digest claim"
    and "temporal_head (cp_clock_sequence cp) (Some (cp_digest cp)) = Inr new"
  defines "t \<equiv> s\<lparr>ts_head := Some (head_file new)\<rparr>"
  shows "store_ok sha256 t" and "advances sha256 s t"
proof -
  obtain cs where ok: "objects_ok sha256 s" "attempts_ok s" "chain_of sha256 s = Inr cs"
    and at: "claim_at_head sha256 s h a"
    using store_okD [OF assms(1)] assms(3,5) by (metis Inr_inject)
  obtain c where c: "completion_object sha256 (cp_digest cp) s = Inr (Some c)"
    "cp_clock_sequence c = cc_proposed_sequence claim"
    "cp_clock_sequence cp = cc_proposed_sequence claim"
    "cp_previous_completion_digest c = cc_previous_completion_digest claim"
    "cp_clock_claim_digest c = cc_digest claim"
    using published_completion [OF assms(2) ok(1)] by metis
  have a: "a = claim"
    using stored_same_claim [OF active_claim_stored(1) [OF assms(5)] _ assms(6)] assms(2)
    by (simp add: may_publish_def)
  have prev: "cc_previous_committed_sequence claim = th_clock_sequence h"
    "cc_previous_completion_digest claim = th_completion_digest h"
    using at assms(4) c(3) a by (auto simp: claim_at_head_def)
  have g: "grows s t" and act: "ts_active t = ts_active s" by (simp_all add: grows_def t_def)
  have head: "head_of t = Inr new" by (rule head_of_file [OF assms(7)]) (simp add: t_def)
  have new: "th_clock_sequence new = cp_clock_sequence cp"
    "th_completion_digest new = Some (cp_digest cp)"
    using temporal_head_Inr [OF assms(7)] by simp_all
  have obj: "completion_object sha256 (cp_digest cp) t = Inr (Some c)"
    using completion_object_mono [OF c(1) g] .
  have "chain_loop sha256 s (th_completion_digest h) (th_clock_sequence h) [] = Inr cs"
    using ok(3) assms(3) by (simp add: chain_of_def)
  from chain_loop_mono [OF chain_loop_acc [OF this, of "[c]"] g]
  have "chain_of sha256 t = Inr (cs @ [c])"
    using active_claim_stored(3) [OF assms(5)] a prev c obj head new by (simp add: chain_of_def)
  then show "advances sha256 s t" using g ok(3) by (simp add: advances_def)
  have "claim_at_head sha256 t new a"
    unfolding claim_at_head_def using c(3,5) a obj new by simp
  moreover have "active_of sha256 t = Inr (Some a)" using active_of_cong [OF g act assms(5)] .
  ultimately have "active_ok sha256 t" using head by (simp add: active_ok_def)
  moreover have "objects_ok sha256 t" "attempts_ok t"
    using ok(1,2) g by (auto simp: t_def intro: objects_okI attempts_ok_mono)
  ultimately show "store_ok sha256 t"
    using \<open>chain_of sha256 t = Inr (cs @ [c])\<close> by (simp add: store_ok_def committed_ok_def)
qed

lemma publish_ok:
  fixes h :: TemporalHead
  assumes "store_ok sha256 s" and "may_publish s claim cp"
  defines "t \<equiv> snd (publish sha256 h claim cp s)"
  shows "store_ok sha256 t" and "store_ok sha256 (keep_active s t)" and "advances sha256 s t"
proof -
  have "store_ok sha256 t \<and> store_ok sha256 (keep_active s t) \<and> advances sha256 s t"
  proof (cases rule: publish_cases [of sha256 h claim cp s])
    case (raised e)
    then show ?thesis using assms(1) by (simp add: t_def keep_active_def advances_refl)
  next
    case (again cur)
    then have t: "t = s\<lparr>ts_active := None\<rparr>" by (simp add: t_def)
    then have "advances sha256 s t" by (intro same_head_advances) (auto simp: grows_def)
    then show ?thesis using assms(1) clear_active_ok t by (simp add: keep_active_def)
  next
    case (advanced a new)
    note ok = advanced_ok [OF assms(1,2) advanced(1-5)]
    have t: "t = (s\<lparr>ts_head := Some (head_file new)\<rparr>)\<lparr>ts_active := None\<rparr>"
      using advanced(6) by (simp add: t_def)
    have "advances sha256 (s\<lparr>ts_head := Some (head_file new)\<rparr>) t"
      unfolding t by (intro same_head_advances) (auto simp: grows_def)
    then have "advances sha256 s t" using ok(2) advances_trans by blast
    moreover have "store_ok sha256 t" unfolding t by (rule clear_active_ok [OF ok(1)])
    moreover have "keep_active s t = s\<lparr>ts_head := Some (head_file new)\<rparr>"
      by (simp add: t keep_active_def)
    ultimately show ?thesis using ok(1) by simp
  qed
  then show "store_ok sha256 t" and "store_ok sha256 (keep_active s t)" and "advances sha256 s t"
    by blast+
qed

subsection \<open>Recovery\<close>

lemma check_semantic_same: "check_semantic sha256 dir cp m s = (r, t) \<Longrightarrow> t = s"
  by (metis check_semantic_pure snd_conv)

lemma verify_prepared_pure:
  "verify_prepared sha256 claim cp s = (r, t) \<Longrightarrow>
     t = s \<and> (r = Inr () \<longrightarrow> verify_completion claim cp = Inr ())"
  by (auto simp: verify_prepared_def seq_read read_attempt_def split: sum.splits option.splits
      dest: check_semantic_same)

lemma recover_prepared_cases:
  assumes "store_ok sha256 s" and "active_of sha256 s = Inr (Some claim)"
    and "ts_attempts s q = Some f"
  obtains (raised) e where "recover_prepared sha256 claim f s = (Inl e, s)"
  | (publishing) h cp where "may_publish s claim cp"
      "snd (recover_prepared sha256 claim f s) = snd (publish sha256 h claim cp s)"
      "f = FContract (CCompletion cp)"
      "temporal_head (cc_previous_committed_sequence claim)
         (cc_previous_completion_digest claim) = Inr h"
proof (cases "parse_contract_file sha256 ''clock-completion-receipt'' f")
  case (Inl e)
  then show thesis using raised by (simp add: recover_prepared_def seq_read)
next
  case (Inr c)
  then obtain cp where c: "c = CCompletion cp" "f = FContract c" "canonical_contract c = c"
    by (cases c) (auto simp: parse_contract_file_def split: FileContent.splits if_splits)
  obtain r u where v: "verify_prepared sha256 claim cp s = (r, u)" by fastforce
  note pure = verify_prepared_pure [OF v]
  show thesis
  proof (cases r)
    case (Inl e)
    then show thesis using raised Inr c v pure by (simp add: recover_prepared_def seq_read)
  next
    case r: (Inr x)
    show thesis
    proof (cases "temporal_head (cc_previous_committed_sequence claim)
        (cc_previous_completion_digest claim)")
      case (Inl e)
      then show thesis using raised Inr c v pure r by (simp add: recover_prepared_def seq_read)
    next
      case h: (Inr h)
      have "may_publish s claim cp"
        using pure r c active_claim_stored(1) [OF assms(2)] attempts_okD [of s q c] assms(1,3)
        by (simp add: may_publish_def store_ok_def)
      moreover have "snd (recover_prepared sha256 claim f s) = snd (publish sha256 h claim cp s)"
        using Inr c v pure r h
        by (auto simp: recover_prepared_def seq_read seq_op_def split: prod.splits sum.splits)
      ultimately show thesis using publishing c h by blast
    qed
  qed
qed

lemma recovery_failure_valid:
  "recovery_failure sha256 claim = Inr c \<Longrightarrow> contract_error sha256 c = None"
  by (auto simp: recovery_failure_def contract_res_def dest: build_contract_valid
      split: sum.splits)

lemma recover_incomplete_filed:
  obtains (raised) "filed sha256 s (snd (recover_incomplete sha256 claim s))"
      "\<exists>e. fst (recover_incomplete sha256 claim s) = Inl e"
  | (failed) t where "filed sha256 s t"
      "recover_incomplete sha256 claim s =
         (Inr ''INCOMPLETE_ATTEMPT_FAILED'', t\<lparr>ts_active := None\<rparr>)"
proof (cases "recovery_failure sha256 claim")
  case (Inl e)
  then show thesis using raised by (simp add: recover_incomplete_def seq_read filing.refl)
next
  case (Inr c)
  show thesis
  proof (cases "claim_attempt claim")
    case (Inl e)
    then show thesis using raised Inr by (simp add: recover_incomplete_def seq_read filing.refl)
  next
    case a: (Inr a)
    obtain r t where rec: "record_attempt_artifact sha256 a ''failure'' c s = (r, t)" by fastforce
    then have t: "filed sha256 s t"
      using record_attempt_filed [OF recovery_failure_valid [OF Inr], of s a "''failure''"] by simp
    show thesis
    proof (cases r)
      case (Inl e)
      then show thesis using raised rec t a \<open>recovery_failure sha256 claim = Inr c\<close>
        by (simp add: recover_incomplete_def seq_read)
    next
      case (Inr u)
      then show thesis using failed rec t a \<open>recovery_failure sha256 claim = Inr c\<close>
        by (simp add: recover_incomplete_def seq_read clear_active_def)
    qed
  qed
qed

lemma recover_cases:
  assumes "store_ok sha256 s"
  obtains (idle) "active_of sha256 s = Inr None" "recover sha256 s = (Inr ''NO_ACTIVE_CLAIM'', s)"
  | (raised) e where "recover sha256 s = (Inl e, s)"
  | (prepared) claim dir f where "active_of sha256 s = Inr (Some claim)"
      "claim_directory sha256 claim = Inr dir" "ts_attempts s (dir, ''completion.json'') = Some f"
      "recover sha256 s = recover_prepared sha256 claim f s"
  | (incomplete) claim dir where "active_of sha256 s = Inr (Some claim)"
      "claim_directory sha256 claim = Inr dir" "ts_attempts s (dir, ''completion.json'') = None"
      "recover sha256 s = recover_incomplete sha256 claim s"
proof -
  obtain a where a: "active_of sha256 s = Inr a" using store_okD [OF assms] by metis
  show thesis
  proof (cases a)
    case None
    then show thesis using idle a by (simp add: recover_def read_active_def seq_read)
  next
    case (Some claim)
    show thesis
    proof (cases "claim_directory sha256 claim")
      case (Inl e)
      then show thesis using raised a Some by (simp add: recover_def read_active_def seq_read)
    next
      case (Inr dir)
      then show thesis using prepared incomplete a Some
        by (cases "ts_attempts s (dir, ''completion.json'')")
          (simp_all add: recover_def read_active_def seq_read)
    qed
  qed
qed

lemma recover_ok:
  assumes "store_ok sha256 s"
  defines "t \<equiv> snd (recover sha256 s)"
  shows "store_ok sha256 t" and "store_ok sha256 (keep_active s t)" and "advances sha256 s t"
proof -
  have "store_ok sha256 t \<and> store_ok sha256 (keep_active s t) \<and> advances sha256 s t"
    using assms(1)
  proof (cases rule: recover_cases)
    case (prepared claim dir f)
    from assms(1) prepared(1,3) show ?thesis
    proof (cases rule: recover_prepared_cases)
      case (raised e)
      then show ?thesis using prepared(4) assms(1)
        by (simp add: t_def keep_active_def advances_refl)
    next
      case (publishing h cp)
      then show ?thesis using prepared(4) publish_ok [OF assms(1) publishing(1), of h]
        by (simp add: t_def)
    qed
  next
    case (incomplete claim dir)
    show ?thesis
    proof (cases rule: recover_incomplete_filed [of sha256 s claim])
      case raised
      then have "filed sha256 s t" using incomplete(4) by (simp add: t_def)
      moreover from this have "keep_active s t = t" by (simp add: keep_active_def filed_def)
      ultimately show ?thesis using filed_store_ok [OF _ assms(1)] filed_advances by metis
    next
      case (failed u)
      then have "keep_active s t = u" "t = u\<lparr>ts_active := None\<rparr>"
        using incomplete(4) by (auto simp: t_def keep_active_def filed_def)
      moreover have u: "store_ok sha256 u" using filed_store_ok [OF failed(1) assms(1)] .
      moreover have "advances sha256 u (u\<lparr>ts_active := None\<rparr>)"
        by (intro same_head_advances) (auto simp: grows_def)
      ultimately show ?thesis
        using clear_active_ok [OF u] filed_advances [OF failed(1)] advances_trans by metis
    qed
  qed (use assms(1) in \<open>simp_all add: t_def keep_active_def advances_refl\<close>)
  then show "store_ok sha256 t" and "store_ok sha256 (keep_active s t)" and "advances sha256 s t"
    by blast+
qed

subsection \<open>The machine\<close>

lemma tstep_ok:
  assumes "tstep sha256 s e t" and "store_ok sha256 s"
  shows "store_ok sha256 t" and "advances sha256 s t"
proof -
  have "store_ok sha256 t \<and> advances sha256 s t"
    using assms(1)
  proof cases
    case (st_put c)
    then show ?thesis using put_contract_filed filed_store_ok [OF _ assms(2)] filed_advances by blast
  next
    case (st_artifact c a n)
    then show ?thesis using record_attempt_filed filed_store_ok [OF _ assms(2)] filed_advances
      by blast
  next
    case (st_bundle claim r arts)
    then show ?thesis using record_bundle_filed filed_store_ok [OF _ assms(2)] filed_advances
      by blast
  next
    case (st_acquire h claim)
    have "advances sha256 s t"
      unfolding st_acquire(2)
      by (intro same_head_advances growth.conservesD claim_grows)
        (cases rule: claim_locked_cases [of sha256 h claim s]; simp)
    then show ?thesis using acquire_ok [OF assms(2)] st_acquire by simp
  next
    case (st_retire claim)
    have "advances sha256 s t"
      unfolding st_retire(2)
      by (intro same_head_advances growth.conservesD failure_grows)
        (cases rule: failure_locked_cases [of sha256 claim s]; simp)
    then show ?thesis using retire_ok [OF assms(2)] st_retire by simp
  next
    case (st_publish claim cp h)
    then show ?thesis using publish_ok [OF assms(2)] by blast
  next
    case (st_torn_publish claim cp h)
    then show ?thesis using publish_ok [OF assms(2)] keep_active_advances by blast
  next
    case st_recover
    then show ?thesis using recover_ok [OF assms(2)] by blast
  next
    case st_torn_recover
    then show ?thesis using recover_ok [OF assms(2)] keep_active_advances by blast
  qed
  then show "store_ok sha256 t" and "advances sha256 s t" by blast+
qed

interpretation temporal: governed_machine "tstep sha256" "store_ok sha256" "advances sha256"
  for sha256
  by unfold_locales (auto intro: tstep_ok advances_refl advances_trans)

lemma empty_store_ok: "store_ok sha256 (open_store empty_directory)"
  by (simp add: store_ok_def objects_ok_def attempts_ok_def committed_ok_def active_ok_def
      open_store_def empty_directory_def chain_of_def head_of_def parse_head_def
      temporal_head_def active_of_def)

end
