(* ===== verification/Temporal_Properties.thy ===== *)
theory Temporal_Properties
  imports Temporal_Steps
begin

section \<open>Properties of the temporal store and its coordinator\<close>

subsection \<open>Reading the chain\<close>

text \<open>What \<^verbatim>\<open>reconstruct_chain\<close> promises: sequences \<open>1..n\<close> in order, each
  receipt citing the digest of the one before it.\<close>

fun linked :: "string option \<Rightarrow> ClockCompletionReceipt list \<Rightarrow> bool" where
  "linked previous [] = True"
| "linked previous (c # cs) =
     (cp_previous_completion_digest c = previous \<and> linked (Some (cp_digest c)) cs)"

definition last_digest :: "ClockCompletionReceipt list \<Rightarrow> string option" where
  "last_digest cs = (if cs = [] then None else Some (cp_digest (last cs)))"

lemma linked_snoc:
  "linked p (cs @ [c]) \<longleftrightarrow> linked p cs \<and>
     cp_previous_completion_digest c = (if cs = [] then p else Some (cp_digest (last cs)))"
  by (induction cs arbitrary: p) auto

lemma chain_loop_sound:
  assumes "chain_loop sha256 s d n acc = Inr cs"
  obtains bs where "cs = bs @ acc" "linked None bs" "d = last_digest bs" "n = int (length bs)"
    "map cp_clock_sequence bs = map (\<lambda>i. int i) [1..<Suc (length bs)]"
    "list_all (\<lambda>c. stored (CCompletion c) s) bs"
  using assms
proof (induction sha256 s d n acc arbitrary: cs thesis rule: chain_loop.induct)
  case (1 sha256 s expected acc)
  then show ?case by (auto simp: last_digest_def split: if_splits)
next
  case (2 sha256 s digest expected acc)
  from "2.prems"(2) obtain c where c: "completion_object sha256 digest s = Inr (Some c)"
    "cp_clock_sequence c = expected"
    "chain_loop sha256 s (cp_previous_completion_digest c) (expected - 1) (c # acc) = Inr cs"
    by (auto split: sum.splits option.splits if_splits)
  have dig: "cp_digest c = digest" and st: "stored (CCompletion c) s"
    using c(1) by (auto simp: completion_object_iff lookup_contract_iff stored_def)
  obtain bs where bs: "cs = bs @ c # acc" "linked None bs"
    "cp_previous_completion_digest c = last_digest bs" "expected - 1 = int (length bs)"
    "map cp_clock_sequence bs = map (\<lambda>i. int i) [1..<Suc (length bs)]"
    "list_all (\<lambda>c. stored (CCompletion c) s) bs"
    by (rule "2.IH" [OF c(1) refl _ _ c(3)]) (use c(2) in auto)
  show ?case
  proof (rule "2.prems"(1))
    show "cs = (bs @ [c]) @ acc" using bs(1) by simp
    show "linked None (bs @ [c])" using bs(2,3) by (simp add: linked_snoc last_digest_def)
    show "Some digest = last_digest (bs @ [c])" by (simp add: last_digest_def dig)
    show "expected = int (length (bs @ [c]))" using bs(4) by simp
    show "map cp_clock_sequence (bs @ [c]) = map (\<lambda>i. int i) [1..<Suc (length (bs @ [c]))]"
      using bs(4,5) c(2) by simp
    show "list_all (\<lambda>c. stored (CCompletion c) s) (bs @ [c])" using bs(6) st by simp
  qed
qed

lemma chain_of_sound:
  assumes "chain_of sha256 s = Inr cs"
  obtains h where "head_of s = Inr h" "linked None cs" "th_completion_digest h = last_digest cs"
    "th_clock_sequence h = int (length cs)"
    "map cp_clock_sequence cs = map (\<lambda>i. int i) [1..<Suc (length cs)]"
proof -
  obtain h where h: "head_of s = Inr h"
    "chain_loop sha256 s (th_completion_digest h) (th_clock_sequence h) [] = Inr cs"
    using assms by (auto simp: chain_of_def split: sum.splits)
  from chain_loop_sound [OF h(2)] that [OF h(1)] show thesis by auto
qed

lemma last_completion_object:
  assumes "chain_of sha256 s = Inr cs" and "cs \<noteq> []"
  shows "completion_object sha256 (cp_digest (last cs)) s = Inr (Some (last cs))"
proof -
  obtain h where h: "head_of s = Inr h"
    "chain_loop sha256 s (th_completion_digest h) (th_clock_sequence h) [] = Inr cs"
    using assms(1) by (auto simp: chain_of_def split: sum.splits)
  from chain_loop_sound [OF h(2)]
  have d: "th_completion_digest h = Some (cp_digest (last cs))"
    using assms(2) by (auto simp: last_digest_def)
  then obtain c where c: "completion_object sha256 (cp_digest (last cs)) s = Inr (Some c)"
    "chain_loop sha256 s (cp_previous_completion_digest c) (th_clock_sequence h - 1) [c] = Inr cs"
    using h(2) by (auto split: sum.splits option.splits if_splits)
  from chain_loop_sound [OF c(2)] have "last cs = c" by (metis last_snoc)
  then show ?thesis using c(1) by simp
qed

lemma run_store_ok:
  "run_of (tstep sha256) (open_store empty_directory) es s \<Longrightarrow> store_ok sha256 s"
  by (rule temporal.run_inv [OF _ empty_store_ok])

text \<open>C25: Whatever sequence of atomic steps has been performed on a store, by any number of
  processes and with crashes anywhere, its committed chain can be reconstructed: the receipts have
  the sequences 1 to n in order, each cites the digest of the one before it and the first cites
  none, the head cites the last, and the snapshot is the last. No step is able to leave a head that
  cannot be read back.\<close>

theorem committed_chain_reads_back:
  assumes "run_of (tstep sha256) (open_store empty_directory) es s"
  shows "\<exists>cs h. reconstruct_chain sha256 s = (Inr cs, s) \<and> read_head s = (Inr h, s) \<and>
    linked None cs \<and> map cp_clock_sequence cs = map (\<lambda>i. int i) [1..<Suc (length cs)] \<and>
    th_clock_sequence h = int (length cs) \<and> th_completion_digest h = last_digest cs \<and>
    current_snapshot sha256 s = (Inr (if cs = [] then None else Some (last cs)), s)"
proof -
  from store_okD [OF run_store_ok [OF assms]] obtain cs where cs: "chain_of sha256 s = Inr cs"
    by blast
  from chain_of_sound [OF cs] obtain h where h: "head_of s = Inr h" "linked None cs"
    "th_completion_digest h = last_digest cs" "th_clock_sequence h = int (length cs)"
    "map cp_clock_sequence cs = map (\<lambda>i. int i) [1..<Suc (length cs)]" .
  have "snapshot_of sha256 s = Inr (if cs = [] then None else Some (last cs))"
    using h(1,3) last_completion_object [OF cs]
    by (auto simp: snapshot_of_def last_digest_def)
  then show ?thesis using cs h
    by (intro exI [of _ cs] exI [of _ h])
      (simp add: reconstruct_chain_def read_head_def current_snapshot_def)
qed

text \<open>C26: History is append-only across processes and crashes: from a reachable store, any
  further steps keep every object and every attempt file byte for byte and only append to the
  committed chain.\<close>

theorem committed_history_append_only:
  assumes "run_of (tstep sha256) (open_store empty_directory) es s"
    and "run_of (tstep sha256) s es' t"
  shows "\<exists>cs ds. chain_of sha256 s = Inr cs \<and> chain_of sha256 t = Inr (cs @ ds) \<and>
    ts_objects s \<subseteq>\<^sub>m ts_objects t \<and> ts_attempts s \<subseteq>\<^sub>m ts_attempts t"
proof -
  have ok: "store_ok sha256 s" by (rule run_store_ok [OF assms(1)])
  then obtain cs where "chain_of sha256 s = Inr cs" using store_okD by blast
  then show ?thesis using temporal.run_evolves [OF assms(2) ok]
    by (auto simp: advances_def grows_def)
qed

subsection \<open>One successor at a time\<close>

text \<open>The steps that may release an active claim.\<close>

fun releases :: "TemporalStep \<Rightarrow> bool" where
  "releases (PutContract _) = False"
| "releases (PutArtifact _ _ _) = False"
| "releases (PutBundle _ _ _) = False"
| "releases (AcquireClaim _ _) = False"
| "releases _ = True"

lemma step_keeps_active:
  assumes "tstep sha256 s e t" and "\<not> releases e" and "active_of sha256 s = Inr (Some c)"
  shows "active_of sha256 t = Inr (Some c)"
  using assms(1)
proof cases
  case (st_put d)
  then show ?thesis using put_contract_filed [OF st_put(3), of s] active_of_cong [OF _ _ assms(3)]
    by (simp add: filed_def)
next
  case (st_artifact d a n)
  then show ?thesis using record_attempt_filed [OF st_artifact(3), of s a n]
      active_of_cong [OF _ _ assms(3)] by (simp add: filed_def)
next
  case (st_bundle claim r arts)
  then show ?thesis using record_bundle_filed [of sha256 s claim r arts]
      active_of_cong [OF _ _ assms(3)] by (simp add: filed_def)
next
  case (st_acquire h claim)
  then show ?thesis using assms(3) by (cases rule: claim_locked_cases [of sha256 h claim s]) auto
qed (use assms(2) in auto)

lemma run_keeps_active:
  "run_of (tstep sha256) s es t \<Longrightarrow> list_all (\<lambda>e. \<not> releases e) es \<Longrightarrow>
     active_of sha256 s = Inr (Some c) \<Longrightarrow> active_of sha256 t = Inr (Some c)"
  by (induction rule: run_of.induct) (auto dest: step_keeps_active)

text \<open>A claim is exclusive. As long as nobody releases it (by a failure receipt, a
  publication or a recovery), every other claimant of the current head is refused, whatever the
  processes do in between and in whatever order they try.\<close>

theorem active_claim_is_exclusive:
  assumes "run_of (tstep sha256) s es t" and "list_all (\<lambda>e. \<not> releases e) es"
    and "active_of sha256 s = Inr (Some c)" and "head_of t = Inr h"
    and "cc_digest other \<noteq> cc_digest c"
  shows "claim_locked sha256 h other t =
    (Inr \<lparr>ci_claim = other, ci_acquired = False, ci_reason = ''ACTIVE_SUCCESSOR_EXISTS''\<rparr>, t)"
  using run_keeps_active [OF assms(1-3)] assms(4,5) by (simp add: claim_locked_eq)

end
