(* ===== verification/Temporal_Ticks.thy ===== *)
theory Temporal_Ticks
  imports Temporal_Properties
begin

section \<open>Whole operations\<close>

text \<open>
  What a tick, a failure receipt, a publication and a recovery do from beginning to end, and that
  the coordinator's tick is a sequence of the atomic steps of the machine.
\<close>

subsection \<open>Publication and failure\<close>

lemma publish_returned:
  assumes "publish sha256 h c cp s = (Inr cur, t)"
  shows "th_clock_sequence cur = cp_clock_sequence cp"
    and "th_completion_digest cur = Some (cp_digest cp)"
    and "head_of t = Inr cur" and "ts_active t = None"
proof -
  have "th_clock_sequence cur = cp_clock_sequence cp \<and>
      th_completion_digest cur = Some (cp_digest cp) \<and> head_of t = Inr cur \<and> ts_active t = None"
  proof (cases rule: publish_cases [of sha256 h c cp s])
    case (raised e)
    then show ?thesis using assms by simp
  next
    case (again cur')
    then show ?thesis using assms by (auto simp: head_of_def)
  next
    case (advanced a new)
    then have "cur = new" "t = s\<lparr>ts_head := Some (head_file new), ts_active := None\<rparr>"
      using assms by auto
    then show ?thesis using advanced(5) temporal_head_Inr [OF advanced(5)]
      by (auto intro: head_of_file)
  qed
  then show "th_clock_sequence cur = cp_clock_sequence cp"
    "th_completion_digest cur = Some (cp_digest cp)" "head_of t = Inr cur" "ts_active t = None"
    by blast+
qed

lemma publish_raised: "publish sha256 h c cp s = (Inl e, t) \<Longrightarrow> t = s"
  by (cases rule: publish_cases [of sha256 h c cp s]) auto

lemma publish_completion_raised:
  assumes "publish_completion sha256 h c cp s = (Inl e, t)" shows "ts_head t = ts_head s"
proof -
  obtain r u where p: "prepare_completion sha256 c cp s = (r, u)" by fastforce
  then have "ts_head u = ts_head s"
    using headed.conserves_apply [OF prepare_headed(1) p] by (simp add: same_head_def)
  then show ?thesis using assms p
    by (cases r) (auto simp: publish_completion_def dest: publish_raised)
qed

lemma publish_completion_returned:
  assumes "publish_completion sha256 h c cp s = (Inr cur, t)"
  obtains u where "prepare_completion sha256 c cp s = (Inr (), u)"
    and "publish sha256 h c cp u = (Inr cur, t)"
  using assms by (auto simp: publish_completion_def seq_op_Inr)

lemma record_attempt_returned:
  assumes "record_attempt_artifact sha256 a n c s = (Inr u, t)"
  shows "stored (canonical_contract c) t"
    and "\<exists>dir. attempt_directory sha256 a = Inr dir \<and>
      ts_attempts t (dir, n @ ''.json'') = Some (FContract (canonical_contract c))"
proof -
  obtain v dir where v: "put_contract c s = (Inr (), v)" and dir: "attempt_directory sha256 a = Inr dir"
    and i: "install_attempt (dir, n @ ''.json'') (FContract (canonical_contract c)) v = (Inr (), t)"
    using assms by (auto simp: record_attempt_artifact_def seq_op_Inr)
  then show "\<exists>dir. attempt_directory sha256 a = Inr dir \<and>
      ts_attempts t (dir, n @ ''.json'') = Some (FContract (canonical_contract c))"
    by (auto simp: install_attempt_def split: option.splits if_splits)
  show "stored (canonical_contract c) t"
    using put_contract_stored [OF v] growth.conserves_apply [OF install_grows(2) i] by (rule stored_mono)
qed

lemma record_failure_returned:
  assumes "record_failure sha256 c f s = (Inr u, t)"
  shows "ts_head t = ts_head s" and "ts_active t = None" and "stored (CFailure f) t"
    and "verify_failure c f = Inr ()"
proof -
  obtain v a where v: "record_attempt_artifact sha256 a ''failure'' (CFailure f) s = (Inr (), v)"
    and l: "failure_locked sha256 c v = (Inr (), t)" and "verify_failure c f = Inr ()"
    using assms by (auto simp: record_failure_def seq_op_Inr)
  then show "verify_failure c f = Inr ()" by simp
  have t: "t = v\<lparr>ts_active := None\<rparr>"
    using l by (cases rule: failure_locked_cases [of sha256 c v]) auto
  then show "ts_active t = None" by simp
  show "ts_head t = ts_head s"
    using t headed.conserves_apply [OF record_headed(2) v] by (simp add: same_head_def)
  show "stored (CFailure f) t" using t record_attempt_returned(1) [OF v] by (simp add: stored_def)
qed

lemma attempt_outcome_Inr:
  "attempt_outcome c r cp f = Inr out \<longleftrightarrow> (cp = None) \<noteq> (f = None) \<and>
     out = \<lparr>ao_claim = c, ao_semantic_receipt = r, ao_completion = cp, ao_failure = f\<rparr>"
  by (auto simp: attempt_outcome_def)

subsection \<open>A tick\<close>

lemma build_completion_Inr:
  assumes "build_completion sha256 co claim d r arts = Inr cp"
  shows "contract_error sha256 (CCompletion cp) = None"
    and "cp_clock_sequence cp = cc_proposed_sequence claim"
proof -
  obtain c where b: "build_contract sha256 (CCompletion c) = Inr (CCompletion cp)"
    and c: "cp_clock_sequence c = cc_proposed_sequence claim"
    using assms unfolding build_completion_def by (auto split: sum.splits Contract.splits)
  show "contract_error sha256 (CCompletion cp) = None" by (rule build_contract_valid [OF b])
  show "cp_clock_sequence cp = cc_proposed_sequence claim"
    using build_contract_valid(2) [OF b] c by auto
qed

lemma project_and_publish_raised:
  assumes "project_and_publish sha256 co h c d r s = (Inl e, t)"
  shows "ts_head t = ts_head s"
proof -
  have hd: "ts_head v = ts_head u" if "headed.conserves m" "m u = (x, v)" for m u x v
    using headed.conserves_apply [OF that] by (simp add: same_head_def)
  note keep = hd [OF prepare_headed(2)] hd [OF record_headed(3)] hd [OF prepare_headed(1)]
  from assms show ?thesis unfolding project_and_publish_def
    by (auto simp: seq_op_Inl attempt_outcome_def
        dest!: keep publish_completion_raised)
qed

lemma project_and_publish_returned:
  assumes "project_and_publish sha256 co h c d r s = (Inr out, t)"
  obtains cp u cur where "publish_completion sha256 h c cp u = (Inr cur, t)"
    "cp_clock_sequence cp = cc_proposed_sequence c"
    "out = \<lparr>ao_claim = c, ao_semantic_receipt = Some r, ao_completion = Some cp,
      ao_failure = None\<rparr>"
  using assms unfolding project_and_publish_def
  by (auto simp: seq_op_Inr attempt_outcome_def dest: build_completion_Inr(2))

lemma fail_attempt_returned:
  assumes "fail_attempt sha256 co c r e s = (Inr out, t)"
  obtains f where "record_failure sha256 c f s = (Inr (), t)"
    "out = \<lparr>ao_claim = c, ao_semantic_receipt = r, ao_completion = None,
      ao_failure = Some f\<rparr>"
  using assms unfolding fail_attempt_def by (auto simp: seq_op_Inr attempt_outcome_def)

lemma failed_tick:
  assumes "fail_attempt sha256 co c r e s = (Inr out, t)"
  shows "ao_claim out = c \<and> ts_active t = None \<and>
    (\<exists>f. ao_failure out = Some f \<and> ao_completion out = None \<and>
        verify_failure c f = Inr () \<and> stored (CFailure f) t \<and> ts_head t = ts_head s)"
proof (rule fail_attempt_returned [OF assms])
  fix f assume f: "record_failure sha256 c f s = (Inr (), t)"
    and out: "out = \<lparr>ao_claim = c, ao_semantic_receipt = r, ao_completion = None,
      ao_failure = Some f\<rparr>"
  from record_failure_returned [OF f] out show ?thesis by simp
qed

lemma completed_tick:
  assumes "project_and_publish sha256 co h c d r s = (Inr out, t)"
  shows "ao_claim out = c \<and> ts_active t = None \<and>
    (\<exists>cp. ao_completion out = Some cp \<and> ao_failure out = None \<and>
        cp_clock_sequence cp = cc_proposed_sequence c \<and>
        read_head t = (Inr \<lparr>th_clock_sequence = cp_clock_sequence cp,
          th_completion_digest = Some (cp_digest cp)\<rparr>, t))"
proof (rule project_and_publish_returned [OF assms])
  fix cp v cur
  assume a: "publish_completion sha256 h c cp v = (Inr cur, t)"
    "cp_clock_sequence cp = cc_proposed_sequence c"
    "out = \<lparr>ao_claim = c, ao_semantic_receipt = Some r, ao_completion = Some cp,
      ao_failure = None\<rparr>"
  obtain w where "publish sha256 h c cp w = (Inr cur, t)"
    using publish_completion_returned [OF a(1)] by blast
  from publish_returned [OF this] a(2,3) show ?thesis by (simp add: read_head_def)
qed

text \<open>C28: A tick ends in exactly one way. When \<^verbatim>\<open>complete_claim\<close> returns, either it
  returns a completion, the head cites exactly that completion at the proposed sequence and no
  claim is active; or it returns a failure that names the claim and is stored, the head has not
  moved and the claim is released for a retry of the same sequence.\<close>

theorem tick_outcome:
  assumes "complete_claim sha256 co h c event s = (Inr out, t)"
  shows "ao_claim out = c \<and> ts_active t = None \<and>
    ((\<exists>cp. ao_completion out = Some cp \<and> ao_failure out = None \<and>
        cp_clock_sequence cp = cc_proposed_sequence c \<and>
        read_head t = (Inr \<lparr>th_clock_sequence = cp_clock_sequence cp,
          th_completion_digest = Some (cp_digest cp)\<rparr>, t)) \<or>
     (\<exists>f. ao_failure out = Some f \<and> ao_completion out = None \<and>
        verify_failure c f = Inr () \<and> stored (CFailure f) t \<and> ts_head t = ts_head s))"
proof -
  obtain d where ev: "require_validated_event event = Inr d" "verify_claim_event c d = Inr ()"
    and res: "(case co_project co c d of
       Inl exc \<Rightarrow> fail_attempt sha256 co c None exc
     | Inr r \<Rightarrow> catch_op (project_and_publish sha256 co h c d r)
         (fail_attempt sha256 co c (Some r))) s = (Inr out, t)"
    using assms by (auto simp: complete_claim_def seq_op_Inr)
  show ?thesis
  proof (cases "co_project co c d")
    case (Inl exc)
    then have "fail_attempt sha256 co c None exc s = (Inr out, t)" using res by simp
    from failed_tick [OF this] show ?thesis by blast
  next
    case (Inr r)
    obtain x u where p: "project_and_publish sha256 co h c d r s = (x, u)" by fastforce
    show ?thesis
    proof (cases x)
      case (Inl exc)
      then have f: "fail_attempt sha256 co c (Some r) exc u = (Inr out, t)"
        using res \<open>co_project co c d = Inr r\<close> p by (simp add: catch_op_def)
      have "ts_head u = ts_head s" using project_and_publish_raised p Inl by blast
      then show ?thesis using failed_tick [OF f] by metis
    next
      case (Inr o')
      then have "project_and_publish sha256 co h c d r s = (Inr out, t)"
        using res \<open>co_project co c d = Inr r\<close> p by (auto simp: catch_op_def)
      from completed_tick [OF this] show ?thesis by blast
    qed
  qed
qed

subsection \<open>Recovery\<close>

lemma recovery_failure_Inr:
  assumes "recovery_failure sha256 claim = Inr c"
  obtains f where "c = CFailure f" "verify_failure claim f = Inr ()"
    "pf_failure_code f = ''RECOVERY_INCOMPLETE_ATTEMPT''" "canonical_contract c = c"
proof -
  obtain u where b: "build_contract sha256 (CFailure u) = Inr c"
    and u: "verify_failure claim u = Inr ()" "pf_failure_code u = ''RECOVERY_INCOMPLETE_ATTEMPT''"
    using assms unfolding recovery_failure_def contract_res_def
    by (auto simp: verify_failure_def split: sum.splits)
  from build_contract_valid(2) [OF b] obtain d where "c = CFailure (u\<lparr>pf_digest := d\<rparr>)" by auto
  then show thesis using that u by (simp add: verify_failure_def split: if_splits)
qed

lemma recover_incomplete_returned:
  assumes "recover_incomplete sha256 claim s = (Inr r, t)"
  obtains f where "r = ''INCOMPLETE_ATTEMPT_FAILED''" "ts_active t = None" "ts_head t = ts_head s"
    "verify_failure claim f = Inr ()" "pf_failure_code f = ''RECOVERY_INCOMPLETE_ATTEMPT''"
    "stored (CFailure f) t"
proof -
  obtain c a u where c: "recovery_failure sha256 claim = Inr c"
    and rec: "record_attempt_artifact sha256 a ''failure'' c s = (Inr (), u)"
    and t: "t = u\<lparr>ts_active := None\<rparr>" "r = ''INCOMPLETE_ATTEMPT_FAILED''"
    using assms by (auto simp: recover_incomplete_def seq_op_Inr clear_active_def)
  obtain f where f: "c = CFailure f" "verify_failure claim f = Inr ()"
    "pf_failure_code f = ''RECOVERY_INCOMPLETE_ATTEMPT''" "canonical_contract c = c"
    using recovery_failure_Inr [OF c] by metis
  have "ts_head t = ts_head s"
    using headed.conserves_apply [OF record_headed(2) rec] t by (simp add: same_head_def)
  moreover have "stored (CFailure f) t"
    using record_attempt_returned(1) [OF rec] f t by (simp add: stored_def)
  ultimately show thesis using that t f by simp
qed

text \<open>C29: Recovery on a reachable store. When \<^verbatim>\<open>recover\<close> returns, no claim is active
  and one of three things has happened: there was no active claim and nothing has changed; the
  active claim's prepared completion, which fits the claim and is stored, is what the head now
  cites; or a recovery failure that names the active claim is stored and the head has not moved.\<close>

theorem recovery_outcome:
  assumes "run_of (tstep sha256) (open_store empty_directory) es s"
    and "recover sha256 s = (Inr r, t)"
  shows "ts_active t = None \<and>
    (r = ''NO_ACTIVE_CLAIM'' \<and> t = s \<or>
     (\<exists>claim. active_of sha256 s = Inr (Some claim) \<and>
       (r = ''PREPARED_COMPLETION_PUBLISHED'' \<and>
          (\<exists>cp h. verify_completion claim cp = Inr () \<and> stored (CCompletion cp) s \<and>
             read_head t = (Inr h, t) \<and> th_clock_sequence h = cp_clock_sequence cp \<and>
             th_completion_digest h = Some (cp_digest cp)) \<or>
        r = ''INCOMPLETE_ATTEMPT_FAILED'' \<and> ts_head t = ts_head s \<and>
          (\<exists>f. verify_failure claim f = Inr () \<and>
             pf_failure_code f = ''RECOVERY_INCOMPLETE_ATTEMPT'' \<and> stored (CFailure f) t))))"
  using run_store_ok [OF assms(1)]
proof (cases rule: recover_cases)
  case idle
  then show ?thesis using assms(2) by (simp add: active_of_None_iff)
next
  case (raised e)
  then show ?thesis using assms(2) by simp
next
  case (incomplete claim dir)
  then have "recover_incomplete sha256 claim s = (Inr r, t)" using assms(2) by simp
  from recover_incomplete_returned [OF this] incomplete(1) show ?thesis by metis
next
  case (prepared claim dir f)
  then have res: "recover_prepared sha256 claim f s = (Inr r, t)" using assms(2) by simp
  from run_store_ok [OF assms(1)] prepared(1,3) show ?thesis
  proof (cases rule: recover_prepared_cases)
    case (raised e)
    then show ?thesis using res by simp
  next
    case (publishing h cp)
    have parsed: "parse_contract_file sha256 ''clock-completion-receipt'' f = Inr (CCompletion cp)"
      using res publishing(3)
      by (auto simp: recover_prepared_def seq_op_Inr parse_contract_file_def split: if_splits)
    then obtain cur u where p: "publish sha256 h claim cp u = (Inr cur, t)"
      and r: "r = ''PREPARED_COMPLETION_PUBLISHED''"
      using res publishing(4) by (auto simp: recover_prepared_def seq_op_Inr)
    have "canonical_contract (CCompletion cp) = CCompletion cp"
      using parsed by (auto simp: parse_contract_file_def publishing(3) split: if_splits)
    then show ?thesis
      using publishing(1) publish_returned [OF p] r prepared(1)
      unfolding may_publish_def read_head_def by (simp; metis)
  qed
qed

subsection \<open>Two ways to lose the active claim\<close>

lemma recover_incomplete_refused:
  assumes "claim_directory sha256 c = Inr dir"
    and "ts_attempts s (dir, ''failure.json'') = Some (FContract (CFailure f))"
    and "pf_failure_code f \<noteq> ''RECOVERY_INCOMPLETE_ATTEMPT''"
  shows "recover_incomplete sha256 c s \<noteq> (Inr r, t)"
proof
  assume "recover_incomplete sha256 c s = (Inr r, t)"
  then obtain v fc a u where v: "recovery_failure sha256 c = Inr fc" "claim_attempt c = Inr a"
    "record_attempt_artifact sha256 a ''failure'' fc s = (Inr v, u)"
    by (auto simp: recover_incomplete_def seq_op_Inr)
  have "attempt_directory sha256 a = Inr dir"
    using assms(1) v(2) by (simp add: claim_directory_def)
  then have "ts_attempts u (dir, ''failure.json'') = Some (FContract (canonical_contract fc))"
    using record_attempt_returned(2) [OF v(3)] by simp
  moreover have "ts_attempts u (dir, ''failure.json'') = Some (FContract (CFailure f))"
    using growsD(2) [OF growth.conserves_apply [OF record_grows(1) v(3)] assms(2)] .
  ultimately show False using recovery_failure_Inr [OF v(1)] assms(3)
    by (metis Contract.inject(3) FileContent.inject(1) option.inject)
qed

lemma recover_incomplete_attempts:
  assumes "recover_incomplete sha256 c s = (r, t)"
    and "ts_attempts s q \<noteq> None \<or> snd q \<noteq> ''failure.json''"
  shows "ts_attempts t q = ts_attempts s q"
  using assms
  by (auto simp: recover_incomplete_def record_attempt_artifact_def put_contract_def
      install_object_def install_attempt_def seq_op_def clear_active_def
      split: prod.splits sum.splits option.splits if_splits)

text \<open>C34: A crash between the durable failure receipt and the release of the claim wedges the
  store. \<^verbatim>\<open>record_failure\<close> installs \<^verbatim>\<open>failure.json\<close> before it takes
  the lock; if the process dies there, recovery builds its own receipt for the same file, the
  immutable install refuses it, and recovery raises. The claim stays active, the file stays there,
  every other claimant is refused, and the next recovery is in the same situation.\<close>

theorem durable_failure_blocks_recovery:
  assumes "run_of (tstep sha256) (open_store empty_directory) es s"
    and "active_of sha256 s = Inr (Some c)" and "claim_directory sha256 c = Inr dir"
    and "ts_attempts s (dir, ''completion.json'') = None"
    and "ts_attempts s (dir, ''failure.json'') = Some (FContract (CFailure f))"
    and "pf_failure_code f \<noteq> ''RECOVERY_INCOMPLETE_ATTEMPT''"
  shows "\<exists>e t. recover sha256 s = (Inl e, t) \<and> active_of sha256 t = Inr (Some c) \<and>
    ts_attempts t (dir, ''completion.json'') = None \<and>
    ts_attempts t (dir, ''failure.json'') = Some (FContract (CFailure f)) \<and>
    (\<forall>h other. cc_digest other \<noteq> cc_digest c \<longrightarrow>
      (\<forall>r u. claim_locked sha256 h other t = (Inr r, u) \<longrightarrow> \<not> ci_acquired r))"
proof -
  have rec: "recover sha256 s = recover_incomplete sha256 c s"
    using assms(2-4) by (simp add: recover_def read_active_def seq_read)
  obtain t r where t: "recover_incomplete sha256 c s = (r, t)" by fastforce
  obtain e where e: "r = Inl e"
    using recover_incomplete_refused [OF assms(3,5,6)] t by (cases r) auto
  have kept: "filed sha256 s t \<and> ts_attempts t (dir, ''completion.json'') = None"
    using recover_incomplete_filed [of sha256 s c] t e recover_incomplete_attempts [OF t] assms(4)
    by auto
  then have "active_of sha256 t = Inr (Some c)"
    using active_of_cong [OF _ _ assms(2)] by (simp add: filed_def)
  moreover from this have "\<not> ci_acquired r'" if "cc_digest other \<noteq> cc_digest c"
    "claim_locked sha256 h other t = (Inr r', u)" for other h r' u
    using that by (auto simp: claim_locked_eq split: sum.splits if_splits)
  moreover have "ts_attempts t (dir, ''failure.json'') = Some (FContract (CFailure f))"
    using growsD(2) [OF _ assms(5)] kept by (simp add: filed_def)
  ultimately show ?thesis using rec t e kept by auto
qed

text \<open>Publishing a completion again releases whatever claim is active. When a completion is
  already committed and prepared, \<^verbatim>\<open>publish_completion\<close> takes its idempotent branch,
  which clears the active file without looking whose claim it is: the claim of the next successor
  is lost, and its owner's failure receipt or completion is then refused.\<close>

theorem republication_releases_foreign_claim:
  assumes "read_head s = (Inr \<lparr>th_clock_sequence = cp_clock_sequence cp,
      th_completion_digest = Some (cp_digest cp)\<rparr>, s)"
    and "prepare_completion sha256 c cp s = (Inr (), s)"
    and "active_of sha256 s = Inr (Some other)" and "cc_digest other \<noteq> cc_digest c"
  shows "\<exists>t. publish_completion sha256 h c cp s = (Inr \<lparr>th_clock_sequence = cp_clock_sequence cp,
      th_completion_digest = Some (cp_digest cp)\<rparr>, t) \<and> active_of sha256 t = Inr None \<and>
    failure_locked sha256 other t =
      (Inl (TemporalStoreConflictError ''failure does not own the active claim''), t)"
  using assms(1,2)
  by (auto simp: publish_completion_def publish_def seq_read read_head_def clear_active_def
      failure_locked_def read_active_def active_of_def owns_def)

end
