(* ===== verification/Temporal_Refinement.thy ===== *)
theory Temporal_Refinement
  imports Temporal_Ticks
begin

section \<open>The coordinator refines the machine\<close>

text \<open>
  Every operation of the store and of the coordinator is a sequence of atomic steps, whatever
  it returns or raises, so the invariant and the append-only history hold around and inside it.
  The guards of the steps are discharged by what the operation itself has done before.
\<close>

definition runs :: "hash \<Rightarrow> TemporalFiles \<Rightarrow> TemporalFiles \<Rightarrow> bool" where
  "runs sha256 s t \<longleftrightarrow> (\<exists>es. run_of (tstep sha256) s es t)"

lemma runs_refl [simp]: "runs sha256 s s"
  unfolding runs_def by (rule exI [of _ "[]"]) simp

lemma runs_trans: "runs sha256 s t \<Longrightarrow> runs sha256 t u \<Longrightarrow> runs sha256 s u"
  unfolding runs_def by (metis run_of_append)

lemma runs_step: "tstep sha256 s e t \<Longrightarrow> runs sha256 s t"
  unfolding runs_def by (rule exI [of _ "[e]"]) simp

lemma runs_seq:
  assumes "runs sha256 s (snd (m s))"
    and "\<And>a t. m s = (Inr a, t) \<Longrightarrow> runs sha256 t (snd (f a t))"
  shows "runs sha256 s (snd (seq_op m f s))"
proof -
  obtain r t where m: "m s = (r, t)" by fastforce
  then show ?thesis using assms runs_trans by (cases r) auto
qed

lemma runs_read: "(\<And>a. g s = Inr a \<Longrightarrow> runs sha256 s (snd (f a s))) \<Longrightarrow>
    runs sha256 s (snd (seq_op (read_op g) f s))"
  by (rule runs_seq) auto

lemma runs_catch:
  assumes "runs sha256 s (snd (m s))"
    and "\<And>e t. m s = (Inl e, t) \<Longrightarrow> runs sha256 t (snd (h e t))"
  shows "runs sha256 s (snd (catch_op m h s))"
proof -
  obtain r t where m: "m s = (r, t)" by fastforce
  then show ?thesis using assms runs_trans by (cases r) (auto simp: catch_op_def)
qed

lemma claim_successor_runs:
  assumes "contract_error sha256 (CClaim claim) = None"
  shows "runs sha256 s (snd (claim_successor sha256 h claim s))"
  unfolding claim_successor_def
proof (intro runs_read)
  fix u a assume v: "verify_claim h claim = Inr u"
  show "runs sha256 s (snd (seq_op (record_attempt_artifact sha256 a ''claim'' (CClaim claim))
      (\<lambda>_. claim_locked sha256 h claim) s))"
  proof (rule runs_seq)
    show "runs sha256 s (snd (record_attempt_artifact sha256 a ''claim'' (CClaim claim) s))"
      by (rule runs_step [OF st_artifact [OF assms]])
  next
    fix w t
    assume rec: "record_attempt_artifact sha256 a ''claim'' (CClaim claim) s = (Inr w, t)"
    have "verify_claim h claim = Inr ()" "stored (CClaim claim) t"
      using v record_attempt_returned(1) [OF rec] by auto
    then show "runs sha256 t (snd (claim_locked sha256 h claim t))"
      by (rule runs_step [OF st_acquire])
  qed
qed

lemma failure_runs:
  assumes "contract_error sha256 (CFailure f) = None"
  shows "runs sha256 s (snd (record_failure sha256 claim f s))"
  unfolding record_failure_def
  by (intro runs_read runs_seq) (auto intro: runs_step st_artifact assms st_retire)

lemma build_failure_valid:
  "build_failure sha256 co claim p c d = Inr f \<Longrightarrow> contract_error sha256 (CFailure f) = None"
  unfolding build_failure_def
  by (auto dest: build_contract_valid(1) split: sum.splits Contract.splits)

lemma fail_attempt_runs: "runs sha256 s (snd (fail_attempt sha256 co claim r e s))"
  unfolding fail_attempt_def
proof (rule runs_read)
  fix f
  assume "(case e of TemporalProjectionError phase code detail \<Rightarrow>
         build_failure sha256 co claim phase code detail
     | _ \<Rightarrow> build_failure sha256 co claim ''SEMANTIC'' ''UNHANDLED_PROJECTION_FAILURE''
         (Some (text_digest sha256 (exception_text e)))) = Inr f"
  then have "contract_error sha256 (CFailure f) = None"
    by (auto dest: build_failure_valid split: terr.splits)
  then show "runs sha256 s (snd (seq_op (record_failure sha256 claim f)
      (\<lambda>_. lift_res (attempt_outcome claim r None (Some f))) s))"
    by (intro runs_seq failure_runs) simp_all
qed

lemma prepare_completion_runs:
  assumes "contract_error sha256 (CCompletion cp) = None"
  shows "runs sha256 s (snd (prepare_completion sha256 c cp s))"
  unfolding prepare_completion_def read_attempt_def
  by (intro runs_read runs_seq)
    (auto intro: runs_step [OF st_artifact [OF assms]] simp: check_semantic_pure
      dest!: check_semantic_same)

lemma prepare_completion_returned:
  assumes "prepare_completion sha256 c cp s = (Inr u, t)"
  shows "verify_completion c cp = Inr ()" and "stored (canonical_contract (CCompletion cp)) t"
  using assms unfolding prepare_completion_def
  by (auto simp: seq_op_Inr dest: record_attempt_returned(1))

lemma publish_completion_runs:
  assumes "contract_error sha256 (CCompletion cp) = None" and "stored (CClaim c) s"
  shows "runs sha256 s (snd (publish_completion sha256 h c cp s))"
  unfolding publish_completion_def
proof (intro runs_seq prepare_completion_runs assms(1))
  fix u t assume p: "prepare_completion sha256 c cp s = (Inr u, t)"
  then have "may_publish t c cp"
    using prepare_completion_returned [OF p] stored_mono [OF assms(2)]
      growth.conserves_apply [OF completion_grows(1) p] by (simp add: may_publish_def)
  then show "runs sha256 t (snd (publish sha256 h c cp t))" by (rule runs_step [OF st_publish])
qed

lemma project_and_publish_runs:
  assumes "contract_error sha256 (CSemantic r) = None" and "stored (CClaim c) s"
  shows "runs sha256 s (snd (project_and_publish sha256 co h c d r s))"
proof -
  have sem: "runs sha256 s (snd (project_semantic sha256 c d r s))"
    unfolding project_semantic_def
    by (intro runs_read runs_seq) (auto intro: runs_step st_put st_artifact assms(1))
  show ?thesis
    unfolding project_and_publish_def
  proof (intro runs_read runs_seq)
    show "runs sha256 s (snd (project_semantic sha256 c d r s))" by (rule sem)
  next
    fix u t arts v
    assume p: "project_semantic sha256 c d r s = (Inr u, t)"
    show "runs sha256 t (snd (record_projection_artifacts sha256 c r arts t))"
      by (rule runs_step [OF st_bundle])
  next
    fix u t arts v w t2 cp
    assume p: "project_semantic sha256 c d r s = (Inr u, t)"
      and b: "record_projection_artifacts sha256 c r arts t = (Inr w, t2)"
      and cp: "build_completion sha256 co c d r arts = Inr cp"
    show "runs sha256 t2 (snd (prepare_completion sha256 c cp t2))"
      by (rule prepare_completion_runs [OF build_completion_Inr(1) [OF cp]])
    fix x t3
    assume q: "prepare_completion sha256 c cp t2 = (Inr x, t3)"
    have "growth.conserves (project_semantic sha256 c d r)"
      unfolding project_semantic_def
      by (intro growth.conserves_seq growth.conserves_pure op_rules)
    from growth.conserves_apply [OF this p]
    have "stored (CClaim c) t" by (rule stored_mono [OF assms(2)])
    then have "stored (CClaim c) t2"
      by (rule stored_mono [OF _ growth.conserves_apply [OF record_grows(2) b]])
    then have "stored (CClaim c) t3"
      by (rule stored_mono [OF _ growth.conserves_apply [OF completion_grows(1) q]])
    then show "runs sha256 t3 (snd (publish_completion sha256 h c cp t3))"
      by (rule publish_completion_runs [OF build_completion_Inr(1) [OF cp]])
  qed simp_all
qed

lemma complete_claim_runs:
  assumes "\<And>c d r. co_project co c d = Inr r \<Longrightarrow> contract_error sha256 (CSemantic r) = None"
    and "stored (CClaim c) s"
  shows "runs sha256 s (snd (complete_claim sha256 co h c event s))"
  unfolding complete_claim_def
proof (intro runs_read)
  fix d u
  show "runs sha256 s (snd ((case co_project co c d of
      Inl exc \<Rightarrow> fail_attempt sha256 co c None exc
    | Inr semantic \<Rightarrow> catch_op (project_and_publish sha256 co h c d semantic)
        (fail_attempt sha256 co c (Some semantic))) s))"
    by (auto intro!: fail_attempt_runs runs_catch project_and_publish_runs assms
        split: sum.splits)
qed

lemma build_claim_returned:
  assumes "build_claim sha256 co event a cl oh s = (Inr (h, c), t)"
  shows "t = s" and "contract_error sha256 (CClaim c) = None"
proof -
  from assms [unfolded build_claim_def seq_op_Inr] obtain d v head w y x u where
    v: "lift_res (require_validated_event event) s = (Inr d, v)"
    and w: "(case oh of Some h \<Rightarrow> ret h | None \<Rightarrow> read_head) v = (Inr head, w)"
    and x: "lift_res (contract_res (build_contract sha256 y)) w = (Inr x, u)"
    and res: "(case x of CClaim claim \<Rightarrow> ret (head, claim)
      | _ \<Rightarrow> raise_op (ContractFault (GovernanceContractError ''UNKNOWN_CONTRACT'' None))) u =
      (Inr (h, c), t)"
    by blast
  have "x = CClaim c" "t = u" using res by (auto split: Contract.splits)
  moreover have "v = s" "w = v" using v w by (auto simp: read_head_def split: option.splits)
  moreover have "build_contract sha256 y = Inr x" "u = w"
    using x by (auto simp: contract_res_def split: sum.splits)
  ultimately show "t = s" and "contract_error sha256 (CClaim c) = None"
    using build_contract_valid(1) by auto
qed

lemma execute_runs:
  assumes "\<And>c d r. co_project co c d = Inr r \<Longrightarrow> contract_error sha256 (CSemantic r) = None"
  shows "runs sha256 s (snd (execute sha256 co event a cl s))"
  unfolding execute_def coordinator_claim_def
proof (intro runs_seq)
  have "snd (build_claim sha256 co event a cl None s) = s"
    unfolding build_claim_def read_head_def
    by (auto simp: seq_read split: sum.splits Contract.splits)
  then show "runs sha256 s (snd (build_claim sha256 co event a cl None s))" by simp
next
  fix p t
  assume b: "build_claim sha256 co event a cl None s = (Inr p, t)"
  obtain h c where p: "p = (h, c)" by fastforce
  note built = build_claim_returned [OF b [unfolded p]]
  show "runs sha256 t (snd ((case p of (head, claim) \<Rightarrow>
      seq_op (claim_successor sha256 head claim) (\<lambda>result. ret (head, result))) t))"
    using built(2) by (auto simp: p intro!: runs_seq claim_successor_runs)
next
  fix q t
  assume "seq_op (build_claim sha256 co event a cl None) (\<lambda>(head, claim).
      seq_op (claim_successor sha256 head claim) (\<lambda>result. ret (head, result))) s = (Inr q, t)"
  then obtain h c res where q: "q = (h, res)"
    and succ: "claim_successor sha256 h c s = (Inr res, t)"
    by (auto simp: seq_op_Inr dest!: build_claim_returned(1))
  then obtain u x where rec: "record_attempt_artifact sha256 x ''claim'' (CClaim c) s = (Inr (), u)"
    and l: "claim_locked sha256 h c u = (Inr res, t)"
    by (auto simp: claim_successor_def seq_op_Inr)
  have "stored (CClaim c) t"
    using record_attempt_returned(1) [OF rec] growth.conserves_apply [OF claim_grows(1) l]
    by (auto intro: stored_mono)
  moreover have "ci_claim res = c"
    using l by (auto simp: claim_locked_eq split: sum.splits option.splits if_splits)
  ultimately show "runs sha256 t (snd ((case q of (head, result) \<Rightarrow>
      if \<not> ci_acquired result then raise_op (TemporalClaimRejected (ci_reason result))
      else complete_claim sha256 co head (ci_claim result) event) t))"
    using assms by (auto simp: q intro!: complete_claim_runs)
qed

text \<open>C27: A tick refines the machine. From any store, and for any projector that returns valid
  receipts, what \<^verbatim>\<open>execute\<close> does to the store, whether it returns or raises, is a
  sequence of the machine's atomic steps.\<close>

theorem tick_refines_machine:
  assumes "\<And>c d r. co_project co c d = Inr r \<Longrightarrow> contract_error sha256 (CSemantic r) = None"
  shows "\<exists>es. run_of (tstep sha256) s es (snd (execute sha256 co event a cl s))"
  using execute_runs [OF assms] by (simp add: runs_def)

section \<open>Progress\<close>

text \<open>
  Recovery does not only return safely: an interrupted attempt without a terminal receipt is
  failed and its sequence is free again. What a store has been given it gives back.
\<close>

lemma recovery_failure_total:
  assumes "hash32 sha256" and "contract_error sha256 (CClaim c) = None"
  obtains f where "recovery_failure sha256 c = Inr (CFailure f)" "is_digest (pf_digest f)"
proof -
  note v = contract_error_valid [OF assms(2)]
  let ?f = "CFailure \<lparr>pf_attempt_id = cc_attempt_id c,
      pf_previous_committed_sequence = cc_previous_committed_sequence c,
      pf_previous_completion_digest = cc_previous_completion_digest c,
      pf_proposed_sequence = cc_proposed_sequence c,
      pf_clock_claim_digest = cc_digest c,
      pf_validated_event_digest = cc_validated_event_digest c,
      pf_failure_phase = ''SEMANTIC'',
      pf_failure_code = ''RECOVERY_INCOMPLETE_ATTEMPT'',
      pf_failure_detail_digest = None,
      pf_recorded_against_tick = cc_previous_committed_sequence c,
      pf_digest = ''''\<rparr>"
  have "schema_token ''RECOVERY_INCOMPLETE_ATTEMPT''" "''SEMANTIC'' \<in> set PROJECTION_PHASES"
    by code_simp+
  then have acc: "schema_accepts (with_digest d ?f)" if "is_digest d" for d
    using v(1) that by simp
  have "semantic_error ?f = None" using v(2) by (simp split: if_splits)
  from build_contract_total [OF assms(1) _ this acc] obtain d
    where "build_contract sha256 ?f = Inr (with_digest d ?f)" "is_digest d" by auto
  then show thesis using that by (simp add: recovery_failure_def contract_res_def)
qed

lemma recover_interrupted:
  assumes "hash32 sha256" and "active_of sha256 s = Inr (Some c)"
    and "is_path_token (cc_attempt_id c)" and "claim_directory sha256 c = Inr dir"
    and "ts_attempts s (dir, ''completion.json'') = None"
    and "ts_attempts s (dir, ''failure.json'') = None"
    and "\<And>f. recovery_failure sha256 c = Inr f \<Longrightarrow>
      ts_objects s (contract_name f, contract_digest f) \<in> {None, Some (FContract f)}"
  shows "\<exists>t f. recover sha256 s = (Inr ''INCOMPLETE_ATTEMPT_FAILED'', t) \<and>
    ts_head t = ts_head s \<and> recovery_failure sha256 c = Inr f \<and>
    ts_attempts t (dir, ''failure.json'') = Some (FContract f) \<and>
    (\<forall>h other. head_of s = Inr h \<longrightarrow>
      fst (claim_locked sha256 h other t) =
        Inr \<lparr>ci_claim = other, ci_acquired = True, ci_reason = ''CLAIM_ACQUIRED''\<rparr>)"
proof -
  obtain f where f: "recovery_failure sha256 c = Inr (CFailure f)" "is_digest (pf_digest f)"
    using recovery_failure_total [OF assms(1) active_claim_stored(2) [OF assms(2)]] .
  have dir: "attempt_directory sha256 (cc_attempt_id c) = Inr dir" "claim_attempt c = Inr (cc_attempt_id c)"
    using assms(3,4) by (auto simp: claim_directory_def claim_attempt_def token_check_def)
  obtain t where put: "put_contract (CFailure f) s = (Inr (), t)"
    and t: "ts_attempts t = ts_attempts s" "ts_head t = ts_head s"
    using assms(7) [OF f(1)] f(2)
    by (auto simp: put_contract_def object_path_def install_object_def seq_read
        contract_name_type [of "CFailure f", simplified] split: option.splits)
  have "is_path_token ''failure''" by code_simp
  let ?t = "t\<lparr>ts_attempts := (ts_attempts t)((dir, ''failure.json'') \<mapsto> FContract (CFailure f)),
    ts_active := None\<rparr>"
  have "recover sha256 s = (Inr ''INCOMPLETE_ATTEMPT_FAILED'', ?t)"
    using assms(2,4-6) f(1) dir put t \<open>is_path_token ''failure''\<close> assms(3)
    by (simp add: recover_def read_active_def seq_read recover_incomplete_def
        record_attempt_artifact_def token_check_def install_attempt_def clear_active_def seq_op_def)
  moreover have "fst (claim_locked sha256 h other ?t) =
      Inr \<lparr>ci_claim = other, ci_acquired = True, ci_reason = ''CLAIM_ACQUIRED''\<rparr>"
    if "head_of s = Inr h" for h other
    using that t(2) by (simp add: claim_locked_eq head_of_def active_of_def)
  ultimately show ?thesis using f(1) t by (intro exI [of _ ?t]) simp
qed

text \<open>C30: An interrupted attempt does not block the clock. If the active claim's attempt has
  neither a completion nor a failure receipt, \<^verbatim>\<open>recover\<close> fails it: it returns, leaves the
  head where it is, records the recovery failure and frees the successor, so that the next claim
  of the head is acquired. The failure receipt may be new or already stored; what is assumed of
  the hash is its output length and that no other receipt is stored under its digest.\<close>

theorem interrupted_attempt_is_released:
  assumes "hash32 sha256" and "active_of sha256 s = Inr (Some c)"
    and "is_path_token (cc_attempt_id c)" and "claim_directory sha256 c = Inr dir"
    and "ts_attempts s (dir, ''completion.json'') = None"
    and "ts_attempts s (dir, ''failure.json'') = None"
    and "\<And>f. recovery_failure sha256 c = Inr f \<Longrightarrow>
      ts_objects s (contract_name f, contract_digest f) \<in> {None, Some (FContract f)}"
  shows "\<exists>t f. recover sha256 s = (Inr ''INCOMPLETE_ATTEMPT_FAILED'', t) \<and>
    ts_head t = ts_head s \<and> recovery_failure sha256 c = Inr f \<and>
    ts_attempts t (dir, ''failure.json'') = Some (FContract f) \<and>
    (\<forall>h other. head_of s = Inr h \<longrightarrow>
      fst (claim_locked sha256 h other t) =
        Inr \<lparr>ci_claim = other, ci_acquired = True, ci_reason = ''CLAIM_ACQUIRED''\<rparr>)"
  using assms by (rule recover_interrupted)

text \<open>What is put is what is read. After \<^verbatim>\<open>put_contract\<close> of a valid contract
  returns, \<^verbatim>\<open>get_contract\<close> of its name and digest returns its canonical form, now and
  after any further steps of any process.\<close>

theorem put_get_roundtrip:
  assumes "contract_error sha256 c = None" and "put_contract c s = (Inr (), t)"
    and "run_of (tstep sha256) t es u"
    and "run_of (tstep sha256) (open_store empty_directory) es' s"
  shows "get_contract sha256 (contract_name c) (contract_digest c) u =
    (Inr (Some (canonical_contract c)), u)"
proof -
  have "store_ok sha256 t"
    using filed_store_ok [OF put_contract_filed [OF assms(1)] run_store_ok [OF assms(4)]] assms(2)
    by (metis snd_conv)
  from temporal.run_evolves [OF assms(3) this] have later: "grows t u" by (simp add: advances_def)
  have "is_digest (contract_digest c)"
    using assms(2) by (auto simp: put_contract_def object_path_def seq_op_Inr split: if_splits)
  then have "lookup_contract sha256 (contract_name c) (contract_digest c) t =
      Inr (Some (canonical_contract c))"
    using put_contract_stored [OF assms(2)] assms(1) by (simp add: lookup_contract_iff stored_def)
  from lookup_contract_mono [OF this later] show ?thesis by (simp add: get_contract_def)
qed

end
