(* ===== verification/Temporal_Examples.thy ===== *)
theory Temporal_Examples
  imports Temporal_Refinement
begin

section \<open>A store with one tick, concretely\<close>

text \<open>
  A concrete hash (32 bytes, the first of which is the length of the message), a claim, its
  failure receipt and its completion, and the stores that hold them. They show that the
  hypotheses of the properties can hold.
\<close>

definition ex_sha :: hash where
  "ex_sha bs = of_nat (length bs) # replicate 31 0"

lemma hash32_ex_sha [simp]: "hash32 ex_sha"
  by (simp add: hash32_def ex_sha_def)

definition ex_d :: "char \<Rightarrow> string" where
  "ex_d c = ''sha256:'' @ replicate 64 c"

lemma ex_d_digest:
  "is_digest (ex_d (CHR ''1''))" "is_digest (ex_d (CHR ''2''))" "is_digest (ex_d (CHR ''3''))"
  by code_simp+

lemmas ex_schema_digest [simp] = ex_d_digest [THEN is_digest_schema]

lemma ex_tokens [simp]:
  "schema_token ''a1''" "schema_token ''attempt-2''" "schema_token ''worker''"
  "schema_token ''CHECK_FAILED''" "is_path_token ''a1''" "is_path_token ''claim''"
  "is_path_token ''failure''" "is_path_token ''completion''"
  "''SEMANTIC'' \<in> set PROJECTION_PHASES"
  by code_simp+

declare is_path_token.simps [simp del]

subsection \<open>Contracts\<close>

definition ex_claim_fields :: ClockClaim where
  "ex_claim_fields = \<lparr>cc_attempt_id = ''a1'', cc_previous_committed_sequence = 0,
     cc_previous_completion_digest = None, cc_proposed_sequence = 1,
     cc_validated_event_digest = ex_d (CHR ''1''), cc_claimant_id = ''worker'',
     cc_claim_policy_digest = ex_d (CHR ''2''), cc_digest = ''''\<rparr>"

definition built_digest :: "Contract \<Rightarrow> string" where
  "built_digest c = (case build_contract ex_sha c of Inr b \<Rightarrow> contract_digest b | Inl _ \<Rightarrow> '''')"

definition ex_claim :: ClockClaim where
  "ex_claim = ex_claim_fields\<lparr>cc_digest := built_digest (CClaim ex_claim_fields)\<rparr>"

definition ex_failure_fields :: ClockProjectionFailure where
  "ex_failure_fields = \<lparr>pf_attempt_id = ''a1'', pf_previous_committed_sequence = 0,
     pf_previous_completion_digest = None, pf_proposed_sequence = 1,
     pf_clock_claim_digest = cc_digest ex_claim, pf_validated_event_digest = ex_d (CHR ''1''),
     pf_failure_phase = ''SEMANTIC'', pf_failure_code = ''CHECK_FAILED'',
     pf_failure_detail_digest = None, pf_recorded_against_tick = 0, pf_digest = ''''\<rparr>"

definition ex_failure :: ClockProjectionFailure where
  "ex_failure = ex_failure_fields\<lparr>pf_digest := built_digest (CFailure ex_failure_fields)\<rparr>"

definition ex_semantic_fields :: SemanticProjectionReceipt where
  "ex_semantic_fields = \<lparr>sr_clock_claim_digest = cc_digest ex_claim,
     sr_validated_event_digest = ex_d (CHR ''1''), sr_projection_sequence = 1,
     sr_pre_state_digest = ex_d (CHR ''1''), sr_post_state_digest = ex_d (CHR ''2''),
     sr_semantic_trace_digest = ex_d (CHR ''3''), sr_semantic_policy_digest = ex_d (CHR ''1''),
     sr_digest = ''''\<rparr>"

definition ex_semantic :: SemanticProjectionReceipt where
  "ex_semantic = ex_semantic_fields\<lparr>sr_digest := built_digest (CSemantic ex_semantic_fields)\<rparr>"

definition ex_completion_fields :: ClockCompletionReceipt where
  "ex_completion_fields = \<lparr>cp_clock_sequence = 1, cp_previous_completion_digest = None,
     cp_clock_claim_digest = cc_digest ex_claim, cp_validated_event_digest = ex_d (CHR ''1''),
     cp_semantic_projection_receipt_digest = sr_digest ex_semantic,
     cp_evidence_unit_root = ex_d (CHR ''1''), cp_assumption_root = ex_d (CHR ''2''),
     cp_alternative_model_root = ex_d (CHR ''3''), cp_disposition_receipt_digest = ex_d (CHR ''1''),
     cp_quarantine_epoch = 0, cp_quarantine_marker_digests = [ex_d (CHR ''1'')],
     cp_completion_policy_digest = ex_d (CHR ''2''), cp_digest = ''''\<rparr>"

definition ex_completion :: ClockCompletionReceipt where
  "ex_completion = ex_completion_fields\<lparr>cp_digest := built_digest (CCompletion ex_completion_fields)\<rparr>"

lemma built_digest_valid:
  assumes "markers_distinct c" and "semantic_error c = None"
    and "\<And>d. is_digest d \<Longrightarrow> schema_accepts (with_digest d c)"
  shows "is_digest (built_digest c) \<and>
    contract_error ex_sha (with_digest (built_digest c) c) = None"
proof -
  obtain d where d: "build_contract ex_sha c = Inr (with_digest d c)" "is_digest d"
    "contract_error ex_sha (with_digest d c) = None"
    by (rule build_contract_total [OF hash32_ex_sha assms])
  then have "built_digest c = d" by (simp add: built_digest_def)
  with d show ?thesis by simp
qed

lemma ex_claim_valid [simp]:
  "is_digest (cc_digest ex_claim)" "contract_error ex_sha (CClaim ex_claim) = None"
  using built_digest_valid [of "CClaim ex_claim_fields"]
  by (simp_all add: ex_claim_def ex_claim_fields_def)

lemma ex_failure_valid [simp]:
  "is_digest (pf_digest ex_failure)" "contract_error ex_sha (CFailure ex_failure) = None"
  using built_digest_valid [of "CFailure ex_failure_fields"]
  by (simp_all add: ex_failure_def ex_failure_fields_def)

lemma ex_semantic_valid [simp]:
  "is_digest (sr_digest ex_semantic)" "contract_error ex_sha (CSemantic ex_semantic) = None"
  using built_digest_valid [of "CSemantic ex_semantic_fields"]
  by (simp_all add: ex_semantic_def ex_semantic_fields_def)

lemma ex_completion_valid [simp]:
  "is_digest (cp_digest ex_completion)" "contract_error ex_sha (CCompletion ex_completion) = None"
  using built_digest_valid [of "CCompletion ex_completion_fields"]
  by (simp_all add: ex_completion_def ex_completion_fields_def)

lemma ex_fields [simp]:
  "cc_attempt_id ex_claim = ''a1''" "cc_previous_committed_sequence ex_claim = 0"
  "cc_previous_completion_digest ex_claim = None" "cc_proposed_sequence ex_claim = 1"
  "cc_validated_event_digest ex_claim = ex_d (CHR ''1'')"
  "pf_failure_code ex_failure = ''CHECK_FAILED''"
  "cp_clock_sequence ex_completion = 1" "cp_previous_completion_digest ex_completion = None"
  "verify_completion ex_claim ex_completion = Inr ()"
  "canonical_contract (CCompletion ex_completion) = CCompletion ex_completion"
  "cp_semantic_projection_receipt_digest ex_completion = sr_digest ex_semantic"
  by (simp_all add: ex_claim_def ex_claim_fields_def ex_failure_def ex_failure_fields_def
      ex_completion_def ex_completion_fields_def verify_completion_def)

subsection \<open>Stores\<close>

definition ex_dir :: string where
  "ex_dir = hex (ex_sha (utf8 (''TEMPORAL_ATTEMPT_PATH'' @ [CHR 0x00] @ ''a1'')))"

lemma ex_directory [simp]:
  "attempt_directory ex_sha ''a1'' = Inr ex_dir" "claim_directory ex_sha ex_claim = Inr ex_dir"
  "claim_attempt ex_claim = Inr ''a1''"
  by (simp_all add: attempt_directory_def ex_dir_def claim_directory_def claim_attempt_def
      token_check_def)

text \<open>The claim is recorded and active.\<close>

definition ex_claimed :: TemporalFiles where
  "ex_claimed = \<lparr>ts_objects = [(''clock-claim'', cc_digest ex_claim) \<mapsto> FContract (CClaim ex_claim)],
     ts_attempts = [(ex_dir, ''claim.json'') \<mapsto> FContract (CClaim ex_claim)],
     ts_head = Some (FHead 0 None), ts_active = Some (FActive (cc_digest ex_claim))\<rparr>"

text \<open>Its failure receipt is durable, its process is gone.\<close>

definition ex_failed :: TemporalFiles where
  "ex_failed = ex_claimed\<lparr>
     ts_objects := (ts_objects ex_claimed)
       ((''clock-projection-failure'', pf_digest ex_failure) \<mapsto> FContract (CFailure ex_failure)),
     ts_attempts := (ts_attempts ex_claimed)
       ((ex_dir, ''failure.json'') \<mapsto> FContract (CFailure ex_failure))\<rparr>"

text \<open>The completion is committed.\<close>

definition ex_committed :: TemporalFiles where
  "ex_committed = ex_claimed\<lparr>
     ts_objects := (ts_objects ex_claimed)
       ((''clock-completion-receipt'', cp_digest ex_completion) \<mapsto>
          FContract (CCompletion ex_completion)),
     ts_attempts := (ts_attempts ex_claimed)
       ((ex_dir, ''completion.json'') \<mapsto> FContract (CCompletion ex_completion)),
     ts_head := Some (FHead 1 (Some (cp_digest ex_completion))), ts_active := None\<rparr>"

lemma names_in_types [simp]:
  "''clock-claim'' \<in> set CONTRACT_TYPES" "''clock-completion-receipt'' \<in> set CONTRACT_TYPES"
  "''clock-projection-failure'' \<in> set CONTRACT_TYPES"
  "''semantic-projection-receipt'' \<in> set CONTRACT_TYPES"
  by (simp_all add: CONTRACT_TYPES_def)

lemmas op_eval = record_attempt_artifact_def put_contract_def object_path_def install_object_def
  install_attempt_def token_check_def seq_read seq_op_def

lemma ex_put_claim:
  "record_attempt_artifact ex_sha ''a1'' ''claim'' (CClaim ex_claim) (open_store empty_directory) =
     (Inr (), ex_claimed\<lparr>ts_active := None\<rparr>)"
  by (simp add: op_eval open_store_def empty_directory_def ex_claimed_def)

lemma ex_acquire:
  "claim_locked ex_sha \<lparr>th_clock_sequence = 0, th_completion_digest = None\<rparr> ex_claim
     (ex_claimed\<lparr>ts_active := None\<rparr>) =
   (Inr \<lparr>ci_claim = ex_claim, ci_acquired = True, ci_reason = ''CLAIM_ACQUIRED''\<rparr>, ex_claimed)"
  by (simp add: claim_locked_eq head_of_def parse_head_def temporal_head_def active_of_def
      ex_claimed_def)

lemma ex_put_failure:
  "record_attempt_artifact ex_sha ''a1'' ''failure'' (CFailure ex_failure) ex_claimed =
     (Inr (), ex_failed)"
  by (simp add: op_eval ex_claimed_def ex_failed_def)

lemma ex_active [simp]:
  "active_of ex_sha ex_claimed = Inr (Some ex_claim)"
  "active_of ex_sha ex_failed = Inr (Some ex_claim)"
  by (simp_all add: active_of_Some_iff lookup_contract_iff ex_claimed_def ex_failed_def)

definition ex_claim_events :: "TemporalStep list" where
  "ex_claim_events = [PutArtifact ''a1'' ''claim'' (CClaim ex_claim),
     AcquireClaim \<lparr>th_clock_sequence = 0, th_completion_digest = None\<rparr> ex_claim]"

lemma ex_claimed_run:
  "run_of (tstep ex_sha) (open_store empty_directory) ex_claim_events ex_claimed"
proof -
  have 1: "tstep ex_sha (open_store empty_directory) (PutArtifact ''a1'' ''claim'' (CClaim ex_claim))
      (ex_claimed\<lparr>ts_active := None\<rparr>)"
    using st_artifact [of ex_sha "CClaim ex_claim" "open_store empty_directory" "''a1''" "''claim''"]
    by (simp add: ex_put_claim)
  have "tstep ex_sha (ex_claimed\<lparr>ts_active := None\<rparr>)
      (AcquireClaim \<lparr>th_clock_sequence = 0, th_completion_digest = None\<rparr> ex_claim)
      (snd (claim_locked ex_sha \<lparr>th_clock_sequence = 0, th_completion_digest = None\<rparr> ex_claim
        (ex_claimed\<lparr>ts_active := None\<rparr>)))"
    by (rule st_acquire) (simp_all add: verify_claim_def stored_def ex_claimed_def)
  with 1 show ?thesis unfolding ex_acquire ex_claim_events_def by auto
qed

lemma ex_failed_run:
  "run_of (tstep ex_sha) (open_store empty_directory)
     (ex_claim_events @ [PutArtifact ''a1'' ''failure'' (CFailure ex_failure)]) ex_failed"
  using ex_claimed_run st_artifact [of ex_sha "CFailure ex_failure" ex_claimed "''a1''" "''failure''"]
  by (auto simp: run_of_append ex_put_failure)

definition ex_commit_events :: "TemporalStep list" where
  "ex_commit_events = [PutArtifact ''a1'' ''completion'' (CCompletion ex_completion),
     PublishHead \<lparr>th_clock_sequence = 0, th_completion_digest = None\<rparr> ex_claim ex_completion]"

definition ex_prepared :: TemporalFiles where
  "ex_prepared = ex_committed\<lparr>ts_head := Some (FHead 0 None),
     ts_active := Some (FActive (cc_digest ex_claim))\<rparr>"

lemma ex_put_completion:
  "record_attempt_artifact ex_sha ''a1'' ''completion'' (CCompletion ex_completion) ex_claimed =
     (Inr (), ex_prepared)"
  by (simp add: op_eval ex_claimed_def ex_prepared_def ex_committed_def del: canonical_contract.simps)

lemma ex_publish:
  "publish ex_sha \<lparr>th_clock_sequence = 0, th_completion_digest = None\<rparr> ex_claim ex_completion
     ex_prepared =
   (Inr \<lparr>th_clock_sequence = 1, th_completion_digest = Some (cp_digest ex_completion)\<rparr>, ex_committed)"
proof -
  have "active_of ex_sha ex_prepared = Inr (Some ex_claim)"
    by (simp add: active_of_Some_iff lookup_contract_iff ex_claimed_def ex_prepared_def
        ex_committed_def)
  moreover have "head_of ex_prepared = Inr \<lparr>th_clock_sequence = 0, th_completion_digest = None\<rparr>"
    by (simp add: head_of_def parse_head_def temporal_head_def ex_prepared_def)
  ultimately show ?thesis
    by (simp add: publish_def read_head_def read_active_def seq_read owns_def temporal_head_def
        replace_head_def clear_active_def head_file_def ex_prepared_def ex_committed_def)
qed

lemma ex_commit_run: "run_of (tstep ex_sha) ex_claimed ex_commit_events ex_committed"
proof -
  have 1: "tstep ex_sha ex_claimed (PutArtifact ''a1'' ''completion'' (CCompletion ex_completion))
      ex_prepared"
    using st_artifact [of ex_sha "CCompletion ex_completion" ex_claimed "''a1''" "''completion''"]
    by (simp add: ex_put_completion)
  have "may_publish ex_prepared ex_claim ex_completion"
    by (simp add: may_publish_def stored_def ex_prepared_def ex_committed_def ex_claimed_def
        del: canonical_contract.simps)
  from st_publish [OF this, of ex_sha "\<lparr>th_clock_sequence = 0, th_completion_digest = None\<rparr>"]
  have "tstep ex_sha ex_prepared
      (PublishHead \<lparr>th_clock_sequence = 0, th_completion_digest = None\<rparr> ex_claim ex_completion)
      ex_committed" by (simp add: ex_publish)
  with 1 show ?thesis unfolding ex_commit_events_def by auto
qed

lemma ex_committed_run:
  "run_of (tstep ex_sha) (open_store empty_directory) (ex_claim_events @ ex_commit_events)
     ex_committed"
  using ex_claimed_run ex_commit_run by (auto simp: run_of_append)

end
