(* ===== verification/Temporal_Witnesses.thy ===== *)
theory Temporal_Witnesses
  imports Temporal_Examples
begin

section \<open>Witnesses of the temporal properties\<close>

text \<open>Each property of the temporal store applied to the concrete stores of the example tick,
  with its hypotheses discharged there.\<close>

theorem committed_chain_reads_back_witness:
  "\<exists>cs h. reconstruct_chain ex_sha ex_committed = (Inr cs, ex_committed) \<and>
    read_head ex_committed = (Inr h, ex_committed) \<and> linked None cs \<and>
    th_clock_sequence h = int (length cs) \<and> th_completion_digest h = last_digest cs"
  using committed_chain_reads_back [OF ex_committed_run] by blast

theorem committed_history_append_only_witness:
  "\<exists>cs ds. chain_of ex_sha ex_claimed = Inr cs \<and> chain_of ex_sha ex_committed = Inr (cs @ ds) \<and>
    ts_objects ex_claimed \<subseteq>\<^sub>m ts_objects ex_committed"
  using committed_history_append_only [OF ex_claimed_run ex_commit_run] by blast

subsection \<open>Competing claims\<close>

definition ex_next_fields :: ClockClaim where
  "ex_next_fields = \<lparr>cc_attempt_id = ''attempt-2'', cc_previous_committed_sequence = 1,
     cc_previous_completion_digest =
       Some (''sha256:21'' @ replicate 62 (CHR ''0'')), cc_proposed_sequence = 2,
     cc_validated_event_digest = ex_d (CHR ''1''), cc_claimant_id = ''worker'',
     cc_claim_policy_digest = ex_d (CHR ''2''), cc_digest = ''''\<rparr>"

definition ex_next :: ClockClaim where
  "ex_next = ex_next_fields\<lparr>cc_digest := built_digest (CClaim ex_next_fields)\<rparr>"

lemma ex_next_valid [simp]:
  "is_digest (cc_digest ex_next)" "contract_error ex_sha (CClaim ex_next) = None"
proof -
  have "schema_digest (''sha256:21'' @ replicate 62 (CHR ''0''))" by code_simp
  then show "is_digest (cc_digest ex_next)" "contract_error ex_sha (CClaim ex_next) = None"
    using built_digest_valid [of "CClaim ex_next_fields"]
    by (simp_all add: ex_next_def ex_next_fields_def)
qed

lemma ex_claim_digest:
  "expected_digest ex_sha (CClaim ex_claim_fields) =
     Inr (''sha256:73'' @ replicate 62 (CHR ''0''))"
  by code_simp

lemma ex_next_digest:
  "expected_digest ex_sha (CClaim ex_next_fields) \<noteq>
     Inr (''sha256:73'' @ replicate 62 (CHR ''0''))"
  by code_simp

lemma ex_claims_differ: "cc_digest ex_next \<noteq> cc_digest ex_claim"
proof -
  have "expected_digest ex_sha (CClaim ex_next_fields) = Inr (cc_digest ex_next)"
    "expected_digest ex_sha (CClaim ex_claim_fields) = Inr (cc_digest ex_claim)"
    using contract_error_valid(3) [OF ex_next_valid(2)] contract_error_valid(3) [OF ex_claim_valid(2)]
      expected_digest_with_digest [of ex_sha "cc_digest ex_next" "CClaim ex_next_fields"]
      expected_digest_with_digest [of ex_sha "cc_digest ex_claim" "CClaim ex_claim_fields"]
    by (simp_all add: ex_next_def ex_claim_def)
  then show ?thesis using ex_claim_digest ex_next_digest by auto
qed

theorem active_claim_is_exclusive_witness:
  "claim_locked ex_sha \<lparr>th_clock_sequence = 0, th_completion_digest = None\<rparr> ex_next ex_failed =
    (Inr \<lparr>ci_claim = ex_next, ci_acquired = False, ci_reason = ''ACTIVE_SUCCESSOR_EXISTS''\<rparr>,
     ex_failed)"
proof (rule active_claim_is_exclusive [where c = ex_claim and s = ex_claimed])
  show "run_of (tstep ex_sha) ex_claimed [PutArtifact ''a1'' ''failure'' (CFailure ex_failure)]
      ex_failed"
    using st_artifact [of ex_sha "CFailure ex_failure" ex_claimed "''a1''" "''failure''"]
    by (simp add: ex_put_failure)
  show "head_of ex_failed = Inr \<lparr>th_clock_sequence = 0, th_completion_digest = None\<rparr>"
    by (simp add: head_of_def parse_head_def temporal_head_def ex_failed_def ex_claimed_def)
qed (simp_all add: ex_claims_differ)

subsection \<open>A failing tick\<close>

definition ex_failing :: Coordinator where
  "ex_failing = \<lparr>
     co_project = (\<lambda>_ _. Inl (TemporalProjectionError ''SEMANTIC'' ''CHECK_FAILED'' None)),
     co_project_remaining = (\<lambda>_ _ _. Inl missing_file),
     co_claim_policy_digest = ex_d (CHR ''2''), co_completion_policy_digest = ex_d (CHR ''2''),
     co_ordered_phases = PROJECTION_PHASES\<rparr>"

lemma ex_build_failure:
  "build_failure ex_sha ex_failing ex_claim ''SEMANTIC'' ''CHECK_FAILED'' None = Inr ex_failure"
proof -
  obtain d where d: "build_contract ex_sha (CFailure ex_failure_fields) =
      Inr (with_digest d (CFailure ex_failure_fields))"
    by (rule build_contract_total [of ex_sha "CFailure ex_failure_fields"])
      (simp_all add: ex_failure_fields_def)
  then have "build_contract ex_sha (CFailure ex_failure_fields) = Inr (CFailure ex_failure)"
    by (simp add: ex_failure_def built_digest_def)
  moreover have "(if ''SEMANTIC'' \<in> set (co_ordered_phases ex_failing) then ''SEMANTIC''
      else ''SEMANTIC'') = ''SEMANTIC''" by simp
  ultimately show ?thesis by (simp add: build_failure_def ex_failure_fields_def)
qed

lemma ex_tick:
  "complete_claim ex_sha ex_failing h ex_claim (ValidatedEvent (ex_d (CHR ''1''))) ex_claimed =
    (Inr \<lparr>ao_claim = ex_claim, ao_semantic_receipt = None, ao_completion = None,
       ao_failure = Some ex_failure\<rparr>, ex_failed\<lparr>ts_active := None\<rparr>)"
proof -
  have v: "verify_failure ex_claim ex_failure = Inr ()"
    by (simp add: verify_failure_def ex_failure_def ex_failure_fields_def)
  have "failure_locked ex_sha ex_claim ex_failed = (Inr (), ex_failed\<lparr>ts_active := None\<rparr>)"
    by (simp add: failure_locked_def read_active_def seq_read owns_def clear_active_def)
  then have "record_failure ex_sha ex_claim ex_failure ex_claimed =
      (Inr (), ex_failed\<lparr>ts_active := None\<rparr>)"
    using ex_put_failure v by (simp add: record_failure_def seq_read)
  moreover have "co_project ex_failing c d =
      Inl (TemporalProjectionError ''SEMANTIC'' ''CHECK_FAILED'' None)" for c d
    by (simp add: ex_failing_def)
  ultimately show ?thesis
    by (simp add: complete_claim_def seq_read require_validated_event_def verify_claim_event_def
        fail_attempt_def ex_build_failure attempt_outcome_def)
qed

theorem tick_outcome_witness:
  "ts_active (ex_failed\<lparr>ts_active := None\<rparr>) = None \<and>
   verify_failure ex_claim ex_failure = Inr () \<and>
   ts_head (ex_failed\<lparr>ts_active := None\<rparr>) = ts_head ex_claimed"
  using tick_outcome [OF ex_tick] by simp

subsection \<open>Recovery\<close>

lemma ex_interrupted:
  "hash32 ex_sha" "active_of ex_sha ex_claimed = Inr (Some ex_claim)"
  "is_path_token (cc_attempt_id ex_claim)" "claim_directory ex_sha ex_claim = Inr ex_dir"
  "ts_attempts ex_claimed (ex_dir, ''completion.json'') = None"
  "ts_attempts ex_claimed (ex_dir, ''failure.json'') = None"
  by simp_all (simp_all add: ex_claimed_def)

lemma ex_no_receipt:
  assumes "recovery_failure ex_sha ex_claim = Inr f"
  shows "ts_objects ex_claimed (contract_name f, contract_digest f) \<in> {None, Some (FContract f)}"
proof -
  obtain g where "f = CFailure g" using recovery_failure_Inr [OF assms] by metis
  then show ?thesis by (simp add: ex_claimed_def)
qed

theorem interrupted_attempt_is_released_witness:
  "\<exists>t. recover ex_sha ex_claimed = (Inr ''INCOMPLETE_ATTEMPT_FAILED'', t) \<and>
    ts_head t = ts_head ex_claimed"
  using interrupted_attempt_is_released [OF ex_interrupted ex_no_receipt] by blast

theorem recovery_outcome_witness:
  "\<exists>t f. recover ex_sha ex_claimed = (Inr ''INCOMPLETE_ATTEMPT_FAILED'', t) \<and>
    ts_active t = None \<and> verify_failure ex_claim f = Inr () \<and> stored (CFailure f) t"
proof -
  obtain t where t: "recover ex_sha ex_claimed = (Inr ''INCOMPLETE_ATTEMPT_FAILED'', t)"
    using recover_interrupted [OF ex_interrupted ex_no_receipt] by blast
  from recovery_outcome [OF ex_claimed_run t] t show ?thesis by auto
qed

theorem durable_failure_blocks_recovery_witness:
  "\<exists>e t. recover ex_sha ex_failed = (Inl e, t) \<and> active_of ex_sha t = Inr (Some ex_claim)"
proof -
  have "ts_attempts ex_failed (ex_dir, ''completion.json'') = None"
    "ts_attempts ex_failed (ex_dir, ''failure.json'') = Some (FContract (CFailure ex_failure))"
    by (simp_all add: ex_failed_def ex_claimed_def)
  from durable_failure_blocks_recovery [OF ex_failed_run _ _ this] show ?thesis by simp blast
qed

subsection \<open>Publishing again\<close>

definition ex_artifacts :: ProjectionArtifacts where
  "ex_artifacts = \<lparr>pa_evidence_unit_root_digest = ex_d (CHR ''1''),
     pa_assumption_root_digest = ex_d (CHR ''2''), pa_alternative_model_root_digest = ex_d (CHR ''3''),
     pa_disposition_receipt_digest = ex_d (CHR ''1''), pa_quarantine_epoch = 0,
     pa_quarantine_marker_digests = [ex_d (CHR ''1'')], pa_observed_phase_order = STORE_PHASES,
     pa_release_compilation_invocations = 0\<rparr>"

text \<open>The first tick is committed with its dependencies, the second claim is active.\<close>

definition ex_second :: TemporalFiles where
  "ex_second = \<lparr>
     ts_objects = [(''clock-claim'', cc_digest ex_claim) \<mapsto> FContract (CClaim ex_claim),
       (''clock-claim'', cc_digest ex_next) \<mapsto> FContract (CClaim ex_next),
       (''semantic-projection-receipt'', sr_digest ex_semantic) \<mapsto> FContract (CSemantic ex_semantic),
       (''clock-completion-receipt'', cp_digest ex_completion) \<mapsto>
         FContract (CCompletion ex_completion)],
     ts_attempts = [(ex_dir, ''semantic.json'') \<mapsto> FContract (CSemantic ex_semantic),
       (ex_dir, ''projection-bundle.json'') \<mapsto>
         FBundle (projection_bundle ex_sha ex_claim ex_semantic ex_artifacts),
       (ex_dir, ''completion.json'') \<mapsto> FContract (CCompletion ex_completion)],
     ts_head = Some (FHead 1 (Some (cp_digest ex_completion))),
     ts_active = Some (FActive (cc_digest ex_next))\<rparr>"

lemma bundle_digest_items:
  "bundle_items b = bundle_items b' \<Longrightarrow> bundle_digest sha256 b = bundle_digest sha256 b'"
  by (simp add: bundle_digest_def)

lemma projection_bundle_digest:
  "pb_digest (projection_bundle sha256 c r a) = bundle_digest sha256 (projection_bundle sha256 c r a)"
  unfolding projection_bundle_def Let_def
  by (simp, rule bundle_digest_items) (simp add: bundle_items_def)

lemma ex_bundle:
  "verify_projection_bundle ex_sha
     (FBundle (projection_bundle ex_sha ex_claim ex_semantic ex_artifacts)) ex_claim ex_completion =
   Inr ()"
proof -
  have "bundle_matches (projection_bundle ex_sha ex_claim ex_semantic ex_artifacts) ex_claim
      ex_completion"
    by (simp add: projection_bundle_def Let_def bundle_matches_def
        ex_artifacts_def ex_completion_def ex_completion_fields_def)
  then show ?thesis by (simp add: verify_projection_bundle_def projection_bundle_digest)
qed

lemma ex_prepare_again:
  "prepare_completion ex_sha ex_claim ex_completion ex_second = (Inr (), ex_second)"
proof -
  have "lookup_contract ex_sha ''semantic-projection-receipt'' (sr_digest ex_semantic) ex_second =
      Inr (Some (CSemantic ex_semantic))"
    by (simp add: lookup_contract_iff ex_second_def)
  moreover have "record_attempt_artifact ex_sha ''a1'' ''completion'' (CCompletion ex_completion)
      ex_second = (Inr (), ex_second)"
    by (simp add: op_eval ex_second_def del: canonical_contract.simps)
  ultimately show ?thesis
    by (simp add: prepare_completion_def seq_read read_attempt_def ex_bundle check_semantic_def
        get_contract_def ex_second_def)
qed

theorem republication_releases_foreign_claim_witness:
  "\<exists>t. publish_completion ex_sha \<lparr>th_clock_sequence = 0, th_completion_digest = None\<rparr>
      ex_claim ex_completion ex_second =
      (Inr \<lparr>th_clock_sequence = 1, th_completion_digest = Some (cp_digest ex_completion)\<rparr>, t) \<and>
    active_of ex_sha t = Inr None"
proof -
  have head: "read_head ex_second = (Inr \<lparr>th_clock_sequence = cp_clock_sequence ex_completion,
      th_completion_digest = Some (cp_digest ex_completion)\<rparr>, ex_second)"
    by (simp add: read_head_def head_of_def parse_head_def temporal_head_def ex_second_def)
  have "active_of ex_sha ex_second = Inr (Some ex_next)"
    by (simp add: active_of_Some_iff lookup_contract_iff ex_second_def ex_claims_differ)
  from republication_releases_foreign_claim [OF head ex_prepare_again this ex_claims_differ]
  show ?thesis by auto
qed

subsection \<open>The remaining witnesses\<close>

definition ex_projecting :: Coordinator where
  "ex_projecting = ex_failing\<lparr>
     co_project := \<lambda>c d. case build_contract ex_sha (CSemantic (ex_semantic_fields
         \<lparr>sr_clock_claim_digest := cc_digest c, sr_validated_event_digest := d\<rparr>)) of
       Inr (CSemantic r) \<Rightarrow> Inr r
     | _ \<Rightarrow> Inl (TemporalProjectionError ''SEMANTIC'' ''CHECK_FAILED'' None),
     co_project_remaining := \<lambda>_ _ _. Inr ex_artifacts\<rparr>"

theorem tick_refines_machine_witness:
  "\<exists>es. run_of (tstep ex_sha) (open_store empty_directory) es
    (snd (execute ex_sha ex_projecting (ValidatedEvent (ex_d (CHR ''1''))) ''a1'' ''worker''
      (open_store empty_directory)))"
proof (rule tick_refines_machine)
  fix c d r assume "co_project ex_projecting c d = Inr r"
  then show "contract_error ex_sha (CSemantic r) = None"
    by (auto simp: ex_projecting_def dest: build_contract_valid(1) split: sum.splits Contract.splits)
qed

theorem put_get_roundtrip_witness:
  "\<exists>t. put_contract (CClaim ex_claim) (open_store empty_directory) = (Inr (), t) \<and>
    get_contract ex_sha ''clock-claim'' (cc_digest ex_claim) t = (Inr (Some (CClaim ex_claim)), t)"
proof -
  obtain t where t: "put_contract (CClaim ex_claim) (open_store empty_directory) = (Inr (), t)"
    by (simp add: op_eval open_store_def empty_directory_def)
  from put_get_roundtrip [OF ex_claim_valid(2) t stop stop] t show ?thesis by auto
qed

theorem contract_bytes_identify_witness:
  "contract_bytes (CCompletion (ex_completion\<lparr>cp_quarantine_marker_digests := [''m'', ''n'']\<rparr>)) =
   contract_bytes (CCompletion (ex_completion\<lparr>cp_quarantine_marker_digests := [''n'', ''m'']\<rparr>))"
proof -
  have "sort_markers [''n'', ''m''] = sort_markers [''m'', ''n'']" by code_simp
  then show ?thesis
    using contract_bytes_identify [of
      "CCompletion (ex_completion\<lparr>cp_quarantine_marker_digests := [''m'', ''n'']\<rparr>)"
      "CCompletion (ex_completion\<lparr>cp_quarantine_marker_digests := [''n'', ''m'']\<rparr>)"]
    by (simp del: sort_key_simps)
qed

end
