(* ===== verification/Synthesis_Values.thy ===== *)
theory Synthesis_Values
  imports Choice_Paths Effects "HOL-Library.Multiset"
begin

section \<open>Errors, validated construction and canonical values\<close>

text \<open>
  What the attempt, publication and reconciliation modules of
  \<^verbatim>\<open>synthesis/v0_4\<close> share: their exceptions, the pattern of a frozen dataclass
  whose \<^verbatim>\<open>__post_init__\<close> tests its fields in order, the digest of a dictionary
  that the module itself builds, and the immutable values of
  \<^verbatim>\<open>canonical_values.py\<close>. Tests for the exact class of an argument are discharged
  by the types of the model.
\<close>

datatype synthesis_error =
    AttemptReplayError string
  | PostAcceptanceCompletionError string
  | CanonicalValueError string
  | ExecutionProtocolError string
  | PublicationProtocolError string
  | ShardPublicationError string
  | PublicationStoreError string
  | PublicationConflictError string
  | PublicationCorruptionError string
  | InjectedPublicationCrash string
  | FileExists
  | FileMissing
  | ReconciliationError string
  | ReconciliationConflictError string
  | ChoiceError choice_error

subsection \<open>Validated construction\<close>

text \<open>\<open>checked cs x\<close> is the constructor of \<open>x\<close>: the tests \<open>cs\<close> run in
  order and the first one that fails is raised.\<close>

definition unless :: "bool \<Rightarrow> 'e \<Rightarrow> 'e option" where
  "unless ok e = (if ok then None else Some e)"

fun checked :: "'e option list \<Rightarrow> 'a \<Rightarrow> 'e + 'a" where
  "checked [] x = Inr x"
| "checked (None # cs) x = checked cs x"
| "checked (Some e # cs) x = Inl e"

lemma unless_None [simp]: "unless ok e = None \<longleftrightarrow> ok"
  by (simp add: unless_def)

lemma unless_simps [simp]: "unless True e = None" "unless False e = Some e"
  by (simp_all add: unless_def)

lemma checked_Inr [simp]: "checked cs x = Inr y \<longleftrightarrow> y = x \<and> (\<forall>c\<in>set cs. c = None)"
  by (induction cs x rule: checked.induct) auto

lemma checked_append:
  "checked (cs @ ds) x = (case checked cs x of Inl e \<Rightarrow> Inl e | Inr y \<Rightarrow> checked ds y)"
  by (induction cs x rule: checked.induct) auto

text \<open>One fallible computation after another.\<close>

definition and_then :: "'e + 'a \<Rightarrow> ('a \<Rightarrow> 'e + 'b) \<Rightarrow> 'e + 'b" where
  "and_then r f = (case r of Inl e \<Rightarrow> Inl e | Inr x \<Rightarrow> f x)"

lemma and_then_Inr [simp]: "and_then r f = Inr y \<longleftrightarrow> (\<exists>x. r = Inr x \<and> f x = Inr y)"
  by (auto simp: and_then_def split: sum.splits)

lemma and_then_simps [simp]: "and_then (Inr x) f = f x" "and_then (Inl e) f = Inl e"
  by (simp_all add: and_then_def)

subsection \<open>Digests of dictionaries\<close>

text \<open>The dictionaries that the modules hash hold strings, integers, booleans, \<open>None\<close>,
  lists and dictionaries with string keys; they are written as JSON values, and
  \<open>canonical_sha256_py_of\<close> says that \<^verbatim>\<open>canonical_sha256\<close> of such a
  dictionary cannot fail and is \<open>json_digest\<close>.\<close>

fun py_of :: "json \<Rightarrow> pyval" where
  "py_of JNull = PyNone"
| "py_of (JBool b) = PyBool b"
| "py_of (JInt n) = PyInt n"
| "py_of (JStr s) = PyStr s"
| "py_of (JArr xs) = PyList (map py_of xs)"
| "py_of (JObj ps) = PyDict (map (\<lambda>(k, v). (PyStr k, py_of v)) ps)"

definition json_digest :: "(byte list \<Rightarrow> byte list) \<Rightarrow> json \<Rightarrow> string" where
  "json_digest sha256 j = hex (sha256 (json_bytes j))"

lemma map_res_all:
  "(\<And>x. x \<in> set xs \<Longrightarrow> f x = Inr (g x)) \<Longrightarrow> map_res f xs = Inr (map g xs)"
  by (induction xs) auto

lemma map_res_map_id:
  "(\<And>x. x \<in> set xs \<Longrightarrow> f (g x) = Inr x) \<Longrightarrow> map_res f (map g xs) = Inr xs"
  by (induction xs) auto

lemma to_json_value_py_of [simp]: "to_json_value (py_of j) = Inr j"
proof (induction j)
  case (JArr xs)
  then have "map_res to_json_value (map py_of xs) = Inr xs" by (intro map_res_map_id) auto
  then show ?case by simp
next
  case (JObj ps)
  then have "map_res (\<lambda>(k, v). case k of
        PyStr s \<Rightarrow> (case to_json_value v of Inl e \<Rightarrow> Inl e | Inr j \<Rightarrow> Inr (s, j))
      | _ \<Rightarrow> Inl (CanonicalSerializationError ''canonical JSON object keys must be strings''))
      (map (\<lambda>(k, v). (PyStr k, py_of v)) ps) = Inr ps"
    by (intro map_res_map_id) fastforce
  then show ?case by simp
qed auto

lemma canonical_json_bytes_py_of: "canonical_json_bytes (py_of j) = Inr (json_bytes j)"
  by (simp add: canonical_json_bytes_def)

lemma canonical_sha256_py_of: "canonical_sha256 sha256 (py_of j) = Inr (json_digest sha256 j)"
  by (simp add: canonical_sha256_def canonical_json_bytes_py_of json_digest_def)

subsection \<open>Keys\<close>

text \<open>\<^verbatim>\<open>_sample_key_value\<close> and \<^verbatim>\<open>_attempt_key_value\<close>, the same
  dictionary in every module.\<close>

definition sample_key_value :: "SampleKey \<Rightarrow> json" where
  "sample_key_value k = JObj [(''release'', JStr (release k)),
     (''sample_index'', JInt (sample_index k)), (''target_id'', JStr (target_id k))]"

definition attempt_key_value :: "AttemptKey \<Rightarrow> json" where
  "attempt_key_value k = (let sample = sample_key k in
     JObj [(''attempt_index'', JInt (AttemptKey.attempt_index k)),
       (''release'', JStr (release sample)),
       (''sample_index'', JInt (sample_index sample)),
       (''target_id'', JStr (target_id sample))])"

definition optional_string :: "string option \<Rightarrow> json" where
  "optional_string v = (case v of None \<Rightarrow> JNull | Some s \<Rightarrow> JStr s)"

definition string_list :: "string list \<Rightarrow> json" where
  "string_list xs = JArr (map JStr xs)"

definition UINT32_MAX :: int where "UINT32_MAX = 2 ^ 32 - 1"

definition is_uint32 :: "int \<Rightarrow> bool" where
  "is_uint32 n = (0 \<le> n \<and> n \<le> UINT32_MAX)"

subsection \<open>Canonical values\<close>

text \<open>\<^verbatim>\<open>canonical_values.py\<close>. The types are the value algebra that
  \<^verbatim>\<open>validate_canonical_value\<close> admits.\<close>

datatype CanonicalValue =
    CvNone
  | CvBool bool
  | CvInt int
  | CvStr string
  | CvArray CanonicalArray
  | CvObject CanonicalObject
and CanonicalArray = CanonicalArray (array_values: "CanonicalValue list")
and CanonicalField = CanonicalField (field_name: string) (field_value: CanonicalValue)
and CanonicalObject = CanonicalObject (object_fields: "CanonicalField list")

definition canonical_field ::
  "string \<Rightarrow> CanonicalValue \<Rightarrow> synthesis_error + CanonicalField" where
  "canonical_field name v = checked
     [unless (name \<noteq> '''')
        (CanonicalValueError ''canonical object field names must be nonempty'')]
     (CanonicalField name v)"

definition canonical_object :: "CanonicalField list \<Rightarrow> synthesis_error + CanonicalObject" where
  "canonical_object fs = (let names = map field_name fs in checked
     [unless (distinct names)
        (CanonicalValueError ''canonical object field names must be unique''),
      unless (names = sort_key utf8 names)
        (CanonicalValueError
          ''canonical object fields must be sorted by unsigned UTF-8 byte order'')]
     (CanonicalObject fs))"

text \<open>\<^verbatim>\<open>CanonicalObject.from_pairs\<close>.\<close>

definition from_pairs :: "(string \<times> CanonicalValue) list \<Rightarrow> synthesis_error + CanonicalObject" where
  "from_pairs pairs = (case map_res (\<lambda>(name, v). canonical_field name v) pairs of
     Inl e \<Rightarrow> Inl e
   | Inr fs \<Rightarrow> canonical_object (sort_key (\<lambda>f. utf8 (field_name f)) fs))"

text \<open>\<^verbatim>\<open>to_json_value\<close>; the field names of a constructed object are distinct, so
  the dictionary comprehension keeps every field.\<close>

fun canonical_json :: "CanonicalValue \<Rightarrow> json"
  and array_json :: "CanonicalArray \<Rightarrow> json"
  and object_json :: "CanonicalObject \<Rightarrow> json"
  and field_json :: "CanonicalField \<Rightarrow> string \<times> json" where
  "canonical_json CvNone = JNull"
| "canonical_json (CvBool b) = JBool b"
| "canonical_json (CvInt n) = JInt n"
| "canonical_json (CvStr s) = JStr s"
| "canonical_json (CvArray a) = array_json a"
| "canonical_json (CvObject ob) = object_json ob"
| "array_json (CanonicalArray vs) = JArr (map canonical_json vs)"
| "object_json (CanonicalObject fs) = JObj (map field_json fs)"
| "field_json (CanonicalField name v) = (name, canonical_json v)"

definition canonical_value_bytes :: "CanonicalValue \<Rightarrow> byte list" where
  "canonical_value_bytes v = json_bytes (canonical_json v)"

lemma from_pairs_total:
  assumes "distinct (map fst ps)" and "\<forall>p\<in>set ps. fst p \<noteq> ''''"
  obtains ob where "from_pairs ps = Inr ob" and "mset (object_fields ob) =
    mset (map (\<lambda>(name, v). CanonicalField name v) ps)"
    and "sorted (map (\<lambda>f. utf8 (field_name f)) (object_fields ob))"
proof -
  let ?fs = "map (\<lambda>(name, v). CanonicalField name v) ps"
  let ?ss = "sort_key (\<lambda>f. utf8 (field_name f)) ?fs"
  have "map_res (\<lambda>(name, v). canonical_field name v) ps = Inr ?fs"
    using assms(2) by (intro map_res_all) (auto simp: canonical_field_def)
  moreover have names: "map field_name ?fs = map fst ps" by (auto simp: case_prod_unfold)
  have "distinct (map field_name ?ss)"
    using assms(1) unfolding names [symmetric] by (simp only: distinct_map set_sort distinct_sort)
  moreover have "sort_key utf8 (map field_name ?ss) = map field_name ?ss"
    by (intro sort_key_id_if_sorted) (simp add: comp_def)
  ultimately have "from_pairs ps = Inr (CanonicalObject ?ss)"
    by (simp add: from_pairs_def canonical_object_def Let_def)
  then show thesis by (rule that) simp_all
qed

end
