(* ===== verification/Attempts.thy ===== *)
theory Attempts
  imports Synthesis_Values
begin

section \<open>Attempt completions\<close>

text \<open>
  The rejection taxonomy of \<^verbatim>\<open>contracts.py\<close> and the completion contracts of
  \<^verbatim>\<open>synthesis/v0_4/attempts.py\<close>: an accepted or a rejected attempt of a sample,
  with its tests, its JSON value and its digest. SHA-256 is the argument \<open>sha256\<close>.
\<close>

subsection \<open>Rejections\<close>

datatype RejectionOwner =
    TARGET_CATALOG
  | PLANNER
  | STATE_CONSTRUCTOR
  | EVENT_SAMPLER
  | KERNEL
  | INDEPENDENT_VERIFIER
  | REPLAY_ENGINE
  | CANONICALIZER
  | HOLDOUT_ALLOCATOR
  | MUTATION_ENGINE
  | DUPLICATE_MONITOR
  | RELEASE_COMPILER

fun rejection_owner_value :: "RejectionOwner \<Rightarrow> string" where
  "rejection_owner_value TARGET_CATALOG = ''target_catalog''"
| "rejection_owner_value PLANNER = ''planner''"
| "rejection_owner_value STATE_CONSTRUCTOR = ''state_constructor''"
| "rejection_owner_value EVENT_SAMPLER = ''event_sampler''"
| "rejection_owner_value KERNEL = ''kernel''"
| "rejection_owner_value INDEPENDENT_VERIFIER = ''independent_verifier''"
| "rejection_owner_value REPLAY_ENGINE = ''replay_engine''"
| "rejection_owner_value CANONICALIZER = ''canonicalizer''"
| "rejection_owner_value HOLDOUT_ALLOCATOR = ''holdout_allocator''"
| "rejection_owner_value MUTATION_ENGINE = ''mutation_engine''"
| "rejection_owner_value DUPLICATE_MONITOR = ''duplicate_monitor''"
| "rejection_owner_value RELEASE_COMPILER = ''release_compiler''"

datatype RejectionCause =
    TARGET_CONTRACT_UNSAT
  | TARGET_SEARCH_BUDGET_EXHAUSTED
  | PLAN_CONSTRUCTION_FAILURE
  | STATE_CONSTRUCTION_FAILURE
  | SAMPLER_PRECONDITION_FAILURE
  | KERNEL_EXECUTION_FAILURE
  | INDEPENDENT_VERIFIER_FAILURE
  | REPLAY_DIVERGENCE
  | CANONICALIZATION_FAILURE
  | CANONICALIZATION_DIVERGENCE
  | HOLDOUT_CONFLICT
  | MUTATION_NOOP
  | MUTATION_NOT_INVALID
  | MUTATION_AMBIGUOUS
  | MUTATION_ESCAPE
  | DUPLICATE_ANOMALY
  | ARTIFACT_SERIALIZATION_FAILURE

fun rejection_cause_value :: "RejectionCause \<Rightarrow> string" where
  "rejection_cause_value TARGET_CONTRACT_UNSAT = ''TARGET_CONTRACT_UNSAT''"
| "rejection_cause_value TARGET_SEARCH_BUDGET_EXHAUSTED = ''TARGET_SEARCH_BUDGET_EXHAUSTED''"
| "rejection_cause_value PLAN_CONSTRUCTION_FAILURE = ''PLAN_CONSTRUCTION_FAILURE''"
| "rejection_cause_value STATE_CONSTRUCTION_FAILURE = ''STATE_CONSTRUCTION_FAILURE''"
| "rejection_cause_value SAMPLER_PRECONDITION_FAILURE = ''SAMPLER_PRECONDITION_FAILURE''"
| "rejection_cause_value KERNEL_EXECUTION_FAILURE = ''KERNEL_EXECUTION_FAILURE''"
| "rejection_cause_value INDEPENDENT_VERIFIER_FAILURE = ''INDEPENDENT_VERIFIER_FAILURE''"
| "rejection_cause_value REPLAY_DIVERGENCE = ''REPLAY_DIVERGENCE''"
| "rejection_cause_value CANONICALIZATION_FAILURE = ''CANONICALIZATION_FAILURE''"
| "rejection_cause_value CANONICALIZATION_DIVERGENCE = ''CANONICALIZATION_DIVERGENCE''"
| "rejection_cause_value HOLDOUT_CONFLICT = ''HOLDOUT_CONFLICT''"
| "rejection_cause_value MUTATION_NOOP = ''MUTATION_NOOP''"
| "rejection_cause_value MUTATION_NOT_INVALID = ''MUTATION_NOT_INVALID''"
| "rejection_cause_value MUTATION_AMBIGUOUS = ''MUTATION_AMBIGUOUS''"
| "rejection_cause_value MUTATION_ESCAPE = ''MUTATION_ESCAPE''"
| "rejection_cause_value DUPLICATE_ANOMALY = ''DUPLICATE_ANOMALY''"
| "rejection_cause_value ARTIFACT_SERIALIZATION_FAILURE = ''ARTIFACT_SERIALIZATION_FAILURE''"

fun cause_owner :: "RejectionCause \<Rightarrow> RejectionOwner" where
  "cause_owner TARGET_CONTRACT_UNSAT = TARGET_CATALOG"
| "cause_owner TARGET_SEARCH_BUDGET_EXHAUSTED = PLANNER"
| "cause_owner PLAN_CONSTRUCTION_FAILURE = PLANNER"
| "cause_owner STATE_CONSTRUCTION_FAILURE = STATE_CONSTRUCTOR"
| "cause_owner SAMPLER_PRECONDITION_FAILURE = EVENT_SAMPLER"
| "cause_owner KERNEL_EXECUTION_FAILURE = KERNEL"
| "cause_owner INDEPENDENT_VERIFIER_FAILURE = INDEPENDENT_VERIFIER"
| "cause_owner REPLAY_DIVERGENCE = REPLAY_ENGINE"
| "cause_owner CANONICALIZATION_FAILURE = CANONICALIZER"
| "cause_owner CANONICALIZATION_DIVERGENCE = CANONICALIZER"
| "cause_owner HOLDOUT_CONFLICT = HOLDOUT_ALLOCATOR"
| "cause_owner MUTATION_NOOP = MUTATION_ENGINE"
| "cause_owner MUTATION_NOT_INVALID = MUTATION_ENGINE"
| "cause_owner MUTATION_AMBIGUOUS = MUTATION_ENGINE"
| "cause_owner MUTATION_ESCAPE = MUTATION_ENGINE"
| "cause_owner DUPLICATE_ANOMALY = DUPLICATE_MONITOR"
| "cause_owner ARTIFACT_SERIALIZATION_FAILURE = RELEASE_COMPILER"

definition ATTEMPT_REPLAY_SCHEMA_VERSION :: string where
  "ATTEMPT_REPLAY_SCHEMA_VERSION = ''csd-attempt-replay/0.4''"

definition ATTEMPT_REJECTION_SCHEMA_VERSION :: string where
  "ATTEMPT_REJECTION_SCHEMA_VERSION = ''csd-attempt-rejection/0.4''"

definition check_digest :: "string \<Rightarrow> string \<Rightarrow> synthesis_error option" where
  "check_digest value name = unless (is_hex_256 value)
     (AttemptReplayError (name @ '' must be a lowercase SHA-256 digest''))"

definition check_token :: "string \<Rightarrow> string \<Rightarrow> synthesis_error option" where
  "check_token value name = unless (is_token value)
     (AttemptReplayError (name @ '' must be a lowercase ASCII token''))"

record AttemptRejection =
  rj_cause :: RejectionCause
  rj_detail_code :: string
  rj_constraint_ids :: "string list"
  rj_normalized_facts :: CanonicalObject
  rj_search_branch_digest :: string
  rj_schema_version :: string

definition attempt_rejection :: "AttemptRejection \<Rightarrow> synthesis_error + AttemptRejection" where
  "attempt_rejection r = checked
     [check_token (rj_detail_code r) ''detail_code'',
      unless (rj_constraint_ids r \<noteq> [])
        (AttemptReplayError ''attempt rejection requires at least one constraint ID''),
      unless ('''' \<notin> set (rj_constraint_ids r))
        (AttemptReplayError ''constraint IDs must be nonempty exact strings''),
      unless (distinct (rj_constraint_ids r))
        (AttemptReplayError ''constraint IDs must be unique''),
      unless (rj_constraint_ids r = sort_key utf8 (rj_constraint_ids r))
        (AttemptReplayError ''constraint IDs must use unsigned UTF-8 byte order''),
      check_digest (rj_search_branch_digest r) ''search_branch_digest'',
      unless (rj_schema_version r = ATTEMPT_REJECTION_SCHEMA_VERSION)
        (AttemptReplayError
          (''attempt rejection schema must be '' @ ATTEMPT_REJECTION_SCHEMA_VERSION))]
     r"

definition rejection_owner :: "AttemptRejection \<Rightarrow> RejectionOwner" where
  "rejection_owner r = cause_owner (rj_cause r)"

definition rejection_json :: "AttemptRejection \<Rightarrow> json" where
  "rejection_json r = JObj
     [(''cause'', JStr (rejection_cause_value (rj_cause r))),
      (''constraint_ids'', string_list (rj_constraint_ids r)),
      (''detail_code'', JStr (rj_detail_code r)),
      (''normalized_facts'', object_json (rj_normalized_facts r)),
      (''owner'', JStr (rejection_owner_value (rejection_owner r))),
      (''schema_version'', JStr (rj_schema_version r)),
      (''search_branch_digest'', JStr (rj_search_branch_digest r))]"

definition rejection_digest :: "(byte list \<Rightarrow> byte list) \<Rightarrow> AttemptRejection \<Rightarrow> string" where
  "rejection_digest sha256 r = json_digest sha256 (rejection_json r)"

subsection \<open>Completions\<close>

text \<open>The fields that accepted and rejected attempts share, with their tests.\<close>

record CompletionEvidence =
  ac_attempt_key :: AttemptKey
  ac_generation_namespace_digest :: string
  ac_attempt_input_commitment_digest :: string
  ac_search_branch_digest :: string
  ac_choice_ledger_digest :: string
  ac_identity_ledger_digest :: string
  ac_schema_version :: string

record AttemptAccepted = CompletionEvidence +
  aa_result :: CanonicalObject

record AttemptRejected = CompletionEvidence +
  ad_rejection :: AttemptRejection

datatype AttemptCompletion =
    CompletionAccepted AttemptAccepted
  | CompletionRejected AttemptRejected

definition check_evidence :: "'a CompletionEvidence_scheme \<Rightarrow> synthesis_error option list" where
  "check_evidence a =
     [check_digest (ac_generation_namespace_digest a) ''generation_namespace_digest'',
      check_digest (ac_attempt_input_commitment_digest a) ''attempt_input_commitment_digest'',
      check_digest (ac_search_branch_digest a) ''search_branch_digest'',
      check_digest (ac_choice_ledger_digest a) ''choice_ledger_digest'',
      check_digest (ac_identity_ledger_digest a) ''identity_ledger_digest'']"

definition check_replay_schema :: "'a CompletionEvidence_scheme \<Rightarrow> synthesis_error option" where
  "check_replay_schema a = unless (ac_schema_version a = ATTEMPT_REPLAY_SCHEMA_VERSION)
     (AttemptReplayError (''attempt replay schema must be '' @ ATTEMPT_REPLAY_SCHEMA_VERSION))"

definition attempt_accepted :: "AttemptAccepted \<Rightarrow> synthesis_error + AttemptAccepted" where
  "attempt_accepted a = checked (check_evidence a @ [check_replay_schema a]) a"

definition attempt_rejected :: "AttemptRejected \<Rightarrow> synthesis_error + AttemptRejected" where
  "attempt_rejected a = checked (check_evidence a @
     [unless (rj_search_branch_digest (ad_rejection a) = ac_search_branch_digest a)
        (AttemptReplayError ''rejection and completion branch digests must match''),
      check_replay_schema a]) a"

definition result_digest :: "(byte list \<Rightarrow> byte list) \<Rightarrow> AttemptAccepted \<Rightarrow> string" where
  "result_digest sha256 a = json_digest sha256 (object_json (aa_result a))"

definition accepted_json :: "(byte list \<Rightarrow> byte list) \<Rightarrow> AttemptAccepted \<Rightarrow> json" where
  "accepted_json sha256 a = JObj
     [(''attempt_input_commitment_digest'', JStr (ac_attempt_input_commitment_digest a)),
      (''attempt_key'', attempt_key_value (ac_attempt_key a)),
      (''choice_ledger_digest'', JStr (ac_choice_ledger_digest a)),
      (''generation_namespace_digest'', JStr (ac_generation_namespace_digest a)),
      (''identity_ledger_digest'', JStr (ac_identity_ledger_digest a)),
      (''result'', object_json (aa_result a)),
      (''result_digest'', JStr (result_digest sha256 a)),
      (''schema_version'', JStr (ac_schema_version a)),
      (''search_branch_digest'', JStr (ac_search_branch_digest a)),
      (''status'', JStr ''accepted'')]"

definition rejected_json :: "(byte list \<Rightarrow> byte list) \<Rightarrow> AttemptRejected \<Rightarrow> json" where
  "rejected_json sha256 a = JObj
     [(''attempt_input_commitment_digest'', JStr (ac_attempt_input_commitment_digest a)),
      (''attempt_key'', attempt_key_value (ac_attempt_key a)),
      (''choice_ledger_digest'', JStr (ac_choice_ledger_digest a)),
      (''generation_namespace_digest'', JStr (ac_generation_namespace_digest a)),
      (''identity_ledger_digest'', JStr (ac_identity_ledger_digest a)),
      (''rejection'', rejection_json (ad_rejection a)),
      (''rejection_digest'', JStr (rejection_digest sha256 (ad_rejection a))),
      (''schema_version'', JStr (ac_schema_version a)),
      (''search_branch_digest'', JStr (ac_search_branch_digest a)),
      (''status'', JStr ''rejected'')]"

fun completion_digest :: "(byte list \<Rightarrow> byte list) \<Rightarrow> AttemptCompletion \<Rightarrow> string" where
  "completion_digest sha256 (CompletionAccepted a) = json_digest sha256 (accepted_json sha256 a)"
| "completion_digest sha256 (CompletionRejected a) = json_digest sha256 (rejected_json sha256 a)"

fun completion_key :: "AttemptCompletion \<Rightarrow> AttemptKey" where
  "completion_key (CompletionAccepted a) = ac_attempt_key a"
| "completion_key (CompletionRejected a) = ac_attempt_key a"

fun completion_namespace :: "AttemptCompletion \<Rightarrow> string" where
  "completion_namespace (CompletionAccepted a) = ac_generation_namespace_digest a"
| "completion_namespace (CompletionRejected a) = ac_generation_namespace_digest a"

abbreviation key_index :: "AttemptKey \<Rightarrow> int" where
  "key_index \<equiv> AttemptKey.attempt_index"

abbreviation completion_index :: "AttemptCompletion \<Rightarrow> int" where
  "completion_index c \<equiv> key_index (completion_key c)"

abbreviation completion_sample :: "AttemptCompletion \<Rightarrow> SampleKey" where
  "completion_sample c \<equiv> sample_key (completion_key c)"

record OperationalAttemptBlock =
  ob_attempt_key :: AttemptKey
  ob_reason_code :: string
  ob_operational_retry_count :: int

definition operational_attempt_block ::
  "OperationalAttemptBlock \<Rightarrow> synthesis_error + OperationalAttemptBlock" where
  "operational_attempt_block b = checked
     [check_token (ob_reason_code b) ''reason_code'',
      unless (0 \<le> ob_operational_retry_count b)
        (AttemptReplayError ''operational_retry_count must be a nonnegative exact integer'')]
     b"

end
