(* ===== verification/Execution_Inventory.thy ===== *)
theory Execution_Inventory
  imports Attempts
begin

section \<open>Execution inventories and operational retries\<close>

text \<open>
  \<^verbatim>\<open>synthesis/v0_4/execution_protocol.py\<close> and
  \<^verbatim>\<open>generation_namespace.py\<close>: the inventory that fixes which samples a run
  produces and how they are sharded, the chain of operational failures of one attempt, and the
  supersession of inventories. Every constructor runs the tests of its
  \<^verbatim>\<open>__post_init__\<close> in order; SHA-256 is the argument \<open>sha256\<close>.
\<close>

subsection \<open>Constants\<close>

definition SAMPLE_KEY_ENCODING_ID :: string where "SAMPLE_KEY_ENCODING_ID = ''csd-sample-key-canonical-json''"

definition SAMPLE_KEY_ENCODING_VERSION :: int where "SAMPLE_KEY_ENCODING_VERSION = 1"

definition SHARD_POLICY_ID :: string where "SHARD_POLICY_ID = ''csd-shard-contract''"

definition SHARD_POLICY_VERSION :: int where "SHARD_POLICY_VERSION = 1"

definition SHARD_SEMANTIC_ASSIGNMENT :: string where "SHARD_SEMANTIC_ASSIGNMENT = ''global-ordinal-modulo-shard-count''"

definition EXECUTION_VALIDATION_POLICY_ID :: string where "EXECUTION_VALIDATION_POLICY_ID = ''csd-execution-validation''"

definition EXECUTION_VALIDATION_POLICY_VERSION :: int where "EXECUTION_VALIDATION_POLICY_VERSION = 1"

definition REQUIRED_SCHEMA_VERSIONS_SCHEMA_VERSION :: string where "REQUIRED_SCHEMA_VERSIONS_SCHEMA_VERSION = ''csd-required-schema-versions/0.4''"

definition SAMPLE_EXECUTION_SPEC_SCHEMA_VERSION :: string where "SAMPLE_EXECUTION_SPEC_SCHEMA_VERSION = ''csd-sample-execution-spec/0.4''"

definition EXECUTION_INVENTORY_SCHEMA_VERSION :: string where "EXECUTION_INVENTORY_SCHEMA_VERSION = ''csd-execution-inventory/0.4''"

definition OPERATIONAL_RETRY_POLICY_SCHEMA_VERSION :: string where "OPERATIONAL_RETRY_POLICY_SCHEMA_VERSION = ''csd-operational-retry-policy/0.4''"

definition OPERATIONAL_FAILURE_SCHEMA_VERSION :: string where "OPERATIONAL_FAILURE_SCHEMA_VERSION = ''csd-operational-failure/0.4''"

definition OPERATIONAL_EXHAUSTION_SCHEMA_VERSION :: string where "OPERATIONAL_EXHAUSTION_SCHEMA_VERSION = ''csd-operational-exhaustion/0.4''"

definition INVENTORY_SUPERSESSION_SCHEMA_VERSION :: string where "INVENTORY_SUPERSESSION_SCHEMA_VERSION = ''csd-inventory-supersession/0.4''"

definition ATTEMPT_COMPLETION_ENVELOPE_SCHEMA_VERSION :: string where "ATTEMPT_COMPLETION_ENVELOPE_SCHEMA_VERSION = ''csd-attempt-completion-envelope/0.4''"

definition INVENTORY_COMPLETION_REFERENCE_SCHEMA_VERSION :: string where "INVENTORY_COMPLETION_REFERENCE_SCHEMA_VERSION = ''csd-inventory-completion-reference/0.4''"

definition OPERATIONAL_PUBLICATION_SCHEMA_VERSION :: string where "OPERATIONAL_PUBLICATION_SCHEMA_VERSION = ''csd-operational-publication/0.4''"

definition REPLAY_VALIDATION_RECEIPT_SCHEMA_VERSION :: string where "REPLAY_VALIDATION_RECEIPT_SCHEMA_VERSION = ''csd-replay-validation-receipt/0.4''"

definition SHARD_MANIFEST_SCHEMA_VERSION :: string where "SHARD_MANIFEST_SCHEMA_VERSION = ''csd-shard-manifest/0.4''"

definition CORPUS_SEMANTIC_MANIFEST_SCHEMA_VERSION :: string where "CORPUS_SEMANTIC_MANIFEST_SCHEMA_VERSION = ''csd-corpus-semantic-manifest/0.4''"

definition RUN_EVIDENCE_MANIFEST_SCHEMA_VERSION :: string where "RUN_EVIDENCE_MANIFEST_SCHEMA_VERSION = ''csd-run-evidence-manifest/0.4''"

definition OPERATIONAL_RETRY_UINT8_MAX :: int where "OPERATIONAL_RETRY_UINT8_MAX = 255"

definition DEFAULT_MAXIMUM_OPERATIONAL_RETRIES :: int where "DEFAULT_MAXIMUM_OPERATIONAL_RETRIES = 2"

definition MAX_SHARD_COUNT :: int where "MAX_SHARD_COUNT = 2 ^ 32 - 1"

subsection \<open>Tests\<close>

definition x_error :: "string \<Rightarrow> synthesis_error" where
  "x_error m = ExecutionProtocolError m"

definition x_digest :: "string \<Rightarrow> string \<Rightarrow> synthesis_error option" where
  "x_digest v name = unless (is_hex_256 v) (x_error (name @ '' must be a lowercase SHA-256 digest''))"

definition x_token :: "string \<Rightarrow> string \<Rightarrow> synthesis_error option" where
  "x_token v name = unless (is_token v) (x_error (name @ '' must be a lowercase ASCII token''))"

definition x_positive :: "int \<Rightarrow> string \<Rightarrow> synthesis_error option" where
  "x_positive v name = unless (0 < v) (x_error (name @ '' must be a positive exact integer''))"

definition x_constant :: "string \<Rightarrow> string \<Rightarrow> string \<Rightarrow> synthesis_error option" where
  "x_constant v e name = unless (v = e)
     (x_error (name @ '' must be the exact value '' @ repr_str e))"

definition x_constant_int :: "int \<Rightarrow> int \<Rightarrow> string \<Rightarrow> synthesis_error option" where
  "x_constant_int v e name = unless (v = e)
     (x_error (name @ '' must be the exact value '' @ py_str e))"

text \<open>A digest that is required of an optional field.\<close>

definition x_some_digest :: "string option \<Rightarrow> string \<Rightarrow> synthesis_error option" where
  "x_some_digest v name = unless (case v of None \<Rightarrow> False | Some d \<Rightarrow> is_hex_256 d)
     (x_error (name @ '' must be a lowercase SHA-256 digest''))"

subsection \<open>The generation namespace\<close>

record GenerationNamespace =
  gn_release :: string
  gn_choice_algorithm_id :: string
  gn_choice_algorithm_version :: int
  gn_identity_algorithm_id :: string
  gn_identity_algorithm_version :: int
  gn_identity_schema_version :: string
  gn_target_definition_digest :: string
  gn_release_policy_digest :: string
  gn_arithmetic_policy_digest :: string
  gn_replay_policy_id :: string
  gn_replay_policy_version :: int
  gn_replay_policy_digest :: string
  gn_shard_policy_id :: string
  gn_shard_policy_version :: int
  gn_shard_policy_digest :: string

definition n_digest :: "string \<Rightarrow> string \<Rightarrow> synthesis_error option" where
  "n_digest v name = unless (is_hex_256 v)
     (ChoiceError (ChoiceValidationError (name @ '' must be a lowercase SHA-256 digest'')))"

definition n_token :: "string \<Rightarrow> string \<Rightarrow> synthesis_error option" where
  "n_token v name = unless (is_token v)
     (ChoiceError (ChoiceValidationError (name @ '' must be a lowercase ASCII token'')))"

definition n_version :: "int \<Rightarrow> string \<Rightarrow> synthesis_error option" where
  "n_version v name = unless (0 < v)
     (ChoiceError (ChoiceValidationError (name @ '' must be a positive integer'')))"

definition generation_namespace ::
  "GenerationNamespace \<Rightarrow> synthesis_error + GenerationNamespace" where
  "generation_namespace n = checked
     [unless (gn_release n = ''v0.4'')
        (ChoiceError (ChoiceValidationError ''generation namespace release must be v0.4'')),
      n_token (gn_choice_algorithm_id n) ''choice_algorithm_id'',
      n_version (gn_choice_algorithm_version n) ''choice_algorithm_version'',
      n_token (gn_identity_algorithm_id n) ''identity_algorithm_id'',
      n_version (gn_identity_algorithm_version n) ''identity_algorithm_version'',
      unless (gn_identity_schema_version n = ''csd-identity/0.4'')
        (ChoiceError (ChoiceValidationError ''identity_schema_version must be csd-identity/0.4'')),
      n_digest (gn_target_definition_digest n) ''target_definition_digest'',
      n_digest (gn_release_policy_digest n) ''release_policy_digest'',
      n_digest (gn_arithmetic_policy_digest n) ''arithmetic_policy_digest'',
      n_token (gn_replay_policy_id n) ''replay_policy_id'',
      n_version (gn_replay_policy_version n) ''replay_policy_version'',
      n_digest (gn_replay_policy_digest n) ''replay_policy_digest'',
      n_token (gn_shard_policy_id n) ''shard_policy_id'',
      n_version (gn_shard_policy_version n) ''shard_policy_version'',
      n_digest (gn_shard_policy_digest n) ''shard_policy_digest'']
     n"

definition namespace_pairs :: "GenerationNamespace \<Rightarrow> (string \<times> CanonicalValue) list" where
  "namespace_pairs n =
     [(''arithmetic_policy_digest'', CvStr (gn_arithmetic_policy_digest n)),
      (''choice_algorithm_id'', CvStr (gn_choice_algorithm_id n)),
      (''choice_algorithm_version'', CvInt (gn_choice_algorithm_version n)),
      (''identity_algorithm_id'', CvStr (gn_identity_algorithm_id n)),
      (''identity_algorithm_version'', CvInt (gn_identity_algorithm_version n)),
      (''identity_schema_version'', CvStr (gn_identity_schema_version n)),
      (''release'', CvStr (gn_release n)),
      (''release_policy_digest'', CvStr (gn_release_policy_digest n)),
      (''replay_policy_digest'', CvStr (gn_replay_policy_digest n)),
      (''replay_policy_id'', CvStr (gn_replay_policy_id n)),
      (''replay_policy_version'', CvInt (gn_replay_policy_version n)),
      (''shard_policy_digest'', CvStr (gn_shard_policy_digest n)),
      (''shard_policy_id'', CvStr (gn_shard_policy_id n)),
      (''shard_policy_version'', CvInt (gn_shard_policy_version n)),
      (''target_definition_digest'', CvStr (gn_target_definition_digest n))]"

text \<open>\<^verbatim>\<open>to_canonical_object\<close>; the names are listed in byte order, so the
  object keeps the order of the list and its JSON value can be written down.\<close>

definition namespace_object :: "GenerationNamespace \<Rightarrow> synthesis_error + CanonicalObject" where
  "namespace_object n = from_pairs (namespace_pairs n)"

definition namespace_json :: "GenerationNamespace \<Rightarrow> json" where
  "namespace_json n = JObj (map (\<lambda>(k, v). (k, canonical_json v)) (namespace_pairs n))"

definition namespace_digest :: "(byte list \<Rightarrow> byte list) \<Rightarrow> GenerationNamespace \<Rightarrow> string" where
  "namespace_digest sha256 n = json_digest sha256 (namespace_json n)"

lemma namespace_object_json:
  "\<exists>ob. namespace_object n = Inr ob \<and> object_json ob = namespace_json n"
proof -
  let ?fs = "map (\<lambda>(k, v). CanonicalField k v) (namespace_pairs n)"
  have keys: "map field_name ?fs = map fst (namespace_pairs n)"
    by (simp add: namespace_pairs_def)
  have dist: "distinct (map field_name ?fs)" unfolding keys by (simp add: namespace_pairs_def)
  have "sorted (map (utf8 \<circ> fst) (namespace_pairs n))"
    by (simp add: namespace_pairs_def utf8_def utf8_char_def)
  then have srt: "sort_key (\<lambda>f. utf8 (field_name f)) ?fs = ?fs"
    "sort_key utf8 (map field_name ?fs) = map field_name ?fs"
    unfolding keys by (intro sort_key_id_if_sorted; simp add: comp_def case_prod_unfold)+
  have "map_res (\<lambda>(name, v). canonical_field name v) (namespace_pairs n) = Inr ?fs"
    by (rule map_res_all) (auto simp: canonical_field_def namespace_pairs_def)
  then have "namespace_object n = Inr (CanonicalObject ?fs)"
    using srt dist by (simp add: namespace_object_def from_pairs_def canonical_object_def Let_def)
  moreover have "object_json (CanonicalObject ?fs) = namespace_json n"
    by (simp add: namespace_json_def case_prod_unfold)
  ultimately show ?thesis by blast
qed

subsection \<open>Policies\<close>

definition sample_key_encoding_policy_document :: json where
  "sample_key_encoding_policy_document = JObj
     [(''canonical_fields'', string_list [''release'', ''sample_index'', ''target_id'']),
      (''canonical_serialization'', JStr ''canonical-json-with-terminal-newline''),
      (''policy_id'', JStr SAMPLE_KEY_ENCODING_ID),
      (''policy_version'', JInt SAMPLE_KEY_ENCODING_VERSION)]"

definition shard_policy_document :: json where
  "shard_policy_document = JObj
     [(''policy_id'', JStr SHARD_POLICY_ID), (''policy_version'', JInt SHARD_POLICY_VERSION),
      (''semantic_assignment'', JStr SHARD_SEMANTIC_ASSIGNMENT)]"

definition execution_validation_policy_document :: json where
  "execution_validation_policy_document = JObj
     [(''attested_commitment_enabled'', JBool False),
      (''policy_id'', JStr EXECUTION_VALIDATION_POLICY_ID),
      (''policy_version'', JInt EXECUTION_VALIDATION_POLICY_VERSION),
      (''release_validation_mode'', JStr ''full-replay'')]"

text \<open>\<^verbatim>\<open>canonical_sample_key_bytes\<close> and \<^verbatim>\<open>sample_key_sort_key\<close>.\<close>

definition sample_key_sort_key :: "SampleKey \<Rightarrow> byte list" where
  "sample_key_sort_key k = json_bytes (sample_key_value k)"

record RequiredSchemaVersions =
  sv_sample_execution_spec :: string
  sv_execution_inventory :: string
  sv_operational_retry_policy :: string
  sv_operational_failure_receipt :: string
  sv_operational_exhaustion :: string
  sv_inventory_supersession :: string
  sv_attempt_completion_envelope :: string
  sv_inventory_completion_reference :: string
  sv_operational_publication_receipt :: string
  sv_replay_validation_receipt :: string
  sv_shard_manifest :: string
  sv_corpus_semantic_manifest :: string
  sv_run_evidence_manifest :: string
  sv_schema_version :: string
definition schema_versions_json :: "RequiredSchemaVersions \<Rightarrow> json" where
  "schema_versions_json v = JObj
     [(''attempt_completion_envelope'', JStr (sv_attempt_completion_envelope v)),
      (''corpus_semantic_manifest'', JStr (sv_corpus_semantic_manifest v)),
      (''execution_inventory'', JStr (sv_execution_inventory v)),
      (''inventory_completion_reference'', JStr (sv_inventory_completion_reference v)),
      (''inventory_supersession'', JStr (sv_inventory_supersession v)),
      (''operational_exhaustion'', JStr (sv_operational_exhaustion v)),
      (''operational_failure_receipt'', JStr (sv_operational_failure_receipt v)),
      (''operational_publication_receipt'', JStr (sv_operational_publication_receipt v)),
      (''operational_retry_policy'', JStr (sv_operational_retry_policy v)),
      (''replay_validation_receipt'', JStr (sv_replay_validation_receipt v)),
      (''run_evidence_manifest'', JStr (sv_run_evidence_manifest v)),
      (''sample_execution_spec'', JStr (sv_sample_execution_spec v)),
      (''schema_version'', JStr (sv_schema_version v)),
      (''shard_manifest'', JStr (sv_shard_manifest v))]"
definition required_schema_versions ::
  "RequiredSchemaVersions \<Rightarrow> synthesis_error + RequiredSchemaVersions" where
  "required_schema_versions v = checked
     [x_constant (sv_attempt_completion_envelope v) ATTEMPT_COMPLETION_ENVELOPE_SCHEMA_VERSION ''attempt_completion_envelope'',
      x_constant (sv_corpus_semantic_manifest v) CORPUS_SEMANTIC_MANIFEST_SCHEMA_VERSION ''corpus_semantic_manifest'',
      x_constant (sv_execution_inventory v) EXECUTION_INVENTORY_SCHEMA_VERSION ''execution_inventory'',
      x_constant (sv_inventory_completion_reference v) INVENTORY_COMPLETION_REFERENCE_SCHEMA_VERSION ''inventory_completion_reference'',
      x_constant (sv_inventory_supersession v) INVENTORY_SUPERSESSION_SCHEMA_VERSION ''inventory_supersession'',
      x_constant (sv_operational_exhaustion v) OPERATIONAL_EXHAUSTION_SCHEMA_VERSION ''operational_exhaustion'',
      x_constant (sv_operational_failure_receipt v) OPERATIONAL_FAILURE_SCHEMA_VERSION ''operational_failure_receipt'',
      x_constant (sv_operational_publication_receipt v) OPERATIONAL_PUBLICATION_SCHEMA_VERSION ''operational_publication_receipt'',
      x_constant (sv_operational_retry_policy v) OPERATIONAL_RETRY_POLICY_SCHEMA_VERSION ''operational_retry_policy'',
      x_constant (sv_replay_validation_receipt v) REPLAY_VALIDATION_RECEIPT_SCHEMA_VERSION ''replay_validation_receipt'',
      x_constant (sv_run_evidence_manifest v) RUN_EVIDENCE_MANIFEST_SCHEMA_VERSION ''run_evidence_manifest'',
      x_constant (sv_sample_execution_spec v) SAMPLE_EXECUTION_SPEC_SCHEMA_VERSION ''sample_execution_spec'',
      x_constant (sv_schema_version v) REQUIRED_SCHEMA_VERSIONS_SCHEMA_VERSION ''schema_version'',
      x_constant (sv_shard_manifest v) SHARD_MANIFEST_SCHEMA_VERSION ''shard_manifest'']
     v"

definition current_required_schema_versions :: RequiredSchemaVersions where
  "current_required_schema_versions = \<lparr>
     sv_sample_execution_spec = SAMPLE_EXECUTION_SPEC_SCHEMA_VERSION,
     sv_execution_inventory = EXECUTION_INVENTORY_SCHEMA_VERSION,
     sv_operational_retry_policy = OPERATIONAL_RETRY_POLICY_SCHEMA_VERSION,
     sv_operational_failure_receipt = OPERATIONAL_FAILURE_SCHEMA_VERSION,
     sv_operational_exhaustion = OPERATIONAL_EXHAUSTION_SCHEMA_VERSION,
     sv_inventory_supersession = INVENTORY_SUPERSESSION_SCHEMA_VERSION,
     sv_attempt_completion_envelope = ATTEMPT_COMPLETION_ENVELOPE_SCHEMA_VERSION,
     sv_inventory_completion_reference = INVENTORY_COMPLETION_REFERENCE_SCHEMA_VERSION,
     sv_operational_publication_receipt = OPERATIONAL_PUBLICATION_SCHEMA_VERSION,
     sv_replay_validation_receipt = REPLAY_VALIDATION_RECEIPT_SCHEMA_VERSION,
     sv_shard_manifest = SHARD_MANIFEST_SCHEMA_VERSION,
     sv_corpus_semantic_manifest = CORPUS_SEMANTIC_MANIFEST_SCHEMA_VERSION,
     sv_run_evidence_manifest = RUN_EVIDENCE_MANIFEST_SCHEMA_VERSION,
     sv_schema_version = REQUIRED_SCHEMA_VERSIONS_SCHEMA_VERSION\<rparr>"

definition schema_versions_digest ::
  "(byte list \<Rightarrow> byte list) \<Rightarrow> RequiredSchemaVersions \<Rightarrow> string" where
  "schema_versions_digest sha256 v = json_digest sha256 (schema_versions_json v)"

subsection \<open>Samples and retries\<close>

record SampleExecutionSpec =
  es_global_ordinal :: int
  es_sample_key :: SampleKey
  es_attempt_range :: AttemptRange
  es_producer_contract_id :: string
  es_producer_contract_version :: int
  es_producer_contract_digest :: string
  es_schema_version :: string
definition sample_execution_spec ::
  "SampleExecutionSpec \<Rightarrow> synthesis_error + SampleExecutionSpec" where
  "sample_execution_spec x = checked
     [unless (0 \<le> es_global_ordinal x)
        (x_error ''global_ordinal must be a nonnegative exact integer''),
      x_token (es_producer_contract_id x) ''producer_contract_id'',
      x_positive (es_producer_contract_version x) ''producer_contract_version'',
      x_digest (es_producer_contract_digest x) ''producer_contract_digest'',
      x_constant (es_schema_version x) SAMPLE_EXECUTION_SPEC_SCHEMA_VERSION ''schema_version'']
     x"

definition spec_json :: "SampleExecutionSpec \<Rightarrow> json" where
  "spec_json x = JObj
     [(''attempt_range'', JInt (maximum_attempts (es_attempt_range x))),
      (''global_ordinal'', JInt (es_global_ordinal x)),
      (''producer_contract_digest'', JStr (es_producer_contract_digest x)),
      (''producer_contract_id'', JStr (es_producer_contract_id x)),
      (''producer_contract_version'', JInt (es_producer_contract_version x)),
      (''sample_key'', sample_key_value (es_sample_key x)),
      (''schema_version'', JStr (es_schema_version x))]"
definition spec_digest :: "(byte list \<Rightarrow> byte list) \<Rightarrow> SampleExecutionSpec \<Rightarrow> string" where
  "spec_digest sha256 x = json_digest sha256 (spec_json x)"

record OperationalRetryPolicy =
  rp_maximum_operational_retries :: int
  rp_schema_version :: string
definition is_retry_count :: "int \<Rightarrow> bool" where
  "is_retry_count n = (0 \<le> n \<and> n \<le> OPERATIONAL_RETRY_UINT8_MAX)"

definition operational_retry_policy ::
  "OperationalRetryPolicy \<Rightarrow> synthesis_error + OperationalRetryPolicy" where
  "operational_retry_policy p = checked
     [unless (is_retry_count (rp_maximum_operational_retries p))
        (x_error (''maximum_operational_retries must be an exact uint8 in 0..'' @
          py_str OPERATIONAL_RETRY_UINT8_MAX)),
      x_constant (rp_schema_version p) OPERATIONAL_RETRY_POLICY_SCHEMA_VERSION ''schema_version'']
     p"

definition maximum_total_executions :: "OperationalRetryPolicy \<Rightarrow> int" where
  "maximum_total_executions p = rp_maximum_operational_retries p + 1"

definition retry_policy_json :: "OperationalRetryPolicy \<Rightarrow> json" where
  "retry_policy_json p = JObj
     [(''maximum_operational_retries'', JInt (rp_maximum_operational_retries p)),
      (''maximum_total_executions'', JInt (maximum_total_executions p)),
      (''schema_version'', JStr (rp_schema_version p))]"
definition retry_policy_digest ::
  "(byte list \<Rightarrow> byte list) \<Rightarrow> OperationalRetryPolicy \<Rightarrow> string" where
  "retry_policy_digest sha256 p = json_digest sha256 (retry_policy_json p)"

subsection \<open>Inventories\<close>

record ExecutionInventory =
  ei_release :: string
  ei_generation_namespace :: GenerationNamespace
  ei_root_seed_commitment :: string
  ei_sample_key_encoding_id :: string
  ei_sample_key_encoding_version :: int
  ei_sample_key_encoding_policy_digest :: string
  ei_shard_policy_id :: string
  ei_shard_policy_version :: int
  ei_shard_policy_digest :: string
  ei_shard_count :: int
  ei_operational_retry_policy_digest :: string
  ei_validation_policy_id :: string
  ei_validation_policy_version :: int
  ei_validation_policy_digest :: string
  ei_required_schema_versions :: RequiredSchemaVersions
  ei_samples :: "SampleExecutionSpec list"
  ei_schema_version :: string
definition execution_inventory ::
  "(byte list \<Rightarrow> byte list) \<Rightarrow> ExecutionInventory \<Rightarrow> synthesis_error + ExecutionInventory" where
  "execution_inventory sha256 i =
     (let n = ei_generation_namespace i;
          keys = map es_sample_key (ei_samples i)
      in checked
       [x_constant (ei_release i) ''v0.4'' ''release'',
        unless (gn_release n = ei_release i)
          (x_error ''generation namespace and inventory releases must match''),
        x_digest (ei_root_seed_commitment i) ''root_seed_commitment'',
        x_constant (ei_sample_key_encoding_id i) SAMPLE_KEY_ENCODING_ID
          ''sample_key_encoding_id'',
        x_constant_int (ei_sample_key_encoding_version i) SAMPLE_KEY_ENCODING_VERSION
          ''sample_key_encoding_version'',
        unless (ei_sample_key_encoding_policy_digest i =
            json_digest sha256 sample_key_encoding_policy_document)
          (x_error ''sample-key encoding policy digest does not match version 1''),
        x_constant (ei_shard_policy_id i) SHARD_POLICY_ID ''shard_policy_id'',
        x_constant_int (ei_shard_policy_version i) SHARD_POLICY_VERSION ''shard_policy_version'',
        unless (ei_shard_policy_digest i = json_digest sha256 shard_policy_document)
          (x_error ''shard policy digest does not match version 1''),
        unless ((gn_shard_policy_id n, gn_shard_policy_version n, gn_shard_policy_digest n) =
            (ei_shard_policy_id i, ei_shard_policy_version i, ei_shard_policy_digest i))
          (x_error ''inventory shard policy does not match the generation namespace''),
        unless (1 \<le> ei_shard_count i \<and> ei_shard_count i \<le> MAX_SHARD_COUNT)
          (x_error ''shard_count must be an exact uint32 in 1..2^32-1''),
        x_digest (ei_operational_retry_policy_digest i) ''operational_retry_policy_digest'',
        x_constant (ei_validation_policy_id i) EXECUTION_VALIDATION_POLICY_ID
          ''validation_policy_id'',
        x_constant_int (ei_validation_policy_version i) EXECUTION_VALIDATION_POLICY_VERSION
          ''validation_policy_version'',
        unless (ei_validation_policy_digest i =
            json_digest sha256 execution_validation_policy_document)
          (x_error ''validation policy digest does not match version 1''),
        unless (ei_samples i \<noteq> [])
          (x_error ''execution inventory requires a nonempty immutable tuple''),
        unless (map es_global_ordinal (ei_samples i) = [0..int (length (ei_samples i)) - 1])
          (x_error ''inventory global ordinals must be contiguous from zero''),
        unless (distinct keys) (x_error ''inventory sample keys must be unique''),
        unless (keys = sort_key sample_key_sort_key keys)
          (x_error ''inventory samples must use canonical sample-key byte order''),
        x_constant (ei_schema_version i) EXECUTION_INVENTORY_SCHEMA_VERSION ''schema_version'']
       i)"

definition generation_namespace_digest ::
  "(byte list \<Rightarrow> byte list) \<Rightarrow> ExecutionInventory \<Rightarrow> string" where
  "generation_namespace_digest sha256 i = namespace_digest sha256 (ei_generation_namespace i)"

definition inventory_json :: "(byte list \<Rightarrow> byte list) \<Rightarrow> ExecutionInventory \<Rightarrow> json" where
  "inventory_json sha256 i = JObj
     [(''generation_namespace_digest'', JStr (generation_namespace_digest sha256 i)),
      (''operational_retry_policy_digest'', JStr (ei_operational_retry_policy_digest i)),
      (''release'', JStr (ei_release i)),
      (''required_schema_versions'', schema_versions_json (ei_required_schema_versions i)),
      (''root_seed_commitment'', JStr (ei_root_seed_commitment i)),
      (''sample_key_encoding_id'', JStr (ei_sample_key_encoding_id i)),
      (''sample_key_encoding_policy_digest'', JStr (ei_sample_key_encoding_policy_digest i)),
      (''sample_key_encoding_version'', JInt (ei_sample_key_encoding_version i)),
      (''samples'', JArr (map spec_json (ei_samples i))),
      (''schema_version'', JStr (ei_schema_version i)),
      (''shard_count'', JInt (ei_shard_count i)),
      (''shard_policy_digest'', JStr (ei_shard_policy_digest i)),
      (''shard_policy_id'', JStr (ei_shard_policy_id i)),
      (''shard_policy_version'', JInt (ei_shard_policy_version i)),
      (''validation_policy_digest'', JStr (ei_validation_policy_digest i)),
      (''validation_policy_id'', JStr (ei_validation_policy_id i)),
      (''validation_policy_version'', JInt (ei_validation_policy_version i))]"
definition inventory_digest :: "(byte list \<Rightarrow> byte list) \<Rightarrow> ExecutionInventory \<Rightarrow> string" where
  "inventory_digest sha256 i = json_digest sha256 (inventory_json sha256 i)"

definition assigned_shard :: "SampleExecutionSpec \<Rightarrow> int \<Rightarrow> synthesis_error + int" where
  "assigned_shard x shard_count = checked
     [unless (1 \<le> shard_count \<and> shard_count \<le> MAX_SHARD_COUNT)
        (x_error ''shard_count must be an exact uint32 in 1..2^32-1'')]
     (es_global_ordinal x mod shard_count)"

text \<open>The specs of an inventory for one sample key.\<close>

definition matching_specs :: "ExecutionInventory \<Rightarrow> SampleKey \<Rightarrow> SampleExecutionSpec list" where
  "matching_specs i k = filter (\<lambda>x. es_sample_key x = k) (ei_samples i)"

subsection \<open>Operational failures\<close>

record OperationalFailureReceipt =
  of_execution_run_id :: string
  of_inventory_digest :: string
  of_attempt_key :: AttemptKey
  of_execution_ordinal :: int
  of_worker_id :: string
  of_reason_code :: string
  of_reason_facts :: CanonicalObject
  of_previous_failure_receipt_digest :: "string option"
  of_schema_version :: string
definition operational_failure_receipt ::
  "OperationalFailureReceipt \<Rightarrow> synthesis_error + OperationalFailureReceipt" where
  "operational_failure_receipt r = checked
     [x_token (of_execution_run_id r) ''execution_run_id'',
      x_digest (of_inventory_digest r) ''inventory_digest'',
      unless (is_retry_count (of_execution_ordinal r))
        (x_error ''execution_ordinal must be an exact uint8''),
      x_token (of_worker_id r) ''worker_id'',
      x_token (of_reason_code r) ''reason_code'',
      (if of_execution_ordinal r = 0
       then unless (of_previous_failure_receipt_digest r = None)
         (x_error ''initial execution cannot reference a prior failure'')
       else x_some_digest (of_previous_failure_receipt_digest r)
         ''previous_failure_receipt_digest''),
      x_constant (of_schema_version r) OPERATIONAL_FAILURE_SCHEMA_VERSION ''schema_version'']
     r"

definition failure_receipt_json :: "OperationalFailureReceipt \<Rightarrow> json" where
  "failure_receipt_json r = JObj
     [(''attempt_key'', attempt_key_value (of_attempt_key r)),
      (''execution_ordinal'', JInt (of_execution_ordinal r)),
      (''execution_run_id'', JStr (of_execution_run_id r)),
      (''inventory_digest'', JStr (of_inventory_digest r)),
      (''previous_failure_receipt_digest'',
        optional_string (of_previous_failure_receipt_digest r)),
      (''reason_code'', JStr (of_reason_code r)),
      (''reason_facts'', object_json (of_reason_facts r)),
      (''schema_version'', JStr (of_schema_version r)),
      (''worker_id'', JStr (of_worker_id r))]"
definition failure_receipt_digest ::
  "(byte list \<Rightarrow> byte list) \<Rightarrow> OperationalFailureReceipt \<Rightarrow> string" where
  "failure_receipt_digest sha256 r = json_digest sha256 (failure_receipt_json r)"

text \<open>The loop of \<^verbatim>\<open>validate_failure_chain\<close>, at the index \<open>k\<close> and with
  the digest of the previous receipt.\<close>

fun check_failure_chain :: "(byte list \<Rightarrow> byte list) \<Rightarrow> OperationalFailureReceipt \<Rightarrow> int \<Rightarrow>
    string option \<Rightarrow> OperationalFailureReceipt list \<Rightarrow> synthesis_error option list" where
  "check_failure_chain sha256 first k previous [] = []"
| "check_failure_chain sha256 first k previous (r # rs) =
     [unless (of_execution_run_id r = of_execution_run_id first)
        (x_error ''failure chain spans multiple execution runs''),
      unless (of_inventory_digest r = of_inventory_digest first)
        (x_error ''failure chain spans multiple inventories''),
      unless (of_attempt_key r = of_attempt_key first)
        (x_error ''failure chain spans multiple attempts''),
      unless (of_execution_ordinal r = k)
        (x_error ''failure receipt ordinals must be contiguous from zero''),
      unless (of_previous_failure_receipt_digest r = previous)
        (x_error ''failure receipt previous-digest chain is broken'')] @
     check_failure_chain sha256 first (k + 1) (Some (failure_receipt_digest sha256 r)) rs"

definition validate_failure_chain :: "(byte list \<Rightarrow> byte list) \<Rightarrow> OperationalRetryPolicy \<Rightarrow>
    OperationalFailureReceipt list \<Rightarrow> synthesis_error + OperationalFailureReceipt list" where
  "validate_failure_chain sha256 policy receipts = checked
     ([unless (receipts \<noteq> []) (x_error ''failure chain requires a nonempty immutable tuple''),
       unless (int (length receipts) \<le> maximum_total_executions policy)
         (x_error ''failure chain exceeds the operational retry policy'')] @
      check_failure_chain sha256 (hd receipts) 0 None receipts)
     receipts"

record OperationalExhaustionRecord =
  ox_execution_run_id :: string
  ox_inventory_digest :: string
  ox_attempt_key :: AttemptKey
  ox_retry_policy_digest :: string
  ox_maximum_operational_retries :: int
  ox_failure_receipt_digests :: "string list"
  ox_total_execution_count :: int
  ox_final_reason_code :: string
  ox_schema_version :: string
definition operational_exhaustion_record :: "(byte list \<Rightarrow> byte list) \<Rightarrow>
    OperationalExhaustionRecord \<Rightarrow> synthesis_error + OperationalExhaustionRecord" where
  "operational_exhaustion_record sha256 r =
     (let retries = ox_maximum_operational_retries r;
          digests = ox_failure_receipt_digests r
      in checked
       ([x_token (ox_execution_run_id r) ''execution_run_id'',
         x_digest (ox_inventory_digest r) ''inventory_digest'',
         x_digest (ox_retry_policy_digest r) ''retry_policy_digest'',
         unless (is_retry_count retries)
           (x_error ''maximum_operational_retries must be an exact uint8''),
         unless (ox_retry_policy_digest r = retry_policy_digest sha256
             \<lparr>rp_maximum_operational_retries = retries,
              rp_schema_version = OPERATIONAL_RETRY_POLICY_SCHEMA_VERSION\<rparr>)
           (x_error ''retry_policy_digest does not match maximum_operational_retries''),
         unless (digests \<noteq> []) (x_error ''operational exhaustion requires receipt digests'')] @
        map (\<lambda>d. x_digest d ''failure_receipt_digest'') digests @
        [unless (distinct digests)
           (x_error ''operational exhaustion receipt digests must be unique''),
         unless (ox_total_execution_count r = retries + 1)
           (x_error ''operational exhaustion total count must equal retries plus one''),
         unless (int (length digests) = retries + 1)
           (x_error ''operational exhaustion must commit the complete failure chain''),
         x_token (ox_final_reason_code r) ''final_reason_code'',
         x_constant (ox_schema_version r) OPERATIONAL_EXHAUSTION_SCHEMA_VERSION
           ''schema_version''])
       r)"

definition exhaustion_from_failure_chain :: "(byte list \<Rightarrow> byte list) \<Rightarrow> ExecutionInventory \<Rightarrow>
    OperationalRetryPolicy \<Rightarrow> OperationalFailureReceipt list \<Rightarrow>
    synthesis_error + OperationalExhaustionRecord" where
  "exhaustion_from_failure_chain sha256 i policy receipts =
     and_then (checked [unless
         (ei_operational_retry_policy_digest i = retry_policy_digest sha256 policy)
         (x_error ''retry policy does not match the inventory commitment'')] ()) (\<lambda>_.
     and_then (validate_failure_chain sha256 policy receipts) (\<lambda>validated.
     let final = last validated;
         specs = matching_specs i (sample_key (of_attempt_key final))
     in and_then (checked
         [unless (int (length validated) = maximum_total_executions policy)
            (x_error ''operational exhaustion requires every permitted execution''),
          unless (of_inventory_digest final = inventory_digest sha256 i)
            (x_error ''failure chain does not belong to the committed inventory''),
          unless (length specs = 1)
            (x_error ''operational exhaustion attempt is absent from the inventory''),
          unless (range_contains (es_attempt_range (hd specs)) (key_index (of_attempt_key final)))
            (x_error
              ''operational exhaustion attempt is outside the inventory attempt range'')] ())
       (\<lambda>_. operational_exhaustion_record sha256
         \<lparr>ox_execution_run_id = of_execution_run_id final,
          ox_inventory_digest = of_inventory_digest final,
          ox_attempt_key = of_attempt_key final,
          ox_retry_policy_digest = retry_policy_digest sha256 policy,
          ox_maximum_operational_retries = rp_maximum_operational_retries policy,
          ox_failure_receipt_digests = map (failure_receipt_digest sha256) validated,
          ox_total_execution_count = int (length validated),
          ox_final_reason_code = of_reason_code final,
          ox_schema_version = OPERATIONAL_EXHAUSTION_SCHEMA_VERSION\<rparr>)))"

definition validate_exhaustion_against :: "(byte list \<Rightarrow> byte list) \<Rightarrow>
    OperationalExhaustionRecord \<Rightarrow> ExecutionInventory \<Rightarrow> OperationalRetryPolicy \<Rightarrow>
    OperationalFailureReceipt list \<Rightarrow> synthesis_error + unit" where
  "validate_exhaustion_against sha256 r i policy receipts =
     and_then (exhaustion_from_failure_chain sha256 i policy receipts) (\<lambda>e. checked
       [unless (r = e)
          (x_error ''operational exhaustion record does not match its evidence'')] ())"

definition operational_exhaustion_json :: "OperationalExhaustionRecord \<Rightarrow> json" where
  "operational_exhaustion_json r = JObj
     [(''attempt_key'', attempt_key_value (ox_attempt_key r)),
      (''execution_run_id'', JStr (ox_execution_run_id r)),
      (''failure_receipt_digests'', string_list (ox_failure_receipt_digests r)),
      (''final_reason_code'', JStr (ox_final_reason_code r)),
      (''inventory_digest'', JStr (ox_inventory_digest r)),
      (''maximum_operational_retries'', JInt (ox_maximum_operational_retries r)),
      (''retry_policy_digest'', JStr (ox_retry_policy_digest r)),
      (''schema_version'', JStr (ox_schema_version r)),
      (''total_execution_count'', JInt (ox_total_execution_count r))]"
subsection \<open>Supersession\<close>

record InventorySupersessionRecord =
  iv_superseded_inventory_digest :: string
  iv_replacement_inventory_digest :: string
  iv_superseding_run_id :: string
  iv_reason_code :: string
  iv_reason_facts :: CanonicalObject
  iv_schema_version :: string
definition inventory_supersession_record ::
  "InventorySupersessionRecord \<Rightarrow> synthesis_error + InventorySupersessionRecord" where
  "inventory_supersession_record r = checked
     [x_digest (iv_superseded_inventory_digest r) ''superseded_inventory_digest'',
      x_digest (iv_replacement_inventory_digest r) ''replacement_inventory_digest'',
      unless (iv_superseded_inventory_digest r \<noteq> iv_replacement_inventory_digest r)
        (x_error ''an inventory cannot supersede itself''),
      x_token (iv_superseding_run_id r) ''superseding_run_id'',
      x_token (iv_reason_code r) ''reason_code'',
      x_constant (iv_schema_version r) INVENTORY_SUPERSESSION_SCHEMA_VERSION ''schema_version'']
     r"

definition supersession_json :: "InventorySupersessionRecord \<Rightarrow> json" where
  "supersession_json r = JObj
     [(''reason_code'', JStr (iv_reason_code r)),
      (''reason_facts'', object_json (iv_reason_facts r)),
      (''replacement_inventory_digest'', JStr (iv_replacement_inventory_digest r)),
      (''schema_version'', JStr (iv_schema_version r)),
      (''superseded_inventory_digest'', JStr (iv_superseded_inventory_digest r)),
      (''superseding_run_id'', JStr (iv_superseding_run_id r))]"
definition supersession_digest ::
  "(byte list \<Rightarrow> byte list) \<Rightarrow> InventorySupersessionRecord \<Rightarrow> string" where
  "supersession_digest sha256 r = json_digest sha256 (supersession_json r)"

text \<open>The loop of \<^verbatim>\<open>validate_supersession_history\<close>, with its two sets.\<close>

fun check_supersessions :: "(byte list \<Rightarrow> byte list) \<Rightarrow> string list \<Rightarrow> string list \<Rightarrow>
    InventorySupersessionRecord list \<Rightarrow> synthesis_error option list" where
  "check_supersessions sha256 superseded digests [] = []"
| "check_supersessions sha256 superseded digests (r # rs) =
     [unless (supersession_digest sha256 r \<notin> set digests)
        (x_error ''supersession history contains a duplicate record''),
      unless (iv_superseded_inventory_digest r \<notin> set superseded)
        (x_error ''an inventory cannot be superseded more than once''),
      unless (iv_replacement_inventory_digest r \<notin> set superseded)
        (x_error ''a previously superseded inventory cannot be reactivated'')] @
     check_supersessions sha256 (iv_superseded_inventory_digest r # superseded)
       (supersession_digest sha256 r # digests) rs"

definition validate_supersession_history :: "(byte list \<Rightarrow> byte list) \<Rightarrow>
    InventorySupersessionRecord list \<Rightarrow> synthesis_error + InventorySupersessionRecord list" where
  "validate_supersession_history sha256 records =
     checked (check_supersessions sha256 [] [] records) records"

definition append_inventory_supersession :: "(byte list \<Rightarrow> byte list) \<Rightarrow>
    InventorySupersessionRecord list \<Rightarrow> InventorySupersessionRecord \<Rightarrow>
    synthesis_error + InventorySupersessionRecord list" where
  "append_inventory_supersession sha256 history r =
     validate_supersession_history sha256 (history @ [r])"

end
