(* ===== verification/Publication_Store.thy ===== *)
theory Publication_Store
  imports Synthesis_Values
begin

section \<open>The content-addressed publication store\<close>

text \<open>
  \<^verbatim>\<open>synthesis/v0_4/publication_store.py\<close>: a filesystem store with one file per
  object, named by the digest of its bytes, one claim file per published object kind and digest,
  reference files that are hard links to objects, and a directory of temporary files. A file is
  installed by linking a complete temporary file, so files never change once they exist.
  Directory creation and \<^verbatim>\<open>fsync\<close> have no effect on the model.

  A call carries what it takes from outside: the fault injector, the random part of its temporary
  names, and what other processes do to the store between its test that a file is absent and its
  link (\<open>pc_meanwhile\<close>), which is what makes the \<^verbatim>\<open>FileExistsError\<close> branches
  reachable.
\<close>

datatype PublicationDisposition = Published | ExistingIdentical

fun disposition_value :: "PublicationDisposition \<Rightarrow> string" where
  "disposition_value Published = ''published''"
| "disposition_value ExistingIdentical = ''existing-identical''"

record PublicationResult =
  pr_digest :: string
  pr_relative_path :: string
  pr_disposition :: PublicationDisposition

record RecoveryReport =
  rr_temporary_objects_removed :: nat
  rr_authoritative_objects_verified :: nat

record PublicationStore =
  ps_objects :: "string \<rightharpoonup> byte list"
  ps_claims :: "string \<times> string \<rightharpoonup> byte list"
  ps_references :: "string \<times> string \<times> int \<times> string \<rightharpoonup> byte list"
  ps_temporaries :: "(string \<times> byte list) list"

record PublicationCall =
  pc_fault :: "string \<Rightarrow> synthesis_error option"
  pc_uuid :: string
  pc_meanwhile :: "PublicationStore \<Rightarrow> PublicationStore"

type_synonym 'a store_op = "(PublicationStore, synthesis_error, 'a) op"

subsection \<open>Names\<close>

definition require_store_digest :: "string \<Rightarrow> synthesis_error + string" where
  "require_store_digest d = checked [unless (is_hex_256 d)
     (PublicationStoreError ''object digest must be a lowercase SHA-256 digest'')] d"

definition store_token_char :: "char \<Rightarrow> bool" where
  "store_token_char c = (token_start c \<or> c = CHR ''-'')"

fun is_store_token :: "string \<Rightarrow> bool" where
  "is_store_token [] = False"
| "is_store_token (c # cs) = (token_start c \<and> list_all store_token_char cs)"

definition require_store_token :: "string \<Rightarrow> string \<Rightarrow> synthesis_error + string" where
  "require_store_token v name = checked [unless (is_store_token v)
     (PublicationStoreError (name @ '' must be a lowercase ASCII token''))] v"

text \<open>\<^verbatim>\<open>object_path\<close>: the digest is its own path key; the relative path has the
  first two digits as a directory.\<close>

definition store_object_path :: "string \<Rightarrow> synthesis_error + string" where
  "store_object_path digest = require_store_digest digest"

definition relative_object_path :: "string \<Rightarrow> string" where
  "relative_object_path digest = ''objects/'' @ take 2 digest @ ''/'' @ drop 2 digest"

definition publication_claim_path :: "string \<Rightarrow> string \<Rightarrow> synthesis_error + string \<times> string" where
  "publication_claim_path kind digest =
     and_then (require_store_token kind ''object_kind'') (\<lambda>k.
     and_then (require_store_digest digest) (\<lambda>d. Inr (k, d)))"

definition reference_path :: "string \<Rightarrow> string \<Rightarrow> int \<Rightarrow> string \<Rightarrow>
    synthesis_error + string \<times> string \<times> int \<times> string" where
  "reference_path category inventory_digest shard_index digest =
     and_then (checked [unless (category \<in> {''indexes'', ''manifests'', ''seals''})
       (PublicationStoreError ''unknown publication reference category'')] ()) (\<lambda>_.
     and_then (require_store_digest inventory_digest) (\<lambda>_.
     and_then (require_store_digest digest) (\<lambda>_.
     checked [unless (is_uint32 shard_index)
       (PublicationStoreError ''shard_index must be an exact uint32'')]
       (category, inventory_digest, shard_index, digest))))"

fun relative_reference_path :: "string \<times> string \<times> int \<times> string \<Rightarrow> string" where
  "relative_reference_path (category, inventory, shard_index, digest) =
     ''references/'' @ category @ ''/'' @ inventory @ ''/'' @ py_str shard_index @ ''/'' @ digest"

text \<open>The names of temporary files.\<close>

definition object_temporary :: "PublicationCall \<Rightarrow> string \<Rightarrow> string" where
  "object_temporary call digest = digest @ ''.'' @ pc_uuid call @ ''.tmp''"

definition claim_temporary :: "PublicationCall \<Rightarrow> string \<Rightarrow> string" where
  "claim_temporary call digest = ''claim.'' @ digest @ ''.'' @ pc_uuid call @ ''.tmp''"

subsection \<open>Files\<close>

definition invoke :: "PublicationCall \<Rightarrow> string \<Rightarrow> unit store_op" where
  "invoke call stage = (case pc_fault call stage of None \<Rightarrow> ret () | Some e \<Rightarrow> raise_op e)"

definition invoke_stage :: "PublicationCall \<Rightarrow> string option \<Rightarrow> unit store_op" where
  "invoke_stage call stage = (case stage of None \<Rightarrow> ret () | Some st \<Rightarrow> invoke call st)"

text \<open>\<^verbatim>\<open>open(path, "xb")\<close>, the write, \<^verbatim>\<open>unlink(missing_ok=True)\<close>.\<close>

definition create_temporary :: "string \<Rightarrow> unit store_op" where
  "create_temporary name s =
     (if name \<in> fst ` set (ps_temporaries s) then (Inl FileExists, s)
      else (Inr (), s\<lparr>ps_temporaries := (name, []) # ps_temporaries s\<rparr>))"

definition write_temporary :: "string \<Rightarrow> byte list \<Rightarrow> unit store_op" where
  "write_temporary name payload = write_op (\<lambda>s. s\<lparr>ps_temporaries :=
     map (\<lambda>(n, b). if n = name then (n, payload) else (n, b)) (ps_temporaries s)\<rparr>)"

definition unlink_temporary :: "string \<Rightarrow> unit store_op" where
  "unlink_temporary name = write_op (\<lambda>s. s\<lparr>ps_temporaries :=
     filter (\<lambda>(n, b). n \<noteq> name) (ps_temporaries s)\<rparr>)"

text \<open>\<^verbatim>\<open>os.link\<close> of a temporary file: the outcome is \<open>False\<close> where Python
  raises \<^verbatim>\<open>FileExistsError\<close>.\<close>

definition link_object :: "string \<Rightarrow> string \<Rightarrow> bool store_op" where
  "link_object tmp digest s = (case map_of (ps_temporaries s) tmp of
     None \<Rightarrow> (Inl FileMissing, s)
   | Some content \<Rightarrow> (case ps_objects s digest of
       Some _ \<Rightarrow> (Inr False, s)
     | None \<Rightarrow> (Inr True, s\<lparr>ps_objects := (ps_objects s)(digest \<mapsto> content)\<rparr>)))"

definition link_claim :: "string \<Rightarrow> string \<times> string \<Rightarrow> bool store_op" where
  "link_claim tmp path s = (case map_of (ps_temporaries s) tmp of
     None \<Rightarrow> (Inl FileMissing, s)
   | Some content \<Rightarrow> (case ps_claims s path of
       Some _ \<Rightarrow> (Inr False, s)
     | None \<Rightarrow> (Inr True, s\<lparr>ps_claims := (ps_claims s)(path \<mapsto> content)\<rparr>)))"

definition link_reference ::
  "string \<Rightarrow> string \<times> string \<times> int \<times> string \<Rightarrow> bool store_op" where
  "link_reference digest path s = (case ps_objects s digest of
     None \<Rightarrow> (Inl FileMissing, s)
   | Some content \<Rightarrow> (case ps_references s path of
       Some _ \<Rightarrow> (Inr False, s)
     | None \<Rightarrow> (Inr True, s\<lparr>ps_references := (ps_references s)(path \<mapsto> content)\<rparr>)))"

subsection \<open>Objects\<close>

text \<open>\<^verbatim>\<open>_classify_existing\<close> and \<^verbatim>\<open>_durable_existing\<close>.\<close>

definition classify_existing :: "(byte list \<Rightarrow> byte list) \<Rightarrow> byte list option \<Rightarrow> string \<Rightarrow>
    byte list \<Rightarrow> string \<Rightarrow> synthesis_error + PublicationResult" where
  "classify_existing sha256 content relative payload digest = (case content of
     None \<Rightarrow> Inl FileMissing
   | Some existing \<Rightarrow> checked
       [unless (hex (sha256 existing) = digest) (PublicationCorruptionError
          ''authoritative object bytes do not match their digest path''),
        unless (existing = payload) (PublicationConflictError
          ''existing digest path contains different bytes'')]
       \<lparr>pr_digest = digest, pr_relative_path = relative, pr_disposition = ExistingIdentical\<rparr>)"

definition check_expected :: "string \<Rightarrow> string option \<Rightarrow> synthesis_error + unit" where
  "check_expected digest expected = (case expected of
     None \<Rightarrow> Inr ()
   | Some e \<Rightarrow> and_then (require_store_digest e) (\<lambda>_. checked [unless (digest = e)
       (PublicationCorruptionError
         ''publication payload does not match the expected digest'')] ()))"

definition install_payload ::
  "(byte list \<Rightarrow> byte list) \<Rightarrow> PublicationCall \<Rightarrow> byte list \<Rightarrow> string \<Rightarrow> PublicationResult store_op" where
  "install_payload sha256 call payload digest =
     (let tmp = object_temporary call digest in
      seq_op (create_temporary tmp) (\<lambda>_.
      seq_op (invoke call ''temporary-created'') (\<lambda>_.
      seq_op (write_temporary tmp payload) (\<lambda>_.
      seq_op (invoke call ''content-written'') (\<lambda>_.
      seq_op (invoke call ''file-synced'') (\<lambda>_.
      seq_op (write_op (pc_meanwhile call)) (\<lambda>_.
      seq_op (link_object tmp digest) (\<lambda>linked.
      if \<not> linked
      then seq_op (read_op (\<lambda>s. classify_existing sha256 (ps_objects s digest)
             (relative_object_path digest) payload digest)) (\<lambda>result.
           seq_op (unlink_temporary tmp) (\<lambda>_. ret result))
      else seq_op (invoke call ''object-installed'') (\<lambda>_.
           seq_op (unlink_temporary tmp) (\<lambda>_.
           ret \<lparr>pr_digest = digest, pr_relative_path = relative_object_path digest,
             pr_disposition = Published\<rparr>))))))))))"

definition publish_bytes :: "(byte list \<Rightarrow> byte list) \<Rightarrow> PublicationCall \<Rightarrow> byte list \<Rightarrow>
    string option \<Rightarrow> PublicationResult store_op" where
  "publish_bytes sha256 call payload expected =
     (let digest = hex (sha256 payload) in
      seq_op (lift_res (check_expected digest expected)) (\<lambda>_.
      seq_op (lift_res (store_object_path digest)) (\<lambda>_.
      seq_op (read_op (\<lambda>s. Inr (ps_objects s digest))) (\<lambda>existing.
      case existing of
        Some _ \<Rightarrow> lift_res (classify_existing sha256 existing (relative_object_path digest)
          payload digest)
      | None \<Rightarrow> install_payload sha256 call payload digest))))"

definition publish_canonical :: "(byte list \<Rightarrow> byte list) \<Rightarrow> PublicationCall \<Rightarrow> json \<Rightarrow>
    string option \<Rightarrow> PublicationResult store_op" where
  "publish_canonical sha256 call value expected =
     publish_bytes sha256 call (json_bytes value) expected"

definition read_verified :: "(byte list \<Rightarrow> byte list) \<Rightarrow> string \<Rightarrow> byte list store_op" where
  "read_verified sha256 digest =
     seq_op (lift_res (store_object_path digest)) (\<lambda>_.
     read_op (\<lambda>s. case ps_objects s digest of
       None \<Rightarrow> Inl (PublicationStoreError ''content-addressed object does not exist'')
     | Some payload \<Rightarrow> checked [unless (hex (sha256 payload) = digest)
         (PublicationCorruptionError
           ''authoritative object bytes do not match their digest path'')] payload))"

subsection \<open>Claims\<close>

definition claim_bytes :: "string \<Rightarrow> byte list" where
  "claim_bytes owner = utf8 (owner @ [CHR 0x0A])"

definition decode_ascii :: "byte list \<Rightarrow> string option" where
  "decode_ascii bs = (if list_all (\<lambda>b. b < 128) bs then Some (map (char_of \<circ> unat) bs) else None)"

definition read_claim_owner :: "byte list option \<Rightarrow> synthesis_error + string" where
  "read_claim_owner content = (case content of
     None \<Rightarrow> Inl FileMissing
   | Some payload \<Rightarrow>
       if length payload \<noteq> 65 \<or> last payload \<noteq> 10
       then Inl (PublicationCorruptionError
         ''publication claim does not contain one canonical owner digest'')
       else (case decode_ascii (butlast payload) of
           None \<Rightarrow> Inl (PublicationCorruptionError ''publication claim owner is not ASCII'')
         | Some owner \<Rightarrow> require_store_digest owner))"

definition read_claim :: "string \<times> string \<Rightarrow> string store_op" where
  "read_claim path = read_op (\<lambda>s. read_claim_owner (ps_claims s path))"

definition install_claim :: "PublicationCall \<Rightarrow> string \<times> string \<Rightarrow> string \<Rightarrow> string option \<Rightarrow>
    bool store_op" where
  "install_claim call path owner stage =
     (let tmp = claim_temporary call (snd path) in
      seq_op (create_temporary tmp) (\<lambda>_.
      seq_op (write_temporary tmp (claim_bytes owner)) (\<lambda>_.
      seq_op (write_op (pc_meanwhile call)) (\<lambda>_.
      seq_op (link_claim tmp path) (\<lambda>linked.
      if \<not> linked
      then seq_op (read_claim path) (\<lambda>found.
           seq_op (unlink_temporary tmp) (\<lambda>_. ret (found = owner)))
      else seq_op (invoke_stage call stage) (\<lambda>_.
           seq_op (unlink_temporary tmp) (\<lambda>_. ret True)))))))"

definition claim_publication :: "PublicationCall \<Rightarrow> string \<Rightarrow> string \<Rightarrow> string \<Rightarrow> string option \<Rightarrow>
    bool store_op" where
  "claim_publication call kind digest owner stage =
     seq_op (lift_res (publication_claim_path kind digest)) (\<lambda>path.
     seq_op (lift_res (require_store_digest owner)) (\<lambda>_.
     seq_op (read_op (\<lambda>s. Inr (ps_claims s path))) (\<lambda>existing.
     case existing of
       Some _ \<Rightarrow> seq_op (lift_res (read_claim_owner existing)) (\<lambda>found. ret (found = owner))
     | None \<Rightarrow> install_claim call path owner stage)))"

definition claim_and_publish_bytes :: "(byte list \<Rightarrow> byte list) \<Rightarrow> PublicationCall \<Rightarrow> byte list \<Rightarrow>
    string \<Rightarrow> string \<Rightarrow> string \<Rightarrow> string option \<Rightarrow> string option \<Rightarrow> PublicationResult store_op" where
  "claim_and_publish_bytes sha256 call payload expected kind owner claim_stage object_stage =
     (let digest = hex (sha256 payload);
          quiet = call\<lparr>pc_fault := \<lambda>_. None\<rparr>
      in
      seq_op (lift_res (check_expected digest (Some expected))) (\<lambda>_.
      seq_op (lift_res (publication_claim_path kind digest)) (\<lambda>path.
      seq_op (lift_res (store_object_path digest)) (\<lambda>_.
      seq_op (read_op (\<lambda>s. Inr (ps_objects s digest \<noteq> None \<and> ps_claims s path = None)))
        (\<lambda>unclaimed.
      if unclaimed
      then seq_op (publish_bytes sha256 quiet payload (Some digest)) (\<lambda>result.
           seq_op (invoke_stage call object_stage) (\<lambda>_. ret result))
      else seq_op (write_op (pc_meanwhile call)) (\<lambda>_.
           seq_op (claim_publication call kind digest owner claim_stage) (\<lambda>owned.
           seq_op (publish_bytes sha256 quiet payload (Some digest)) (\<lambda>result.
           seq_op (invoke_stage call object_stage) (\<lambda>_.
           ret (result\<lparr>pr_disposition :=
             if owned then Published else ExistingIdentical\<rparr>)))))))))) "

subsection \<open>References\<close>

definition install_digest_reference :: "(byte list \<Rightarrow> byte list) \<Rightarrow> PublicationCall \<Rightarrow> string \<Rightarrow>
    string \<Rightarrow> int \<Rightarrow> string \<Rightarrow> string option \<Rightarrow> PublicationResult store_op" where
  "install_digest_reference sha256 call category inventory_digest shard_index digest stage =
     seq_op (read_verified sha256 digest) (\<lambda>payload.
     seq_op (lift_res (reference_path category inventory_digest shard_index digest)) (\<lambda>path.
     seq_op (read_op (\<lambda>s. Inr (ps_references s path))) (\<lambda>existing.
     case existing of
       Some _ \<Rightarrow> lift_res (classify_existing sha256 existing (relative_reference_path path)
         payload digest)
     | None \<Rightarrow>
         seq_op (write_op (pc_meanwhile call)) (\<lambda>_.
         seq_op (link_reference digest path) (\<lambda>linked.
         if \<not> linked
         then read_op (\<lambda>s. classify_existing sha256 (ps_references s path)
                (relative_reference_path path) payload digest)
         else seq_op (invoke_stage call stage) (\<lambda>_.
              ret \<lparr>pr_digest = digest, pr_relative_path = relative_reference_path path,
                pr_disposition = Published\<rparr>))))))"

definition reference_exists_verified :: "(byte list \<Rightarrow> byte list) \<Rightarrow> string \<Rightarrow> string \<Rightarrow> int \<Rightarrow>
    string \<Rightarrow> bool store_op" where
  "reference_exists_verified sha256 category inventory_digest shard_index digest =
     seq_op (lift_res (reference_path category inventory_digest shard_index digest)) (\<lambda>path.
     read_op (\<lambda>s. case ps_references s path of
       None \<Rightarrow> Inr False
     | Some payload \<Rightarrow> checked [unless (hex (sha256 payload) = digest)
         (PublicationCorruptionError
           ''publication reference bytes do not match the referenced digest'')] True))"

subsection \<open>Recovery\<close>

text \<open>The loop over the temporary files in the order of their names; the counts are those of the
  report.\<close>

fun recover_loop :: "(byte list \<Rightarrow> byte list) \<Rightarrow> string list \<Rightarrow> nat \<Rightarrow> nat \<Rightarrow>
    RecoveryReport store_op" where
  "recover_loop sha256 [] removed verified =
     ret \<lparr>rr_temporary_objects_removed = removed, rr_authoritative_objects_verified = verified\<rparr>"
| "recover_loop sha256 (name # names) removed verified =
     (let declared = takeWhile (\<lambda>c. c \<noteq> CHR ''.'') name in
      seq_op (read_op (\<lambda>s. Inr (is_hex_256 declared \<and> ps_objects s declared \<noteq> None)))
        (\<lambda>authoritative.
      seq_op (if authoritative
         then seq_op (read_verified sha256 declared) (\<lambda>_. ret (verified + 1))
         else ret verified) (\<lambda>verified'.
      seq_op (unlink_temporary name) (\<lambda>_.
      recover_loop sha256 names (removed + 1) verified'))))"

definition recover_store :: "(byte list \<Rightarrow> byte list) \<Rightarrow> RecoveryReport store_op" where
  "recover_store sha256 =
     seq_op (read_op (\<lambda>s. Inr (sort (map fst (ps_temporaries s))))) (\<lambda>names.
     recover_loop sha256 names 0 0)"

definition empty_publication_store :: PublicationStore where
  "empty_publication_store = \<lparr>ps_objects = Map.empty, ps_claims = Map.empty,
     ps_references = Map.empty, ps_temporaries = []\<rparr>"

end
