(* ===== verification/Publication_Protocol.thy ===== *)
theory Publication_Protocol
  imports Execution_Inventory Publication_Store
begin

section \<open>Completion envelopes, references and receipts\<close>

text \<open>
  \<^verbatim>\<open>synthesis/v0_4/publication_protocol.py\<close>: the commitment to one semantic
  completion, the reference by which an inventory authorises it, and the chain of operational
  receipts that records its publication.
\<close>

datatype CompletionStatus = StatusAccepted | StatusRejected

fun completion_status_value :: "CompletionStatus \<Rightarrow> string" where
  "completion_status_value StatusAccepted = ''accepted''"
| "completion_status_value StatusRejected = ''rejected''"

datatype PublicationObjectKind =
    KindCompletionEnvelope
  | KindCompletionReference
  | KindShardIndex
  | KindShardManifest

fun object_kind_value :: "PublicationObjectKind \<Rightarrow> string" where
  "object_kind_value KindCompletionEnvelope = ''attempt-completion-envelope''"
| "object_kind_value KindCompletionReference = ''inventory-completion-reference''"
| "object_kind_value KindShardIndex = ''shard-index''"
| "object_kind_value KindShardManifest = ''shard-manifest''"

definition p_error :: "string \<Rightarrow> synthesis_error" where
  "p_error m = PublicationProtocolError m"

definition p_digest :: "string \<Rightarrow> string \<Rightarrow> synthesis_error option" where
  "p_digest v name = unless (is_hex_256 v) (p_error (name @ '' must be a lowercase SHA-256 digest''))"

definition p_token :: "string \<Rightarrow> string \<Rightarrow> synthesis_error option" where
  "p_token v name = unless (is_token v) (p_error (name @ '' must be a lowercase ASCII token''))"

subsection \<open>Envelopes\<close>

record AttemptCompletionEnvelope =
  ce_attempt_key :: AttemptKey
  ce_generation_namespace_digest :: string
  ce_attempt_input_commitment_digest :: string
  ce_completion_status :: CompletionStatus
  ce_completion_digest :: string
  ce_search_branch_digest :: string
  ce_choice_ledger_digest :: string
  ce_identity_ledger_digest :: string
  ce_schema_version :: string

definition completion_envelope ::
  "AttemptCompletionEnvelope \<Rightarrow> synthesis_error + AttemptCompletionEnvelope" where
  "completion_envelope e = checked
     [p_digest (ce_generation_namespace_digest e) ''generation_namespace_digest'',
      p_digest (ce_attempt_input_commitment_digest e) ''attempt_input_commitment_digest'',
      p_digest (ce_completion_digest e) ''completion_digest'',
      p_digest (ce_search_branch_digest e) ''search_branch_digest'',
      p_digest (ce_choice_ledger_digest e) ''choice_ledger_digest'',
      p_digest (ce_identity_ledger_digest e) ''identity_ledger_digest'',
      unless (ce_schema_version e = ATTEMPT_COMPLETION_ENVELOPE_SCHEMA_VERSION)
        (p_error ''completion envelope schema version does not match the v0.4 registry'')]
     e"

text \<open>The fields that \<^verbatim>\<open>from_completion\<close> copies from either class.\<close>

definition envelope_of :: "(byte list \<Rightarrow> byte list) \<Rightarrow> CompletionStatus \<Rightarrow> string \<Rightarrow>
    'a CompletionEvidence_scheme \<Rightarrow> AttemptCompletionEnvelope" where
  "envelope_of sha256 status digest a =
     \<lparr>ce_attempt_key = ac_attempt_key a,
      ce_generation_namespace_digest = ac_generation_namespace_digest a,
      ce_attempt_input_commitment_digest = ac_attempt_input_commitment_digest a,
      ce_completion_status = status,
      ce_completion_digest = digest,
      ce_search_branch_digest = ac_search_branch_digest a,
      ce_choice_ledger_digest = ac_choice_ledger_digest a,
      ce_identity_ledger_digest = ac_identity_ledger_digest a,
      ce_schema_version = ATTEMPT_COMPLETION_ENVELOPE_SCHEMA_VERSION\<rparr>"

definition envelope_from_completion :: "(byte list \<Rightarrow> byte list) \<Rightarrow> AttemptCompletion \<Rightarrow>
    synthesis_error + AttemptCompletionEnvelope" where
  "envelope_from_completion sha256 c = completion_envelope (case c of
     CompletionAccepted a \<Rightarrow> envelope_of sha256 StatusAccepted (completion_digest sha256 c) a
   | CompletionRejected a \<Rightarrow> envelope_of sha256 StatusRejected (completion_digest sha256 c) a)"

definition validate_completion :: "(byte list \<Rightarrow> byte list) \<Rightarrow> AttemptCompletionEnvelope \<Rightarrow>
    AttemptCompletion \<Rightarrow> synthesis_error + unit" where
  "validate_completion sha256 e c =
     and_then (envelope_from_completion sha256 c) (\<lambda>expected. checked [unless (e = expected)
       (p_error ''completion envelope does not match the supplied semantic completion'')] ())"

definition envelope_json :: "AttemptCompletionEnvelope \<Rightarrow> json" where
  "envelope_json e = JObj
     [(''attempt_input_commitment_digest'', JStr (ce_attempt_input_commitment_digest e)),
      (''attempt_key'', attempt_key_value (ce_attempt_key e)),
      (''choice_ledger_digest'', JStr (ce_choice_ledger_digest e)),
      (''completion_digest'', JStr (ce_completion_digest e)),
      (''completion_status'', JStr (completion_status_value (ce_completion_status e))),
      (''generation_namespace_digest'', JStr (ce_generation_namespace_digest e)),
      (''identity_ledger_digest'', JStr (ce_identity_ledger_digest e)),
      (''schema_version'', JStr (ce_schema_version e)),
      (''search_branch_digest'', JStr (ce_search_branch_digest e))]"

definition envelope_bytes :: "AttemptCompletionEnvelope \<Rightarrow> byte list" where
  "envelope_bytes e = json_bytes (envelope_json e)"

definition envelope_digest :: "(byte list \<Rightarrow> byte list) \<Rightarrow> AttemptCompletionEnvelope \<Rightarrow> string" where
  "envelope_digest sha256 e = json_digest sha256 (envelope_json e)"

subsection \<open>References\<close>

record InventoryCompletionReference =
  cr_inventory_digest :: string
  cr_global_ordinal :: int
  cr_sample_key :: SampleKey
  cr_attempt_key :: AttemptKey
  cr_sample_execution_spec_digest :: string
  cr_completion_envelope_digest :: string
  cr_schema_version :: string

definition completion_reference ::
  "InventoryCompletionReference \<Rightarrow> synthesis_error + InventoryCompletionReference" where
  "completion_reference r = checked
     [p_digest (cr_inventory_digest r) ''inventory_digest'',
      unless (is_uint32 (cr_global_ordinal r))
        (p_error ''global_ordinal must be an exact uint32''),
      unless (sample_key (cr_attempt_key r) = cr_sample_key r)
        (p_error ''attempt_key and sample_key must identify one sample''),
      p_digest (cr_sample_execution_spec_digest r) ''sample_execution_spec_digest'',
      p_digest (cr_completion_envelope_digest r) ''completion_envelope_digest'',
      unless (cr_schema_version r = INVENTORY_COMPLETION_REFERENCE_SCHEMA_VERSION)
        (p_error ''inventory reference schema version does not match the v0.4 registry'')]
     r"

definition reference_from_inventory :: "(byte list \<Rightarrow> byte list) \<Rightarrow> ExecutionInventory \<Rightarrow>
    AttemptCompletionEnvelope \<Rightarrow> synthesis_error + InventoryCompletionReference" where
  "reference_from_inventory sha256 i e =
     (let key = ce_attempt_key e;
          matching = matching_specs i (sample_key key);
          spec = hd matching
      in and_then (checked
       [unless (ce_generation_namespace_digest e = generation_namespace_digest sha256 i)
          (p_error ''completion namespace does not match the execution inventory''),
        unless (length matching = 1)
          (p_error ''completion sample is absent from the inventory''),
        unless (range_contains (es_attempt_range spec) (key_index key))
          (p_error ''completion attempt is outside the inventory attempt range'')] ())
       (\<lambda>_. completion_reference
         \<lparr>cr_inventory_digest = inventory_digest sha256 i,
          cr_global_ordinal = es_global_ordinal spec,
          cr_sample_key = es_sample_key spec,
          cr_attempt_key = key,
          cr_sample_execution_spec_digest = spec_digest sha256 spec,
          cr_completion_envelope_digest = envelope_digest sha256 e,
          cr_schema_version = INVENTORY_COMPLETION_REFERENCE_SCHEMA_VERSION\<rparr>))"

definition validate_reference_against :: "(byte list \<Rightarrow> byte list) \<Rightarrow>
    InventoryCompletionReference \<Rightarrow> ExecutionInventory \<Rightarrow> AttemptCompletionEnvelope \<Rightarrow>
    synthesis_error + unit" where
  "validate_reference_against sha256 r i e =
     and_then (reference_from_inventory sha256 i e) (\<lambda>expected. checked [unless (r = expected)
       (p_error ''inventory completion reference does not match its authority'')] ())"

definition reference_json :: "InventoryCompletionReference \<Rightarrow> json" where
  "reference_json r = JObj
     [(''attempt_key'', attempt_key_value (cr_attempt_key r)),
      (''completion_envelope_digest'', JStr (cr_completion_envelope_digest r)),
      (''global_ordinal'', JInt (cr_global_ordinal r)),
      (''inventory_digest'', JStr (cr_inventory_digest r)),
      (''sample_execution_spec_digest'', JStr (cr_sample_execution_spec_digest r)),
      (''sample_key'', sample_key_value (cr_sample_key r)),
      (''schema_version'', JStr (cr_schema_version r))]"

definition reference_bytes :: "InventoryCompletionReference \<Rightarrow> byte list" where
  "reference_bytes r = json_bytes (reference_json r)"

definition reference_digest ::
  "(byte list \<Rightarrow> byte list) \<Rightarrow> InventoryCompletionReference \<Rightarrow> string" where
  "reference_digest sha256 r = json_digest sha256 (reference_json r)"

definition reference_spec :: "(byte list \<Rightarrow> byte list) \<Rightarrow> ExecutionInventory \<Rightarrow>
    InventoryCompletionReference \<Rightarrow> synthesis_error + SampleExecutionSpec" where
  "reference_spec sha256 i r =
     (let matching = filter (\<lambda>x. es_global_ordinal x = cr_global_ordinal r \<and>
            es_sample_key x = cr_sample_key r) (ei_samples i);
          spec = hd matching
      in checked
       [unless (cr_inventory_digest r = inventory_digest sha256 i)
          (p_error ''reference belongs to a different inventory''),
        unless (length matching = 1)
          (p_error ''reference does not resolve one inventory spec''),
        unless (spec_digest sha256 spec = cr_sample_execution_spec_digest r)
          (p_error ''reference sample-spec digest does not match''),
        unless (range_contains (es_attempt_range spec) (key_index (cr_attempt_key r)))
          (p_error ''reference attempt is outside the declared range'')]
       spec)"

subsection \<open>Receipts\<close>

record OperationalPublicationReceipt =
  op_execution_run_id :: string
  op_inventory_digest :: string
  op_attempt_key :: AttemptKey
  op_publication_ordinal :: int
  op_object_kind :: PublicationObjectKind
  op_object_digest :: string
  op_disposition :: PublicationDisposition
  op_previous_publication_receipt_digest :: "string option"
  op_schema_version :: string

definition publication_receipt ::
  "OperationalPublicationReceipt \<Rightarrow> synthesis_error + OperationalPublicationReceipt" where
  "publication_receipt r = checked
     [p_token (op_execution_run_id r) ''execution_run_id'',
      p_digest (op_inventory_digest r) ''inventory_digest'',
      unless (is_uint32 (op_publication_ordinal r))
        (p_error ''publication_ordinal must be an exact uint32''),
      p_digest (op_object_digest r) ''object_digest'',
      (if op_publication_ordinal r = 0
       then unless (op_previous_publication_receipt_digest r = None)
         (p_error ''initial publication receipt cannot reference a predecessor'')
       else unless (case op_previous_publication_receipt_digest r of
             None \<Rightarrow> False | Some d \<Rightarrow> is_hex_256 d)
         (p_error
           ''previous_publication_receipt_digest must be a lowercase SHA-256 digest'')),
      unless (op_schema_version r = OPERATIONAL_PUBLICATION_SCHEMA_VERSION)
        (p_error ''publication receipt schema version does not match the v0.4 registry'')]
     r"

definition receipt_json :: "OperationalPublicationReceipt \<Rightarrow> json" where
  "receipt_json r = JObj
     [(''attempt_key'', attempt_key_value (op_attempt_key r)),
      (''disposition'', JStr (disposition_value (op_disposition r))),
      (''execution_run_id'', JStr (op_execution_run_id r)),
      (''inventory_digest'', JStr (op_inventory_digest r)),
      (''object_digest'', JStr (op_object_digest r)),
      (''object_kind'', JStr (object_kind_value (op_object_kind r))),
      (''previous_publication_receipt_digest'',
        optional_string (op_previous_publication_receipt_digest r)),
      (''publication_ordinal'', JInt (op_publication_ordinal r)),
      (''schema_version'', JStr (op_schema_version r))]"

definition receipt_bytes :: "OperationalPublicationReceipt \<Rightarrow> byte list" where
  "receipt_bytes r = json_bytes (receipt_json r)"

definition receipt_digest ::
  "(byte list \<Rightarrow> byte list) \<Rightarrow> OperationalPublicationReceipt \<Rightarrow> string" where
  "receipt_digest sha256 r = json_digest sha256 (receipt_json r)"

definition append_receipt :: "(byte list \<Rightarrow> byte list) \<Rightarrow> OperationalPublicationReceipt option \<Rightarrow>
    string \<Rightarrow> string \<Rightarrow> AttemptKey \<Rightarrow> PublicationObjectKind \<Rightarrow> string \<Rightarrow> PublicationDisposition \<Rightarrow>
    synthesis_error + OperationalPublicationReceipt" where
  "append_receipt sha256 previous run_id inventory key kind object_digest disposition =
     (let receipt = \<lparr>op_execution_run_id = run_id, op_inventory_digest = inventory,
        op_attempt_key = key,
        op_publication_ordinal =
          (case previous of None \<Rightarrow> 0 | Some p \<Rightarrow> op_publication_ordinal p + 1),
        op_object_kind = kind, op_object_digest = object_digest, op_disposition = disposition,
        op_previous_publication_receipt_digest = map_option (receipt_digest sha256) previous,
        op_schema_version = OPERATIONAL_PUBLICATION_SCHEMA_VERSION\<rparr>
      in case previous of
           None \<Rightarrow> publication_receipt receipt
         | Some p \<Rightarrow> and_then (checked
             [unless (op_execution_run_id p = run_id)
                (p_error ''publication receipt chain spans execution runs''),
              unless (op_inventory_digest p = inventory)
                (p_error ''publication receipt chain spans inventories''),
              unless (op_attempt_key p = key)
                (p_error ''publication receipt chain spans attempts'')] receipt)
             publication_receipt)"

text \<open>The loop of \<^verbatim>\<open>validate_publication_receipt_chain\<close>, at the index \<open>k\<close>
  and with the digest of the previous receipt.\<close>

fun check_receipt_chain :: "(byte list \<Rightarrow> byte list) \<Rightarrow> OperationalPublicationReceipt \<Rightarrow> int \<Rightarrow>
    string option \<Rightarrow> OperationalPublicationReceipt list \<Rightarrow> synthesis_error option list" where
  "check_receipt_chain sha256 first k previous [] = []"
| "check_receipt_chain sha256 first k previous (r # rs) =
     [unless (op_execution_run_id r = op_execution_run_id first)
        (p_error ''publication receipt chain spans execution runs''),
      unless (op_inventory_digest r = op_inventory_digest first)
        (p_error ''publication receipt chain spans inventories''),
      unless (op_attempt_key r = op_attempt_key first)
        (p_error ''publication receipt chain spans attempts''),
      unless (op_publication_ordinal r = k)
        (p_error ''publication receipt ordinals must be contiguous from zero''),
      unless (op_previous_publication_receipt_digest r = previous)
        (p_error ''publication receipt previous-digest chain is broken'')] @
     check_receipt_chain sha256 first (k + 1) (Some (receipt_digest sha256 r)) rs"

definition validate_publication_receipt_chain :: "(byte list \<Rightarrow> byte list) \<Rightarrow>
    OperationalPublicationReceipt list \<Rightarrow> synthesis_error + OperationalPublicationReceipt list" where
  "validate_publication_receipt_chain sha256 receipts = checked
     (unless (receipts \<noteq> [])
        (p_error ''publication receipt chain requires an immutable tuple'') #
      check_receipt_chain sha256 (hd receipts) 0 None receipts)
     receipts"

end
