(* ===== verification/Publication_Shards.thy ===== *)
theory Publication_Shards
  imports Publication_Protocol
begin

section \<open>Shard indexes, sealed manifests and their publication\<close>

text \<open>
  \<^verbatim>\<open>synthesis/v0_4/publication_shards.py\<close>: the record of one published completion,
  the canonical index of one shard, the manifest whose construction is the seal, and the
  coordinator that publishes them in an order that survives crashes. The coordinator's store
  calls are numbered; the caller supplies, per call, the temporary name and the interference that
  \<^verbatim>\<open>Publication_Store\<close> takes, what other processes do before the call, and the
  fault injector.
\<close>

definition SHARD_INDEX_FORMAT_ID :: string where "SHARD_INDEX_FORMAT_ID = ''csd-shard-index''"

definition SHARD_INDEX_FORMAT_VERSION :: int where "SHARD_INDEX_FORMAT_VERSION = 1"

definition s_error :: "string \<Rightarrow> synthesis_error" where
  "s_error m = ShardPublicationError m"

definition s_uint32 :: "int \<Rightarrow> string \<Rightarrow> synthesis_error option" where
  "s_uint32 v name = unless (is_uint32 v) (s_error (name @ '' must be an exact uint32''))"

definition s_digest :: "string \<Rightarrow> string \<Rightarrow> synthesis_error option" where
  "s_digest v name = unless (is_hex_256 v) (s_error (''invalid '' @ name))"

subsection \<open>Published completions\<close>

record PublishedCompletion =
  pc_envelope :: AttemptCompletionEnvelope
  pc_reference :: InventoryCompletionReference
  pc_receipts :: "OperationalPublicationReceipt list"

definition published_completion ::
  "(byte list \<Rightarrow> byte list) \<Rightarrow> PublishedCompletion \<Rightarrow> synthesis_error + PublishedCompletion" where
  "published_completion sha256 p =
     and_then (checked [unless (cr_completion_envelope_digest (pc_reference p) =
         envelope_digest sha256 (pc_envelope p))
       (s_error ''reference does not identify the completion envelope'')] ()) (\<lambda>_.
     and_then (validate_publication_receipt_chain sha256 (pc_receipts p)) (\<lambda>_.
     and_then (checked [unless (length (pc_receipts p) = 2)
       (s_error ''completion publication requires exactly two receipts'')] ()) (\<lambda>_.
     let envelope_receipt = pc_receipts p ! 0; reference_receipt = pc_receipts p ! 1 in checked
       [unless (op_object_kind envelope_receipt = KindCompletionEnvelope \<and>
           op_object_digest envelope_receipt = envelope_digest sha256 (pc_envelope p))
          (s_error ''first receipt does not publish the completion envelope''),
        unless (op_object_kind reference_receipt = KindCompletionReference \<and>
           op_object_digest reference_receipt = reference_digest sha256 (pc_reference p))
          (s_error ''final receipt does not publish the inventory reference'')]
       p)))"

definition final_receipt :: "PublishedCompletion \<Rightarrow> OperationalPublicationReceipt" where
  "final_receipt p = last (pc_receipts p)"

subsection \<open>Index entries\<close>

record ShardIndexEntry =
  se_inventory_digest :: string
  se_shard_count :: int
  se_shard_index :: int
  se_global_ordinal :: int
  se_attempt_key :: AttemptKey
  se_completion_envelope_digest :: string
  se_inventory_completion_reference_digest :: string
  se_publication_receipt_digest :: string

definition shard_index_entry :: "ShardIndexEntry \<Rightarrow> synthesis_error + ShardIndexEntry" where
  "shard_index_entry e = checked
     [s_digest (se_inventory_digest e) ''inventory_digest'',
      s_uint32 (se_shard_count e) ''shard_count'',
      unless (se_shard_count e \<noteq> 0) (s_error ''shard_count must be positive''),
      s_uint32 (se_shard_index e) ''shard_index'',
      unless (se_shard_index e < se_shard_count e)
        (s_error ''shard_index must be less than shard_count''),
      s_uint32 (se_global_ordinal e) ''global_ordinal'',
      s_digest (se_completion_envelope_digest e) ''completion_envelope_digest'',
      s_digest (se_inventory_completion_reference_digest e)
        ''inventory_completion_reference_digest'',
      s_digest (se_publication_receipt_digest e) ''publication_receipt_digest'',
      unless (se_global_ordinal e mod se_shard_count e = se_shard_index e)
        (s_error ''index entry violates shard-policy-v1 assignment'')]
     e"

definition entry_from_publication :: "(byte list \<Rightarrow> byte list) \<Rightarrow> ExecutionInventory \<Rightarrow>
    PublishedCompletion \<Rightarrow> synthesis_error + ShardIndexEntry" where
  "entry_from_publication sha256 inventory p =
     and_then (validate_reference_against sha256 (pc_reference p) inventory (pc_envelope p))
       (\<lambda>_.
     let receipt = final_receipt p in
     and_then (checked
       [unless (op_inventory_digest receipt = inventory_digest sha256 inventory)
          (s_error ''publication receipt belongs to another inventory''),
        unless (op_attempt_key receipt = ce_attempt_key (pc_envelope p))
          (s_error ''publication receipt belongs to another attempt'')] ()) (\<lambda>_.
     shard_index_entry
       \<lparr>se_inventory_digest = inventory_digest sha256 inventory,
        se_shard_count = ei_shard_count inventory,
        se_shard_index = cr_global_ordinal (pc_reference p) mod ei_shard_count inventory,
        se_global_ordinal = cr_global_ordinal (pc_reference p),
        se_attempt_key = ce_attempt_key (pc_envelope p),
        se_completion_envelope_digest = envelope_digest sha256 (pc_envelope p),
        se_inventory_completion_reference_digest = reference_digest sha256 (pc_reference p),
        se_publication_receipt_digest = receipt_digest sha256 receipt\<rparr>))"

definition position_key :: "ShardIndexEntry \<Rightarrow> int \<times> int" where
  "position_key e = (se_global_ordinal e, key_index (se_attempt_key e))"

definition entry_sort_key :: "ShardIndexEntry \<Rightarrow> int \<times> int \<times> string \<times> string \<times> string" where
  "entry_sort_key e = (se_global_ordinal e, key_index (se_attempt_key e),
     se_completion_envelope_digest e, se_inventory_completion_reference_digest e,
     se_publication_receipt_digest e)"

definition entry_json :: "ShardIndexEntry \<Rightarrow> json" where
  "entry_json e = JObj
     [(''attempt_key'', attempt_key_value (se_attempt_key e)),
      (''completion_envelope_digest'', JStr (se_completion_envelope_digest e)),
      (''global_ordinal'', JInt (se_global_ordinal e)),
      (''inventory_completion_reference_digest'',
        JStr (se_inventory_completion_reference_digest e)),
      (''inventory_digest'', JStr (se_inventory_digest e)),
      (''publication_receipt_digest'', JStr (se_publication_receipt_digest e)),
      (''shard_count'', JInt (se_shard_count e)),
      (''shard_index'', JInt (se_shard_index e))]"

definition entry_digest :: "(byte list \<Rightarrow> byte list) \<Rightarrow> ShardIndexEntry \<Rightarrow> string" where
  "entry_digest sha256 e = json_digest sha256 (entry_json e)"

subsection \<open>Shard indexes\<close>

record ShardIndex =
  si_inventory_digest :: string
  si_shard_count :: int
  si_shard_index :: int
  si_entries :: "ShardIndexEntry list"
  si_format_id :: string
  si_format_version :: int

text \<open>\<^verbatim>\<open>__post_init__\<close>, first the index itself and then its entries one by
  one.\<close>

definition shard_index_of :: "ShardIndex \<Rightarrow> synthesis_error + ShardIndex" where
  "shard_index_of x = checked
     ([s_digest (si_inventory_digest x) ''inventory_digest'',
       s_uint32 (si_shard_count x) ''shard_count'',
       unless (si_shard_count x \<noteq> 0) (s_error ''shard_count must be positive''),
       s_uint32 (si_shard_index x) ''shard_index'',
       unless (si_shard_index x < si_shard_count x)
         (s_error ''shard_index must be less than shard_count''),
       unless (sort_key entry_sort_key (si_entries x) = si_entries x)
         (s_error ''shard index entries must use canonical ordering''),
       unless (distinct (map position_key (si_entries x)))
         (s_error ''shard index contains duplicate inventory positions'')] @
      concat (map (\<lambda>e.
        [unless (se_inventory_digest e = si_inventory_digest x)
           (s_error ''shard index spans inventories''),
         unless (se_shard_count e = si_shard_count x \<and> se_shard_index e = si_shard_index x)
           (s_error ''shard index spans shard assignments'')]) (si_entries x)) @
      [unless (si_format_id x = SHARD_INDEX_FORMAT_ID)
         (s_error ''unknown shard index format''),
       unless (si_format_version x = SHARD_INDEX_FORMAT_VERSION)
         (s_error ''unknown shard index format version'')])
     x"

text \<open>The loop of \<^verbatim>\<open>from_entries\<close>. The dictionary is the list of its values in
  the order of insertion.\<close>

fun place_entries :: "string \<Rightarrow> int \<Rightarrow> int \<Rightarrow> ShardIndexEntry list \<Rightarrow> ShardIndexEntry list \<Rightarrow>
    synthesis_error + ShardIndexEntry list" where
  "place_entries digest shards k canonical [] = Inr canonical"
| "place_entries digest shards k canonical (e # es) =
     and_then (checked
       [unless (se_inventory_digest e = digest)
          (s_error ''shard index entry belongs to another inventory''),
        unless (se_shard_count e = shards \<and> se_shard_index e = k)
          (s_error ''shard index entry belongs to another shard'')] ())
       (\<lambda>_. case find (\<lambda>x. position_key x = position_key e) canonical of
          None \<Rightarrow> place_entries digest shards k (canonical @ [e]) es
        | Some existing \<Rightarrow>
            if existing \<noteq> e
            then Inl (s_error ''conflicting completions occupy one inventory attempt position'')
            else place_entries digest shards k canonical es)"

definition index_from_entries :: "(byte list \<Rightarrow> byte list) \<Rightarrow> ExecutionInventory \<Rightarrow> int \<Rightarrow>
    ShardIndexEntry list \<Rightarrow> synthesis_error + ShardIndex" where
  "index_from_entries sha256 inventory k entries =
     and_then (checked
       [s_uint32 k ''shard_index'',
        unless (k < ei_shard_count inventory)
          (s_error ''shard_index is outside the inventory shard range'')] ()) (\<lambda>_.
     and_then (place_entries (inventory_digest sha256 inventory) (ei_shard_count inventory) k
       [] entries) (\<lambda>canonical.
     shard_index_of
       \<lparr>si_inventory_digest = inventory_digest sha256 inventory,
        si_shard_count = ei_shard_count inventory, si_shard_index = k,
        si_entries = sort_key entry_sort_key canonical,
        si_format_id = SHARD_INDEX_FORMAT_ID,
        si_format_version = SHARD_INDEX_FORMAT_VERSION\<rparr>))"

definition index_from_publications :: "(byte list \<Rightarrow> byte list) \<Rightarrow> ExecutionInventory \<Rightarrow> int \<Rightarrow>
    PublishedCompletion list \<Rightarrow> synthesis_error + ShardIndex" where
  "index_from_publications sha256 inventory k publications =
     and_then (map_res (entry_from_publication sha256 inventory) (filter (\<lambda>p.
         cr_global_ordinal (pc_reference p) mod ei_shard_count inventory = k) publications))
       (\<lambda>entries.
     and_then (checked [unless (length entries = length publications)
       (s_error ''published completion belongs to another logical shard'')] ()) (\<lambda>_.
     index_from_entries sha256 inventory k entries))"

definition extend_index :: "(byte list \<Rightarrow> byte list) \<Rightarrow> ExecutionInventory \<Rightarrow> ShardIndex \<Rightarrow>
    ShardIndexEntry list \<Rightarrow> synthesis_error + ShardIndex" where
  "extend_index sha256 inventory previous additions =
     and_then (checked [unless (si_inventory_digest previous = inventory_digest sha256 inventory)
       (s_error ''previous shard index belongs to another inventory'')] ()) (\<lambda>_.
     index_from_entries sha256 inventory (si_shard_index previous)
       (si_entries previous @ additions))"

definition index_json :: "ShardIndex \<Rightarrow> json" where
  "index_json x = JObj
     [(''entries'', JArr (map entry_json (si_entries x))),
      (''format_id'', JStr (si_format_id x)),
      (''format_version'', JInt (si_format_version x)),
      (''inventory_digest'', JStr (si_inventory_digest x)),
      (''shard_count'', JInt (si_shard_count x)),
      (''shard_index'', JInt (si_shard_index x))]"

definition index_bytes :: "ShardIndex \<Rightarrow> byte list" where
  "index_bytes x = json_bytes (index_json x)"

definition index_digest :: "(byte list \<Rightarrow> byte list) \<Rightarrow> ShardIndex \<Rightarrow> string" where
  "index_digest sha256 x = json_digest sha256 (index_json x)"

subsection \<open>Sealed manifests\<close>

record SealedShardManifest =
  sm_inventory_digest :: string
  sm_generation_namespace_digest :: string
  sm_required_schema_versions_digest :: string
  sm_shard_policy_id :: string
  sm_shard_policy_version :: int
  sm_shard_count :: int
  sm_shard_index :: int
  sm_shard_index_digest :: string
  sm_entry_count :: int
  sm_entry_digests :: "string list"
  sm_completion_envelope_digests :: "string list"
  sm_inventory_completion_reference_digests :: "string list"
  sm_publication_receipt_digests :: "string list"
  sm_object_set_digest :: string
  sm_sealed :: bool
  sm_schema_version :: string

definition aligned_digests :: "int \<Rightarrow> string \<Rightarrow> string list \<Rightarrow> synthesis_error option list" where
  "aligned_digests n name values =
     unless (int (length values) = n)
       (s_error (name @ '' must be an immutable entry-aligned tuple'')) #
     map (\<lambda>v. s_digest v name) values"

definition sealed_manifest :: "SealedShardManifest \<Rightarrow> synthesis_error + SealedShardManifest" where
  "sealed_manifest m = checked
     ([s_digest (sm_inventory_digest m) ''inventory_digest'',
       s_digest (sm_generation_namespace_digest m) ''generation_namespace_digest'',
       s_digest (sm_required_schema_versions_digest m) ''required_schema_versions_digest'',
       s_digest (sm_shard_index_digest m) ''shard_index_digest'',
       s_digest (sm_object_set_digest m) ''object_set_digest'',
       unless (sm_shard_policy_id m = SHARD_POLICY_ID)
         (s_error ''sealed manifest uses an unknown shard policy''),
       unless (sm_shard_policy_version m = SHARD_POLICY_VERSION)
         (s_error ''sealed manifest uses an unknown shard-policy version''),
       s_uint32 (sm_shard_count m) ''shard_count'',
       s_uint32 (sm_shard_index m) ''shard_index'',
       unless (sm_shard_count m \<noteq> 0 \<and> sm_shard_index m < sm_shard_count m)
         (s_error ''sealed manifest shard assignment is invalid''),
       s_uint32 (sm_entry_count m) ''entry_count''] @
      aligned_digests (sm_entry_count m) ''entry_digests'' (sm_entry_digests m) @
      aligned_digests (sm_entry_count m) ''completion_envelope_digests''
        (sm_completion_envelope_digests m) @
      aligned_digests (sm_entry_count m) ''inventory_completion_reference_digests''
        (sm_inventory_completion_reference_digests m) @
      aligned_digests (sm_entry_count m) ''publication_receipt_digests''
        (sm_publication_receipt_digests m) @
      [unless (sm_sealed m) (s_error ''shard manifest must be factory sealed''),
       unless (sm_schema_version m = SHARD_MANIFEST_SCHEMA_VERSION)
         (s_error ''shard manifest schema version is not registered'')])
     m"

definition object_set_json :: "(byte list \<Rightarrow> byte list) \<Rightarrow> ShardIndex \<Rightarrow> json" where
  "object_set_json sha256 x = JObj
     [(''completion_envelope_digests'',
        string_list (map se_completion_envelope_digest (si_entries x))),
      (''inventory_completion_reference_digests'',
        string_list (map se_inventory_completion_reference_digest (si_entries x))),
      (''publication_receipt_digests'',
        string_list (map se_publication_receipt_digest (si_entries x))),
      (''shard_index_digest'', JStr (index_digest sha256 x))]"

definition manifest_of ::
  "(byte list \<Rightarrow> byte list) \<Rightarrow> ExecutionInventory \<Rightarrow> ShardIndex \<Rightarrow> SealedShardManifest" where
  "manifest_of sha256 inventory x =
     \<lparr>sm_inventory_digest = inventory_digest sha256 inventory,
      sm_generation_namespace_digest = generation_namespace_digest sha256 inventory,
      sm_required_schema_versions_digest =
        schema_versions_digest sha256 (ei_required_schema_versions inventory),
      sm_shard_policy_id = ei_shard_policy_id inventory,
      sm_shard_policy_version = ei_shard_policy_version inventory,
      sm_shard_count = ei_shard_count inventory,
      sm_shard_index = si_shard_index x,
      sm_shard_index_digest = index_digest sha256 x,
      sm_entry_count = int (length (si_entries x)),
      sm_entry_digests = map (entry_digest sha256) (si_entries x),
      sm_completion_envelope_digests = map se_completion_envelope_digest (si_entries x),
      sm_inventory_completion_reference_digests =
        map se_inventory_completion_reference_digest (si_entries x),
      sm_publication_receipt_digests = map se_publication_receipt_digest (si_entries x),
      sm_object_set_digest = json_digest sha256 (object_set_json sha256 x),
      sm_sealed = True,
      sm_schema_version = SHARD_MANIFEST_SCHEMA_VERSION\<rparr>"

text \<open>The tests of \<^verbatim>\<open>seal\<close> against the store, in its order.\<close>

definition read_matches :: "(byte list \<Rightarrow> byte list) \<Rightarrow> string \<Rightarrow> byte list \<Rightarrow> string \<Rightarrow>
    unit store_op" where
  "read_matches sha256 digest bytes message =
     seq_op (read_verified sha256 digest) (\<lambda>found.
     lift_res (checked [unless (found = bytes) (s_error message)] ()))"

fun check_receipts_stored :: "(byte list \<Rightarrow> byte list) \<Rightarrow> OperationalPublicationReceipt list \<Rightarrow>
    unit store_op" where
  "check_receipts_stored sha256 [] = ret ()"
| "check_receipts_stored sha256 (r # rs) =
     seq_op (read_matches sha256 (receipt_digest sha256 r) (receipt_bytes r)
       ''publication receipt object is not verified'') (\<lambda>_.
     check_receipts_stored sha256 rs)"

fun check_publications_stored :: "(byte list \<Rightarrow> byte list) \<Rightarrow> PublishedCompletion list \<Rightarrow>
    unit store_op" where
  "check_publications_stored sha256 [] = ret ()"
| "check_publications_stored sha256 (p # ps) =
     seq_op (read_matches sha256 (envelope_digest sha256 (pc_envelope p))
       (envelope_bytes (pc_envelope p)) ''completion envelope object is not verified'') (\<lambda>_.
     seq_op (read_matches sha256 (reference_digest sha256 (pc_reference p))
       (reference_bytes (pc_reference p)) ''completion reference object is not verified'') (\<lambda>_.
     seq_op (check_receipts_stored sha256 (pc_receipts p)) (\<lambda>_.
     check_publications_stored sha256 ps)))"

definition seal :: "(byte list \<Rightarrow> byte list) \<Rightarrow> ExecutionInventory \<Rightarrow> ShardIndex \<Rightarrow>
    PublishedCompletion list \<Rightarrow> SealedShardManifest store_op" where
  "seal sha256 inventory x publications =
     seq_op (lift_res (index_from_publications sha256 inventory (si_shard_index x) publications))
       (\<lambda>expected.
     seq_op (lift_res (checked [unless (x = expected)
       (s_error ''shard index does not match its publications'')] ())) (\<lambda>_.
     seq_op (read_matches sha256 (index_digest sha256 x) (index_bytes x)
       ''shard index is not durably published'') (\<lambda>_.
     seq_op (reference_exists_verified sha256 ''indexes'' (inventory_digest sha256 inventory)
       (si_shard_index x) (index_digest sha256 x)) (\<lambda>exists.
     seq_op (lift_res (checked [unless exists
       (s_error ''shard index reference is not durably published'')] ())) (\<lambda>_.
     seq_op (check_publications_stored sha256 publications) (\<lambda>_.
     lift_res (sealed_manifest (manifest_of sha256 inventory x))))))))"

definition manifest_json :: "SealedShardManifest \<Rightarrow> json" where
  "manifest_json m = JObj
     [(''completion_envelope_digests'', string_list (sm_completion_envelope_digests m)),
      (''entry_count'', JInt (sm_entry_count m)),
      (''entry_digests'', string_list (sm_entry_digests m)),
      (''generation_namespace_digest'', JStr (sm_generation_namespace_digest m)),
      (''inventory_completion_reference_digests'',
        string_list (sm_inventory_completion_reference_digests m)),
      (''inventory_digest'', JStr (sm_inventory_digest m)),
      (''object_set_digest'', JStr (sm_object_set_digest m)),
      (''publication_receipt_digests'', string_list (sm_publication_receipt_digests m)),
      (''required_schema_versions_digest'', JStr (sm_required_schema_versions_digest m)),
      (''schema_version'', JStr (sm_schema_version m)),
      (''sealed'', JBool (sm_sealed m)),
      (''shard_count'', JInt (sm_shard_count m)),
      (''shard_index'', JInt (sm_shard_index m)),
      (''shard_index_digest'', JStr (sm_shard_index_digest m)),
      (''shard_policy_id'', JStr (sm_shard_policy_id m)),
      (''shard_policy_version'', JInt (sm_shard_policy_version m))]"

definition manifest_bytes :: "SealedShardManifest \<Rightarrow> byte list" where
  "manifest_bytes m = json_bytes (manifest_json m)"

definition manifest_digest :: "(byte list \<Rightarrow> byte list) \<Rightarrow> SealedShardManifest \<Rightarrow> string" where
  "manifest_digest sha256 m = json_digest sha256 (manifest_json m)"

subsection \<open>The coordinator\<close>

record PublishedShard =
  pd_index :: ShardIndex
  pd_manifest :: SealedShardManifest
  pd_index_result :: PublicationResult
  pd_manifest_result :: PublicationResult
  pd_seal_result :: PublicationResult

definition published_shard ::
  "(byte list \<Rightarrow> byte list) \<Rightarrow> PublishedShard \<Rightarrow> synthesis_error + PublishedShard" where
  "published_shard sha256 d = checked
     [unless (sm_shard_index_digest (pd_manifest d) = index_digest sha256 (pd_index d))
        (s_error ''published shard manifest does not identify its index'')] d"

text \<open>What a call of the coordinator takes from outside: the injector, and for its \<open>k\<close>-th
  store call the temporary name and interference inside the call and the steps of other processes
  before it.\<close>

record CoordinatorCall =
  co_fault :: "string \<Rightarrow> synthesis_error option"
  co_call :: "nat \<Rightarrow> PublicationCall"
  co_before :: "nat \<Rightarrow> PublicationStore \<Rightarrow> PublicationStore"

definition injected :: "CoordinatorCall \<Rightarrow> nat \<Rightarrow> PublicationCall" where
  "injected c k = (co_call c k)\<lparr>pc_fault := co_fault c\<rparr>"

definition uninjected :: "CoordinatorCall \<Rightarrow> nat \<Rightarrow> PublicationCall" where
  "uninjected c k = (co_call c k)\<lparr>pc_fault := \<lambda>_. None\<rparr>"

definition store_call :: "CoordinatorCall \<Rightarrow> nat \<Rightarrow> 'a store_op \<Rightarrow> 'a store_op" where
  "store_call c k m = seq_op (write_op (co_before c k)) (\<lambda>_. m)"

definition coordinator_invoke :: "CoordinatorCall \<Rightarrow> string \<Rightarrow> unit store_op" where
  "coordinator_invoke c stage = (case co_fault c stage of None \<Rightarrow> ret () | Some e \<Rightarrow> raise_op e)"

definition receipt_claim_owner_digest :: "(byte list \<Rightarrow> byte list) \<Rightarrow>
    OperationalPublicationReceipt option \<Rightarrow> string \<Rightarrow> string \<Rightarrow> AttemptKey \<Rightarrow>
    PublicationObjectKind \<Rightarrow> string \<Rightarrow> string" where
  "receipt_claim_owner_digest sha256 previous run_id inventory key kind object =
     json_digest sha256 (JObj
      [(''attempt_key'', attempt_key_value key),
       (''execution_run_id'', JStr run_id),
       (''inventory_digest'', JStr inventory),
       (''object_digest'', JStr object),
       (''object_kind'', JStr (object_kind_value kind)),
       (''previous_publication_receipt_digest'',
         optional_string (map_option (receipt_digest sha256) previous)),
       (''publication_claim_version'', JInt 1),
       (''publication_ordinal'', JInt (case previous of
          None \<Rightarrow> 0 | Some p \<Rightarrow> op_publication_ordinal p + 1))])"

definition publish_or_reuse_receipt :: "(byte list \<Rightarrow> byte list) \<Rightarrow> PublicationCall \<Rightarrow>
    OperationalPublicationReceipt option \<Rightarrow> string \<Rightarrow> string \<Rightarrow> AttemptKey \<Rightarrow>
    PublicationObjectKind \<Rightarrow> string \<Rightarrow> PublicationDisposition \<Rightarrow>
    OperationalPublicationReceipt store_op" where
  "publish_or_reuse_receipt sha256 call previous run_id inventory key kind object disposition =
     seq_op (lift_res (append_receipt sha256 previous run_id inventory key kind object
       disposition)) (\<lambda>receipt.
     seq_op (publish_bytes sha256 call (receipt_bytes receipt)
       (Some (receipt_digest sha256 receipt))) (\<lambda>_.
     ret receipt))"

text \<open>One half of \<^verbatim>\<open>publish_completion\<close>: claim and publish the object, then publish
  its receipt, with the store calls \<open>k\<close> and \<open>k + 1\<close>.\<close>

definition publish_with_receipt :: "(byte list \<Rightarrow> byte list) \<Rightarrow> CoordinatorCall \<Rightarrow> nat \<Rightarrow>
    OperationalPublicationReceipt option \<Rightarrow> string \<Rightarrow> string \<Rightarrow> AttemptKey \<Rightarrow>
    PublicationObjectKind \<Rightarrow> string \<Rightarrow> byte list \<Rightarrow> string \<Rightarrow> OperationalPublicationReceipt store_op" where
  "publish_with_receipt sha256 c k previous run_id inventory key kind object payload stage =
     seq_op (store_call c k (claim_and_publish_bytes sha256 (injected c k) payload object
       (object_kind_value kind)
       (receipt_claim_owner_digest sha256 previous run_id inventory key kind object)
       (Some (stage @ ''-claim-persisted'')) (Some (stage @ ''-object-persisted'')))) (\<lambda>result.
     seq_op (store_call c (k + 1) (publish_or_reuse_receipt sha256 (uninjected c (k + 1)) previous
       run_id inventory key kind object (pr_disposition result))) (\<lambda>receipt.
     seq_op (coordinator_invoke c (stage @ ''-receipt-persisted'')) (\<lambda>_.
     ret receipt)))"

definition publish_attempt_completion :: "(byte list \<Rightarrow> byte list) \<Rightarrow> CoordinatorCall \<Rightarrow>
    ExecutionInventory \<Rightarrow> AttemptCompletion \<Rightarrow> string \<Rightarrow> PublishedCompletion store_op" where
  "publish_attempt_completion sha256 c inventory completion run_id =
     seq_op (lift_res (envelope_from_completion sha256 completion)) (\<lambda>envelope.
     let digest = inventory_digest sha256 inventory; key = ce_attempt_key envelope in
     seq_op (publish_with_receipt sha256 c 0 None run_id digest key KindCompletionEnvelope
       (envelope_digest sha256 envelope) (envelope_bytes envelope) ''completion'')
       (\<lambda>envelope_receipt.
     seq_op (lift_res (reference_from_inventory sha256 inventory envelope)) (\<lambda>reference.
     seq_op (publish_with_receipt sha256 c 2 (Some envelope_receipt) run_id digest key
       KindCompletionReference (reference_digest sha256 reference) (reference_bytes reference)
       ''reference'') (\<lambda>reference_receipt.
     lift_res (published_completion sha256 \<lparr>pc_envelope = envelope, pc_reference = reference,
       pc_receipts = [envelope_receipt, reference_receipt]\<rparr>)))))"

definition publish_shard :: "(byte list \<Rightarrow> byte list) \<Rightarrow> CoordinatorCall \<Rightarrow>
    ExecutionInventory \<Rightarrow> int \<Rightarrow> PublishedCompletion list \<Rightarrow> PublishedShard store_op" where
  "publish_shard sha256 c inventory k publications =
     seq_op (lift_res (index_from_publications sha256 inventory k publications)) (\<lambda>x.
     let digest = inventory_digest sha256 inventory in
     seq_op (store_call c 0 (publish_bytes sha256 (uninjected c 0) (index_bytes x)
       (Some (index_digest sha256 x)))) (\<lambda>index_result.
     seq_op (store_call c 1 (install_digest_reference sha256 (injected c 1) ''indexes'' digest k
       (index_digest sha256 x) (Some ''shard-index-persisted''))) (\<lambda>_.
     seq_op (store_call c 2 (seal sha256 inventory x publications)) (\<lambda>manifest.
     seq_op (store_call c 3 (publish_bytes sha256 (uninjected c 3) (manifest_bytes manifest)
       (Some (manifest_digest sha256 manifest)))) (\<lambda>manifest_result.
     seq_op (store_call c 4 (install_digest_reference sha256 (injected c 4) ''manifests'' digest k
       (manifest_digest sha256 manifest) (Some ''shard-manifest-persisted''))) (\<lambda>_.
     seq_op (store_call c 5 (install_digest_reference sha256 (injected c 5) ''seals'' digest k
       (manifest_digest sha256 manifest) (Some ''shard-seal-published''))) (\<lambda>seal_result.
     lift_res (published_shard sha256 \<lparr>pd_index = x, pd_manifest = manifest,
       pd_index_result = index_result, pd_manifest_result = manifest_result,
       pd_seal_result = seal_result\<rparr>))))))))"

end
