(* ===== verification/Shard_Indexes.thy ===== *)
theory Shard_Indexes
  imports Publication_Shards
begin

section \<open>Shard indexes\<close>

text \<open>
  An index depends only on the set of its entries: the order in which entries arrive, repeated
  entries and the splitting of the work over several extensions make no difference.
\<close>

text \<open>No two entries of the dictionary share a position.\<close>

definition one_per_position :: "ShardIndexEntry list \<Rightarrow> bool" where
  "one_per_position es \<longleftrightarrow> distinct (map position_key es)"

definition entry_fits :: "string \<Rightarrow> int \<Rightarrow> int \<Rightarrow> ShardIndexEntry \<Rightarrow> bool" where
  "entry_fits digest shards k e \<longleftrightarrow> se_inventory_digest e = digest \<and>
     se_shard_count e = shards \<and> se_shard_index e = k"

definition compatible :: "ShardIndexEntry set \<Rightarrow> bool" where
  "compatible E \<longleftrightarrow> inj_on position_key E"

lemma find_position:
  assumes "one_per_position can"
  shows "find (\<lambda>x. position_key x = p) can = Some e \<longleftrightarrow> e \<in> set can \<and> position_key e = p"
  using assms by (induction can) (auto simp: one_per_position_def image_iff)

lemma find_position_None:
  "find (\<lambda>x. position_key x = p) can = None \<longleftrightarrow> p \<notin> position_key ` set can"
  by (auto simp: find_None_iff)

text \<open>One step of the loop, by the three things that can happen to a fitting entry.\<close>

lemma place_Cons:
  assumes "one_per_position can" and "entry_fits digest shards k e"
  shows "place_entries digest shards k can (e # es) =
    (if e \<in> set can then place_entries digest shards k can es
     else if position_key e \<in> position_key ` set can
     then Inl (s_error ''conflicting completions occupy one inventory attempt position'')
     else place_entries digest shards k (can @ [e]) es)"
proof (cases "find (\<lambda>x. position_key x = position_key e) can")
  case None
  then have "position_key e \<notin> position_key ` set can" using find_position_None by blast
  moreover from this have "e \<notin> set can" by blast
  ultimately show ?thesis using None assms(2) by (auto simp: entry_fits_def)
next
  case (Some x)
  then have x: "x \<in> set can" "position_key x = position_key e"
    using find_position [OF assms(1)] by auto
  have "e \<in> set can \<longleftrightarrow> x = e"
    using x assms(1) by (auto simp: one_per_position_def distinct_map dest: inj_onD)
  moreover have "position_key e \<in> position_key ` set can" using x by (metis imageI)
  ultimately show ?thesis using Some assms(2) by (simp add: entry_fits_def)
qed

lemma place_unfit:
  assumes "place_entries digest shards k can (e # es) = Inr out"
  shows "entry_fits digest shards k e"
  using assms by (auto simp: entry_fits_def)

lemma place_entries_Inr:
  assumes "one_per_position can"
  shows "(\<exists>out. place_entries digest shards k can es = Inr out) \<longleftrightarrow>
      (\<forall>e\<in>set es. entry_fits digest shards k e) \<and> compatible (set can \<union> set es)"
    and "place_entries digest shards k can es = Inr out \<Longrightarrow>
      set out = set can \<union> set es \<and> one_per_position out"
  using assms
proof (induction es arbitrary: can out)
  case Nil
  {
    case 1
    then show ?case by (simp add: compatible_def one_per_position_def distinct_map)
  next
    case 2
    then show ?case by simp
  }
next
  case (Cons e es)
  have step: "one_per_position (can @ [e])" if "position_key e \<notin> position_key ` set can"
    "one_per_position can" for can using that by (simp add: one_per_position_def)
  {
    case 1
    show ?case
    proof (cases "entry_fits digest shards k e")
      case False
      then have "\<nexists>out. place_entries digest shards k can (e # es) = Inr out" using place_unfit by blast
      then show ?thesis using False by simp
    next
      case True
      consider "e \<in> set can" | "e \<notin> set can" "position_key e \<in> position_key ` set can"
        | "e \<notin> set can" "position_key e \<notin> position_key ` set can" by blast
      then show ?thesis
      proof cases
        case 1
        then have "set can \<union> set (e # es) = set can \<union> set es" by auto
        then show ?thesis
          using Cons.IH(1) [OF "1.prems"] 1 True unfolding place_Cons [OF "1.prems" True] by simp
      next
        case 2
        then have "\<not> compatible (set can \<union> set (e # es))"
          unfolding compatible_def inj_on_def by auto
        then show ?thesis using 2 unfolding place_Cons [OF "1.prems" True] by simp
      next
        case 3
        have "set (can @ [e]) \<union> set es = set can \<union> set (e # es)" by simp
        then show ?thesis using Cons.IH(1) [OF step [OF 3(2) "1.prems"]] 3 True
          unfolding place_Cons [OF "1.prems" True] by simp
      qed
    qed
  next
    case 2
    then have fits: "entry_fits digest shards k e" using place_unfit by blast
    show ?case
      using 2(1) Cons.IH(2) [OF _ 2(2)] Cons.IH(2) [OF _ step [OF _ 2(2)]]
      unfolding place_Cons [OF 2(2) fits] by (auto split: if_splits)
  }
qed

lemma place_append:
  "place_entries digest shards k can (es @ ds) =
     and_then (place_entries digest shards k can es) (\<lambda>out. place_entries digest shards k out ds)"
proof (induction es arbitrary: can)
  case (Cons e es)
  then show ?case
    by (cases "find (\<lambda>x. position_key x = position_key e) can")
      (auto simp: and_then_def split: sum.splits)
qed simp

text \<open>The same dictionary in another order gives the same outcome, errors included.\<close>

lemma place_entries_cong:
  assumes "one_per_position can" and "one_per_position can'" and "set can = set can'"
  shows "(\<exists>e. place_entries digest shards k can es = Inl e \<and>
        place_entries digest shards k can' es = Inl e) \<or>
    (\<exists>out out'. place_entries digest shards k can es = Inr out \<and>
        place_entries digest shards k can' es = Inr out' \<and> set out = set out' \<and>
        one_per_position out \<and> one_per_position out')"
  using assms
proof (induction es arbitrary: can can')
  case (Cons e es)
  show ?case
  proof (cases "entry_fits digest shards k e")
    case False
    then show ?thesis by (auto simp: entry_fits_def and_then_def unless_def)
  next
    case True
    have snoc: "one_per_position (c @ [e])"
      if "position_key e \<notin> position_key ` set c" "one_per_position c" for c
      using that by (simp add: one_per_position_def)
    consider "e \<in> set can" | "e \<notin> set can" "position_key e \<in> position_key ` set can"
      | "e \<notin> set can" "position_key e \<notin> position_key ` set can" by blast
    then show ?thesis
    proof cases
      case 1
      then show ?thesis
        using Cons.IH [OF Cons.prems] Cons.prems(3)
        unfolding place_Cons [OF Cons.prems(1) True] place_Cons [OF Cons.prems(2) True] by simp
    next
      case 2
      then show ?thesis using Cons.prems(3)
        unfolding place_Cons [OF Cons.prems(1) True] place_Cons [OF Cons.prems(2) True] by simp
    next
      case 3
      then have "one_per_position (can @ [e])" "one_per_position (can' @ [e])"
        "set (can @ [e]) = set (can' @ [e])"
        using snoc Cons.prems by auto
      from Cons.IH [OF this] 3 Cons.prems(3) show ?thesis
        unfolding place_Cons [OF Cons.prems(1) True] place_Cons [OF Cons.prems(2) True] by simp
    qed
  qed
qed simp

subsection \<open>Canonical order\<close>

lemma entry_sort_key_position: "entry_sort_key x = entry_sort_key y \<Longrightarrow> position_key x = position_key y"
  by (simp add: entry_sort_key_def position_key_def)

lemma one_per_positionD:
  assumes "one_per_position es"
  shows "distinct es" and "inj_on entry_sort_key (set es)"
proof -
  have "inj_on position_key (set es)" and "distinct es"
    using assms by (simp_all add: one_per_position_def distinct_map)
  then show "distinct es" and "inj_on entry_sort_key (set es)"
    by (blast dest: entry_sort_key_position intro: inj_onI inj_onD)+
qed

lemma one_per_position_sort [simp]:
  "one_per_position (sort_key entry_sort_key es) \<longleftrightarrow> one_per_position es"
  by (simp add: one_per_position_def distinct_map)

lemma sort_key_set:
  assumes "distinct xs" and "distinct ys" and "set xs = set ys" and "inj_on f (set xs)"
  shows "sort_key f xs = sort_key f ys"
proof -
  have sorted: "sorted (map f (sort_key f zs))" for zs by simp
  have dist: "distinct (map f (sort_key f xs))" "distinct (map f (sort_key f ys))"
    using assms by (simp_all add: distinct_map)
  have "set (map f (sort_key f xs)) = set (map f (sort_key f ys))" using assms(3) by simp
  then have "map f (sort_key f xs) = map f (sort_key f ys)"
    using sorted_distinct_set_unique [OF sorted dist(1) sorted dist(2)] by blast
  moreover have "inj_on f (set (sort_key f xs) \<union> set (sort_key f ys))"
    using assms(3,4) by simp
  ultimately show ?thesis by (metis map_inj_on)
qed

lemma canonical_entries_unique:
  assumes "one_per_position xs" and "one_per_position ys" and "set xs = set ys"
  shows "sort_key entry_sort_key xs = sort_key entry_sort_key ys"
  using sort_key_set one_per_positionD [OF assms(1)] one_per_positionD [OF assms(2)] assms(3) by blast

lemma index_from_entries_Inr:
  assumes "index_from_entries sha256 inventory k entries = Inr x"
  shows "set (si_entries x) = set entries" and "one_per_position (si_entries x)"
    and "si_entries x = sort_key entry_sort_key (si_entries x)"
    and "si_inventory_digest x = inventory_digest sha256 inventory" and "si_shard_index x = k"
    and "\<forall>e\<in>set entries. entry_fits (inventory_digest sha256 inventory)
      (ei_shard_count inventory) k e"
proof -
  obtain can where can: "place_entries (inventory_digest sha256 inventory)
      (ei_shard_count inventory) k [] entries = Inr can"
    and x: "shard_index_of \<lparr>si_inventory_digest = inventory_digest sha256 inventory,
        si_shard_count = ei_shard_count inventory, si_shard_index = k,
        si_entries = sort_key entry_sort_key can, si_format_id = SHARD_INDEX_FORMAT_ID,
        si_format_version = SHARD_INDEX_FORMAT_VERSION\<rparr> = Inr x"
    using assms unfolding index_from_entries_def by auto
  have eq: "x = \<lparr>si_inventory_digest = inventory_digest sha256 inventory,
        si_shard_count = ei_shard_count inventory, si_shard_index = k,
        si_entries = sort_key entry_sort_key can, si_format_id = SHARD_INDEX_FORMAT_ID,
        si_format_version = SHARD_INDEX_FORMAT_VERSION\<rparr>"
    using x by (simp add: shard_index_of_def)
  have nil: "one_per_position []" by (simp add: one_per_position_def)
  have out: "set can = set entries" "one_per_position can"
    using place_entries_Inr(2) [OF nil can] by simp_all
  show "set (si_entries x) = set entries" "one_per_position (si_entries x)"
    "si_entries x = sort_key entry_sort_key (si_entries x)"
    "si_inventory_digest x = inventory_digest sha256 inventory" "si_shard_index x = k"
    using out by (simp_all add: eq sort_key_id_if_sorted)
  show "\<forall>e\<in>set entries. entry_fits (inventory_digest sha256 inventory)
      (ei_shard_count inventory) k e"
    using place_entries_Inr(1) [OF nil] can by blast
qed

text \<open>The whole construction as a function of the dictionary that the loop leaves.\<close>

definition sealed_index :: "(byte list \<Rightarrow> byte list) \<Rightarrow> ExecutionInventory \<Rightarrow> int \<Rightarrow>
    ShardIndexEntry list \<Rightarrow> synthesis_error + ShardIndex" where
  "sealed_index sha256 inventory k canonical = shard_index_of
     \<lparr>si_inventory_digest = inventory_digest sha256 inventory,
      si_shard_count = ei_shard_count inventory, si_shard_index = k,
      si_entries = sort_key entry_sort_key canonical,
      si_format_id = SHARD_INDEX_FORMAT_ID, si_format_version = SHARD_INDEX_FORMAT_VERSION\<rparr>"

lemma sealed_index_cong:
  assumes "one_per_position c" and "one_per_position c'" and "set c = set c'"
  shows "sealed_index sha256 inventory k c = sealed_index sha256 inventory k c'"
  using canonical_entries_unique [OF assms] by (simp add: sealed_index_def)

lemma index_from_entries_eq:
  assumes "is_uint32 k" and "k < ei_shard_count inventory"
  shows "index_from_entries sha256 inventory k es =
    and_then (place_entries (inventory_digest sha256 inventory) (ei_shard_count inventory) k [] es)
      (sealed_index sha256 inventory k)"
  using assms
  by (simp add: index_from_entries_def sealed_index_def [abs_def] s_uint32_def)

lemma index_from_entries_in_range:
  "index_from_entries sha256 inventory k es = Inr x \<Longrightarrow> is_uint32 k \<and> k < ei_shard_count inventory"
  by (auto simp: index_from_entries_def s_uint32_def)

text \<open>C16: An index is a function of the set of its entries. If
  \<^verbatim>\<open>ShardIndex.from_entries\<close> accepts some entries, it returns the same index for the
  same entries in any other order and with any repetitions, and the entries of that index are
  exactly these, in canonical order, one per inventory position.\<close>

theorem index_set_semantics:
  assumes "index_from_entries sha256 inventory k es = Inr x" and "set es' = set es"
  shows "index_from_entries sha256 inventory k es' = Inr x \<and> set (si_entries x) = set es \<and>
    distinct (map position_key (si_entries x)) \<and>
    sorted (map entry_sort_key (si_entries x))"
proof -
  note range = index_from_entries_in_range [OF assms(1)]
  let ?place = "place_entries (inventory_digest sha256 inventory) (ei_shard_count inventory) k []"
  obtain can where can: "?place es = Inr can" "sealed_index sha256 inventory k can = Inr x"
    using assms(1) range by (auto simp: index_from_entries_eq)
  have nil: "one_per_position []" by (simp add: one_per_position_def)
  obtain can' where can': "?place es' = Inr can'"
    using place_entries_Inr(1) [OF nil] can(1) assms(2) by metis
  have "sealed_index sha256 inventory k can' = Inr x"
    using sealed_index_cong [of can' can sha256 inventory k] can(2) assms(2)
      place_entries_Inr(2) [OF nil can(1)] place_entries_Inr(2) [OF nil can'] by simp
  then have "index_from_entries sha256 inventory k es' = Inr x"
    using range can' by (simp add: index_from_entries_eq)
  moreover note index_from_entries_Inr(1-3) [OF assms(1)]
  ultimately show ?thesis unfolding one_per_position_def by (metis sorted_sort_key)
qed

text \<open>Extending an index is rebuilding it. Extending the index of some entries by further
  entries has exactly the outcome, errors included, of building one index from all of them.\<close>

theorem index_incremental:
  assumes "index_from_entries sha256 inventory k es = Inr x"
  shows "extend_index sha256 inventory x ds = index_from_entries sha256 inventory k (es @ ds)"
proof -
  note range = index_from_entries_in_range [OF assms] and x = index_from_entries_Inr [OF assms]
  let ?place = "place_entries (inventory_digest sha256 inventory) (ei_shard_count inventory) k"
  have nil: "one_per_position []" by (simp add: one_per_position_def)
  obtain can where can: "?place [] es = Inr can"
    using assms range by (auto simp: index_from_entries_eq)
  then obtain can' where can': "?place [] (si_entries x) = Inr can'"
    using place_entries_Inr(1) [OF nil] x(1) by metis
  have "set can = set can'" "one_per_position can" "one_per_position can'"
    using place_entries_Inr(2) [OF nil can] place_entries_Inr(2) [OF nil can'] x(1) by simp_all
  from place_entries_cong [OF this(2,3,1), of "inventory_digest sha256 inventory"
      "ei_shard_count inventory" k ds]
  have "and_then (?place can' ds) (sealed_index sha256 inventory k) =
      and_then (?place can ds) (sealed_index sha256 inventory k)"
    by (elim disjE exE conjE) (simp_all, rule sealed_index_cong, simp_all)
  then show ?thesis
    using can can' range
    by (simp add: extend_index_def x(4,5) index_from_entries_eq place_append)
qed

end
