(* ===== verification/Publication_Facts.thy ===== *)
theory Publication_Facts
  imports Publication_Store Effects
begin

section \<open>Facts about the publication store\<close>

text \<open>
  The store invariant, the order in which a store may change, what an operation may find when it
  is interleaved with other processes, and the outcomes of the operations by case.
\<close>

subsection \<open>Invariant and order\<close>

definition same_files :: "PublicationStore \<Rightarrow> PublicationStore \<Rightarrow> bool" where
  "same_files s t \<longleftrightarrow> ps_objects t = ps_objects s \<and> ps_claims t = ps_claims s \<and>
     ps_references t = ps_references s"

definition pub_wf :: "(byte list \<Rightarrow> byte list) \<Rightarrow> PublicationStore \<Rightarrow> bool" where
  "pub_wf sha256 s \<longleftrightarrow>
     (\<forall>d b. ps_objects s d = Some b \<longrightarrow> hex (sha256 b) = d) \<and>
     (\<forall>c i k d b. ps_references s (c, i, k, d) = Some b \<longrightarrow> hex (sha256 b) = d) \<and>
     (\<forall>path b. ps_claims s path = Some b \<longrightarrow> (\<exists>w. is_hex_256 w \<and> b = claim_bytes w))"

definition pub_grows :: "PublicationStore \<Rightarrow> PublicationStore \<Rightarrow> bool" where
  "pub_grows s t \<longleftrightarrow> ps_objects s \<subseteq>\<^sub>m ps_objects t \<and> ps_claims s \<subseteq>\<^sub>m ps_claims t \<and>
     ps_references s \<subseteq>\<^sub>m ps_references t"

definition pub_keeps :: "(byte list \<Rightarrow> byte list) \<Rightarrow> PublicationStore \<Rightarrow> PublicationStore \<Rightarrow> bool" where
  "pub_keeps sha256 s t \<longleftrightarrow> (pub_wf sha256 s \<longrightarrow> pub_wf sha256 t \<and> pub_grows s t)"

text \<open>What other processes may do meanwhile: keep the invariant and every installed file, and never
  write a temporary file that is not theirs (they may remove it: \<^verbatim>\<open>recover\<close> does).\<close>

definition harmless :: "(byte list \<Rightarrow> byte list) \<Rightarrow> (PublicationStore \<Rightarrow> PublicationStore) \<Rightarrow> bool" where
  "harmless sha256 m \<longleftrightarrow> (\<forall>s. pub_keeps sha256 s (m s) \<and>
     (\<forall>n b. map_of (ps_temporaries (m s)) n = Some b \<longrightarrow> n \<in> fst ` set (ps_temporaries s) \<longrightarrow>
        map_of (ps_temporaries s) n = Some b))"

lemma pub_grows_refl [simp]: "pub_grows s s"
  and pub_grows_trans: "pub_grows s t \<Longrightarrow> pub_grows t u \<Longrightarrow> pub_grows s u"
  unfolding pub_grows_def by (auto intro: map_le_trans)

lemma pub_growsD:
  assumes "pub_grows s t"
  shows "ps_objects s d = Some b \<Longrightarrow> ps_objects t d = Some b"
    and "ps_claims s p = Some b \<Longrightarrow> ps_claims t p = Some b"
    and "ps_references s q = Some b \<Longrightarrow> ps_references t q = Some b"
  using assms unfolding pub_grows_def map_le_def by (metis domI)+

lemma same_files_keeps: "same_files s t \<Longrightarrow> pub_keeps sha256 s t"
  by (simp add: same_files_def pub_keeps_def pub_wf_def pub_grows_def)

interpretation publication: effect_order "pub_keeps sha256" for sha256
  by unfold_locales (auto simp: pub_keeps_def intro: pub_grows_trans)

interpretation filing: effect_order same_files
  by unfold_locales (auto simp: same_files_def)

lemma filing_publication: "filing.conserves m \<Longrightarrow> publication.conserves sha256 m"
  by (auto intro: same_files_keeps publication.conservesI dest: filing.conservesD)

lemma temporaries_filing [intro, simp]:
  "filing.conserves (create_temporary n)" "filing.conserves (write_temporary n b)"
  "filing.conserves (unlink_temporary n)" "filing.conserves (invoke call st)"
  "filing.conserves (invoke_stage call st')"
  by (auto intro!: filing.conservesI simp: create_temporary_def write_temporary_def
      unlink_temporary_def invoke_def invoke_stage_def same_files_def split: option.splits)

lemma harmlessD:
  assumes "harmless sha256 m" and "map_of (ps_temporaries (m s)) n = Some b"
    and "n \<in> fst ` set (ps_temporaries s)"
  shows "map_of (ps_temporaries s) n = Some b"
  using assms(1) [unfolded harmless_def, rule_format, of s] assms(2,3) by (elim conjE) metis

lemma invoke_publication [intro, simp]:
  "publication.conserves sha256 (invoke call st)"
  "publication.conserves sha256 (invoke_stage call st')"
  by (intro filing_publication, simp)+

lemma meanwhile_keeps: "harmless sha256 m \<Longrightarrow> publication.conserves sha256 (write_op m)"
  by (auto intro: publication.conserves_write simp: harmless_def)

subsection \<open>Installing a temporary file\<close>

text \<open>A temporary file that was created, written and left to other processes has its content, or
  is gone.\<close>

lemma created_temporary:
  assumes "create_temporary n s = (Inr (), t)"
  shows "map_of (ps_temporaries (snd (write_temporary n b t))) n = Some b"
    and "n \<in> fst ` set (ps_temporaries (snd (write_temporary n b t)))"
  using assms by (auto simp: create_temporary_def write_temporary_def split: if_splits)

lemma invoke_state: "invoke call st s = (r, t) \<Longrightarrow> t = s"
  and invoke_stage_state: "invoke_stage call st' s = (r, t) \<Longrightarrow> t = s"
  by (auto simp: invoke_def invoke_stage_def split: option.splits)

lemma seq_invoke: "seq_op (invoke call st) f s =
    (case pc_fault call st of None \<Rightarrow> f () s | Some e \<Rightarrow> (Inl e, s))"
  by (simp add: invoke_def seq_op_def split: option.splits)

lemma object_link_keeps:
  assumes "map_of (ps_temporaries s) tmp \<in> {None, Some payload}" and "hex (sha256 payload) = d"
  shows "pub_keeps sha256 s (snd (link_object tmp d s))"
  using assms
  by (auto simp: link_object_def pub_keeps_def pub_wf_def pub_grows_def map_le_def
      split: option.splits)

lemma claim_link_keeps:
  assumes "map_of (ps_temporaries s) tmp \<in> {None, Some (claim_bytes w)}" and "is_hex_256 w"
  shows "pub_keeps sha256 s (snd (link_claim tmp path s))"
  using assms
  by (auto simp: link_claim_def pub_keeps_def pub_wf_def pub_grows_def map_le_def
      split: option.splits)

lemma reference_link_keeps: "pub_keeps sha256 s (snd (link_reference d (c, i, k, d) s))"
  by (auto simp: link_reference_def pub_keeps_def pub_wf_def pub_grows_def map_le_def
      split: option.splits)

lemma staged:
  fixes b :: "byte list"
  assumes "create_temporary n s = (Inr (), t)" and "harmless sha256 m"
  defines "u \<equiv> m (snd (write_temporary n b t))"
  shows "pub_keeps sha256 s u" and "map_of (ps_temporaries u) n \<in> {None, Some b}"
proof -
  let ?w = "snd (write_temporary n b t)"
  have "same_files s t" using filing.conserves_apply [OF temporaries_filing(1) assms(1)] .
  moreover have "same_files t ?w" by (rule filing.conservesD) simp
  ultimately have "pub_keeps sha256 s ?w"
    using publication.trans same_files_keeps by blast
  moreover have "pub_keeps sha256 ?w u" using assms(2) by (simp add: harmless_def u_def)
  ultimately show "pub_keeps sha256 s u" by (rule publication.trans)
  show "map_of (ps_temporaries u) n \<in> {None, Some b}"
  proof (cases "map_of (ps_temporaries u) n")
    case (Some x)
    then have "map_of (ps_temporaries ?w) n = Some x"
      using harmlessD [OF assms(2)] created_temporary(2) [OF assms(1)] unfolding u_def by metis
    then show ?thesis using created_temporary(1) [OF assms(1), of b] Some by simp
  qed simp
qed

text \<open>Staging a file and then running what is safe whenever the file is intact or gone.\<close>

lemma staged_keeps:
  assumes "create_temporary n s = (Inr (), t)" and "harmless sha256 m"
    and "\<And>u. map_of (ps_temporaries u) n \<in> {None, Some b} \<Longrightarrow> pub_keeps sha256 u (snd (k u))"
  shows "pub_keeps sha256 s (snd (k (m (snd (write_temporary n b t)))))"
    and "pub_keeps sha256 s t" and "pub_keeps sha256 s (snd (write_temporary n b t))"
proof -
  note st = staged [OF assms(1,2), of b]
  show "pub_keeps sha256 s (snd (k (m (snd (write_temporary n b t)))))"
    using publication.trans [OF st(1) assms(3) [OF st(2)]] .
  show "pub_keeps sha256 s t"
    using filing.conserves_apply [OF temporaries_filing(1) assms(1)] by (rule same_files_keeps)
  moreover have "same_files t (snd (write_temporary n b t))" by (rule filing.conservesD) simp
  ultimately show "pub_keeps sha256 s (snd (write_temporary n b t))"
    using same_files_keeps publication.trans by blast
qed

lemma create_failed: "create_temporary n s = (Inl e, t) \<Longrightarrow> t = s"
  by (auto simp: create_temporary_def split: if_splits)

lemma write_temporary_run: "write_temporary n b t = (Inr (), snd (write_temporary n b t))"
  by (simp add: write_temporary_def)

lemma install_payload_keeps:
  assumes "harmless sha256 (pc_meanwhile call)" and "hex (sha256 payload) = d"
  shows "publication.conserves sha256 (install_payload sha256 call payload d)"
proof (rule publication.conservesI)
  fix s
  let ?tmp = "object_temporary call d"
  let ?link = "seq_op (link_object ?tmp d) (\<lambda>linked. if \<not> linked
      then seq_op (read_op (\<lambda>s. classify_existing sha256 (ps_objects s d)
             (relative_object_path d) payload d)) (\<lambda>result.
           seq_op (unlink_temporary ?tmp) (\<lambda>_. ret result))
      else seq_op (invoke call ''object-installed'') (\<lambda>_.
           seq_op (unlink_temporary ?tmp) (\<lambda>_.
           ret \<lparr>pr_digest = d, pr_relative_path = relative_object_path d,
             pr_disposition = Published\<rparr>)))"
  have tail: "pub_keeps sha256 u (snd (?link u))"
    if "map_of (ps_temporaries u) ?tmp \<in> {None, Some payload}" for u
  proof (rule publication.leq_seq)
    show "pub_keeps sha256 u (snd (link_object ?tmp d u))"
      by (rule object_link_keeps [of u ?tmp payload sha256 d, OF that assms(2)])
  qed (auto intro!: publication.conservesD filing_publication)
  show "pub_keeps sha256 s (snd (install_payload sha256 call payload d s))"
  proof (cases "create_temporary ?tmp s")
    case (Pair r t)
    show ?thesis
    proof (cases r)
      case (Inl e)
      then have "create_temporary ?tmp s = (Inl e, s)" using Pair create_failed by fastforce
      then show ?thesis by (simp add: install_payload_def Let_def publication.refl)
    next
      case (Inr x)
      then have c: "create_temporary ?tmp s = (Inr (), t)" using Pair by simp
      from staged_keeps [OF c assms(1) tail] write_temporary_run [of ?tmp payload t] c
      show ?thesis
        by (auto simp: install_payload_def Let_def seq_invoke split: option.splits)
    qed
  qed
qed

lemma install_claim_keeps:
  assumes "harmless sha256 (pc_meanwhile call)" and "is_hex_256 w"
  shows "publication.conserves sha256 (install_claim call path w st)"
proof (rule publication.conservesI)
  fix s
  let ?tmp = "claim_temporary call (snd path)"
  let ?link = "seq_op (link_claim ?tmp path) (\<lambda>linked. if \<not> linked
      then seq_op (read_claim path) (\<lambda>found.
           seq_op (unlink_temporary ?tmp) (\<lambda>_. ret (found = w)))
      else seq_op (invoke_stage call st) (\<lambda>_.
           seq_op (unlink_temporary ?tmp) (\<lambda>_. ret True)))"
  have tail: "pub_keeps sha256 u (snd (?link u))"
    if "map_of (ps_temporaries u) ?tmp \<in> {None, Some (claim_bytes w)}" for u
  proof (rule publication.leq_seq)
    show "pub_keeps sha256 u (snd (link_claim ?tmp path u))"
      by (rule claim_link_keeps [OF that assms(2)])
  qed (auto intro!: publication.conservesD filing_publication simp: read_claim_def)
  show "pub_keeps sha256 s (snd (install_claim call path w st s))"
  proof (cases "create_temporary ?tmp s")
    case (Pair r t)
    show ?thesis
    proof (cases r)
      case (Inl e)
      then have "create_temporary ?tmp s = (Inl e, s)" using Pair create_failed by fastforce
      then show ?thesis by (simp add: install_claim_def Let_def publication.refl)
    next
      case (Inr x)
      then have c: "create_temporary ?tmp s = (Inr (), t)" using Pair by simp
      from staged_keeps [OF c assms(1) tail] write_temporary_run [of ?tmp "claim_bytes w" t] c
      show ?thesis by (simp add: install_claim_def Let_def)
    qed
  qed
qed

subsection \<open>Every operation keeps the store\<close>

lemma publish_bytes_keeps:
  "harmless sha256 (pc_meanwhile call) \<Longrightarrow>
    publication.conserves sha256 (publish_bytes sha256 call payload e)"
  unfolding publish_bytes_def Let_def
  by (auto intro!: publication.conserves_seq install_payload_keeps split: option.splits)

lemma claim_publication_keeps:
  assumes "harmless sha256 (pc_meanwhile call)"
  shows "publication.conserves sha256 (claim_publication call kind d w st)"
proof (cases "is_hex_256 w")
  case True
  then show ?thesis unfolding claim_publication_def
    by (auto intro!: publication.conserves_seq install_claim_keeps assms split: option.splits)
next
  case False
  then have "snd (claim_publication call kind d w st s) = s" for s
    by (auto simp: claim_publication_def seq_op_def require_store_digest_def unless_def
        split: prod.splits sum.splits)
  then show ?thesis by (intro publication.conservesI) (simp add: publication.refl)
qed

lemma claim_and_publish_keeps:
  assumes "harmless sha256 (pc_meanwhile call)"
  shows "publication.conserves sha256
    (claim_and_publish_bytes sha256 call payload e kind w cst ost)"
  unfolding claim_and_publish_bytes_def Let_def
  using assms by (auto intro!: publication.conserves_seq publish_bytes_keeps meanwhile_keeps
      claim_publication_keeps)

lemma read_verified_keeps [intro, simp]: "filing.conserves (read_verified sha256 d)"
  and reference_exists_keeps [intro, simp]:
    "filing.conserves (reference_exists_verified sha256 c i k d)"
  by (auto simp: read_verified_def reference_exists_verified_def intro!: filing.conserves_seq)

lemma install_reference_keeps:
  assumes "harmless sha256 (pc_meanwhile call)"
  shows "publication.conserves sha256 (install_digest_reference sha256 call c i k d st)"
proof -
  have link: "publication.conserves sha256 (link_reference d (c, i, k, d))"
    by (rule publication.conservesI) (rule reference_link_keeps)
  have "reference_path c i k d = Inr (c, i, k, d) \<or> (\<exists>e. reference_path c i k d = Inl e)"
    by (cases "reference_path c i k d") (auto simp: reference_path_def)
  then show ?thesis unfolding install_digest_reference_def
  proof (elim disjE exE)
    assume p: "reference_path c i k d = Inr (c, i, k, d)"
    show "publication.conserves sha256 (seq_op (read_verified sha256 d) (\<lambda>payload.
      seq_op (lift_res (reference_path c i k d)) (\<lambda>path.
      seq_op (read_op (\<lambda>s. Inr (ps_references s path))) (\<lambda>existing. case existing of
        Some _ \<Rightarrow> lift_res (classify_existing sha256 existing (relative_reference_path path)
          payload d)
      | None \<Rightarrow> seq_op (write_op (pc_meanwhile call)) (\<lambda>_.
          seq_op (link_reference d path) (\<lambda>linked. if \<not> linked
          then read_op (\<lambda>s. classify_existing sha256 (ps_references s path)
                 (relative_reference_path path) payload d)
          else seq_op (invoke_stage call st) (\<lambda>_. ret \<lparr>pr_digest = d,
                 pr_relative_path = relative_reference_path path,
                 pr_disposition = Published\<rparr>)))))))"
      unfolding p seq_lift
      by (auto intro!: publication.conserves_seq link meanwhile_keeps assms
          filing_publication [OF read_verified_keeps] split: option.splits)
  qed (auto simp: seq_lift intro!: publication.conserves_seq
      filing_publication [OF read_verified_keeps])
qed

lemma recover_keeps: "filing.conserves (recover_store sha256)"
proof -
  have "filing.conserves (recover_loop sha256 names m n)" for names m n
    by (induction names arbitrary: m n) (auto simp: Let_def intro!: filing.conserves_seq)
  then show ?thesis by (auto simp: recover_store_def intro!: filing.conserves_seq)
qed

end
