(* ===== verification/Publication_Properties.thy ===== *)
theory Publication_Properties
  imports Publication_Facts
begin

section \<open>Properties of the publication store\<close>

text \<open>
  The store as a machine whose steps are the operations, run by any processes with injected crashes
  and interleaved with each other: stored bytes always match their names, published bytes are read
  back, a claim has one owner for ever, a retry after a crash yields the same disposition, and
  recovery removes exactly the temporary files.
\<close>

datatype PublicationOp =
    PublishBytes "byte list" "string option"
  | ClaimPublication string string string "string option"
  | ClaimAndPublish "byte list" string string string "string option" "string option"
  | InstallReference string string int string "string option"
  | RecoverStore

fun pub_effect :: "(byte list \<Rightarrow> byte list) \<Rightarrow> PublicationCall \<Rightarrow> PublicationOp \<Rightarrow>
    PublicationStore \<Rightarrow> PublicationStore" where
  "pub_effect sha256 call (PublishBytes payload e) s = snd (publish_bytes sha256 call payload e s)"
| "pub_effect sha256 call (ClaimPublication kind d w st) s =
     snd (claim_publication call kind d w st s)"
| "pub_effect sha256 call (ClaimAndPublish payload e kind w cst ost) s =
     snd (claim_and_publish_bytes sha256 call payload e kind w cst ost s)"
| "pub_effect sha256 call (InstallReference c i k d st) s =
     snd (install_digest_reference sha256 call c i k d st s)"
| "pub_effect sha256 call RecoverStore s = snd (recover_store sha256 s)"

definition pub_step :: "(byte list \<Rightarrow> byte list) \<Rightarrow> PublicationStore \<Rightarrow>
    PublicationCall \<times> PublicationOp \<Rightarrow> PublicationStore \<Rightarrow> bool" where
  "pub_step sha256 s ev t \<longleftrightarrow> harmless sha256 (pc_meanwhile (fst ev)) \<and>
     t = pub_effect sha256 (fst ev) (snd ev) s"

lemma pub_effect_keeps:
  "harmless sha256 (pc_meanwhile call) \<Longrightarrow> pub_keeps sha256 s (pub_effect sha256 call op s)"
  by (cases op) (auto intro!: publication.conservesD publish_bytes_keeps claim_publication_keeps
      claim_and_publish_keeps install_reference_keeps filing_publication [OF recover_keeps])

interpretation publishing: governed_machine "pub_step sha256" "pub_wf sha256" pub_grows
  for sha256
  using pub_effect_keeps
  by unfold_locales (auto simp: pub_step_def pub_keeps_def intro: pub_grows_trans)

lemma empty_wf: "pub_wf sha256 empty_publication_store"
  by (simp add: pub_wf_def empty_publication_store_def)

lemmas reachable_wf = publishing.run_inv [OF _ empty_wf]

subsection \<open>Claims of owners\<close>

lemma hex_256_ascii:
  assumes "is_hex_256 w" and "c \<in> set w" shows "(of_char c :: nat) < 128"
  using assms by (auto simp: is_hex_256_def list_all_iff hex_value_def Let_def split: if_splits)

lemma unat_byte: "n < 256 \<Longrightarrow> unat (of_nat n :: byte) = n"
  by (simp add: unat_of_nat take_bit_nat_eq_self)

lemma utf8_ascii:
  "(\<And>c. c \<in> set w \<Longrightarrow> (of_char c :: nat) < 128) \<Longrightarrow> utf8 w = map (\<lambda>c. of_nat (of_char c)) w"
  by (induction w) (auto simp: utf8_Cons utf8_char_def Let_def)

lemma decode_ascii_utf8:
  assumes "\<And>c. c \<in> set w \<Longrightarrow> (of_char c :: nat) < 128"
  shows "decode_ascii (utf8 w) = Some w"
proof -
  have "of_nat (of_char c) < (128 :: byte)" "char_of (unat (of_nat (of_char c) :: byte)) = c"
    if "c \<in> set w" for c
    using assms [OF that] by (simp_all add: word_less_nat_alt unat_byte)
  then have "map (\<lambda>c. char_of (unat (of_nat (of_char c) :: byte))) w = w"
    by (intro map_idI) simp
  then show ?thesis using \<open>\<And>c. c \<in> set w \<Longrightarrow> of_nat (of_char c) < (128 :: byte)\<close>
    by (simp add: utf8_ascii [OF assms] decode_ascii_def list_all_iff comp_def)
qed

lemma read_claim_bytes: "is_hex_256 w \<Longrightarrow> read_claim_owner (Some (claim_bytes w)) = Inr w"
proof -
  assume w: "is_hex_256 w"
  have "claim_bytes w = utf8 w @ [10]"
    by (simp add: claim_bytes_def utf8_append utf8_Cons utf8_char_def Let_def)
  moreover have "length (utf8 w) = 64"
    using w hex_256_ascii [OF w] by (simp add: utf8_ascii is_hex_256_def)
  ultimately show ?thesis
    using w decode_ascii_utf8 [OF hex_256_ascii [OF w]]
    by (simp add: read_claim_owner_def require_store_digest_def)
qed

lemma claim_bytes_inject: "claim_bytes w = claim_bytes w' \<longleftrightarrow> w = w'"
  by (simp add: claim_bytes_def)

lemma claimed_owner:
  assumes "pub_wf sha256 s" and "ps_claims s p = Some b"
  obtains w where "is_hex_256 w" "b = claim_bytes w" "read_claim_owner (Some b) = Inr w"
proof -
  obtain w where "is_hex_256 w" "b = claim_bytes w"
    using assms unfolding pub_wf_def by blast
  then show thesis using that read_claim_bytes by blast
qed

lemma install_claim_returned:
  assumes "install_claim call (kind, d) w st s = (Inr r, t)" and "pub_wf sha256 s"
    and "harmless sha256 (pc_meanwhile call)" and "is_hex_256 w"
  shows "\<exists>v. is_hex_256 v \<and> ps_claims t (kind, d) = Some (claim_bytes v) \<and> r = (v = w)"
proof -
  let ?tmp = "claim_temporary call (snd (kind, d))"
  obtain s1 l u where c: "create_temporary ?tmp s = (Inr (), s1)"
    and l: "link_claim ?tmp (kind, d)
      (pc_meanwhile call (snd (write_temporary ?tmp (claim_bytes w) s1))) = (Inr l, u)"
    and rest: "(if \<not> l
      then seq_op (read_claim (kind, d)) (\<lambda>found.
           seq_op (unlink_temporary ?tmp) (\<lambda>_. ret (found = w)))
      else seq_op (invoke_stage call st) (\<lambda>_.
           seq_op (unlink_temporary ?tmp) (\<lambda>_. ret True))) u = (Inr r, t)"
    using assms(1) unfolding install_claim_def Let_def
    by (auto simp: seq_op_Inr write_temporary_def)
  note st = staged [OF c assms(3), of "claim_bytes w"]
  let ?u = "pc_meanwhile call (snd (write_temporary ?tmp (claim_bytes w) s1))"
  have wf: "pub_wf sha256 ?u" using st(1) assms(2) by (simp add: pub_keeps_def)
  show ?thesis
  proof (cases l)
    case True
    then have "ps_claims u (kind, d) = Some (claim_bytes w)"
      using l st(2) by (auto simp: link_claim_def split: option.splits)
    moreover have "r" "ps_claims t = ps_claims u" using rest True
      by (auto simp: seq_op_Inr unlink_temporary_def dest: invoke_stage_state)
    ultimately show ?thesis using assms(4) by auto
  next
    case False
    then obtain b where b: "u = ?u" "ps_claims ?u (kind, d) = Some b"
      using l by (auto simp: link_claim_def split: option.splits)
    obtain v where "is_hex_256 v" "b = claim_bytes v" "read_claim_owner (Some b) = Inr v"
      by (rule claimed_owner [OF wf b(2)])
    then show ?thesis using rest False b
      by (auto simp: read_claim_def unlink_temporary_def)
  qed
qed

lemma claim_returned:
  assumes "claim_publication call kind d w st s = (Inr r, t)" and "pub_wf sha256 s"
    and "harmless sha256 (pc_meanwhile call)"
  shows "\<exists>v. is_hex_256 v \<and> ps_claims t (kind, d) = Some (claim_bytes v) \<and> r = (v = w)"
proof (cases "ps_claims s (kind, d)")
  case None
  then have "install_claim call (kind, d) w st s = (Inr r, t)" "is_hex_256 w"
    using assms(1) by (auto simp: claim_publication_def publication_claim_path_def
        require_store_digest_def require_store_token_def seq_op_Inr)
  then show ?thesis by (rule install_claim_returned [OF _ assms(2,3)])
next
  case (Some b)
  obtain v where "is_hex_256 v" "b = claim_bytes v" "read_claim_owner (Some b) = Inr v"
    by (rule claimed_owner [OF assms(2) Some])
  then show ?thesis using assms(1) Some
    by (auto simp: claim_publication_def publication_claim_path_def
        require_store_digest_def require_store_token_def seq_op_Inr)
qed

subsection \<open>The properties\<close>

text \<open>C14: Stored bytes always match their names. After any sequence of operations of any processes,
  interrupted by injected crashes and interleaved with each other, every object and every
  reference has bytes with the digest it is filed under, and every claim file names one owner; so
  reading an object never reports corruption.\<close>

theorem published_store_verifies:
  assumes "run_of (pub_step sha256) empty_publication_store evs s"
  shows "(\<forall>d b. ps_objects s d = Some b \<longrightarrow> hex (sha256 b) = d) \<and>
    (\<forall>c i k d b. ps_references s (c, i, k, d) = Some b \<longrightarrow> hex (sha256 b) = d) \<and>
    (\<forall>p b. ps_claims s p = Some b \<longrightarrow> (\<exists>w. read_claim_owner (Some b) = Inr w)) \<and>
    (\<forall>d m. read_verified sha256 d s \<noteq> (Inl (PublicationCorruptionError m), s))"
proof -
  have wf: "pub_wf sha256 s" using reachable_wf [OF assms] .
  have "\<exists>w. read_claim_owner (Some b) = Inr w" if "ps_claims s p = Some b" for p b
    using claimed_owner [OF wf that] by metis
  moreover have "read_verified sha256 d s \<noteq> (Inl (PublicationCorruptionError m), s)" for d m
    using wf by (auto simp: read_verified_def store_object_path_def require_store_digest_def seq_read
        pub_wf_def unless_def split: option.splits)
  ultimately show ?thesis using wf unfolding pub_wf_def by blast
qed

text \<open>A claim has one owner. Once a call has reported its claim as owned, then after any further
  operations every call that claims the same object is told that it owns it exactly when it names
  the same owner.\<close>

theorem publication_claim_exclusive:
  assumes "run_of (pub_step sha256) empty_publication_store evs s"
    and "harmless sha256 (pc_meanwhile call)"
    and "claim_publication call kind d w st s = (Inr True, t)"
    and "run_of (pub_step sha256) t evs' u"
    and "harmless sha256 (pc_meanwhile call')"
    and "claim_publication call' kind d w' st' u = (Inr r, v)"
  shows "r = (w' = w)"
proof -
  have wf: "pub_wf sha256 s" using reachable_wf [OF assms(1)] .
  then have "pub_wf sha256 t"
    using publication.conserves_apply [OF claim_publication_keeps [OF assms(2)] assms(3)]
    by (simp add: pub_keeps_def)
  then have u: "pub_wf sha256 u" "pub_grows t u"
    using publishing.run_inv publishing.run_evolves assms(4) by blast+
  have "ps_claims t (kind, d) = Some (claim_bytes w)"
    using claim_returned [OF assms(3) wf assms(2)] by auto
  then have "ps_claims u (kind, d) = Some (claim_bytes w)" by (rule pub_growsD(2) [OF u(2)])
  moreover have "pub_grows u v"
    using publication.conserves_apply [OF claim_publication_keeps [OF assms(5)] assms(6)] u(1)
    by (simp add: pub_keeps_def)
  ultimately have "ps_claims v (kind, d) = Some (claim_bytes w)" by (rule pub_growsD(2) [rotated])
  then show ?thesis using claim_returned [OF assms(6) u(1) assms(5)]
    by (auto simp: claim_bytes_inject)
qed

lemma classify_returned:
  "classify_existing sha256 content rel payload d = Inr r \<longleftrightarrow>
     content = Some payload \<and> hex (sha256 payload) = d \<and>
     r = \<lparr>pr_digest = d, pr_relative_path = rel, pr_disposition = ExistingIdentical\<rparr>"
  by (auto simp: classify_existing_def split: option.splits)

lemma install_payload_returned:
  assumes "install_payload sha256 call payload d s = (Inr r, t)"
    and "harmless sha256 (pc_meanwhile call)"
  shows "pr_digest r = d \<and> ps_objects t d = Some payload"
proof -
  let ?tmp = "object_temporary call d"
  obtain s1 l u where c: "create_temporary ?tmp s = (Inr (), s1)"
    and l: "link_object ?tmp d
      (pc_meanwhile call (snd (write_temporary ?tmp payload s1))) = (Inr l, u)"
    and rest: "(if \<not> l
      then seq_op (read_op (\<lambda>s. classify_existing sha256 (ps_objects s d)
             (relative_object_path d) payload d)) (\<lambda>result.
           seq_op (unlink_temporary ?tmp) (\<lambda>_. ret result))
      else seq_op (invoke call ''object-installed'') (\<lambda>_.
           seq_op (unlink_temporary ?tmp) (\<lambda>_.
           ret \<lparr>pr_digest = d, pr_relative_path = relative_object_path d,
             pr_disposition = Published\<rparr>))) u = (Inr r, t)"
    using assms(1) unfolding install_payload_def Let_def
    by (auto simp: seq_op_Inr write_temporary_def dest!: invoke_state)
  note st = staged [OF c assms(2), of payload]
  show ?thesis
  proof (cases l)
    case True
    then have "ps_objects u d = Some payload"
      using l st(2) by (auto simp: link_object_def split: option.splits)
    then show ?thesis using rest True
      by (auto simp: seq_op_Inr unlink_temporary_def dest!: invoke_state)
  next
    case False
    then show ?thesis using rest
      by (auto simp: seq_op_Inr unlink_temporary_def classify_returned)
  qed
qed

lemma publish_returned_object:
  assumes "publish_bytes sha256 call payload e s = (Inr r, t)"
    and "harmless sha256 (pc_meanwhile call)"
  shows "pr_digest r = hex (sha256 payload)" and "is_hex_256 (hex (sha256 payload))"
    and "ps_objects t (hex (sha256 payload)) = Some payload"
proof -
  let ?d = "hex (sha256 payload)"
  have hex: "is_hex_256 ?d" and "(case ps_objects s ?d of
      Some _ \<Rightarrow> lift_res (classify_existing sha256 (ps_objects s ?d) (relative_object_path ?d)
        payload ?d)
    | None \<Rightarrow> install_payload sha256 call payload ?d) s = (Inr r, t)"
    using assms(1) by (auto simp: publish_bytes_def Let_def seq_op_Inr store_object_path_def
        require_store_digest_def split: option.splits)
  then have "pr_digest r = ?d \<and> ps_objects t ?d = Some payload"
    using install_payload_returned [OF _ assms(2)]
    by (auto simp: classify_returned split: option.splits)
  then show "pr_digest r = ?d" "ps_objects t ?d = Some payload" "is_hex_256 ?d" using hex by simp_all
qed

text \<open>What was published is read back. When a publication returns, on whichever branch, then
  after any further operations, reading the digest it returned yields exactly the published
  bytes.\<close>

theorem publish_then_read:
  assumes "run_of (pub_step sha256) empty_publication_store evs s"
    and "harmless sha256 (pc_meanwhile call)"
    and "publish_bytes sha256 call payload e s = (Inr r, t)"
    and "run_of (pub_step sha256) t evs' u"
  shows "pr_digest r = hex (sha256 payload) \<and> read_verified sha256 (pr_digest r) u = (Inr payload, u)"
proof -
  note p = publish_returned_object [OF assms(3,2)]
  have "pub_wf sha256 t"
    using publication.conserves_apply [OF publish_bytes_keeps [OF assms(2)] assms(3)]
      reachable_wf [OF assms(1)] by (simp add: pub_keeps_def)
  then have "pub_grows t u" using publishing.run_evolves assms(4) by blast
  then have "ps_objects u (hex (sha256 payload)) = Some payload" using pub_growsD(1) p(3) by blast
  then show ?thesis using p
    by (simp add: read_verified_def store_object_path_def require_store_digest_def seq_read)
qed

definition undisturbed :: "PublicationCall \<Rightarrow> bool" where
  "undisturbed call \<longleftrightarrow> pc_fault call = (\<lambda>_. None) \<and> pc_meanwhile call = id"

lemma install_payload_undisturbed:
  assumes "undisturbed call" and "ps_objects s d = None"
    and "object_temporary call d \<notin> fst ` set (ps_temporaries s)"
  shows "\<exists>t. install_payload sha256 call payload d s = (Inr \<lparr>pr_digest = d,
      pr_relative_path = relative_object_path d, pr_disposition = Published\<rparr>, t) \<and>
    ps_objects t = (ps_objects s)(d \<mapsto> payload)"
  using assms
  by (auto simp: install_payload_def Let_def create_temporary_def seq_invoke undisturbed_def
      write_temporary_def link_object_def unlink_temporary_def)

lemma publish_undisturbed:
  assumes "undisturbed call" and "d = hex (sha256 payload)" and "is_hex_256 d"
    and "ps_objects s d \<in> {None, Some payload}"
    and "object_temporary call d \<notin> fst ` set (ps_temporaries s)"
  shows "\<exists>r t. publish_bytes sha256 call payload (Some d) s = (Inr r, t) \<and>
    pr_digest r = d \<and> pr_relative_path r = relative_object_path d \<and> ps_objects t d = Some payload"
proof (cases "ps_objects s d")
  case None
  then show ?thesis
    using install_payload_undisturbed [OF assms(1) None assms(5), of sha256 payload] assms(2,3)
    by (auto simp: publish_bytes_def Let_def seq_read check_expected_def store_object_path_def
        require_store_digest_def)
next
  case (Some b)
  then show ?thesis using assms(2-4)
    by (auto simp: publish_bytes_def Let_def seq_read check_expected_def store_object_path_def
        require_store_digest_def classify_existing_def)
qed

text \<open>A crashed publication can be repeated. When a crash has left a claim of some owner on a
  reachable store, with or without the object, then an undisturbed retry by any process returns;
  the object is then stored, and the disposition that goes into the receipt is
  \<^verbatim>\<open>PUBLISHED\<close> exactly for the owner of the claim, so it is the same for every retry.\<close>

theorem retry_after_crash:
  assumes "run_of (pub_step sha256) empty_publication_store evs s"
    and "ps_claims s (kind, d) = Some (claim_bytes w)"
    and "d = hex (sha256 payload)" and "is_hex_256 d" and "is_store_token kind"
    and "is_hex_256 w" and "is_hex_256 w'"
    and "ps_objects s d \<in> {None, Some payload}"
    and "undisturbed call" and "object_temporary call d \<notin> fst ` set (ps_temporaries s)"
  shows "\<exists>t. claim_and_publish_bytes sha256 call payload d kind w' cst ost s =
      (Inr \<lparr>pr_digest = d, pr_relative_path = relative_object_path d,
         pr_disposition = (if w' = w then Published else ExistingIdentical)\<rparr>, t) \<and>
    ps_objects t d = Some payload"
proof -
  let ?quiet = "call\<lparr>pc_fault := \<lambda>_. None\<rparr>"
  have quiet: "undisturbed ?quiet" "object_temporary ?quiet d = object_temporary call d"
    using assms(9) by (simp_all add: undisturbed_def object_temporary_def)
  obtain r t where p: "publish_bytes sha256 ?quiet payload (Some d) s = (Inr r, t)"
    and r: "pr_digest r = d" "pr_relative_path r = relative_object_path d"
      "ps_objects t d = Some payload"
    using publish_undisturbed [of ?quiet d sha256 payload s] assms(3,4,8,10) quiet by metis
  have "claim_publication call kind d w' cst s = (Inr (w' = w), s)"
    using assms(2,4-7) read_claim_bytes [OF assms(6)]
    by (auto simp: claim_publication_def publication_claim_path_def require_store_digest_def
        require_store_token_def seq_read seq_op_def)
  then have "claim_and_publish_bytes sha256 call payload d kind w' cst ost s =
      (Inr (r\<lparr>pr_disposition := if w' = w then Published else ExistingIdentical\<rparr>), t)"
    using assms(2-5,9) p
    by (simp add: claim_and_publish_bytes_def Let_def check_expected_def require_store_digest_def
        publication_claim_path_def require_store_token_def store_object_path_def seq_read
        undisturbed_def invoke_stage_def invoke_def split: option.splits)
  then show ?thesis using r by (metis PublicationResult.surjective PublicationResult.update_convs(3)
        old.unit.exhaust)
qed

lemma length_filter_sort [simp]: "length (filter P (sort xs)) = length (filter P xs)"
  by (metis mset_filter mset_sort size_mset)

text \<open>Recovery of a reachable store always returns. It removes every temporary file, verifies as
  many objects as there are temporary files of installed objects, and changes no other file.\<close>

theorem recover_store_clears:
  assumes "run_of (pub_step sha256) empty_publication_store evs s"
  shows "recover_store sha256 s =
    (Inr \<lparr>rr_temporary_objects_removed = length (ps_temporaries s),
       rr_authoritative_objects_verified = length (filter (\<lambda>n.
         is_hex_256 (takeWhile (\<lambda>c. c \<noteq> CHR ''.'') n) \<and>
         ps_objects s (takeWhile (\<lambda>c. c \<noteq> CHR ''.'') n) \<noteq> None)
         (map fst (ps_temporaries s)))\<rparr>,
     s\<lparr>ps_temporaries := []\<rparr>)"
proof -
  let ?auth = "\<lambda>s n. is_hex_256 (takeWhile (\<lambda>c. c \<noteq> CHR ''.'') n) \<and>
    ps_objects s (takeWhile (\<lambda>c. c \<noteq> CHR ''.'') n) \<noteq> None"
  have loop: "recover_loop sha256 names m k s = (Inr \<lparr>rr_temporary_objects_removed = m + length names,
      rr_authoritative_objects_verified = k + length (filter (?auth s) names)\<rparr>,
      s\<lparr>ps_temporaries := filter (\<lambda>p. fst p \<notin> set names) (ps_temporaries s)\<rparr>)"
    if "pub_wf sha256 s" for names m k s
    using that
  proof (induction names arbitrary: m k s)
    case (Cons n names)
    let ?t = "s\<lparr>ps_temporaries := filter (\<lambda>p. fst p \<noteq> n) (ps_temporaries s)\<rparr>"
    have "pub_wf sha256 ?t" using Cons.prems by (simp add: pub_wf_def)
    note IH = Cons.IH [OF this]
    have "hex (sha256 b) = d" if "ps_objects s d = Some b" for d b
      using Cons.prems that by (simp add: pub_wf_def)
    then show ?case
      by (auto simp: Let_def seq_read unlink_temporary_def IH read_verified_def store_object_path_def
          require_store_digest_def case_prod_unfold conj_commute split: option.splits)
  qed simp
  show ?thesis
    using loop [OF reachable_wf [OF assms], of "sort (map fst (ps_temporaries s))" 0 0]
    by (auto simp: recover_store_def seq_read filter_empty_conv filter_map)
qed

end
