(* ===== verification/Shard_Sealing.thy ===== *)
theory Shard_Sealing
  imports Shard_Indexes Publication_Properties
begin

section \<open>Sealed shards\<close>

text \<open>
  What the coordinator has stored when it returns, whatever other processes did between and inside
  its store calls, and what happens when it is called again.
\<close>

subsection \<open>Objects and references that stay\<close>

definition stored :: "PublicationStore \<Rightarrow> string \<Rightarrow> byte list \<Rightarrow> bool" where
  "stored s d b \<longleftrightarrow> is_hex_256 d \<and> ps_objects s d = Some b"

definition referenced :: "PublicationStore \<Rightarrow> string \<Rightarrow> string \<Rightarrow> int \<Rightarrow> string \<Rightarrow> bool" where
  "referenced s category inventory k d \<longleftrightarrow>
     reference_path category inventory k d = Inr (category, inventory, k, d) \<and>
     ps_references s (category, inventory, k, d) \<noteq> None"

lemma stored_grows: "pub_grows s t \<Longrightarrow> stored s d b \<Longrightarrow> stored t d b"
  using pub_growsD(1) by (auto simp: stored_def)

lemma referenced_grows: "pub_grows s t \<Longrightarrow> referenced s c i k d \<Longrightarrow> referenced t c i k d"
  using pub_growsD(3) by (fastforce simp: referenced_def)

lemma stored_read: "pub_wf sha256 s \<Longrightarrow> stored s d b \<Longrightarrow> read_verified sha256 d s = (Inr b, s)"
  by (auto simp: stored_def pub_wf_def read_verified_def store_object_path_def
      require_store_digest_def seq_read)

lemma referenced_exists:
  "pub_wf sha256 s \<Longrightarrow> referenced s c i k d \<Longrightarrow>
    reference_exists_verified sha256 c i k d s = (Inr True, s)"
  by (auto simp: referenced_def pub_wf_def reference_exists_verified_def seq_read)

lemma read_matches_returned:
  "read_matches sha256 d b m s = (Inr u, t) \<Longrightarrow> t = s \<and> stored s d b"
  by (auto simp: read_matches_def stored_def seq_op_Inr read_verified_def store_object_path_def
      require_store_digest_def split: option.splits)

lemma publish_returned_stored:
  "publish_bytes sha256 call payload e s = (Inr r, t) \<Longrightarrow> harmless sha256 (pc_meanwhile call) \<Longrightarrow>
    stored t (hex (sha256 payload)) payload"
  using publish_returned_object by (simp add: stored_def)

lemma reference_path_same: "reference_path c i k d = Inr p \<Longrightarrow> p = (c, i, k, d)"
  by (auto simp: reference_path_def)

lemma link_reference_returned:
  "link_reference d p s = (Inr linked, u) \<Longrightarrow> linked \<Longrightarrow> ps_references u p \<noteq> None"
  by (auto simp: link_reference_def split: option.splits)

lemma install_reference_returned:
  assumes "install_digest_reference sha256 call c i k d st s = (Inr r, t)"
  shows "referenced t c i k d"
proof (cases "reference_path c i k d")
  case (Inl e)
  then show ?thesis using assms by (auto simp: install_digest_reference_def seq_op_Inr)
next
  case (Inr p)
  then have path: "reference_path c i k d = Inr (c, i, k, d)" using reference_path_same by blast
  have "ps_references t (c, i, k, d) \<noteq> None"
  proof (cases "ps_references s (c, i, k, d)")
    case None
    then show ?thesis
      using assms unfolding install_digest_reference_def path seq_lift
      by (auto simp: seq_op_Inr read_verified_def classify_returned
          dest!: invoke_stage_state link_reference_returned split: if_splits)
  next
    case (Some b)
    then show ?thesis
      using assms unfolding install_digest_reference_def path seq_lift
      by (auto simp: seq_op_Inr read_verified_def)
  qed
  then show ?thesis using path by (simp add: referenced_def)
qed

subsection \<open>The calls of the coordinator\<close>

definition coordinator_harmless :: "(byte list \<Rightarrow> byte list) \<Rightarrow> CoordinatorCall \<Rightarrow> bool" where
  "coordinator_harmless sha256 c \<longleftrightarrow>
     (\<forall>k. harmless sha256 (pc_meanwhile (co_call c k)) \<and> harmless sha256 (co_before c k))"

lemma call_meanwhile [simp]:
  "pc_meanwhile (injected c k) = pc_meanwhile (co_call c k)"
  "pc_meanwhile (uninjected c k) = pc_meanwhile (co_call c k)"
  by (simp_all add: injected_def uninjected_def)

lemma store_call_keeps [intro]:
  assumes "coordinator_harmless sha256 c" and "publication.conserves sha256 m"
  shows "publication.conserves sha256 (store_call c k m)"
  using assms meanwhile_keeps unfolding store_call_def coordinator_harmless_def by blast

lemma store_call_returned:
  "store_call c k m s = (Inr r, t) \<Longrightarrow> m (co_before c k s) = (Inr r, t)"
  by (simp add: store_call_def)

lemma read_matches_keeps [intro, simp]: "filing.conserves (read_matches sha256 d b m)"
  unfolding read_matches_def by (intro filing.conserves_seq read_verified_keeps filing.conserves_pure)

lemma check_receipts_keeps [intro, simp]: "filing.conserves (check_receipts_stored sha256 rs)"
  by (induction rs) (auto simp del: op_simps)

lemma check_publications_keeps [intro, simp]:
  "filing.conserves (check_publications_stored sha256 ps)"
  by (induction ps) (auto simp del: op_simps)

lemma seal_keeps [intro, simp]: "filing.conserves (seal sha256 inventory x ps)"
  unfolding seal_def
  by (intro filing.conserves_seq filing.conserves_pure read_matches_keeps reference_exists_keeps
      check_publications_keeps)

lemma check_receipts_returned:
  "check_receipts_stored sha256 rs s = (Inr u, t) \<Longrightarrow> t = s \<and>
    (\<forall>r\<in>set rs. stored s (receipt_digest sha256 r) (receipt_bytes r))"
  by (induction rs) (auto simp: seq_op_Inr dest!: read_matches_returned)

definition completion_stored ::
  "(byte list \<Rightarrow> byte list) \<Rightarrow> PublicationStore \<Rightarrow> PublishedCompletion \<Rightarrow> bool" where
  "completion_stored sha256 s p \<longleftrightarrow>
     stored s (envelope_digest sha256 (pc_envelope p)) (envelope_bytes (pc_envelope p)) \<and>
     stored s (reference_digest sha256 (pc_reference p)) (reference_bytes (pc_reference p)) \<and>
     (\<forall>r\<in>set (pc_receipts p). stored s (receipt_digest sha256 r) (receipt_bytes r))"

lemma completion_stored_grows:
  "pub_grows s t \<Longrightarrow> completion_stored sha256 s p \<Longrightarrow> completion_stored sha256 t p"
  by (auto simp: completion_stored_def intro: stored_grows)

lemma check_publications_returned:
  "check_publications_stored sha256 ps s = (Inr u, t) \<Longrightarrow> t = s \<and>
    (\<forall>p\<in>set ps. completion_stored sha256 s p)"
  by (induction ps) (auto simp: seq_op_Inr completion_stored_def
      dest!: read_matches_returned check_receipts_returned)

lemma sealed_manifest_same: "sealed_manifest m = Inr m' \<Longrightarrow> m' = m"
  unfolding sealed_manifest_def checked_Inr by blast

lemma seal_returned:
  assumes "seal sha256 inventory x ps s = (Inr m, t)"
  shows "t = s \<and> m = manifest_of sha256 inventory x \<and>
    (\<forall>p\<in>set ps. completion_stored sha256 s p)"
  using assms unfolding seal_def
  by (auto simp: seq_op_Inr reference_exists_verified_def
      dest!: read_matches_returned check_publications_returned sealed_manifest_same)

lemma coordinator_calls:
  assumes "coordinator_harmless sha256 c"
  shows "harmless sha256 (pc_meanwhile (injected c k))"
    and "harmless sha256 (pc_meanwhile (uninjected c k))"
  using assms by (simp_all add: coordinator_harmless_def)

subsection \<open>All processes\<close>

text \<open>The machine of the publication layer: any process runs an operation of the store or of the
  coordinator, with faults and with interference inside it.\<close>

datatype ShardOp =
    StoreOp PublicationCall PublicationOp
  | PublishCompletion CoordinatorCall ExecutionInventory AttemptCompletion string
  | PublishShard CoordinatorCall ExecutionInventory int "PublishedCompletion list"

fun shard_effect :: "(byte list \<Rightarrow> byte list) \<Rightarrow> ShardOp \<Rightarrow> PublicationStore \<Rightarrow> PublicationStore" where
  "shard_effect sha256 (StoreOp call op) s = pub_effect sha256 call op s"
| "shard_effect sha256 (PublishCompletion c inventory completion run_id) s =
     snd (publish_attempt_completion sha256 c inventory completion run_id s)"
| "shard_effect sha256 (PublishShard c inventory k ps) s =
     snd (publish_shard sha256 c inventory k ps s)"

fun shard_harmless :: "(byte list \<Rightarrow> byte list) \<Rightarrow> ShardOp \<Rightarrow> bool" where
  "shard_harmless sha256 (StoreOp call op) = harmless sha256 (pc_meanwhile call)"
| "shard_harmless sha256 (PublishCompletion c inventory completion run_id) =
     coordinator_harmless sha256 c"
| "shard_harmless sha256 (PublishShard c inventory k ps) = coordinator_harmless sha256 c"

definition shard_step :: "(byte list \<Rightarrow> byte list) \<Rightarrow> PublicationStore \<Rightarrow> ShardOp \<Rightarrow>
    PublicationStore \<Rightarrow> bool" where
  "shard_step sha256 s op t \<longleftrightarrow> shard_harmless sha256 op \<and> t = shard_effect sha256 op s"

lemma coordinator_invoke_keeps: "publication.conserves sha256 (coordinator_invoke c st)"
  by (auto simp: coordinator_invoke_def split: option.splits)

lemma publish_half_keeps:
  assumes "coordinator_harmless sha256 c"
  shows "publication.conserves sha256
    (publish_with_receipt sha256 c k previous run_id inventory key kind d payload stage)"
  unfolding publish_with_receipt_def publish_or_reuse_receipt_def
  by (intro publication.conserves_seq store_call_keeps assms claim_and_publish_keeps
      publish_bytes_keeps coordinator_calls [OF assms] coordinator_invoke_keeps
      publication.conserves_pure)

lemma publish_completion_keeps:
  assumes "coordinator_harmless sha256 c"
  shows "publication.conserves sha256
    (publish_attempt_completion sha256 c inventory completion run_id)"
  unfolding publish_attempt_completion_def Let_def
  by (intro publication.conserves_seq publish_half_keeps assms publication.conserves_pure)

lemma publish_shard_keeps:
  assumes "coordinator_harmless sha256 c"
  shows "publication.conserves sha256 (publish_shard sha256 c inventory k ps)"
  unfolding publish_shard_def Let_def
  by (intro publication.conserves_seq store_call_keeps assms install_reference_keeps
      publish_bytes_keeps coordinator_calls [OF assms] filing_publication [OF seal_keeps]
      publication.conserves_pure)

lemma shard_effect_keeps: "shard_harmless sha256 op \<Longrightarrow> pub_keeps sha256 s (shard_effect sha256 op s)"
  by (cases op) (auto intro: pub_effect_keeps publication.conservesD
      publish_completion_keeps publish_shard_keeps)

interpretation sharding: governed_machine "shard_step sha256" "pub_wf sha256" pub_grows
  for sha256
  using shard_effect_keeps
  by unfold_locales (auto simp: shard_step_def pub_keeps_def intro: pub_grows_trans)

lemmas sharded_wf = sharding.run_inv [OF _ empty_wf]

subsection \<open>Publishing a shard\<close>

lemma hex_bytes_digest [simp]:
  "hex (sha256 (index_bytes x)) = index_digest sha256 x"
  "hex (sha256 (manifest_bytes m)) = manifest_digest sha256 m"
  "hex (sha256 (envelope_bytes e)) = envelope_digest sha256 e"
  "hex (sha256 (reference_bytes f)) = reference_digest sha256 f"
  "hex (sha256 (receipt_bytes r)) = receipt_digest sha256 r"
  by (simp_all add: index_bytes_def index_digest_def manifest_bytes_def manifest_digest_def
      envelope_bytes_def envelope_digest_def reference_bytes_def reference_digest_def
      receipt_bytes_def receipt_digest_def json_digest_def)

lemma published_shard_same: "published_shard sha256 d = Inr d' \<Longrightarrow> d' = d"
  by (simp add: published_shard_def)

text \<open>Each store call of \<^verbatim>\<open>publish_shard\<close>: what it leaves, and that nothing is lost.\<close>

lemma publish_call:
  assumes "coordinator_harmless sha256 c"
    and "store_call c k (publish_bytes sha256 (uninjected c k) payload e) s = (Inr r, t)"
  shows "pub_keeps sha256 s t" and "stored t (hex (sha256 payload)) payload"
proof -
  have "publication.conserves sha256 (store_call c k (publish_bytes sha256 (uninjected c k) payload e))"
    using assms(1) coordinator_calls [OF assms(1)] by (intro store_call_keeps publish_bytes_keeps)
  then show "pub_keeps sha256 s t" using assms(2) by (rule publication.conserves_apply)
  show "stored t (hex (sha256 payload)) payload"
    using publish_returned_stored store_call_returned [OF assms(2)] coordinator_calls [OF assms(1)]
    by blast
qed

lemma reference_call:
  assumes "coordinator_harmless sha256 c"
    and "store_call c k (install_digest_reference sha256 (injected c k) cat i n d st) s = (Inr r, t)"
  shows "pub_keeps sha256 s t" and "referenced t cat i n d"
proof -
  have "publication.conserves sha256
      (store_call c k (install_digest_reference sha256 (injected c k) cat i n d st))"
    using assms(1) coordinator_calls [OF assms(1)]
    by (intro store_call_keeps install_reference_keeps)
  then show "pub_keeps sha256 s t" using assms(2) by (rule publication.conserves_apply)
  show "referenced t cat i n d"
    using install_reference_returned store_call_returned [OF assms(2)] by blast
qed

lemma seal_call:
  assumes "coordinator_harmless sha256 c"
    and "store_call c k (seal sha256 inventory x ps) s = (Inr m, t)"
  shows "pub_keeps sha256 s t" and "m = manifest_of sha256 inventory x"
    and "\<forall>p\<in>set ps. completion_stored sha256 t p"
proof -
  have "publication.conserves sha256 (store_call c k (seal sha256 inventory x ps))"
    using assms(1) filing_publication [OF seal_keeps] by (intro store_call_keeps)
  then show "pub_keeps sha256 s t" using assms(2) by (rule publication.conserves_apply)
  show "m = manifest_of sha256 inventory x" "\<forall>p\<in>set ps. completion_stored sha256 t p"
    using seal_returned [OF store_call_returned [OF assms(2)]] by blast+
qed

text \<open>What a returned shard leaves in the store.\<close>

definition shard_durable :: "(byte list \<Rightarrow> byte list) \<Rightarrow> PublicationStore \<Rightarrow> ExecutionInventory \<Rightarrow>
    int \<Rightarrow> PublishedCompletion list \<Rightarrow> PublishedShard \<Rightarrow> bool" where
  "shard_durable sha256 s inventory k ps d \<longleftrightarrow>
     stored s (index_digest sha256 (pd_index d)) (index_bytes (pd_index d)) \<and>
     stored s (manifest_digest sha256 (pd_manifest d)) (manifest_bytes (pd_manifest d)) \<and>
     referenced s ''indexes'' (inventory_digest sha256 inventory) k
       (index_digest sha256 (pd_index d)) \<and>
     referenced s ''manifests'' (inventory_digest sha256 inventory) k
       (manifest_digest sha256 (pd_manifest d)) \<and>
     referenced s ''seals'' (inventory_digest sha256 inventory) k
       (manifest_digest sha256 (pd_manifest d)) \<and>
     (\<forall>p\<in>set ps. completion_stored sha256 s p)"

lemma shard_durable_grows:
  "pub_grows s t \<Longrightarrow> shard_durable sha256 s inventory k ps d \<Longrightarrow>
    shard_durable sha256 t inventory k ps d"
  by (auto simp: shard_durable_def intro: stored_grows referenced_grows completion_stored_grows)

lemma publish_shard_returned:
  assumes "coordinator_harmless sha256 c" and "pub_wf sha256 s"
    and "publish_shard sha256 c inventory k ps s = (Inr d, t)"
  shows "pub_wf sha256 t" and "shard_durable sha256 t inventory k ps d"
    and "index_from_publications sha256 inventory k ps = Inr (pd_index d)"
    and "pd_manifest d = manifest_of sha256 inventory (pd_index d)"
proof -
  let ?i = "inventory_digest sha256 inventory"
  obtain x r1 s1 r2 s2 m s3 r4 s4 r5 s5 r6
    where x: "index_from_publications sha256 inventory k ps = Inr x"
      and c0: "store_call c 0 (publish_bytes sha256 (uninjected c 0) (index_bytes x)
        (Some (index_digest sha256 x))) s = (Inr r1, s1)"
      and c1: "store_call c 1 (install_digest_reference sha256 (injected c 1) ''indexes'' ?i k
        (index_digest sha256 x) (Some ''shard-index-persisted'')) s1 = (Inr r2, s2)"
      and c2: "store_call c 2 (seal sha256 inventory x ps) s2 = (Inr m, s3)"
      and c3: "store_call c 3 (publish_bytes sha256 (uninjected c 3) (manifest_bytes m)
        (Some (manifest_digest sha256 m))) s3 = (Inr r4, s4)"
      and c4: "store_call c 4 (install_digest_reference sha256 (injected c 4) ''manifests'' ?i k
        (manifest_digest sha256 m) (Some ''shard-manifest-persisted'')) s4 = (Inr r5, s5)"
      and c5: "store_call c 5 (install_digest_reference sha256 (injected c 5) ''seals'' ?i k
        (manifest_digest sha256 m) (Some ''shard-seal-published'')) s5 = (Inr r6, t)"
      and d: "d = \<lparr>pd_index = x, pd_manifest = m, pd_index_result = r1,
        pd_manifest_result = r4, pd_seal_result = r6\<rparr>"
    using assms(3) unfolding publish_shard_def Let_def
    by (auto simp: seq_op_Inr dest!: published_shard_same)
  note k0 = publish_call [OF assms(1) c0] and k1 = reference_call [OF assms(1) c1]
    and k2 = seal_call [OF assms(1) c2] and k3 = publish_call [OF assms(1) c3]
    and k4 = reference_call [OF assms(1) c4] and k5 = reference_call [OF assms(1) c5]
  note keeps = k0(1) k1(1) k2(1) k3(1) k4(1) k5(1)
  have wf: "pub_wf sha256 s1" "pub_wf sha256 s2" "pub_wf sha256 s3" "pub_wf sha256 s4"
    "pub_wf sha256 s5" "pub_wf sha256 t"
    using assms(2) keeps by (simp_all add: pub_keeps_def)
  then have steps: "pub_grows s1 s2" "pub_grows s2 s3" "pub_grows s3 s4" "pub_grows s4 s5"
    "pub_grows s5 t" using keeps by (simp_all add: pub_keeps_def)
  then have grows: "pub_grows s4 t" "pub_grows s3 t" "pub_grows s2 t" "pub_grows s1 t"
    by (blast intro: pub_grows_trans)+
  show "pub_wf sha256 t" by (rule wf(6))
  show "shard_durable sha256 t inventory k ps d"
    unfolding shard_durable_def d
    using stored_grows [OF grows(4) k0(2)] referenced_grows [OF grows(3) k1(2)]
      stored_grows [OF grows(1) k3(2)] referenced_grows [OF steps(5) k4(2)] k5(2)
      k2(3) completion_stored_grows [OF grows(2)] by simp
  show "index_from_publications sha256 inventory k ps = Inr (pd_index d)"
    "pd_manifest d = manifest_of sha256 inventory (pd_index d)"
    using x k2(2) by (simp_all add: d)
qed

text \<open>C12: A sealed shard is durable. When \<^verbatim>\<open>publish_shard\<close> returns, whatever
  other processes did between and inside its store calls, then after any further steps of the
  store, the index, the manifest and every envelope, reference and receipt of its completions read
  back as exactly the bytes they were sealed with, and the references that list them exist.\<close>

theorem sealed_shard_is_durable:
  assumes "run_of (shard_step sha256) empty_publication_store evs s"
    and "coordinator_harmless sha256 c"
    and "publish_shard sha256 c inventory k ps s = (Inr d, t)"
    and "run_of (shard_step sha256) t evs' u"
  shows "read_verified sha256 (index_digest sha256 (pd_index d)) u = (Inr (index_bytes (pd_index d)), u)
    \<and> read_verified sha256 (manifest_digest sha256 (pd_manifest d)) u =
        (Inr (manifest_bytes (pd_manifest d)), u)
    \<and> reference_exists_verified sha256 ''indexes'' (inventory_digest sha256 inventory) k
        (index_digest sha256 (pd_index d)) u = (Inr True, u)
    \<and> reference_exists_verified sha256 ''manifests'' (inventory_digest sha256 inventory) k
        (manifest_digest sha256 (pd_manifest d)) u = (Inr True, u)
    \<and> reference_exists_verified sha256 ''seals'' (inventory_digest sha256 inventory) k
        (manifest_digest sha256 (pd_manifest d)) u = (Inr True, u)
    \<and> (\<forall>p\<in>set ps.
        read_verified sha256 (envelope_digest sha256 (pc_envelope p)) u =
          (Inr (envelope_bytes (pc_envelope p)), u) \<and>
        read_verified sha256 (reference_digest sha256 (pc_reference p)) u =
          (Inr (reference_bytes (pc_reference p)), u) \<and>
        (\<forall>r\<in>set (pc_receipts p). read_verified sha256 (receipt_digest sha256 r) u =
          (Inr (receipt_bytes r), u)))
    \<and> index_from_publications sha256 inventory k ps = Inr (pd_index d)
    \<and> pd_manifest d = manifest_of sha256 inventory (pd_index d)"
proof -
  note returned = publish_shard_returned [OF assms(2) sharded_wf [OF assms(1)] assms(3)]
  have wf: "pub_wf sha256 u" by (rule sharding.run_inv [OF assms(4) returned(1)])
  have "shard_durable sha256 u inventory k ps d"
    by (rule shard_durable_grows [OF sharding.run_evolves [OF assms(4) returned(1)] returned(2)])
  then show ?thesis
    unfolding shard_durable_def completion_stored_def
    using stored_read [OF wf] referenced_exists [OF wf] returned(3,4) by blast
qed

end
