(* ===== verification/Shard_Retries.thy ===== *)
theory Shard_Retries
  imports Shard_Sealing
begin

section \<open>Publishing a completion again\<close>

text \<open>
  A completion whose publication returned is published again, by a worker that crashed before it
  could record the result: the objects and receipts are found in the store, the claim decides the
  dispositions as before, and nothing is written.
\<close>

definition undisturbed_coordinator :: "CoordinatorCall \<Rightarrow> bool" where
  "undisturbed_coordinator c \<longleftrightarrow> co_fault c = (\<lambda>_. None) \<and>
     (\<forall>k. pc_meanwhile (co_call c k) = id \<and> co_before c k = id)"

lemma undisturbed_calls:
  assumes "undisturbed_coordinator c"
  shows "undisturbed (injected c k)" and "undisturbed (uninjected c k)"
    and "store_call c k m = m" and "coordinator_invoke c st = ret ()"
  using assms
  by (auto simp: undisturbed_coordinator_def undisturbed_def injected_def uninjected_def
      store_call_def coordinator_invoke_def fun_eq_iff)

subsection \<open>Claimed objects\<close>

lemma publish_existing:
  assumes "stored s d payload" and "d = hex (sha256 payload)" and "e = None \<or> e = Some d"
  shows "publish_bytes sha256 call payload e s = (Inr \<lparr>pr_digest = d,
    pr_relative_path = relative_object_path d, pr_disposition = ExistingIdentical\<rparr>, s)"
  using assms
  by (auto simp: stored_def publish_bytes_def Let_def seq_read check_expected_def
      store_object_path_def require_store_digest_def classify_existing_def)

text \<open>What a returned publication has established.\<close>

definition claim_settled :: "PublicationStore \<Rightarrow> string \<Rightarrow> string \<Rightarrow> byte list \<Rightarrow> string \<Rightarrow>
    PublicationDisposition \<Rightarrow> bool" where
  "claim_settled s kind d payload w disposition \<longleftrightarrow> stored s d payload \<and> is_store_token kind \<and>
     (disposition = Published \<longrightarrow> is_hex_256 w \<and> ps_claims s (kind, d) = Some (claim_bytes w))"

lemma claim_settled_grows:
  "pub_grows s t \<Longrightarrow> claim_settled s kind d payload w disp \<Longrightarrow>
    claim_settled t kind d payload w disp"
  using stored_grows pub_growsD(2) by (fastforce simp: claim_settled_def)

lemma publish_quiet_returned:
  assumes "publish_bytes sha256 (call\<lparr>pc_fault := g\<rparr>) payload (Some d) s = (Inr r, t)"
    and "harmless sha256 (pc_meanwhile call)"
  shows "d = hex (sha256 payload)" and "stored t d payload" and "pub_keeps sha256 s t"
    and "ps_objects s d \<noteq> None \<Longrightarrow> t = s \<and> pr_disposition r = ExistingIdentical"
proof -
  have h: "harmless sha256 (pc_meanwhile (call\<lparr>pc_fault := g\<rparr>))" using assms(2) by simp
  show d: "d = hex (sha256 payload)"
    using assms(1) by (auto simp: publish_bytes_def Let_def seq_op_Inr check_expected_def)
  show "stored t d payload" using publish_returned_stored [OF assms(1) h] d by simp
  show "pub_keeps sha256 s t"
    by (rule publication.conserves_apply [OF publish_bytes_keeps [OF h] assms(1)])
  show "ps_objects s d \<noteq> None \<Longrightarrow> t = s \<and> pr_disposition r = ExistingIdentical"
    using assms(1) d
    by (auto simp: publish_bytes_def Let_def seq_op_Inr classify_returned split: option.splits)
qed

lemma claim_and_publish_settled:
  assumes "claim_and_publish_bytes sha256 call payload d kind w cst ost s = (Inr r, t)"
    and "pub_wf sha256 s" and "harmless sha256 (pc_meanwhile call)"
  shows "claim_settled t kind d payload w (pr_disposition r)" and "d = hex (sha256 payload)"
    and "is_hex_256 w \<or> pr_disposition r = ExistingIdentical"
proof -
  let ?quiet = "call\<lparr>pc_fault := \<lambda>_. None\<rparr>"
  have kind: "is_store_token kind" and d: "d = hex (sha256 payload)"
    using assms(1) by (auto simp: claim_and_publish_bytes_def Let_def seq_op_Inr
        check_expected_def publication_claim_path_def require_store_token_def)
  have "claim_settled t kind d payload w (pr_disposition r) \<and>
    (is_hex_256 w \<or> pr_disposition r = ExistingIdentical)"
  proof (cases "ps_objects s d \<noteq> None \<and> ps_claims s (kind, d) = None")
    case True
    then have "publish_bytes sha256 ?quiet payload (Some d) s = (Inr r, t)"
      using assms(1) unfolding claim_and_publish_bytes_def Let_def d [symmetric]
      by (auto simp: seq_op_Inr publication_claim_path_def require_store_token_def
          require_store_digest_def dest!: invoke_stage_state)
    from publish_quiet_returned [OF this assms(3)] True kind show ?thesis
      by (simp add: claim_settled_def)
  next
    case False
    then obtain owned s2 r' s3
      where claim: "claim_publication call kind d w cst (pc_meanwhile call s) = (Inr owned, s2)"
        and publish: "publish_bytes sha256 ?quiet payload (Some d) s2 = (Inr r', s3)"
        and t: "t = s3" and r: "r = r'\<lparr>pr_disposition := if owned then Published else ExistingIdentical\<rparr>"
      using assms(1) unfolding claim_and_publish_bytes_def Let_def d [symmetric]
      by (auto simp: seq_op_Inr publication_claim_path_def require_store_token_def
          require_store_digest_def dest!: invoke_stage_state split: if_splits)
    have wf: "pub_wf sha256 (pc_meanwhile call s)"
      using assms(2,3) by (auto simp: harmless_def pub_keeps_def)
    obtain v where v: "is_hex_256 v" "ps_claims s2 (kind, d) = Some (claim_bytes v)" "owned = (v = w)"
      using claim_returned [OF claim wf assms(3)] by blast
    have "pub_wf sha256 s2"
      using publication.conserves_apply [OF claim_publication_keeps [OF assms(3)] claim] wf
      by (simp add: pub_keeps_def)
    then have "ps_claims s3 (kind, d) = Some (claim_bytes v)"
      using publish_quiet_returned(3) [OF publish assms(3)] v(2) pub_growsD(2)
      by (auto simp: pub_keeps_def)
    then show ?thesis
      using publish_quiet_returned(2) [OF publish assms(3)] v kind t r
      by (auto simp: claim_settled_def)
  qed
  then show "claim_settled t kind d payload w (pr_disposition r)" "d = hex (sha256 payload)"
    "is_hex_256 w \<or> pr_disposition r = ExistingIdentical"
    using d by simp_all
qed

text \<open>The same call on a later store decides in the same way, unless an object that was found
  unclaimed has been claimed by this owner since.\<close>

lemma claim_and_publish_again:
  assumes "claim_settled s kind d payload w disposition" and "pub_wf sha256 s"
    and "d = hex (sha256 payload)" and "is_hex_256 w" and "undisturbed call"
    and "disposition = ExistingIdentical \<Longrightarrow> ps_claims s (kind, d) \<noteq> Some (claim_bytes w)"
  shows "claim_and_publish_bytes sha256 call payload d kind w cst ost s = (Inr \<lparr>pr_digest = d,
    pr_relative_path = relative_object_path d, pr_disposition = disposition\<rparr>, s)"
proof -
  note settled = assms(1) [unfolded claim_settled_def stored_def]
  have stored: "stored s d payload" using assms(1) by (simp add: claim_settled_def)
  note again = publish_existing [of s d payload sha256, OF stored assms(3)]
  have stage: "invoke_stage call st' s = (Inr (), s)" for st'
    using assms(5) by (simp add: undisturbed_def invoke_stage_def invoke_def split: option.splits)
  have meanwhile: "pc_meanwhile call = id" using assms(5) by (simp add: undisturbed_def)
  show ?thesis
  proof (cases "ps_claims s (kind, d)")
    case None
    then have "disposition = ExistingIdentical" using settled by (cases disposition) auto
    then show ?thesis
      using settled None again stage assms(3)
      by (simp add: claim_and_publish_bytes_def Let_def check_expected_def seq_read
          require_store_digest_def require_store_token_def publication_claim_path_def
          store_object_path_def)
  next
    case (Some b)
    obtain v where v: "is_hex_256 v" "b = claim_bytes v" "read_claim_owner (Some b) = Inr v"
      by (rule claimed_owner [OF assms(2) Some])
    have owned: "(v = w) = (disposition = Published)"
      using settled assms(6) Some v(2) by (cases disposition) (auto simp: claim_bytes_inject)
    have "claim_publication call kind d w cst s = (Inr (v = w), s)"
      using settled assms(4) Some v(3)
      by (simp add: claim_publication_def publication_claim_path_def require_store_digest_def
          require_store_token_def seq_read)
    then show ?thesis
      using settled Some again stage assms(3) owned meanwhile
      by (cases disposition) (simp_all add: claim_and_publish_bytes_def Let_def check_expected_def
          seq_read require_store_digest_def require_store_token_def publication_claim_path_def
          store_object_path_def)
  qed
qed

subsection \<open>Receipts\<close>

text \<open>One half of a completion, once it has returned: the object, its claim and its receipt.\<close>

definition half_settled :: "(byte list \<Rightarrow> byte list) \<Rightarrow> PublicationStore \<Rightarrow>
    OperationalPublicationReceipt option \<Rightarrow> string \<Rightarrow> string \<Rightarrow> AttemptKey \<Rightarrow>
    PublicationObjectKind \<Rightarrow> byte list \<Rightarrow> OperationalPublicationReceipt \<Rightarrow> bool" where
  "half_settled sha256 s previous run_id inventory key kind payload receipt \<longleftrightarrow>
     (let d = hex (sha256 payload) in
      claim_settled s (object_kind_value kind) d payload
        (receipt_claim_owner_digest sha256 previous run_id inventory key kind d)
        (op_disposition receipt) \<and>
      append_receipt sha256 previous run_id inventory key kind d (op_disposition receipt) =
        Inr receipt \<and>
      stored s (receipt_digest sha256 receipt) (receipt_bytes receipt))"

lemma half_settled_grows:
  "pub_grows s t \<Longrightarrow> half_settled sha256 s previous run_id inventory key kind payload receipt \<Longrightarrow>
    half_settled sha256 t previous run_id inventory key kind payload receipt"
  by (auto simp: half_settled_def Let_def intro: claim_settled_grows stored_grows)

text \<open>The owner that a receipt's publication claims its object with.\<close>

definition receipt_owner :: "(byte list \<Rightarrow> byte list) \<Rightarrow> OperationalPublicationReceipt option \<Rightarrow>
    OperationalPublicationReceipt \<Rightarrow> string" where
  "receipt_owner sha256 previous r = receipt_claim_owner_digest sha256 previous
     (op_execution_run_id r) (op_inventory_digest r) (op_attempt_key r) (op_object_kind r)
     (op_object_digest r)"

text \<open>The claim of a receipt's object agrees with its disposition.\<close>

definition claim_agrees :: "(byte list \<Rightarrow> byte list) \<Rightarrow> PublicationStore \<Rightarrow>
    OperationalPublicationReceipt option \<Rightarrow> OperationalPublicationReceipt \<Rightarrow> bool" where
  "claim_agrees sha256 s previous r \<longleftrightarrow> (op_disposition r = ExistingIdentical \<longrightarrow>
     ps_claims s (object_kind_value (op_object_kind r), op_object_digest r) \<noteq>
       Some (claim_bytes (receipt_owner sha256 previous r)))"

lemma append_receipt_fields:
  assumes "append_receipt sha256 previous run_id inventory key kind object disposition = Inr r"
  shows "op_execution_run_id r = run_id \<and> op_inventory_digest r = inventory \<and>
    op_attempt_key r = key \<and> op_object_kind r = kind \<and> op_object_digest r = object \<and>
    op_disposition r = disposition"
  using assms by (auto simp: append_receipt_def Let_def publication_receipt_def split: option.splits)

lemma publish_receipt_returned:
  assumes "publish_or_reuse_receipt sha256 call previous run_id inventory key kind object
      disposition s = (Inr r, t)" and "harmless sha256 (pc_meanwhile call)"
  shows "append_receipt sha256 previous run_id inventory key kind object disposition = Inr r"
    and "stored t (receipt_digest sha256 r) (receipt_bytes r)" and "pub_keeps sha256 s t"
proof -
  obtain x where append:
      "append_receipt sha256 previous run_id inventory key kind object disposition = Inr r"
    and publish: "publish_bytes sha256 call (receipt_bytes r) (Some (receipt_digest sha256 r)) s =
      (Inr x, t)"
    using assms(1) unfolding publish_or_reuse_receipt_def by (auto simp: seq_op_Inr)
  show "append_receipt sha256 previous run_id inventory key kind object disposition = Inr r"
    by (rule append)
  show "stored t (receipt_digest sha256 r) (receipt_bytes r)"
    using publish_returned_stored [OF publish assms(2)] by simp
  show "pub_keeps sha256 s t"
    by (rule publication.conserves_apply [OF publish_bytes_keeps [OF assms(2)] publish])
qed

lemma publish_half_returned:
  assumes "publish_with_receipt sha256 c k previous run_id inventory key kind d payload stage s =
      (Inr receipt, t)"
    and "coordinator_harmless sha256 c" and "pub_wf sha256 s"
  shows "half_settled sha256 t previous run_id inventory key kind payload receipt"
    and "pub_keeps sha256 s t" and "d = hex (sha256 payload)"
proof -
  let ?w = "receipt_claim_owner_digest sha256 previous run_id inventory key kind d"
  let ?claim = "claim_and_publish_bytes sha256 (injected c k) payload d (object_kind_value kind) ?w
    (Some (stage @ ''-claim-persisted'')) (Some (stage @ ''-object-persisted''))"
  obtain r s1 where c0: "store_call c k ?claim s = (Inr r, s1)"
    and c1: "store_call c (k + 1) (publish_or_reuse_receipt sha256 (uninjected c (k + 1)) previous
      run_id inventory key kind d (pr_disposition r)) s1 = (Inr receipt, t)"
    using assms(1) unfolding publish_with_receipt_def
    by (auto simp: seq_op_Inr coordinator_invoke_def split: option.splits)
  note h = coordinator_calls [OF assms(2)]
  have before: "pub_keeps sha256 u (co_before c j u)" for j u
    using assms(2) by (simp add: coordinator_harmless_def harmless_def)
  then have wf: "pub_wf sha256 (co_before c k s)" using assms(3) by (simp add: pub_keeps_def)
  note settled = claim_and_publish_settled [OF store_call_returned [OF c0] wf h(1)]
    and receipt = publish_receipt_returned [OF store_call_returned [OF c1] h(2)]
  have "publication.conserves sha256 (store_call c k ?claim)"
    using assms(2) h(1) by (intro store_call_keeps claim_and_publish_keeps)
  then have first: "pub_keeps sha256 s s1" using c0 by (rule publication.conserves_apply)
  have second: "pub_keeps sha256 s1 t" using before receipt(3) by (rule publication.trans)
  show "pub_keeps sha256 s t" using first second by (rule publication.trans)
  show d: "d = hex (sha256 payload)" by (rule settled(2))
  have "pub_grows s1 t" using first second assms(3) by (simp add: pub_keeps_def)
  then show "half_settled sha256 t previous run_id inventory key kind payload receipt"
    using claim_settled_grows [OF _ settled(1)] append_receipt_fields [OF receipt(1)] receipt(1,2) d
    by (simp add: half_settled_def Let_def)
qed

lemma publish_half_again:
  assumes "half_settled sha256 s previous run_id inventory key kind payload receipt"
    and "pub_wf sha256 s" and "undisturbed_coordinator c" and "claim_agrees sha256 s previous receipt"
    and "d = hex (sha256 payload)" and "\<forall>bs. is_hex_256 (hex (sha256 bs))"
  shows "publish_with_receipt sha256 c k previous run_id inventory key kind d payload stage s =
    (Inr receipt, s)"
proof -
  let ?w = "receipt_claim_owner_digest sha256 previous run_id inventory key kind d"
  have settled: "claim_settled s (object_kind_value kind) d payload ?w (op_disposition receipt)"
    and append: "append_receipt sha256 previous run_id inventory key kind d (op_disposition receipt) =
      Inr receipt"
    and stored: "stored s (receipt_digest sha256 receipt) (receipt_bytes receipt)"
    using assms(1,5) by (simp_all add: half_settled_def Let_def)
  have w: "is_hex_256 ?w" using assms(6) by (simp add: receipt_claim_owner_digest_def json_digest_def)
  have "op_disposition receipt = ExistingIdentical \<Longrightarrow>
      ps_claims s (object_kind_value kind, d) \<noteq> Some (claim_bytes ?w)"
    using assms(4) append_receipt_fields [OF append]
    by (simp add: claim_agrees_def receipt_owner_def)
  note first = claim_and_publish_again [OF settled assms(2,5) w undisturbed_calls(1) [OF assms(3)] this]
  show ?thesis
    unfolding publish_with_receipt_def undisturbed_calls(3,4) [OF assms(3)]
    using first append publish_existing [of s "receipt_digest sha256 receipt"
        "receipt_bytes receipt" sha256, OF stored]
    by (simp add: publish_or_reuse_receipt_def seq_lift)
qed

text \<open>Publishing a completion again changes nothing. When
  \<^verbatim>\<open>publish_completion\<close> has returned, with any interference, then the same call on any
  later store, undisturbed, returns the same envelope, reference and receipts and leaves the store
  exactly as it is, unless an object that the first call found unclaimed has since been claimed by
  the very owner of that call.\<close>

theorem completion_publication_idempotent:
  assumes "run_of (shard_step sha256) empty_publication_store evs s"
    and "coordinator_harmless sha256 c" and "\<forall>bs. is_hex_256 (hex (sha256 bs))"
    and "publish_attempt_completion sha256 c inventory completion run_id s = (Inr p, t)"
    and "run_of (shard_step sha256) t evs' u"
    and "undisturbed_coordinator c'"
    and "pc_receipts p = [r, r']"
    and "claim_agrees sha256 u None r" and "claim_agrees sha256 u (Some r) r'"
  shows "publish_attempt_completion sha256 c' inventory completion run_id u = (Inr p, u)"
proof -
  let ?i = "inventory_digest sha256 inventory"
  obtain e f q q' s1
    where e: "envelope_from_completion sha256 completion = Inr e"
      and h1: "publish_with_receipt sha256 c 0 None run_id ?i (ce_attempt_key e)
        KindCompletionEnvelope (envelope_digest sha256 e) (envelope_bytes e) ''completion'' s =
        (Inr q, s1)"
      and f: "reference_from_inventory sha256 inventory e = Inr f"
      and h2: "publish_with_receipt sha256 c 2 (Some q) run_id ?i (ce_attempt_key e)
        KindCompletionReference (reference_digest sha256 f) (reference_bytes f) ''reference'' s1 =
        (Inr q', t)"
      and p: "published_completion sha256 \<lparr>pc_envelope = e, pc_reference = f,
        pc_receipts = [q, q']\<rparr> = Inr p"
    using assms(4) unfolding publish_attempt_completion_def Let_def by (auto simp: seq_op_Inr)
  have "p = \<lparr>pc_envelope = e, pc_reference = f, pc_receipts = [q, q']\<rparr>"
    using p by (auto simp: published_completion_def Let_def)
  then have q: "q = r" "q' = r'" using assms(7) by simp_all
  have wf: "pub_wf sha256 s" by (rule sharded_wf [OF assms(1)])
  note half1 = publish_half_returned [OF h1 assms(2) wf]
  have wf1: "pub_wf sha256 s1" using half1(2) wf by (simp add: pub_keeps_def)
  note half2 = publish_half_returned [OF h2 assms(2) wf1]
  have wft: "pub_wf sha256 t" and grow: "pub_grows s1 t"
    using half2(2) wf1 by (simp_all add: pub_keeps_def)
  have wfu: "pub_wf sha256 u" and growu: "pub_grows t u"
    using sharding.run_inv [OF assms(5) wft] sharding.run_evolves [OF assms(5) wft] by simp_all
  note again1 = publish_half_again [OF half_settled_grows [OF pub_grows_trans [OF grow growu] half1(1)]
      wfu assms(6) assms(8) [folded q(1)] half1(3) assms(3)]
  note again2 = publish_half_again [OF half_settled_grows [OF growu half2(1)]
      wfu assms(6) assms(9) [folded q] half2(3) assms(3)]
  show ?thesis
    unfolding publish_attempt_completion_def Let_def
    using e f again1 again2 p by (simp add: seq_lift)
qed

section \<open>Publication succeeds\<close>

text \<open>
  An undisturbed coordinator on a store that does not have the objects yet: every step succeeds,
  so publishing a completion and sealing a shard return.
\<close>

definition add_object :: "string \<Rightarrow> byte list \<Rightarrow> PublicationStore \<Rightarrow> PublicationStore" where
  "add_object d b s = s\<lparr>ps_objects := (ps_objects s)(d \<mapsto> b)\<rparr>"

definition add_claim :: "string \<times> string \<Rightarrow> string \<Rightarrow> PublicationStore \<Rightarrow> PublicationStore" where
  "add_claim p w s = s\<lparr>ps_claims := (ps_claims s)(p \<mapsto> claim_bytes w)\<rparr>"

definition add_reference ::
  "string \<times> string \<times> int \<times> string \<Rightarrow> byte list \<Rightarrow> PublicationStore \<Rightarrow> PublicationStore" where
  "add_reference p b s = s\<lparr>ps_references := (ps_references s)(p \<mapsto> b)\<rparr>"

lemma add_simps [simp]:
  "ps_objects (add_object d b s) = (ps_objects s)(d \<mapsto> b)"
  "ps_objects (add_claim p w s) = ps_objects s" "ps_objects (add_reference q b s) = ps_objects s"
  "ps_claims (add_object d b s) = ps_claims s"
  "ps_claims (add_claim p w s) = (ps_claims s)(p \<mapsto> claim_bytes w)"
  "ps_claims (add_reference q b s) = ps_claims s"
  "ps_references (add_object d b s) = ps_references s"
  "ps_references (add_claim p w s) = ps_references s"
  "ps_references (add_reference q b s) = (ps_references s)(q \<mapsto> b)"
  "ps_temporaries (add_object d b s) = ps_temporaries s"
  "ps_temporaries (add_claim p w s) = ps_temporaries s"
  "ps_temporaries (add_reference q b s) = ps_temporaries s"
  by (simp_all add: add_object_def add_claim_def add_reference_def)

lemma publish_fresh:
  assumes "undisturbed call" and "ps_temporaries s = []" and "ps_objects s d = None"
    and "d = hex (sha256 payload)" and "is_hex_256 d"
  shows "publish_bytes sha256 call payload (Some d) s = (Inr \<lparr>pr_digest = d,
    pr_relative_path = relative_object_path d, pr_disposition = Published\<rparr>,
    add_object d payload s)"
  using assms
  by (simp add: publish_bytes_def Let_def check_expected_def require_store_digest_def
      store_object_path_def seq_read install_payload_def create_temporary_def seq_invoke
      undisturbed_def write_temporary_def link_object_def unlink_temporary_def add_object_def)

lemma claim_fresh:
  assumes "undisturbed call" and "ps_temporaries s = []" and "ps_claims s (kind, d) = None"
    and "is_store_token kind" and "is_hex_256 d" and "is_hex_256 w"
  shows "claim_publication call kind d w st s = (Inr True, add_claim (kind, d) w s)"
  using assms
  by (simp add: claim_publication_def publication_claim_path_def require_store_digest_def
      require_store_token_def seq_read install_claim_def Let_def create_temporary_def
      undisturbed_def write_temporary_def link_claim_def unlink_temporary_def invoke_stage_def
      invoke_def add_claim_def split: option.splits)

lemma claim_and_publish_fresh:
  assumes "undisturbed call" and "ps_temporaries s = []" and "ps_objects s d = None"
    and "ps_claims s (kind, d) = None" and "is_store_token kind"
    and "d = hex (sha256 payload)" and "is_hex_256 d" and "is_hex_256 w"
  shows "claim_and_publish_bytes sha256 call payload d kind w cst ost s = (Inr \<lparr>pr_digest = d,
    pr_relative_path = relative_object_path d, pr_disposition = Published\<rparr>,
    add_object d payload (add_claim (kind, d) w s))"
proof -
  let ?quiet = "call\<lparr>pc_fault := \<lambda>_. None\<rparr>" and ?s = "add_claim (kind, d) w s"
  have "undisturbed ?quiet" using assms(1) by (simp add: undisturbed_def)
  note publish = publish_fresh [of ?quiet ?s d sha256 payload, OF this _ _ assms(6,7)]
  note claim = claim_fresh [OF assms(1,2,4,5,7,8), of cst]
  have stage: "invoke_stage call st' t = (Inr (), t)" for st' t
    using assms(1) by (simp add: undisturbed_def invoke_stage_def invoke_def split: option.splits)
  show ?thesis
    using assms claim publish stage
    by (simp add: claim_and_publish_bytes_def Let_def check_expected_def require_store_digest_def
        publication_claim_path_def require_store_token_def store_object_path_def seq_read
        undisturbed_def)
qed

lemma kind_token [simp]: "is_store_token (object_kind_value kind)"
  by (cases kind) (simp_all add: store_token_char_def token_start_def)

lemma publish_half_fresh:
  assumes "undisturbed_coordinator c" and "\<forall>bs. is_hex_256 (hex (sha256 bs))"
    and "ps_temporaries s = []" and "d = hex (sha256 payload)" and "ps_objects s d = None"
    and "ps_claims s (object_kind_value kind, d) = None"
    and "append_receipt sha256 previous run_id inventory key kind d Published = Inr r"
    and "ps_objects s (receipt_digest sha256 r) = None" and "receipt_digest sha256 r \<noteq> d"
  shows "publish_with_receipt sha256 c k previous run_id inventory key kind d payload stage s =
    (Inr r, add_object (receipt_digest sha256 r) (receipt_bytes r) (add_object d payload
      (add_claim (object_kind_value kind, d)
        (receipt_claim_owner_digest sha256 previous run_id inventory key kind d) s)))"
proof -
  let ?w = "receipt_claim_owner_digest sha256 previous run_id inventory key kind d"
  have "is_hex_256 ?w" "is_hex_256 d"
    using assms(2,4) by (simp_all add: receipt_claim_owner_digest_def json_digest_def)
  then have first: "claim_and_publish_bytes sha256 (injected c k) payload d
      (object_kind_value kind) ?w cst ost s = (Inr \<lparr>pr_digest = d,
      pr_relative_path = relative_object_path d, pr_disposition = Published\<rparr>,
      add_object d payload (add_claim (object_kind_value kind, d) ?w s))" for cst ost
    using assms(3-6) by (intro claim_and_publish_fresh undisturbed_calls(1) [OF assms(1)]) simp_all
  have "is_hex_256 (receipt_digest sha256 r)"
    using assms(2) by (simp add: receipt_digest_def json_digest_def)
  then have second: "publish_bytes sha256 (uninjected c (k + 1)) (receipt_bytes r)
      (Some (receipt_digest sha256 r)) (add_object d payload (add_claim (object_kind_value kind, d) ?w s)) =
      (Inr \<lparr>pr_digest = receipt_digest sha256 r,
        pr_relative_path = relative_object_path (receipt_digest sha256 r), pr_disposition = Published\<rparr>,
       add_object (receipt_digest sha256 r) (receipt_bytes r)
         (add_object d payload (add_claim (object_kind_value kind, d) ?w s)))"
    using assms(3,8,9) by (intro publish_fresh undisturbed_calls(2) [OF assms(1)]) simp_all
  show ?thesis
    unfolding publish_with_receipt_def undisturbed_calls(3,4) [OF assms(1)]
    using first second assms(7) by (simp add: publish_or_reuse_receipt_def seq_lift)
qed

lemma completion_published:
  assumes "undisturbed_coordinator c" and "\<forall>bs. is_hex_256 (hex (sha256 bs))"
    and "ps_temporaries s = []"
    and "envelope_from_completion sha256 completion = Inr e"
    and "reference_from_inventory sha256 inventory e = Inr f"
    and "append_receipt sha256 None run_id (inventory_digest sha256 inventory) (ce_attempt_key e)
      KindCompletionEnvelope (envelope_digest sha256 e) Published = Inr r"
    and "append_receipt sha256 (Some r) run_id (inventory_digest sha256 inventory)
      (ce_attempt_key e) KindCompletionReference (reference_digest sha256 f) Published = Inr r'"
    and "distinct [envelope_digest sha256 e, receipt_digest sha256 r,
      reference_digest sha256 f, receipt_digest sha256 r']"
    and "\<forall>d\<in>{envelope_digest sha256 e, receipt_digest sha256 r, reference_digest sha256 f,
      receipt_digest sha256 r'}. ps_objects s d = None \<and> (\<forall>kind. ps_claims s (kind, d) = None)"
  shows "\<exists>p t. publish_attempt_completion sha256 c inventory completion run_id s = (Inr p, t) \<and>
    pc_envelope p = e \<and> pc_reference p = f \<and> pc_receipts p = [r, r'] \<and>
    completion_stored sha256 t p \<and>
    ps_objects t = (ps_objects s)(envelope_digest sha256 e \<mapsto> envelope_bytes e,
      receipt_digest sha256 r \<mapsto> receipt_bytes r, reference_digest sha256 f \<mapsto> reference_bytes f,
      receipt_digest sha256 r' \<mapsto> receipt_bytes r') \<and>
    ps_references t = ps_references s \<and> ps_temporaries t = []"
proof -
  let ?p = "\<lparr>pc_envelope = e, pc_reference = f, pc_receipts = [r, r']\<rparr>"
  note r = append_receipt_fields [OF assms(6)] and r' = append_receipt_fields [OF assms(7)]
  let ?i = "inventory_digest sha256 inventory" and ?de = "envelope_digest sha256 e"
    and ?df = "reference_digest sha256 f" and ?key = "ce_attempt_key e"
  define t1 where "t1 = add_object (receipt_digest sha256 r) (receipt_bytes r)
    (add_object ?de (envelope_bytes e) (add_claim (object_kind_value KindCompletionEnvelope, ?de)
      (receipt_claim_owner_digest sha256 None run_id ?i ?key KindCompletionEnvelope ?de) s))"
  define t where "t = add_object (receipt_digest sha256 r') (receipt_bytes r')
    (add_object ?df (reference_bytes f) (add_claim (object_kind_value KindCompletionReference, ?df)
      (receipt_claim_owner_digest sha256 (Some r) run_id ?i ?key KindCompletionReference ?df) t1))"
  have t1: "publish_with_receipt sha256 c 0 None run_id ?i ?key KindCompletionEnvelope ?de
      (envelope_bytes e) ''completion'' s = (Inr r, t1)"
    unfolding t1_def using assms(6,8,9) by (intro publish_half_fresh assms(1,2,3)) auto
  have t: "publish_with_receipt sha256 c 2 (Some r) run_id ?i ?key KindCompletionReference ?df
      (reference_bytes f) ''reference'' t1 = (Inr r', t)"
    unfolding t_def using assms(3,7,8,9)
    by (intro publish_half_fresh assms(1,2)) (auto simp: t1_def)
  have o2: "ps_objects t = (ps_objects s)(?de \<mapsto> envelope_bytes e,
      receipt_digest sha256 r \<mapsto> receipt_bytes r, ?df \<mapsto> reference_bytes f,
      receipt_digest sha256 r' \<mapsto> receipt_bytes r')"
    and m2: "ps_references t = ps_references s" "ps_temporaries t = []"
    using assms(3) by (simp_all add: t_def t1_def)
  have "cr_completion_envelope_digest f = envelope_digest sha256 e"
    using assms(5) by (auto simp: reference_from_inventory_def completion_reference_def Let_def)
  moreover have "publication_receipt r = Inr r \<and> publication_receipt r' = Inr r'"
    using assms(6,7) r r' by (auto simp: append_receipt_def Let_def publication_receipt_def)
  moreover have "op_publication_ordinal r = 0 \<and> op_previous_publication_receipt_digest r = None"
    "op_publication_ordinal r' = op_publication_ordinal r + 1 \<and>
      op_previous_publication_receipt_digest r' = Some (receipt_digest sha256 r)"
    using assms(6,7) by (auto simp: append_receipt_def Let_def publication_receipt_def)
  ultimately have p: "published_completion sha256 ?p = Inr ?p"
    using r r' by (simp add: published_completion_def validate_publication_receipt_chain_def Let_def)
  have run: "publish_attempt_completion sha256 c inventory completion run_id s = (Inr ?p, t)"
    unfolding publish_attempt_completion_def Let_def
    using assms(4,5) t1 t p by (simp add: seq_lift)
  have hex: "is_hex_256 (envelope_digest sha256 e)" "is_hex_256 (reference_digest sha256 f)"
    "is_hex_256 (receipt_digest sha256 q)" for q
    using assms(2) by (simp_all add: envelope_digest_def reference_digest_def receipt_digest_def
        json_digest_def)
  have "completion_stored sha256 t ?p"
    using assms(8) hex by (auto simp: completion_stored_def stored_def o2)
  then show ?thesis using run o2 m2 by (intro exI [of _ ?p] exI [of _ t]) simp
qed

text \<open>Publishing a completion returns. An undisturbed
  \<^verbatim>\<open>publish_completion\<close> of a completion that the inventory authorises, on a store that
  has neither the envelope, nor the reference, nor their claims and receipts, and with different
  digests for the four objects, returns the envelope, the reference and both receipts, every one of
  them stored and both dispositions \<^verbatim>\<open>PUBLISHED\<close>; nothing else in the store changes.\<close>

theorem completion_publication_returns:
  assumes "undisturbed_coordinator c" and "\<forall>bs. is_hex_256 (hex (sha256 bs))"
    and "ps_temporaries s = []"
    and "envelope_from_completion sha256 completion = Inr e"
    and "reference_from_inventory sha256 inventory e = Inr f"
    and "append_receipt sha256 None run_id (inventory_digest sha256 inventory) (ce_attempt_key e)
      KindCompletionEnvelope (envelope_digest sha256 e) Published = Inr r"
    and "append_receipt sha256 (Some r) run_id (inventory_digest sha256 inventory)
      (ce_attempt_key e) KindCompletionReference (reference_digest sha256 f) Published = Inr r'"
    and "distinct [envelope_digest sha256 e, receipt_digest sha256 r,
      reference_digest sha256 f, receipt_digest sha256 r']"
    and "\<forall>d\<in>{envelope_digest sha256 e, receipt_digest sha256 r, reference_digest sha256 f,
      receipt_digest sha256 r'}. ps_objects s d = None \<and> (\<forall>kind. ps_claims s (kind, d) = None)"
  shows "\<exists>p t. publish_attempt_completion sha256 c inventory completion run_id s = (Inr p, t) \<and>
    pc_envelope p = e \<and> pc_reference p = f \<and> pc_receipts p = [r, r'] \<and>
    completion_stored sha256 t p \<and>
    ps_objects t = (ps_objects s)(envelope_digest sha256 e \<mapsto> envelope_bytes e,
      receipt_digest sha256 r \<mapsto> receipt_bytes r, reference_digest sha256 f \<mapsto> reference_bytes f,
      receipt_digest sha256 r' \<mapsto> receipt_bytes r') \<and>
    ps_references t = ps_references s \<and> ps_temporaries t = []"
  using assms by (rule completion_published)

subsection \<open>Sealing\<close>

lemma reference_fresh:
  assumes "undisturbed call" and "stored s d payload" and "d = hex (sha256 payload)"
    and "reference_path cat i k d = Inr (cat, i, k, d)"
    and "ps_references s (cat, i, k, d) = None"
  shows "install_digest_reference sha256 call cat i k d st s = (Inr \<lparr>pr_digest = d,
    pr_relative_path = relative_reference_path (cat, i, k, d), pr_disposition = Published\<rparr>,
    add_reference (cat, i, k, d) payload s)"
proof -
  have stage: "invoke_stage call st' t = (Inr (), t)" for st' t
    using assms(1) by (simp add: undisturbed_def invoke_stage_def invoke_def split: option.splits)
  show ?thesis
    using assms stage
    by (simp add: install_digest_reference_def read_verified_def store_object_path_def
        require_store_digest_def stored_def seq_read undisturbed_def link_reference_def
        add_reference_def)
qed

lemma read_matches_stored:
  "stored s d b \<Longrightarrow> d = hex (sha256 b) \<Longrightarrow> read_matches sha256 d b m s = (Inr (), s)"
  by (simp add: read_matches_def read_verified_def store_object_path_def
      require_store_digest_def stored_def seq_read)

lemma publications_checked:
  assumes "\<forall>p\<in>set ps. completion_stored sha256 s p"
  shows "check_publications_stored sha256 ps s = (Inr (), s)"
proof -
  have "check_receipts_stored sha256 rs s = (Inr (), s)"
    if "\<forall>r\<in>set rs. stored s (receipt_digest sha256 r) (receipt_bytes r)" for rs
    using that by (induction rs) (simp_all add: read_matches_stored)
  then show ?thesis
    using assms by (induction ps) (simp_all add: read_matches_stored completion_stored_def)
qed

lemma seal_stored:
  assumes "index_from_publications sha256 inventory k ps = Inr x"
    and "si_shard_index x = k"
    and "stored s (index_digest sha256 x) (index_bytes x)"
    and "referenced s ''indexes'' (inventory_digest sha256 inventory) k (index_digest sha256 x)"
    and "pub_wf sha256 s" and "\<forall>p\<in>set ps. completion_stored sha256 s p"
    and "sealed_manifest (manifest_of sha256 inventory x) = Inr m"
  shows "seal sha256 inventory x ps s = (Inr m, s)"
  using assms(1-4,7) referenced_exists [OF assms(5,4)] publications_checked [OF assms(6)]
  by (simp add: seal_def seq_lift read_matches_stored)

lemma index_from_publications_index:
  "index_from_publications sha256 inventory k ps = Inr x \<Longrightarrow>
    si_shard_index x = k \<and> is_uint32 k"
  unfolding index_from_publications_def
  by (auto dest: index_from_entries_Inr(5) index_from_entries_in_range)

lemma published_wf: "pub_wf sha256 s \<Longrightarrow> d = hex (sha256 b) \<Longrightarrow> pub_wf sha256 (add_object d b s)"
  and referenced_wf: "pub_wf sha256 s \<Longrightarrow> d = hex (sha256 b) \<Longrightarrow>
    pub_wf sha256 (add_reference (c, i, k, d) b s)"
  by (auto simp: pub_wf_def)

lemma shard_published:
  assumes "run_of (shard_step sha256) empty_publication_store evs s"
    and "undisturbed_coordinator c" and "\<forall>bs. is_hex_256 (hex (sha256 bs))"
    and "ps_temporaries s = []" and "\<forall>p\<in>set ps. completion_stored sha256 s p"
    and "index_from_publications sha256 inventory k ps = Inr x"
    and "sealed_manifest (manifest_of sha256 inventory x) = Inr m"
    and "manifest_digest sha256 m \<noteq> index_digest sha256 x"
    and "\<forall>d\<in>{index_digest sha256 x, manifest_digest sha256 m}. ps_objects s d = None \<and>
      (\<forall>cat. ps_references s (cat, inventory_digest sha256 inventory, k, d) = None)"
  shows "\<exists>d t. publish_shard sha256 c inventory k ps s = (Inr d, t) \<and> pd_index d = x \<and>
    pd_manifest d = m \<and> shard_durable sha256 t inventory k ps d \<and> ps_temporaries t = [] \<and>
    ps_objects t = (ps_objects s)(index_digest sha256 x \<mapsto> index_bytes x,
      manifest_digest sha256 m \<mapsto> manifest_bytes m) \<and>
    ps_references t = (ps_references s)
      ((''indexes'', inventory_digest sha256 inventory, k, index_digest sha256 x) \<mapsto> index_bytes x,
       (''manifests'', inventory_digest sha256 inventory, k, manifest_digest sha256 m) \<mapsto>
         manifest_bytes m,
       (''seals'', inventory_digest sha256 inventory, k, manifest_digest sha256 m) \<mapsto>
         manifest_bytes m)"
proof -
  let ?i = "inventory_digest sha256 inventory" and ?dx = "index_digest sha256 x"
    and ?dm = "manifest_digest sha256 m"
  have hex: "is_hex_256 ?i" "is_hex_256 ?dx" "is_hex_256 ?dm"
    using assms(3) by (simp_all add: inventory_digest_def index_digest_def manifest_digest_def
        json_digest_def)
  have k: "si_shard_index x = k" "is_uint32 k"
    using index_from_publications_index [OF assms(6)] by simp_all
  have path: "reference_path cat ?i k d = Inr (cat, ?i, k, d)"
    if "cat \<in> {''indexes'', ''manifests'', ''seals''}" "is_hex_256 d" for cat d
    using that hex(1) k(2) by (simp add: reference_path_def require_store_digest_def)
  define s1 where "s1 = add_object ?dx (index_bytes x) s"
  define s2 where "s2 = add_reference (''indexes'', ?i, k, ?dx) (index_bytes x) s1"
  define s3 where "s3 = add_object ?dm (manifest_bytes m) s2"
  define s4 where "s4 = add_reference (''manifests'', ?i, k, ?dm) (manifest_bytes m) s3"
  define t where "t = add_reference (''seals'', ?i, k, ?dm) (manifest_bytes m) s4"
  note states = s1_def s2_def s3_def s4_def t_def
  note calls = undisturbed_calls [OF assms(2)]
  have wf: "pub_wf sha256 s2"
    using sharded_wf [OF assms(1)] by (simp add: states published_wf referenced_wf)
  have c0: "publish_bytes sha256 (uninjected c 0) (index_bytes x) (Some ?dx) s =
      (Inr \<lparr>pr_digest = ?dx, pr_relative_path = relative_object_path ?dx,
        pr_disposition = Published\<rparr>, s1)"
    unfolding s1_def using assms(4,9) hex(2) by (intro publish_fresh calls) simp_all
  have c1: "install_digest_reference sha256 (injected c 1) ''indexes'' ?i k ?dx st s1 =
      (Inr \<lparr>pr_digest = ?dx, pr_relative_path = relative_reference_path (''indexes'', ?i, k, ?dx),
        pr_disposition = Published\<rparr>, s2)" for st
    unfolding s2_def using assms(9) hex(2) path
    by (intro reference_fresh calls) (simp_all add: stored_def s1_def)
  have "pub_grows s s2" using assms(9) by (auto simp: states pub_grows_def map_le_def)
  then have new: "\<forall>p\<in>set ps. completion_stored sha256 s2 p"
    using assms(5) completion_stored_grows by blast
  have c2: "seal sha256 inventory x ps s2 = (Inr m, s2)"
  proof (rule seal_stored [OF assms(6) k(1) _ _ wf _ assms(7)])
    show "stored s2 ?dx (index_bytes x)" using hex(2) by (simp add: stored_def states)
    show "referenced s2 ''indexes'' ?i k ?dx"
      using path [of "''indexes''" ?dx] hex(2) by (simp add: referenced_def states)
  qed (rule new)
  have c3: "publish_bytes sha256 (uninjected c 3) (manifest_bytes m) (Some ?dm) s2 =
      (Inr \<lparr>pr_digest = ?dm, pr_relative_path = relative_object_path ?dm,
        pr_disposition = Published\<rparr>, s3)"
    unfolding s3_def using assms(4,8,9) hex(3)
    by (intro publish_fresh calls) (simp_all add: s1_def s2_def)
  have c4: "install_digest_reference sha256 (injected c 4) ''manifests'' ?i k ?dm st s3 =
      (Inr \<lparr>pr_digest = ?dm, pr_relative_path = relative_reference_path (''manifests'', ?i, k, ?dm),
        pr_disposition = Published\<rparr>, s4)" for st
    unfolding s4_def using assms(8,9) hex(3) path
    by (intro reference_fresh calls) (simp_all add: stored_def s1_def s2_def s3_def)
  have c5: "install_digest_reference sha256 (injected c 5) ''seals'' ?i k ?dm st s4 =
      (Inr \<lparr>pr_digest = ?dm, pr_relative_path = relative_reference_path (''seals'', ?i, k, ?dm),
        pr_disposition = Published\<rparr>, t)" for st
    unfolding t_def using assms(8,9) hex(3) path
    by (intro reference_fresh calls) (simp_all add: stored_def s1_def s2_def s3_def s4_def)
  have "sm_shard_index_digest m = ?dx"
    using sealed_manifest_same [OF assms(7)] by (simp add: manifest_of_def)
  then have run: "\<exists>d. publish_shard sha256 c inventory k ps s = (Inr d, t) \<and> pd_index d = x \<and>
      pd_manifest d = m"
    unfolding publish_shard_def Let_def calls(3)
    using assms(6) c0 c1 c2 c3 c4 c5 by (simp add: seq_lift published_shard_def)
  then obtain d where d: "publish_shard sha256 c inventory k ps s = (Inr d, t)"
    "pd_index d = x" "pd_manifest d = m" by blast
  have "coordinator_harmless sha256 c"
    using assms(2)
    by (simp add: undisturbed_coordinator_def coordinator_harmless_def harmless_def pub_keeps_def)
  from publish_shard_returned(2) [OF this sharded_wf [OF assms(1)] d(1)] d show ?thesis
    using assms(4) by (intro exI [of _ d] exI [of _ t]) (simp add: states)
qed


end
