(* ===== verification/Publication_Chains.thy ===== *)
theory Publication_Chains
  imports Publication_Shards Canonical_Json_Spec
begin

section \<open>What receipts commit to\<close>

text \<open>
  Receipt chains that validate are exactly the chains that \<^verbatim>\<open>append\<close> builds, and the
  digest of the last receipt fixes the whole chain unless two of its receipts collide under the
  hash.
\<close>

subsection \<open>Digests of canonical JSON\<close>

lemma hex_inject [simp]: "hex xs = hex ys \<longleftrightarrow> xs = ys"
proof (induction xs arbitrary: ys)
  case (Cons x xs)
  have byte: "x = y" if "hex_digit (unat x div 16) = hex_digit (unat y div 16)"
    "hex_digit (unat x mod 16) = hex_digit (unat y mod 16)" for y :: byte
  proof -
    have "unat x < 256" "unat y < 256" using unsigned_less [of x] unsigned_less [of y] by simp_all
    then have "unat x div 16 = unat y div 16" "unat x mod 16 = unat y mod 16"
      using that by (simp_all add: hex_digit_inject)
    then show ?thesis by (metis div_mult_mod_eq unsigned_word_eqI)
  qed
  show ?case using Cons.IH byte by (cases ys) (auto simp: hex_def)
qed (cases ys, auto simp: hex_def)

text \<open>JSON values that are already sorted: what the modules hash.\<close>

definition canonical_form :: "json \<Rightarrow> bool" where
  "canonical_form j \<longleftrightarrow> norm_json j = j"

lemma json_bytes_canonical:
  "canonical_form i \<Longrightarrow> canonical_form j \<Longrightarrow> json_bytes i = json_bytes j \<longleftrightarrow> i = j"
  by (simp add: json_bytes_eq_iff canonical_form_def)

text \<open>Equal digests of different values exhibit a collision.\<close>

lemma json_digest_equal:
  assumes "canonical_form i" and "canonical_form j" and "json_digest sha256 i = json_digest sha256 j"
  shows "i = j \<or> (json_bytes i \<noteq> json_bytes j \<and> sha256 (json_bytes i) = sha256 (json_bytes j))"
  using assms by (simp add: json_digest_def json_bytes_canonical)

lemma attempt_key_value_inject [simp]: "attempt_key_value a = attempt_key_value b \<longleftrightarrow> a = b"
  by (auto simp: attempt_key_value_def Let_def intro!: AttemptKey.equality SampleKey.equality)

lemma optional_string_inject [simp]: "optional_string x = optional_string y \<longleftrightarrow> x = y"
  by (simp add: optional_string_def split: option.splits)

lemma object_kind_value_inject [simp]: "object_kind_value a = object_kind_value b \<longleftrightarrow> a = b"
  by (cases a; cases b) simp_all

lemma disposition_value_inject [simp]: "disposition_value a = disposition_value b \<longleftrightarrow> a = b"
  by (cases a; cases b) simp_all

lemma norm_attempt_key: "norm_json (attempt_key_value k) = attempt_key_value k"
  unfolding attempt_key_value_def Let_def norm_json.simps
  by (subst sort_key_id_if_sorted) simp_all

lemma norm_optional_string: "norm_json (optional_string x) = optional_string x"
  by (simp add: optional_string_def split: option.splits)

lemma receipt_canonical: "canonical_form (receipt_json r)"
  unfolding canonical_form_def receipt_json_def norm_json.simps
  by (subst sort_key_id_if_sorted) (simp_all add: norm_attempt_key norm_optional_string)

lemma receipt_json_inject [simp]:
  fixes r r' :: OperationalPublicationReceipt
  shows "receipt_json r = receipt_json r' \<longleftrightarrow> r = r'"
  by (auto simp: receipt_json_def intro!: OperationalPublicationReceipt.equality)

lemma receipt_digest_equal:
  fixes r r' :: OperationalPublicationReceipt
  assumes "receipt_digest sha256 r = receipt_digest sha256 r'"
  shows "r = r' \<or> (receipt_bytes r \<noteq> receipt_bytes r' \<and>
    sha256 (receipt_bytes r) = sha256 (receipt_bytes r'))"
  using json_digest_equal [OF receipt_canonical receipt_canonical] assms
  by (simp add: receipt_digest_def receipt_bytes_def)

subsection \<open>Chains\<close>

text \<open>The tests of one receipt of a chain, at its index and with the digest before it.\<close>

definition receipt_fits :: "OperationalPublicationReceipt \<Rightarrow> int \<Rightarrow> string option \<Rightarrow>
    OperationalPublicationReceipt \<Rightarrow> bool" where
  "receipt_fits first k previous r \<longleftrightarrow> op_execution_run_id r = op_execution_run_id first \<and>
     op_inventory_digest r = op_inventory_digest first \<and>
     op_attempt_key r = op_attempt_key first \<and> op_publication_ordinal r = k \<and>
     op_previous_publication_receipt_digest r = previous"

definition receipts_fit :: "(byte list \<Rightarrow> byte list) \<Rightarrow> OperationalPublicationReceipt \<Rightarrow> int \<Rightarrow>
    string option \<Rightarrow> OperationalPublicationReceipt list \<Rightarrow> bool" where
  "receipts_fit sha256 first k previous rs \<longleftrightarrow>
     (\<forall>c\<in>set (check_receipt_chain sha256 first k previous rs). c = None)"

lemma receipts_fit_simps [simp]:
  "receipts_fit sha256 first k previous []"
  "receipts_fit sha256 first k previous (r # rs) \<longleftrightarrow> receipt_fits first k previous r \<and>
     receipts_fit sha256 first (k + 1) (Some (receipt_digest sha256 r)) rs"
  by (auto simp: receipts_fit_def receipt_fits_def)

lemma validate_chain_iff:
  "validate_publication_receipt_chain sha256 rs = Inr rs' \<longleftrightarrow>
     rs' = rs \<and> rs \<noteq> [] \<and> receipts_fit sha256 (hd rs) 0 None rs"
  by (auto simp: validate_publication_receipt_chain_def receipts_fit_def)

lemma receipts_fit_snoc:
  "receipts_fit sha256 first k previous (rs @ [r]) \<longleftrightarrow> receipts_fit sha256 first k previous rs \<and>
     receipt_fits first (k + int (length rs))
       (if rs = [] then previous else Some (receipt_digest sha256 (last rs))) r"
  by (induction rs arbitrary: k previous) (auto simp: add.assoc add.commute)

lemma chain_snoc:
  "receipts_fit sha256 (hd (rs @ [r])) 0 None (rs @ [r]) \<longleftrightarrow>
     (rs \<noteq> [] \<longrightarrow> receipts_fit sha256 (hd rs) 0 None rs) \<and>
     receipt_fits (hd (rs @ [r])) (int (length rs))
       (if rs = [] then None else Some (receipt_digest sha256 (last rs))) r"
  by (cases rs) (auto simp: receipts_fit_snoc)

lemma publication_receipt_same:
  "publication_receipt x = Inr r \<longleftrightarrow> x = r \<and> publication_receipt r = Inr r"
proof -
  have "publication_receipt x = Inr r \<Longrightarrow> r = x" by (simp add: publication_receipt_def)
  then show ?thesis by blast
qed

text \<open>What \<^verbatim>\<open>append\<close> accepts and builds, as one equivalence.\<close>

lemma append_receipt_iff:
  "append_receipt sha256 previous (op_execution_run_id r) (op_inventory_digest r)
      (op_attempt_key r) (op_object_kind r) (op_object_digest r) (op_disposition r) = Inr r \<longleftrightarrow>
    publication_receipt r = Inr r \<and>
    receipt_fits (case previous of None \<Rightarrow> r | Some p \<Rightarrow> p)
      (case previous of None \<Rightarrow> 0 | Some p \<Rightarrow> op_publication_ordinal p + 1)
      (map_option (receipt_digest sha256) previous) r"
  (is "?append = _ \<longleftrightarrow> _ \<and> ?fits")
proof -
  let ?built = "\<lparr>op_execution_run_id = op_execution_run_id r,
    op_inventory_digest = op_inventory_digest r, op_attempt_key = op_attempt_key r,
    op_publication_ordinal = (case previous of None \<Rightarrow> 0 | Some p \<Rightarrow> op_publication_ordinal p + 1),
    op_object_kind = op_object_kind r, op_object_digest = op_object_digest r,
    op_disposition = op_disposition r,
    op_previous_publication_receipt_digest = map_option (receipt_digest sha256) previous,
    op_schema_version = OPERATIONAL_PUBLICATION_SCHEMA_VERSION\<rparr>"
  have id: "publication_receipt ?built = Inr r \<longleftrightarrow> ?built = r \<and> publication_receipt r = Inr r"
    by (rule publication_receipt_same)
  have "publication_receipt r = Inr r \<Longrightarrow>
      op_schema_version r = OPERATIONAL_PUBLICATION_SCHEMA_VERSION"
    by (simp add: publication_receipt_def)
  moreover have "?built = r \<longleftrightarrow> op_schema_version r = OPERATIONAL_PUBLICATION_SCHEMA_VERSION \<and>
      op_publication_ordinal r = (case previous of None \<Rightarrow> 0 | Some p \<Rightarrow> op_publication_ordinal p + 1) \<and>
      op_previous_publication_receipt_digest r = map_option (receipt_digest sha256) previous"
    by (cases r) auto
  moreover have "?append = Inr r \<longleftrightarrow> (case previous of None \<Rightarrow> True | Some p \<Rightarrow>
      op_execution_run_id p = op_execution_run_id r \<and>
      op_inventory_digest p = op_inventory_digest r \<and> op_attempt_key p = op_attempt_key r) \<and>
      publication_receipt ?built = Inr r"
    by (cases previous) (auto simp: append_receipt_def Let_def)
  ultimately show ?thesis unfolding id receipt_fits_def by (cases previous) auto
qed

text \<open>A list of receipts in which each one is what \<^verbatim>\<open>append\<close> returns for its
  predecessor.\<close>

fun appended :: "(byte list \<Rightarrow> byte list) \<Rightarrow> OperationalPublicationReceipt option \<Rightarrow>
    OperationalPublicationReceipt list \<Rightarrow> bool" where
  "appended sha256 previous [] = True"
| "appended sha256 previous (r # rs) =
     (append_receipt sha256 previous (op_execution_run_id r) (op_inventory_digest r)
        (op_attempt_key r) (op_object_kind r) (op_object_digest r) (op_disposition r) = Inr r \<and>
      appended sha256 (Some r) rs)"

lemma appended_iff:
  assumes "op_execution_run_id p = op_execution_run_id first"
    and "op_inventory_digest p = op_inventory_digest first"
    and "op_attempt_key p = op_attempt_key first"
  shows "appended sha256 (Some p) rs \<longleftrightarrow> (\<forall>r\<in>set rs. publication_receipt r = Inr r) \<and>
    receipts_fit sha256 first (op_publication_ordinal p + 1) (Some (receipt_digest sha256 p)) rs"
  using assms
proof (induction rs arbitrary: p)
  case (Cons r rs)
  show ?case
  proof (cases "receipt_fits p (op_publication_ordinal p + 1) (Some (receipt_digest sha256 p)) r")
    case True
    then have "receipt_fits first (op_publication_ordinal p + 1) (Some (receipt_digest sha256 p)) r"
      "op_execution_run_id r = op_execution_run_id first"
      "op_inventory_digest r = op_inventory_digest first"
      "op_attempt_key r = op_attempt_key first" "op_publication_ordinal r = op_publication_ordinal p + 1"
      using Cons.prems by (simp_all add: receipt_fits_def)
    then have "appended sha256 (Some r) rs \<longleftrightarrow> (\<forall>x\<in>set rs. publication_receipt x = Inr x) \<and>
        receipts_fit sha256 first (op_publication_ordinal p + 1 + 1)
          (Some (receipt_digest sha256 r)) rs"
      using Cons.IH [of r] by simp
    moreover have "append_receipt sha256 (Some p) (op_execution_run_id r) (op_inventory_digest r)
        (op_attempt_key r) (op_object_kind r) (op_object_digest r) (op_disposition r) = Inr r \<longleftrightarrow>
        publication_receipt r = Inr r"
      using append_receipt_iff [of sha256 "Some p" r] True by simp
    ultimately show ?thesis
      using \<open>receipt_fits first _ _ r\<close> unfolding appended.simps receipts_fit_simps by auto
  next
    case False
    then have "\<not> receipt_fits first (op_publication_ordinal p + 1)
        (Some (receipt_digest sha256 p)) r"
      using Cons.prems by (simp add: receipt_fits_def)
    then show ?thesis using False by (simp add: append_receipt_iff)
  qed
qed simp

text \<open>Appending and validating agree. A list of receipts is accepted by
  \<^verbatim>\<open>validate_publication_receipt_chain\<close>, each of them being a valid receipt, exactly
  when it is not empty and every receipt is the one that \<^verbatim>\<open>append\<close> returns for its
  predecessor.\<close>

theorem receipt_chain_append_iff:
  "validate_publication_receipt_chain sha256 rs = Inr rs \<and>
     (\<forall>r\<in>set rs. publication_receipt r = Inr r) \<longleftrightarrow> rs \<noteq> [] \<and> appended sha256 None rs"
proof (cases rs)
  case (Cons r rest)
  show ?thesis unfolding Cons using appended_iff [of r r sha256 rest]
    by (auto simp: validate_chain_iff append_receipt_iff receipt_fits_def)
qed (simp add: validate_chain_iff)

text \<open>The digest of the last receipt commits to the chain. Two validated chains whose last
  receipts have the same digest are the same chain, or two of their receipts are different byte
  strings with the same hash.\<close>

theorem receipt_chain_committed:
  assumes "validate_publication_receipt_chain sha256 rs = Inr rs"
    and "validate_publication_receipt_chain sha256 rs' = Inr rs'"
    and "receipt_digest sha256 (last rs) = receipt_digest sha256 (last rs')"
  shows "rs = rs' \<or> (\<exists>r\<in>set rs. \<exists>r'\<in>set rs'. receipt_bytes r \<noteq> receipt_bytes r' \<and>
    sha256 (receipt_bytes r) = sha256 (receipt_bytes r'))"
  using assms unfolding validate_chain_iff
proof (induction rs arbitrary: rs' rule: rev_induct)
  case (snoc r rs)
  then obtain qs q where rs': "rs' = qs @ [q]" by (metis append_butlast_last_id)
  note fits = snoc.prems(1) [THEN conjunct2, THEN conjunct2, unfolded chain_snoc]
    snoc.prems(2) [unfolded rs', THEN conjunct2, THEN conjunct2, unfolded chain_snoc]
  show ?case
  proof (cases "r = q")
    case False
    then show ?thesis using receipt_digest_equal [of sha256 r q] snoc.prems(3) unfolding rs' by auto
  next
    case True
    then have "length rs = length qs" using fits by (auto simp: receipt_fits_def)
    then show ?thesis
    proof (cases "rs = []")
      case False
      then have "qs \<noteq> []" using \<open>length rs = length qs\<close> by auto
      then have "receipt_digest sha256 (last rs) = receipt_digest sha256 (last qs)"
        using fits True False by (auto simp: receipt_fits_def)
      then show ?thesis using snoc.IH [of qs] fits False \<open>qs \<noteq> []\<close> True unfolding rs' by auto
    qed (simp add: rs' True)
  qed
qed simp

end
