(* ===== verification/Attempt_Resolution.thy ===== *)
theory Attempt_Resolution
  imports Attempts
begin

section \<open>The lowest valid prefix and exhaustion\<close>

text \<open>
  The second half of \<^verbatim>\<open>synthesis/v0_4/attempts.py\<close> and
  \<^verbatim>\<open>exhaustion.py\<close>: the three outcomes of a sample and
  \<open>resolve_attempt_prefix\<close>, which decides between them from a tuple of completions; the
  histograms of an exhausted sample and its handoff to the planner.
\<close>

definition EXHAUSTION_SCHEMA_VERSION :: string where
  "EXHAUSTION_SCHEMA_VERSION = ''csd-exhaustion-evidence/0.4''"

subsection \<open>Outcomes\<close>

record AcceptedSampleReplay =
  sp_sample_key :: SampleKey
  sp_attempt_range :: AttemptRange
  sp_rejected_prefix :: "AttemptRejected list"
  sp_accepted_attempt :: AttemptAccepted

definition check_rejected_prefix ::
  "AcceptedSampleReplay \<Rightarrow> AttemptRejected \<Rightarrow> synthesis_error option list" where
  "check_rejected_prefix r x =
     [unless (sample_key (ac_attempt_key x) = sp_sample_key r)
        (AttemptReplayError ''rejected prefix belongs to a different sample''),
      unless (ac_generation_namespace_digest x =
          ac_generation_namespace_digest (sp_accepted_attempt r))
        (AttemptReplayError ''rejected prefix belongs to a different namespace''),
      unless (range_contains (sp_attempt_range r) (key_index (ac_attempt_key x)))
        (AttemptReplayError ''rejected prefix attempt is outside the declared range'')]"

definition accepted_sample_replay ::
  "AcceptedSampleReplay \<Rightarrow> synthesis_error + AcceptedSampleReplay" where
  "accepted_sample_replay r =
     (let accepted_key = ac_attempt_key (sp_accepted_attempt r);
          accepted_index = key_index accepted_key
      in checked
       ([unless (range_contains (sp_attempt_range r) accepted_index)
           (AttemptReplayError ''accepted attempt is outside the declared range''),
         unless (sample_key accepted_key = sp_sample_key r)
           (AttemptReplayError ''accepted attempt belongs to a different sample'')] @
        concat (map (check_rejected_prefix r) (sp_rejected_prefix r)) @
        [unless (map (\<lambda>x. key_index (ac_attempt_key x)) (sp_rejected_prefix r) =
             [0..accepted_index - 1])
           (AttemptReplayError ''rejected prefix must cover every lower attempt'')])
       r)"

definition replay_json :: "(byte list \<Rightarrow> byte list) \<Rightarrow> AcceptedSampleReplay \<Rightarrow> json" where
  "replay_json sha256 r = JObj
     [(''accepted_attempt_digest'',
        JStr (completion_digest sha256 (CompletionAccepted (sp_accepted_attempt r)))),
      (''attempt_range'', JInt (maximum_attempts (sp_attempt_range r))),
      (''rejected_prefix_digests'',
        string_list (map (completion_digest sha256 \<circ> CompletionRejected) (sp_rejected_prefix r))),
      (''sample_key'', sample_key_value (sp_sample_key r)),
      (''status'', JStr ''accepted'')]"

definition replay_digest :: "(byte list \<Rightarrow> byte list) \<Rightarrow> AcceptedSampleReplay \<Rightarrow> string" where
  "replay_digest sha256 r = json_digest sha256 (replay_json sha256 r)"

record IncompleteAttemptPrefix =
  ip_sample_key :: SampleKey
  ip_attempt_range :: AttemptRange
  ip_first_missing_attempt_index :: int
  ip_supplied_attempt_indices :: "int list"

definition incomplete_attempt_prefix ::
  "IncompleteAttemptPrefix \<Rightarrow> synthesis_error + IncompleteAttemptPrefix" where
  "incomplete_attempt_prefix p = checked
     [unless (range_contains (ip_attempt_range p) (ip_first_missing_attempt_index p))
        (AttemptReplayError ''first missing attempt must be inside the attempt range'')]
     p"

record ExhaustionEvidence =
  xe_sample_key :: SampleKey
  xe_generation_namespace_digest :: string
  xe_attempt_range :: AttemptRange
  xe_rejected_attempts :: "AttemptRejected list"
  xe_schema_version :: string

definition check_exhausted ::
  "ExhaustionEvidence \<Rightarrow> AttemptRejected \<Rightarrow> synthesis_error option list" where
  "check_exhausted e x =
     [unless (sample_key (ac_attempt_key x) = xe_sample_key e)
        (AttemptReplayError ''exhaustion evidence spans multiple samples''),
      unless (ac_generation_namespace_digest x = xe_generation_namespace_digest e)
        (AttemptReplayError ''exhaustion evidence spans multiple namespaces'')]"

definition exhaustion_evidence ::
  "ExhaustionEvidence \<Rightarrow> synthesis_error + ExhaustionEvidence" where
  "exhaustion_evidence e =
     (let n = maximum_attempts (xe_attempt_range e) in checked
       ([unless (length (xe_generation_namespace_digest e) = 64)
           (AttemptReplayError
             ''generation_namespace_digest must be a lowercase SHA-256 digest''),
         unless (int (length (xe_rejected_attempts e)) = n)
           (AttemptReplayError ''exhaustion must cover the complete attempt range''),
         unless (map (\<lambda>x. key_index (ac_attempt_key x)) (xe_rejected_attempts e) = [0..n - 1])
           (AttemptReplayError ''exhaustion attempts must be contiguous from zero'')] @
        concat (map (check_exhausted e) (xe_rejected_attempts e)) @
        [unless (xe_schema_version e = EXHAUSTION_SCHEMA_VERSION)
           (AttemptReplayError (''exhaustion schema must be '' @ EXHAUSTION_SCHEMA_VERSION))])
       e)"

subsection \<open>Histograms\<close>

text \<open>\<^verbatim>\<open>_counter_object(Counter(xs))\<close>.\<close>

definition counter_object :: "string list \<Rightarrow> synthesis_error + CanonicalObject" where
  "counter_object xs = from_pairs
     (map (\<lambda>k. (k, CvInt (int (count_list xs k)))) (sort_key utf8 (remdups xs)))"

definition rejections :: "ExhaustionEvidence \<Rightarrow> AttemptRejection list" where
  "rejections e = map ad_rejection (xe_rejected_attempts e)"

definition cause_histogram :: "ExhaustionEvidence \<Rightarrow> synthesis_error + CanonicalObject" where
  "cause_histogram e = counter_object (map (rejection_cause_value \<circ> rj_cause) (rejections e))"

definition owner_histogram :: "ExhaustionEvidence \<Rightarrow> synthesis_error + CanonicalObject" where
  "owner_histogram e =
     counter_object (map (rejection_owner_value \<circ> rejection_owner) (rejections e))"

definition detail_code_histogram :: "ExhaustionEvidence \<Rightarrow> synthesis_error + CanonicalObject" where
  "detail_code_histogram e = counter_object (map rj_detail_code (rejections e))"

definition constraint_frequency :: "ExhaustionEvidence \<Rightarrow> synthesis_error + CanonicalObject" where
  "constraint_frequency e = counter_object (concat (map rj_constraint_ids (rejections e)))"

definition candidate_constraint_ids :: "ExhaustionEvidence \<Rightarrow> string list" where
  "candidate_constraint_ids e =
     sort_key utf8 (remdups (concat (map rj_constraint_ids (rejections e))))"

definition exhaustion_json ::
  "(byte list \<Rightarrow> byte list) \<Rightarrow> ExhaustionEvidence \<Rightarrow> synthesis_error + json" where
  "exhaustion_json sha256 e =
     and_then (cause_histogram e) (\<lambda>causes.
     and_then (constraint_frequency e) (\<lambda>constraints.
     and_then (detail_code_histogram e) (\<lambda>codes.
     and_then (owner_histogram e) (\<lambda>owners. Inr (JObj
       [(''attempt_range'', JInt (maximum_attempts (xe_attempt_range e))),
        (''cause_histogram'', object_json causes),
        (''choice_ledger_digest_aggregate'', JStr (json_digest sha256
          (string_list (map ac_choice_ledger_digest (xe_rejected_attempts e))))),
        (''constraint_frequency'', object_json constraints),
        (''detail_code_histogram'', object_json codes),
        (''generation_namespace_digest'', JStr (xe_generation_namespace_digest e)),
        (''identity_ledger_digest_aggregate'', JStr (json_digest sha256
          (string_list (map ac_identity_ledger_digest (xe_rejected_attempts e))))),
        (''owner_histogram'', object_json owners),
        (''rejected_attempt_digests'', string_list
          (map (completion_digest sha256 \<circ> CompletionRejected) (xe_rejected_attempts e))),
        (''sample_key'', sample_key_value (xe_sample_key e)),
        (''schema_version'', JStr (xe_schema_version e)),
        (''status'', JStr ''exhausted'')])))))"

definition exhaustion_digest ::
  "(byte list \<Rightarrow> byte list) \<Rightarrow> ExhaustionEvidence \<Rightarrow> synthesis_error + string" where
  "exhaustion_digest sha256 e =
     and_then (exhaustion_json sha256 e) (\<lambda>j. Inr (json_digest sha256 j))"

record PlannerExhaustionHandoff =
  ph_exhaustion_digest :: string
  ph_rejection_causes :: CanonicalObject
  ph_rejection_owners :: CanonicalObject
  ph_detail_codes :: CanonicalObject
  ph_candidate_constraint_ids :: "string list"
  ph_normalized_rejection_facts :: CanonicalArray

definition planner_exhaustion_handoff ::
  "PlannerExhaustionHandoff \<Rightarrow> synthesis_error + PlannerExhaustionHandoff" where
  "planner_exhaustion_handoff h = checked
     [unless (length (ph_exhaustion_digest h) = 64)
        (AttemptReplayError ''exhaustion_digest must be a lowercase SHA-256 digest''),
      unless (ph_candidate_constraint_ids h = sort_key utf8 (ph_candidate_constraint_ids h) \<and>
          distinct (ph_candidate_constraint_ids h))
        (AttemptReplayError ''candidate constraint IDs must be unique and ordered'')]
     h"

definition handoff_json :: "PlannerExhaustionHandoff \<Rightarrow> json" where
  "handoff_json h = JObj
     [(''candidate_constraint_ids'', string_list (ph_candidate_constraint_ids h)),
      (''detail_codes'', object_json (ph_detail_codes h)),
      (''exhaustion_digest'', JStr (ph_exhaustion_digest h)),
      (''normalized_rejection_facts'', array_json (ph_normalized_rejection_facts h)),
      (''rejection_causes'', object_json (ph_rejection_causes h)),
      (''rejection_owners'', object_json (ph_rejection_owners h))]"

definition planner_handoff ::
  "(byte list \<Rightarrow> byte list) \<Rightarrow> ExhaustionEvidence \<Rightarrow> synthesis_error + PlannerExhaustionHandoff" where
  "planner_handoff sha256 e =
     and_then (exhaustion_digest sha256 e) (\<lambda>digest.
     and_then (cause_histogram e) (\<lambda>causes.
     and_then (owner_histogram e) (\<lambda>owners.
     and_then (detail_code_histogram e) (\<lambda>codes. planner_exhaustion_handoff
       \<lparr>ph_exhaustion_digest = digest, ph_rejection_causes = causes,
        ph_rejection_owners = owners, ph_detail_codes = codes,
        ph_candidate_constraint_ids = candidate_constraint_ids e,
        ph_normalized_rejection_facts =
          CanonicalArray (map (CvObject \<circ> rj_normalized_facts) (rejections e))\<rparr>))))"

subsection \<open>Resolution\<close>

datatype Resolution =
    ResolvedAccepted AcceptedSampleReplay
  | ResolvedIncomplete IncompleteAttemptPrefix
  | ResolvedExhausted ExhaustionEvidence

fun is_accepted :: "AttemptCompletion \<Rightarrow> bool" where
  "is_accepted (CompletionAccepted a) = True"
| "is_accepted (CompletionRejected a) = False"

text \<open>\<^verbatim>\<open>all(type(item) is AttemptRejected for item in items)\<close> and the cast.\<close>

fun as_rejections :: "AttemptCompletion list \<Rightarrow> AttemptRejected list option" where
  "as_rejections [] = Some []"
| "as_rejections (CompletionRejected a # cs) = map_option ((#) a) (as_rejections cs)"
| "as_rejections (CompletionAccepted a # cs) = None"

text \<open>The first position of an enumeration whose value differs from it, else the length.\<close>

fun first_gap :: "int \<Rightarrow> int list \<Rightarrow> int" where
  "first_gap k [] = k"
| "first_gap k (i # is) = (if k \<noteq> i then k else first_gap (k + 1) is)"

definition check_completions ::
  "AttemptRange \<Rightarrow> AttemptCompletion list \<Rightarrow> synthesis_error option list" where
  "check_completions r ordered =
     (let indices = map completion_index ordered;
          accepted = filter (\<lambda>i. is_accepted (ordered ! i)) [0..<length ordered]
      in
       [unless (distinct indices)
          (AttemptReplayError ''attempt completions contain duplicate indices''),
        unless (list_all (range_contains r) indices)
          (AttemptReplayError ''attempt completion index is outside the declared range''),
        unless (\<forall>c\<in>set ordered. completion_sample c = completion_sample (hd ordered))
          (AttemptReplayError ''attempt completions span multiple samples''),
        unless (\<forall>c\<in>set ordered. completion_namespace c = completion_namespace (hd ordered))
          (AttemptReplayError ''attempt completions span multiple namespaces''),
        unless (length accepted \<le> 1)
          (AttemptReplayError ''attempt prefix contains multiple accepted completions''),
        unless (accepted \<noteq> [] \<longrightarrow> hd accepted = length ordered - 1)
          (PostAcceptanceCompletionError
            ''semantic completions after acceptance are prohibited'')])"

definition resolve_ordered ::
  "AttemptRange \<Rightarrow> AttemptCompletion list \<Rightarrow> synthesis_error + Resolution" where
  "resolve_ordered r ordered =
     (let sample = completion_sample (hd ordered);
          namespace_digest = completion_namespace (hd ordered);
          indices = map completion_index ordered;
          first_missing = first_gap 0 indices;
          incomplete = (\<lambda>missing. and_then (incomplete_attempt_prefix
            \<lparr>ip_sample_key = sample, ip_attempt_range = r,
             ip_first_missing_attempt_index = missing,
             ip_supplied_attempt_indices = indices\<rparr>) (Inr \<circ> ResolvedIncomplete))
      in if first_missing < int (length indices) \<or> hd indices \<noteq> 0
         then incomplete (if hd indices \<noteq> 0 then 0 else first_missing)
         else (case last ordered of
             CompletionAccepted accepted \<Rightarrow> (case as_rejections (butlast ordered) of
                 None \<Rightarrow> Inl (AttemptReplayError
                   ''lower attempt prefix must contain only rejections'')
               | Some rejected \<Rightarrow> and_then (accepted_sample_replay
                   \<lparr>sp_sample_key = sample, sp_attempt_range = r,
                    sp_rejected_prefix = rejected, sp_accepted_attempt = accepted\<rparr>)
                   (Inr \<circ> ResolvedAccepted))
           | CompletionRejected _ \<Rightarrow>
               if int (length ordered) < maximum_attempts r
               then incomplete (int (length ordered))
               else (case as_rejections ordered of
                   None \<Rightarrow> Inl (AttemptReplayError
                     ''complete exhaustion may contain only rejections'')
                 | Some rejected \<Rightarrow> and_then (exhaustion_evidence
                     \<lparr>xe_sample_key = sample, xe_generation_namespace_digest = namespace_digest,
                      xe_attempt_range = r, xe_rejected_attempts = rejected,
                      xe_schema_version = EXHAUSTION_SCHEMA_VERSION\<rparr>)
                     (Inr \<circ> ResolvedExhausted))))"

definition resolve_attempt_prefix ::
  "AttemptRange \<Rightarrow> AttemptCompletion list \<Rightarrow> synthesis_error + Resolution" where
  "resolve_attempt_prefix r completions =
     (if completions = []
      then Inl (AttemptReplayError ''attempt completions must be a nonempty immutable tuple'')
      else let ordered = sort_key completion_index completions
           in and_then (checked (check_completions r ordered) ordered) (resolve_ordered r))"

end
