(* ===== verification/Attempt_Facts.thy ===== *)
theory Attempt_Facts
  imports Attempt_Resolution
begin

section \<open>Facts about resolution\<close>

text \<open>
  The tests of \<open>resolve_attempt_prefix\<close> as conditions on the sorted tuple, the gap of an
  enumeration, and the equation of a sorted tuple with distinct keys.
\<close>

subsection \<open>Sorting by a distinct key\<close>

lemma distinct_map_mset: "mset xs = mset ys \<Longrightarrow> distinct (map k xs) \<longleftrightarrow> distinct (map k ys)"
  by (metis mset_eq_imp_distinct_iff mset_map)

lemma distinct_map_sort_key [simp]: "distinct (map k (sort_key f xs)) \<longleftrightarrow> distinct (map k xs)"
  by (rule distinct_map_mset) simp

lemma sort_key_unique:
  assumes "mset xs = mset ys" and "distinct (map k ys)" and "sorted (map k ys)"
  shows "sort_key k xs = ys"
  using assms mset_eq_setD [OF assms(1)] by (intro sort_key_inj_key_eq) (simp_all add: distinct_map)

lemma sort_key_permuted:
  assumes "mset xs = mset ys" and "distinct (map k ys)"
  shows "sort_key k xs = sort_key k ys"
proof (rule sort_key_unique)
  show "mset xs = mset (sort_key k ys)" using assms(1) by simp
  show "distinct (map k (sort_key k ys))" using assms(2) by simp
qed simp

subsection \<open>Gaps\<close>

lemma first_gap_bounds: "k \<le> first_gap k is \<and> first_gap k is \<le> k + int (length is)"
proof (induction "is" arbitrary: k)
  case (Cons i "is")
  from Cons.IH [of "k + 1"] show ?case by auto
qed simp

lemma first_gap_full:
  "first_gap k is = k + int (length is) \<longleftrightarrow> is = [k..k + int (length is) - 1]"
proof (induction "is" arbitrary: k)
  case (Cons i "is")
  have "[k..k + int (length (i # is)) - 1] = k # [k + 1..k + 1 + int (length is) - 1]"
    by (simp add: upto_rec1 algebra_simps)
  then show ?case using Cons.IH [of "k + 1"] by (auto simp: algebra_simps)
qed simp

lemma first_gap_least:
  assumes "sorted_wrt (<) is" and "\<forall>i\<in>set is. k \<le> i"
  shows "first_gap k is \<notin> set is \<and> (\<forall>j. k \<le> j \<and> j < first_gap k is \<longrightarrow> j \<in> set is)"
  using assms
proof (induction "is" arbitrary: k)
  case (Cons i "is")
  show ?case
  proof (cases "k = i")
    case True
    then have low: "\<forall>j\<in>set is. k + 1 \<le> j" using Cons.prems(1) by auto
    note IH = Cons.IH [of "k + 1", OF _ low]
    have "j \<in> set (i # is)" if "k \<le> j" "j < first_gap (k + 1) is" for j
      using that IH Cons.prems(1) True by (metis less_le zless_imp_add1_zle list.set_intros
          sorted_wrt.simps(2))
    then show ?thesis
      using True IH Cons.prems(1) first_gap_bounds [of "k + 1" "is"] by auto
  next
    case False
    then show ?thesis using Cons.prems by fastforce
  qed
qed simp

subsection \<open>The tests\<close>

lemma as_rejections_Some [simp]:
  "as_rejections cs = Some rs \<longleftrightarrow> cs = map CompletionRejected rs"
  by (induction cs arbitrary: rs rule: as_rejections.induct) auto

lemma as_rejections_map [simp]: "as_rejections (map CompletionRejected rs) = Some rs"
  by simp

lemma map_rejected_inject [simp]:
  "map CompletionRejected rs = map CompletionRejected rs' \<longleftrightarrow> rs = rs'"
  by (auto simp: inj_map_eq_map inj_def)

lemma not_acceptedE:
  assumes "\<not> is_accepted c" obtains x where "c = CompletionRejected x"
  using assms by (cases c) auto

lemma as_rejections_total:
  assumes "\<forall>c\<in>set cs. \<not> is_accepted c"
  obtains rs where "cs = map CompletionRejected rs"
proof -
  have "\<exists>rs. cs = map CompletionRejected rs" using assms
  proof (induction cs)
    case (Cons c cs)
    then obtain rs a where "cs = map CompletionRejected rs" "c = CompletionRejected a"
      by (cases c) auto
    then have "c # cs = map CompletionRejected (a # rs)" by simp
    then show ?case by (rule exI)
  qed simp
  then show thesis using that by blast
qed

lemma accepted_positions:
  assumes "xs \<noteq> []"
  defines "pos \<equiv> filter (\<lambda>i. is_accepted (xs ! i)) [0..<length xs]"
  shows "length pos \<le> 1 \<and> (pos \<noteq> [] \<longrightarrow> hd pos = length xs - 1) \<longleftrightarrow>
    (\<forall>c\<in>set (butlast xs). \<not> is_accepted c)"
proof -
  let ?low = "filter (\<lambda>i. is_accepted (xs ! i)) [0..<length xs - 1]"
  have "[0..<length xs] = [0..<length xs - 1] @ [length xs - 1]"
    using assms(1) by (metis Suc_diff_1 length_greater_0_conv upt_Suc_append zero_le)
  then have pos: "pos = ?low @ (if is_accepted (last xs) then [length xs - 1] else [])"
    using assms(1) by (simp add: pos_def last_conv_nth)
  have low: "?low = [] \<longleftrightarrow> (\<forall>c\<in>set (butlast xs). \<not> is_accepted c)"
    by (force simp: filter_empty_conv in_set_conv_nth nth_butlast)
  show ?thesis
  proof (cases "?low = []")
    case False
    then have "hd ?low < length xs - 1"
      using hd_in_set [OF False] by simp
    moreover have "hd pos = hd ?low" using False pos by simp
    ultimately show ?thesis using False pos low by auto
  qed (use low pos in auto)
qed

definition consistent :: "AttemptRange \<Rightarrow> AttemptCompletion list \<Rightarrow> bool" where
  "consistent r cs \<longleftrightarrow> distinct (map completion_index cs) \<and>
     (\<forall>c\<in>set cs. range_contains r (completion_index c) \<and>
        completion_sample c = completion_sample (hd cs) \<and>
        completion_namespace c = completion_namespace (hd cs))"

lemma check_completions_None:
  assumes "xs \<noteq> []"
  shows "(\<forall>c\<in>set (check_completions r xs). c = None) \<longleftrightarrow>
    consistent r xs \<and> (\<forall>c\<in>set (butlast xs). \<not> is_accepted c)"
  unfolding accepted_positions [OF assms, symmetric]
  by (auto simp: check_completions_def Let_def consistent_def list_all_iff)

lemma resolve_Inr:
  "resolve_attempt_prefix r cs = Inr x \<longleftrightarrow> cs \<noteq> [] \<and>
     consistent r (sort_key completion_index cs) \<and>
     (\<forall>c\<in>set (butlast (sort_key completion_index cs)). \<not> is_accepted c) \<and>
     resolve_ordered r (sort_key completion_index cs) = Inr x"
proof (cases "cs = []")
  case False
  then have "sort_key completion_index cs \<noteq> []"
    by (metis length_0_conv length_sort)
  then show ?thesis using False check_completions_None
    by (auto simp: resolve_attempt_prefix_def Let_def)
qed (simp add: resolve_attempt_prefix_def)

lemma resolve_distinct:
  "resolve_attempt_prefix r cs = Inr x \<Longrightarrow> distinct (map completion_index cs)"
  unfolding resolve_Inr consistent_def distinct_map_sort_key by blast

lemma contiguous:
  assumes "is \<noteq> []"
  shows "first_gap 0 is < int (length is) \<or> hd is \<noteq> 0 \<longleftrightarrow> is \<noteq> [0..int (length is) - 1]"
proof -
  have "hd [0..int (length is) - 1] = 0"
    using assms by (subst upto_rec1) auto
  then show ?thesis
    using first_gap_bounds [of 0 "is"] first_gap_full [of 0 "is"] by auto
qed

text \<open>The two branches of \<open>resolve_ordered\<close>, with the gap test as one equation.\<close>

lemma resolve_ordered_gap:
  assumes "xs \<noteq> []" and "map completion_index xs \<noteq> [0..int (length xs) - 1]"
  shows "resolve_ordered r xs = (let missing = (if completion_index (hd xs) \<noteq> 0 then 0
      else first_gap 0 (map completion_index xs))
    in and_then (incomplete_attempt_prefix \<lparr>ip_sample_key = completion_sample (hd xs),
        ip_attempt_range = r, ip_first_missing_attempt_index = missing,
        ip_supplied_attempt_indices = map completion_index xs\<rparr>) (Inr \<circ> ResolvedIncomplete))"
proof -
  have "map completion_index xs \<noteq> []" using assms(1) by simp
  from contiguous [OF this] show ?thesis using assms
    by (simp add: resolve_ordered_def Let_def hd_map)
qed

lemma resolve_ordered_contiguous:
  assumes "xs \<noteq> []" and "map completion_index xs = [0..int (length xs) - 1]"
  shows "resolve_ordered r xs = (case last xs of
      CompletionAccepted accepted \<Rightarrow> (case as_rejections (butlast xs) of
          None \<Rightarrow> Inl (AttemptReplayError ''lower attempt prefix must contain only rejections'')
        | Some rejected \<Rightarrow> and_then (accepted_sample_replay
            \<lparr>sp_sample_key = completion_sample (hd xs), sp_attempt_range = r,
             sp_rejected_prefix = rejected, sp_accepted_attempt = accepted\<rparr>)
            (Inr \<circ> ResolvedAccepted))
    | CompletionRejected _ \<Rightarrow>
        if int (length xs) < maximum_attempts r
        then and_then (incomplete_attempt_prefix \<lparr>ip_sample_key = completion_sample (hd xs),
          ip_attempt_range = r, ip_first_missing_attempt_index = int (length xs),
          ip_supplied_attempt_indices = map completion_index xs\<rparr>) (Inr \<circ> ResolvedIncomplete)
        else (case as_rejections xs of
            None \<Rightarrow> Inl (AttemptReplayError
              ''complete exhaustion may contain only rejections'')
          | Some rejected \<Rightarrow> and_then (exhaustion_evidence
              \<lparr>xe_sample_key = completion_sample (hd xs),
               xe_generation_namespace_digest = completion_namespace (hd xs),
               xe_attempt_range = r, xe_rejected_attempts = rejected,
               xe_schema_version = EXHAUSTION_SCHEMA_VERSION\<rparr>)
              (Inr \<circ> ResolvedExhausted)))"
proof -
  have "map completion_index xs \<noteq> []" using assms(1) by simp
  from contiguous [OF this] assms(2) have "\<not> (first_gap 0 (map completion_index xs) <
      int (length xs) \<or> hd (map completion_index xs) \<noteq> 0)"
    by simp
  then show ?thesis by (simp add: resolve_ordered_def Let_def)
qed

end
