(* ===== verification/Attempt_Properties.thy ===== *)
theory Attempt_Properties
  imports Attempt_Facts
begin

section \<open>Properties of resolution and exhaustion\<close>

text \<open>
  When a tuple of completions resolves to acceptance, to exhaustion or to an incomplete prefix;
  that the order of the tuple does not matter; that an acceptance is final; and that an exhausted
  sample always yields its handoff, with exact counts.
\<close>

abbreviation rejected_index :: "AttemptRejected \<Rightarrow> int" where
  "rejected_index x \<equiv> key_index (ac_attempt_key x)"

text \<open>All completions of one sample and one namespace.\<close>

definition same_origin :: "'a CompletionEvidence_scheme \<Rightarrow> 'b CompletionEvidence_scheme \<Rightarrow> bool" where
  "same_origin a b \<longleftrightarrow> sample_key (ac_attempt_key a) = sample_key (ac_attempt_key b) \<and>
     ac_generation_namespace_digest a = ac_generation_namespace_digest b"

lemma upto_indices:
  assumes "map k xs = [0..n - 1]"
  shows "distinct (map k xs)" "sorted (map k xs)" "\<forall>x\<in>set xs. 0 \<le> k x \<and> k x < n"
    "0 \<le> n \<Longrightarrow> int (length xs) = n"
proof -
  show "distinct (map k xs)" "sorted (map k xs)" by (simp_all add: assms)
  have "k ` set xs = {0..n - 1}" using assms by (metis set_map set_upto)
  then show "\<forall>x\<in>set xs. 0 \<le> k x \<and> k x < n" by (auto simp: set_eq_iff image_iff)
  show "0 \<le> n \<Longrightarrow> int (length xs) = n" using assms by (metis length_map length_upto int_nat_eq
        diff_add_cancel add.commute diff_0 uminus_add_conv_diff int_nat_eq diff_diff_eq2 diff_zero)
qed

lemma last_rejected:
  assumes "xs \<noteq> []" and "\<forall>c\<in>set (butlast xs). \<not> is_accepted c" and "last xs = CompletionRejected x"
  obtains rs where "xs = map CompletionRejected rs"
proof -
  have "\<forall>c\<in>set xs. \<not> is_accepted c"
    using assms append_butlast_last_id [OF assms(1)] by (metis Un_iff is_accepted.simps(2)
        rotate1.simps(2) set_ConsD set_append set_rotate1)
  then show thesis using that by (rule as_rejections_total)
qed

lemma resolve_ordered_accepted:
  assumes "xs \<noteq> []" and "\<forall>c\<in>set (butlast xs). \<not> is_accepted c"
  shows "resolve_ordered r xs = Inr (ResolvedAccepted rep) \<longleftrightarrow>
    (\<exists>rs a. xs = map CompletionRejected rs @ [CompletionAccepted a] \<and>
       map completion_index xs = [0..int (length rs)] \<and>
       accepted_sample_replay \<lparr>sp_sample_key = completion_sample (hd xs), sp_attempt_range = r,
         sp_rejected_prefix = rs, sp_accepted_attempt = a\<rparr> = Inr rep)"
proof (cases "map completion_index xs = [0..int (length xs) - 1]")
  case True
  show ?thesis
  proof (cases "last xs")
    case (CompletionAccepted a)
    obtain rs where rs: "butlast xs = map CompletionRejected rs"
      by (rule as_rejections_total [OF assms(2)])
    then have xs: "xs = map CompletionRejected rs @ [CompletionAccepted a]"
      using append_butlast_last_id [OF assms(1)] CompletionAccepted by metis
    moreover from xs have "length xs = Suc (length rs)" by simp
    ultimately show ?thesis
      using True CompletionAccepted resolve_ordered_contiguous [OF assms(1) True] rs by auto
  next
    case (CompletionRejected x)
    then show ?thesis using resolve_ordered_contiguous [OF assms(1) True]
      by (auto split: option.splits if_splits)
  qed
next
  case False
  then show ?thesis using resolve_ordered_gap [OF assms(1) False] by (auto simp: Let_def)
qed

subsection \<open>Acceptance\<close>

definition accepts ::
  "AttemptRange \<Rightarrow> AttemptRejected list \<Rightarrow> AttemptAccepted \<Rightarrow> bool" where
  "accepts r rs a \<longleftrightarrow> map rejected_index rs = [0..key_index (ac_attempt_key a) - 1] \<and>
     range_contains r (key_index (ac_attempt_key a)) \<and> (\<forall>x\<in>set rs. same_origin x a)"

lemma accepted_list:
  assumes "accepts r rs a"
  defines "xs \<equiv> map CompletionRejected rs @ [CompletionAccepted a]"
  shows "map completion_index xs = [0..int (length rs)]" and "consistent r xs"
    and "completion_sample (hd xs) = sample_key (ac_attempt_key a)"
    and "key_index (ac_attempt_key a) = int (length rs)"
proof -
  let ?k = "key_index (ac_attempt_key a)"
  have k: "0 \<le> ?k" "?k < maximum_attempts r" and idx: "map rejected_index rs = [0..?k - 1]"
    and orig: "\<forall>x\<in>set rs. same_origin x a"
    using assms(1) by (auto simp: accepts_def range_contains_def)
  show len: "?k = int (length rs)" using upto_indices(4) [OF idx k(1)] by simp
  have "[0..?k - 1] @ [?k] = [0..?k]" using k(1) by (simp add: upto_rec2)
  then show all: "map completion_index xs = [0..int (length rs)]"
    using idx len by (simp add: xs_def comp_def)
  show hd: "completion_sample (hd xs) = sample_key (ac_attempt_key a)"
    using orig by (cases rs) (auto simp: xs_def same_origin_def)
  have ns: "completion_namespace (hd xs) = ac_generation_namespace_digest a"
    using orig by (cases rs) (auto simp: xs_def same_origin_def)
  have "\<forall>c\<in>set xs. range_contains r (completion_index c)"
    using upto_indices(3) [OF idx] k by (auto simp: xs_def range_contains_def)
  then show "consistent r xs"
    using all hd ns orig by (auto simp: consistent_def xs_def same_origin_def)
qed

lemma accepted_replay_iff:
  "accepted_sample_replay \<lparr>sp_sample_key = sk, sp_attempt_range = r,
      sp_rejected_prefix = rs, sp_accepted_attempt = a\<rparr> = Inr rep \<longleftrightarrow>
    accepts r rs a \<and> sk = sample_key (ac_attempt_key a) \<and>
    rep = \<lparr>sp_sample_key = sk, sp_attempt_range = r, sp_rejected_prefix = rs,
      sp_accepted_attempt = a\<rparr>"
  (is "?lhs \<longleftrightarrow> ?rhs")
proof
  assume ?lhs
  then show ?rhs
    by (fastforce simp: accepted_sample_replay_def Let_def check_rejected_prefix_def accepts_def
        same_origin_def)
next
  assume r: ?rhs
  then have "\<forall>x\<in>set rs. range_contains r (rejected_index x)"
    using upto_indices(3) by (fastforce simp: accepts_def range_contains_def)
  then show ?lhs using r
    by (auto simp: accepted_sample_replay_def Let_def check_rejected_prefix_def accepts_def
        same_origin_def)
qed

lemma accepted_prefix:
  "resolve_attempt_prefix r cs = Inr (ResolvedAccepted rep) \<longleftrightarrow>
    (\<exists>rs a. mset cs = mset (map CompletionRejected rs @ [CompletionAccepted a]) \<and>
       map rejected_index rs = [0..key_index (ac_attempt_key a) - 1] \<and>
       range_contains r (key_index (ac_attempt_key a)) \<and> (\<forall>x\<in>set rs. same_origin x a) \<and>
       rep = \<lparr>sp_sample_key = sample_key (ac_attempt_key a), sp_attempt_range = r,
         sp_rejected_prefix = rs, sp_accepted_attempt = a\<rparr>)"
  (is "?lhs \<longleftrightarrow> ?rhs")
proof
  let ?xs = "sort_key completion_index cs"
  assume ?lhs
  then have ne: "?xs \<noteq> []" and low: "\<forall>c\<in>set (butlast ?xs). \<not> is_accepted c"
    and res: "resolve_ordered r ?xs = Inr (ResolvedAccepted rep)"
    by (auto simp: resolve_Inr) (metis length_0_conv length_sort)
  from resolve_ordered_accepted [OF ne low] res obtain rs a
    where xs: "?xs = map CompletionRejected rs @ [CompletionAccepted a]"
      and rep: "accepted_sample_replay \<lparr>sp_sample_key = completion_sample (hd ?xs),
        sp_attempt_range = r, sp_rejected_prefix = rs, sp_accepted_attempt = a\<rparr> = Inr rep"
    by blast
  have "mset cs = mset (map CompletionRejected rs @ [CompletionAccepted a])"
    by (metis mset_sort xs)
  then show ?rhs using rep unfolding accepted_replay_iff accepts_def
    by (intro exI [of _ rs] exI [of _ a]) simp
next
  assume ?rhs
  then obtain rs a where ms: "mset cs = mset (map CompletionRejected rs @ [CompletionAccepted a])"
    and acc: "accepts r rs a" and rep: "rep = \<lparr>sp_sample_key = sample_key (ac_attempt_key a),
      sp_attempt_range = r, sp_rejected_prefix = rs, sp_accepted_attempt = a\<rparr>"
    by (auto simp: accepts_def)
  let ?xs = "map CompletionRejected rs @ [CompletionAccepted a]"
  note l = accepted_list [OF acc]
  have "sort_key completion_index cs = ?xs"
    by (rule sort_key_unique [OF ms]) (simp_all only: l(1) distinct_upto sorted_upto)
  moreover have "resolve_ordered r ?xs = Inr (ResolvedAccepted rep)"
    using l(1) by (subst resolve_ordered_accepted) (auto simp: accepted_replay_iff acc rep l(3))
  moreover have "cs \<noteq> []" using ms by auto
  ultimately show ?lhs using l(2) by (auto simp: resolve_Inr)
qed

text \<open>C13: A tuple of completions resolves to acceptance exactly when it consists, in any order,
  of one accepted attempt within the range and of one rejection of the same sample and namespace
  for every lower attempt index, and of nothing else; the replay then lists the rejections in
  the order of their indices. So the accepted attempt is the lowest valid one.\<close>

theorem accepted_prefix_iff:
  "resolve_attempt_prefix r cs = Inr (ResolvedAccepted rep) \<longleftrightarrow>
    (\<exists>rs a. mset cs = mset (map CompletionRejected rs @ [CompletionAccepted a]) \<and>
       map rejected_index rs = [0..key_index (ac_attempt_key a) - 1] \<and>
       range_contains r (key_index (ac_attempt_key a)) \<and> (\<forall>x\<in>set rs. same_origin x a) \<and>
       rep = \<lparr>sp_sample_key = sample_key (ac_attempt_key a), sp_attempt_range = r,
         sp_rejected_prefix = rs, sp_accepted_attempt = a\<rparr>)"
  by (rule accepted_prefix)

subsection \<open>Exhaustion\<close>

lemma resolve_ordered_exhausted:
  assumes "xs \<noteq> []" and "\<forall>c\<in>set (butlast xs). \<not> is_accepted c"
  shows "resolve_ordered r xs = Inr (ResolvedExhausted ev) \<longleftrightarrow>
    (\<exists>rs. xs = map CompletionRejected rs \<and> map completion_index xs = [0..int (length rs) - 1] \<and>
       \<not> int (length rs) < maximum_attempts r \<and>
       exhaustion_evidence \<lparr>xe_sample_key = completion_sample (hd xs),
         xe_generation_namespace_digest = completion_namespace (hd xs),
         xe_attempt_range = r, xe_rejected_attempts = rs,
         xe_schema_version = EXHAUSTION_SCHEMA_VERSION\<rparr> = Inr ev)"
proof (cases "map completion_index xs = [0..int (length xs) - 1]")
  case True
  show ?thesis
  proof (cases "last xs")
    case (CompletionAccepted a)
    then have "xs \<noteq> map CompletionRejected rs" for rs
      using assms(1) last_map [of rs CompletionRejected] by (cases "rs = []") auto
    then show ?thesis
      using CompletionAccepted resolve_ordered_contiguous [OF assms(1) True]
      by (auto split: option.splits)
  next
    case (CompletionRejected x)
    obtain rs where "xs = map CompletionRejected rs"
      by (rule last_rejected [OF assms CompletionRejected])
    then show ?thesis
      using True CompletionRejected resolve_ordered_contiguous [OF assms(1) True] by auto
  qed
next
  case False
  then show ?thesis using resolve_ordered_gap [OF assms(1) False] by (auto simp: Let_def)
qed

lemma exhaustion_evidence_iff:
  "exhaustion_evidence \<lparr>xe_sample_key = sk, xe_generation_namespace_digest = ns,
      xe_attempt_range = r, xe_rejected_attempts = rs,
      xe_schema_version = EXHAUSTION_SCHEMA_VERSION\<rparr> = Inr ev \<longleftrightarrow>
    length ns = 64 \<and> int (length rs) = maximum_attempts r \<and>
    map rejected_index rs = [0..maximum_attempts r - 1] \<and>
    (\<forall>x\<in>set rs. sample_key (ac_attempt_key x) = sk \<and> ac_generation_namespace_digest x = ns) \<and>
    ev = \<lparr>xe_sample_key = sk, xe_generation_namespace_digest = ns, xe_attempt_range = r,
      xe_rejected_attempts = rs, xe_schema_version = EXHAUSTION_SCHEMA_VERSION\<rparr>"
  by (fastforce simp: exhaustion_evidence_def Let_def check_exhausted_def)

text \<open>A tuple of completions resolves to exhaustion exactly when it consists, in any order, of
  one rejection for every attempt index of the range, all of one sample and one namespace (whose
  digest has 64 characters), and of nothing else; the evidence lists the rejections by index.\<close>

theorem exhausted_prefix_iff:
  "resolve_attempt_prefix r cs = Inr (ResolvedExhausted ev) \<longleftrightarrow>
    (\<exists>rs. rs \<noteq> [] \<and> mset cs = mset (map CompletionRejected rs) \<and>
       map rejected_index rs = [0..maximum_attempts r - 1] \<and>
       (\<forall>x\<in>set rs. same_origin x (hd rs)) \<and>
       length (ac_generation_namespace_digest (hd rs)) = 64 \<and>
       ev = \<lparr>xe_sample_key = sample_key (ac_attempt_key (hd rs)),
         xe_generation_namespace_digest = ac_generation_namespace_digest (hd rs),
         xe_attempt_range = r, xe_rejected_attempts = rs,
         xe_schema_version = EXHAUSTION_SCHEMA_VERSION\<rparr>)"
  (is "?lhs \<longleftrightarrow> ?rhs")
proof
  let ?xs = "sort_key completion_index cs"
  assume ?lhs
  then have ne: "?xs \<noteq> []" and low: "\<forall>c\<in>set (butlast ?xs). \<not> is_accepted c"
    and res: "resolve_ordered r ?xs = Inr (ResolvedExhausted ev)"
    by (auto simp: resolve_Inr) (metis length_0_conv length_sort)
  from resolve_ordered_exhausted [OF ne low] res obtain rs
    where xs: "?xs = map CompletionRejected rs"
      and ev: "exhaustion_evidence \<lparr>xe_sample_key = completion_sample (hd ?xs),
         xe_generation_namespace_digest = completion_namespace (hd ?xs),
         xe_attempt_range = r, xe_rejected_attempts = rs,
         xe_schema_version = EXHAUSTION_SCHEMA_VERSION\<rparr> = Inr ev"
    by blast
  have "mset cs = mset (map CompletionRejected rs)" by (metis mset_sort xs)
  moreover have "rs \<noteq> []" using ne xs by auto
  moreover have "completion_sample (hd ?xs) = sample_key (ac_attempt_key (hd rs))"
    "completion_namespace (hd ?xs) = ac_generation_namespace_digest (hd rs)"
    using \<open>rs \<noteq> []\<close> by (simp_all add: xs hd_map)
  ultimately show ?rhs using ev unfolding exhaustion_evidence_iff same_origin_def
    by (intro exI [of _ rs]) simp
next
  assume ?rhs
  then obtain rs where rs: "rs \<noteq> []" "mset cs = mset (map CompletionRejected rs)"
    "map rejected_index rs = [0..maximum_attempts r - 1]" "\<forall>x\<in>set rs. same_origin x (hd rs)"
    and ns: "length (ac_generation_namespace_digest (hd rs)) = 64"
    and ev: "ev = \<lparr>xe_sample_key = sample_key (ac_attempt_key (hd rs)),
         xe_generation_namespace_digest = ac_generation_namespace_digest (hd rs),
         xe_attempt_range = r, xe_rejected_attempts = rs,
         xe_schema_version = EXHAUSTION_SCHEMA_VERSION\<rparr>"
    by blast
  let ?xs = "map CompletionRejected rs"
  have "0 \<le> maximum_attempts r" using rs(1,3) by (cases "0 \<le> maximum_attempts r - 1") auto
  note idx = upto_indices [OF rs(3)] upto_indices(4) [OF rs(3) this]
  have all: "map completion_index ?xs = [0..int (length rs) - 1]"
    using rs(3) idx(5) by (simp add: comp_def)
  have sorted: "sort_key completion_index cs = ?xs"
    by (rule sort_key_unique [OF rs(2)]) (simp_all only: all distinct_upto sorted_upto)
  define sk nd where "sk = sample_key (ac_attempt_key (hd rs))"
    and "nd = ac_generation_namespace_digest (hd rs)"
  have orig: "\<forall>x\<in>set rs. sample_key (ac_attempt_key x) = sk \<and> ac_generation_namespace_digest x = nd"
    unfolding sk_def nd_def using rs(4) [unfolded same_origin_def] by blast
  have hd: "completion_sample (hd ?xs) = sk" "completion_namespace (hd ?xs) = nd"
    using rs(1) by (simp_all add: hd_map sk_def nd_def)
  have cons: "consistent r ?xs"
    using idx(1,3) orig unfolding consistent_def hd by (simp add: range_contains_def comp_def)
  have "exhaustion_evidence \<lparr>xe_sample_key = completion_sample (hd ?xs),
      xe_generation_namespace_digest = completion_namespace (hd ?xs),
      xe_attempt_range = r, xe_rejected_attempts = rs,
      xe_schema_version = EXHAUSTION_SCHEMA_VERSION\<rparr> = Inr ev"
    using orig rs(3) ns idx(5) ev unfolding exhaustion_evidence_iff hd
    by (simp add: sk_def nd_def)
  moreover have low: "\<forall>c\<in>set (butlast ?xs). \<not> is_accepted c"
    by (auto dest!: in_set_butlastD)
  moreover have "?xs \<noteq> []" using rs(1) by simp
  ultimately have "resolve_ordered r ?xs = Inr (ResolvedExhausted ev)"
    unfolding resolve_ordered_exhausted [OF \<open>?xs \<noteq> []\<close> low]
    using all idx(5) by (intro exI [of _ rs]) simp
  moreover have "cs \<noteq> []" using rs by auto
  ultimately show ?lhs using low sorted cons unfolding resolve_Inr by simp
qed

subsection \<open>Order and finality\<close>

text \<open>The order in which the completions are supplied does not matter, for any outcome
  and any error.\<close>

theorem resolution_order_independent:
  assumes "mset cs = mset ds"
  shows "resolve_attempt_prefix r cs = resolve_attempt_prefix r ds"
proof (cases "distinct (map completion_index ds)")
  case True
  then have "sort_key completion_index cs = sort_key completion_index ds"
    by (rule sort_key_permuted [OF assms])
  moreover have "cs = [] \<longleftrightarrow> ds = []" using assms by auto
  ultimately show ?thesis by (simp add: resolve_attempt_prefix_def)
next
  case False
  then have "\<not> distinct (map completion_index (sort_key completion_index xs))"
    if "mset xs = mset ds" for xs
    using that distinct_map_mset [OF that, of completion_index] by simp
  then have "resolve_attempt_prefix r xs =
      Inl (AttemptReplayError ''attempt completions contain duplicate indices'')"
    if "mset xs = mset ds" for xs
    using that False by (auto simp: resolve_attempt_prefix_def check_completions_def Let_def
        unless_def)
  then show ?thesis using assms by metis
qed

text \<open>Acceptance is final. Once a tuple resolves to acceptance, no further completion can be
  added to it: every longer tuple is refused, so evidence after acceptance cannot change the
  answer.\<close>

theorem acceptance_is_final:
  assumes "resolve_attempt_prefix r cs = Inr (ResolvedAccepted rep)"
  shows "\<exists>e. resolve_attempt_prefix r (c # cs) = Inl e"
proof (rule ccontr)
  assume "\<nexists>e. resolve_attempt_prefix r (c # cs) = Inl e"
  then obtain x where x: "resolve_attempt_prefix r (c # cs) = Inr x"
    by (cases "resolve_attempt_prefix r (c # cs)") auto
  obtain rs a where ms: "mset cs = mset (map CompletionRejected rs @ [CompletionAccepted a])"
    and acc: "accepts r rs a"
    using assms unfolding accepted_prefix accepts_def by blast
  let ?low = "map CompletionRejected rs @ [CompletionAccepted a]"
  let ?xs = "sort_key completion_index (?low @ [c])"
  have "distinct (map completion_index (c # cs))"
    by (rule resolve_distinct [OF x])
  moreover have ms': "mset (c # cs) = mset (?low @ [c])" using ms by simp
  ultimately have dist: "distinct (map completion_index (?low @ [c]))"
    using distinct_map_mset by blast
  have xs: "sort_key completion_index (c # cs) = ?xs"
    by (rule sort_key_permuted [OF ms' dist])
  have ok: "consistent r ?xs" "\<forall>d\<in>set (butlast ?xs). \<not> is_accepted d"
    using x xs by (auto simp: resolve_Inr)
  have c: "0 \<le> completion_index c" using ok(1) by (auto simp: consistent_def range_contains_def)
  have all: "map completion_index (?low @ [c]) = [0..int (length rs)] @ [completion_index c]"
    unfolding map_append accepted_list(1) [OF acc, unfolded map_append] by simp
  then have "distinct ([0..int (length rs)] @ [completion_index c])" using dist by argo
  then have "int (length rs) < completion_index c" using c by auto
  then have "sorted (map completion_index (?low @ [c]))"
    unfolding all by (auto simp: sorted_append)
  then have "?xs = ?low @ [c]" by (rule sort_key_id_if_sorted)
  then show False using ok(2) by (auto simp: butlast_append)
qed

subsection \<open>Incomplete prefixes and refused evidence\<close>

lemma consistent_length:
  assumes "consistent r xs" and "xs \<noteq> []"
  shows "int (length xs) \<le> maximum_attempts r" and "0 < maximum_attempts r"
proof -
  have "set (map completion_index xs) \<subseteq> {0..<maximum_attempts r}" "distinct (map completion_index xs)"
    using assms by (auto simp: consistent_def range_contains_def)
  from card_mono [OF _ this(1)] distinct_card [OF this(2)]
  have "length xs \<le> nat (maximum_attempts r)" by simp
  moreover have "0 < length xs" using assms(2) by simp
  ultimately show "int (length xs) \<le> maximum_attempts r" "0 < maximum_attempts r" by linarith+
qed

lemma consistent_rejection:
  assumes "consistent r xs" and "CompletionRejected x \<in> set xs"
  shows "sample_key (ac_attempt_key x) = completion_sample (hd xs)"
    and "ac_generation_namespace_digest x = completion_namespace (hd xs)"
  using assms by (fastforce simp: consistent_def)+

lemma consistent_mset:
  assumes "mset xs = mset ys" and "ys \<noteq> []"
  shows "consistent r xs \<longleftrightarrow> consistent r ys"
proof -
  have "xs \<noteq> []" and s: "set xs = set ys" using assms mset_eq_setD by auto
  then have "hd xs \<in> set ys" "hd ys \<in> set ys" using assms(2) by (metis hd_in_set)+
  then show ?thesis using distinct_map_mset [OF assms(1), of completion_index]
    unfolding consistent_def s by metis
qed

lemma last_is_highest:
  assumes "distinct (map completion_index cs)" and "cs \<noteq> []"
  shows "(\<forall>c\<in>set (butlast (sort_key completion_index cs)). \<not> is_accepted c) \<longleftrightarrow>
    (\<forall>c\<in>set cs. is_accepted c \<longrightarrow> (\<forall>d\<in>set cs. completion_index d \<le> completion_index c))"
proof -
  let ?xs = "sort_key completion_index cs"
  have ne: "?xs \<noteq> []" using assms(2) by (metis length_0_conv length_sort)
  obtain ys z where xs: "?xs = ys @ [z]" using ne by (metis append_butlast_last_id)
  have "set cs = insert z (set ys)" by (metis set_sort xs set_append list.simps(15)
        empty_set insert_is_Un sup_commute)
  moreover have "completion_index y < completion_index z" if "y \<in> set ys" for y
  proof -
    have "sorted (map completion_index (ys @ [z]))" by (metis sorted_sort_key xs)
    moreover have "distinct (map completion_index (ys @ [z]))"
      by (metis assms(1) distinct_map_sort_key xs)
    ultimately have "completion_index y \<le> completion_index z" "completion_index y \<noteq> completion_index z"
      using that by (auto simp: sorted_append) (metis image_eqI)
    then show ?thesis by simp
  qed
  ultimately show ?thesis unfolding xs by fastforce
qed

lemma incomplete_total:
  assumes "consistent r xs" and "xs \<noteq> []" and "map completion_index xs \<noteq> [0..int (length xs) - 1]"
  shows "\<exists>x. resolve_ordered r xs = Inr x"
proof -
  have ne: "map completion_index xs \<noteq> []" using assms(2) by simp
  note c = contiguous [OF ne] and b = first_gap_bounds [of 0 "map completion_index xs"]
  from consistent_length [OF assms(1,2)] show ?thesis using c b assms(3)
    by (auto simp: resolve_ordered_gap [OF assms(2,3)] Let_def incomplete_attempt_prefix_def
        range_contains_def hd_map assms(2) first_gap_full [of 0, simplified])
qed

lemma contiguous_total:
  assumes "consistent r xs" and "xs \<noteq> []" and "map completion_index xs = [0..int (length xs) - 1]"
    and "\<forall>c\<in>set (butlast xs). \<not> is_accepted c" and "is_hex_256 (completion_namespace (hd xs))"
  shows "\<exists>x. resolve_ordered r xs = Inr x"
proof (cases "last xs")
  case (CompletionAccepted a)
  obtain rs where "butlast xs = map CompletionRejected rs"
    by (rule as_rejections_total [OF assms(4)])
  then have xs: "xs = map CompletionRejected rs @ [CompletionAccepted a]"
    using append_butlast_last_id [OF assms(2)] CompletionAccepted by metis
  then have len: "length xs = Suc (length rs)" by simp
  have "map rejected_index rs @ [key_index (ac_attempt_key a)] =
      [0..int (length rs) - 1] @ [int (length rs)]"
    using assms(3) unfolding len by (simp add: xs comp_def upto_rec2)
  then have idx: "map rejected_index rs = [0..key_index (ac_attempt_key a) - 1]"
    "key_index (ac_attempt_key a) = int (length rs)" by simp_all
  have "\<forall>c\<in>set xs. completion_sample c = completion_sample (hd xs) \<and>
      completion_namespace c = completion_namespace (hd xs) \<and> range_contains r (completion_index c)"
    using assms(1) by (simp add: consistent_def)
  then have a: "accepts r rs a" and "completion_sample (hd xs) = sample_key (ac_attempt_key a)"
    using idx unfolding accepts_def same_origin_def by (auto simp: xs)
  then have "\<exists>x. resolve_ordered r xs = Inr (ResolvedAccepted x)"
    using idx assms(3) unfolding resolve_ordered_accepted [OF assms(2,4)] accepted_replay_iff
    by (simp add: xs)
  then show ?thesis by blast
next
  case (CompletionRejected x)
  obtain rs where xs: "xs = map CompletionRejected rs"
    by (rule last_rejected [OF assms(2,4) CompletionRejected])
  show ?thesis
  proof (cases "int (length xs) < maximum_attempts r")
    case True
    then show ?thesis using CompletionRejected
      by (simp add: resolve_ordered_contiguous [OF assms(2,3)] incomplete_attempt_prefix_def
          range_contains_def)
  next
    case False
    then have "maximum_attempts r = int (length rs)"
      using consistent_length [OF assms(1,2)] by (simp add: xs)
    moreover have "length (completion_namespace (hd xs)) = 64"
      using assms(5) by (simp add: is_hex_256_def)
    moreover have "\<forall>x\<in>set rs. sample_key (ac_attempt_key x) = completion_sample (hd xs) \<and>
        ac_generation_namespace_digest x = completion_namespace (hd xs)"
      by (intro ballI conjI; rule consistent_rejection [OF assms(1)]) (simp_all add: xs)
    moreover have "map rejected_index rs = [0..int (length rs) - 1]"
      using assms(3) by (simp add: xs comp_def)
    ultimately obtain ev where "exhaustion_evidence \<lparr>xe_sample_key = completion_sample (hd xs),
        xe_generation_namespace_digest = completion_namespace (hd xs), xe_attempt_range = r,
        xe_rejected_attempts = rs, xe_schema_version = EXHAUSTION_SCHEMA_VERSION\<rparr> = Inr ev"
      by (simp only: exhaustion_evidence_iff)
    then have "\<exists>x. resolve_ordered r xs = Inr (ResolvedExhausted x)"
      using assms(3) \<open>maximum_attempts r = int (length rs)\<close> xs
      unfolding resolve_ordered_exhausted [OF assms(2,4)] by (metis length_map less_irrefl)
    then show ?thesis by blast
  qed
qed

text \<open>Evidence is refused exactly when it is inconsistent. For completions whose namespace
  digests are well formed, resolution returns an outcome if and only if the tuple is nonempty, its
  indices are distinct and in range, it is of one sample and one namespace, and an accepted
  completion, if there is one, has the highest index.\<close>

theorem resolution_total:
  assumes "\<forall>c\<in>set cs. is_hex_256 (completion_namespace c)"
  shows "(\<exists>x. resolve_attempt_prefix r cs = Inr x) \<longleftrightarrow> cs \<noteq> [] \<and> consistent r cs \<and>
    (\<forall>c\<in>set cs. is_accepted c \<longrightarrow> (\<forall>d\<in>set cs. completion_index d \<le> completion_index c))"
proof (cases "cs = []")
  case False
  let ?xs = "sort_key completion_index cs"
  have ne: "?xs \<noteq> []" using False by (metis length_0_conv length_sort)
  have con: "consistent r ?xs \<longleftrightarrow> consistent r cs"
    by (rule consistent_mset) (simp_all add: False)
  have "is_hex_256 (completion_namespace (hd ?xs))"
    using assms hd_in_set [OF ne] by simp
  then have res: "\<exists>x. resolve_ordered r ?xs = Inr x"
    if "consistent r ?xs" "\<forall>c\<in>set (butlast ?xs). \<not> is_accepted c"
    using that ne incomplete_total contiguous_total by blast
  have low: "(\<forall>c\<in>set (butlast ?xs). \<not> is_accepted c) \<longleftrightarrow>
      (\<forall>c\<in>set cs. is_accepted c \<longrightarrow> (\<forall>d\<in>set cs. completion_index d \<le> completion_index c))"
    if "consistent r cs"
  proof (rule last_is_highest)
    show "distinct (map completion_index cs)" using that by (simp add: consistent_def)
  qed (rule False)
  show ?thesis using False res con low by (auto simp: resolve_Inr)
qed (simp add: resolve_attempt_prefix_def)

lemma gap_case:
  assumes "sorted_wrt (<) (map completion_index xs)" and "\<forall>c\<in>set xs. 0 \<le> completion_index c"
    and "xs \<noteq> []" and "\<forall>c\<in>set (butlast xs). \<not> is_accepted c"
    and "map completion_index xs \<noteq> [0..int (length xs) - 1]"
    and "resolve_ordered r xs = Inr (ResolvedIncomplete p)"
  shows "range_contains r (ip_first_missing_attempt_index p) \<and>
    ip_first_missing_attempt_index p = first_gap 0 (map completion_index xs)"
    and "\<lbrakk>0 \<le> j; j < first_gap 0 (map completion_index xs); c \<in> set xs; completion_index c = j\<rbrakk>
      \<Longrightarrow> \<not> is_accepted c"
proof -
  let ?is = "map completion_index xs"
  have "first_gap 0 ?is = 0" if "completion_index (hd xs) \<noteq> 0"
    using that assms(3) by (cases xs) auto
  then show "range_contains r (ip_first_missing_attempt_index p) \<and>
    ip_first_missing_attempt_index p = first_gap 0 ?is"
    using assms(6) by (auto simp: resolve_ordered_gap [OF assms(3,5)] incomplete_attempt_prefix_def
        Let_def split: if_splits)
  assume j: "0 \<le> j" "j < first_gap 0 ?is" "c \<in> set xs" "completion_index c = j"
  show "\<not> is_accepted c"
  proof
    assume "is_accepted c"
    then have "c \<notin> set (butlast xs)" using assms(4) by auto
    then have c: "c = last xs" using j(3) by (cases xs rule: rev_cases) auto
    have "?is = map completion_index (butlast xs) @ [j]"
      using assms(3) c j(4) by (cases xs rule: rev_cases) auto
    then have top: "\<forall>i\<in>set ?is. i \<le> j" using assms(1) by (auto simp: sorted_wrt_append)
    have pos: "\<forall>i\<in>set ?is. 0 \<le> i" using assms(2) by simp
    note least = first_gap_least [OF assms(1) pos]
    have "\<not> j + 1 < first_gap 0 ?is"
      using least j(1) top by (metis add_increasing2 zero_le_one less_add_one linorder_not_le)
    then have "first_gap 0 ?is = j + 1" using j(2) by simp
    then have "{0..j} \<subseteq> set ?is" using least by auto
    then have "set ?is = {0..j}" using pos top by (intro equalityI) (auto simp del: set_map)
    moreover have "distinct ?is" "sorted ?is" using assms(1) by (simp_all only: strict_sorted_iff)
    ultimately have eq: "?is = [0..j]"
      by (intro sorted_distinct_set_unique) (simp_all only: set_upto distinct_upto sorted_upto)
    then have "length ?is = nat (j + 1)" by (simp only: length_upto)
    then have "int (length xs) = j + 1" using j(1) by simp
    then show False using assms(5) eq by simp
  qed
qed

text \<open>An incomplete resolution names the first attempt that is missing: it is in the range, the
  tuple has no completion for it, and the tuple has a rejection for every lower index.\<close>

theorem incomplete_names_first_gap:
  assumes "resolve_attempt_prefix r cs = Inr (ResolvedIncomplete p)"
  shows "range_contains r (ip_first_missing_attempt_index p) \<and>
    (\<forall>c\<in>set cs. completion_index c \<noteq> ip_first_missing_attempt_index p) \<and>
    (\<forall>j. 0 \<le> j \<and> j < ip_first_missing_attempt_index p \<longrightarrow>
       (\<exists>x. CompletionRejected x \<in> set cs \<and> rejected_index x = j))"
proof -
  let ?xs = "sort_key completion_index cs" and ?m = "ip_first_missing_attempt_index p"
  let ?is = "map completion_index ?xs"
  have ne: "?xs \<noteq> []" and low: "\<forall>c\<in>set (butlast ?xs). \<not> is_accepted c"
    and con: "consistent r ?xs" and res: "resolve_ordered r ?xs = Inr (ResolvedIncomplete p)"
    using assms by (auto simp: resolve_Inr) (metis length_0_conv length_sort)
  have srt: "sorted_wrt (<) ?is"
    using con sorted_sort_key [of completion_index cs] unfolding strict_sorted_iff consistent_def
    by blast
  have pos: "\<forall>c\<in>set ?xs. 0 \<le> completion_index c"
    using con by (auto simp: consistent_def range_contains_def)
  have set: "set cs = set ?xs" by simp
  show ?thesis
  proof (cases "?is = [0..int (length ?xs) - 1]")
    case False
    have "\<forall>i\<in>set ?is. 0 \<le> i" using pos by simp
    note g = gap_case [OF srt pos ne low False res] and least = first_gap_least [OF srt this]
    have rej: "\<exists>x. CompletionRejected x \<in> set cs \<and> rejected_index x = j"
      if j: "0 \<le> j" "j < first_gap 0 ?is" for j
    proof -
      obtain c where c: "c \<in> set ?xs" "completion_index c = j"
        using least j unfolding set_map by blast
      obtain x where "c = CompletionRejected x" by (rule not_acceptedE [OF g(2) [OF j c]])
      then show ?thesis using c by auto
    qed
    from least have "first_gap 0 ?is \<notin> completion_index ` set cs"
      unfolding set_map set by (rule conjunct1)
    then have "\<forall>c\<in>set cs. completion_index c \<noteq> first_gap 0 ?is" by (metis imageI)
    moreover have "?m = first_gap 0 ?is" "range_contains r ?m" using g(1) by blast+
    ultimately show ?thesis using rej by metis
  next
    case True
    note alt = resolve_ordered_contiguous [OF ne True, of r]
    obtain x where x: "last ?xs = CompletionRejected x"
      using res alt by (cases "last ?xs") (auto split: option.splits)
    then have "int (length ?xs) < maximum_attempts r"
      using res alt by (auto split: option.splits if_splits)
    then have m: "?m = int (length ?xs)" "range_contains r ?m"
      using res alt x by (auto simp: incomplete_attempt_prefix_def)
    obtain rs where xs: "?xs = map CompletionRejected rs" by (rule last_rejected [OF ne low x])
    have img: "completion_index ` set cs = {0..?m - 1}"
      using True m(1) by (metis set set_map set_upto)
    have "\<exists>x. CompletionRejected x \<in> set cs \<and> rejected_index x = j" if "0 \<le> j \<and> j < ?m" for j
    proof -
      have "j \<in> completion_index ` set cs" using that unfolding img by simp
      then obtain c where c: "c \<in> set cs" "completion_index c = j" by blast
      moreover from this(1) have "c \<in> CompletionRejected ` set rs" by (metis set set_map xs)
      ultimately show ?thesis by auto
    qed
    moreover have "?m \<notin> completion_index ` set cs" unfolding img by simp
    ultimately show ?thesis using m(2) by (metis imageI)
  qed
qed

subsection \<open>The handoff of an exhausted sample\<close>

definition counts :: "CanonicalObject \<Rightarrow> string list \<Rightarrow> bool" where
  "counts ob xs \<longleftrightarrow> (\<forall>k v. CanonicalField k v \<in> set (object_fields ob) \<longleftrightarrow>
     k \<in> set xs \<and> v = CvInt (int (count_list xs k)))"

lemma counter_object_total:
  assumes "[] \<notin> set xs"
  obtains ob where "counter_object xs = Inr ob" and "counts ob xs"
proof -
  let ?ks = "sort_key utf8 (remdups xs)"
  let ?ps = "map (\<lambda>k. (k, CvInt (int (count_list xs k)))) ?ks"
  have "map fst ?ps = ?ks" by (simp add: comp_def)
  then have "distinct (map fst ?ps)" "\<forall>p\<in>set ?ps. fst p \<noteq> []" using assms by auto
  then obtain ob where ob: "from_pairs ?ps = Inr ob"
    and ms: "mset (object_fields ob) = mset (map (\<lambda>(name, v). CanonicalField name v) ?ps)"
    by (rule from_pairs_total)
  from mset_eq_setD [OF ms] have "counts ob xs" by (auto simp: counts_def)
  then show thesis using that ob by (simp add: counter_object_def)
qed

lemma rejection_values_nonempty [simp]:
  "rejection_cause_value c \<noteq> []" "rejection_owner_value w \<noteq> []"
  by (cases c; simp) (cases w; simp)

lemmas rejection_values_nonempty_sym [simp] = rejection_values_nonempty [THEN not_sym]

text \<open>An exhausted sample always yields its handoff. For evidence that the constructor accepts,
  with constructed rejections, and a hash with 32-byte digests, the handoff is built; its cause,
  owner and detail-code histograms count exactly the attempts with each value, and its candidate
  constraints are exactly the constraints that some rejection names.\<close>

theorem exhaustion_handoff:
  assumes "\<forall>rj\<in>set (rejections e). attempt_rejection rj = Inr rj"
    and "\<forall>bs. length (sha256 bs) = 32"
  shows "\<exists>h. planner_handoff sha256 e = Inr h \<and>
    counts (ph_rejection_causes h) (map (rejection_cause_value \<circ> rj_cause) (rejections e)) \<and>
    counts (ph_rejection_owners h)
      (map (rejection_owner_value \<circ> cause_owner \<circ> rj_cause) (rejections e)) \<and>
    counts (ph_detail_codes h) (map rj_detail_code (rejections e)) \<and>
    set (ph_candidate_constraint_ids h) = (\<Union>rj\<in>set (rejections e). set (rj_constraint_ids rj))"
proof -
  have ok: "is_token (rj_detail_code rj)" "[] \<notin> set (rj_constraint_ids rj)"
    if "rj \<in> set (rejections e)" for rj
    using assms(1) that by (auto simp: attempt_rejection_def check_token_def)
  have "[] \<notin> set (map (rejection_cause_value \<circ> rj_cause) (rejections e))" by auto
  then obtain causes where causes: "cause_histogram e = Inr causes"
    "counts causes (map (rejection_cause_value \<circ> rj_cause) (rejections e))"
    unfolding cause_histogram_def by (rule counter_object_total)
  have "[] \<notin> set (map (rejection_owner_value \<circ> rejection_owner) (rejections e))" by auto
  then obtain owners where owners: "owner_histogram e = Inr owners"
    "counts owners (map (rejection_owner_value \<circ> rejection_owner) (rejections e))"
    unfolding owner_histogram_def by (rule counter_object_total)
  have "[] \<notin> set (map rj_detail_code (rejections e))" using ok(1) by fastforce
  then obtain codes where codes: "detail_code_histogram e = Inr codes"
    "counts codes (map rj_detail_code (rejections e))"
    unfolding detail_code_histogram_def by (rule counter_object_total)
  have "[] \<notin> set (concat (map rj_constraint_ids (rejections e)))" using ok(2) by auto
  then obtain freq where freq: "constraint_frequency e = Inr freq"
    unfolding constraint_frequency_def by (rule counter_object_total)
  obtain d where d: "exhaustion_digest sha256 e = Inr d" "length d = 64"
    using assms(2) causes owners codes freq
    by (auto simp: exhaustion_digest_def exhaustion_json_def json_digest_def)
  have srt: "sort_key utf8 (candidate_constraint_ids e) = candidate_constraint_ids e"
    unfolding candidate_constraint_ids_def by (rule sort_key_id_if_sorted) simp
  have own: "rejection_owner_value \<circ> rejection_owner =
      rejection_owner_value \<circ> cause_owner \<circ> rj_cause"
    by (auto simp: rejection_owner_def)
  show ?thesis
    using causes owners codes d srt unfolding own
    by (simp add: planner_handoff_def planner_exhaustion_handoff_def candidate_constraint_ids_def)
qed

end
