(* ===== verification/Attempt_Examples.thy ===== *)
theory Attempt_Examples
  imports Attempt_Properties
begin

section \<open>Witnesses of the attempt properties\<close>

text \<open>
  One sample with two attempts, the first rejected and the second accepted or rejected, and the
  properties of the resolution applied to it.
\<close>

definition zero_hash :: "byte list \<Rightarrow> byte list" where
  "zero_hash bs = replicate 32 0"

definition zeros :: string where "zeros = replicate 64 (CHR ''0'')"

definition example_sample :: SampleKey where
  "example_sample = \<lparr>release = ''v0.4'', target_id = ''t'', sample_index = 0\<rparr>"

definition example_range :: AttemptRange where
  "example_range = \<lparr>maximum_attempts = 2\<rparr>"

definition example_rejection :: AttemptRejection where
  "example_rejection = \<lparr>rj_cause = HOLDOUT_CONFLICT, rj_detail_code = ''dup'',
     rj_constraint_ids = [''c1'', ''c2''], rj_normalized_facts = CanonicalObject [],
     rj_search_branch_digest = zeros, rj_schema_version = ATTEMPT_REJECTION_SCHEMA_VERSION\<rparr>"

definition example_rejected :: "int \<Rightarrow> AttemptRejected" where
  "example_rejected i = \<lparr>ac_attempt_key = \<lparr>sample_key = example_sample, attempt_index = i\<rparr>,
     ac_generation_namespace_digest = zeros, ac_attempt_input_commitment_digest = zeros,
     ac_search_branch_digest = zeros, ac_choice_ledger_digest = zeros,
     ac_identity_ledger_digest = zeros, ac_schema_version = ATTEMPT_REPLAY_SCHEMA_VERSION,
     ad_rejection = example_rejection\<rparr>"

definition example_accepted :: "int \<Rightarrow> AttemptAccepted" where
  "example_accepted i = \<lparr>ac_attempt_key = \<lparr>sample_key = example_sample, attempt_index = i\<rparr>,
     ac_generation_namespace_digest = zeros, ac_attempt_input_commitment_digest = zeros,
     ac_search_branch_digest = zeros, ac_choice_ledger_digest = zeros,
     ac_identity_ledger_digest = zeros, ac_schema_version = ATTEMPT_REPLAY_SCHEMA_VERSION,
     aa_result = CanonicalObject []\<rparr>"

definition accepting_completions :: "AttemptCompletion list" where
  "accepting_completions =
     [CompletionAccepted (example_accepted 1), CompletionRejected (example_rejected 0)]"

definition exhausting_completions :: "AttemptCompletion list" where
  "exhausting_completions =
     [CompletionRejected (example_rejected 1), CompletionRejected (example_rejected 0)]"

definition example_replay :: AcceptedSampleReplay where
  "example_replay = \<lparr>sp_sample_key = example_sample, sp_attempt_range = example_range,
     sp_rejected_prefix = [example_rejected 0], sp_accepted_attempt = example_accepted 1\<rparr>"

definition example_exhaustion :: ExhaustionEvidence where
  "example_exhaustion = \<lparr>xe_sample_key = example_sample,
     xe_generation_namespace_digest = zeros, xe_attempt_range = example_range,
     xe_rejected_attempts = [example_rejected 0, example_rejected 1],
     xe_schema_version = EXHAUSTION_SCHEMA_VERSION\<rparr>"

lemma zeros_hex [simp]: "is_hex_256 zeros" "length zeros = 64"
  by code_simp+

lemma example_fields [simp]:
  "ac_attempt_key (example_rejected i) = \<lparr>sample_key = example_sample, attempt_index = i\<rparr>"
  "ac_attempt_key (example_accepted i) = \<lparr>sample_key = example_sample, attempt_index = i\<rparr>"
  "ac_generation_namespace_digest (example_rejected i) = zeros"
  "ac_generation_namespace_digest (example_accepted i) = zeros"
  "ad_rejection (example_rejected i) = example_rejection"
  "maximum_attempts example_range = 2"
  by (simp_all add: example_rejected_def example_accepted_def example_range_def)

lemma same_example [simp]: "same_origin (example_rejected i) (example_rejected j)"
  "same_origin (example_rejected i) (example_accepted j)"
  by (simp_all add: same_origin_def)

theorem accepted_prefix_iff_witness:
  "resolve_attempt_prefix example_range accepting_completions =
     Inr (ResolvedAccepted example_replay)"
  unfolding accepted_prefix_iff
  by (rule exI [of _ "[example_rejected 0]"], rule exI [of _ "example_accepted 1"])
    (simp add: accepting_completions_def example_replay_def range_contains_def)

theorem exhausted_prefix_iff_witness:
  "resolve_attempt_prefix example_range exhausting_completions =
     Inr (ResolvedExhausted example_exhaustion)"
  unfolding exhausted_prefix_iff
  by (rule exI [of _ "[example_rejected 0, example_rejected 1]"])
    (simp add: exhausting_completions_def example_exhaustion_def upto_rec1)

theorem resolution_order_independent_witness:
  "resolve_attempt_prefix example_range accepting_completions =
     resolve_attempt_prefix example_range (rev accepting_completions)"
  by (rule resolution_order_independent) simp

lemma example_accepting:
  "resolve_attempt_prefix example_range accepting_completions =
     Inr (ResolvedAccepted example_replay)"
  by code_simp

theorem acceptance_is_final_witness:
  "\<exists>e. resolve_attempt_prefix example_range
     (CompletionRejected (example_rejected 0) # accepting_completions) = Inl e"
  using acceptance_is_final [OF example_accepting] .

theorem resolution_total_witness:
  "\<exists>x. resolve_attempt_prefix example_range accepting_completions = Inr x"
proof -
  have "\<forall>c\<in>set accepting_completions. is_hex_256 (completion_namespace c)"
    by (simp add: accepting_completions_def)
  note this resolution_total [OF this, of example_range]
  then show ?thesis
    by (auto simp: accepting_completions_def consistent_def range_contains_def)
qed

theorem incomplete_names_first_gap_witness:
  "\<exists>p. resolve_attempt_prefix example_range [CompletionRejected (example_rejected 0)] =
     Inr (ResolvedIncomplete p) \<and> range_contains example_range (ip_first_missing_attempt_index p)"
proof -
  have "resolve_attempt_prefix example_range [CompletionRejected (example_rejected 0)] =
    Inr (ResolvedIncomplete \<lparr>ip_sample_key = example_sample, ip_attempt_range = example_range,
      ip_first_missing_attempt_index = 1, ip_supplied_attempt_indices = [0]\<rparr>)"
    by code_simp
  then show ?thesis using incomplete_names_first_gap by blast
qed

theorem exhaustion_handoff_witness:
  "\<exists>h. planner_handoff zero_hash example_exhaustion = Inr h \<and>
     counts (ph_detail_codes h) [''dup'', ''dup'']"
proof -
  have "attempt_rejection example_rejection = Inr example_rejection" by code_simp
  then have "\<forall>rj\<in>set (rejections example_exhaustion). attempt_rejection rj = Inr rj"
    by (simp add: rejections_def example_exhaustion_def)
  moreover have "\<forall>bs. length (zero_hash bs) = 32" by (simp add: zero_hash_def)
  ultimately have "\<exists>h. planner_handoff zero_hash example_exhaustion = Inr h \<and>
      counts (ph_detail_codes h) (map rj_detail_code (rejections example_exhaustion))"
    using exhaustion_handoff [of example_exhaustion zero_hash] by blast
  then show ?thesis by (simp add: rejections_def example_exhaustion_def example_rejection_def)
qed

end
