(* ===== verification/Publication_Examples.thy ===== *)
theory Publication_Examples
  imports Publication_Properties Attempt_Examples
begin

section \<open>Witnesses of the publication store\<close>

text \<open>
  A store with one published object and one with a claim that a crashed worker left behind, and
  the properties of the store applied to them.
\<close>

definition lone_call :: PublicationCall where
  "lone_call = \<lparr>pc_fault = \<lambda>_. None, pc_uuid = ''u'', pc_meanwhile = id\<rparr>"

definition example_payload :: "byte list" where "example_payload = [1]"

definition published_once :: PublicationStore where
  "published_once = pub_effect zero_hash lone_call (PublishBytes example_payload None)
     empty_publication_store"

definition example_kind :: string where "example_kind = ''shard-index''"

definition crashed_claim :: PublicationStore where
  "crashed_claim = pub_effect zero_hash lone_call
     (ClaimPublication example_kind zeros zeros None) empty_publication_store"

lemma harmless_id [simp]: "harmless sha256 id"
  by (simp add: harmless_def pub_keeps_def)

lemma lone_call_facts [simp]: "pc_meanwhile lone_call = id" "undisturbed lone_call"
  by (simp_all add: lone_call_def undisturbed_def)

lemma zero_hash_digest [simp]: "hex (zero_hash bs) = zeros"
proof -
  have "hex (replicate 32 0) = zeros" by code_simp
  then show ?thesis by (simp add: zero_hash_def)
qed

lemma published_once_run: "run_of (pub_step zero_hash) empty_publication_store
    [(lone_call, PublishBytes example_payload None)] published_once"
  by (simp add: pub_step_def published_once_def)

lemma crashed_claim_run: "run_of (pub_step zero_hash) empty_publication_store
    [(lone_call, ClaimPublication example_kind zeros zeros None)] crashed_claim"
  by (simp add: pub_step_def crashed_claim_def)

lemma publish_example:
  "publish_bytes zero_hash lone_call example_payload None empty_publication_store =
     (Inr \<lparr>pr_digest = zeros, pr_relative_path = relative_object_path zeros,
        pr_disposition = Published\<rparr>,
      \<lparr>ps_objects = [zeros \<mapsto> example_payload], ps_claims = Map.empty,
       ps_references = Map.empty, ps_temporaries = []\<rparr>)"
  by (simp add: publish_bytes_def check_expected_def store_object_path_def Let_def seq_read
      require_store_digest_def empty_publication_store_def install_payload_def seq_invoke
      create_temporary_def write_temporary_def link_object_def unlink_temporary_def
      lone_call_def)

lemma claim_example:
  "claim_publication lone_call example_kind zeros zeros None empty_publication_store =
     (Inr True, \<lparr>ps_objects = Map.empty, ps_claims = [(example_kind, zeros) \<mapsto> claim_bytes zeros],
       ps_references = Map.empty, ps_temporaries = []\<rparr>)"
proof -
  have "is_store_token example_kind" by code_simp
  then show ?thesis
    by (simp add: claim_publication_def publication_claim_path_def require_store_token_def
      require_store_digest_def Let_def seq_read empty_publication_store_def install_claim_def
      create_temporary_def write_temporary_def link_claim_def unlink_temporary_def
      invoke_stage_def lone_call_def)
qed

lemmas published_once_state = published_once_def [unfolded pub_effect.simps publish_example snd_conv]
  and crashed_claim_state = crashed_claim_def [unfolded pub_effect.simps claim_example snd_conv]

theorem published_store_verifies_witness:
  "ps_objects published_once zeros = Some example_payload \<and>
   (\<forall>d m. read_verified zero_hash d published_once \<noteq>
     (Inl (PublicationCorruptionError m), published_once))"
  using published_store_verifies [OF published_once_run] by (simp add: published_once_state)

theorem publication_claim_exclusive_witness:
  "\<exists>t. claim_publication lone_call example_kind zeros zeros None empty_publication_store =
     (Inr True, t) \<and>
   claim_publication lone_call example_kind zeros (replicate 64 (CHR ''1'')) None t =
     (Inr False, t)"
proof -
  let ?t = "\<lparr>ps_objects = Map.empty, ps_claims = [(example_kind, zeros) \<mapsto> claim_bytes zeros],
    ps_references = Map.empty, ps_temporaries = []\<rparr>"
  have "replicate 64 (CHR ''1'') \<noteq> zeros" "is_store_token example_kind"
    "is_hex_256 (replicate 64 (CHR ''1''))"
    and owner: "read_claim_owner (Some (claim_bytes zeros)) = Inr zeros" by code_simp+
  moreover have "\<exists>r. claim_publication lone_call example_kind zeros (replicate 64 (CHR ''1'')) None ?t =
      (Inr r, ?t)"
    using calculation(2,3) owner by (simp add: claim_publication_def publication_claim_path_def
      require_store_token_def require_store_digest_def seq_read)
  ultimately show ?thesis
    using publication_claim_exclusive [OF run_of.stop _ claim_example run_of.stop,
        where call' = lone_call]
      claim_example by auto
qed

theorem publish_then_read_witness:
  "read_verified zero_hash zeros published_once = (Inr example_payload, published_once)"
  using publish_then_read [OF run_of.stop _ publish_example run_of.stop]
  by (simp add: published_once_state)

theorem retry_after_crash_witness:
  "\<exists>t. claim_and_publish_bytes zero_hash lone_call example_payload zeros example_kind
      (replicate 64 (CHR ''1'')) None None crashed_claim =
     (Inr \<lparr>pr_digest = zeros, pr_relative_path = relative_object_path zeros,
        pr_disposition = ExistingIdentical\<rparr>, t) \<and> ps_objects t zeros = Some example_payload"
proof -
  have "is_store_token example_kind" "is_hex_256 (replicate 64 (CHR ''1''))"
    "replicate 64 (CHR ''1'') \<noteq> zeros" by code_simp+
  then show ?thesis
    using retry_after_crash [OF crashed_claim_run, of example_kind zeros zeros example_payload
        "replicate 64 (CHR ''1'')" lone_call None None]
    by (simp add: crashed_claim_state)
qed

theorem recover_store_clears_witness:
  "recover_store zero_hash published_once =
    (Inr \<lparr>rr_temporary_objects_removed = 0, rr_authoritative_objects_verified = 0\<rparr>,
     published_once)"
  using recover_store_clears [OF published_once_run] by (simp add: published_once_state)

end
