(* ===== verification/Reconciliation_Core.thy ===== *)
theory Reconciliation_Core
  imports Publication_Shards Attempt_Resolution
begin

section \<open>Attestations and the merge of shard streams\<close>

text \<open>
  \<^verbatim>\<open>synthesis/v0_4/reconciliation_core.py\<close>: the attestation of a replayed
  completion, the entries of sealed shards with the manifest they come from, and the generator
  that merges the sorted entry streams of the shards with a heap.
\<close>

definition RECONCILIATION_POLICY_ID :: string where
  "RECONCILIATION_POLICY_ID = ''csd-streaming-reconciliation''"

definition RECONCILIATION_POLICY_VERSION :: int where "RECONCILIATION_POLICY_VERSION = 1"

definition RECONCILIATION_VALIDATION_MODE :: string where
  "RECONCILIATION_VALIDATION_MODE = ''FULL_REPLAY''"

definition REPLAY_ATTESTATION_SCHEMA_VERSION :: string where
  "REPLAY_ATTESTATION_SCHEMA_VERSION = ''csd-replay-attestation/0.4''"

definition SEMANTIC_CORPUS_RECORD_SCHEMA_VERSION :: string where
  "SEMANTIC_CORPUS_RECORD_SCHEMA_VERSION = ''csd-semantic-corpus-record/0.4''"

definition RUN_EVIDENCE_RECORD_SCHEMA_VERSION :: string where
  "RUN_EVIDENCE_RECORD_SCHEMA_VERSION = ''csd-run-evidence-record/0.4''"

definition MERKLE_NODE_SCHEMA_VERSION :: string where
  "MERKLE_NODE_SCHEMA_VERSION = ''csd-streaming-merkle-node/0.4''"

definition MERKLE_ROOT_SCHEMA_VERSION :: string where
  "MERKLE_ROOT_SCHEMA_VERSION = ''csd-streaming-merkle-root/0.4''"

definition SEMANTIC_CORPUS_MANIFEST_SCHEMA :: string where
  "SEMANTIC_CORPUS_MANIFEST_SCHEMA = ''csd-semantic-corpus-manifest/0.4''"

definition RUN_EVIDENCE_MANIFEST_SCHEMA :: string where
  "RUN_EVIDENCE_MANIFEST_SCHEMA = ''csd-run-evidence-manifest/0.4''"

definition CANONICAL_MERGE_SEAL_SCHEMA_VERSION :: string where
  "CANONICAL_MERGE_SEAL_SCHEMA_VERSION = ''csd-canonical-merge-seal/0.4''"

datatype SampleResolutionStatus = SampleAccepted | SampleExhausted

fun resolution_status_value :: "SampleResolutionStatus \<Rightarrow> string" where
  "resolution_status_value SampleAccepted = ''accepted''"
| "resolution_status_value SampleExhausted = ''exhausted''"

definition m_error :: "string \<Rightarrow> synthesis_error" where
  "m_error m = ReconciliationError m"

definition m_uint32 :: "int \<Rightarrow> string \<Rightarrow> synthesis_error option" where
  "m_uint32 v name = unless (is_uint32 v) (m_error (name @ '' must be an exact uint32''))"

definition m_digest :: "string \<Rightarrow> string \<Rightarrow> synthesis_error option" where
  "m_digest v name = unless (is_hex_256 v) (m_error (''invalid '' @ name))"

subsection \<open>Attestations\<close>

record ReplayAttestation =
  ra_attempt_key :: AttemptKey
  ra_completion_envelope_digest :: string
  ra_completion_digest :: string
  ra_replay_evidence_digest :: string
  ra_attestor_id :: string
  ra_attestor_version :: int
  ra_validation_mode :: string
  ra_schema_version :: string

definition replay_attestation :: "ReplayAttestation \<Rightarrow> synthesis_error + ReplayAttestation" where
  "replay_attestation a = checked
     [m_digest (ra_completion_envelope_digest a) ''completion_envelope_digest'',
      m_digest (ra_completion_digest a) ''completion_digest'',
      m_digest (ra_replay_evidence_digest a) ''replay_evidence_digest'',
      unless (ra_attestor_id a \<noteq> '''') (m_error ''attestor_id must be a nonempty exact string''),
      m_uint32 (ra_attestor_version a) ''attestor_version'',
      unless (ra_attestor_version a \<noteq> 0) (m_error ''attestor_version must be positive''),
      unless (ra_validation_mode a = RECONCILIATION_VALIDATION_MODE)
        (m_error ''reconciliation requires FULL_REPLAY''),
      unless (ra_schema_version a = REPLAY_ATTESTATION_SCHEMA_VERSION)
        (m_error ''unknown replay attestation schema version'')]
     a"

definition attestation_json :: "ReplayAttestation \<Rightarrow> json" where
  "attestation_json a = JObj
     [(''attempt_key'', attempt_key_value (ra_attempt_key a)),
      (''attestor_id'', JStr (ra_attestor_id a)),
      (''attestor_version'', JInt (ra_attestor_version a)),
      (''completion_digest'', JStr (ra_completion_digest a)),
      (''completion_envelope_digest'', JStr (ra_completion_envelope_digest a)),
      (''replay_evidence_digest'', JStr (ra_replay_evidence_digest a)),
      (''schema_version'', JStr (ra_schema_version a)),
      (''validation_mode'', JStr (ra_validation_mode a))]"

definition attestation_bytes :: "ReplayAttestation \<Rightarrow> byte list" where
  "attestation_bytes a = json_bytes (attestation_json a)"

definition attestation_digest :: "(byte list \<Rightarrow> byte list) \<Rightarrow> ReplayAttestation \<Rightarrow> string" where
  "attestation_digest sha256 a = json_digest sha256 (attestation_json a)"

record AttestedCompletion =
  at_publication :: PublishedCompletion
  at_completion :: AttemptCompletion
  at_attestation :: ReplayAttestation

definition attested_completion ::
  "(byte list \<Rightarrow> byte list) \<Rightarrow> AttestedCompletion \<Rightarrow> synthesis_error + AttestedCompletion" where
  "attested_completion sha256 a =
     and_then (validate_completion sha256 (pc_envelope (at_publication a)) (at_completion a)) (\<lambda>_.
     checked
       [unless (ra_attempt_key (at_attestation a) = completion_key (at_completion a))
          (m_error ''attestation belongs to another attempt''),
        unless (ra_completion_envelope_digest (at_attestation a) =
            envelope_digest sha256 (pc_envelope (at_publication a)))
          (m_error ''attestation identifies another completion envelope''),
        unless (ra_completion_digest (at_attestation a) =
            completion_digest sha256 (at_completion a))
          (m_error ''attestation identifies another semantic completion'')]
       a)"

subsection \<open>Sourced entries\<close>

record SourcedShardEntry =
  sr_entry :: ShardIndexEntry
  sr_source_manifest_digest :: string

definition sourced_entry :: "ShardIndexEntry \<Rightarrow> string \<Rightarrow> synthesis_error + SourcedShardEntry" where
  "sourced_entry e source = checked [m_digest source ''source_manifest_digest'']
     \<lparr>sr_entry = e, sr_source_manifest_digest = source\<rparr>"

definition sourced_position :: "SourcedShardEntry \<Rightarrow> int \<times> int" where
  "sourced_position x = position_key (sr_entry x)"

definition sourced_sort_key ::
  "SourcedShardEntry \<Rightarrow> int \<times> int \<times> string \<times> string \<times> string \<times> string" where
  "sourced_sort_key x = (let e = sr_entry x in
     (se_global_ordinal e, key_index (se_attempt_key e), se_completion_envelope_digest e,
      se_inventory_completion_reference_digest e, se_publication_receipt_digest e,
      sr_source_manifest_digest x))"

subsection \<open>The merge\<close>

text \<open>An entry stream yields values one by one; drawing one may raise. The heap holds the sort key,
  the index of the stream and the entry. Two heap items never have the same stream index, so the
  order of \<^verbatim>\<open>heapq\<close> never looks at the entries, and the heap is the list of its
  items in that order.\<close>

type_synonym entry_stream = "(synthesis_error + SourcedShardEntry) list"

type_synonym heap_item =
  "(int \<times> int \<times> string \<times> string \<times> string \<times> string) \<times> nat \<times> SourcedShardEntry"

definition heap_order ::
  "heap_item \<Rightarrow> (int \<times> int \<times> string \<times> string \<times> string \<times> string) \<times> nat" where
  "heap_order x = (fst x, fst (snd x))"

definition heap_push :: "heap_item \<Rightarrow> heap_item list \<Rightarrow> heap_item list" where
  "heap_push x heap = insort_key heap_order x heap"

text \<open>\<^verbatim>\<open>cursors[i].next()\<close>. The indices in the heap are always those of cursors; the
  last case only makes the function total.\<close>

definition cursor_next ::
  "entry_stream list \<Rightarrow> nat \<Rightarrow> synthesis_error + SourcedShardEntry option \<times> entry_stream list" where
  "cursor_next cursors i =
     (if i < length cursors
      then case cursors ! i of
          [] \<Rightarrow> Inr (None, cursors)
        | Inl e # rest \<Rightarrow> Inl e
        | Inr x # rest \<Rightarrow> Inr (Some x, cursors[i := rest])
      else Inr (None, cursors))"

definition push_next :: "SourcedShardEntry option \<Rightarrow> nat \<Rightarrow> heap_item list \<Rightarrow> heap_item list" where
  "push_next item i heap = (case item of
     None \<Rightarrow> heap | Some x \<Rightarrow> heap_push (sourced_sort_key x, i, x) heap)"

fun fill_heap :: "nat list \<Rightarrow> entry_stream list \<Rightarrow> heap_item list \<Rightarrow>
    synthesis_error + entry_stream list \<times> heap_item list" where
  "fill_heap [] cursors heap = Inr (cursors, heap)"
| "fill_heap (i # is) cursors heap =
     and_then (cursor_next cursors i) (\<lambda>(item, cursors').
     fill_heap is cursors' (push_next item i heap))"

lemma heap_push_length [simp]: "length (heap_push x heap) = Suc (length heap)"
  by (simp add: heap_push_def)

lemma cursor_next_size:
  assumes "cursor_next cursors i = Inr (item, cursors')"
  shows "\<forall>heap. sum_list (map length cursors') + length (push_next item i heap) =
    sum_list (map length cursors) + length heap"
proof (cases "i < length cursors \<and> cursors ! i \<noteq> []")
  case True
  then obtain x rest where i: "i < length cursors" "cursors ! i = Inr x # rest"
    and [simp]: "item = Some x" "cursors' = cursors[i := rest]"
    using assms by (auto simp: cursor_next_def split: list.splits sum.splits)
  have "length (cursors ! i) \<le> sum_list (map length cursors)"
    using elem_le_sum_list [of i "map length cursors"] i(1) by simp
  then show ?thesis using i
    by (simp add: push_next_def map_update sum_list_update)
next
  case False
  then show ?thesis using assms by (auto simp: cursor_next_def push_next_def split: if_splits)
qed

text \<open>The generator: the entries that it yields, and the exception that ends it, if one does. A
  consumer has handled all the yielded entries when it meets the exception.\<close>

definition yielding :: "'a \<Rightarrow> 'a list \<times> 'e option \<Rightarrow> 'a list \<times> 'e option" where
  "yielding x r = (x # fst r, snd r)"

function merge_loop :: "entry_stream list \<Rightarrow> heap_item list \<Rightarrow> SourcedShardEntry option \<Rightarrow>
    SourcedShardEntry list \<times> synthesis_error option" where
  "merge_loop cursors [] previous = ([], None)"
| "merge_loop cursors ((k, i, item) # heap) previous =
     (case cursor_next cursors i of
        Inl e \<Rightarrow> ([], Some e)
      | Inr (next_item, cursors') \<Rightarrow>
          if (case next_item of None \<Rightarrow> False | Some x \<Rightarrow> sourced_sort_key x < sourced_sort_key item)
          then ([], Some (m_error ''shard entry stream is not canonically sorted''))
          else (case previous of
              Some p \<Rightarrow>
                if sourced_position p = sourced_position item
                then if sr_entry p \<noteq> sr_entry item
                     then ([], Some (ReconciliationConflictError
                       ''conflicting completions occupy one inventory attempt position''))
                     else merge_loop cursors' (push_next next_item i heap) previous
                else yielding item (merge_loop cursors' (push_next next_item i heap) (Some item))
            | None \<Rightarrow> yielding item
                (merge_loop cursors' (push_next next_item i heap) (Some item))))"
  by pat_completeness auto
termination
  by (relation "measure (\<lambda>(cursors, heap, previous). sum_list (map length cursors) + length heap)")
    (auto dest!: cursor_next_size simp: less_Suc_eq_le)

definition merge_sorted_entry_streams ::
  "entry_stream list \<Rightarrow> SourcedShardEntry list \<times> synthesis_error option" where
  "merge_sorted_entry_streams streams =
     (if streams = []
      then ([], Some (m_error ''reconciliation requires a nonempty immutable stream tuple''))
      else case fill_heap [0..<length streams] streams [] of
          Inl e \<Rightarrow> ([], Some e)
        | Inr (cursors, heap) \<Rightarrow> merge_loop cursors heap None)"

end
