(* ===== verification/Reconciliation_Records.thy ===== *)
theory Reconciliation_Records
  imports Reconciliation_Core
begin

section \<open>Records and the streaming Merkle accumulator\<close>

text \<open>
  \<^verbatim>\<open>synthesis/v0_4/reconciliation_records.py\<close>: the semantic record of an accepted
  sample, the run evidence of any sample, and the accumulator that commits to a sequence of
  records with a logarithmic number of peaks. The accumulator publishes every record and every
  inner node; its calls of the store are numbered in the order in which they are made, and the
  caller supplies for each one its temporary name and the interference of other processes.
\<close>

subsection \<open>Store calls\<close>

record ReconcilerWorld =
  rw_store :: PublicationStore
  rw_calls :: nat

type_synonym 'a world_op = "(ReconcilerWorld, synthesis_error, 'a) op"

definition at_store :: "CoordinatorCall \<Rightarrow> (PublicationCall \<Rightarrow> 'a store_op) \<Rightarrow> 'a world_op" where
  "at_store c m w = (let k = rw_calls w; r = m (uninjected c k) (co_before c k (rw_store w))
     in (fst r, \<lparr>rw_store = snd r, rw_calls = Suc k\<rparr>))"

subsection \<open>Records\<close>

record SemanticCorpusRecord =
  sc_global_ordinal :: int
  sc_sample_key :: SampleKey
  sc_accepted_attempt_index :: int
  sc_accepted_completion_digest :: string
  sc_rejected_prefix_completion_digests :: "string list"
  sc_replay_attestation_digests :: "string list"
  sc_result :: CanonicalObject
  sc_schema_version :: string

definition semantic_corpus_record ::
  "SemanticCorpusRecord \<Rightarrow> synthesis_error + SemanticCorpusRecord" where
  "semantic_corpus_record r = checked
     ([m_uint32 (sc_global_ordinal r) ''global_ordinal'',
       m_uint32 (sc_accepted_attempt_index r) ''accepted_attempt_index'',
       m_digest (sc_accepted_completion_digest r) ''accepted_completion_digest'',
       unless (length (sc_replay_attestation_digests r) =
           length (sc_rejected_prefix_completion_digests r) + 1)
         (m_error ''semantic record must attest every prefix completion'')] @
      map (\<lambda>d. m_digest d ''rejected_prefix_completion_digest'')
        (sc_rejected_prefix_completion_digests r) @
      map (\<lambda>d. m_digest d ''replay_attestation_digest'') (sc_replay_attestation_digests r) @
      [unless (sc_schema_version r = SEMANTIC_CORPUS_RECORD_SCHEMA_VERSION)
         (m_error ''unknown semantic corpus record schema version'')])
     r"

definition semantic_record_json :: "SemanticCorpusRecord \<Rightarrow> json" where
  "semantic_record_json r = JObj
     [(''accepted_attempt_index'', JInt (sc_accepted_attempt_index r)),
      (''accepted_completion_digest'', JStr (sc_accepted_completion_digest r)),
      (''global_ordinal'', JInt (sc_global_ordinal r)),
      (''rejected_prefix_completion_digests'',
        string_list (sc_rejected_prefix_completion_digests r)),
      (''replay_attestation_digests'', string_list (sc_replay_attestation_digests r)),
      (''result'', object_json (sc_result r)),
      (''sample_key'', sample_key_value (sc_sample_key r)),
      (''schema_version'', JStr (sc_schema_version r))]"

definition semantic_record_bytes :: "SemanticCorpusRecord \<Rightarrow> byte list" where
  "semantic_record_bytes r = json_bytes (semantic_record_json r)"

definition semantic_record_digest ::
  "(byte list \<Rightarrow> byte list) \<Rightarrow> SemanticCorpusRecord \<Rightarrow> string" where
  "semantic_record_digest sha256 r = json_digest sha256 (semantic_record_json r)"

record RunEvidenceRecord =
  re_inventory_digest :: string
  re_global_ordinal :: int
  re_sample_key :: SampleKey
  re_source_manifest_digests :: "string list"
  re_completion_envelope_digests :: "string list"
  re_completion_digests :: "string list"
  re_replay_attestation_digests :: "string list"
  re_resolution_status :: SampleResolutionStatus
  re_selected_attempt_index :: "int option"
  re_resolution_digest :: string
  re_schema_version :: string

definition m_digests :: "string list \<Rightarrow> string \<Rightarrow> synthesis_error option list" where
  "m_digests ds name = map (\<lambda>d. m_digest d name) ds"

text \<open>An accepted sample must select an attempt, since \<open>None\<close> is not an exact
  \<^verbatim>\<open>uint32\<close>; an exhausted one must not.\<close>

definition check_selection :: "RunEvidenceRecord \<Rightarrow> synthesis_error option" where
  "check_selection r = (case re_resolution_status r of
     SampleAccepted \<Rightarrow> (case re_selected_attempt_index r of
         None \<Rightarrow> Some (m_error ''selected_attempt_index must be an exact uint32'')
       | Some i \<Rightarrow> m_uint32 i ''selected_attempt_index'')
   | SampleExhausted \<Rightarrow> unless (re_selected_attempt_index r = None)
       (m_error ''exhausted sample cannot select an attempt''))"

definition run_evidence_record :: "RunEvidenceRecord \<Rightarrow> synthesis_error + RunEvidenceRecord" where
  "run_evidence_record r = checked
     ([m_digest (re_inventory_digest r) ''inventory_digest'',
       m_uint32 (re_global_ordinal r) ''global_ordinal''] @
      m_digests (re_source_manifest_digests r) ''source_manifest_digests'' @
      m_digests (re_completion_envelope_digests r) ''completion_envelope_digests'' @
      m_digests (re_completion_digests r) ''completion_digests'' @
      m_digests (re_replay_attestation_digests r) ''replay_attestation_digests'' @
      [unless (re_completion_digests r \<noteq> [] \<and>
           length (re_completion_envelope_digests r) = length (re_completion_digests r))
         (m_error ''run evidence must identify every completion envelope''),
       unless (length (re_replay_attestation_digests r) = length (re_completion_digests r))
         (m_error ''run evidence must attest every completion''),
       check_selection r,
       m_digest (re_resolution_digest r) ''resolution_digest'',
       unless (re_schema_version r = RUN_EVIDENCE_RECORD_SCHEMA_VERSION)
         (m_error ''unknown run evidence record schema version'')])
     r"

definition run_record_json :: "RunEvidenceRecord \<Rightarrow> json" where
  "run_record_json r = JObj
     [(''completion_digests'', string_list (re_completion_digests r)),
      (''completion_envelope_digests'', string_list (re_completion_envelope_digests r)),
      (''global_ordinal'', JInt (re_global_ordinal r)),
      (''inventory_digest'', JStr (re_inventory_digest r)),
      (''replay_attestation_digests'', string_list (re_replay_attestation_digests r)),
      (''resolution_digest'', JStr (re_resolution_digest r)),
      (''resolution_status'', JStr (resolution_status_value (re_resolution_status r))),
      (''sample_key'', sample_key_value (re_sample_key r)),
      (''schema_version'', JStr (re_schema_version r)),
      (''selected_attempt_index'', (case re_selected_attempt_index r of
         None \<Rightarrow> JNull | Some i \<Rightarrow> JInt i)),
      (''source_manifest_digests'', string_list (re_source_manifest_digests r))]"

definition run_record_bytes :: "RunEvidenceRecord \<Rightarrow> byte list" where
  "run_record_bytes r = json_bytes (run_record_json r)"

definition run_record_digest :: "(byte list \<Rightarrow> byte list) \<Rightarrow> RunEvidenceRecord \<Rightarrow> string" where
  "run_record_digest sha256 r = json_digest sha256 (run_record_json r)"

subsection \<open>The accumulator\<close>

record MerklePeak =
  mp_level :: int
  mp_digest :: string
  mp_leaf_count :: int

definition merkle_peak :: "MerklePeak \<Rightarrow> synthesis_error + MerklePeak" where
  "merkle_peak p = checked
     [m_uint32 (mp_level p) ''level'', m_digest (mp_digest p) ''peak_digest'',
      m_uint32 (mp_leaf_count p) ''leaf_count'',
      unless (mp_leaf_count p \<noteq> 0) (m_error ''merkle peak must contain at least one leaf'')]
     p"

definition peak_json :: "MerklePeak \<Rightarrow> json" where
  "peak_json p = JObj [(''digest'', JStr (mp_digest p)), (''leaf_count'', JInt (mp_leaf_count p)),
     (''level'', JInt (mp_level p))]"

text \<open>The dictionary of the peaks is the association list of its items.\<close>

record MerkleAccumulator =
  mk_domain :: string
  mk_peaks :: "(int \<times> MerklePeak) list"
  mk_record_count :: int

definition merkle_accumulator :: "string \<Rightarrow> synthesis_error + MerkleAccumulator" where
  "merkle_accumulator domain = checked
     [unless (domain \<noteq> '''') (m_error ''merkle domain must be a nonempty exact string'')]
     \<lparr>mk_domain = domain, mk_peaks = [], mk_record_count = 0\<rparr>"

definition node_json :: "string \<Rightarrow> MerklePeak \<Rightarrow> MerklePeak \<Rightarrow> json" where
  "node_json domain left current = JObj
     [(''domain'', JStr domain),
      (''leaf_count'', JInt (mp_leaf_count left + mp_leaf_count current)),
      (''left_digest'', JStr (mp_digest left)),
      (''level'', JInt (mp_level current + 1)),
      (''right_digest'', JStr (mp_digest current)),
      (''schema_version'', JStr MERKLE_NODE_SCHEMA_VERSION)]"

definition node_peak ::
  "(byte list \<Rightarrow> byte list) \<Rightarrow> string \<Rightarrow> MerklePeak \<Rightarrow> MerklePeak \<Rightarrow> MerklePeak" where
  "node_peak sha256 domain left current =
     \<lparr>mp_level = mp_level current + 1,
      mp_digest = json_digest sha256 (node_json domain left current),
      mp_leaf_count = mp_leaf_count left + mp_leaf_count current\<rparr>"

text \<open>The loop of \<^verbatim>\<open>add_record\<close>: while there is a peak of the same level, publish the
  node over both and go one level up.\<close>

function carry_peaks :: "(byte list \<Rightarrow> byte list) \<Rightarrow> CoordinatorCall \<Rightarrow> string \<Rightarrow>
    (int \<times> MerklePeak) list \<Rightarrow> MerklePeak \<Rightarrow> (int \<times> MerklePeak) list world_op" where
  "carry_peaks sha256 c domain peaks current =
     (case map_of peaks (mp_level current) of
        None \<Rightarrow> ret ((mp_level current, current) # peaks)
      | Some left \<Rightarrow>
          let node = node_json domain left current in
          seq_op (at_store c (\<lambda>call. publish_bytes sha256 call (json_bytes node)
            (Some (json_digest sha256 node)))) (\<lambda>_.
          seq_op (lift_res (merkle_peak (node_peak sha256 domain left current))) (\<lambda>_.
          carry_peaks sha256 c domain (filter (\<lambda>(l, p). l \<noteq> mp_level current) peaks)
            (node_peak sha256 domain left current))))"
  by pat_completeness auto
termination
proof (relation "measure (\<lambda>(sha256, c, domain, peaks, current). length peaks)")
  show "((sha256, c, domain, filter (\<lambda>(l, p). l \<noteq> mp_level current) peaks,
      node_peak sha256 domain left current), sha256, c, domain, peaks, current)
    \<in> measure (\<lambda>(sha256, c, domain, peaks, current). length peaks)"
    if "map_of peaks (mp_level current) = Some left" for sha256 c domain peaks current left
    using map_of_SomeD [OF that] by (auto intro!: length_filter_less)
qed auto

declare carry_peaks.simps [simp del]

definition add_record :: "(byte list \<Rightarrow> byte list) \<Rightarrow> CoordinatorCall \<Rightarrow> MerkleAccumulator \<Rightarrow>
    byte list \<Rightarrow> string \<Rightarrow> (PublicationResult \<times> MerkleAccumulator) world_op" where
  "add_record sha256 c acc payload digest =
     seq_op (lift_res (checked [m_digest digest ''record_digest''] ())) (\<lambda>_.
     seq_op (at_store c (\<lambda>call. publish_bytes sha256 call payload (Some digest))) (\<lambda>result.
     seq_op (lift_res (merkle_peak \<lparr>mp_level = 0, mp_digest = digest, mp_leaf_count = 1\<rparr>))
       (\<lambda>current.
     seq_op (carry_peaks sha256 c (mk_domain acc) (mk_peaks acc) current) (\<lambda>peaks.
     ret (result, acc\<lparr>mk_peaks := peaks, mk_record_count := mk_record_count acc + 1\<rparr>)))))"

definition ordered_peaks :: "MerkleAccumulator \<Rightarrow> MerklePeak list" where
  "ordered_peaks acc = map snd (rev (sort_key fst (mk_peaks acc)))"

definition root_json :: "MerkleAccumulator \<Rightarrow> json" where
  "root_json acc = JObj
     [(''domain'', JStr (mk_domain acc)),
      (''peak_count'', JInt (int (length (ordered_peaks acc)))),
      (''peaks'', JArr (map peak_json (ordered_peaks acc))),
      (''record_count'', JInt (mk_record_count acc)),
      (''schema_version'', JStr MERKLE_ROOT_SCHEMA_VERSION)]"

definition finalize :: "(byte list \<Rightarrow> byte list) \<Rightarrow> CoordinatorCall \<Rightarrow> MerkleAccumulator \<Rightarrow>
    (string \<times> int \<times> int) world_op" where
  "finalize sha256 c acc = (let digest = json_digest sha256 (root_json acc) in
     seq_op (at_store c (\<lambda>call. publish_bytes sha256 call (json_bytes (root_json acc))
       (Some digest))) (\<lambda>_.
     ret (digest, mk_record_count acc, int (length (ordered_peaks acc)))))"

section \<open>Manifests, the merge seal and the result\<close>

text \<open>
  \<^verbatim>\<open>synthesis/v0_4/reconciliation_manifests.py\<close>: what a reconciliation publishes at
  its end and what it returns.
\<close>

record SemanticCorpusManifest =
  cm_generation_namespace_digest :: string
  cm_merkle_root_digest :: string
  cm_record_count :: int
  cm_peak_count :: int
  cm_validation_mode :: string
  cm_schema_version :: string

definition semantic_corpus_manifest ::
  "SemanticCorpusManifest \<Rightarrow> synthesis_error + SemanticCorpusManifest" where
  "semantic_corpus_manifest m = checked
     [m_digest (cm_generation_namespace_digest m) ''generation_namespace_digest'',
      m_digest (cm_merkle_root_digest m) ''merkle_root_digest'',
      m_uint32 (cm_record_count m) ''record_count'',
      m_uint32 (cm_peak_count m) ''peak_count'',
      unless (cm_validation_mode m = RECONCILIATION_VALIDATION_MODE)
        (m_error ''semantic manifest requires FULL_REPLAY''),
      unless (cm_schema_version m = SEMANTIC_CORPUS_MANIFEST_SCHEMA)
        (m_error ''unknown semantic corpus manifest schema version'')]
     m"

definition corpus_manifest_json :: "SemanticCorpusManifest \<Rightarrow> json" where
  "corpus_manifest_json m = JObj
     [(''generation_namespace_digest'', JStr (cm_generation_namespace_digest m)),
      (''merkle_root_digest'', JStr (cm_merkle_root_digest m)),
      (''peak_count'', JInt (cm_peak_count m)),
      (''record_count'', JInt (cm_record_count m)),
      (''schema_version'', JStr (cm_schema_version m)),
      (''validation_mode'', JStr (cm_validation_mode m))]"

definition corpus_manifest_bytes :: "SemanticCorpusManifest \<Rightarrow> byte list" where
  "corpus_manifest_bytes m = json_bytes (corpus_manifest_json m)"

definition corpus_manifest_digest ::
  "(byte list \<Rightarrow> byte list) \<Rightarrow> SemanticCorpusManifest \<Rightarrow> string" where
  "corpus_manifest_digest sha256 m = json_digest sha256 (corpus_manifest_json m)"

record RunEvidenceManifest =
  rm_inventory_digest :: string
  rm_shard_count :: int
  rm_source_manifest_digests :: "string list"
  rm_merkle_root_digest :: string
  rm_record_count :: int
  rm_replay_attestation_count :: int
  rm_peak_count :: int
  rm_conflict_count :: int
  rm_reconciliation_policy_id :: string
  rm_reconciliation_policy_version :: int
  rm_schema_version :: string

definition run_evidence_manifest ::
  "RunEvidenceManifest \<Rightarrow> synthesis_error + RunEvidenceManifest" where
  "run_evidence_manifest m = checked
     ([m_digest (rm_inventory_digest m) ''inventory_digest'',
       m_uint32 (rm_shard_count m) ''shard_count'',
       unless (rm_shard_count m \<noteq> 0) (m_error ''shard_count must be positive'')] @
      m_digests (rm_source_manifest_digests m) ''source_manifest_digest'' @
      [unless (sort (rm_source_manifest_digests m) = rm_source_manifest_digests m)
         (m_error ''source manifest digests must use canonical ordering''),
       unless (int (length (rm_source_manifest_digests m)) = rm_shard_count m)
         (m_error ''run manifest must identify every logical shard''),
       m_digest (rm_merkle_root_digest m) ''merkle_root_digest'',
       m_uint32 (rm_record_count m) ''record_count'',
       m_uint32 (rm_replay_attestation_count m) ''replay_attestation_count'',
       m_uint32 (rm_peak_count m) ''peak_count'',
       m_uint32 (rm_conflict_count m) ''conflict_count'',
       m_uint32 (rm_reconciliation_policy_version m) ''reconciliation_policy_version'',
       unless (rm_conflict_count m = 0)
         (m_error ''conflicted runs cannot produce a sealed manifest''),
       unless (rm_reconciliation_policy_id m = RECONCILIATION_POLICY_ID)
         (m_error ''unknown reconciliation policy''),
       unless (rm_reconciliation_policy_version m = RECONCILIATION_POLICY_VERSION)
         (m_error ''unknown reconciliation policy version''),
       unless (rm_schema_version m = RUN_EVIDENCE_MANIFEST_SCHEMA)
         (m_error ''unknown run evidence manifest schema version'')])
     m"

definition run_manifest_json :: "RunEvidenceManifest \<Rightarrow> json" where
  "run_manifest_json m = JObj
     [(''conflict_count'', JInt (rm_conflict_count m)),
      (''inventory_digest'', JStr (rm_inventory_digest m)),
      (''merkle_root_digest'', JStr (rm_merkle_root_digest m)),
      (''peak_count'', JInt (rm_peak_count m)),
      (''reconciliation_policy_id'', JStr (rm_reconciliation_policy_id m)),
      (''reconciliation_policy_version'', JInt (rm_reconciliation_policy_version m)),
      (''record_count'', JInt (rm_record_count m)),
      (''replay_attestation_count'', JInt (rm_replay_attestation_count m)),
      (''schema_version'', JStr (rm_schema_version m)),
      (''shard_count'', JInt (rm_shard_count m)),
      (''source_manifest_digests'', string_list (rm_source_manifest_digests m))]"

definition run_manifest_bytes :: "RunEvidenceManifest \<Rightarrow> byte list" where
  "run_manifest_bytes m = json_bytes (run_manifest_json m)"

definition run_manifest_digest ::
  "(byte list \<Rightarrow> byte list) \<Rightarrow> RunEvidenceManifest \<Rightarrow> string" where
  "run_manifest_digest sha256 m = json_digest sha256 (run_manifest_json m)"

record CanonicalMergeSeal =
  ms_inventory_digest :: string
  ms_semantic_corpus_manifest_digest :: string
  ms_run_evidence_manifest_digest :: string
  ms_source_manifest_digests :: "string list"
  ms_sealed :: bool
  ms_schema_version :: string

definition canonical_merge_seal :: "CanonicalMergeSeal \<Rightarrow> synthesis_error + CanonicalMergeSeal" where
  "canonical_merge_seal m = checked
     ([m_digest (ms_inventory_digest m) ''inventory_digest'',
       m_digest (ms_semantic_corpus_manifest_digest m) ''semantic_corpus_manifest_digest'',
       m_digest (ms_run_evidence_manifest_digest m) ''run_evidence_manifest_digest''] @
      m_digests (ms_source_manifest_digests m) ''source_manifest_digest'' @
      [unless (sort (ms_source_manifest_digests m) = ms_source_manifest_digests m)
         (m_error ''source manifests must use canonical ordering''),
       unless (ms_sealed m) (m_error ''canonical merge seal must be final''),
       unless (ms_schema_version m = CANONICAL_MERGE_SEAL_SCHEMA_VERSION)
         (m_error ''unknown canonical merge seal schema version'')])
     m"

definition merge_seal_json :: "CanonicalMergeSeal \<Rightarrow> json" where
  "merge_seal_json m = JObj
     [(''inventory_digest'', JStr (ms_inventory_digest m)),
      (''run_evidence_manifest_digest'', JStr (ms_run_evidence_manifest_digest m)),
      (''schema_version'', JStr (ms_schema_version m)),
      (''sealed'', JBool (ms_sealed m)),
      (''semantic_corpus_manifest_digest'', JStr (ms_semantic_corpus_manifest_digest m)),
      (''source_manifest_digests'', string_list (ms_source_manifest_digests m))]"

definition merge_seal_bytes :: "CanonicalMergeSeal \<Rightarrow> byte list" where
  "merge_seal_bytes m = json_bytes (merge_seal_json m)"

definition merge_seal_digest :: "(byte list \<Rightarrow> byte list) \<Rightarrow> CanonicalMergeSeal \<Rightarrow> string" where
  "merge_seal_digest sha256 m = json_digest sha256 (merge_seal_json m)"

record ReconciliationResult =
  rs_semantic_manifest :: SemanticCorpusManifest
  rs_run_evidence_manifest :: RunEvidenceManifest
  rs_seal :: CanonicalMergeSeal
  rs_semantic_manifest_publication :: PublicationResult
  rs_run_evidence_manifest_publication :: PublicationResult
  rs_seal_publication :: PublicationResult
  rs_sample_count :: int
  rs_accepted_sample_count :: int
  rs_exhausted_sample_count :: int
  rs_replay_attestation_count :: int
  rs_peak_buffered_entries :: int

definition reconciliation_result ::
  "ReconciliationResult \<Rightarrow> synthesis_error + ReconciliationResult" where
  "reconciliation_result r = checked
     [m_uint32 (rs_sample_count r) ''sample_count'',
      m_uint32 (rs_accepted_sample_count r) ''accepted_sample_count'',
      m_uint32 (rs_exhausted_sample_count r) ''exhausted_sample_count'',
      m_uint32 (rs_replay_attestation_count r) ''replay_attestation_count'',
      m_uint32 (rs_peak_buffered_entries r) ''peak_buffered_entries'',
      unless (rs_accepted_sample_count r + rs_exhausted_sample_count r = rs_sample_count r)
        (m_error ''sample counts do not reconcile'')]
     r"

end
