(* ===== verification/Reconciliation_Protocol.thy ===== *)
theory Reconciliation_Protocol
  imports Reconciliation_Records
begin

section \<open>The streaming reconciler\<close>

text \<open>
  \<^verbatim>\<open>synthesis/v0_4/reconciliation_protocol.py\<close>: the constructor, which verifies that
  every logical shard is sealed in the store, and \<^verbatim>\<open>reconcile\<close>, which merges the
  shards, resolves every sample, commits to the records and publishes the seal. The two callbacks
  are parameters; what they do to the store is part of the interference before the next store
  call.
\<close>

record StreamingReconciler =
  sx_inventory :: ExecutionInventory
  sx_shards :: "PublishedShard list"
  sx_completion_resolver :: "ShardIndexEntry \<Rightarrow> synthesis_error + PublishedCompletion"
  sx_replay_attestor :: "PublishedCompletion \<Rightarrow> synthesis_error + AttestedCompletion"

subsection \<open>Verifying the shards\<close>

text \<open>The body of the loop of \<^verbatim>\<open>_verify_shards\<close>.\<close>

definition require_op :: "bool \<Rightarrow> string \<Rightarrow> unit world_op" where
  "require_op ok message = lift_res (checked [unless ok (m_error message)] ())"

definition verify_shard :: "(byte list \<Rightarrow> byte list) \<Rightarrow> CoordinatorCall \<Rightarrow> ExecutionInventory \<Rightarrow>
    PublishedShard \<Rightarrow> unit world_op" where
  "verify_shard sha256 c inventory d =
     (let x = pd_index d; m = pd_manifest d; digest = inventory_digest sha256 inventory in
      seq_op (lift_res (checked
        [unless (si_inventory_digest x = digest)
           (m_error ''shard index belongs to another inventory''),
         unless (sm_inventory_digest m = digest)
           (m_error ''shard manifest belongs to another inventory''),
         unless (si_shard_count x = ei_shard_count inventory)
           (m_error ''shard index uses another shard topology''),
         unless (sm_shard_count m = ei_shard_count inventory)
           (m_error ''shard manifest uses another shard topology'')] ())) (\<lambda>_.
      seq_op (at_store c (\<lambda>_. read_verified sha256 (index_digest sha256 x))) (\<lambda>found.
      seq_op (require_op (found = index_bytes x) ''shard index object is not verified'') (\<lambda>_.
      seq_op (at_store c (\<lambda>_. read_verified sha256 (manifest_digest sha256 m))) (\<lambda>found'.
      seq_op (require_op (found' = manifest_bytes m)
        ''shard manifest object is not verified'') (\<lambda>_.
      seq_op (at_store c (\<lambda>_. reference_exists_verified sha256 ''seals'' digest
        (si_shard_index x) (manifest_digest sha256 m))) (\<lambda>exists.
      require_op exists ''shard is not durably sealed'')))))))"

fun verify_each :: "(byte list \<Rightarrow> byte list) \<Rightarrow> CoordinatorCall \<Rightarrow> ExecutionInventory \<Rightarrow>
    PublishedShard list \<Rightarrow> unit world_op" where
  "verify_each sha256 c inventory [] = ret ()"
| "verify_each sha256 c inventory (d # ds) =
     seq_op (verify_shard sha256 c inventory d) (\<lambda>_. verify_each sha256 c inventory ds)"

definition verify_shards :: "(byte list \<Rightarrow> byte list) \<Rightarrow> CoordinatorCall \<Rightarrow> StreamingReconciler \<Rightarrow>
    StreamingReconciler world_op" where
  "verify_shards sha256 c x =
     (let n = ei_shard_count (sx_inventory x);
          ordered = sort_key (\<lambda>d. si_shard_index (pd_index d)) (sx_shards x)
      in
      seq_op (lift_res (checked
        [unless (int (length (sx_shards x)) = n)
           (m_error ''reconciliation requires every logical shard''),
         unless (map (\<lambda>d. si_shard_index (pd_index d)) ordered = [0..n - 1])
           (m_error ''logical shard set is incomplete or duplicated'')] ())) (\<lambda>_.
      seq_op (verify_each sha256 c (sx_inventory x) ordered) (\<lambda>_.
      ret (x\<lparr>sx_shards := ordered\<rparr>))))"

definition shard_streams ::
  "(byte list \<Rightarrow> byte list) \<Rightarrow> StreamingReconciler \<Rightarrow> entry_stream list" where
  "shard_streams sha256 x = map (\<lambda>d.
     map (\<lambda>e. sourced_entry e (manifest_digest sha256 (pd_manifest d)))
       (si_entries (pd_index d))) (sx_shards x)"

subsection \<open>Resolving one sample\<close>

text \<open>The loop of \<^verbatim>\<open>_resolve_sample\<close>: the authority of the sample (its key and
  attempt range) is that of the first entry, the attested completions are collected in order, and
  the manifests as a set.\<close>

definition same_authority ::
  "(SampleKey \<times> AttemptRange) option \<Rightarrow> SampleExecutionSpec \<Rightarrow>
     synthesis_error + (SampleKey \<times> AttemptRange)" where
  "same_authority authority spec = (case authority of
     None \<Rightarrow> Inr (es_sample_key spec, es_attempt_range spec)
   | Some (k, r) \<Rightarrow> checked [unless (k = es_sample_key spec \<and> r = es_attempt_range spec)
       (m_error ''one sample ordinal resolved to incompatible authority'')] (k, r))"

definition resolve_entry :: "(byte list \<Rightarrow> byte list) \<Rightarrow> CoordinatorCall \<Rightarrow> StreamingReconciler \<Rightarrow>
    int \<Rightarrow> (SampleKey \<times> AttemptRange) option \<Rightarrow> SourcedShardEntry \<Rightarrow>
    ((SampleKey \<times> AttemptRange) \<times> AttestedCompletion) world_op" where
  "resolve_entry sha256 c x ordinal authority sourced =
     (let entry = sr_entry sourced; inventory = sx_inventory x in
      seq_op (lift_res (sx_completion_resolver x entry)) (\<lambda>p.
      seq_op (lift_res (checked
        [unless (envelope_digest sha256 (pc_envelope p) = se_completion_envelope_digest entry)
           (m_error ''resolved publication does not match shard entry''),
         unless (reference_digest sha256 (pc_reference p) =
             se_inventory_completion_reference_digest entry)
           (m_error ''resolved reference does not match shard entry'')] ())) (\<lambda>_.
      seq_op (lift_res (validate_reference_against sha256 (pc_reference p) inventory
        (pc_envelope p))) (\<lambda>_.
      seq_op (lift_res (reference_spec sha256 inventory (pc_reference p))) (\<lambda>spec.
      seq_op (require_op (es_global_ordinal spec = ordinal)
        ''resolved publication belongs to another sample ordinal'') (\<lambda>_.
      seq_op (lift_res (same_authority authority spec)) (\<lambda>authority'.
      seq_op (lift_res (sx_replay_attestor x p)) (\<lambda>replayed.
      seq_op (require_op (at_publication replayed = p)
        ''replay attestor returned another publication'') (\<lambda>_.
      seq_op (at_store c (\<lambda>call. publish_bytes sha256 call
        (attestation_bytes (at_attestation replayed))
        (Some (attestation_digest sha256 (at_attestation replayed))))) (\<lambda>_.
      ret (authority', replayed)))))))))))"

fun resolve_entries :: "(byte list \<Rightarrow> byte list) \<Rightarrow> CoordinatorCall \<Rightarrow> StreamingReconciler \<Rightarrow>
    int \<Rightarrow> SourcedShardEntry list \<Rightarrow> (SampleKey \<times> AttemptRange) option \<Rightarrow> AttestedCompletion list \<Rightarrow>
    ((SampleKey \<times> AttemptRange) option \<times> AttestedCompletion list) world_op" where
  "resolve_entries sha256 c x ordinal [] authority attested = ret (authority, attested)"
| "resolve_entries sha256 c x ordinal (s # ss) authority attested =
     seq_op (resolve_entry sha256 c x ordinal authority s) (\<lambda>(authority', replayed).
     resolve_entries sha256 c x ordinal ss (Some authority') (attested @ [replayed]))"

text \<open>The two records of a resolution, and the status, index and digest that go into the
  second.\<close>

definition attestation_digests ::
  "(byte list \<Rightarrow> byte list) \<Rightarrow> AttestedCompletion list \<Rightarrow> string list" where
  "attestation_digests sha256 ordered = map (attestation_digest sha256 \<circ> at_attestation) ordered"

definition semantic_record_of :: "(byte list \<Rightarrow> byte list) \<Rightarrow> int \<Rightarrow> SampleKey \<Rightarrow>
    AttestedCompletion list \<Rightarrow> AcceptedSampleReplay \<Rightarrow> SemanticCorpusRecord" where
  "semantic_record_of sha256 ordinal sample ordered rep =
     \<lparr>sc_global_ordinal = ordinal, sc_sample_key = sample,
      sc_accepted_attempt_index = key_index (ac_attempt_key (sp_accepted_attempt rep)),
      sc_accepted_completion_digest =
        completion_digest sha256 (CompletionAccepted (sp_accepted_attempt rep)),
      sc_rejected_prefix_completion_digests =
        map (completion_digest sha256 \<circ> CompletionRejected) (sp_rejected_prefix rep),
      sc_replay_attestation_digests = attestation_digests sha256 ordered,
      sc_result = aa_result (sp_accepted_attempt rep),
      sc_schema_version = SEMANTIC_CORPUS_RECORD_SCHEMA_VERSION\<rparr>"

definition conclude_resolution :: "(byte list \<Rightarrow> byte list) \<Rightarrow> int \<Rightarrow> SampleKey \<Rightarrow>
    AttestedCompletion list \<Rightarrow> Resolution \<Rightarrow> synthesis_error +
    SemanticCorpusRecord option \<times> SampleResolutionStatus \<times> int option \<times> string" where
  "conclude_resolution sha256 ordinal sample ordered resolution = (case resolution of
     ResolvedIncomplete _ \<Rightarrow>
       Inl (m_error ''incomplete attempt prefix cannot enter canonical merge'')
   | ResolvedAccepted rep \<Rightarrow>
       and_then (semantic_corpus_record (semantic_record_of sha256 ordinal sample ordered rep))
         (\<lambda>semantic. Inr (Some semantic, SampleAccepted,
            Some (sc_accepted_attempt_index semantic), replay_digest sha256 rep))
   | ResolvedExhausted ev \<Rightarrow>
       and_then (exhaustion_digest sha256 ev) (\<lambda>digest.
         Inr (None, SampleExhausted, None, digest)))"

definition run_record_of :: "(byte list \<Rightarrow> byte list) \<Rightarrow> ExecutionInventory \<Rightarrow> int \<Rightarrow> SampleKey \<Rightarrow>
    string list \<Rightarrow> AttestedCompletion list \<Rightarrow> SampleResolutionStatus \<Rightarrow> int option \<Rightarrow> string \<Rightarrow>
    RunEvidenceRecord" where
  "run_record_of sha256 inventory ordinal sample sources ordered status selected digest =
     \<lparr>re_inventory_digest = inventory_digest sha256 inventory,
      re_global_ordinal = ordinal, re_sample_key = sample,
      re_source_manifest_digests = sort (remdups sources),
      re_completion_envelope_digests =
        map (envelope_digest sha256 \<circ> pc_envelope \<circ> at_publication) ordered,
      re_completion_digests = map (completion_digest sha256 \<circ> at_completion) ordered,
      re_replay_attestation_digests = attestation_digests sha256 ordered,
      re_resolution_status = status, re_selected_attempt_index = selected,
      re_resolution_digest = digest,
      re_schema_version = RUN_EVIDENCE_RECORD_SCHEMA_VERSION\<rparr>"

definition resolve_sample :: "(byte list \<Rightarrow> byte list) \<Rightarrow> CoordinatorCall \<Rightarrow> StreamingReconciler \<Rightarrow>
    int \<Rightarrow> SourcedShardEntry list \<Rightarrow>
    (SemanticCorpusRecord option \<times> RunEvidenceRecord \<times> nat) world_op" where
  "resolve_sample sha256 c x ordinal sourced =
     seq_op (require_op (sourced \<noteq> []) ''sample resolution requires completion evidence'') (\<lambda>_.
     seq_op (resolve_entries sha256 c x ordinal sourced None []) (\<lambda>(authority, attested).
     case authority of
       None \<Rightarrow> raise_op (m_error ''sample authority could not be resolved'')
     | Some (sample, r) \<Rightarrow>
         (let ordered = sort_key (\<lambda>a. completion_index (at_completion a)) attested in
          seq_op (lift_res (resolve_attempt_prefix r (map at_completion ordered))) (\<lambda>resolution.
          seq_op (lift_res (conclude_resolution sha256 ordinal sample ordered resolution))
            (\<lambda>(semantic, status, selected, digest).
          seq_op (lift_res (run_evidence_record (run_record_of sha256 (sx_inventory x) ordinal
            sample (map sr_source_manifest_digest sourced) ordered status selected digest)))
            (\<lambda>evidence.
          ret (semantic, evidence, length ordered)))))))"

subsection \<open>Reconciliation\<close>

text \<open>The local variables of \<^verbatim>\<open>reconcile\<close>.\<close>

record ReconcileState =
  rc_semantic_merkle :: MerkleAccumulator
  rc_run_merkle :: MerkleAccumulator
  rc_current_ordinal :: "int option"
  rc_current_entries :: "SourcedShardEntry list"
  rc_expected_ordinal :: int
  rc_sample_count :: int
  rc_accepted_count :: int
  rc_exhausted_count :: int
  rc_replay_count :: int
  rc_peak_buffered_entries :: int

definition add_semantic :: "(byte list \<Rightarrow> byte list) \<Rightarrow> CoordinatorCall \<Rightarrow>
    SemanticCorpusRecord option \<Rightarrow> ReconcileState \<Rightarrow> ReconcileState world_op" where
  "add_semantic sha256 c semantic st = (case semantic of
     None \<Rightarrow> ret (st\<lparr>rc_exhausted_count := rc_exhausted_count st + 1\<rparr>)
   | Some r \<Rightarrow>
       seq_op (add_record sha256 c (rc_semantic_merkle st) (semantic_record_bytes r)
         (semantic_record_digest sha256 r)) (\<lambda>(_, acc).
       ret (st\<lparr>rc_semantic_merkle := acc, rc_accepted_count := rc_accepted_count st + 1\<rparr>)))"

definition flush :: "(byte list \<Rightarrow> byte list) \<Rightarrow> CoordinatorCall \<Rightarrow> StreamingReconciler \<Rightarrow>
    ReconcileState \<Rightarrow> ReconcileState world_op" where
  "flush sha256 c x st = (case rc_current_ordinal st of
     None \<Rightarrow> ret st
   | Some ordinal \<Rightarrow>
       seq_op (require_op (ordinal = rc_expected_ordinal st)
         ''inventory sample completion coverage is not contiguous'') (\<lambda>_.
       seq_op (resolve_sample sha256 c x ordinal (rc_current_entries st))
         (\<lambda>(semantic, evidence, replayed).
       seq_op (add_semantic sha256 c semantic st) (\<lambda>st1.
       seq_op (add_record sha256 c (rc_run_merkle st1) (run_record_bytes evidence)
         (run_record_digest sha256 evidence)) (\<lambda>(_, acc).
       ret (st1\<lparr>rc_run_merkle := acc,
         rc_sample_count := rc_sample_count st1 + 1,
         rc_replay_count := rc_replay_count st1 + int replayed,
         rc_expected_ordinal := rc_expected_ordinal st1 + 1,
         rc_peak_buffered_entries := max (rc_peak_buffered_entries st1)
           (int (length (sx_shards x)) + int (length (rc_current_entries st1)))\<rparr>))))))"

fun consume_entries :: "(byte list \<Rightarrow> byte list) \<Rightarrow> CoordinatorCall \<Rightarrow> StreamingReconciler \<Rightarrow>
    SourcedShardEntry list \<Rightarrow> ReconcileState \<Rightarrow> ReconcileState world_op" where
  "consume_entries sha256 c x [] st = ret st"
| "consume_entries sha256 c x (s # ss) st =
     (let ordinal = se_global_ordinal (sr_entry s) in
      seq_op
        (if rc_current_ordinal st = None
         then ret (st\<lparr>rc_current_ordinal := Some ordinal\<rparr>)
         else if rc_current_ordinal st \<noteq> Some ordinal
         then seq_op (flush sha256 c x st) (\<lambda>st1. ret (st1\<lparr>rc_current_entries := [],
           rc_current_ordinal := Some ordinal\<rparr>))
         else ret st) (\<lambda>st2.
      consume_entries sha256 c x ss
        (st2\<lparr>rc_current_entries := rc_current_entries st2 @ [s]\<rparr>)))"

text \<open>The loop over the generator: the yielded entries are consumed before its exception, if it
  ends with one, is raised.\<close>

definition consume_stream :: "(byte list \<Rightarrow> byte list) \<Rightarrow> CoordinatorCall \<Rightarrow> StreamingReconciler \<Rightarrow>
    ReconcileState \<Rightarrow> ReconcileState world_op" where
  "consume_stream sha256 c x st =
     (case merge_sorted_entry_streams (shard_streams sha256 x) of
        (entries, failure) \<Rightarrow>
          seq_op (consume_entries sha256 c x entries st) (\<lambda>st1.
          case failure of
            Some e \<Rightarrow> raise_op e
          | None \<Rightarrow> flush sha256 c x st1))"

definition source_manifests :: "(byte list \<Rightarrow> byte list) \<Rightarrow> StreamingReconciler \<Rightarrow> string list" where
  "source_manifests sha256 x = sort (map (manifest_digest sha256 \<circ> pd_manifest) (sx_shards x))"

definition corpus_manifest_of :: "(byte list \<Rightarrow> byte list) \<Rightarrow> ExecutionInventory \<Rightarrow>
    string \<times> int \<times> int \<Rightarrow> SemanticCorpusManifest" where
  "corpus_manifest_of sha256 inventory final = (case final of (root, records, peaks) \<Rightarrow>
     \<lparr>cm_generation_namespace_digest = generation_namespace_digest sha256 inventory,
      cm_merkle_root_digest = root, cm_record_count = records, cm_peak_count = peaks,
      cm_validation_mode = RECONCILIATION_VALIDATION_MODE,
      cm_schema_version = SEMANTIC_CORPUS_MANIFEST_SCHEMA\<rparr>)"

definition run_manifest_of :: "(byte list \<Rightarrow> byte list) \<Rightarrow> StreamingReconciler \<Rightarrow> int \<Rightarrow>
    string \<times> int \<times> int \<Rightarrow> RunEvidenceManifest" where
  "run_manifest_of sha256 x replayed final = (case final of (root, records, peaks) \<Rightarrow>
     \<lparr>rm_inventory_digest = inventory_digest sha256 (sx_inventory x),
      rm_shard_count = ei_shard_count (sx_inventory x),
      rm_source_manifest_digests = source_manifests sha256 x,
      rm_merkle_root_digest = root, rm_record_count = records,
      rm_replay_attestation_count = replayed, rm_peak_count = peaks, rm_conflict_count = 0,
      rm_reconciliation_policy_id = RECONCILIATION_POLICY_ID,
      rm_reconciliation_policy_version = RECONCILIATION_POLICY_VERSION,
      rm_schema_version = RUN_EVIDENCE_MANIFEST_SCHEMA\<rparr>)"

definition merge_seal_of :: "(byte list \<Rightarrow> byte list) \<Rightarrow> StreamingReconciler \<Rightarrow>
    SemanticCorpusManifest \<Rightarrow> RunEvidenceManifest \<Rightarrow> CanonicalMergeSeal" where
  "merge_seal_of sha256 x corpus run =
     \<lparr>ms_inventory_digest = inventory_digest sha256 (sx_inventory x),
      ms_semantic_corpus_manifest_digest = corpus_manifest_digest sha256 corpus,
      ms_run_evidence_manifest_digest = run_manifest_digest sha256 run,
      ms_source_manifest_digests = source_manifests sha256 x, ms_sealed = True,
      ms_schema_version = CANONICAL_MERGE_SEAL_SCHEMA_VERSION\<rparr>"

definition initial_reconcile_state :: "StreamingReconciler \<Rightarrow> synthesis_error + ReconcileState" where
  "initial_reconcile_state x =
     and_then (merkle_accumulator ''semantic-corpus-v1'') (\<lambda>semantic.
     and_then (merkle_accumulator ''run-evidence-v1'') (\<lambda>run.
     Inr \<lparr>rc_semantic_merkle = semantic, rc_run_merkle = run, rc_current_ordinal = None,
       rc_current_entries = [], rc_expected_ordinal = 0, rc_sample_count = 0,
       rc_accepted_count = 0, rc_exhausted_count = 0, rc_replay_count = 0,
       rc_peak_buffered_entries = int (length (sx_shards x))\<rparr>))"

text \<open>What \<^verbatim>\<open>reconcile\<close> does after the loop. The seal is referenced under the
  category of the shard seals, at shard 0.\<close>

definition publish_merge :: "(byte list \<Rightarrow> byte list) \<Rightarrow> CoordinatorCall \<Rightarrow> StreamingReconciler \<Rightarrow>
    ReconcileState \<Rightarrow> ReconciliationResult world_op" where
  "publish_merge sha256 c x st =
     seq_op (finalize sha256 c (rc_semantic_merkle st)) (\<lambda>semantic_final.
     seq_op (finalize sha256 c (rc_run_merkle st)) (\<lambda>run_final.
     seq_op (lift_res (semantic_corpus_manifest
       (corpus_manifest_of sha256 (sx_inventory x) semantic_final))) (\<lambda>corpus.
     seq_op (lift_res (run_evidence_manifest
       (run_manifest_of sha256 x (rc_replay_count st) run_final))) (\<lambda>run.
     seq_op (at_store c (\<lambda>call. publish_bytes sha256 call (corpus_manifest_bytes corpus)
       (Some (corpus_manifest_digest sha256 corpus)))) (\<lambda>corpus_result.
     seq_op (at_store c (\<lambda>call. publish_bytes sha256 call (run_manifest_bytes run)
       (Some (run_manifest_digest sha256 run)))) (\<lambda>run_result.
     seq_op (lift_res (canonical_merge_seal (merge_seal_of sha256 x corpus run))) (\<lambda>sealed.
     seq_op (at_store c (\<lambda>call. publish_bytes sha256 call (merge_seal_bytes sealed)
       (Some (merge_seal_digest sha256 sealed)))) (\<lambda>seal_result.
     seq_op (at_store c (\<lambda>call. install_digest_reference sha256 call ''seals''
       (inventory_digest sha256 (sx_inventory x)) 0 (merge_seal_digest sha256 sealed) None)) (\<lambda>_.
     lift_res (reconciliation_result
       \<lparr>rs_semantic_manifest = corpus, rs_run_evidence_manifest = run, rs_seal = sealed,
        rs_semantic_manifest_publication = corpus_result,
        rs_run_evidence_manifest_publication = run_result,
        rs_seal_publication = seal_result, rs_sample_count = rc_sample_count st,
        rs_accepted_sample_count = rc_accepted_count st,
        rs_exhausted_sample_count = rc_exhausted_count st,
        rs_replay_attestation_count = rc_replay_count st,
        rs_peak_buffered_entries = rc_peak_buffered_entries st\<rparr>))))))))))"

definition reconcile :: "(byte list \<Rightarrow> byte list) \<Rightarrow> CoordinatorCall \<Rightarrow> StreamingReconciler \<Rightarrow>
    ReconciliationResult world_op" where
  "reconcile sha256 c x =
     seq_op (lift_res (initial_reconcile_state x)) (\<lambda>st.
     seq_op (consume_stream sha256 c x st) (\<lambda>st1.
     seq_op (require_op (rc_sample_count st1 = int (length (ei_samples (sx_inventory x))))
       ''not every inventory sample reached a terminal resolution'') (\<lambda>_.
     publish_merge sha256 c x st1)))"

end
