(* ===== verification/Shard_Examples.thy ===== *)
theory Shard_Examples
  imports Choice_Properties Shard_Retries Publication_Chains Publication_Examples Reconciliation_Protocol
begin

section \<open>Witnesses of the shard properties\<close>

text \<open>
  An inventory of one sample on one shard, its accepted attempt published, and the shard sealed
  and reconciled. The hash of the example numbers the objects that are stored on the way and maps
  every other byte string to zero.
\<close>

subsection \<open>The objects\<close>

definition tag :: "byte \<Rightarrow> byte list" where "tag n = replicate 31 0 @ [n]"

definition numbered :: "char \<Rightarrow> string" where "numbered c = replicate 63 (CHR ''0'') @ [c]"

definition example_key :: AttemptKey where
  "example_key = \<lparr>sample_key = example_sample, attempt_index = 0\<rparr>"

definition example_completion :: AttemptCompletion where
  "example_completion = CompletionAccepted (example_accepted 0)"

definition example_envelope :: AttemptCompletionEnvelope where
  "example_envelope = \<lparr>ce_attempt_key = example_key,
     ce_generation_namespace_digest = zeros, ce_attempt_input_commitment_digest = zeros,
     ce_completion_status = StatusAccepted, ce_completion_digest = zeros,
     ce_search_branch_digest = zeros, ce_choice_ledger_digest = zeros,
     ce_identity_ledger_digest = zeros,
     ce_schema_version = ATTEMPT_COMPLETION_ENVELOPE_SCHEMA_VERSION\<rparr>"

definition example_reference :: InventoryCompletionReference where
  "example_reference = \<lparr>cr_inventory_digest = zeros, cr_global_ordinal = 0,
     cr_sample_key = example_sample, cr_attempt_key = example_key,
     cr_sample_execution_spec_digest = zeros,
     cr_completion_envelope_digest = numbered (CHR ''1''),
     cr_schema_version = INVENTORY_COMPLETION_REFERENCE_SCHEMA_VERSION\<rparr>"

definition example_receipt :: OperationalPublicationReceipt where
  "example_receipt = \<lparr>op_execution_run_id = ''run'', op_inventory_digest = zeros,
     op_attempt_key = example_key, op_publication_ordinal = 0,
     op_object_kind = KindCompletionEnvelope, op_object_digest = numbered (CHR ''1''),
     op_disposition = Published, op_previous_publication_receipt_digest = None,
     op_schema_version = OPERATIONAL_PUBLICATION_SCHEMA_VERSION\<rparr>"

definition example_final :: OperationalPublicationReceipt where
  "example_final = \<lparr>op_execution_run_id = ''run'', op_inventory_digest = zeros,
     op_attempt_key = example_key, op_publication_ordinal = 1,
     op_object_kind = KindCompletionReference, op_object_digest = numbered (CHR ''2''),
     op_disposition = Published,
     op_previous_publication_receipt_digest = Some (numbered (CHR ''3'')),
     op_schema_version = OPERATIONAL_PUBLICATION_SCHEMA_VERSION\<rparr>"

definition example_entry :: ShardIndexEntry where
  "example_entry = \<lparr>se_inventory_digest = zeros, se_shard_count = 1, se_shard_index = 0,
     se_global_ordinal = 0, se_attempt_key = example_key,
     se_completion_envelope_digest = numbered (CHR ''1''),
     se_inventory_completion_reference_digest = numbered (CHR ''2''),
     se_publication_receipt_digest = numbered (CHR ''4'')\<rparr>"

definition example_index :: ShardIndex where
  "example_index = \<lparr>si_inventory_digest = zeros, si_shard_count = 1, si_shard_index = 0,
     si_entries = [example_entry], si_format_id = SHARD_INDEX_FORMAT_ID,
     si_format_version = SHARD_INDEX_FORMAT_VERSION\<rparr>"

definition example_manifest :: SealedShardManifest where
  "example_manifest = \<lparr>sm_inventory_digest = zeros, sm_generation_namespace_digest = zeros,
     sm_required_schema_versions_digest = zeros, sm_shard_policy_id = SHARD_POLICY_ID,
     sm_shard_policy_version = SHARD_POLICY_VERSION, sm_shard_count = 1, sm_shard_index = 0,
     sm_shard_index_digest = numbered (CHR ''5''), sm_entry_count = 1,
     sm_entry_digests = [zeros],
     sm_completion_envelope_digests = [numbered (CHR ''1'')],
     sm_inventory_completion_reference_digests = [numbered (CHR ''2'')],
     sm_publication_receipt_digests = [numbered (CHR ''4'')], sm_object_set_digest = zeros,
     sm_sealed = True, sm_schema_version = SHARD_MANIFEST_SCHEMA_VERSION\<rparr>"

text \<open>What the reconciliation of the shard adds.\<close>

definition example_attestation :: ReplayAttestation where
  "example_attestation = \<lparr>ra_attempt_key = example_key,
     ra_completion_envelope_digest = numbered (CHR ''1''), ra_completion_digest = zeros,
     ra_replay_evidence_digest = zeros, ra_attestor_id = ''a'', ra_attestor_version = 1,
     ra_validation_mode = RECONCILIATION_VALIDATION_MODE,
     ra_schema_version = REPLAY_ATTESTATION_SCHEMA_VERSION\<rparr>"

definition example_semantic :: SemanticCorpusRecord where
  "example_semantic = \<lparr>sc_global_ordinal = 0, sc_sample_key = example_sample,
     sc_accepted_attempt_index = 0, sc_accepted_completion_digest = zeros,
     sc_rejected_prefix_completion_digests = [],
     sc_replay_attestation_digests = [numbered (CHR ''7'')], sc_result = CanonicalObject [],
     sc_schema_version = SEMANTIC_CORPUS_RECORD_SCHEMA_VERSION\<rparr>"

definition example_evidence :: RunEvidenceRecord where
  "example_evidence = \<lparr>re_inventory_digest = zeros, re_global_ordinal = 0,
     re_sample_key = example_sample, re_source_manifest_digests = [numbered (CHR ''6'')],
     re_completion_envelope_digests = [numbered (CHR ''1'')], re_completion_digests = [zeros],
     re_replay_attestation_digests = [numbered (CHR ''7'')],
     re_resolution_status = SampleAccepted, re_selected_attempt_index = Some 0,
     re_resolution_digest = zeros, re_schema_version = RUN_EVIDENCE_RECORD_SCHEMA_VERSION\<rparr>"

definition example_merkle :: "string \<Rightarrow> char \<Rightarrow> MerkleAccumulator" where
  "example_merkle domain c = \<lparr>mk_domain = domain,
     mk_peaks = [(0, \<lparr>mp_level = 0, mp_digest = numbered c, mp_leaf_count = 1\<rparr>)],
     mk_record_count = 1\<rparr>"

definition example_corpus_manifest :: SemanticCorpusManifest where
  "example_corpus_manifest = \<lparr>cm_generation_namespace_digest = zeros,
     cm_merkle_root_digest = numbered (CHR ''a''), cm_record_count = 1, cm_peak_count = 1,
     cm_validation_mode = RECONCILIATION_VALIDATION_MODE,
     cm_schema_version = SEMANTIC_CORPUS_MANIFEST_SCHEMA\<rparr>"

definition example_run_manifest :: RunEvidenceManifest where
  "example_run_manifest = \<lparr>rm_inventory_digest = zeros, rm_shard_count = 1,
     rm_source_manifest_digests = [numbered (CHR ''6'')],
     rm_merkle_root_digest = numbered (CHR ''b''), rm_record_count = 1,
     rm_replay_attestation_count = 1, rm_peak_count = 1, rm_conflict_count = 0,
     rm_reconciliation_policy_id = RECONCILIATION_POLICY_ID,
     rm_reconciliation_policy_version = RECONCILIATION_POLICY_VERSION,
     rm_schema_version = RUN_EVIDENCE_MANIFEST_SCHEMA\<rparr>"

definition example_seal :: CanonicalMergeSeal where
  "example_seal = \<lparr>ms_inventory_digest = zeros,
     ms_semantic_corpus_manifest_digest = numbered (CHR ''c''),
     ms_run_evidence_manifest_digest = numbered (CHR ''d''),
     ms_source_manifest_digests = [numbered (CHR ''6'')], ms_sealed = True,
     ms_schema_version = CANONICAL_MERGE_SEAL_SCHEMA_VERSION\<rparr>"

subsection \<open>The hash\<close>

definition example_objects :: "json list" where
  "example_objects =
     [envelope_json example_envelope, reference_json example_reference,
      receipt_json example_receipt, receipt_json example_final, index_json example_index,
      manifest_json example_manifest, attestation_json example_attestation,
      semantic_record_json example_semantic, run_record_json example_evidence,
      root_json (example_merkle ''semantic-corpus-v1'' (CHR ''8'')),
      root_json (example_merkle ''run-evidence-v1'' (CHR ''9'')),
      corpus_manifest_json example_corpus_manifest, run_manifest_json example_run_manifest,
      merge_seal_json example_seal]"

definition example_hash :: "byte list \<Rightarrow> byte list" where
  "example_hash bs = tag (case filter (\<lambda>i. json_bytes (example_objects ! i) = bs)
       [0..<length example_objects] of
     [] \<Rightarrow> 0 | i # _ \<Rightarrow> word_of_nat (Suc i))"

lemma hex_tag: "hex (tag n) = replicate 62 (CHR ''0'') @ hex [n]"
proof -
  have "hex_digit 0 = CHR ''0''" by code_simp
  then have "hex (replicate k 0) = replicate (2 * k) (CHR ''0'')" for k
    by (induction k) (simp_all add: hex_def)
  from this [of 31] show ?thesis by (simp add: tag_def hex_def)
qed

lemma numbered_tag: "numbered c = replicate 62 (CHR ''0'') @ [CHR ''0'', c]"
proof -
  have "replicate 63 (CHR ''0'') = replicate 62 (CHR ''0'') @ [CHR ''0'']"
    by code_simp
  then show ?thesis by (simp only: numbered_def append_assoc append_Cons append_Nil)
qed

lemma hex_tags [simp]:
  "hex (tag 0) = zeros" "hex (tag 1) = numbered (CHR ''1'')" "hex (tag 2) = numbered (CHR ''2'')"
  "hex (tag 3) = numbered (CHR ''3'')" "hex (tag 4) = numbered (CHR ''4'')"
  "hex (tag 5) = numbered (CHR ''5'')" "hex (tag 6) = numbered (CHR ''6'')"
  "hex (tag 7) = numbered (CHR ''7'')" "hex (tag 8) = numbered (CHR ''8'')"
  "hex (tag 9) = numbered (CHR ''9'')" "hex (tag 10) = numbered (CHR ''a'')"
  "hex (tag 11) = numbered (CHR ''b'')" "hex (tag 12) = numbered (CHR ''c'')"
  "hex (tag 13) = numbered (CHR ''d'')" "hex (tag 14) = numbered (CHR ''e'')"
proof -
  have "zeros = numbered (CHR ''0'')"
    by code_simp
  then show "hex (tag 0) = zeros" by (simp only: hex_tag numbered_tag) code_simp
qed (simp only: hex_tag numbered_tag, code_simp)+

lemma numbered_hex [simp]:
  "is_hex_256 (numbered (CHR ''1''))" "is_hex_256 (numbered (CHR ''2''))"
  "is_hex_256 (numbered (CHR ''3''))" "is_hex_256 (numbered (CHR ''4''))"
  "is_hex_256 (numbered (CHR ''5''))" "is_hex_256 (numbered (CHR ''6''))"
  "is_hex_256 (numbered (CHR ''7''))" "is_hex_256 (numbered (CHR ''8''))"
  "is_hex_256 (numbered (CHR ''9''))" "is_hex_256 (numbered (CHR ''a''))"
  "is_hex_256 (numbered (CHR ''b''))" "is_hex_256 (numbered (CHR ''c''))"
  "is_hex_256 (numbered (CHR ''d''))" "is_hex_256 (numbered (CHR ''e''))"
  by code_simp+

lemma example_hash_hex: "\<forall>bs. is_hex_256 (hex (example_hash bs))"
proof
  fix bs
  have "length (example_hash bs) = 32" by (simp add: example_hash_def tag_def)
  then show "is_hex_256 (hex (example_hash bs))" by (simp add: is_hex_256_def hex_digits del: not_None_eq)
qed

lemma numbered_inject [simp]: "numbered a = numbered b \<longleftrightarrow> a = b"
  by (simp add: numbered_def)

subsection \<open>Telling objects apart by their keys\<close>

lemma json_bytes_keys:
  assumes "json_bytes (JObj ps) = json_bytes (JObj qs)"
  shows "k \<in> fst ` set ps \<longleftrightarrow> k \<in> fst ` set qs"
proof -
  have "norm_json (JObj ps) = norm_json (JObj qs)" using assms by (simp add: json_bytes_eq_iff)
  then have "sort_key fst (map (\<lambda>(k, v). (k, norm_json v)) ps) =
      sort_key fst (map (\<lambda>(k, v). (k, norm_json v)) qs)" by simp
  then have "set (map (\<lambda>(k, v). (k, norm_json v)) ps) = set (map (\<lambda>(k, v). (k, norm_json v)) qs)"
    by (metis set_sort)
  then have "fst ` set (map (\<lambda>(k, v). (k, norm_json v)) ps) =
      fst ` set (map (\<lambda>(k, v). (k, norm_json v)) qs)" by simp
  then show ?thesis by (simp add: image_image case_prod_unfold)
qed

text \<open>The dictionaries are written with their keys in order, so equal bytes are equal values.\<close>

lemma canonical_values [simp]:
  "canonical_form (JStr v)" "canonical_form (JInt n)" "canonical_form (JBool b)"
  "canonical_form JNull" "canonical_form (string_list vs)"
  "canonical_form (attempt_key_value k)" "canonical_form (optional_string v')"
  by (simp_all add: canonical_form_def string_list_def norm_attempt_key norm_optional_string)

lemma canonical_array [simp]: "canonical_form (JArr vs) \<longleftrightarrow> (\<forall>v\<in>set vs. canonical_form v)"
  by (simp add: canonical_form_def map_idI) (metis in_set_conv_nth map_eq_conv map_ident)

lemma canonical_object [simp]:
  assumes "sorted (map fst ps)" and "\<forall>p\<in>set ps. canonical_form (snd p)"
  shows "canonical_form (JObj ps)"
proof -
  have "map (\<lambda>(k, v). (k, norm_json v)) ps = ps"
    using assms(2) by (auto simp: canonical_form_def intro!: map_idI)
  then show ?thesis using assms(1) by (simp add: canonical_form_def sort_key_id_if_sorted)
qed

lemmas example_json_defs = envelope_json_def reference_json_def receipt_json_def index_json_def
  manifest_json_def attestation_json_def semantic_record_json_def run_record_json_def
  root_json_def corpus_manifest_json_def run_manifest_json_def merge_seal_json_def

lemma example_objects_canonical: "\<forall>j\<in>set example_objects. canonical_form j"
  by (simp add: example_objects_def example_json_defs entry_json_def peak_json_def
      sample_key_value_def example_index_def example_semantic_def split: option.splits)

lemma example_objects_distinct: "distinct example_objects"
  by (simp add: example_objects_def example_json_defs)
    (simp add: example_receipt_def example_final_def example_merkle_def)

lemma example_hash_object:
  assumes "i < length example_objects"
  shows "json_digest example_hash (example_objects ! i) = hex (tag (word_of_nat (Suc i)))"
proof -
  have "json_bytes (example_objects ! j) = json_bytes (example_objects ! i) \<longleftrightarrow> j = i"
    if "j < length example_objects" for j
    using that assms example_objects_distinct example_objects_canonical
    by (simp add: json_bytes_canonical nth_eq_iff_index_eq)
  then have "filter (\<lambda>j. json_bytes (example_objects ! j) = json_bytes (example_objects ! i))
      [0..<length example_objects] = filter (\<lambda>j. j = i) [0..<length example_objects]"
    by (intro filter_cong) auto
  also have "\<dots> = [i]"
  proof -
    have "filter (\<lambda>j. j = i) [0..<n] = (if i < n then [i] else [])" for n by (induction n) auto
    then show ?thesis using assms by simp
  qed
  finally show ?thesis by (simp add: json_digest_def example_hash_def)
qed

definition object_keys :: "string set" where
  "object_keys = {''completion_status'', ''sample_execution_spec_digest'', ''disposition'',
     ''format_id'', ''sealed'', ''attestor_id'', ''accepted_attempt_index'',
     ''resolution_status'', ''peaks'', ''merkle_root_digest''}"

lemma hash_other:
  assumes "fst ` set ps \<inter> object_keys = {}"
  shows "json_digest example_hash (JObj ps) = zeros"
proof -
  have "\<forall>j\<in>set example_objects. \<exists>qs. j = JObj qs \<and> fst ` set qs \<inter> object_keys \<noteq> {}"
    by (simp add: example_objects_def example_json_defs object_keys_def)
  then have "json_bytes j \<noteq> json_bytes (JObj ps)" if "j \<in> set example_objects" for j
    using that assms json_bytes_keys by fast
  then have "filter (\<lambda>i. json_bytes (example_objects ! i) = json_bytes (JObj ps))
      [0..<length example_objects] = []" by (simp add: filter_empty_conv)
  then show ?thesis by (simp add: json_digest_def example_hash_def)
qed

lemma example_digests [simp]:
  "envelope_digest example_hash example_envelope = numbered (CHR ''1'')"
  "reference_digest example_hash example_reference = numbered (CHR ''2'')"
  "receipt_digest example_hash example_receipt = numbered (CHR ''3'')"
  "receipt_digest example_hash example_final = numbered (CHR ''4'')"
  "index_digest example_hash example_index = numbered (CHR ''5'')"
  "manifest_digest example_hash example_manifest = numbered (CHR ''6'')"
  "attestation_digest example_hash example_attestation = numbered (CHR ''7'')"
  "semantic_record_digest example_hash example_semantic = numbered (CHR ''8'')"
  "run_record_digest example_hash example_evidence = numbered (CHR ''9'')"
  "json_digest example_hash (root_json (example_merkle ''semantic-corpus-v1'' (CHR ''8''))) =
     numbered (CHR ''a'')"
  "json_digest example_hash (root_json (example_merkle ''run-evidence-v1'' (CHR ''9''))) =
     numbered (CHR ''b'')"
  "corpus_manifest_digest example_hash example_corpus_manifest = numbered (CHR ''c'')"
  "run_manifest_digest example_hash example_run_manifest = numbered (CHR ''d'')"
  "merge_seal_digest example_hash example_seal = numbered (CHR ''e'')"
  using example_hash_object [of 0] example_hash_object [of 1] example_hash_object [of 2]
    example_hash_object [of 3] example_hash_object [of 4] example_hash_object [of 5]
    example_hash_object [of 6] example_hash_object [of 7] example_hash_object [of 8]
    example_hash_object [of 9] example_hash_object [of 10] example_hash_object [of 11]
    example_hash_object [of 12] example_hash_object [of 13]
  by (simp_all add: example_objects_def envelope_digest_def reference_digest_def receipt_digest_def
      index_digest_def manifest_digest_def attestation_digest_def semantic_record_digest_def
      run_record_digest_def corpus_manifest_digest_def run_manifest_digest_def
      merge_seal_digest_def)

subsection \<open>The inventory\<close>

definition example_namespace :: GenerationNamespace where
  "example_namespace = \<lparr>gn_release = ''v0.4'', gn_choice_algorithm_id = ''a'',
     gn_choice_algorithm_version = 1, gn_identity_algorithm_id = ''b'',
     gn_identity_algorithm_version = 1, gn_identity_schema_version = ''csd-identity/0.4'',
     gn_target_definition_digest = zeros, gn_release_policy_digest = zeros,
     gn_arithmetic_policy_digest = zeros, gn_replay_policy_id = ''c'',
     gn_replay_policy_version = 1, gn_replay_policy_digest = zeros,
     gn_shard_policy_id = SHARD_POLICY_ID, gn_shard_policy_version = SHARD_POLICY_VERSION,
     gn_shard_policy_digest = zeros\<rparr>"

definition example_spec :: SampleExecutionSpec where
  "example_spec = \<lparr>es_global_ordinal = 0, es_sample_key = example_sample,
     es_attempt_range = example_range, es_producer_contract_id = ''p'',
     es_producer_contract_version = 1, es_producer_contract_digest = zeros,
     es_schema_version = SAMPLE_EXECUTION_SPEC_SCHEMA_VERSION\<rparr>"

definition example_inventory :: ExecutionInventory where
  "example_inventory = \<lparr>ei_release = ''v0.4'', ei_generation_namespace = example_namespace,
     ei_root_seed_commitment = zeros, ei_sample_key_encoding_id = SAMPLE_KEY_ENCODING_ID,
     ei_sample_key_encoding_version = SAMPLE_KEY_ENCODING_VERSION,
     ei_sample_key_encoding_policy_digest = zeros,
     ei_shard_policy_id = SHARD_POLICY_ID, ei_shard_policy_version = SHARD_POLICY_VERSION,
     ei_shard_policy_digest = zeros, ei_shard_count = 1,
     ei_operational_retry_policy_digest = zeros,
     ei_validation_policy_id = EXECUTION_VALIDATION_POLICY_ID,
     ei_validation_policy_version = EXECUTION_VALIDATION_POLICY_VERSION,
     ei_validation_policy_digest = zeros,
     ei_required_schema_versions = current_required_schema_versions,
     ei_samples = [example_spec], ei_schema_version = EXECUTION_INVENTORY_SCHEMA_VERSION\<rparr>"

lemma example_inventory_digest [simp]: "inventory_digest example_hash example_inventory = zeros"
  unfolding inventory_digest_def inventory_json_def
  by (rule hash_other) (simp add: object_keys_def)

lemma example_namespace_digest [simp]:
  "generation_namespace_digest example_hash example_inventory = zeros"
  unfolding generation_namespace_digest_def namespace_digest_def namespace_json_def
  by (rule hash_other) (simp add: object_keys_def namespace_pairs_def)

lemma example_spec_digest [simp]: "spec_digest example_hash example_spec = zeros"
  unfolding spec_digest_def spec_json_def by (rule hash_other) (simp add: object_keys_def)

lemma example_completion_digest [simp]: "completion_digest example_hash example_completion = zeros"
  unfolding example_completion_def completion_digest.simps accepted_json_def
  by (rule hash_other) (simp add: object_keys_def)

lemma example_entry_digest [simp]: "entry_digest example_hash example_entry = zeros"
  unfolding entry_digest_def entry_json_def by (rule hash_other) (simp add: object_keys_def)

lemma example_schema_digest [simp]:
  "schema_versions_digest example_hash current_required_schema_versions = zeros"
  unfolding schema_versions_digest_def schema_versions_json_def
  by (rule hash_other) (simp add: object_keys_def)

lemma example_object_set_digest [simp]:
  "json_digest example_hash (object_set_json example_hash example_index) = zeros"
  unfolding object_set_json_def by (rule hash_other) (simp add: object_keys_def)

lemma example_policies:
  "json_digest example_hash sample_key_encoding_policy_document = zeros"
  "json_digest example_hash shard_policy_document = zeros"
  "json_digest example_hash execution_validation_policy_document = zeros"
  unfolding sample_key_encoding_policy_document_def shard_policy_document_def
    execution_validation_policy_document_def
  by (rule hash_other, simp add: object_keys_def)+

text \<open>The inventory is one that the constructor accepts.\<close>

lemma example_inventory_valid:
  "execution_inventory example_hash example_inventory = Inr example_inventory"
  by (simp add: execution_inventory_def Let_def example_inventory_def example_namespace_def
      example_spec_def example_policies x_constant_def x_constant_int_def x_digest_def
      MAX_SHARD_COUNT_def)

subsection \<open>Publishing the completion\<close>

definition lone_coordinator :: CoordinatorCall where
  "lone_coordinator = \<lparr>co_fault = \<lambda>_. None, co_call = \<lambda>_. lone_call, co_before = \<lambda>_. id\<rparr>"

lemma lone_undisturbed [simp]: "undisturbed_coordinator lone_coordinator"
  by (simp add: undisturbed_coordinator_def lone_coordinator_def lone_call_def)

lemma lone_harmless [simp]: "coordinator_harmless sha256 lone_coordinator"
  by (simp add: coordinator_harmless_def lone_coordinator_def)

lemma example_envelope_built:
  "envelope_from_completion example_hash example_completion = Inr example_envelope"
proof -
  have "completion_envelope example_envelope = Inr example_envelope"
    by (simp add: completion_envelope_def example_envelope_def p_digest_def)
  then show ?thesis
    using example_completion_digest
    by (simp add: envelope_from_completion_def example_completion_def envelope_of_def
        example_accepted_def example_envelope_def example_key_def)
qed

lemma example_reference_built:
  "reference_from_inventory example_hash example_inventory example_envelope = Inr example_reference"
proof -
  have "completion_reference example_reference = Inr example_reference"
    by (simp add: completion_reference_def example_reference_def p_digest_def example_key_def
        is_uint32_def UINT32_MAX_def)
  moreover have "ei_samples example_inventory = [example_spec]"
    "es_sample_key example_spec = example_sample" "es_global_ordinal example_spec = 0"
    "range_contains (es_attempt_range example_spec) 0"
    by (simp_all add: example_inventory_def example_spec_def range_contains_def example_range_def)
  ultimately show ?thesis
    by (simp add: reference_from_inventory_def Let_def matching_specs_def)
      (simp add: example_envelope_def example_key_def example_reference_def)
qed

lemma example_receipts_built:
  "append_receipt example_hash None ''run'' zeros example_key KindCompletionEnvelope
     (numbered (CHR ''1'')) Published = Inr example_receipt"
  "append_receipt example_hash (Some example_receipt) ''run'' zeros example_key
     KindCompletionReference (numbered (CHR ''2'')) Published = Inr example_final"
proof -
  have "is_token ''run''" by code_simp
  then have valid: "publication_receipt example_receipt = Inr example_receipt"
    "publication_receipt example_final = Inr example_final"
    by (simp_all add: publication_receipt_def example_receipt_def example_final_def p_token_def
        p_digest_def is_uint32_def UINT32_MAX_def)
  show "append_receipt example_hash None ''run'' zeros example_key KindCompletionEnvelope
     (numbered (CHR ''1'')) Published = Inr example_receipt"
    using valid(1) by (simp add: append_receipt_def Let_def example_receipt_def)
  have "op_publication_ordinal example_receipt = 0" "op_execution_run_id example_receipt = ''run''"
    "op_inventory_digest example_receipt = zeros" "op_attempt_key example_receipt = example_key"
    by (simp_all add: example_receipt_def)
  then show "append_receipt example_hash (Some example_receipt) ''run'' zeros example_key
     KindCompletionReference (numbered (CHR ''2'')) Published = Inr example_final"
    using valid(2) by (simp add: append_receipt_def Let_def) (simp add: example_final_def)
qed

definition example_published :: PublishedCompletion where
  "example_published = \<lparr>pc_envelope = example_envelope, pc_reference = example_reference,
     pc_receipts = [example_receipt, example_final]\<rparr>"

definition example_store :: PublicationStore where
  "example_store = snd (publish_attempt_completion example_hash lone_coordinator example_inventory
     example_completion ''run'' empty_publication_store)"

lemma example_run:
  assumes "publish_attempt_completion example_hash lone_coordinator example_inventory
      example_completion ''run'' empty_publication_store = (Inr p, t)"
    and "pc_envelope p = example_envelope" "pc_reference p = example_reference"
    "pc_receipts p = [example_receipt, example_final]"
  shows "p = example_published" "t = example_store"
  using assms by (simp_all add: example_published_def example_store_def)

lemma example_stored:
  "publish_attempt_completion example_hash lone_coordinator example_inventory
     example_completion ''run'' empty_publication_store = (Inr example_published, example_store)"
  "completion_stored example_hash example_store example_published"
  "ps_objects example_store = [numbered (CHR ''1'') \<mapsto> envelope_bytes example_envelope,
     numbered (CHR ''3'') \<mapsto> receipt_bytes example_receipt,
     numbered (CHR ''2'') \<mapsto> reference_bytes example_reference,
     numbered (CHR ''4'') \<mapsto> receipt_bytes example_final]"
  "ps_references example_store = Map.empty" "ps_temporaries example_store = []"
proof -
  have key: "ce_attempt_key example_envelope = example_key" by (simp add: example_envelope_def)
  have "\<exists>p t. publish_attempt_completion example_hash lone_coordinator example_inventory
      example_completion ''run'' empty_publication_store = (Inr p, t) \<and>
    pc_envelope p = example_envelope \<and> pc_reference p = example_reference \<and>
    pc_receipts p = [example_receipt, example_final] \<and> completion_stored example_hash t p \<and>
    ps_objects t = (ps_objects empty_publication_store)
      (numbered (CHR ''1'') \<mapsto> envelope_bytes example_envelope,
       numbered (CHR ''3'') \<mapsto> receipt_bytes example_receipt,
       numbered (CHR ''2'') \<mapsto> reference_bytes example_reference,
       numbered (CHR ''4'') \<mapsto> receipt_bytes example_final) \<and>
    ps_references t = ps_references empty_publication_store \<and> ps_temporaries t = []"
    using completion_published [OF lone_undisturbed example_hash_hex _
        example_envelope_built example_reference_built, of empty_publication_store "''run''"
        example_receipt example_final] example_receipts_built
    by (simp add: empty_publication_store_def key)
  then obtain p t where run: "publish_attempt_completion example_hash lone_coordinator
      example_inventory example_completion ''run'' empty_publication_store = (Inr p, t)"
    and parts: "pc_envelope p = example_envelope" "pc_reference p = example_reference"
      "pc_receipts p = [example_receipt, example_final]"
    and stored: "completion_stored example_hash t p"
      "ps_objects t = (ps_objects empty_publication_store)
        (numbered (CHR ''1'') \<mapsto> envelope_bytes example_envelope,
         numbered (CHR ''3'') \<mapsto> receipt_bytes example_receipt,
         numbered (CHR ''2'') \<mapsto> reference_bytes example_reference,
         numbered (CHR ''4'') \<mapsto> receipt_bytes example_final)"
      "ps_references t = ps_references empty_publication_store" "ps_temporaries t = []"
    by (elim exE conjE) (rule that)
  note same = example_run [OF run parts]
  show "publish_attempt_completion example_hash lone_coordinator example_inventory
      example_completion ''run'' empty_publication_store = (Inr example_published, example_store)"
    "completion_stored example_hash example_store example_published"
    "ps_objects example_store = [numbered (CHR ''1'') \<mapsto> envelope_bytes example_envelope,
       numbered (CHR ''3'') \<mapsto> receipt_bytes example_receipt,
       numbered (CHR ''2'') \<mapsto> reference_bytes example_reference,
       numbered (CHR ''4'') \<mapsto> receipt_bytes example_final]"
    "ps_references example_store = Map.empty" "ps_temporaries example_store = []"
    using run stored unfolding same by (simp_all add: empty_publication_store_def)
qed

theorem completion_publication_returns_witness:
  "\<exists>t. publish_attempt_completion example_hash lone_coordinator example_inventory
       example_completion ''run'' empty_publication_store = (Inr example_published, t) \<and>
     completion_stored example_hash t example_published \<and>
     ps_objects t = [numbered (CHR ''1'') \<mapsto> envelope_bytes example_envelope,
       numbered (CHR ''3'') \<mapsto> receipt_bytes example_receipt,
       numbered (CHR ''2'') \<mapsto> reference_bytes example_reference,
       numbered (CHR ''4'') \<mapsto> receipt_bytes example_final] \<and>
     ps_references t = Map.empty \<and> ps_temporaries t = []"
proof -
  have key: "ce_attempt_key example_envelope = example_key" by (simp add: example_envelope_def)
  have "\<exists>p t. publish_attempt_completion example_hash lone_coordinator example_inventory
      example_completion ''run'' empty_publication_store = (Inr p, t) \<and>
    pc_envelope p = example_envelope \<and> pc_reference p = example_reference \<and>
    pc_receipts p = [example_receipt, example_final] \<and> completion_stored example_hash t p \<and>
    ps_objects t = (ps_objects empty_publication_store)
      (numbered (CHR ''1'') \<mapsto> envelope_bytes example_envelope,
       numbered (CHR ''3'') \<mapsto> receipt_bytes example_receipt,
       numbered (CHR ''2'') \<mapsto> reference_bytes example_reference,
       numbered (CHR ''4'') \<mapsto> receipt_bytes example_final) \<and>
    ps_references t = ps_references empty_publication_store \<and> ps_temporaries t = []"
    using completion_publication_returns [OF lone_undisturbed example_hash_hex _
        example_envelope_built example_reference_built, of empty_publication_store "''run''"
        example_receipt example_final] example_receipts_built
    by (simp add: empty_publication_store_def key)
  moreover have "p = example_published" if "pc_envelope p = example_envelope"
    "pc_reference p = example_reference" "pc_receipts p = [example_receipt, example_final]" for p
    using that by (simp add: example_published_def)
  ultimately show ?thesis by (auto simp: empty_publication_store_def)
qed

end
