(* ===== verification/Execution_Properties.thy ===== *)
theory Execution_Properties
  imports Execution_Inventory
begin

section \<open>Supersession histories\<close>

text \<open>
  What \<^verbatim>\<open>validate_supersession_history\<close> guarantees about the inventories of its
  records: following the replacements never cycles and always ends, in one inventory.
\<close>

definition supersession_edges :: "InventorySupersessionRecord list \<Rightarrow> (string \<times> string) set" where
  "supersession_edges rs = (\<lambda>r. (iv_superseded_inventory_digest r, iv_replacement_inventory_digest r)) ` set rs"

text \<open>The tests of the loop, with the superseded inventories of the records before.\<close>

lemma supersessions_accepted:
  assumes "\<forall>c\<in>set (check_supersessions sha256 superseded digests rs). c = None"
  shows "distinct (map iv_superseded_inventory_digest rs)"
    and "\<forall>r\<in>set rs. iv_superseded_inventory_digest r \<notin> set superseded \<and>
      iv_replacement_inventory_digest r \<notin> set superseded"
    and "\<And>i j. i < j \<Longrightarrow> j < length rs \<Longrightarrow>
      iv_replacement_inventory_digest (rs ! j) \<noteq> iv_superseded_inventory_digest (rs ! i)"
  using assms
proof (induction rs arbitrary: superseded digests)
  case (Cons r rs)
  {
    case 1
    then show ?case
      using Cons.IH(1) [of "iv_superseded_inventory_digest r # superseded"
          "supersession_digest sha256 r # digests"]
        Cons.IH(2) [of "iv_superseded_inventory_digest r # superseded"
          "supersession_digest sha256 r # digests"] by auto
  next
    case 2
    then show ?case
      using Cons.IH(2) [of "iv_superseded_inventory_digest r # superseded"
          "supersession_digest sha256 r # digests"] by auto
  next
    case (3 i j)
    then show ?case
      using Cons.IH(2) [of "iv_superseded_inventory_digest r # superseded"
          "supersession_digest sha256 r # digests"]
        Cons.IH(3) [of "i - 1" "j - 1" "iv_superseded_inventory_digest r # superseded"
          "supersession_digest sha256 r # digests"]
      by (cases i; cases j) (auto dest: nth_mem)
  }
qed simp_all

definition forward_history :: "InventorySupersessionRecord list \<Rightarrow> bool" where
  "forward_history rs \<longleftrightarrow> distinct (map iv_superseded_inventory_digest rs) \<and>
     (\<forall>j<length rs. \<forall>i\<le>j. iv_replacement_inventory_digest (rs ! j) \<noteq>
        iv_superseded_inventory_digest (rs ! i))"

text \<open>How many records there are before the one that supersession_edges an inventory.\<close>

definition age :: "InventorySupersessionRecord list \<Rightarrow> string \<Rightarrow> nat" where
  "age rs x = length (takeWhile (\<lambda>y. y \<noteq> x) (map iv_superseded_inventory_digest rs))"

lemma age_superseded:
  assumes "distinct (map iv_superseded_inventory_digest rs)" and "i < length rs"
  shows "age rs (iv_superseded_inventory_digest (rs ! i)) = i"
proof -
  let ?xs = "map iv_superseded_inventory_digest rs"
  have "?xs ! j \<noteq> ?xs ! i" if "j < i" for j
    using assms that by (metis distinct_conv_nth length_map less_irrefl less_trans)
  then have "takeWhile (\<lambda>y. y \<noteq> ?xs ! i) ?xs = take i ?xs"
    using assms(2) by (intro takeWhile_eq_take_P_nth) simp_all
  then show ?thesis using assms(2) by (simp add: age_def)
qed

lemma age_bound: "age rs x \<le> length rs"
  unfolding age_def by (metis length_map length_takeWhile_le)

lemma age_grows:
  assumes h: "forward_history rs" and "(x, y) \<in> supersession_edges rs"
  shows "age rs x < age rs y"
proof -
  obtain i where i: "i < length rs" and x: "x = iv_superseded_inventory_digest (rs ! i)"
    and y: "y = iv_replacement_inventory_digest (rs ! i)"
    using assms(2) by (auto simp: supersession_edges_def in_set_conv_nth)
  show ?thesis
  proof (rule ccontr)
    assume "\<not> age rs x < age rs y"
    then have le: "age rs y \<le> i" using age_superseded [OF _ i] h x by (simp add: forward_history_def)
    then have "age rs y < length (map iv_superseded_inventory_digest rs)" using i by simp
    then have "iv_superseded_inventory_digest (rs ! age rs y) = y"
      using nth_length_takeWhile [of "\<lambda>z. z \<noteq> y" "map iv_superseded_inventory_digest rs"]
      by (simp add: age_def)
    then show False using h le i y unfolding forward_history_def by metis
  qed
qed

lemma acyclic_edges:
  assumes "forward_history rs" shows "acyclic (supersession_edges rs)"
proof -
  have "age rs x < age rs y" if "(x, y) \<in> (supersession_edges rs)\<^sup>+" for x y
    using that by (induction rule: trancl.induct) (auto dest: age_grows [OF assms])
  then show ?thesis unfolding acyclic_def by blast
qed

lemma single_valued_supersedes:
  assumes "forward_history rs" shows "single_valued (supersession_edges rs)"
proof -
  have "inj_on iv_superseded_inventory_digest (set rs)"
    using assms by (simp add: forward_history_def distinct_map)
  then have "r = r'" if "r \<in> set rs" "r' \<in> set rs"
    "iv_superseded_inventory_digest r = iv_superseded_inventory_digest r'" for r r'
    using that by (blast dest: inj_onD)
  then show ?thesis unfolding single_valued_def supersession_edges_def by fastforce
qed

lemma current_exists:
  assumes "forward_history rs"
  shows "\<exists>y. (x, y) \<in> (supersession_edges rs)\<^sup>* \<and> y \<notin> Domain (supersession_edges rs)"
proof (induction "length rs - age rs x" arbitrary: x rule: less_induct)
  case less
  show ?case
  proof (cases "x \<in> Domain (supersession_edges rs)")
    case True
    then obtain z where z: "(x, z) \<in> supersession_edges rs" by blast
    then have "length rs - age rs z < length rs - age rs x"
      using age_grows [OF assms z] age_bound [of rs z] by simp
    then show ?thesis using less z by (meson converse_rtrancl_into_rtrancl)
  qed auto
qed

lemma current_unique:
  assumes "forward_history rs"
    and "(x, y) \<in> (supersession_edges rs)\<^sup>*" "y \<notin> Domain (supersession_edges rs)"
    and "(x, z) \<in> (supersession_edges rs)\<^sup>*" "z \<notin> Domain (supersession_edges rs)"
  shows "y = z"
  using single_valued_confluent [OF single_valued_supersedes [OF assms(1)] assms(2,4)] assms(3,5)
  by (metis Domain.DomainI converse_rtranclE)

lemma validated_history:
  assumes "validate_supersession_history sha256 rs = Inr rs"
    and "\<forall>r\<in>set rs. inventory_supersession_record r = Inr r"
  shows "forward_history rs"
proof -
  have *: "\<forall>c\<in>set (check_supersessions sha256 [] [] rs). c = None"
    using assms(1) by (simp add: validate_supersession_history_def)
  have self: "iv_replacement_inventory_digest (rs ! j) \<noteq> iv_superseded_inventory_digest (rs ! j)"
    if "j < length rs" for j
    using assms(2) nth_mem [OF that] by (fastforce simp: inventory_supersession_record_def)
  show ?thesis unfolding forward_history_def
    using supersessions_accepted(1,3) [OF *] self by (metis le_neq_implies_less)
qed

text \<open>An accepted history has no cycles. In a history of valid records that
  \<^verbatim>\<open>validate_supersession_history\<close> accepts, following the replacements of any inventory
  never returns to an earlier one and ends in exactly one inventory that is not superseded; and a
  record that would reactivate a superseded inventory cannot be appended.\<close>

theorem supersession_acyclic:
  assumes "validate_supersession_history sha256 rs = Inr rs"
    and "\<forall>r\<in>set rs. inventory_supersession_record r = Inr r"
  shows "acyclic (supersession_edges rs) \<and>
    (\<forall>x. \<exists>!y. (x, y) \<in> (supersession_edges rs)\<^sup>* \<and> y \<notin> Domain (supersession_edges rs)) \<and>
    (\<forall>r::InventorySupersessionRecord. iv_replacement_inventory_digest r \<in> Domain (supersession_edges rs) \<longrightarrow>
       (\<exists>e. append_inventory_supersession sha256 rs r = Inl e))"
proof (intro conjI allI impI)
  note h = validated_history [OF assms]
  show "acyclic (supersession_edges rs)" by (rule acyclic_edges [OF h])
  show "\<exists>!y. (x, y) \<in> (supersession_edges rs)\<^sup>* \<and> y \<notin> Domain (supersession_edges rs)" for x
    using current_exists [OF h] current_unique [OF h] by blast
next
  fix r :: InventorySupersessionRecord
  assume r: "iv_replacement_inventory_digest r \<in> Domain (supersession_edges rs)"
  then obtain i where i: "i < length rs"
    "iv_replacement_inventory_digest r = iv_superseded_inventory_digest (rs ! i)"
    by (auto simp: supersession_edges_def in_set_conv_nth)
  show "\<exists>e. append_inventory_supersession sha256 rs r = Inl e"
  proof (cases "append_inventory_supersession sha256 rs r")
    case (Inr rs')
    then have "\<forall>c\<in>set (check_supersessions sha256 [] [] (rs @ [r])). c = None"
      by (simp add: append_inventory_supersession_def validate_supersession_history_def)
    from supersessions_accepted(3) [OF this, of i "length rs"] i show ?thesis
      by (simp add: nth_append)
  qed simp
qed

end
