(* ===== verification/Shard_Witnesses.thy ===== *)
theory Shard_Witnesses
  imports Shard_Examples Execution_Properties
begin

section \<open>The example shard\<close>

text \<open>
  The completion that \<open>Shard_Examples\<close> publishes is indexed, the index is sealed and
  published, and the properties of indexes, seals, retries, receipt chains and supersessions are
  applied to it.
\<close>

subsection \<open>The index and its manifest\<close>

lemma example_keys [simp]:
  "position_key example_entry = (0, 0)"
  "entry_sort_key example_entry = (0, 0, numbered (CHR ''1''), numbered (CHR ''2''),
     numbered (CHR ''4''))"
  by (simp_all add: position_key_def entry_sort_key_def example_entry_def example_key_def)

lemma example_index_accepted: "shard_index_of example_index = Inr example_index"
  by (simp add: shard_index_of_def example_index_def s_digest_def s_uint32_def is_uint32_def
      UINT32_MAX_def) (simp add: example_entry_def)

lemma example_inventory_shards [simp]: "ei_shard_count example_inventory = 1"
  by (simp add: example_inventory_def)

lemma example_index_from_entries:
  "index_from_entries example_hash example_inventory 0 [example_entry] = Inr example_index"
proof -
  have "place_entries zeros 1 0 [] [example_entry] = Inr [example_entry]"
    by (simp add: example_entry_def)
  then show ?thesis using example_index_accepted
    by (simp add: index_from_entries_def s_uint32_def is_uint32_def UINT32_MAX_def)
      (simp add: example_index_def)
qed

lemma example_published_parts [simp]:
  "pc_envelope example_published = example_envelope"
  "pc_reference example_published = example_reference"
  "pc_receipts example_published = [example_receipt, example_final]"
  "final_receipt example_published = example_final"
  by (simp_all add: example_published_def final_receipt_def)

lemma example_entry_built:
  "entry_from_publication example_hash example_inventory example_published = Inr example_entry"
proof -
  have "validate_reference_against example_hash example_reference example_inventory
      example_envelope = Inr ()"
    using example_reference_built by (simp add: validate_reference_against_def)
  moreover have "shard_index_entry example_entry = Inr example_entry"
    by (simp add: shard_index_entry_def example_entry_def s_digest_def s_uint32_def is_uint32_def
        UINT32_MAX_def)
  moreover have "op_inventory_digest example_final = zeros"
    "op_attempt_key example_final = example_key" "ce_attempt_key example_envelope = example_key"
    "cr_global_ordinal example_reference = 0"
    by (simp_all add: example_final_def example_envelope_def example_reference_def)
  ultimately show ?thesis
    by (simp add: entry_from_publication_def Let_def) (simp add: example_entry_def)
qed

lemma example_index_built:
  "index_from_publications example_hash example_inventory 0 [example_published] = Inr example_index"
proof -
  have "cr_global_ordinal example_reference = 0" by (simp add: example_reference_def)
  then show ?thesis using example_entry_built example_index_from_entries
    by (simp add: index_from_publications_def)
qed

lemma example_manifest_of: "manifest_of example_hash example_inventory example_index = example_manifest"
proof -
  have "si_entries example_index = [example_entry]" "si_shard_index example_index = 0"
    by (simp_all add: example_index_def)
  moreover have "ei_required_schema_versions example_inventory = current_required_schema_versions"
    "ei_shard_policy_id example_inventory = SHARD_POLICY_ID"
    "ei_shard_policy_version example_inventory = SHARD_POLICY_VERSION"
    by (simp_all add: example_inventory_def)
  ultimately show ?thesis
    by (simp add: manifest_of_def) (simp add: example_manifest_def example_entry_def)
qed

lemma example_manifest_built:
  "sealed_manifest (manifest_of example_hash example_inventory example_index) = Inr example_manifest"
  by (simp add: example_manifest_of)
    (simp add: sealed_manifest_def example_manifest_def aligned_digests_def s_digest_def
      s_uint32_def is_uint32_def UINT32_MAX_def)

subsection \<open>The run\<close>

definition example_operations :: "ShardOp list" where
  "example_operations =
     [PublishCompletion lone_coordinator example_inventory example_completion ''run'']"

lemma example_reached:
  "run_of (shard_step example_hash) empty_publication_store example_operations example_store"
  by (simp add: example_operations_def shard_step_def example_store_def)

lemma example_unpublished:
  "\<forall>d\<in>{numbered (CHR ''5''), numbered (CHR ''6'')}. ps_objects example_store d = None \<and>
     (\<forall>cat. ps_references example_store (cat, zeros, 0, d) = None)"
  by (simp add: example_stored)


definition example_shard :: PublishedShard where
  "example_shard = projr (fst (publish_shard example_hash lone_coordinator example_inventory 0
     [example_published] example_store))"

definition sealed_store :: PublicationStore where
  "sealed_store = snd (publish_shard example_hash lone_coordinator example_inventory 0
     [example_published] example_store)"

lemma example_sealed:
  shows "publish_shard example_hash lone_coordinator example_inventory 0 [example_published]
      example_store = (Inr example_shard, sealed_store)"
    and "pd_index example_shard = example_index" "pd_manifest example_shard = example_manifest"
    and "ps_temporaries sealed_store = []"
    and "ps_objects sealed_store = (ps_objects example_store)
      (numbered (CHR ''5'') \<mapsto> index_bytes example_index,
       numbered (CHR ''6'') \<mapsto> manifest_bytes example_manifest)"
    and "ps_references sealed_store =
      [(''indexes'', zeros, 0, numbered (CHR ''5'')) \<mapsto> index_bytes example_index,
       (''manifests'', zeros, 0, numbered (CHR ''6'')) \<mapsto> manifest_bytes example_manifest,
       (''seals'', zeros, 0, numbered (CHR ''6'')) \<mapsto> manifest_bytes example_manifest]"
proof -
  have stored: "\<forall>p\<in>set [example_published]. completion_stored example_hash example_store p"
    and differ: "manifest_digest example_hash example_manifest \<noteq> index_digest example_hash example_index"
    and fresh: "\<forall>d\<in>{index_digest example_hash example_index,
        manifest_digest example_hash example_manifest}. ps_objects example_store d = None \<and>
      (\<forall>cat. ps_references example_store
        (cat, inventory_digest example_hash example_inventory, 0, d) = None)"
    using example_stored(2) example_unpublished by simp_all
  obtain d t where run: "publish_shard example_hash lone_coordinator example_inventory 0
      [example_published] example_store = (Inr d, t)"
    and rest: "pd_index d = example_index" "pd_manifest d = example_manifest" "ps_temporaries t = []"
      "ps_objects t = (ps_objects example_store)
        (index_digest example_hash example_index \<mapsto> index_bytes example_index,
         manifest_digest example_hash example_manifest \<mapsto> manifest_bytes example_manifest)"
      "ps_references t = (ps_references example_store)
        ((''indexes'', inventory_digest example_hash example_inventory, 0,
            index_digest example_hash example_index) \<mapsto> index_bytes example_index,
         (''manifests'', inventory_digest example_hash example_inventory, 0,
            manifest_digest example_hash example_manifest) \<mapsto> manifest_bytes example_manifest,
         (''seals'', inventory_digest example_hash example_inventory, 0,
            manifest_digest example_hash example_manifest) \<mapsto> manifest_bytes example_manifest)"
    using shard_published [OF example_reached lone_undisturbed example_hash_hex example_stored(5)
        stored example_index_built example_manifest_built differ fresh]
    by (elim exE conjE) (rule that)
  have same: "d = example_shard" "t = sealed_store"
    using run by (simp_all add: example_shard_def sealed_store_def)
  show "publish_shard example_hash lone_coordinator example_inventory 0 [example_published]
      example_store = (Inr example_shard, sealed_store)"
    using run unfolding same .
  show "pd_index example_shard = example_index" "pd_manifest example_shard = example_manifest"
    "ps_temporaries sealed_store = []"
    using rest(1-3) unfolding same by simp_all
  show "ps_objects sealed_store = (ps_objects example_store)
      (numbered (CHR ''5'') \<mapsto> index_bytes example_index,
       numbered (CHR ''6'') \<mapsto> manifest_bytes example_manifest)"
    "ps_references sealed_store =
      [(''indexes'', zeros, 0, numbered (CHR ''5'')) \<mapsto> index_bytes example_index,
       (''manifests'', zeros, 0, numbered (CHR ''6'')) \<mapsto> manifest_bytes example_manifest,
       (''seals'', zeros, 0, numbered (CHR ''6'')) \<mapsto> manifest_bytes example_manifest]"
    using rest(4,5) unfolding same by (simp_all add: example_stored(4))
qed

theorem sealed_shard_is_durable_witness:
  "read_verified example_hash (numbered (CHR ''6'')) sealed_store =
     (Inr (manifest_bytes example_manifest), sealed_store)"
  using sealed_shard_is_durable [OF example_reached lone_harmless example_sealed(1), of "[]"
      sealed_store, THEN conjunct2, THEN conjunct1] example_sealed(3) by simp

theorem completion_publication_idempotent_witness:
  "publish_attempt_completion example_hash lone_coordinator example_inventory example_completion
     ''run'' example_store = (Inr example_published, example_store)"
proof -
  have "claim_agrees example_hash example_store None example_receipt"
    "claim_agrees example_hash example_store (Some example_receipt) example_final"
    by (simp_all add: claim_agrees_def example_receipt_def example_final_def)
  then show ?thesis
    by (intro completion_publication_idempotent [where evs = "[]" and evs' = "[]" and
          s = empty_publication_store and r = example_receipt and r' = example_final,
          OF _ lone_harmless example_hash_hex example_stored(1) _ lone_undisturbed]) simp_all
qed

subsection \<open>Indexes\<close>

theorem index_set_semantics_witness:
  "index_from_entries example_hash example_inventory 0 [example_entry, example_entry] =
     Inr example_index"
  using index_set_semantics [OF example_index_from_entries, of "[example_entry, example_entry]"]
  by simp

theorem index_incremental_witness:
  "extend_index example_hash example_inventory example_index [example_entry] =
     index_from_entries example_hash example_inventory 0 [example_entry, example_entry]"
  using index_incremental [OF example_index_from_entries, of "[example_entry]"] by simp

subsection \<open>Receipt chains\<close>

lemma example_receipts_valid:
  "publication_receipt example_receipt = Inr example_receipt"
  "publication_receipt example_final = Inr example_final"
proof -
  have "is_token ''run''" by code_simp
  then show "publication_receipt example_receipt = Inr example_receipt"
    "publication_receipt example_final = Inr example_final"
    by (simp_all add: publication_receipt_def example_receipt_def example_final_def p_token_def
        p_digest_def is_uint32_def UINT32_MAX_def)
qed

theorem receipt_chain_append_iff_witness:
  "appended example_hash None [example_receipt, example_final]"
proof -
  have "receipt_digest example_hash example_receipt = numbered (CHR ''3'')" by simp
  then have "validate_publication_receipt_chain example_hash [example_receipt, example_final] =
      Inr [example_receipt, example_final]"
    by (simp add: validate_publication_receipt_chain_def)
      (simp add: example_receipt_def example_final_def)
  then show ?thesis
    using receipt_chain_append_iff [of example_hash "[example_receipt, example_final]"]
      example_receipts_valid by simp
qed

definition example_other :: OperationalPublicationReceipt where
  "example_other = example_receipt\<lparr>op_object_kind := KindCompletionReference\<rparr>"

theorem receipt_chain_committed_witness:
  "receipt_bytes example_receipt \<noteq> receipt_bytes example_other"
proof -
  let ?zero = "\<lambda>bs::byte list. replicate 32 (0::byte)"
  have "validate_publication_receipt_chain ?zero [example_receipt] = Inr [example_receipt]"
    "validate_publication_receipt_chain ?zero [example_other] = Inr [example_other]"
    by (simp_all add: validate_publication_receipt_chain_def example_receipt_def example_other_def)
  moreover have "receipt_digest ?zero (last [example_receipt]) =
      receipt_digest ?zero (last [example_other])"
    by (simp add: receipt_digest_def json_digest_def)
  ultimately have "[example_receipt] = [example_other] \<or>
      (\<exists>r\<in>set [example_receipt]. \<exists>r'\<in>set [example_other]. receipt_bytes r \<noteq> receipt_bytes r' \<and>
        ?zero (receipt_bytes r) = ?zero (receipt_bytes r'))"
    by (rule receipt_chain_committed)
  moreover have "example_receipt \<noteq> example_other"
    by (simp add: example_receipt_def example_other_def)
  ultimately show ?thesis by simp
qed

subsection \<open>Supersessions\<close>

definition example_supersession :: "char \<Rightarrow> char \<Rightarrow> InventorySupersessionRecord" where
  "example_supersession a b = \<lparr>iv_superseded_inventory_digest = numbered a,
     iv_replacement_inventory_digest = numbered b, iv_superseding_run_id = ''run'',
     iv_reason_code = ''retry'', iv_reason_facts = CanonicalObject [],
     iv_schema_version = INVENTORY_SUPERSESSION_SCHEMA_VERSION\<rparr>"

definition example_history :: "InventorySupersessionRecord list" where
  "example_history =
     [example_supersession (CHR ''1'') (CHR ''2''), example_supersession (CHR ''2'') (CHR ''3'')]"

definition supersession_hash :: "byte list \<Rightarrow> byte list" where
  "supersession_hash bs = (if bs = json_bytes (supersession_json (hd example_history)) then [1] else [0])"

lemma supersessions_differ:
  "json_bytes (supersession_json (example_supersession (CHR ''2'') (CHR ''3''))) \<noteq>
     json_bytes (supersession_json (example_supersession (CHR ''1'') (CHR ''2'')))"
  unfolding json_bytes_eq_iff by code_simp

theorem supersession_acyclic_witness:
  "acyclic (supersession_edges example_history) \<and>
   (\<exists>e. append_inventory_supersession supersession_hash example_history
      (example_supersession (CHR ''3'') (CHR ''1'')) = Inl e)"
proof -
  let ?r = "example_supersession (CHR ''3'') (CHR ''1'')"
  have "hex [1] \<noteq> hex [0::byte]" by code_simp
  then have "supersession_digest supersession_hash (example_history ! 1) \<noteq>
      supersession_digest supersession_hash (example_history ! 0)"
    using supersessions_differ
    by (simp add: supersession_digest_def json_digest_def supersession_hash_def example_history_def)
  then have "validate_supersession_history supersession_hash example_history = Inr example_history"
    by (simp add: validate_supersession_history_def example_history_def)
      (simp add: example_supersession_def)
  moreover have "is_token ''run''" "is_token ''retry''" by code_simp+
  then have "\<forall>r\<in>set example_history. inventory_supersession_record r = Inr r"
    by (simp add: example_history_def example_supersession_def inventory_supersession_record_def
        x_digest_def x_token_def x_constant_def)
  moreover have "iv_replacement_inventory_digest ?r \<in> Domain (supersession_edges example_history)"
    by (simp add: supersession_edges_def example_history_def example_supersession_def)
  ultimately show ?thesis using supersession_acyclic [of supersession_hash example_history] by blast
qed

end
