(* ===== verification/Reconciliation_Determinism.thy ===== *)
theory Reconciliation_Determinism
  imports Reconciliation_Protocol Attempt_Facts
begin

section \<open>Reconciliation is canonical\<close>

text \<open>
  Two reconciliations of the same shards agree on everything they conclude, whatever the stores,
  the calls and the other processes were. The relation \<open>agree\<close> says that two operations,
  when both return, return related results.
\<close>

definition agree :: "('a \<Rightarrow> 'b \<Rightarrow> bool) \<Rightarrow> 'a world_op \<Rightarrow> 'b world_op \<Rightarrow> bool" where
  "agree R m m' \<longleftrightarrow> (\<forall>w w' a b v v'. m w = (Inr a, v) \<longrightarrow> m' w' = (Inr b, v') \<longrightarrow> R a b)"

lemma agreeD: "agree R m m' \<Longrightarrow> m w = (Inr a, v) \<Longrightarrow> m' w' = (Inr b, v') \<Longrightarrow> R a b"
  unfolding agree_def by blast

lemma agree_lift: "agree (=) (lift_res r) (lift_res r)"
  by (auto simp: agree_def)

lemma agree_ret: "R a b \<Longrightarrow> agree R (ret a) (ret b)"
  by (auto simp: agree_def)

lemma agree_raise: "agree R (raise_op e) m"
  by (auto simp: agree_def)

lemma agree_any: "agree (\<lambda>_ _. True) m m'"
  by (auto simp: agree_def)

lemma agree_seq:
  assumes "agree R m m'" and "\<And>a b. R a b \<Longrightarrow> agree S (f a) (f' b)"
  shows "agree S (seq_op m f) (seq_op m' f')"
  using assms unfolding agree_def seq_op_Inr by blast

text \<open>The two shapes that occur: the results are the same, or they are not looked at.\<close>

lemma agree_then:
  "agree (=) m m' \<Longrightarrow> (\<And>a. agree S (f a) (f' a)) \<Longrightarrow> agree S (seq_op m f) (seq_op m' f')"
  by (rule agree_seq [where R = "(=)"]) auto

lemma agree_call:
  "(\<And>a b. agree S (f a) (f' b)) \<Longrightarrow> agree S (seq_op (at_store c m) f) (seq_op (at_store c' m') f')"
  by (rule agree_seq [OF agree_any])

lemmas agree_lift_then = agree_then [OF agree_lift]

subsection \<open>The accumulator\<close>

lemma carry_agrees:
  "agree (=) (carry_peaks sha256 c domain peaks current) (carry_peaks sha256 c' domain peaks current)"
proof (induction sha256 c domain peaks current rule: carry_peaks.induct)
  case (1 sha256 c domain peaks current)
  show ?case
  proof (cases "map_of peaks (mp_level current)")
    case None
    show ?thesis unfolding carry_peaks.simps [of sha256 _ domain peaks] None option.case
      by (rule agree_ret) simp
  next
    case (Some left)
    show ?thesis unfolding carry_peaks.simps [of sha256 _ domain peaks] Some option.case Let_def
      by (intro agree_call agree_lift_then "1.IH" [OF Some refl])
  qed
qed

lemma add_record_agrees:
  "agree (\<lambda>a b. snd a = snd b) (add_record sha256 c acc payload d) (add_record sha256 c' acc payload d)"
  unfolding add_record_def
  by (intro agree_lift_then agree_call agree_then [OF carry_agrees] agree_ret) simp

lemma finalize_agrees: "agree (=) (finalize sha256 c acc) (finalize sha256 c' acc)"
  unfolding finalize_def Let_def by (intro agree_call agree_ret refl)

subsection \<open>The reconciler\<close>

lemma require_agrees: "agree (=) (require_op ok e) (require_op ok e)"
  unfolding require_op_def by (rule agree_lift)

lemma resolve_entry_agrees:
  "agree (=) (resolve_entry sha256 c x ordinal authority s) (resolve_entry sha256 c' x ordinal authority s)"
  unfolding resolve_entry_def Let_def
  by (intro agree_lift_then agree_then [OF require_agrees] agree_call agree_ret refl)

lemma resolve_entries_agrees:
  "agree (=) (resolve_entries sha256 c x ordinal ss authority attested)
     (resolve_entries sha256 c' x ordinal ss authority attested)"
proof (induction ss arbitrary: authority attested)
  case Nil
  show ?case by (auto intro: agree_ret simp del: op_simps)
next
  case (Cons s ss)
  show ?case unfolding resolve_entries.simps
    by (rule agree_then [OF resolve_entry_agrees]) (auto intro: Cons.IH split: prod.splits)
qed

lemma resolve_sample_agrees:
  "agree (=) (resolve_sample sha256 c x ordinal ss) (resolve_sample sha256 c' x ordinal ss)"
  unfolding resolve_sample_def
  by (rule agree_then [OF require_agrees], rule agree_then [OF resolve_entries_agrees])
    (auto simp: Let_def intro!: agree_lift_then agree_ret agree_raise split: option.splits prod.splits)

lemma add_semantic_agrees:
  "agree (=) (add_semantic sha256 c semantic st) (add_semantic sha256 c' semantic st)"
  unfolding add_semantic_def
  by (auto intro!: agree_ret agree_seq [OF add_record_agrees] split: option.splits)

lemma flush_agrees: "agree (=) (flush sha256 c x st) (flush sha256 c' x st)"
proof (cases "rc_current_ordinal st")
  case None
  show ?thesis unfolding flush_def None option.case by (rule agree_ret) simp
next
  case (Some ordinal)
  have "agree (=)
      (seq_op (add_semantic sha256 c semantic st) (\<lambda>st1.
       seq_op (add_record sha256 c (rc_run_merkle st1) (run_record_bytes evidence)
         (run_record_digest sha256 evidence)) (\<lambda>(_, acc). ret (f st1 acc))))
      (seq_op (add_semantic sha256 c' semantic st) (\<lambda>st1.
       seq_op (add_record sha256 c' (rc_run_merkle st1) (run_record_bytes evidence)
         (run_record_digest sha256 evidence)) (\<lambda>(_, acc). ret (f st1 acc))))"
    for semantic evidence and f :: "_ \<Rightarrow> _ \<Rightarrow> ReconcileState"
    by (rule agree_then [OF add_semantic_agrees], rule agree_seq [OF add_record_agrees])
      (auto intro!: agree_ret)
  then show ?thesis unfolding flush_def Some option.case
    by (intro agree_then [OF require_agrees] agree_then [OF resolve_sample_agrees])
      (auto split: prod.splits)
qed

lemma consume_entries_agrees:
  "agree (=) (consume_entries sha256 c x ss st) (consume_entries sha256 c' x ss st)"
proof (induction ss arbitrary: st)
  case Nil
  show ?case by (auto intro: agree_ret simp del: op_simps)
next
  case (Cons s ss)
  show ?case unfolding consume_entries.simps Let_def
    by (rule agree_then [OF _ Cons.IH])
      (auto intro!: agree_ret agree_then [OF flush_agrees] simp del: op_simps)
qed

lemma consume_stream_agrees:
  "agree (=) (consume_stream sha256 c x st) (consume_stream sha256 c' x st)"
  unfolding consume_stream_def
  by (auto intro!: agree_then [OF consume_entries_agrees] agree_raise flush_agrees
      split: prod.splits option.splits)

text \<open>What a result says, without the dispositions of the publications.\<close>

definition same_conclusion :: "ReconciliationResult \<Rightarrow> ReconciliationResult \<Rightarrow> bool" where
  "same_conclusion r r' \<longleftrightarrow> (\<exists>p q t. r' = r\<lparr>rs_semantic_manifest_publication := p,
     rs_run_evidence_manifest_publication := q, rs_seal_publication := t\<rparr>)"

lemma agree_result:
  assumes "\<exists>p q t. r' = r\<lparr>rs_semantic_manifest_publication := p,
     rs_run_evidence_manifest_publication := q, rs_seal_publication := t\<rparr>"
  shows "agree same_conclusion (lift_res (reconciliation_result r)) (lift_res (reconciliation_result r'))"
  using assms by (auto simp: agree_def same_conclusion_def reconciliation_result_def)

lemma publish_merge_agrees:
  "agree same_conclusion (publish_merge sha256 c x st) (publish_merge sha256 c' x st)"
  unfolding publish_merge_def
  by (intro agree_then [OF finalize_agrees] agree_lift_then agree_call agree_result) simp

lemma reconcile_agrees: "agree same_conclusion (reconcile sha256 c x) (reconcile sha256 c' x)"
  unfolding reconcile_def
  by (intro agree_lift_then agree_then [OF consume_stream_agrees] agree_then [OF require_agrees]
      publish_merge_agrees)

subsection \<open>The order of the shards\<close>

abbreviation shard_position :: "PublishedShard \<Rightarrow> int" where
  "shard_position d \<equiv> si_shard_index (pd_index d)"

lemma verify_shards_returned:
  assumes "verify_shards sha256 c x w = (Inr y, v)"
  shows "y = x\<lparr>sx_shards := sort_key shard_position (sx_shards x)\<rparr>"
    and "map shard_position (sort_key shard_position (sx_shards x)) =
      [0..ei_shard_count (sx_inventory x) - 1]"
  using assms by (auto simp: verify_shards_def Let_def seq_op_Inr)

lemma verify_shards_agrees:
  assumes "mset shards = mset shards'"
  shows "agree (=) (verify_shards sha256 c (x\<lparr>sx_shards := shards\<rparr>))
    (verify_shards sha256 c' (x\<lparr>sx_shards := shards'\<rparr>))"
  unfolding agree_def
proof (intro allI impI)
  fix w w' y y' v v'
  assume "verify_shards sha256 c (x\<lparr>sx_shards := shards\<rparr>) w = (Inr y, v)"
    and "verify_shards sha256 c' (x\<lparr>sx_shards := shards'\<rparr>) w' = (Inr y', v')"
  note one = verify_shards_returned [OF this(1)] and two = verify_shards_returned [OF this(2)]
  have "distinct (map shard_position (sort_key shard_position shards'))" using two(2) by simp
  then have "distinct (map shard_position shards')"
    by (simp add: distinct_map distinct_sort)
  from sort_key_permuted [OF assms this] show "y = y'" using one(1) two(1) by simp
qed

definition verified_reconciliation :: "(byte list \<Rightarrow> byte list) \<Rightarrow> CoordinatorCall \<Rightarrow>
    StreamingReconciler \<Rightarrow> ReconciliationResult world_op" where
  "verified_reconciliation sha256 c x = seq_op (verify_shards sha256 c x) (reconcile sha256 c)"

text \<open>C8: Reconciliation is canonical. Two reconcilers of the same inventory with the same
  callbacks, given the same shards in any order, on any stores and with any interference of other
  processes, when both return, return the same corpus manifest, run manifest and seal and the same
  counts: only the dispositions of the three final publications may differ.\<close>

theorem reconciliation_canonical:
  assumes "mset shards = mset shards'"
    and "verified_reconciliation sha256 c (x\<lparr>sx_shards := shards\<rparr>) w = (Inr r, v)"
    and "verified_reconciliation sha256 c' (x\<lparr>sx_shards := shards'\<rparr>) w' = (Inr r', v')"
  shows "\<exists>p q t. r' = r\<lparr>rs_semantic_manifest_publication := p,
     rs_run_evidence_manifest_publication := q, rs_seal_publication := t\<rparr>"
proof -
  have "agree same_conclusion (verified_reconciliation sha256 c (x\<lparr>sx_shards := shards\<rparr>))
      (verified_reconciliation sha256 c' (x\<lparr>sx_shards := shards'\<rparr>))"
    unfolding verified_reconciliation_def
    by (rule agree_then [OF verify_shards_agrees [OF assms(1)] reconcile_agrees])
  from agreeD [OF this assms(2,3)] show ?thesis by (simp add: same_conclusion_def)
qed

end
