(* ===== verification/Merkle_Forest.thy ===== *)
theory Merkle_Forest
  imports Reconciliation_Records Shard_Sealing Publication_Chains
begin

section \<open>What a Merkle root commits to\<close>

text \<open>
  The peaks of the accumulator are perfect binary trees, one per binary digit of the number of
  records. Every node of a tree is an object of the store, so in a store in which names match
  bytes a root determines all the records under it.
\<close>

subsection \<open>The world of the reconciler\<close>

definition world_keeps :: "(byte list \<Rightarrow> byte list) \<Rightarrow> ReconcilerWorld \<Rightarrow> ReconcilerWorld \<Rightarrow> bool" where
  "world_keeps sha256 w v \<longleftrightarrow> pub_keeps sha256 (rw_store w) (rw_store v)"

interpretation reconciling: effect_order "world_keeps sha256" for sha256
  by unfold_locales (auto simp: world_keeps_def intro: publication.refl publication.trans)

lemma at_store_keeps [intro]:
  assumes "coordinator_harmless sha256 c" and "\<And>call. harmless sha256 (pc_meanwhile call) \<Longrightarrow>
    publication.conserves sha256 (m call)"
  shows "reconciling.conserves sha256 (at_store c m)"
proof (rule reconciling.conservesI)
  fix w :: ReconcilerWorld
  let ?k = "rw_calls w"
  have "publication.conserves sha256 (m (uninjected c ?k))"
    using assms coordinator_calls(2) by blast
  then have "pub_keeps sha256 (co_before c ?k (rw_store w))
      (snd (m (uninjected c ?k) (co_before c ?k (rw_store w))))" by (rule publication.conservesD)
  moreover have "pub_keeps sha256 (rw_store w) (co_before c ?k (rw_store w))"
    using assms(1) by (simp add: coordinator_harmless_def harmless_def)
  ultimately show "world_keeps sha256 w (snd (at_store c m w))"
    by (simp add: at_store_def Let_def world_keeps_def publication.trans)
qed

lemma at_store_returned:
  assumes "at_store c m w = (Inr r, v)"
  shows "\<exists>s. m (uninjected c (rw_calls w)) s = (Inr r, rw_store v)"
  using assms by (auto simp: at_store_def Let_def prod_eq_iff)

text \<open>A publication that returned has stored its bytes under the digest it was given.\<close>

lemma published_at:
  assumes "at_store c (\<lambda>call. publish_bytes sha256 call payload (Some d)) w = (Inr r, v)"
    and "coordinator_harmless sha256 c"
  shows "d = hex (sha256 payload)" and "stored (rw_store v) d payload"
proof -
  obtain s where run: "publish_bytes sha256 (uninjected c (rw_calls w)) payload (Some d) s =
      (Inr r, rw_store v)" using at_store_returned [OF assms(1)] by blast
  then show d: "d = hex (sha256 payload)"
    by (auto simp: publish_bytes_def Let_def seq_op_Inr check_expected_def)
  show "stored (rw_store v) d payload"
    unfolding d using publish_returned_stored [OF run] coordinator_calls(2) [OF assms(2)] by blast
qed

lemma publish_at_keeps:
  "coordinator_harmless sha256 c \<Longrightarrow> reconciling.conserves sha256
    (at_store c (\<lambda>call. publish_bytes sha256 call payload e))"
  by (rule at_store_keeps) (auto intro: publish_bytes_keeps)

subsection \<open>Committed trees\<close>

inductive committed :: "(byte list \<Rightarrow> byte list) \<Rightarrow> string \<Rightarrow> PublicationStore \<Rightarrow> MerklePeak \<Rightarrow>
    string list \<Rightarrow> bool" for sha256 domain s where
  leaf: "committed sha256 domain s \<lparr>mp_level = 0, mp_digest = d, mp_leaf_count = 1\<rparr> [d]"
| node: "committed sha256 domain s l xs \<Longrightarrow> committed sha256 domain s r ys \<Longrightarrow>
    mp_level l = mp_level r \<Longrightarrow>
    ps_objects s (mp_digest (node_peak sha256 domain l r)) = Some (json_bytes (node_json domain l r)) \<Longrightarrow>
    committed sha256 domain s (node_peak sha256 domain l r) (xs @ ys)"

lemma committed_shape:
  "committed sha256 domain s p xs \<Longrightarrow> 0 \<le> mp_level p \<and> length xs = 2 ^ nat (mp_level p) \<and>
     mp_leaf_count p = int (length xs)"
  by (induction rule: committed.induct) (auto simp: node_peak_def nat_add_distrib)

lemma committed_grows:
  "committed sha256 domain s p xs \<Longrightarrow> pub_grows s t \<Longrightarrow> committed sha256 domain t p xs"
proof (induction rule: committed.induct)
  case (node l xs r ys)
  then show ?case using pub_growsD(1) [of s t] by (blast intro: committed.node)
qed (rule committed.leaf)

lemma node_json_inject [simp]:
  "json_bytes (node_json domain l r) = json_bytes (node_json domain' l' r') \<longleftrightarrow>
     node_json domain l r = node_json domain' l' r'"
proof -
  have "canonical_form (node_json domain l r)" for domain l r
    unfolding canonical_form_def node_json_def norm_json.simps
    by (subst sort_key_id_if_sorted) simp_all
  then show ?thesis using json_bytes_canonical by blast
qed

lemma committed_unique:
  assumes "committed sha256 domain s p xs" and "committed sha256 domain' s q ys"
    and "mp_digest p = mp_digest q" and "mp_level p = mp_level q"
  shows "xs = ys"
  using assms
proof (induction arbitrary: q ys rule: committed.induct)
  case (leaf d)
  from leaf(1) show ?case
  proof (cases rule: committed.cases)
    case (node l xs r zs)
    then show ?thesis using leaf(3) committed_shape by (fastforce simp: node_peak_def)
  qed (use leaf in simp)
next
  case (node l xs r zs)
  from node.prems(1) show ?case
  proof (cases rule: committed.cases)
    case leaf
    then show ?thesis using node.prems(3) committed_shape [OF node.hyps(2)]
      by (simp add: node_peak_def)
  next
    case other: (node l' xs' r' zs')
    then have "node_json domain l r = node_json domain' l' r'"
      using node.hyps(4) node.prems(2) by simp
    then have "mp_digest l = mp_digest l'" "mp_digest r = mp_digest r'" by (simp_all add: node_json_def)
    moreover have "mp_level r = mp_level r'" using node.prems(3) other by (simp add: node_peak_def)
    ultimately show ?thesis
      using node.IH(1) [OF other(3)] node.IH(2) [OF other(4)] node.hyps(3) other by simp
  qed
qed

subsection \<open>The forest\<close>

definition forest :: "(byte list \<Rightarrow> byte list) \<Rightarrow> string \<Rightarrow> PublicationStore \<Rightarrow>
    (int \<times> MerklePeak) list \<Rightarrow> string list list \<Rightarrow> bool" where
  "forest sha256 domain s peaks xss \<longleftrightarrow> sorted_wrt (<) (map fst peaks) \<and>
     list_all2 (\<lambda>(l, p) xs. l = mp_level p \<and> committed sha256 domain s p xs) peaks xss"

lemma forest_Nil [simp]: "forest sha256 domain s [] xss \<longleftrightarrow> xss = []"
  by (simp add: forest_def)

lemma forest_Cons: "forest sha256 domain s ((l, p) # peaks) xss \<longleftrightarrow>
    (\<exists>xs yss. xss = xs # yss \<and> l = mp_level p \<and> committed sha256 domain s p xs \<and>
       (\<forall>k\<in>fst ` set peaks. l < k) \<and> forest sha256 domain s peaks yss)"
  by (auto simp: forest_def list_all2_Cons1)

lemma forest_grows:
  "forest sha256 domain s peaks xss \<Longrightarrow> pub_grows s t \<Longrightarrow> forest sha256 domain t peaks xss"
  by (auto simp: forest_def elim!: list_all2_mono intro: committed_grows)

lemma carry_keeps:
  assumes "coordinator_harmless sha256 c"
  shows "reconciling.conserves sha256 (carry_peaks sha256 c domain peaks current)"
  using assms
proof (induction sha256 c domain peaks current rule: carry_peaks.induct)
  case (1 sha256 c domain peaks current)
  show ?case
  proof (cases "map_of peaks (mp_level current)")
    case None
    then show ?thesis
      by (simp add: carry_peaks.simps [of sha256 c domain peaks] reconciling.conserves_pure
          del: op_simps)
  next
    case (Some left)
    show ?thesis
      unfolding carry_peaks.simps [of sha256 c domain peaks] Some option.case Let_def
      by (intro reconciling.conserves_seq publish_at_keeps reconciling.conserves_pure
          "1.IH" [OF Some refl] "1.prems")
  qed
qed

text \<open>Carrying a new tree into the forest appends its records to those of the forest.\<close>

lemma carry_forest:
  assumes "carry_peaks sha256 c domain peaks current w = (Inr ps, v)"
    and "forest sha256 domain (rw_store w) peaks xss"
    and "committed sha256 domain (rw_store w) current zs"
    and "\<forall>l\<in>fst ` set peaks. mp_level current \<le> l"
    and "coordinator_harmless sha256 c" and "pub_wf sha256 (rw_store w)"
  shows "\<exists>yss. forest sha256 domain (rw_store v) ps yss \<and>
    concat (rev yss) = concat (rev xss) @ zs"
  using assms
proof (induction sha256 c domain peaks current arbitrary: w xss zs rule: carry_peaks.induct)
  case (1 sha256 c domain peaks current)
  note run = "1.prems"(1) [unfolded carry_peaks.simps [of sha256 c domain peaks]]
  show ?case
  proof (cases "map_of peaks (mp_level current)")
    case None
    have "mp_level current \<notin> fst ` set peaks" using None by (simp add: map_of_eq_None_iff)
    then have "\<forall>l\<in>fst ` set peaks. mp_level current < l" using "1.prems"(4)
      by (metis order_le_imp_less_or_eq)
    then have "forest sha256 domain (rw_store v) ps (zs # xss)"
      using run None "1.prems"(2,3) by (auto simp: forest_Cons)
    then show ?thesis by (intro exI [of _ "zs # xss"]) simp
  next
    case (Some left)
    then have "peaks \<noteq> []" by auto
    then obtain l p rest where peaks: "peaks = (l, p) # rest" by (metis list.exhaust surj_pair)
    obtain xs yss where xss: "xss = xs # yss" and l: "l = mp_level p"
      and p: "committed sha256 domain (rw_store w) p xs" and above: "\<forall>k\<in>fst ` set rest. l < k"
      and rest: "forest sha256 domain (rw_store w) rest yss"
      using "1.prems"(2) unfolding peaks forest_Cons by blast
    have le: "mp_level current \<le> l" using "1.prems"(4) peaks by simp
    have "mp_level current = l"
    proof (rule ccontr)
      assume "mp_level current \<noteq> l"
      then have "mp_level current \<in> fst ` set rest"
        using Some peaks by (metis image_eqI fst_conv map_of_Cons_code(2) map_of_SomeD)
      then show False using above le by force
    qed
    then have left: "left = p" and popped: "filter (\<lambda>(l, p). l \<noteq> mp_level current) peaks = rest"
      using Some peaks above by (auto simp: filter_id_conv)
    let ?node = "node_json domain p current" and ?peak = "node_peak sha256 domain p current"
    obtain r w1 where pub: "at_store c (\<lambda>call. publish_bytes sha256 call (json_bytes ?node)
        (Some (json_digest sha256 ?node))) w = (Inr r, w1)"
      and go: "carry_peaks sha256 c domain rest ?peak w1 = (Inr ps, v)"
      using run unfolding Some option.case Let_def left popped by (auto simp: seq_op_Inr)
    have keeps: "pub_keeps sha256 (rw_store w) (rw_store w1)"
      using reconciling.conserves_apply [OF publish_at_keeps [OF "1.prems"(5)] pub]
      by (simp add: world_keeps_def)
    then have wf: "pub_wf sha256 (rw_store w1)" and grows: "pub_grows (rw_store w) (rw_store w1)"
      using "1.prems"(6) by (simp_all add: pub_keeps_def)
    have "stored (rw_store w1) (json_digest sha256 ?node) (json_bytes ?node)"
      by (rule published_at(2) [OF pub "1.prems"(5)])
    then have "ps_objects (rw_store w1) (mp_digest ?peak) = Some (json_bytes ?node)"
      by (simp add: stored_def node_peak_def)
    then have peak: "committed sha256 domain (rw_store w1) ?peak (xs @ zs)"
      using committed_grows [OF p grows] committed_grows [OF "1.prems"(3) grows] l
        \<open>mp_level current = l\<close> by (intro committed.node) simp_all
    have "\<forall>k\<in>fst ` set rest. mp_level ?peak \<le> k"
      using above \<open>mp_level current = l\<close> by (auto simp: node_peak_def)
    from "1.IH" [OF Some refl, unfolded left popped, OF go forest_grows [OF rest grows] peak this
        "1.prems"(5) wf]
    show ?thesis by (simp add: xss)
  qed
qed

subsection \<open>The accumulator\<close>

definition accumulated ::
  "(byte list \<Rightarrow> byte list) \<Rightarrow> PublicationStore \<Rightarrow> MerkleAccumulator \<Rightarrow> string list \<Rightarrow> bool" where
  "accumulated sha256 s acc ds \<longleftrightarrow> mk_record_count acc = int (length ds) \<and>
     (\<exists>xss. forest sha256 (mk_domain acc) s (mk_peaks acc) xss \<and> concat (rev xss) = ds)"

lemma accumulated_new: "merkle_accumulator domain = Inr acc \<Longrightarrow>
    accumulated sha256 s acc [] \<and> mk_domain acc = domain"
  by (auto simp: merkle_accumulator_def accumulated_def)

lemma accumulated_grows:
  "accumulated sha256 s acc ds \<Longrightarrow> pub_grows s t \<Longrightarrow> accumulated sha256 t acc ds"
  by (auto simp: accumulated_def dest: forest_grows)

lemma forest_nonnegative:
  "forest sha256 domain s peaks xss \<Longrightarrow> \<forall>l\<in>fst ` set peaks. 0 \<le> l"
proof (induction peaks arbitrary: xss)
  case (Cons a peaks)
  then show ?case using committed_shape by (cases a) (auto simp: forest_Cons)
qed simp

lemma add_record_keeps:
  assumes "coordinator_harmless sha256 c"
  shows "reconciling.conserves sha256 (add_record sha256 c acc payload d)"
  unfolding add_record_def
  by (intro reconciling.conserves_seq reconciling.conserves_pure publish_at_keeps carry_keeps assms)

lemma add_record_returned:
  assumes "add_record sha256 c acc payload d w = (Inr (r, acc'), v)"
    and "accumulated sha256 (rw_store w) acc ds"
    and "coordinator_harmless sha256 c" and "pub_wf sha256 (rw_store w)"
  shows "accumulated sha256 (rw_store v) acc' (ds @ [d])" "mk_domain acc' = mk_domain acc"
    "stored (rw_store v) d payload" "pub_grows (rw_store w) (rw_store v)" "pub_wf sha256 (rw_store v)"
proof -
  let ?leaf = "\<lparr>mp_level = 0, mp_digest = d, mp_leaf_count = 1\<rparr>"
  obtain w1 ps where pub: "at_store c (\<lambda>call. publish_bytes sha256 call payload (Some d)) w =
      (Inr r, w1)"
    and carry: "carry_peaks sha256 c (mk_domain acc) (mk_peaks acc) ?leaf w1 = (Inr ps, v)"
    and acc': "acc' = acc\<lparr>mk_peaks := ps, mk_record_count := mk_record_count acc + 1\<rparr>"
    using assms(1) by (auto simp: add_record_def seq_op_Inr merkle_peak_def)
  have "pub_keeps sha256 (rw_store w) (rw_store w1)" "pub_keeps sha256 (rw_store w1) (rw_store v)"
    using reconciling.conserves_apply [OF publish_at_keeps [OF assms(3)] pub]
      reconciling.conserves_apply [OF carry_keeps [OF assms(3)] carry]
    by (simp_all add: world_keeps_def)
  then have wf: "pub_wf sha256 (rw_store w1)" "pub_wf sha256 (rw_store v)"
    and grows: "pub_grows (rw_store w) (rw_store w1)" "pub_grows (rw_store w1) (rw_store v)"
    using assms(4) by (auto simp: pub_keeps_def)
  obtain xss where forest: "forest sha256 (mk_domain acc) (rw_store w) (mk_peaks acc) xss"
    and ds: "concat (rev xss) = ds" and n: "mk_record_count acc = int (length ds)"
    using assms(2) by (auto simp: accumulated_def)
  have "\<forall>l\<in>fst ` set (mk_peaks acc). mp_level ?leaf \<le> l" using forest_nonnegative [OF forest] by simp
  then obtain yss where "forest sha256 (mk_domain acc) (rw_store v) ps yss"
    "concat (rev yss) = ds @ [d]"
    using carry_forest [OF carry forest_grows [OF forest grows(1)] committed.leaf _ assms(3) wf(1)]
      ds by auto
  then show "accumulated sha256 (rw_store v) acc' (ds @ [d])"
    using n by (auto simp: accumulated_def acc')
  show "mk_domain acc' = mk_domain acc" by (simp add: acc')
  show "stored (rw_store v) d payload"
    using published_at(2) [OF pub assms(3)] stored_grows [OF grows(2)] by blast
  show "pub_grows (rw_store w) (rw_store v)" using grows by (rule pub_grows_trans)
  show "pub_wf sha256 (rw_store v)" by (rule wf(2))
qed

subsection \<open>Roots\<close>

definition root_commits :: "(byte list \<Rightarrow> byte list) \<Rightarrow> string \<Rightarrow> PublicationStore \<Rightarrow> string \<Rightarrow>
    string list \<Rightarrow> bool" where
  "root_commits sha256 domain s root ds \<longleftrightarrow> (\<exists>acc. mk_domain acc = domain \<and>
     accumulated sha256 s acc ds \<and> stored s root (json_bytes (root_json acc)))"

lemma root_commits_grows:
  "root_commits sha256 domain s root ds \<Longrightarrow> pub_grows s t \<Longrightarrow> root_commits sha256 domain t root ds"
  unfolding root_commits_def using accumulated_grows stored_grows by blast

lemma forest_ordered:
  assumes "forest sha256 (mk_domain acc) s (mk_peaks acc) xss"
  shows "ordered_peaks acc = rev (map snd (mk_peaks acc))"
proof -
  have "sorted (map fst (mk_peaks acc))"
    using assms by (auto simp: forest_def intro: strict_sorted_imp_sorted)
  then show ?thesis by (simp add: ordered_peaks_def sort_key_id_if_sorted rev_map)
qed

lemma peak_json_inject [simp]: "peak_json p = peak_json q \<longleftrightarrow> p = q"
  by (auto simp: peak_json_def intro: MerklePeak.equality)

lemma root_canonical: "canonical_form (root_json acc)"
proof -
  have "norm_json (peak_json p) = peak_json p" for p
    unfolding peak_json_def norm_json.simps by (subst sort_key_id_if_sorted) simp_all
  then show ?thesis
    unfolding canonical_form_def root_json_def norm_json.simps
    by (subst sort_key_id_if_sorted) simp_all
qed

lemma forest_unique:
  assumes "forest sha256 domain s peaks xss" and "forest sha256 domain' s peaks' yss"
    and "map snd peaks = map snd peaks'"
  shows "xss = yss"
  using assms
proof (induction peaks arbitrary: peaks' xss yss)
  case (Cons a peaks)
  then obtain b rest where "peaks' = b # rest" "snd a = snd b" "map snd peaks = map snd rest"
    by (cases peaks') auto
  then show ?case using Cons.prems(1,2) Cons.IH [of _ rest] committed_unique
    by (cases a; cases b) (fastforce simp: forest_Cons)
qed simp

lemma root_commits_unique:
  assumes "root_commits sha256 domain s root ds" and "root_commits sha256 domain' s root ds'"
  shows "domain = domain' \<and> ds = ds'"
proof -
  obtain acc xss where acc: "mk_domain acc = domain"
      "forest sha256 (mk_domain acc) s (mk_peaks acc) xss" "concat (rev xss) = ds"
      "stored s root (json_bytes (root_json acc))"
    using assms(1) by (auto simp: root_commits_def accumulated_def)
  obtain acc' yss where acc': "mk_domain acc' = domain'"
      "forest sha256 (mk_domain acc') s (mk_peaks acc') yss" "concat (rev yss) = ds'"
      "stored s root (json_bytes (root_json acc'))"
    using assms(2) by (auto simp: root_commits_def accumulated_def)
  have "json_bytes (root_json acc) = json_bytes (root_json acc')"
    using acc(4) acc'(4) by (simp add: stored_def)
  then have "root_json acc = root_json acc'"
    using json_bytes_canonical root_canonical by blast
  then have "mk_domain acc = mk_domain acc'"
    and "map peak_json (ordered_peaks acc) = map peak_json (ordered_peaks acc')"
    by (simp_all add: root_json_def)
  moreover have "inj peak_json" by (simp add: inj_def)
  ultimately have "map snd (mk_peaks acc) = map snd (mk_peaks acc')"
    using forest_ordered [OF acc(2)] forest_ordered [OF acc'(2)] by (simp add: inj_map_eq_map)
  from forest_unique [OF acc(2) acc'(2) this] show ?thesis
    using acc acc' \<open>mk_domain acc = mk_domain acc'\<close> by simp
qed

lemma finalize_keeps:
  assumes "coordinator_harmless sha256 c"
  shows "reconciling.conserves sha256 (finalize sha256 c acc)"
  unfolding finalize_def Let_def
  by (intro reconciling.conserves_seq reconciling.conserves_pure publish_at_keeps assms)

lemma finalize_returned:
  assumes "finalize sha256 c acc w = (Inr (root, n, k), v)"
    and "accumulated sha256 (rw_store w) acc ds"
    and "coordinator_harmless sha256 c" and "pub_wf sha256 (rw_store w)"
  shows "root_commits sha256 (mk_domain acc) (rw_store v) root ds" "n = int (length ds)"
    "k = int (length (mk_peaks acc))"
    "pub_grows (rw_store w) (rw_store v)" "pub_wf sha256 (rw_store v)"
proof -
  let ?d = "json_digest sha256 (root_json acc)"
  obtain r where pub: "at_store c (\<lambda>call. publish_bytes sha256 call (json_bytes (root_json acc))
      (Some ?d)) w = (Inr r, v)"
    and out: "root = ?d" "n = mk_record_count acc" "k = int (length (ordered_peaks acc))"
    using assms(1) unfolding finalize_def Let_def seq_op_Inr by (elim exE conjE) simp
  have "pub_keeps sha256 (rw_store w) (rw_store v)"
    using reconciling.conserves_apply [OF publish_at_keeps [OF assms(3)] pub]
    by (simp add: world_keeps_def)
  then show grows: "pub_grows (rw_store w) (rw_store v)" and "pub_wf sha256 (rw_store v)"
    using assms(4) by (simp_all add: pub_keeps_def)
  show "root_commits sha256 (mk_domain acc) (rw_store v) root ds"
    unfolding root_commits_def out(1)
    using accumulated_grows [OF assms(2) grows] published_at(2) [OF pub assms(3)] by blast
  show "n = int (length ds)" "k = int (length (mk_peaks acc))"
    using assms(2) out(2,3) by (simp_all add: accumulated_def ordered_peaks_def)
qed

end
