(* ===== verification/Reconciliation_Soundness.thy ===== *)
theory Reconciliation_Soundness
  imports Reconciliation_Determinism Merkle_Forest
begin

section \<open>What a sealed corpus contains\<close>

text \<open>
  The loop of \<^verbatim>\<open>reconcile\<close> keeps the two accumulators in step with two lists of
  records: one run record per sample, in the order of the ordinals, and one semantic record per
  accepted sample.
\<close>

subsection \<open>The operations keep the store\<close>

lemma require_keeps: "reconciling.conserves sha256 (require_op ok e)"
  unfolding require_op_def by (rule reconciling.conserves_pure)

lemma read_at_keeps:
  "coordinator_harmless sha256 c \<Longrightarrow> reconciling.conserves sha256 (at_store c (\<lambda>_. read_verified h d))"
  "coordinator_harmless sha256 c \<Longrightarrow> reconciling.conserves sha256
     (at_store c (\<lambda>_. reference_exists_verified h cat i k d))"
  by (auto intro!: at_store_keeps filing_publication)

lemma resolve_entry_keeps:
  assumes "coordinator_harmless sha256 c"
  shows "reconciling.conserves sha256 (resolve_entry sha256 c x ordinal authority s)"
  unfolding resolve_entry_def Let_def
  by (intro reconciling.conserves_seq reconciling.conserves_pure require_keeps publish_at_keeps assms)

lemma resolve_entries_keeps:
  assumes "coordinator_harmless sha256 c"
  shows "reconciling.conserves sha256 (resolve_entries sha256 c x ordinal ss authority attested)"
proof (induction ss arbitrary: authority attested)
  case Nil
  show ?case unfolding resolve_entries.simps by (rule reconciling.conserves_pure)
next
  case (Cons s ss)
  show ?case unfolding resolve_entries.simps
    by (rule reconciling.conserves_seq [OF resolve_entry_keeps [OF assms]])
      (auto intro: Cons.IH split: prod.splits)
qed

lemma resolve_sample_keeps:
  assumes "coordinator_harmless sha256 c"
  shows "reconciling.conserves sha256 (resolve_sample sha256 c x ordinal ss)"
  unfolding resolve_sample_def
  by (rule reconciling.conserves_seq [OF require_keeps],
      rule reconciling.conserves_seq [OF resolve_entries_keeps [OF assms]])
    (auto simp: Let_def intro!: reconciling.conserves_seq reconciling.conserves_pure
      split: option.splits prod.splits simp del: op_simps)

subsection \<open>One sample\<close>

text \<open>The evidence of a run record: its completions resolve, and not to an incomplete prefix.\<close>

definition resolved_evidence :: "(byte list \<Rightarrow> byte list) \<Rightarrow> RunEvidenceRecord \<Rightarrow> bool" where
  "resolved_evidence sha256 e \<longleftrightarrow> (\<exists>r cs.
     re_completion_digests e = map (completion_digest sha256) cs \<and>
     (case resolve_attempt_prefix r cs of
        Inr (ResolvedAccepted rep) \<Rightarrow> re_resolution_status e = SampleAccepted \<and>
          re_selected_attempt_index e = Some (key_index (ac_attempt_key (sp_accepted_attempt rep))) \<and>
          re_resolution_digest e = replay_digest sha256 rep
      | Inr (ResolvedExhausted ev) \<Rightarrow> re_resolution_status e = SampleExhausted \<and>
          re_selected_attempt_index e = None \<and>
          exhaustion_digest sha256 ev = Inr (re_resolution_digest e)
      | _ \<Rightarrow> False))"

definition semantic_matches :: "RunEvidenceRecord \<Rightarrow> SemanticCorpusRecord option \<Rightarrow> bool" where
  "semantic_matches e semantic \<longleftrightarrow> (case semantic of
     None \<Rightarrow> re_resolution_status e = SampleExhausted
   | Some r \<Rightarrow> re_resolution_status e = SampleAccepted \<and>
       sc_global_ordinal r = re_global_ordinal e \<and> sc_sample_key r = re_sample_key e \<and>
       re_selected_attempt_index e = Some (sc_accepted_attempt_index r))"

lemma checked_same: "checked cs x = Inr y \<Longrightarrow> y = x"
  by simp

lemma constructed_same:
  "run_evidence_record e = Inr e' \<Longrightarrow> e' = e" "semantic_corpus_record r = Inr r' \<Longrightarrow> r' = r"
  "semantic_corpus_manifest m = Inr m' \<Longrightarrow> m' = m" "run_evidence_manifest n = Inr n' \<Longrightarrow> n' = n"
  "canonical_merge_seal q = Inr q' \<Longrightarrow> q' = q" "reconciliation_result z = Inr z' \<Longrightarrow> z' = z"
  unfolding run_evidence_record_def semantic_corpus_record_def semantic_corpus_manifest_def
    run_evidence_manifest_def canonical_merge_seal_def reconciliation_result_def
  by (drule checked_same, assumption)+

lemma resolve_sample_returned:
  assumes "resolve_sample sha256 c x ordinal ss w = (Inr (semantic, e, n), v)"
  shows "resolved_evidence sha256 e" "semantic_matches e semantic" "re_global_ordinal e = ordinal"
    "re_inventory_digest e = inventory_digest sha256 (sx_inventory x)"
    "n = length (re_completion_digests e)"
proof -
  obtain authority attested w1
    where "case authority of
        None \<Rightarrow> False
      | Some (sample, r) \<Rightarrow>
          (let ordered = sort_key (\<lambda>a. completion_index (at_completion a)) attested in
           \<exists>resolution status selected digest.
             resolve_attempt_prefix r (map at_completion ordered) = Inr resolution \<and>
             conclude_resolution sha256 ordinal sample ordered resolution =
               Inr (semantic, status, selected, digest) \<and>
             run_evidence_record (run_record_of sha256 (sx_inventory x) ordinal sample
               (map sr_source_manifest_digest ss) ordered status selected digest) = Inr e \<and>
             n = length ordered)"
    using assms unfolding resolve_sample_def seq_op_Inr
    by (elim exE conjE) (fastforce simp: Let_def seq_op_Inr split: option.splits prod.splits)
  then obtain sample r ordered resolution status selected digest
    where resolved: "resolve_attempt_prefix r (map at_completion ordered) = Inr resolution"
      and concluded: "conclude_resolution sha256 ordinal sample ordered resolution =
        Inr (semantic, status, selected, digest)"
      and built: "run_evidence_record (run_record_of sha256 (sx_inventory x) ordinal sample
        (map sr_source_manifest_digest ss) ordered status selected digest) = Inr e"
      and n: "n = length ordered"
    by (auto simp: Let_def split: option.splits prod.splits)
  note e = constructed_same(1) [OF built]
  show "re_global_ordinal e = ordinal"
    "re_inventory_digest e = inventory_digest sha256 (sx_inventory x)"
    "n = length (re_completion_digests e)"
    by (simp_all add: e run_record_of_def n)
  have "(case resolution of
      ResolvedAccepted rep \<Rightarrow> status = SampleAccepted \<and>
        selected = Some (key_index (ac_attempt_key (sp_accepted_attempt rep))) \<and>
        digest = replay_digest sha256 rep \<and>
        semantic = Some (semantic_record_of sha256 ordinal sample ordered rep)
    | ResolvedExhausted ev \<Rightarrow> status = SampleExhausted \<and> semantic = None \<and>
        selected = None \<and> exhaustion_digest sha256 ev = Inr digest
    | ResolvedIncomplete _ \<Rightarrow> False)"
    using concluded constructed_same(2)
    by (auto simp: conclude_resolution_def semantic_record_of_def split: Resolution.splits
        dest!: constructed_same(2))
  moreover have "re_completion_digests e =
      map (completion_digest sha256) (map at_completion ordered)"
    "re_resolution_status e = status" "re_selected_attempt_index e = selected"
    "re_resolution_digest e = digest" "re_sample_key e = sample" "re_global_ordinal e = ordinal"
    by (simp_all add: e run_record_of_def)
  ultimately show "semantic_matches e semantic" "resolved_evidence sha256 e"
    using resolved unfolding semantic_matches_def resolved_evidence_def
    by (auto simp: semantic_record_of_def split: Resolution.splits
        intro!: exI [of _ r] exI [of _ "map at_completion ordered"])
qed

subsection \<open>The loop\<close>

definition evidence_of :: "(byte list \<Rightarrow> byte list) \<Rightarrow> StreamingReconciler \<Rightarrow> PublicationStore \<Rightarrow>
    RunEvidenceRecord \<Rightarrow> bool" where
  "evidence_of sha256 x s e \<longleftrightarrow> resolved_evidence sha256 e \<and>
     re_inventory_digest e = inventory_digest sha256 (sx_inventory x) \<and>
     stored s (run_record_digest sha256 e) (run_record_bytes e)"

fun corpus_of :: "(byte list \<Rightarrow> byte list) \<Rightarrow> PublicationStore \<Rightarrow> RunEvidenceRecord list \<Rightarrow>
    SemanticCorpusRecord list \<Rightarrow> bool" where
  "corpus_of sha256 s [] sems = (sems = [])"
| "corpus_of sha256 s (e # evs) sems = (case re_resolution_status e of
     SampleExhausted \<Rightarrow> corpus_of sha256 s evs sems
   | SampleAccepted \<Rightarrow> (case sems of
       [] \<Rightarrow> False
     | r # rs \<Rightarrow> semantic_matches e (Some r) \<and>
         stored s (semantic_record_digest sha256 r) (semantic_record_bytes r) \<and>
         corpus_of sha256 s evs rs))"

lemma corpus_of_snoc:
  assumes "corpus_of sha256 s evs sems"
  shows "re_resolution_status e = SampleExhausted \<Longrightarrow> corpus_of sha256 s (evs @ [e]) sems"
    and "semantic_matches e (Some r) \<Longrightarrow>
      stored s (semantic_record_digest sha256 r) (semantic_record_bytes r) \<Longrightarrow>
      corpus_of sha256 s (evs @ [e]) (sems @ [r])"
  using assms
  by (induction sha256 s evs sems rule: corpus_of.induct)
    (auto simp: semantic_matches_def split: SampleResolutionStatus.splits list.splits)

lemma corpus_of_grows: "corpus_of sha256 s evs sems \<Longrightarrow> pub_grows s t \<Longrightarrow> corpus_of sha256 t evs sems"
  by (induction sha256 s evs sems rule: corpus_of.induct)
    (auto split: SampleResolutionStatus.splits list.splits intro: stored_grows)

definition loop_inv :: "(byte list \<Rightarrow> byte list) \<Rightarrow> StreamingReconciler \<Rightarrow> PublicationStore \<Rightarrow>
    ReconcileState \<Rightarrow> RunEvidenceRecord list \<Rightarrow> SemanticCorpusRecord list \<Rightarrow> bool" where
  "loop_inv sha256 x s st evs sems \<longleftrightarrow>
     accumulated sha256 s (rc_semantic_merkle st) (map (semantic_record_digest sha256) sems) \<and>
     mk_domain (rc_semantic_merkle st) = ''semantic-corpus-v1'' \<and>
     accumulated sha256 s (rc_run_merkle st) (map (run_record_digest sha256) evs) \<and>
     mk_domain (rc_run_merkle st) = ''run-evidence-v1'' \<and>
     rc_expected_ordinal st = int (length evs) \<and> rc_sample_count st = int (length evs) \<and>
     rc_accepted_count st = int (length sems) \<and>
     rc_exhausted_count st = int (length evs) - int (length sems) \<and>
     map re_global_ordinal evs = [0..int (length evs) - 1] \<and>
     (\<forall>e\<in>set evs. evidence_of sha256 x s e) \<and> corpus_of sha256 s evs sems"

lemma evidence_of_grows: "evidence_of sha256 x s e \<Longrightarrow> pub_grows s t \<Longrightarrow> evidence_of sha256 x t e"
  by (auto simp: evidence_of_def intro: stored_grows)

lemma loop_inv_grows:
  "loop_inv sha256 x s st evs sems \<Longrightarrow> pub_grows s t \<Longrightarrow> loop_inv sha256 x t st evs sems"
  using accumulated_grows evidence_of_grows corpus_of_grows unfolding loop_inv_def by blast

lemma loop_inv_current [simp]:
  "loop_inv sha256 x s (st\<lparr>rc_current_ordinal := o1\<rparr>) evs sems = loop_inv sha256 x s st evs sems"
  "loop_inv sha256 x s (st\<lparr>rc_current_entries := es\<rparr>) evs sems = loop_inv sha256 x s st evs sems"
  by (simp_all add: loop_inv_def)

lemma record_bytes_digest:
  "hex (sha256 (run_record_bytes e)) = run_record_digest sha256 e"
  "hex (sha256 (semantic_record_bytes r)) = semantic_record_digest sha256 r"
  by (simp_all add: run_record_bytes_def run_record_digest_def semantic_record_bytes_def
      semantic_record_digest_def json_digest_def)

text \<open>The record of a sample goes into both accumulators: first the semantic record, if there is
  one, then the run record.\<close>

definition semantic_added :: "(byte list \<Rightarrow> byte list) \<Rightarrow> PublicationStore \<Rightarrow> ReconcileState \<Rightarrow>
    SemanticCorpusRecord list \<Rightarrow> SemanticCorpusRecord option \<Rightarrow> ReconcileState \<Rightarrow> bool" where
  "semantic_added sha256 s st sems semantic st' \<longleftrightarrow> (case semantic of
     None \<Rightarrow> st' = st\<lparr>rc_exhausted_count := rc_exhausted_count st + 1\<rparr>
   | Some r \<Rightarrow> \<exists>acc. st' = st\<lparr>rc_semantic_merkle := acc,
         rc_accepted_count := rc_accepted_count st + 1\<rparr> \<and>
       mk_domain acc = ''semantic-corpus-v1'' \<and>
       stored s (semantic_record_digest sha256 r) (semantic_record_bytes r) \<and>
       accumulated sha256 s acc (map (semantic_record_digest sha256) (sems @ [r])))"

lemma add_semantic_returned:
  assumes "add_semantic sha256 c semantic st w = (Inr st', v)"
    and "loop_inv sha256 x (rw_store w) st evs sems"
    and "coordinator_harmless sha256 c" and "pub_wf sha256 (rw_store w)"
  shows "semantic_added sha256 (rw_store v) st sems semantic st' \<and>
    pub_grows (rw_store w) (rw_store v) \<and> pub_wf sha256 (rw_store v)"
proof -
  have acc: "accumulated sha256 (rw_store w) (rc_semantic_merkle st)
      (map (semantic_record_digest sha256) sems)"
    and domain: "mk_domain (rc_semantic_merkle st) = ''semantic-corpus-v1''"
    using assms(2) by (simp_all add: loop_inv_def)
  show ?thesis
  proof (cases semantic)
    case None
    then show ?thesis using assms(1,4) acc domain
      by (auto simp: add_semantic_def semantic_added_def)
  next
    case (Some r)
    then obtain p acc' where add: "add_record sha256 c (rc_semantic_merkle st)
        (semantic_record_bytes r) (semantic_record_digest sha256 r) w = (Inr (p, acc'), v)"
      and st': "st' = st\<lparr>rc_semantic_merkle := acc', rc_accepted_count := rc_accepted_count st + 1\<rparr>"
      using assms(1) by (auto simp: add_semantic_def seq_op_Inr)
    show ?thesis using add_record_returned [OF add acc assms(3,4)] domain Some
      by (auto simp: st' semantic_added_def)
  qed
qed

lemma semantic_status: "semantic_matches e semantic \<Longrightarrow>
    re_resolution_status e = (if semantic = None then SampleExhausted else SampleAccepted)"
  by (auto simp: semantic_matches_def split: option.splits)

lemma loop_inv_extend:
  assumes "loop_inv sha256 x s st evs sems" and "semantic_added sha256 s st sems semantic st1"
    and "accumulated sha256 s acc (map (run_record_digest sha256) (evs @ [e]))"
    and "mk_domain acc = ''run-evidence-v1''"
    and "semantic_matches e semantic" and "re_global_ordinal e = int (length evs)"
    and "evidence_of sha256 x s e"
  shows "\<exists>sems'. loop_inv sha256 x s (st1\<lparr>rc_run_merkle := acc,
      rc_sample_count := rc_sample_count st1 + 1, rc_replay_count := n,
      rc_expected_ordinal := rc_expected_ordinal st1 + 1, rc_peak_buffered_entries := k\<rparr>)
    (evs @ [e]) sems'"
proof -
  have ordinals: "map re_global_ordinal (evs @ [e]) = [0..int (length (evs @ [e])) - 1]"
    using assms(1,6) upto_rec2 [of 0 "int (length evs)"] by (simp add: loop_inv_def)
  have corpus: "corpus_of sha256 s evs sems" using assms(1) by (simp add: loop_inv_def)
  show ?thesis
  proof (cases semantic)
    case None
    then have "corpus_of sha256 s (evs @ [e]) sems"
      using corpus_of_snoc(1) [OF corpus] semantic_status [OF assms(5)] by simp
    then have "loop_inv sha256 x s (st1\<lparr>rc_run_merkle := acc,
        rc_sample_count := rc_sample_count st1 + 1, rc_replay_count := n,
        rc_expected_ordinal := rc_expected_ordinal st1 + 1, rc_peak_buffered_entries := k\<rparr>)
      (evs @ [e]) sems"
      using assms(1-4,7) None ordinals by (simp add: loop_inv_def semantic_added_def)
    then show ?thesis by blast
  next
    case (Some r)
    then obtain acc1 where st1: "st1 = st\<lparr>rc_semantic_merkle := acc1,
        rc_accepted_count := rc_accepted_count st + 1\<rparr>" "mk_domain acc1 = ''semantic-corpus-v1''"
      and r: "stored s (semantic_record_digest sha256 r) (semantic_record_bytes r)"
      and acc1: "accumulated sha256 s acc1 (map (semantic_record_digest sha256) (sems @ [r]))"
      using assms(2) by (auto simp: semantic_added_def)
    have "corpus_of sha256 s (evs @ [e]) (sems @ [r])"
      using corpus_of_snoc(2) [OF corpus _ r] assms(5) Some by simp
    then have "loop_inv sha256 x s (st1\<lparr>rc_run_merkle := acc,
        rc_sample_count := rc_sample_count st1 + 1, rc_replay_count := n,
        rc_expected_ordinal := rc_expected_ordinal st1 + 1, rc_peak_buffered_entries := k\<rparr>)
      (evs @ [e]) (sems @ [r])"
      using assms(1,3,4,7) st1 acc1 ordinals by (simp add: loop_inv_def)
    then show ?thesis by blast
  qed
qed

lemma seq_op_InrE:
  assumes "seq_op m f s = (Inr b, u)"
  obtains a t where "m s = (Inr a, t)" "f a t = (Inr b, u)"
  using assms by (auto simp: seq_op_Inr)

lemma semantic_added_grows:
  "semantic_added sha256 s st sems semantic st' \<Longrightarrow> pub_grows s t \<Longrightarrow>
    semantic_added sha256 t st sems semantic st'"
  unfolding semantic_added_def
  by (fastforce split: option.splits intro: accumulated_grows stored_grows)

lemma flush_returned:
  assumes "flush sha256 c x st w = (Inr st', v)"
    and "loop_inv sha256 x (rw_store w) st evs sems"
    and "coordinator_harmless sha256 c" and "pub_wf sha256 (rw_store w)"
  shows "(\<exists>evs' sems'. loop_inv sha256 x (rw_store v) st' evs' sems') \<and>
    pub_grows (rw_store w) (rw_store v) \<and> pub_wf sha256 (rw_store v)"
proof (cases "rc_current_ordinal st")
  case None
  then show ?thesis using assms by (auto simp: flush_def)
next
  case (Some ordinal)
  have n: "rc_expected_ordinal st = int (length evs)" using assms(2) by (simp add: loop_inv_def)
  obtain semantic e replayed w1
    where o: "ordinal = rc_expected_ordinal st"
      and sample: "resolve_sample sha256 c x ordinal (rc_current_entries st) w =
        (Inr (semantic, e, replayed), w1)"
      and rest: "seq_op (add_semantic sha256 c semantic st) (\<lambda>st1.
       seq_op (add_record sha256 c (rc_run_merkle st1) (run_record_bytes e)
         (run_record_digest sha256 e)) (\<lambda>(_, acc).
       ret (st1\<lparr>rc_run_merkle := acc,
         rc_sample_count := rc_sample_count st1 + 1,
         rc_replay_count := rc_replay_count st1 + int replayed,
         rc_expected_ordinal := rc_expected_ordinal st1 + 1,
         rc_peak_buffered_entries := max (rc_peak_buffered_entries st1)
           (int (length (sx_shards x)) + int (length (rc_current_entries st1)))\<rparr>))) w1 = (Inr st', v)"
    using assms(1) unfolding flush_def Some option.case require_op_def
    by (elim seq_op_InrE) (auto split: prod.splits)
  obtain st1 w2 p acc
    where sem: "add_semantic sha256 c semantic st w1 = (Inr st1, w2)"
      and run: "add_record sha256 c (rc_run_merkle st1) (run_record_bytes e)
        (run_record_digest sha256 e) w2 = (Inr (p, acc), v)"
      and st': "st' = st1\<lparr>rc_run_merkle := acc, rc_sample_count := rc_sample_count st1 + 1,
        rc_replay_count := rc_replay_count st1 + int replayed,
        rc_expected_ordinal := rc_expected_ordinal st1 + 1,
        rc_peak_buffered_entries := max (rc_peak_buffered_entries st1)
          (int (length (sx_shards x)) + int (length (rc_current_entries st1)))\<rparr>"
    using rest by (elim seq_op_InrE) (auto split: prod.splits)
  note got = resolve_sample_returned [OF sample]
  have "pub_keeps sha256 (rw_store w) (rw_store w1)"
    using reconciling.conserves_apply [OF resolve_sample_keeps [OF assms(3)] sample]
    by (simp add: world_keeps_def)
  then have g1: "pub_grows (rw_store w) (rw_store w1)" and wf1: "pub_wf sha256 (rw_store w1)"
    using assms(4) by (simp_all add: pub_keeps_def)
  note inv1 = loop_inv_grows [OF assms(2) g1]
  have added: "semantic_added sha256 (rw_store w2) st sems semantic st1"
    and g2: "pub_grows (rw_store w1) (rw_store w2)" and wf2: "pub_wf sha256 (rw_store w2)"
    using add_semantic_returned [OF sem inv1 assms(3) wf1] by auto
  have run_merkle: "rc_run_merkle st1 = rc_run_merkle st"
    using added by (auto simp: semantic_added_def split: option.splits)
  note inv2 = loop_inv_grows [OF inv1 g2]
  have acc: "accumulated sha256 (rw_store w2) (rc_run_merkle st1) (map (run_record_digest sha256) evs)"
    and domain: "mk_domain (rc_run_merkle st1) = ''run-evidence-v1''"
    using inv2 by (simp_all add: loop_inv_def run_merkle)
  note last = add_record_returned [OF run acc assms(3) wf2]
  have "evidence_of sha256 x (rw_store v) e" using got last(3) by (simp add: evidence_of_def)
  then have "\<exists>sems'. loop_inv sha256 x (rw_store v) st' (evs @ [e]) sems'"
    unfolding st' using got last(1,2) domain o n
    by (intro loop_inv_extend [OF loop_inv_grows [OF inv2 last(4)]
          semantic_added_grows [OF added last(4)]]) simp_all
  then show ?thesis using last(5) pub_grows_trans [OF g1 pub_grows_trans [OF g2 last(4)]] by blast
qed

lemma consume_entries_returned:
  assumes "consume_entries sha256 c x ss st w = (Inr st', v)"
    and "loop_inv sha256 x (rw_store w) st evs sems"
    and "coordinator_harmless sha256 c" and "pub_wf sha256 (rw_store w)"
  shows "(\<exists>evs' sems'. loop_inv sha256 x (rw_store v) st' evs' sems') \<and>
    pub_grows (rw_store w) (rw_store v) \<and> pub_wf sha256 (rw_store v)"
  using assms
proof (induction ss arbitrary: st w evs sems)
  case (Cons s ss)
  let ?o = "se_global_ordinal (sr_entry s)"
  obtain st2 w2 where step: "(if rc_current_ordinal st = None
         then ret (st\<lparr>rc_current_ordinal := Some ?o\<rparr>)
         else if rc_current_ordinal st \<noteq> Some ?o
         then seq_op (flush sha256 c x st) (\<lambda>st1. ret (st1\<lparr>rc_current_entries := [],
           rc_current_ordinal := Some ?o\<rparr>))
         else ret st) w = (Inr st2, w2)"
    and rest: "consume_entries sha256 c x ss
        (st2\<lparr>rc_current_entries := rc_current_entries st2 @ [s]\<rparr>) w2 = (Inr st', v)"
    using Cons.prems(1) unfolding consume_entries.simps Let_def by (elim seq_op_InrE) blast
  have "(\<exists>evs' sems'. loop_inv sha256 x (rw_store w2) st2 evs' sems') \<and>
    pub_grows (rw_store w) (rw_store w2) \<and> pub_wf sha256 (rw_store w2)"
  proof (cases "rc_current_ordinal st = None \<or> rc_current_ordinal st = Some ?o")
    case True
    then have "w2 = w" and "loop_inv sha256 x (rw_store w) st2 evs sems"
      using step Cons.prems(2) by (auto split: if_splits)
    then show ?thesis using Cons.prems(4) pub_grows_refl by blast
  next
    case False
    then obtain st1 where "flush sha256 c x st w = (Inr st1, w2)"
      and "st2 = st1\<lparr>rc_current_entries := [], rc_current_ordinal := Some ?o\<rparr>"
      using step by (auto simp: seq_op_Inr)
    then show ?thesis using flush_returned [OF _ Cons.prems(2-4)] by auto
  qed
  then obtain evs' sems' where inv: "loop_inv sha256 x (rw_store w2) st2 evs' sems'"
    and g: "pub_grows (rw_store w) (rw_store w2)" and wf: "pub_wf sha256 (rw_store w2)" by blast
  have "loop_inv sha256 x (rw_store w2)
      (st2\<lparr>rc_current_entries := rc_current_entries st2 @ [s]\<rparr>) evs' sems'" using inv by simp
  from Cons.IH [OF rest this Cons.prems(3) wf] show ?case using pub_grows_trans [OF g] by blast
qed auto

lemma consume_stream_returned:
  assumes "consume_stream sha256 c x st w = (Inr st', v)"
    and "loop_inv sha256 x (rw_store w) st evs sems"
    and "coordinator_harmless sha256 c" and "pub_wf sha256 (rw_store w)"
  shows "(\<exists>evs' sems'. loop_inv sha256 x (rw_store v) st' evs' sems') \<and>
    pub_grows (rw_store w) (rw_store v) \<and> pub_wf sha256 (rw_store v)"
proof -
  obtain entries failure where m: "merge_sorted_entry_streams (shard_streams sha256 x) =
      (entries, failure)" by fastforce
  obtain st1 w1 where entries: "consume_entries sha256 c x entries st w = (Inr st1, w1)"
    and final: "flush sha256 c x st1 w1 = (Inr st', v)"
    using assms(1) unfolding consume_stream_def m prod.case
    by (elim seq_op_InrE) (auto split: option.splits)
  obtain evs1 sems1 where "loop_inv sha256 x (rw_store w1) st1 evs1 sems1"
    and g: "pub_grows (rw_store w) (rw_store w1)" and "pub_wf sha256 (rw_store w1)"
    using consume_entries_returned [OF entries assms(2-4)] by blast
  from flush_returned [OF final this(1) assms(3) this(3)] show ?thesis
    using pub_grows_trans [OF g] by blast
qed

lemma initial_loop_inv:
  assumes "initial_reconcile_state x = Inr st"
  shows "loop_inv sha256 x s st [] []"
  using assms
  by (auto simp: initial_reconcile_state_def loop_inv_def merkle_accumulator_def accumulated_def)

subsection \<open>The seal\<close>

text \<open>What a sealed corpus is: the seal, the two manifests and every record are stored, the run
  manifest commits to one resolved run record per sample of the inventory, in order, and the corpus
  manifest commits to the semantic records of the accepted ones.\<close>

definition sealed_corpus :: "(byte list \<Rightarrow> byte list) \<Rightarrow> StreamingReconciler \<Rightarrow> PublicationStore \<Rightarrow>
    ReconciliationResult \<Rightarrow> RunEvidenceRecord list \<Rightarrow> SemanticCorpusRecord list \<Rightarrow> bool" where
  "sealed_corpus sha256 x s r evs sems \<longleftrightarrow>
     (let corpus = rs_semantic_manifest r; run = rs_run_evidence_manifest r; q = rs_seal r in
      stored s (corpus_manifest_digest sha256 corpus) (corpus_manifest_bytes corpus) \<and>
      stored s (run_manifest_digest sha256 run) (run_manifest_bytes run) \<and>
      stored s (merge_seal_digest sha256 q) (merge_seal_bytes q) \<and>
      referenced s ''seals'' (inventory_digest sha256 (sx_inventory x)) 0
        (merge_seal_digest sha256 q) \<and>
      ms_semantic_corpus_manifest_digest q = corpus_manifest_digest sha256 corpus \<and>
      ms_run_evidence_manifest_digest q = run_manifest_digest sha256 run \<and>
      root_commits sha256 ''semantic-corpus-v1'' s (cm_merkle_root_digest corpus)
        (map (semantic_record_digest sha256) sems) \<and>
      root_commits sha256 ''run-evidence-v1'' s (rm_merkle_root_digest run)
        (map (run_record_digest sha256) evs) \<and>
      length evs = length (ei_samples (sx_inventory x)) \<and>
      map re_global_ordinal evs = [0..int (length evs) - 1] \<and>
      (\<forall>e\<in>set evs. evidence_of sha256 x s e) \<and> corpus_of sha256 s evs sems \<and>
      cm_record_count corpus = int (length sems) \<and> rm_record_count run = int (length evs) \<and>
      rs_accepted_sample_count r = int (length sems) \<and>
      rs_sample_count r = int (length evs))"

lemma sealed_corpus_grows:
  assumes "sealed_corpus sha256 x s r evs sems" and "pub_grows s t"
  shows "sealed_corpus sha256 x t r evs sems"
  using assms stored_grows [OF assms(2)] referenced_grows [OF assms(2)]
    root_commits_grows [OF _ assms(2)] evidence_of_grows [OF _ assms(2)]
    corpus_of_grows [OF _ assms(2)]
  unfolding sealed_corpus_def Let_def by blast

lemma publish_at_returned:
  assumes "at_store c (\<lambda>call. publish_bytes sha256 call payload (Some d)) w = (Inr r, v)"
    and "coordinator_harmless sha256 c" and "pub_wf sha256 (rw_store w)"
  shows "stored (rw_store v) d payload" "pub_grows (rw_store w) (rw_store v)"
    "pub_wf sha256 (rw_store v)"
  using published_at(2) [OF assms(1,2)]
    reconciling.conserves_apply [OF publish_at_keeps [OF assms(2)] assms(1)] assms(3)
  by (simp_all add: world_keeps_def pub_keeps_def)

lemma install_at_returned:
  assumes "at_store c (\<lambda>call. install_digest_reference sha256 call cat i k d None) w = (Inr r, v)"
    and "coordinator_harmless sha256 c" and "pub_wf sha256 (rw_store w)"
  shows "referenced (rw_store v) cat i k d" "pub_grows (rw_store w) (rw_store v)"
    "pub_wf sha256 (rw_store v)"
proof -
  show "referenced (rw_store v) cat i k d"
    using at_store_returned [OF assms(1)] install_reference_returned by blast
  have "reconciling.conserves sha256
      (at_store c (\<lambda>call. install_digest_reference sha256 call cat i k d None))"
    by (rule at_store_keeps [OF assms(2)]) (rule install_reference_keeps)
  from reconciling.conserves_apply [OF this assms(1)]
  show "pub_grows (rw_store w) (rw_store v)" "pub_wf sha256 (rw_store v)"
    using assms(3) by (simp_all add: world_keeps_def pub_keeps_def)
qed

lemma publish_merge_returned:
  assumes "publish_merge sha256 c x st w = (Inr r, v)"
    and "loop_inv sha256 x (rw_store w) st evs sems"
    and "length evs = length (ei_samples (sx_inventory x))"
    and h: "coordinator_harmless sha256 c" and "pub_wf sha256 (rw_store w)"
  shows "sealed_corpus sha256 x (rw_store v) r evs sems \<and> pub_grows (rw_store w) (rw_store v) \<and>
    pub_wf sha256 (rw_store v)"
proof -
  obtain cf w1 rf w2 corpus run w3 w4 q w5 p1 p2 p3 p4
    where f1: "finalize sha256 c (rc_semantic_merkle st) w = (Inr cf, w1)"
      and f2: "finalize sha256 c (rc_run_merkle st) w1 = (Inr rf, w2)"
      and m1: "semantic_corpus_manifest (corpus_manifest_of sha256 (sx_inventory x) cf) = Inr corpus"
      and m2: "run_evidence_manifest (run_manifest_of sha256 x (rc_replay_count st) rf) = Inr run"
      and m3: "canonical_merge_seal (merge_seal_of sha256 x corpus run) = Inr q"
      and c1: "at_store c (\<lambda>call. publish_bytes sha256 call (corpus_manifest_bytes corpus)
         (Some (corpus_manifest_digest sha256 corpus))) w2 = (Inr p1, w3)"
      and c2: "at_store c (\<lambda>call. publish_bytes sha256 call (run_manifest_bytes run)
         (Some (run_manifest_digest sha256 run))) w3 = (Inr p2, w4)"
      and c3: "at_store c (\<lambda>call. publish_bytes sha256 call (merge_seal_bytes q)
         (Some (merge_seal_digest sha256 q))) w4 = (Inr p3, w5)"
      and c4: "at_store c (\<lambda>call. install_digest_reference sha256 call ''seals''
         (inventory_digest sha256 (sx_inventory x)) 0 (merge_seal_digest sha256 q) None) w5 =
         (Inr p4, v)"
      and m4: "reconciliation_result
         \<lparr>rs_semantic_manifest = corpus, rs_run_evidence_manifest = run, rs_seal = q,
          rs_semantic_manifest_publication = p1, rs_run_evidence_manifest_publication = p2,
          rs_seal_publication = p3, rs_sample_count = rc_sample_count st,
          rs_accepted_sample_count = rc_accepted_count st,
          rs_exhausted_sample_count = rc_exhausted_count st,
          rs_replay_attestation_count = rc_replay_count st,
          rs_peak_buffered_entries = rc_peak_buffered_entries st\<rparr> = Inr r"
    using assms(1) unfolding publish_merge_def by (elim seq_op_InrE) simp
  obtain croot cn ck rroot rn rk where final: "cf = (croot, cn, ck)" "rf = (rroot, rn, rk)"
    by (metis surj_pair)
  note corpus = constructed_same(3) [OF m1, unfolded final] and run = constructed_same(4) [OF m2, unfolded final]
    and q = constructed_same(5) [OF m3] and r = constructed_same(6) [OF m4]
  note f1 = f1 [unfolded final] and f2 = f2 [unfolded final]
  have acc: "accumulated sha256 (rw_store w) (rc_semantic_merkle st)
      (map (semantic_record_digest sha256) sems)"
    and acc': "accumulated sha256 (rw_store w) (rc_run_merkle st) (map (run_record_digest sha256) evs)"
    and domains: "mk_domain (rc_semantic_merkle st) = ''semantic-corpus-v1''"
      "mk_domain (rc_run_merkle st) = ''run-evidence-v1''"
    using assms(2) by (simp_all add: loop_inv_def)
  note s1 = finalize_returned [OF f1 acc h assms(5)]
  note s2 = finalize_returned [OF f2 accumulated_grows [OF acc' s1(4)] h s1(5)]
  note s3 = publish_at_returned [OF c1 h s2(5)]
  note s4 = publish_at_returned [OF c2 h s3(3)]
  note s5 = publish_at_returned [OF c3 h s4(3)]
  note s6 = install_at_returned [OF c4 h s5(3)]
  have g5: "pub_grows (rw_store w5) (rw_store v)" by (rule s6(2))
  have g4: "pub_grows (rw_store w4) (rw_store v)" using pub_grows_trans [OF s5(2) g5] .
  have g3: "pub_grows (rw_store w3) (rw_store v)" using pub_grows_trans [OF s4(2) g4] .
  have g2: "pub_grows (rw_store w2) (rw_store v)" using pub_grows_trans [OF s3(2) g3] .
  have g1: "pub_grows (rw_store w1) (rw_store v)" using pub_grows_trans [OF s2(4) g2] .
  have g: "pub_grows (rw_store w) (rw_store v)" using pub_grows_trans [OF s1(4) g1] .
  have "corpus_of sha256 (rw_store v) evs sems" "\<forall>e\<in>set evs. evidence_of sha256 x (rw_store v) e"
    "rc_sample_count st = int (length evs)" "rc_accepted_count st = int (length sems)"
    "map re_global_ordinal evs = [0..int (length evs) - 1]"
    using loop_inv_grows [OF assms(2) g] by (simp_all add: loop_inv_def)
  moreover have "stored (rw_store v) (corpus_manifest_digest sha256 corpus) (corpus_manifest_bytes corpus)"
    "stored (rw_store v) (run_manifest_digest sha256 run) (run_manifest_bytes run)"
    "stored (rw_store v) (merge_seal_digest sha256 q) (merge_seal_bytes q)"
    using s3(1) s4(1) s5(1) stored_grows g3 g4 g5 by blast+
  moreover have "root_commits sha256 ''semantic-corpus-v1'' (rw_store v) croot
      (map (semantic_record_digest sha256) sems)"
    "root_commits sha256 ''run-evidence-v1'' (rw_store v) rroot (map (run_record_digest sha256) evs)"
    using root_commits_grows [OF s1(1) g1] root_commits_grows [OF s2(1) g2] domains by simp_all
  ultimately have "sealed_corpus sha256 x (rw_store v) r evs sems"
    using s6(1) s1(2) s2(2) assms(3) unfolding sealed_corpus_def Let_def r
    by (simp add: corpus run q corpus_manifest_of_def run_manifest_of_def merge_seal_of_def)
  then show ?thesis using g s6(3) by blast
qed

lemma reconcile_returned:
  assumes "reconcile sha256 c x w = (Inr r, v)"
    and "coordinator_harmless sha256 c" and "pub_wf sha256 (rw_store w)"
  shows "(\<exists>evs sems. sealed_corpus sha256 x (rw_store v) r evs sems) \<and>
    pub_grows (rw_store w) (rw_store v) \<and> pub_wf sha256 (rw_store v)"
proof -
  obtain st st1 w1 where start: "initial_reconcile_state x = Inr st"
    and stream: "consume_stream sha256 c x st w = (Inr st1, w1)"
    and all: "rc_sample_count st1 = int (length (ei_samples (sx_inventory x)))"
    and merge: "publish_merge sha256 c x st1 w1 = (Inr r, v)"
    using assms(1) unfolding reconcile_def require_op_def by (elim seq_op_InrE) simp
  obtain evs sems where inv: "loop_inv sha256 x (rw_store w1) st1 evs sems"
    and g: "pub_grows (rw_store w) (rw_store w1)" and wf: "pub_wf sha256 (rw_store w1)"
    using consume_stream_returned [OF stream initial_loop_inv [OF start] assms(2,3)] by blast
  have "length evs = length (ei_samples (sx_inventory x))" using inv all by (simp add: loop_inv_def)
  from publish_merge_returned [OF merge inv this assms(2) wf] show ?thesis
    using pub_grows_trans [OF g] by blast
qed

lemma verify_shard_keeps:
  assumes "coordinator_harmless sha256 c"
  shows "reconciling.conserves sha256 (verify_shard sha256 c inventory d)"
  unfolding verify_shard_def Let_def
  by (intro reconciling.conserves_seq reconciling.conserves_pure require_keeps read_at_keeps assms)

lemma verify_shards_keeps:
  assumes "coordinator_harmless sha256 c"
  shows "reconciling.conserves sha256 (verify_shards sha256 c x)"
proof -
  have "reconciling.conserves sha256 (verify_each sha256 c inventory ds)" for inventory ds
  proof (induction ds)
    case Nil
    show ?case unfolding verify_each.simps by (rule reconciling.conserves_pure)
  next
    case (Cons d ds)
    then show ?case unfolding verify_each.simps
      by (intro reconciling.conserves_seq verify_shard_keeps assms)
  qed
  then show ?thesis unfolding verify_shards_def Let_def
    by (intro reconciling.conserves_seq reconciling.conserves_pure)
qed

lemma sealed_corpus_inventory:
  "sx_inventory y = sx_inventory x \<Longrightarrow> sealed_corpus sha256 y s r evs sems = sealed_corpus sha256 x s r evs sems"
  by (simp add: sealed_corpus_def evidence_of_def)

text \<open>C7: A sealed corpus is complete and durable. When verification and reconciliation return on a
  reachable store, whatever other processes did meanwhile, then after any further steps the seal
  reads back, it names the two manifests, and these are stored and commit to their records: the run
  manifest to exactly one run record per sample of the inventory, in the order of the ordinals,
  each with completions that resolve to acceptance or exhaustion; the corpus manifest to the
  semantic records of exactly the accepted samples. All these records are stored.\<close>

theorem sealed_corpus_complete:
  assumes "run_of (shard_step sha256) empty_publication_store before (rw_store w)"
    and "coordinator_harmless sha256 c"
    and "verified_reconciliation sha256 c x w = (Inr r, v)"
    and "run_of (shard_step sha256) (rw_store v) later u"
  shows "\<exists>evs sems. sealed_corpus sha256 x u r evs sems \<and>
    read_verified sha256 (merge_seal_digest sha256 (rs_seal r)) u =
      (Inr (merge_seal_bytes (rs_seal r)), u)"
proof -
  have wf: "pub_wf sha256 (rw_store w)" by (rule sharded_wf [OF assms(1)])
  obtain y w1 where verify: "verify_shards sha256 c x w = (Inr y, w1)"
    and reconcile: "reconcile sha256 c y w1 = (Inr r, v)"
    using assms(3) unfolding verified_reconciliation_def by (elim seq_op_InrE)
  have same: "sx_inventory y = sx_inventory x" using verify_shards_returned(1) [OF verify] by simp
  have "pub_keeps sha256 (rw_store w) (rw_store w1)"
    using reconciling.conserves_apply [OF verify_shards_keeps [OF assms(2)] verify]
    by (simp add: world_keeps_def)
  then have "pub_wf sha256 (rw_store w1)" using wf by (simp add: pub_keeps_def)
  from reconcile_returned [OF reconcile assms(2) this] obtain evs sems
    where out: "sealed_corpus sha256 y (rw_store v) r evs sems" and wfv: "pub_wf sha256 (rw_store v)"
    by blast
  have u: "pub_wf sha256 u" "pub_grows (rw_store v) u"
    using sharding.run_inv [OF assms(4) wfv] sharding.run_evolves [OF assms(4) wfv] by auto
  have sealed: "sealed_corpus sha256 x u r evs sems"
    using sealed_corpus_grows [OF out u(2)] sealed_corpus_inventory [OF same] by simp
  then have "stored u (merge_seal_digest sha256 (rs_seal r)) (merge_seal_bytes (rs_seal r))"
    by (simp add: sealed_corpus_def Let_def)
  then show ?thesis using sealed stored_read [OF u(1)] by blast
qed

end
