(* ===== verification/Reconciliation_Merge.thy ===== *)
theory Reconciliation_Merge
  imports Reconciliation_Core
begin

section \<open>The merge is a sort followed by the removal of repetitions\<close>

text \<open>
  The heap and the cursors together hold what is left of every stream. Popping the least item is
  taking the first of all that is left in the stable order of the sort key; so the generator is
  the one pass \<open>collapse\<close> over the sorted concatenation of the streams.
\<close>

text \<open>The specification: one pass over a list in which equal positions are adjacent.\<close>

fun collapse :: "SourcedShardEntry option \<Rightarrow> SourcedShardEntry list \<Rightarrow>
    SourcedShardEntry list \<times> synthesis_error option" where
  "collapse previous [] = ([], None)"
| "collapse previous (x # xs) = (case previous of
     Some p \<Rightarrow>
       if sourced_position p = sourced_position x
       then if sr_entry p \<noteq> sr_entry x
            then ([], Some (ReconciliationConflictError
              ''conflicting completions occupy one inventory attempt position''))
            else collapse previous xs
       else yielding x (collapse (Some x) xs)
   | None \<Rightarrow> yielding x (collapse (Some x) xs))"

subsection \<open>Stable sorting takes the first least element\<close>

lemma sort_key_first_least:
  assumes "\<forall>a\<in>set xs. f x < f a" and "\<forall>b\<in>set ys. f x \<le> f b"
  shows "sort_key f (xs @ x # ys) = x # sort_key f (xs @ ys)"
proof -
  have "sort_key f (xs @ x # ys) = insort_key f x (sort_key f (xs @ ys))"
    using assms(1)
  proof (induction xs)
    case (Cons a xs)
    then have "f x < f a" by simp
    then have "insort_key f a (insort_key f x zs) = insort_key f x (insort_key f a zs)" for zs
      by (induction zs) auto
    then show ?case using Cons by simp
  qed simp
  moreover have "insort_key f x zs = x # zs" if "\<forall>b\<in>set zs. f x \<le> f b" for zs
    using that by (cases zs) auto
  moreover have "\<forall>b\<in>set (sort_key f (xs @ ys)). f x \<le> f b"
    using assms by (auto intro: less_imp_le)
  ultimately show ?thesis by simp
qed

subsection \<open>What is left of the streams\<close>

text \<open>\<open>holds cursors heap rest\<close>: \<open>rest ! i\<close> is what stream \<open>i\<close> has still to give, its
  head in the heap and its tail under the cursor.\<close>

definition entry_item :: "nat \<Rightarrow> SourcedShardEntry \<Rightarrow> heap_item" where
  "entry_item i x = (sourced_sort_key x, i, x)"

definition heap_of :: "SourcedShardEntry list list \<Rightarrow> heap_item set" where
  "heap_of rest = (\<lambda>i. entry_item i (hd (rest ! i))) ` {i. i < length rest \<and> rest ! i \<noteq> []}"

definition holds ::
  "entry_stream list \<Rightarrow> heap_item list \<Rightarrow> SourcedShardEntry list list \<Rightarrow> bool" where
  "holds cursors heap rest \<longleftrightarrow> cursors = map (map Inr \<circ> tl) rest \<and> set heap = heap_of rest \<and>
     sorted (map heap_order heap) \<and> distinct (map (fst \<circ> snd) heap)"

lemma entry_item_simps [simp]:
  "fst (snd (entry_item i x)) = i" "heap_order (entry_item i x) = (sourced_sort_key x, i)"
  by (simp_all add: entry_item_def heap_order_def)

lemma holds_Nil: "holds cursors [] rest \<Longrightarrow> concat rest = []"
  by (simp add: holds_def heap_of_def image_is_empty [THEN iffD1, OF sym])
    (metis (no_types, lifting) empty_iff in_set_conv_nth mem_Collect_eq)

lemma pair_le:
  assumes "(a :: 'a::linorder, i :: nat) \<le> (b, j)"
  shows "a \<le> b \<and> (j < i \<longrightarrow> a < b)"
  using assms by (auto simp: less_eq_prod_def)

lemma holds_least:
  assumes "holds cursors ((k, i, item) # heap) rest"
  shows "i < length rest" "rest ! i \<noteq> []" "item = hd (rest ! i)"
    "\<And>j. j < i \<Longrightarrow> rest ! j \<noteq> [] \<Longrightarrow> sourced_sort_key item < sourced_sort_key (hd (rest ! j))"
    "\<And>j. j < length rest \<Longrightarrow> rest ! j \<noteq> [] \<Longrightarrow>
       sourced_sort_key item \<le> sourced_sort_key (hd (rest ! j))"
proof -
  have "(k, i, item) \<in> heap_of rest" using assms by (auto simp: holds_def)
  then have i: "i < length rest" "rest ! i \<noteq> []" "item = hd (rest ! i)"
    and k: "k = sourced_sort_key item"
    by (auto simp: heap_of_def entry_item_def)
  show "i < length rest" "rest ! i \<noteq> []" "item = hd (rest ! i)" by (rule i)+
  have le: "(sourced_sort_key item, i) \<le> (sourced_sort_key (hd (rest ! j)), j)"
    if "j < length rest" "rest ! j \<noteq> []" for j
  proof -
    have "entry_item j (hd (rest ! j)) \<in> set ((k, i, item) # heap)"
      using assms that by (auto simp: holds_def heap_of_def)
    moreover have "sorted (map heap_order ((k, i, item) # heap))"
      using assms unfolding holds_def by blast
    then have "\<forall>x\<in>set ((k, i, item) # heap). heap_order (k, i, item) \<le> heap_order x" by simp
    ultimately have "heap_order (k, i, item) \<le> heap_order (entry_item j (hd (rest ! j)))" by blast
    then show ?thesis by (simp add: heap_order_def entry_item_def k)
  qed
  show "sourced_sort_key item < sourced_sort_key (hd (rest ! j))"
    if "j < i" "rest ! j \<noteq> []" for j
    using pair_le [OF le [of j]] that i(1) by simp
  show "sourced_sort_key item \<le> sourced_sort_key (hd (rest ! j))"
    if "j < length rest" "rest ! j \<noteq> []" for j
    using pair_le [OF le [OF that]] by blast
qed

lemma heap_of_update:
  assumes "i < length rest"
  shows "heap_of (rest[i := zs]) = {x \<in> heap_of rest. fst (snd x) \<noteq> i} \<union>
    (if zs = [] then {} else {entry_item i (hd zs)})"
proof (rule set_eqI)
  have "x \<in> heap_of (rest[i := zs]) \<longleftrightarrow> (\<exists>j. j < length rest \<and> rest[i := zs] ! j \<noteq> [] \<and>
      x = entry_item j (hd (rest[i := zs] ! j)))" for x by (auto simp: heap_of_def)
  also have "\<dots> x \<longleftrightarrow> (\<exists>j. j < length rest \<and> j \<noteq> i \<and> rest ! j \<noteq> [] \<and>
      x = entry_item j (hd (rest ! j))) \<or> zs \<noteq> [] \<and> x = entry_item i (hd zs)" for x
    using assms by (metis nth_list_update)
  also have "\<dots> x \<longleftrightarrow> x \<in> {x \<in> heap_of rest. fst (snd x) \<noteq> i} \<union>
      (if zs = [] then {} else {entry_item i (hd zs)})" for x
    by (auto simp: heap_of_def)
  finally show "x \<in> heap_of (rest[i := zs]) \<longleftrightarrow> x \<in> {x \<in> heap_of rest. fst (snd x) \<noteq> i} \<union>
      (if zs = [] then {} else {entry_item i (hd zs)})" for x .
qed

lemma distinct_insort_key [simp]:
  "distinct (map g (insort_key f x xs)) \<longleftrightarrow> g x \<notin> g ` set xs \<and> distinct (map g xs)"
  by (induction xs) (auto simp: set_insort_key)

lemma holds_next:
  assumes "holds cursors ((k, i, item) # heap) rest"
  defines "zs \<equiv> tl (rest ! i)"
  defines "next_item \<equiv> (case zs of [] \<Rightarrow> None | y # ys \<Rightarrow> Some y)"
  shows "\<exists>cursors'. cursor_next cursors i = Inr (next_item, cursors') \<and>
    holds cursors' (push_next next_item i heap) (rest[i := zs])"
proof -
  have i: "i < length rest" using holds_least [OF assms(1)] by simp
  have cur: "cursors = map (map Inr \<circ> tl) rest" and "sorted (map heap_order heap)"
    and dist: "i \<notin> fst ` snd ` set heap" "distinct (map (fst \<circ> snd) heap)"
    and heap: "heap_of rest = insert (k, i, item) (set heap)"
    using assms(1) by (auto simp: holds_def image_comp)
  have rest: "{x \<in> heap_of rest. fst (snd x) \<noteq> i} = set heap"
    using dist(1) unfolding heap by force
  show ?thesis
  proof (cases zs)
    case Nil
    then have "cursor_next cursors i = Inr (next_item, cursors)"
      using i by (simp add: cursor_next_def cur next_item_def zs_def)
    moreover have "map (map Inr \<circ> tl) (rest[i := zs]) = cursors"
      using i Nil by (simp add: cur map_update zs_def [symmetric] list_update_same_conv)
    ultimately show ?thesis
      using Nil \<open>sorted _\<close> dist(2) rest
      by (simp add: holds_def heap_of_update [OF i] next_item_def push_next_def)
  next
    case (Cons y ys)
    then have "cursor_next cursors i = Inr (next_item, cursors[i := map Inr ys])"
      using i by (simp add: cursor_next_def cur next_item_def zs_def)
    moreover have "holds (cursors[i := map Inr ys]) (push_next next_item i heap) (rest[i := zs])"
      using Cons \<open>sorted _\<close> dist rest i
      by (auto simp: holds_def heap_of_update [OF i] next_item_def push_next_def heap_push_def
          sorted_insort_key set_insort_key cur map_update entry_item_def)
    ultimately show ?thesis by blast
  qed
qed

lemma sort_concat_step:
  assumes "holds cursors ((k, i, item) # heap) rest"
    and "\<forall>s\<in>set rest. sorted (map sourced_sort_key s)"
  shows "sort_key sourced_sort_key (concat rest) =
    item # sort_key sourced_sort_key (concat (rest[i := tl (rest ! i)]))"
proof -
  note least = holds_least [OF assms(1)]
  have parts: "rest = take i rest @ (item # tl (rest ! i)) # drop (Suc i) rest"
    using least(1-3) by (simp add: id_take_nth_drop [symmetric])
  have head: "sourced_sort_key (hd s) \<le> sourced_sort_key x" if "s \<in> set rest" "x \<in> set s" for s x
    using assms(2) that by (cases s) auto
  have before: "sourced_sort_key item < sourced_sort_key x" if "x \<in> set (concat (take i rest))" for x
  proof -
    obtain s where s: "s \<in> set (take i rest)" "x \<in> set s" using \<open>x \<in> _\<close> by auto
    then obtain j where j: "j < i" "s = rest ! j"
      using least(1) unfolding in_set_conv_nth by auto
    have "s \<in> set rest" using s(1) by (rule in_set_takeD)
    then have "sourced_sort_key (hd s) \<le> sourced_sort_key x" using s(2) by (rule head)
    moreover have "sourced_sort_key item < sourced_sort_key (hd s)"
      unfolding j(2) using j s(2) by (intro least(4)) auto
    ultimately show ?thesis by (rule less_le_trans [rotated])
  qed
  have after: "sourced_sort_key item \<le> sourced_sort_key x" if "s \<in> set rest" "x \<in> set s" for s x
  proof -
    obtain j where j: "j < length rest" "s = rest ! j" using \<open>s \<in> _\<close> by (metis in_set_conv_nth)
    have "sourced_sort_key item \<le> sourced_sort_key (hd s)"
      unfolding j(2) using j that(2) by (intro least(5)) auto
    then show ?thesis using head [OF that] by (rule order_trans)
  qed
  have "sort_key sourced_sort_key (concat (take i rest) @ item #
      (tl (rest ! i) @ concat (drop (Suc i) rest))) =
    item # sort_key sourced_sort_key (concat (take i rest) @
      (tl (rest ! i) @ concat (drop (Suc i) rest)))"
  proof (rule sort_key_first_least)
    show "\<forall>a\<in>set (concat (take i rest)). sourced_sort_key item < sourced_sort_key a"
      using before by blast
    show "\<forall>b\<in>set (tl (rest ! i) @ concat (drop (Suc i) rest)).
        sourced_sort_key item \<le> sourced_sort_key b"
      using after [OF nth_mem [OF least(1)]] after least(1,2)
      by (auto dest: in_set_dropD list.set_sel(2))
  qed
  moreover have "concat rest = concat (take i rest) @ item #
      (tl (rest ! i) @ concat (drop (Suc i) rest))"
    by (subst parts) simp
  moreover have "concat (rest[i := tl (rest ! i)]) =
      concat (take i rest) @ (tl (rest ! i) @ concat (drop (Suc i) rest))"
    using least(1) by (simp add: upd_conv_take_nth_drop)
  ultimately show ?thesis by simp
qed

lemma merge_loop_sorts:
  assumes "holds cursors heap rest" and "\<forall>s\<in>set rest. sorted (map sourced_sort_key s)"
  shows "merge_loop cursors heap previous =
    collapse previous (sort_key sourced_sort_key (concat rest))"
  using assms
proof (induction cursors heap previous arbitrary: rest rule: merge_loop.induct)
  case (1 cursors previous)
  then show ?case by (simp add: holds_Nil)
next
  case (2 cursors k i item heap previous)
  let ?zs = "tl (rest ! i)"
  let ?y = "case ?zs of [] \<Rightarrow> None | y # ys \<Rightarrow> Some y"
  note least = holds_least [OF "2.prems"(1)]
  obtain cursors' where nxt: "cursor_next cursors i = Inr (?y, cursors')"
    and holds': "holds cursors' (push_next ?y i heap) (rest[i := ?zs])"
    using holds_next [OF "2.prems"(1)] by blast
  have sorted': "\<forall>s\<in>set (rest[i := ?zs]). sorted (map sourced_sort_key s)"
    using "2.prems"(2) least(1) set_update_subset_insert [of rest i ?zs]
    by (metis insertE map_tl nth_mem sorted_tl subsetD)
  have "sorted (map sourced_sort_key (rest ! i))" using "2.prems"(2) least(1) by simp
  then have ok: "\<not> (case ?y of None \<Rightarrow> False
      | Some x \<Rightarrow> sourced_sort_key x < sourced_sort_key item)"
    using least(2,3) by (cases "rest ! i") (auto split: list.splits)
  have "merge_loop cursors' (push_next ?y i heap) q =
      collapse q (sort_key sourced_sort_key (concat (rest[i := ?zs])))"
    if "case previous of None \<Rightarrow> q = Some item | Some p \<Rightarrow>
      q = (if sourced_position p = sourced_position item then previous else Some item) \<and>
      (sourced_position p = sourced_position item \<longrightarrow> sr_entry p = sr_entry item)" for q
    using that "2.IH" [OF nxt refl ok] holds' sorted' by (auto split: option.splits if_splits)
  then show ?case
    using nxt ok sort_concat_step [OF "2.prems"] by (auto split: option.splits)
qed

subsection \<open>Filling the heap\<close>

text \<open>The cursors and the heap when the first \<open>k\<close> streams have been asked for an entry.\<close>

definition filled_cursors :: "nat \<Rightarrow> SourcedShardEntry list list \<Rightarrow> entry_stream list" where
  "filled_cursors k ss = map (\<lambda>j. map Inr (if j < k then tl (ss ! j) else ss ! j)) [0..<length ss]"

definition filled_heap :: "nat \<Rightarrow> heap_item list \<Rightarrow> SourcedShardEntry list list \<Rightarrow> bool" where
  "filled_heap k heap ss \<longleftrightarrow> sorted (map heap_order heap) \<and> distinct (map (fst \<circ> snd) heap) \<and>
     set heap = (\<lambda>i. entry_item i (hd (ss ! i))) ` {i. i < k \<and> ss ! i \<noteq> []}"

lemma filled_heap_push:
  assumes "filled_heap k heap ss"
  shows "filled_heap (Suc k) (push_next (case ss ! k of [] \<Rightarrow> None | x # xs \<Rightarrow> Some x) k heap) ss"
proof (cases "ss ! k")
  case Nil
  then have "{i. i < Suc k \<and> ss ! i \<noteq> []} = {i. i < k \<and> ss ! i \<noteq> []}"
    by (auto simp: less_Suc_eq)
  then show ?thesis using assms Nil by (simp add: filled_heap_def push_next_def)
next
  case (Cons x xs)
  then have "{i. i < Suc k \<and> ss ! i \<noteq> []} = insert k {i. i < k \<and> ss ! i \<noteq> []}"
    by (auto simp: less_Suc_eq)
  moreover have "k \<notin> (fst \<circ> snd) ` set heap" using assms by (auto simp: filled_heap_def)
  ultimately show ?thesis using assms Cons
    by (simp add: filled_heap_def push_next_def heap_push_def sorted_insort_key set_insort_key
        entry_item_def [symmetric])
qed

lemma fill_heap_from:
  assumes "k \<le> length ss" and "filled_heap k heap ss"
  shows "\<exists>heap'. fill_heap [k..<length ss] (filled_cursors k ss) heap =
    Inr (filled_cursors (length ss) ss, heap') \<and> filled_heap (length ss) heap' ss"
  using assms
proof (induction "length ss - k" arbitrary: k heap)
  case (Suc n)
  then have k: "k < length ss" by simp
  let ?y = "case ss ! k of [] \<Rightarrow> None | x # xs \<Rightarrow> Some x"
  have "filled_cursors (Suc k) ss = (filled_cursors k ss)[k := map Inr (tl (ss ! k))]"
    using k by (intro nth_equalityI) (auto simp: filled_cursors_def nth_list_update)
  moreover have "filled_cursors k ss = (filled_cursors k ss)[k := map Inr (ss ! k)]"
    using k by (intro nth_equalityI) (auto simp: filled_cursors_def nth_list_update)
  moreover have "k < length (filled_cursors k ss)" "filled_cursors k ss ! k = map Inr (ss ! k)"
    using k by (simp_all add: filled_cursors_def)
  ultimately have "cursor_next (filled_cursors k ss) k = Inr (?y, filled_cursors (Suc k) ss)"
    by (cases "ss ! k") (simp_all add: cursor_next_def)
  then have "fill_heap [k..<length ss] (filled_cursors k ss) heap =
      fill_heap [Suc k..<length ss] (filled_cursors (Suc k) ss) (push_next ?y k heap)"
    using k by (simp add: upt_conv_Cons)
  then show ?case
    using Suc.hyps(1) [of "Suc k" "push_next ?y k heap"] Suc.hyps(2) k
      filled_heap_push [OF Suc.prems(2)] by simp
qed simp

lemma merge_started:
  assumes "ss \<noteq> []"
  shows "\<exists>heap. merge_sorted_entry_streams (map (map Inr) ss) =
      merge_loop (filled_cursors (length ss) ss) heap None \<and>
    holds (filled_cursors (length ss) ss) heap ss"
proof -
  have "filled_heap 0 [] ss" by (simp add: filled_heap_def)
  moreover have "filled_cursors 0 ss = map (map Inr) ss"
    by (intro nth_equalityI) (auto simp: filled_cursors_def)
  ultimately obtain heap where fill: "fill_heap [0..<length ss] (map (map Inr) ss) [] =
      Inr (filled_cursors (length ss) ss, heap)" and heap: "filled_heap (length ss) heap ss"
    using fill_heap_from [of 0 ss "[]"] by auto
  have "filled_cursors (length ss) ss = map (map Inr \<circ> tl) ss"
    by (intro nth_equalityI) (auto simp: filled_cursors_def)
  then have "holds (filled_cursors (length ss) ss) heap ss"
    using heap by (simp add: holds_def filled_heap_def heap_of_def)
  then show ?thesis using fill assms by (auto simp: merge_sorted_entry_streams_def)
qed

lemma merge_sorts:
  assumes "ss \<noteq> []" and "\<forall>s\<in>set ss. sorted (map sourced_sort_key s)"
  shows "merge_sorted_entry_streams (map (map Inr) ss) =
    collapse None (sort_key sourced_sort_key (concat ss))"
  using merge_started [OF assms(1)] merge_loop_sorts [OF _ assms(2)] by metis

subsection \<open>What the pass yields\<close>

definition agree_on_positions :: "SourcedShardEntry set \<Rightarrow> bool" where
  "agree_on_positions X \<longleftrightarrow>
     (\<forall>x\<in>X. \<forall>y\<in>X. sourced_position x = sourced_position y \<longrightarrow> sr_entry x = sr_entry y)"

lemma agree_iff_inj: "agree_on_positions X \<longleftrightarrow> inj_on position_key (sr_entry ` X)"
  by (auto simp: agree_on_positions_def sourced_position_def inj_on_def)

lemma pair_prefix_mono:
  "(a :: 'a::linorder \<times> 'b::linorder \<times> 'c::linorder) \<le> b \<Longrightarrow>
     (fst a, fst (snd a)) \<le> (fst b, fst (snd b))"
  by (auto simp: less_eq_prod_def)

lemma position_mono: "sourced_sort_key x \<le> sourced_sort_key y \<Longrightarrow> sourced_position x \<le> sourced_position y"
  using pair_prefix_mono [of "sourced_sort_key x" "sourced_sort_key y"]
  by (simp add: sourced_position_def position_key_def sourced_sort_key_def Let_def)

lemma sorted_positions:
  "sorted (map sourced_sort_key xs) \<Longrightarrow> sorted (map sourced_position xs)"
  by (induction xs) (auto intro: position_mono)

lemma collapse_from:
  assumes "sorted (map sourced_position (p # xs))"
  shows "collapse (Some p) xs = (ys, None) \<Longrightarrow> agree_on_positions (insert p (set xs)) \<and>
      sorted_wrt (<) (map sourced_position (p # ys)) \<and>
      sr_entry ` set (p # ys) = sr_entry ` set (p # xs) \<and> set ys \<subseteq> set xs"
    and "agree_on_positions (insert p (set xs)) \<Longrightarrow> snd (collapse (Some p) xs) = None"
  using assms
proof (induction xs arbitrary: p ys)
  case Nil
  { case 1 then show ?case by (simp add: agree_on_positions_def) }
  { case 2 then show ?case by simp }
next
  case (Cons x xs)
  have same: "agree_on_positions (insert p (set xs)) \<longleftrightarrow>
      agree_on_positions (insert p (set (x # xs)))" if "sr_entry p = sr_entry x" for p
    using that by (simp add: agree_iff_inj)
  have apart: "agree_on_positions (insert p (set (x # xs))) \<longleftrightarrow> agree_on_positions (insert x (set xs))"
    if lt: "sourced_position p < sourced_position x"
      and sorted_tail: "sorted (map sourced_position (x # xs))" for p
  proof -
    have "sourced_position p \<noteq> sourced_position y" if "y \<in> set (x # xs)" for y
      using that lt sorted_tail by (auto dest: less_le_trans)
    then show ?thesis unfolding agree_on_positions_def by (metis insert_iff list.simps(15))
  qed
  { case 1
    then have le: "sourced_position p \<le> sourced_position x" by simp
    show ?case
    proof (cases "sourced_position p = sourced_position x")
      case True
      then have "sr_entry p = sr_entry x" and "collapse (Some p) xs = (ys, None)"
        using 1 by (auto split: if_splits)
      moreover have "sorted (map sourced_position (p # xs))" using 1 by simp
      from Cons.IH(1) [OF \<open>collapse (Some p) xs = _\<close> this]
      have "agree_on_positions (insert p (set xs))" "sorted_wrt (<) (map sourced_position (p # ys))"
        "sr_entry ` set (p # ys) = sr_entry ` set (p # xs)" "set ys \<subseteq> set xs" by blast+
      ultimately show ?thesis using same [of p] by auto
    next
      case False
      then obtain ys' where ys: "ys = x # ys'" and run: "collapse (Some x) xs = (ys', None)"
        using 1 by (cases "collapse (Some x) xs") (auto simp: yielding_def)
      have lt: "sourced_position p < sourced_position x" using le False by simp
      have IH: "agree_on_positions (insert x (set xs))"
        "sorted_wrt (<) (map sourced_position (x # ys'))"
        "sr_entry ` set (x # ys') = sr_entry ` set (x # xs)" "set ys' \<subseteq> set xs"
        using Cons.IH(1) [OF run] 1 by auto
      have "sorted (map sourced_position (x # xs))" using 1 by simp
      from apart [OF lt this] IH(1) have "agree_on_positions (insert p (set (x # xs)))" by blast
      moreover have "sorted_wrt (<) (map sourced_position (p # ys))"
        using IH(2) lt unfolding ys by (auto dest: less_trans)
      moreover have "sr_entry ` set (p # ys) = sr_entry ` set (p # x # xs)"
        using IH(3) unfolding ys by simp
      moreover have "set ys \<subseteq> set (x # xs)" using IH(4) unfolding ys by auto
      ultimately show ?thesis by blast
    qed }
  { case 2
    then have le: "sourced_position p \<le> sourced_position x" by simp
    show ?case
    proof (cases "sourced_position p = sourced_position x")
      case True
      then have "sr_entry p = sr_entry x" using 2(1) unfolding agree_on_positions_def by (metis insertI1 insertI2 list.set_intros(1))
      moreover have "agree_on_positions (insert p (set xs))" "sorted (map sourced_position (p # xs))"
        using same [OF calculation] 2 by simp_all
      then have "snd (collapse (Some p) xs) = None" by (rule Cons.IH(2))
      ultimately show ?thesis using True by simp
    next
      case False
      then have "sourced_position p < sourced_position x" using le by simp
      from apart [OF this] have "agree_on_positions (insert x (set xs))" using 2 by auto
      then show ?thesis using False Cons.IH(2) [of x] 2 by (simp add: yielding_def)
    qed }
qed

lemma collapse_sorted:
  assumes "sorted (map sourced_position xs)"
  shows "collapse None xs = (ys, None) \<Longrightarrow> agree_on_positions (set xs) \<and>
      sorted_wrt (<) (map sourced_position ys) \<and>
      sr_entry ` set ys = sr_entry ` set xs \<and> set ys \<subseteq> set xs"
    and "snd (collapse None xs) = None \<longleftrightarrow> agree_on_positions (set xs)"
proof -
  show out: "agree_on_positions (set xs) \<and> sorted_wrt (<) (map sourced_position ys) \<and>
      sr_entry ` set ys = sr_entry ` set xs \<and> set ys \<subseteq> set xs"
    if run: "collapse None xs = (ys, None)" for ys
  proof (cases xs)
    case (Cons x zs)
    then obtain ys' where "ys = x # ys'" "collapse (Some x) zs = (ys', None)"
      using run by (cases "collapse (Some x) zs") (auto simp: yielding_def)
    then show ?thesis using collapse_from(1) [of x zs ys'] assms Cons by auto
  qed (use run in \<open>simp add: agree_on_positions_def\<close>)
  show "snd (collapse None xs) = None \<longleftrightarrow> agree_on_positions (set xs)"
  proof
    assume "snd (collapse None xs) = None"
    then show "agree_on_positions (set xs)" using out [of "fst (collapse None xs)"]
      by (metis prod.collapse)
  next
    assume "agree_on_positions (set xs)"
    then show "snd (collapse None xs) = None"
      using collapse_from(2) [of "hd xs" "tl xs"] assms by (cases xs) (auto simp: yielding_def)
  qed
qed

subsection \<open>Only sorted streams are merged to the end\<close>

lemma yielding_None: "yielding x r = (ys, None) \<longleftrightarrow> (\<exists>zs. r = (zs, None) \<and> ys = x # zs)"
  by (cases r) (auto simp: yielding_def)

lemma merge_loop_sorted:
  assumes "holds cursors heap rest" and "snd (merge_loop cursors heap previous) = None"
  shows "\<forall>s\<in>set rest. sorted (map sourced_sort_key s)"
  using assms
proof (induction cursors heap previous arbitrary: rest rule: merge_loop.induct)
  case (1 cursors previous)
  then have "\<forall>s\<in>set rest. s = []" using holds_Nil [of cursors rest] by simp
  then show ?case by auto
next
  case (2 cursors k i item heap previous)
  let ?zs = "tl (rest ! i)"
  let ?y = "case ?zs of [] \<Rightarrow> None | y # ys \<Rightarrow> Some y"
  note least = holds_least [OF "2.prems"(1)]
  obtain cursors' where nxt: "cursor_next cursors i = Inr (?y, cursors')"
    and holds': "holds cursors' (push_next ?y i heap) (rest[i := ?zs])"
    using holds_next [OF "2.prems"(1)] by blast
  have ok: "\<not> (case ?y of None \<Rightarrow> False
      | Some x \<Rightarrow> sourced_sort_key x < sourced_sort_key item)"
    using "2.prems"(2) nxt by (auto split: if_splits)
  have "\<forall>s\<in>set (rest[i := ?zs]). sorted (map sourced_sort_key s)"
  proof (cases previous)
    case None
    then show ?thesis using "2.IH"(1) [OF nxt refl ok None holds'] "2.prems"(2) nxt ok
      by (simp add: yielding_def)
  next
    case (Some p)
    show ?thesis
    proof (cases "sourced_position p = sourced_position item")
      case True
      then have "\<not> sr_entry p \<noteq> sr_entry item" using "2.prems"(2) nxt ok Some
        by (auto split: if_splits)
      then show ?thesis using "2.IH"(2) [OF nxt refl ok Some True _ holds'] "2.prems"(2) nxt ok
          Some True by simp
    next
      case False
      then show ?thesis using "2.IH"(3) [OF nxt refl ok Some False holds'] "2.prems"(2) nxt ok
          Some by (simp add: yielding_def)
    qed
  qed
  then have all: "sorted (map sourced_sort_key (rest[i := ?zs] ! j))" if "j < length rest" for j
    using that by (metis length_list_update nth_mem)
  have "sorted (map sourced_sort_key (rest ! i))"
    using all [of i] least(1,2,3) ok
    by (cases "rest ! i"; cases "tl (rest ! i)") (auto intro: order_trans)
  then show ?case using all by (metis in_set_conv_nth nth_list_update_neq)
qed

text \<open>C11: The merge runs to its end exactly when there is a stream, every stream is sorted by the
  sort key of its entries, and no two entries of any streams occupy one inventory position with
  different contents.\<close>

theorem merge_ends_iff:
  "(\<exists>ys. merge_sorted_entry_streams (map (map Inr) ss) = (ys, None)) \<longleftrightarrow>
     ss \<noteq> [] \<and> (\<forall>s\<in>set ss. sorted (map sourced_sort_key s)) \<and>
     agree_on_positions (set (concat ss))"
proof (cases "ss = []")
  case False
  obtain heap where run: "merge_sorted_entry_streams (map (map Inr) ss) =
      merge_loop (filled_cursors (length ss) ss) heap None"
    and holds: "holds (filled_cursors (length ss) ss) heap ss"
    using merge_started [OF False] by blast
  show ?thesis
  proof (cases "\<forall>s\<in>set ss. sorted (map sourced_sort_key s)")
    case True
    have "sorted (map sourced_position (sort_key sourced_sort_key (concat ss)))"
      by (intro sorted_positions) simp
    from collapse_sorted(2) [OF this] show ?thesis
      using merge_sorts [OF False True] False True by (auto simp: prod_eq_iff)
  next
    case unsorted: False
    then show ?thesis using merge_loop_sorted [OF holds, of None] run by auto
  qed
qed (simp add: merge_sorted_entry_streams_def)

text \<open>C10: The heap merge is sorting. On sorted streams it yields what one pass over all entries,
  sorted by their sort key, yields: the first entry of every inventory position, in order, up to
  the first entry that conflicts with the one before it.\<close>

theorem merge_equals_sorting:
  assumes "ss \<noteq> []" and "\<forall>s\<in>set ss. sorted (map sourced_sort_key s)"
  shows "merge_sorted_entry_streams (map (map Inr) ss) =
    collapse None (sort_key sourced_sort_key (concat ss))"
  by (rule merge_sorts [OF assms])

end
