(* ===== verification/Merkle_Properties.thy ===== *)
theory Merkle_Properties
  imports Merkle_Forest
begin

section \<open>Properties of Merkle commitments\<close>

text \<open>
  A sequence of records is committed by adding each one and finalizing. The root then stands for
  exactly that sequence, and the number of peaks stays logarithmic.
\<close>

fun add_records :: "(byte list \<Rightarrow> byte list) \<Rightarrow> CoordinatorCall \<Rightarrow> MerkleAccumulator \<Rightarrow>
    (byte list \<times> string) list \<Rightarrow> MerkleAccumulator world_op" where
  "add_records sha256 c acc [] = ret acc"
| "add_records sha256 c acc ((payload, d) # rs) =
     seq_op (add_record sha256 c acc payload d) (\<lambda>(_, acc'). add_records sha256 c acc' rs)"

definition commit_records :: "(byte list \<Rightarrow> byte list) \<Rightarrow> CoordinatorCall \<Rightarrow> string \<Rightarrow>
    (byte list \<times> string) list \<Rightarrow> (string \<times> int \<times> int) world_op" where
  "commit_records sha256 c domain rs =
     seq_op (lift_res (merkle_accumulator domain)) (\<lambda>acc.
     seq_op (add_records sha256 c acc rs) (finalize sha256 c))"

definition records_stored :: "PublicationStore \<Rightarrow> (byte list \<times> string) list \<Rightarrow> bool" where
  "records_stored s rs \<longleftrightarrow> (\<forall>(payload, d)\<in>set rs. stored s d payload)"

lemma records_stored_grows: "records_stored s rs \<Longrightarrow> pub_grows s t \<Longrightarrow> records_stored t rs"
  by (auto simp: records_stored_def intro: stored_grows)

lemma add_records_returned:
  assumes "add_records sha256 c acc rs w = (Inr acc', v)"
    and "accumulated sha256 (rw_store w) acc ds"
    and "coordinator_harmless sha256 c" and "pub_wf sha256 (rw_store w)"
  shows "accumulated sha256 (rw_store v) acc' (ds @ map snd rs) \<and> mk_domain acc' = mk_domain acc \<and>
    records_stored (rw_store v) rs \<and> pub_grows (rw_store w) (rw_store v) \<and>
    pub_wf sha256 (rw_store v)"
  using assms
proof (induction rs arbitrary: acc w ds)
  case (Cons a rs)
  obtain payload d where a: "a = (payload, d)" by fastforce
  obtain r acc1 w1 where first: "add_record sha256 c acc payload d w = (Inr (r, acc1), w1)"
    and rest: "add_records sha256 c acc1 rs w1 = (Inr acc', v)"
    using Cons.prems(1) by (auto simp: a seq_op_Inr)
  note one = add_record_returned [OF first Cons.prems(2-4)]
  note more = Cons.IH [OF rest one(1) assms(3) one(5)]
  then show ?case using one stored_grows [of "rw_store w1" "rw_store v" d payload]
    pub_grows_trans [of "rw_store w" "rw_store w1" "rw_store v"]
    by (simp add: a records_stored_def)
qed (simp add: records_stored_def)

lemma commit_records_returned:
  assumes "commit_records sha256 c domain rs w = (Inr (root, n, k), v)"
    and "coordinator_harmless sha256 c" and "pub_wf sha256 (rw_store w)"
  shows "root_commits sha256 domain (rw_store v) root (map snd rs)"
    "records_stored (rw_store v) rs" "pub_grows (rw_store w) (rw_store v)"
    "pub_wf sha256 (rw_store v)"
    "\<exists>acc. accumulated sha256 (rw_store v) acc (map snd rs) \<and> n = int (length rs) \<and>
       k = int (length (mk_peaks acc))"
proof -
  obtain acc acc' w1 where new: "merkle_accumulator domain = Inr acc"
    and add: "add_records sha256 c acc rs w = (Inr acc', w1)"
    and fin: "finalize sha256 c acc' w1 = (Inr (root, n, k), v)"
    using assms(1) by (auto simp: commit_records_def seq_op_Inr)
  have start: "accumulated sha256 (rw_store w) acc []" "mk_domain acc = domain"
    using accumulated_new [OF new] by auto
  have all: "accumulated sha256 (rw_store w1) acc' (map snd rs)" "mk_domain acc' = domain"
    "records_stored (rw_store w1) rs" "pub_grows (rw_store w) (rw_store w1)"
    "pub_wf sha256 (rw_store w1)"
    using add_records_returned [OF add start(1) assms(2,3)] start(2) by auto
  note fin = finalize_returned [OF fin all(1) assms(2) all(5)]
  show "root_commits sha256 domain (rw_store v) root (map snd rs)" using fin(1) all(2) by simp
  show "records_stored (rw_store v) rs" using records_stored_grows [OF all(3) fin(4)] .
  show "pub_grows (rw_store w) (rw_store v)" using pub_grows_trans [OF all(4) fin(4)] .
  show "pub_wf sha256 (rw_store v)" by (rule fin(5))
  show "\<exists>acc. accumulated sha256 (rw_store v) acc (map snd rs) \<and> n = int (length rs) \<and>
       k = int (length (mk_peaks acc))"
    using accumulated_grows [OF all(1) fin(4)] fin(2,3) by auto
qed


subsection \<open>The number of peaks\<close>

lemma sum_increasing_powers:
  fixes ls :: "int list"
  assumes "sorted_wrt (<) ls" and "\<forall>l\<in>set ls. 0 \<le> l" and "\<forall>l\<in>set ls. m \<le> nat l"
  shows "2 ^ m * 2 ^ length ls \<le> (\<Sum>l\<leftarrow>ls. 2 ^ nat l) + (2 ^ m :: nat)"
  using assms
proof (induction ls arbitrary: m)
  case (Cons l ls)
  have above: "\<forall>k\<in>set ls. Suc (nat l) \<le> nat k" using Cons.prems(1,2) by fastforce
  have IH: "2 ^ Suc (nat l) * 2 ^ length ls \<le> (\<Sum>l\<leftarrow>ls. 2 ^ nat l) + (2 ^ Suc (nat l) :: nat)"
    by (rule Cons.IH [OF _ _ above]) (use Cons.prems in simp_all)
  have "(2::nat) ^ m \<le> 2 ^ nat l" using Cons.prems(3) by simp
  then obtain q :: nat where q: "2 ^ nat l = 2 ^ m + q" by (metis le_iff_add)
  have "q * 2 \<le> q * (2 * 2 ^ length ls)" by simp
  moreover have "q * (2 * 2 ^ length ls) + 2 * (2 ^ m * 2 ^ length ls) \<le>
      q * 2 + (2 * 2 ^ m + (\<Sum>l\<leftarrow>ls. 2 ^ nat l))"
    using IH by (simp add: q algebra_simps)
  ultimately have "2 * (2 ^ m * 2 ^ length ls) \<le> q + (2 ^ m + (2 ^ m + (\<Sum>l\<leftarrow>ls. 2 ^ nat l)))"
    by linarith
  then show ?case by (simp add: q algebra_simps)
qed simp

lemma forest_size:
  "forest sha256 domain s peaks xss \<Longrightarrow>
    length (concat (rev xss)) = (\<Sum>l\<leftarrow>map fst peaks. 2 ^ nat l)"
proof (induction peaks arbitrary: xss)
  case (Cons a peaks)
  then show ?case using committed_shape by (cases a) (fastforce simp: forest_Cons)
qed simp

text \<open>The accumulator keeps logarithmically many peaks. After \<open>n\<close> records the count it
  reports is \<open>n\<close>, and for its \<open>k\<close> peaks \<open>2 ^ k\<close> is at most \<open>n + 1\<close>.\<close>

theorem merkle_peaks_logarithmic:
  assumes "run_of (shard_step sha256) empty_publication_store evs (rw_store w)"
    and "coordinator_harmless sha256 c"
    and "commit_records sha256 c domain rs w = (Inr (root, n, k), v)"
  shows "n = int (length rs) \<and> 2 ^ nat k \<le> n + 1"
proof -
  obtain acc where acc: "accumulated sha256 (rw_store v) acc (map snd rs)" "n = int (length rs)"
    "k = int (length (mk_peaks acc))"
    using commit_records_returned(5) [OF assms(3,2) sharded_wf [OF assms(1)]] by blast
  then obtain xss where forest: "forest sha256 (mk_domain acc) (rw_store v) (mk_peaks acc) xss"
    "concat (rev xss) = map snd rs" by (auto simp: accumulated_def)
  let ?ls = "map fst (mk_peaks acc)"
  have "2 ^ 0 * 2 ^ length ?ls \<le> (\<Sum>l\<leftarrow>?ls. 2 ^ nat l) + (2 ^ 0 :: nat)"
    using forest(1) forest_nonnegative [OF forest(1)]
    by (intro sum_increasing_powers) (simp_all add: forest_def)
  then have "2 ^ length (mk_peaks acc) \<le> length rs + 1"
    using forest_size [OF forest(1)] forest(2) by simp
  then have "int (2 ^ length (mk_peaks acc)) \<le> int (length rs + 1)" by (simp only: of_nat_le_iff)
  then show ?thesis using acc by simp
qed

end
