(* ===== verification/Reconciliation_Examples.thy ===== *)
theory Reconciliation_Examples
  imports Shard_Witnesses Reconciliation_Soundness Reconciliation_Merge Merkle_Properties
begin

section \<open>A reconciliation\<close>

text \<open>
  The example shard is reconciled: its one entry is resolved to its accepted attempt, the records
  are committed and the seal is published.
\<close>

definition example_reconciler :: StreamingReconciler where
  "example_reconciler = \<lparr>sx_inventory = example_inventory, sx_shards = [example_shard],
     sx_completion_resolver = \<lambda>_. Inr example_published,
     sx_replay_attestor = \<lambda>p. Inr \<lparr>at_publication = p, at_completion = example_completion,
       at_attestation = example_attestation\<rparr>\<rparr>"

definition example_sourced :: SourcedShardEntry where
  "example_sourced = \<lparr>sr_entry = example_entry, sr_source_manifest_digest = numbered (CHR ''6'')\<rparr>"

definition example_attested :: AttestedCompletion where
  "example_attested = \<lparr>at_publication = example_published, at_completion = example_completion,
     at_attestation = example_attestation\<rparr>"

lemma example_reconciler_simps [simp]:
  "sx_inventory example_reconciler = example_inventory"
  "sx_shards example_reconciler = [example_shard]"
  "sx_completion_resolver example_reconciler e = Inr example_published"
  "sx_replay_attestor example_reconciler p = Inr \<lparr>at_publication = p,
     at_completion = example_completion, at_attestation = example_attestation\<rparr>"
  by (simp_all add: example_reconciler_def)

text \<open>The worlds: the sealed store with objects added, after some number of calls.\<close>

definition world :: "nat \<Rightarrow> PublicationStore \<Rightarrow> ReconcilerWorld" where
  "world k s = \<lparr>rw_store = s, rw_calls = k\<rparr>"

lemma world_store [simp]: "rw_store (world k s) = s" by (simp add: world_def)

lemma quiet_call [simp]: "undisturbed (uninjected lone_coordinator k)"
  using undisturbed_calls [OF lone_undisturbed] by blast

lemma at_world:
  "at_store lone_coordinator m (world k s) =
     (let r = m (uninjected lone_coordinator k) s in (fst r, world (Suc k) (snd r)))"
  by (simp add: at_store_def world_def lone_coordinator_def)

lemma quiet_publish [simp]:
  assumes "ps_temporaries s = []" and "ps_objects s d = None" and "hex (example_hash b) = d"
  shows "at_store lone_coordinator (\<lambda>call. publish_bytes example_hash call b (Some d)) (world k s) =
    (Inr \<lparr>pr_digest = d, pr_relative_path = relative_object_path d, pr_disposition = Published\<rparr>,
     world (Suc k) (add_object d b s))"
proof -
  have "is_hex_256 d" using example_hash_hex assms(3) by blast
  with quiet_call assms(1,2) have "publish_bytes example_hash (uninjected lone_coordinator k) b (Some d) s =
      (Inr \<lparr>pr_digest = d, pr_relative_path = relative_object_path d, pr_disposition = Published\<rparr>,
       add_object d b s)"
    by (rule publish_fresh [of _ _ _ example_hash b, OF _ _ _ assms(3) [symmetric]])
  then show ?thesis by (simp add: at_world Let_def)
qed

lemma quiet_read [simp]:
  assumes "ps_objects s d = Some b" and "hex (example_hash b) = d" and "is_hex_256 d"
  shows "at_store lone_coordinator (\<lambda>_. read_verified example_hash d) (world k s) =
    (Inr b, world (Suc k) s)"
  using assms by (simp add: at_world read_verified_def store_object_path_def require_store_digest_def
      seq_read)

subsection \<open>Verification\<close>

lemma example_verified:
  "verify_shards example_hash lone_coordinator example_reconciler (world 0 sealed_store) =
     (Inr example_reconciler, world 3 sealed_store)"
proof -
  have exists: "at_store lone_coordinator (\<lambda>_. reference_exists_verified example_hash ''seals'' zeros 0
      (numbered (CHR ''6''))) (world k sealed_store) = (Inr True, world (Suc k) sealed_store)" for k
    by (simp add: at_world reference_exists_verified_def reference_path_def require_store_digest_def
        is_uint32_def UINT32_MAX_def seq_read example_sealed(6))
  have parts: "si_inventory_digest example_index = zeros" "si_shard_count example_index = 1"
    "si_shard_index example_index = 0" "sm_inventory_digest example_manifest = zeros"
    "sm_shard_count example_manifest = 1"
    by (simp_all add: example_index_def example_manifest_def)
  have "verify_shard example_hash lone_coordinator example_inventory example_shard
      (world 0 sealed_store) = (Inr (), world 3 sealed_store)"
    using exists parts
    by (simp add: verify_shard_def Let_def example_sealed seq_lift require_op_def numeral_3_eq_3)
  then show ?thesis
    using parts by (simp add: verify_shards_def Let_def example_sealed seq_lift)
qed

lemma example_parts [simp]:
  "se_global_ordinal example_entry = 0"
  "se_completion_envelope_digest example_entry = numbered (CHR ''1'')"
  "se_inventory_completion_reference_digest example_entry = numbered (CHR ''2'')"
  "sr_entry example_sourced = example_entry"
  "sr_source_manifest_digest example_sourced = numbered (CHR ''6'')"
  "at_publication example_attested = example_published"
  "at_completion example_attested = example_completion"
  "at_attestation example_attested = example_attestation"
  "es_global_ordinal example_spec = 0" "es_sample_key example_spec = example_sample"
  "es_attempt_range example_spec = example_range" "ei_samples example_inventory = [example_spec]"
  by (simp_all add: example_entry_def example_sourced_def example_attested_def example_spec_def
      example_inventory_def)

lemma example_hashed [simp]:
  "hex (example_hash (attestation_bytes example_attestation)) = numbered (CHR ''7'')"
  "hex (example_hash (semantic_record_bytes example_semantic)) = numbered (CHR ''8'')"
  "hex (example_hash (run_record_bytes example_evidence)) = numbered (CHR ''9'')"
  "hex (example_hash (json_bytes (root_json (example_merkle ''semantic-corpus-v1'' (CHR ''8''))))) =
     numbered (CHR ''a'')"
  "hex (example_hash (json_bytes (root_json (example_merkle ''run-evidence-v1'' (CHR ''9''))))) =
     numbered (CHR ''b'')"
  "hex (example_hash (corpus_manifest_bytes example_corpus_manifest)) = numbered (CHR ''c'')"
  "hex (example_hash (run_manifest_bytes example_run_manifest)) = numbered (CHR ''d'')"
  "hex (example_hash (merge_seal_bytes example_seal)) = numbered (CHR ''e'')"
  using example_digests
  by (simp_all add: attestation_digest_def attestation_bytes_def semantic_record_digest_def
      semantic_record_bytes_def run_record_digest_def run_record_bytes_def
      corpus_manifest_digest_def corpus_manifest_bytes_def run_manifest_digest_def
      run_manifest_bytes_def merge_seal_digest_def merge_seal_bytes_def json_digest_def)

lemma example_streams:
  "shard_streams example_hash example_reconciler = [[Inr example_sourced]]"
  by (simp add: shard_streams_def example_sealed sourced_entry_def m_digest_def)
    (simp add: example_index_def example_sourced_def)

lemma example_merge:
  "merge_sorted_entry_streams (shard_streams example_hash example_reconciler) =
     ([example_sourced], None)"
  by (simp add: example_streams merge_sorted_entry_streams_def yielding_def cursor_next_def
      push_next_def heap_push_def)

subsection \<open>The run\<close>

lemma example_resolve_entry:
  "resolve_entry example_hash lone_coordinator example_reconciler 0 None example_sourced
     (world k sealed_store) =
   (Inr ((example_sample, example_range), example_attested), world (Suc k)
     (add_object (numbered (CHR ''7'')) (attestation_bytes example_attestation) sealed_store))"
proof -
  have "validate_reference_against example_hash example_reference example_inventory
      example_envelope = Inr ()"
    using example_reference_built by (simp add: validate_reference_against_def)
  moreover have "reference_spec example_hash example_inventory example_reference = Inr example_spec"
    by (simp add: reference_spec_def Let_def example_reference_def example_key_def
        range_contains_def)
  ultimately show ?thesis
    by (simp add: resolve_entry_def Let_def seq_lift require_op_def same_authority_def
        example_sealed example_stored)
qed


lemma example_resolution:
  "resolve_attempt_prefix example_range [example_completion] =
     Inr (ResolvedAccepted \<lparr>sp_sample_key = example_sample, sp_attempt_range = example_range,
       sp_rejected_prefix = [], sp_accepted_attempt = example_accepted 0\<rparr>)"
  by code_simp

lemma example_replay_digest:
  "replay_digest example_hash \<lparr>sp_sample_key = example_sample, sp_attempt_range = example_range,
     sp_rejected_prefix = [], sp_accepted_attempt = example_accepted 0\<rparr> = zeros"
  unfolding replay_digest_def replay_json_def by (rule hash_other) (simp add: object_keys_def)

lemma example_records_valid:
  "semantic_corpus_record example_semantic = Inr example_semantic"
  "run_evidence_record example_evidence = Inr example_evidence"
  by (simp_all add: semantic_corpus_record_def run_evidence_record_def example_semantic_def
      example_evidence_def m_uint32_def m_digest_def m_digests_def check_selection_def is_uint32_def
      UINT32_MAX_def)


definition attested_store :: PublicationStore where
  "attested_store =
     add_object (numbered (CHR ''7'')) (attestation_bytes example_attestation) sealed_store"

lemma example_resolve_sample:
  "resolve_sample example_hash lone_coordinator example_reconciler 0 [example_sourced]
     (world k sealed_store) =
   (Inr (Some example_semantic, example_evidence, 1), world (Suc k) attested_store)"
proof -
  have semantic: "semantic_record_of example_hash 0 example_sample [example_attested]
      \<lparr>sp_sample_key = example_sample, sp_attempt_range = example_range,
       sp_rejected_prefix = [], sp_accepted_attempt = example_accepted 0\<rparr> = example_semantic"
    using example_completion_digest
    by (simp add: semantic_record_of_def attestation_digests_def example_semantic_def
        example_completion_def) (simp add: example_accepted_def)
  have "conclude_resolution example_hash 0 example_sample [example_attested]
      (ResolvedAccepted \<lparr>sp_sample_key = example_sample, sp_attempt_range = example_range,
       sp_rejected_prefix = [], sp_accepted_attempt = example_accepted 0\<rparr>) =
      Inr (Some example_semantic, SampleAccepted, Some 0, zeros)"
    unfolding conclude_resolution_def Resolution.case semantic example_records_valid(1)
    by (simp add: example_replay_digest) (simp add: example_semantic_def)
  moreover have "run_record_of example_hash example_inventory 0 example_sample
      [numbered (CHR ''6'')] [example_attested] SampleAccepted (Some 0) zeros = example_evidence"
    by (simp add: run_record_of_def attestation_digests_def example_evidence_def)
  ultimately show ?thesis
    by (simp add: resolve_sample_def require_op_def seq_lift example_resolve_entry
        example_resolution example_records_valid seq_op_def attested_store_def)
qed


subsection \<open>The records\<close>

lemma fresh_objects [simp]:
  "ps_objects (add_object d b s) e = (if e = d then Some b else ps_objects s e)"
  "ps_temporaries (add_object d b s) = ps_temporaries s"
  "ps_references (add_object d b s) = ps_references s"
  by (simp_all add: add_object_def)

lemma attested_fresh [simp]:
  "ps_objects attested_store (numbered (CHR ''8'')) = None"
  "ps_objects attested_store (numbered (CHR ''9'')) = None"
  "ps_objects attested_store (numbered (CHR ''a'')) = None"
  "ps_objects attested_store (numbered (CHR ''b'')) = None"
  "ps_objects attested_store (numbered (CHR ''c'')) = None"
  "ps_objects attested_store (numbered (CHR ''d'')) = None"
  "ps_objects attested_store (numbered (CHR ''e'')) = None"
  "ps_temporaries attested_store = []"
  "ps_references attested_store (''seals'', zeros, 0, numbered (CHR ''e'')) = None"
  by (simp_all add: attested_store_def example_sealed example_stored)

text \<open>The first record of an accumulator, and the end of one with a single record, for any
  outcome of their publications.\<close>

abbreviation publish_object :: "byte list \<Rightarrow> string \<Rightarrow> PublicationResult world_op" where
  "publish_object b d \<equiv>
     at_store lone_coordinator (\<lambda>call. publish_bytes example_hash call b (Some d))"

lemma example_add:
  assumes "publish_object b (numbered c) w = (Inr r, w')" and "is_hex_256 (numbered c)"
  shows "add_record example_hash lone_coordinator \<lparr>mk_domain = domain, mk_peaks = [],
      mk_record_count = 0\<rparr> b (numbered c) w = (Inr (r, example_merkle domain c), w')"
  using assms
  by (simp add: add_record_def m_digest_def merkle_peak_def m_uint32_def is_uint32_def
      UINT32_MAX_def seq_lift carry_peaks.simps [of example_hash lone_coordinator domain "[]"])
    (simp add: example_merkle_def)

lemma example_finish:
  assumes "hex (example_hash (json_bytes (root_json (example_merkle domain c)))) = d"
    and "publish_object (json_bytes (root_json (example_merkle domain c))) d w = (Inr r, w')"
  shows "finalize example_hash lone_coordinator (example_merkle domain c) w = (Inr (d, 1, 1), w')"
  using assms by (simp add: finalize_def Let_def json_digest_def ordered_peaks_def)
    (simp add: example_merkle_def)

lemma example_add_record:
  assumes "ps_temporaries s = []" and "ps_objects s (numbered c) = None"
    and "hex (example_hash b) = numbered c" and "is_hex_256 (numbered c)"
  shows "add_record example_hash lone_coordinator \<lparr>mk_domain = domain, mk_peaks = [],
      mk_record_count = 0\<rparr> b (numbered c) (world k s) =
    (Inr (\<lparr>pr_digest = numbered c, pr_relative_path = relative_object_path (numbered c),
       pr_disposition = Published\<rparr>, example_merkle domain c),
     world (Suc k) (add_object (numbered c) b s))"
  using example_add [OF quiet_publish [OF assms(1-3)] assms(4)] .

definition empty_merkle :: "string \<Rightarrow> MerkleAccumulator" where
  "empty_merkle domain = \<lparr>mk_domain = domain, mk_peaks = [], mk_record_count = 0\<rparr>"

definition example_start :: ReconcileState where
  "example_start = \<lparr>rc_semantic_merkle = empty_merkle ''semantic-corpus-v1'',
     rc_run_merkle = empty_merkle ''run-evidence-v1'', rc_current_ordinal = None,
     rc_current_entries = [], rc_expected_ordinal = 0, rc_sample_count = 0,
     rc_accepted_count = 0, rc_exhausted_count = 0, rc_replay_count = 0,
     rc_peak_buffered_entries = 1\<rparr>"

definition example_end :: ReconcileState where
  "example_end = \<lparr>rc_semantic_merkle = example_merkle ''semantic-corpus-v1'' (CHR ''8''),
     rc_run_merkle = example_merkle ''run-evidence-v1'' (CHR ''9''), rc_current_ordinal = Some 0,
     rc_current_entries = [example_sourced], rc_expected_ordinal = 1, rc_sample_count = 1,
     rc_accepted_count = 1, rc_exhausted_count = 0, rc_replay_count = 1,
     rc_peak_buffered_entries = 2\<rparr>"

definition recorded_store :: PublicationStore where
  "recorded_store = add_object (numbered (CHR ''9'')) (run_record_bytes example_evidence)
     (add_object (numbered (CHR ''8'')) (semantic_record_bytes example_semantic) attested_store)"

lemma example_consumed:
  "consume_stream example_hash lone_coordinator example_reconciler example_start
     (world 3 sealed_store) = (Inr example_end, world 6 recorded_store)"
proof -
  let ?st = "example_start\<lparr>rc_current_ordinal := Some 0, rc_current_entries := [example_sourced]\<rparr>"
  have "consume_entries example_hash lone_coordinator example_reconciler [example_sourced]
      example_start w = (Inr ?st, w)" for w
    by (simp add: example_start_def)
  moreover have "flush example_hash lone_coordinator example_reconciler ?st (world 3 sealed_store) =
      (Inr example_end, world 6 recorded_store)"
    using example_add_record
    by (simp add: flush_def example_start_def require_op_def seq_lift example_resolve_sample
        add_semantic_def empty_merkle_def)
      (simp add: example_end_def recorded_store_def eval_nat_numeral)
  ultimately show ?thesis by (simp add: consume_stream_def example_merge)
qed


subsection \<open>The seal\<close>

lemma example_manifests_of:
  "corpus_manifest_of example_hash example_inventory (numbered (CHR ''a''), 1, 1) =
     example_corpus_manifest"
  "run_manifest_of example_hash example_reconciler 1 (numbered (CHR ''b''), 1, 1) =
     example_run_manifest"
  "merge_seal_of example_hash example_reconciler example_corpus_manifest example_run_manifest =
     example_seal"
  by (simp_all add: corpus_manifest_of_def example_corpus_manifest_def run_manifest_of_def
      example_run_manifest_def source_manifests_def example_sealed)
    (simp add: merge_seal_of_def example_seal_def source_manifests_def example_sealed
      flip: example_corpus_manifest_def example_run_manifest_def)

lemma example_manifests_valid:
  "semantic_corpus_manifest example_corpus_manifest = Inr example_corpus_manifest"
  "run_evidence_manifest example_run_manifest = Inr example_run_manifest"
  "canonical_merge_seal example_seal = Inr example_seal"
  by (simp_all add: semantic_corpus_manifest_def run_evidence_manifest_def canonical_merge_seal_def
      example_corpus_manifest_def example_run_manifest_def example_seal_def m_uint32_def
      m_digest_def m_digests_def is_uint32_def UINT32_MAX_def RECONCILIATION_POLICY_VERSION_def)

lemma example_finalize:
  assumes "hex (example_hash (json_bytes (root_json (example_merkle domain c)))) = d"
    and "ps_temporaries s = []" and "ps_objects s d = None"
  shows "finalize example_hash lone_coordinator (example_merkle domain c) (world k s) =
    (Inr (d, 1, 1), world (Suc k)
       (add_object d (json_bytes (root_json (example_merkle domain c))) s))"
  using example_finish [OF assms(1) quiet_publish [OF assms(2,3,1)]] .

definition merged_store :: PublicationStore where
  "merged_store = add_object (numbered (CHR ''e'')) (merge_seal_bytes example_seal)
     (add_object (numbered (CHR ''d'')) (run_manifest_bytes example_run_manifest)
     (add_object (numbered (CHR ''c'')) (corpus_manifest_bytes example_corpus_manifest)
     (add_object (numbered (CHR ''b''))
       (json_bytes (root_json (example_merkle ''run-evidence-v1'' (CHR ''9''))))
     (add_object (numbered (CHR ''a''))
       (json_bytes (root_json (example_merkle ''semantic-corpus-v1'' (CHR ''8''))))
     recorded_store))))"

lemma quiet_install:
  assumes "ps_objects s d = Some b" and "hex (example_hash b) = d" and "is_hex_256 d"
    and "ps_references s (''seals'', zeros, 0, d) = None"
  shows "\<exists>r t. at_store lone_coordinator (\<lambda>call. install_digest_reference example_hash call ''seals''
      zeros 0 d None) (world k s) = (Inr r, t)"
proof -
  have "stored s d b" using assms by (simp add: stored_def)
  moreover have "reference_path ''seals'' zeros 0 d = Inr (''seals'', zeros, 0, d)"
    using assms(3) by (simp add: reference_path_def require_store_digest_def is_uint32_def
        UINT32_MAX_def)
  ultimately have "\<exists>r t. install_digest_reference example_hash (uninjected lone_coordinator k)
      ''seals'' zeros 0 d None s = (Inr r, t)"
    using reference_fresh [of _ s d b example_hash, OF quiet_call _ assms(2) [symmetric]] assms(4)
    by blast
  then show ?thesis by (auto simp: at_world Let_def)
qed

lemma example_published_merge:
  "\<exists>r v. publish_merge example_hash lone_coordinator example_reconciler example_end
     (world 6 recorded_store) = (Inr r, v)"
proof -
  have recorded: "ps_objects recorded_store (numbered (CHR ''a'')) = None"
    "ps_objects recorded_store (numbered (CHR ''b'')) = None"
    "ps_objects recorded_store (numbered (CHR ''c'')) = None"
    "ps_objects recorded_store (numbered (CHR ''d'')) = None"
    "ps_objects recorded_store (numbered (CHR ''e'')) = None"
    "ps_temporaries recorded_store = []"
    "ps_references recorded_store (''seals'', zeros, 0, numbered (CHR ''e'')) = None"
    by (simp_all add: recorded_store_def)
  have ends: "rc_semantic_merkle example_end = example_merkle ''semantic-corpus-v1'' (CHR ''8'')"
    "rc_run_merkle example_end = example_merkle ''run-evidence-v1'' (CHR ''9'')"
    "rc_replay_count example_end = 1" "rc_sample_count example_end = 1"
    "rc_accepted_count example_end = 1" "rc_exhausted_count example_end = 0"
    "rc_peak_buffered_entries example_end = 2"
    by (simp_all add: example_end_def)
  obtain r t where "at_store lone_coordinator (\<lambda>call. install_digest_reference example_hash call
      ''seals'' zeros 0 (numbered (CHR ''e'')) None) (world 11 merged_store) = (Inr r, t)"
    using quiet_install [of merged_store "numbered (CHR ''e'')" "merge_seal_bytes example_seal" 11]
      recorded by (auto simp: merged_store_def)
  then show ?thesis using recorded
    by (simp add: publish_merge_def ends example_finalize seq_lift example_manifests_of
        example_manifests_valid reconciliation_result_def m_uint32_def is_uint32_def UINT32_MAX_def
        merged_store_def)
qed


lemma example_reconciled:
  "\<exists>r v. verified_reconciliation example_hash lone_coordinator example_reconciler
     (world 0 sealed_store) = (Inr r, v)"
proof -
  have "initial_reconcile_state example_reconciler = Inr example_start"
    by (simp add: initial_reconcile_state_def merkle_accumulator_def example_start_def
        empty_merkle_def)
  moreover have "rc_sample_count example_end = 1" by (simp add: example_end_def)
  ultimately show ?thesis using example_published_merge
    by (auto simp: verified_reconciliation_def example_verified reconcile_def seq_lift
        example_consumed require_op_def)
qed

subsection \<open>The properties\<close>

definition sealing_operations :: "ShardOp list" where
  "sealing_operations =
     example_operations @ [PublishShard lone_coordinator example_inventory 0 [example_published]]"

lemma sealed_reached:
  "run_of (shard_step example_hash) empty_publication_store sealing_operations sealed_store"
  using example_reached
  by (auto simp: sealing_operations_def run_of_append shard_step_def sealed_store_def)

theorem sealed_corpus_complete_witness:
  "\<exists>r v evs sems. sealed_corpus example_hash example_reconciler v r evs sems \<and> length evs = 1"
proof -
  obtain r v where run: "verified_reconciliation example_hash lone_coordinator example_reconciler
      (world 0 sealed_store) = (Inr r, v)" using example_reconciled by blast
  have reached: "run_of (shard_step example_hash) empty_publication_store sealing_operations
      (rw_store (world 0 sealed_store))" using sealed_reached by simp
  have "run_of (shard_step example_hash) (rw_store v) [] (rw_store v)" by simp
  from sealed_corpus_complete [OF reached lone_harmless run this] show ?thesis
    by (fastforce simp: sealed_corpus_def Let_def)
qed

theorem reconciliation_canonical_witness:
  "\<exists>r v. verified_reconciliation example_hash lone_coordinator example_reconciler
     (world 0 sealed_store) = (Inr r, v) \<and>
   (\<exists>p q t. r = r\<lparr>rs_semantic_manifest_publication := p,
     rs_run_evidence_manifest_publication := q, rs_seal_publication := t\<rparr>)"
proof -
  obtain r v where run: "verified_reconciliation example_hash lone_coordinator example_reconciler
      (world 0 sealed_store) = (Inr r, v)" using example_reconciled by blast
  moreover have "example_reconciler\<lparr>sx_shards := [example_shard]\<rparr> = example_reconciler"
    by (simp add: example_reconciler_def)
  ultimately show ?thesis
    using reconciliation_canonical [of "[example_shard]" "[example_shard]" example_hash
        lone_coordinator example_reconciler "world 0 sealed_store" r v lone_coordinator
        "world 0 sealed_store" r v] by metis
qed

theorem merge_ends_iff_witness:
  "sorted (map sourced_sort_key [example_sourced]) \<and> agree_on_positions {example_sourced}"
  using merge_ends_iff [of "[[example_sourced]]"] example_merge by (simp add: example_streams)

theorem merge_equals_sorting_witness:
  "collapse None (sort_key sourced_sort_key [example_sourced]) = ([example_sourced], None)"
  using merge_equals_sorting [of "[[example_sourced]]"] example_merge by (simp add: example_streams)


text \<open>The semantic record is committed twice; the second time every object is there already.\<close>

definition committed_store :: PublicationStore where
  "committed_store = add_object (numbered (CHR ''a''))
     (json_bytes (root_json (example_merkle ''semantic-corpus-v1'' (CHR ''8''))))
     (add_object (numbered (CHR ''8'')) (semantic_record_bytes example_semantic) attested_store)"

definition example_records :: "(byte list \<times> string) list" where
  "example_records = [(semantic_record_bytes example_semantic, numbered (CHR ''8''))]"

lemma example_committed:
  "commit_records example_hash lone_coordinator ''semantic-corpus-v1'' example_records
     (world 0 attested_store) = (Inr (numbered (CHR ''a''), 1, 1), world 2 committed_store)"
  using example_add_record
  by (simp add: commit_records_def example_records_def merkle_accumulator_def seq_lift
      example_finalize committed_store_def numeral_2_eq_2)

lemma quiet_republish [simp]:
  assumes "hex (example_hash b) = d" and "ps_objects s d = Some b"
  shows "at_store lone_coordinator (\<lambda>call. publish_bytes example_hash call b (Some d)) (world k s) =
    (Inr \<lparr>pr_digest = d, pr_relative_path = relative_object_path d,
       pr_disposition = ExistingIdentical\<rparr>, world (Suc k) s)"
proof -
  have "stored s d b" using example_hash_hex assms by (auto simp: stored_def)
  from publish_existing [of _ _ _ example_hash, OF this assms(1) [symmetric] disjI2 [OF HOL.refl]]
  show ?thesis by (simp add: at_world Let_def)
qed

lemma example_recommitted:
  "commit_records example_hash lone_coordinator ''semantic-corpus-v1'' example_records
     (world 2 committed_store) = (Inr (numbered (CHR ''a''), 1, 1), world 4 committed_store)"
proof -
  have "ps_objects committed_store (numbered (CHR ''8'')) = Some (semantic_record_bytes example_semantic)"
    "ps_objects committed_store (numbered (CHR ''a'')) =
      Some (json_bytes (root_json (example_merkle ''semantic-corpus-v1'' (CHR ''8''))))"
    by (simp_all add: committed_store_def)
  note again = quiet_republish [OF example_hashed(2) this(1)] quiet_republish [OF example_hashed(4) this(2)]
  show ?thesis
    using example_add [OF again(1) [of 2]] example_finish [OF example_hashed(4) again(2) [of 3]]
    by (simp add: commit_records_def example_records_def merkle_accumulator_def seq_lift)
qed

definition attesting_operations :: "ShardOp list" where
  "attesting_operations = sealing_operations @ [StoreOp (uninjected lone_coordinator 0)
     (PublishBytes (attestation_bytes example_attestation) (Some (numbered (CHR ''7''))))]"

lemma attested_reached:
  "run_of (shard_step example_hash) empty_publication_store attesting_operations attested_store"
proof -
  have "publish_bytes example_hash (uninjected lone_coordinator 0)
      (attestation_bytes example_attestation) (Some (numbered (CHR ''7''))) sealed_store =
    (Inr \<lparr>pr_digest = numbered (CHR ''7''), pr_relative_path = relative_object_path
       (numbered (CHR ''7'')), pr_disposition = Published\<rparr>, attested_store)"
    unfolding attested_store_def
    by (rule publish_fresh) (simp_all add: example_sealed example_stored)
  moreover have "harmless example_hash (pc_meanwhile (uninjected lone_coordinator 0))"
    by (simp add: uninjected_def lone_coordinator_def lone_call_def)
  ultimately show ?thesis using sealed_reached
    by (auto simp: attesting_operations_def run_of_append shard_step_def)
qed


theorem merkle_peaks_logarithmic_witness: "(2::int) ^ nat 1 \<le> 1 + 1"
  using merkle_peaks_logarithmic [OF _ lone_harmless example_committed, of attesting_operations]
    attested_reached by simp

end
