(* ===== verification/Identity_Policy.thy ===== *)
theory Identity_Policy
  imports Choice_Paths Synthesis_Values
begin

section \<open>The identity policy\<close>

text \<open>
  \<^verbatim>\<open>synthesis/v0_4/identity_policy.py\<close>: exact rational bounds, projected volumes
  of identities and the collision bounds computed from them. The packaged policy document is a
  frozen file and is not modelled.
\<close>

definition IDENTITY_ALGORITHM_ID :: string where
  "IDENTITY_ALGORITHM_ID = ''csd-identity-hmac-sha256''"

definition IDENTITY_ALGORITHM_VERSION :: int where "IDENTITY_ALGORITHM_VERSION = 1"

definition FULL_DIGEST_BITS :: nat where "FULL_DIGEST_BITS = 256"

definition DISPLAY_DIGEST_BITS :: nat where "DISPLAY_DIGEST_BITS = 128"

definition MAX_ROLE_ORDINAL :: int where "MAX_ROLE_ORDINAL = push_bit 32 1 - 1"

definition policy_error :: "bool \<Rightarrow> string \<Rightarrow> choice_error option" where
  "policy_error ok m = unless ok (ChoiceValidationError m)"

subsection \<open>Rational bounds\<close>

record RationalBound =
  rb_numerator :: int
  rb_denominator :: int

definition rational_bound :: "RationalBound \<Rightarrow> choice_error + RationalBound" where
  "rational_bound r = checked
     [policy_error (0 \<le> rb_numerator r) ''rational numerator must be a nonnegative integer'',
      policy_error (0 < rb_denominator r) ''rational denominator must be a positive integer'']
     r"

definition no_greater_than :: "RationalBound \<Rightarrow> RationalBound \<Rightarrow> bool" where
  "no_greater_than r other =
     (rb_numerator r * rb_denominator other \<le> rb_numerator other * rb_denominator r)"

subsection \<open>Volumes\<close>

record IdentityKindVolume =
  kv_entity_kind :: string
  kv_projected_count :: int

definition identity_kind_volume :: "IdentityKindVolume \<Rightarrow> choice_error + IdentityKindVolume" where
  "identity_kind_volume v = checked
     [policy_error (kv_entity_kind v \<noteq> '''') ''identity volume kind must be a nonempty string'',
      policy_error (0 \<le> kv_projected_count v) ''identity projected count must be nonnegative'']
     v"

record IdentityVolumeEnvelope =
  ve_per_kind :: "IdentityKindVolume list"
  ve_margin_numerator :: int
  ve_margin_denominator :: int
  ve_status :: string

definition identity_volume_envelope ::
  "IdentityVolumeEnvelope \<Rightarrow> choice_error + IdentityVolumeEnvelope" where
  "identity_volume_envelope e = checked
     [policy_error (ve_per_kind e \<noteq> [])
        ''identity volume envelope requires immutable per-kind data'',
      policy_error (distinct (map kv_entity_kind (ve_per_kind e)))
        ''identity volume kinds must be unique'',
      policy_error (0 < ve_margin_denominator e)
        ''identity safety-margin denominator must be positive'',
      policy_error (ve_margin_denominator e \<le> ve_margin_numerator e)
        ''identity safety margin cannot reduce projected volume'',
      policy_error (ve_status e = ''provisional'')
        ''PR 2A identity volume status must remain provisional'']
     e"

definition margined_count :: "IdentityVolumeEnvelope \<Rightarrow> IdentityKindVolume \<Rightarrow> int" where
  "margined_count e v = (let numerator = kv_projected_count v * ve_margin_numerator e in
     (numerator + ve_margin_denominator e - 1) div ve_margin_denominator e)"

definition raw_projected_count :: "IdentityVolumeEnvelope \<Rightarrow> int" where
  "raw_projected_count e = (\<Sum>v\<leftarrow>ve_per_kind e. kv_projected_count v)"

definition projected_count_with_margin :: "IdentityVolumeEnvelope \<Rightarrow> int" where
  "projected_count_with_margin e = (\<Sum>v\<leftarrow>ve_per_kind e. margined_count e v)"

subsection \<open>Collision bounds\<close>

definition birthday_collision_bound :: "int \<Rightarrow> int \<Rightarrow> choice_error + RationalBound" where
  "birthday_collision_bound n bits =
     and_then (checked
       [policy_error (0 \<le> n) ''identity count must be a nonnegative integer'',
        policy_error (0 < bits) ''digest bits must be a positive integer''] ())
     (\<lambda>_. rational_bound \<lparr>rb_numerator = n * max 0 (n - 1),
        rb_denominator = push_bit (nat (bits + 1)) 1\<rparr>)"

definition per_kind_collision_bound ::
  "IdentityVolumeEnvelope \<Rightarrow> int \<Rightarrow> choice_error + RationalBound" where
  "per_kind_collision_bound e bits =
     and_then (checked
       [policy_error (0 < bits) ''digest bits must be a positive integer''] ())
     (\<lambda>_. rational_bound
        \<lparr>rb_numerator = fold (\<lambda>v numerator. let count = margined_count e v in
             numerator + count * max 0 (count - 1)) (ve_per_kind e) 0,
         rb_denominator = push_bit (nat (bits + 1)) 1\<rparr>)"

definition PROVISIONAL_VOLUME_ENVELOPE :: IdentityVolumeEnvelope where
  "PROVISIONAL_VOLUME_ENVELOPE =
     \<lparr>ve_per_kind = map (\<lambda>(k, n). \<lparr>kv_entity_kind = k, kv_projected_count = n\<rparr>)
        [(''audit-event'', 3000000), (''basis'', 1500000), (''control'', 100000),
         (''event'', 800000), (''evidence'', 2500000), (''mutation'', 900000),
         (''plan'', 100000), (''profile'', 500000), (''request'', 500000),
         (''trajectory'', 100000)],
      ve_margin_numerator = 1, ve_margin_denominator = 1, ve_status = ''provisional''\<rparr>"

definition COLLISION_RISK_CEILING :: RationalBound where
  "COLLISION_RISK_CEILING =
     \<lparr>rb_numerator = 15, rb_denominator = 100000000000000000000000000\<rparr>"

end
