(* ===== verification/Identities.thy ===== *)
theory Identities
  imports Identity_Policy Execution_Inventory
begin

section \<open>Entity identities\<close>

text \<open>
  \<^verbatim>\<open>synthesis/v0_4/identities.py\<close>: requests, identities and records with the tests
  of their constructors, the derivation of an identity from seed, namespace and request, and the
  allocation ledger. A dictionary whose values are enumerated is the association list of its items
  in insertion order; the two that are only looked up are maps.
\<close>

definition IDENTITY_PREFIX :: "byte list" where
  "IDENTITY_PREFIX = utf8 (''csd-identity-hmac-sha256/v1'' @ [CHR 0x00])"

datatype identity_error =
    IdentityError string
  | DuplicateIdentityRoleError string
  | UnknownIdentityRoleError string
  | IdentityCollisionError string
  | RequestValidationError string
  | MaterialOverflowError

datatype EntityKind =
    KindTrajectory | KindPlan | KindControl | KindEvidence | KindBasis | KindRequest
  | KindProfile | KindEvent | KindAuditEvent | KindMutation

fun entity_kind_value :: "EntityKind \<Rightarrow> string" where
  "entity_kind_value KindTrajectory = ''trajectory''"
| "entity_kind_value KindPlan = ''plan''"
| "entity_kind_value KindControl = ''control''"
| "entity_kind_value KindEvidence = ''evidence''"
| "entity_kind_value KindBasis = ''basis''"
| "entity_kind_value KindRequest = ''request''"
| "entity_kind_value KindProfile = ''profile''"
| "entity_kind_value KindEvent = ''event''"
| "entity_kind_value KindAuditEvent = ''audit-event''"
| "entity_kind_value KindMutation = ''mutation''"

fun display_prefix :: "EntityKind \<Rightarrow> string" where
  "display_prefix KindTrajectory = ''trj-v04''"
| "display_prefix KindPlan = ''pln-v04''"
| "display_prefix KindControl = ''ctl-v04''"
| "display_prefix KindEvidence = ''evd-v04''"
| "display_prefix KindBasis = ''bas-v04''"
| "display_prefix KindRequest = ''req-v04''"
| "display_prefix KindProfile = ''prf-v04''"
| "display_prefix KindEvent = ''evt-v04''"
| "display_prefix KindAuditEvent = ''aud-v04''"
| "display_prefix KindMutation = ''mut-v04''"

definition i_digest :: "string \<Rightarrow> string \<Rightarrow> identity_error option" where
  "i_digest v name =
     unless (is_hex_256 v) (IdentityError (name @ '' must be a lowercase SHA-256 digest''))"

fun check_role_segment :: "ChoiceSegment \<Rightarrow> identity_error option" where
  "check_role_segment (SegInt n) = unless (0 \<le> n)
     (RequestValidationError ''integer identity-role segments must be nonnegative'')"
| "check_role_segment (SegStr s) = unless (is_token s) (RequestValidationError
     ''identity-role segments must be exact nonnegative integers or lowercase ASCII tokens'')"

subsection \<open>Requests\<close>

record IdentityRequest =
  iq_attempt_key :: AttemptKey
  iq_entity_kind :: EntityKind
  iq_role_segments :: "ChoiceSegment list"
  iq_ordinal :: int

definition identity_request :: "IdentityRequest \<Rightarrow> identity_error + IdentityRequest" where
  "identity_request q = checked
     ([unless (iq_role_segments q \<noteq> [])
         (RequestValidationError ''identity role_segments require a nonempty tuple'')] @
      map check_role_segment (iq_role_segments q) @
      [unless (0 \<le> iq_ordinal q \<and> iq_ordinal q \<le> MAX_ROLE_ORDINAL) (RequestValidationError
         (''identity ordinal must be an unsigned 32-bit integer up to '' @
          py_str MAX_ROLE_ORDINAL))])
     q"

definition request_json :: "IdentityRequest \<Rightarrow> json" where
  "request_json q = (let sample = sample_key (iq_attempt_key q) in
     JObj [(''attempt_index'', JInt (AttemptKey.attempt_index (iq_attempt_key q))),
       (''entity_kind'', JStr (entity_kind_value (iq_entity_kind q))),
       (''ordinal'', JInt (iq_ordinal q)), (''release'', JStr (release sample)),
       (''role_segments'', JArr (map (\<lambda>s. case s of SegStr t \<Rightarrow> JStr t | SegInt n \<Rightarrow> JInt n)
          (iq_role_segments q))),
       (''sample_index'', JInt (sample_index sample)), (''target_id'', JStr (target_id sample))])"

subsection \<open>Identities\<close>

record EntityIdentity =
  en_entity_kind :: EntityKind
  en_full_digest :: string
  en_display_id :: string
  en_material_digest :: string
  en_generation_namespace_digest :: string

definition display_of :: "EntityKind \<Rightarrow> string \<Rightarrow> string" where
  "display_of kind full = display_prefix kind @ ''-'' @ take (DISPLAY_DIGEST_BITS div 4) full"

definition entity_identity :: "EntityIdentity \<Rightarrow> identity_error + EntityIdentity" where
  "entity_identity i = checked
     [i_digest (en_full_digest i) ''identity full_digest'',
      i_digest (en_material_digest i) ''identity material_digest'',
      i_digest (en_generation_namespace_digest i) ''identity generation_namespace_digest'',
      unless (en_display_id i = display_of (en_entity_kind i) (en_full_digest i))
        (IdentityError ''display identity must match its kind and full-digest prefix'')]
     i"

definition identity_json :: "EntityIdentity \<Rightarrow> json" where
  "identity_json i = JObj
     [(''display_id'', JStr (en_display_id i)),
      (''entity_kind'', JStr (entity_kind_value (en_entity_kind i))),
      (''full_digest'', JStr (en_full_digest i)),
      (''generation_namespace_digest'', JStr (en_generation_namespace_digest i)),
      (''material_digest'', JStr (en_material_digest i))]"

record IdentityRecord =
  ir_request :: IdentityRequest
  ir_identity :: EntityIdentity

definition identity_record :: "IdentityRecord \<Rightarrow> identity_error + IdentityRecord" where
  "identity_record r = checked
     [unless (iq_entity_kind (ir_request r) = en_entity_kind (ir_identity r))
        (IdentityError ''identity record request and identity kinds must match'')]
     r"

definition identity_record_json :: "IdentityRecord \<Rightarrow> json" where
  "identity_record_json r = JObj
     [(''identity'', identity_json (ir_identity r)), (''request'', request_json (ir_request r))]"

subsection \<open>Derivation\<close>

definition identity_material_json :: "GenerationNamespace \<Rightarrow> IdentityRequest \<Rightarrow> json" where
  "identity_material_json gn q = JObj
     [(''algorithm_id'', JStr IDENTITY_ALGORITHM_ID),
      (''algorithm_version'', JInt IDENTITY_ALGORITHM_VERSION),
      (''generation_namespace'', namespace_json gn), (''request'', request_json q)]"

definition canonical_identity_material :: "GenerationNamespace \<Rightarrow> IdentityRequest \<Rightarrow> byte list" where
  "canonical_identity_material gn q = json_bytes (identity_material_json gn q)"

text \<open>The message of the HMAC; \<^verbatim>\<open>to_bytes(8, "big")\<close> raises for a material of
  2 to the 64 bytes or more.\<close>

definition identity_message :: "byte list \<Rightarrow> identity_error + byte list" where
  "identity_message mat = (if MAX_UINT64 < int (length mat) then Inl MaterialOverflowError
     else Inr (IDENTITY_PREFIX @ be_bytes 8 (int (length mat)) @ mat))"

definition identity_digest ::
  "(byte list \<Rightarrow> byte list \<Rightarrow> byte list) \<Rightarrow> RootSeed \<Rightarrow> byte list \<Rightarrow> identity_error + byte list" where
  "identity_digest hmac seed mat =
     and_then (identity_message mat) (\<lambda>m. Inr (hmac (material seed) m))"

definition identity_from_digest :: "(byte list \<Rightarrow> byte list) \<Rightarrow> GenerationNamespace \<Rightarrow>
    IdentityRequest \<Rightarrow> byte list \<Rightarrow> byte list \<Rightarrow> identity_error + EntityIdentity" where
  "identity_from_digest sha256 gn q mat digest =
     (if length digest * 8 \<noteq> FULL_DIGEST_BITS
      then Inl (IdentityError ''identity digest must contain exactly 256 immutable bits'')
      else entity_identity
        \<lparr>en_entity_kind = iq_entity_kind q, en_full_digest = hex digest,
         en_display_id = display_of (iq_entity_kind q) (hex digest),
         en_material_digest = hex (sha256 mat),
         en_generation_namespace_digest = namespace_digest sha256 gn\<rparr>)"

definition derive_identity :: "(byte list \<Rightarrow> byte list) \<Rightarrow> (byte list \<Rightarrow> byte list \<Rightarrow> byte list) \<Rightarrow>
    RootSeed \<Rightarrow> GenerationNamespace \<Rightarrow> IdentityRequest \<Rightarrow> identity_error + EntityIdentity" where
  "derive_identity sha256 hmac seed gn q = (let mat = canonical_identity_material gn q in
     and_then (identity_digest hmac seed mat) (identity_from_digest sha256 gn q mat))"

subsection \<open>The ledger\<close>

record IdentityLedger =
  il_seed :: RootSeed
  il_namespace :: GenerationNamespace
  il_records :: "(string \<times> IdentityRecord) list"
  il_full_digests :: "string \<Rightarrow> string option"
  il_display_ids :: "string \<Rightarrow> string option"

definition identity_ledger :: "RootSeed \<Rightarrow> GenerationNamespace \<Rightarrow> IdentityLedger" where
  "identity_ledger seed gn = \<lparr>il_seed = seed, il_namespace = gn, il_records = [],
     il_full_digests = Map.empty, il_display_ids = Map.empty\<rparr>"

type_synonym 'a ledger_op = "(IdentityLedger, identity_error, 'a) op"

definition identity_key :: "(byte list \<Rightarrow> byte list) \<Rightarrow> IdentityRequest \<Rightarrow> string" where
  "identity_key sha256 q = json_digest sha256 (request_json q)"

definition owned_by_other :: "string option \<Rightarrow> string \<Rightarrow> bool" where
  "owned_by_other owner key = (case owner of None \<Rightarrow> False | Some k \<Rightarrow> k \<noteq> key)"

definition check_identity :: "(byte list \<Rightarrow> byte list) \<Rightarrow> IdentityRequest \<Rightarrow> EntityIdentity \<Rightarrow>
    IdentityLedger \<Rightarrow> identity_error + IdentityRecord" where
  "check_identity sha256 q i l = (let key = identity_key sha256 q in
     and_then (checked
       [unless (key \<notin> fst ` set (il_records l)) (DuplicateIdentityRoleError
          ''semantic identity role has already been allocated''),
        unless (en_generation_namespace_digest i = namespace_digest sha256 (il_namespace l))
          (IdentityError ''identity belongs to a different generation namespace''),
        unless (\<not> owned_by_other (il_full_digests l (en_full_digest i)) key)
          (IdentityCollisionError ''distinct identity roles share a full digest''),
        unless (\<not> owned_by_other (il_display_ids l (en_display_id i)) key)
          (IdentityCollisionError ''distinct identity roles share a display identifier'')] ())
     (\<lambda>_. identity_record \<lparr>ir_request = q, ir_identity = i\<rparr>))"

text \<open>\<^verbatim>\<open>_record_identity\<close>. The key is new, so the new item goes to the end of the
  dictionary.\<close>

definition record_identity :: "(byte list \<Rightarrow> byte list) \<Rightarrow> IdentityRequest \<Rightarrow> EntityIdentity \<Rightarrow>
    EntityIdentity ledger_op" where
  "record_identity sha256 q i =
     seq_op (read_op (check_identity sha256 q i)) (\<lambda>r.
     seq_op (write_op (\<lambda>l. let key = identity_key sha256 q in
       l\<lparr>il_records := il_records l @ [(key, r)],
         il_full_digests := (il_full_digests l)(en_full_digest i \<mapsto> key),
         il_display_ids := (il_display_ids l)(en_display_id i \<mapsto> key)\<rparr>)) (\<lambda>_.
     ret i))"

definition allocate :: "(byte list \<Rightarrow> byte list) \<Rightarrow> (byte list \<Rightarrow> byte list \<Rightarrow> byte list) \<Rightarrow>
    IdentityRequest \<Rightarrow> EntityIdentity ledger_op" where
  "allocate sha256 hmac q =
     seq_op (read_op (\<lambda>l. derive_identity sha256 hmac (il_seed l) (il_namespace l) q))
       (record_identity sha256 q)"

definition resolve :: "(byte list \<Rightarrow> byte list) \<Rightarrow> IdentityRequest \<Rightarrow> IdentityLedger \<Rightarrow>
    identity_error + EntityIdentity" where
  "resolve sha256 q l = (case map_of (il_records l) (identity_key sha256 q) of
     None \<Rightarrow> Inl (UnknownIdentityRoleError ''semantic identity role has not been allocated'')
   | Some r \<Rightarrow> Inr (ir_identity r))"

definition ledger_records :: "IdentityLedger \<Rightarrow> IdentityRecord list" where
  "ledger_records l =
     sort_key (\<lambda>r. json_bytes (request_json (ir_request r))) (map snd (il_records l))"

definition identity_ledger_digest :: "(byte list \<Rightarrow> byte list) \<Rightarrow> IdentityLedger \<Rightarrow> string" where
  "identity_ledger_digest sha256 l =
     json_digest sha256 (JArr (map identity_record_json (ledger_records l)))"

end
