(* ===== verification/Identity_Properties.thy ===== *)
theory Identity_Properties
  imports Identities Choice_Facts Attempt_Facts Effects Choice_Properties
begin

section \<open>Facts about identities\<close>

text \<open>
  Requests and materials are determined by their bytes; a ledger is a function of its records; and
  sequences of allocations.
\<close>

subsection \<open>Requests and materials\<close>

lemma entity_kind_value_inject: "entity_kind_value a = entity_kind_value b \<longleftrightarrow> a = b"
  by (cases a; cases b) simp_all

lemma norm_segments:
  "map norm_json (map (\<lambda>s. case s of SegStr t \<Rightarrow> JStr t | SegInt n \<Rightarrow> JInt n) segs) =
   map (\<lambda>s. case s of SegStr t \<Rightarrow> JStr t | SegInt n \<Rightarrow> JInt n) segs"
  by (auto split: ChoiceSegment.splits)

lemma norm_request: "norm_json (request_json q) = request_json q"
  unfolding request_json_def norm_json.simps Let_def
  by (subst sort_key_id_if_sorted) (simp_all add: norm_segments del: map_map)

lemma request_json_inject: "request_json q = request_json q' \<longleftrightarrow> q = q'"
  by (auto simp: request_json_def Let_def entity_kind_value_inject dest: segment_code_inject
      intro!: IdentityRequest.equality AttemptKey.equality SampleKey.equality)

lemma request_bytes_inject: "json_bytes (request_json q) = json_bytes (request_json q') \<longleftrightarrow> q = q'"
  by (simp add: json_bytes_eq_iff norm_request request_json_inject)

lemma norm_namespace: "norm_json (namespace_json gn) = namespace_json gn"
  by (simp add: namespace_json_def namespace_pairs_def)

lemma namespace_json_inject: "namespace_json gn = namespace_json gn' \<longleftrightarrow> gn = gn'"
  by (auto simp: namespace_json_def namespace_pairs_def intro: GenerationNamespace.equality)

lemma material_inject:
  "canonical_identity_material gn q = canonical_identity_material gn' q' \<longleftrightarrow> gn = gn' \<and> q = q'"
proof -
  have "norm_json (identity_material_json gn q) = identity_material_json gn q" for gn q
    by (simp add: identity_material_json_def norm_request norm_namespace)
  then show ?thesis
    by (simp add: canonical_identity_material_def json_bytes_eq_iff)
      (simp add: identity_material_json_def namespace_json_inject request_json_inject)
qed

subsection \<open>Derived identities\<close>

lemma derive_Inr:
  assumes "derive_identity sha256 hmac seed gn q = Inr i"
  shows "en_entity_kind i = iq_entity_kind q"
    and "en_generation_namespace_digest i = namespace_digest sha256 gn"
    and "en_display_id i = display_of (iq_entity_kind q) (en_full_digest i)"
  using assms
  by (auto simp: derive_identity_def Let_def identity_digest_def identity_from_digest_def
      entity_identity_def split: if_splits)

subsection \<open>The ledger as a function of its records\<close>

abbreviation full_of :: "string \<times> IdentityRecord \<Rightarrow> string" where
  "full_of x \<equiv> en_full_digest (ir_identity (snd x))"

abbreviation shown_of :: "string \<times> IdentityRecord \<Rightarrow> string" where
  "shown_of x \<equiv> en_display_id (ir_identity (snd x))"

definition holding :: "RootSeed \<Rightarrow> GenerationNamespace \<Rightarrow> (string \<times> IdentityRecord) list \<Rightarrow>
    IdentityLedger" where
  "holding seed gn rs = \<lparr>il_seed = seed, il_namespace = gn, il_records = rs,
     il_full_digests = map_of (map (\<lambda>x. (full_of x, fst x)) rs),
     il_display_ids = map_of (map (\<lambda>x. (shown_of x, fst x)) rs)\<rparr>"

lemma holding_simps [simp]:
  "il_seed (holding seed gn rs) = seed" "il_namespace (holding seed gn rs) = gn"
  "il_records (holding seed gn rs) = rs"
  "il_full_digests (holding seed gn rs) = map_of (map (\<lambda>x. (full_of x, fst x)) rs)"
  "il_display_ids (holding seed gn rs) = map_of (map (\<lambda>x. (shown_of x, fst x)) rs)"
  by (simp_all add: holding_def)

lemma new_ledger: "identity_ledger seed gn = holding seed gn []"
  by (simp add: identity_ledger_def holding_def)

definition allotted :: "(byte list \<Rightarrow> byte list) \<Rightarrow> IdentityRequest \<Rightarrow> EntityIdentity \<Rightarrow>
    string \<times> IdentityRecord" where
  "allotted sha256 q i = (identity_key sha256 q, \<lparr>ir_request = q, ir_identity = i\<rparr>)"

lemma allotted_simps [simp]:
  "fst (allotted sha256 q i) = identity_key sha256 q"
  "snd (allotted sha256 q i) = \<lparr>ir_request = q, ir_identity = i\<rparr>"
  by (simp_all add: allotted_def)

text \<open>No two records share a key, a full digest or a display identifier.\<close>

definition separate :: "(string \<times> IdentityRecord) list \<Rightarrow> bool" where
  "separate rs \<longleftrightarrow> distinct (map fst rs) \<and> distinct (map full_of rs) \<and> distinct (map shown_of rs)"

lemma separate_append: "separate (rs @ xs) \<Longrightarrow> separate rs"
  by (simp add: separate_def)

lemma map_of_snoc:
  "map_of (map (\<lambda>x. (f x, fst x)) (rs @ [y])) =
   (if f y \<in> f ` set rs then map_of (map (\<lambda>x. (f x, fst x)) rs)
    else (map_of (map (\<lambda>x. (f x, fst x)) rs))(f y \<mapsto> fst y))"
proof (cases "f y \<in> f ` set rs")
  case True
  then obtain k where "map_of (map (\<lambda>x. (f x, fst x)) rs) (f y) = Some k"
    by (cases "map_of (map (\<lambda>x. (f x, fst x)) rs) (f y)") (auto simp: map_of_eq_None_iff image_image)
  then show ?thesis using True by (auto simp: map_add_def fun_eq_iff split: option.splits)
next
  case False
  then have "map_of (map (\<lambda>x. (f x, fst x)) rs) (f y) = None"
    by (simp add: map_of_eq_None_iff image_image)
  then show ?thesis using False by (auto simp: map_add_def fun_eq_iff split: option.splits)
qed

lemma owned_iff:
  assumes "key \<notin> fst ` set rs"
  shows "owned_by_other (map_of (map (\<lambda>x. (f x, fst x)) rs) d) key \<longleftrightarrow> d \<in> f ` set rs"
proof (cases "map_of (map (\<lambda>x. (f x, fst x)) rs) d")
  case None
  then have "d \<notin> f ` set rs" by (simp add: map_of_eq_None_iff image_image)
  then show ?thesis using None by (simp add: owned_by_other_def)
next
  case (Some k)
  then have "(d, k) \<in> set (map (\<lambda>x. (f x, fst x)) rs)" by (rule map_of_SomeD)
  then show ?thesis using Some assms by (auto simp: owned_by_other_def)
qed

lemma holding_snoc:
  assumes "separate (rs @ [x])"
  shows "(holding seed gn rs)\<lparr>il_records := rs @ [x],
      il_full_digests := (map_of (map (\<lambda>x. (full_of x, fst x)) rs))(full_of x \<mapsto> fst x),
      il_display_ids := (map_of (map (\<lambda>x. (shown_of x, fst x)) rs))(shown_of x \<mapsto> fst x)\<rparr> =
    holding seed gn (rs @ [x])"
proof -
  have "full_of x \<notin> full_of ` set rs" "shown_of x \<notin> shown_of ` set rs"
    using assms by (simp_all add: separate_def)
  then show ?thesis
    unfolding holding_def map_of_snoc [of full_of] map_of_snoc [of shown_of] by simp
qed

lemma record_identity_Inr:
  assumes "separate rs"
  shows "record_identity sha256 q i (holding seed gn rs) = (Inr j, l) \<longleftrightarrow> j = i \<and>
    en_generation_namespace_digest i = namespace_digest sha256 gn \<and>
    iq_entity_kind q = en_entity_kind i \<and> separate (rs @ [allotted sha256 q i]) \<and>
    l = holding seed gn (rs @ [allotted sha256 q i])"
proof -
  have "check_identity sha256 q i (holding seed gn rs) = Inr r \<longleftrightarrow>
      r = \<lparr>ir_request = q, ir_identity = i\<rparr> \<and>
      en_generation_namespace_digest i = namespace_digest sha256 gn \<and>
      iq_entity_kind q = en_entity_kind i \<and> separate (rs @ [allotted sha256 q i])" for r
    using assms
    by (cases "identity_key sha256 q \<in> fst ` set rs")
      (auto simp: check_identity_def Let_def identity_record_def owned_iff separate_def)
  then show ?thesis
    unfolding record_identity_def seq_op_Inr
    using holding_snoc [of rs "allotted sha256 q i" seed gn] by (auto simp: Let_def allotted_def)
qed

lemma allocate_Inr:
  assumes "separate rs"
  shows "allocate sha256 hmac q (holding seed gn rs) = (Inr i, l) \<longleftrightarrow>
    derive_identity sha256 hmac seed gn q = Inr i \<and> separate (rs @ [allotted sha256 q i]) \<and>
    l = holding seed gn (rs @ [allotted sha256 q i])"
  unfolding allocate_def seq_op_Inr using derive_Inr [of sha256 hmac seed gn q]
  by (auto simp: record_identity_Inr [OF assms])

text \<open>An operation that raises changes nothing.\<close>

lemma record_identity_Inl: "record_identity sha256 q i l = (Inl e, l') \<Longrightarrow> l' = l"
  by (auto simp: record_identity_def seq_op_Inl)

lemma allocate_Inl: "allocate sha256 hmac q l = (Inl e, l') \<Longrightarrow> l' = l"
  by (auto simp: allocate_def seq_op_Inl dest: record_identity_Inl)

section \<open>Properties of identities\<close>

text \<open>
  Distinct roles never share the message of the HMAC, a ledger keeps its roles apart whatever is
  asked of it, the order of allocations is irrelevant, and the collision bounds of the policy bound
  what they are meant to bound.
\<close>

subsection \<open>Messages\<close>

lemma identity_message_Inr:
  "identity_message mat = Inr m \<longleftrightarrow> int (length mat) \<le> MAX_UINT64 \<and>
     m = IDENTITY_PREFIX @ be_bytes 8 (int (length mat)) @ mat"
  by (auto simp: identity_message_def)

lemma message_prefixes: "take 5 (IDENTITY_PREFIX @ bs) \<noteq> take 5 (CHOICE_PREFIX @ cs)"
proof -
  have "take 5 IDENTITY_PREFIX \<noteq> take 5 CHOICE_PREFIX" "5 \<le> length IDENTITY_PREFIX"
    "5 \<le> length CHOICE_PREFIX" by code_simp+
  then show ?thesis by simp
qed

text \<open>C21: Roles and choices are separated. The message that an identity feeds to the HMAC
  determines the generation namespace and the request, attempt and role included, and no draw of a
  choice ever feeds the same message.\<close>

theorem identity_messages_separated:
  assumes "identity_message (canonical_identity_material gn q) = Inr m"
  shows "(identity_message (canonical_identity_material gn' q') = Inr m \<longleftrightarrow> gn' = gn \<and> q' = q) \<and>
    hmac_message mat d b \<noteq> Inr m"
proof
  note m = assms [unfolded identity_message_Inr]
  have "gn' = gn \<and> q' = q" if "identity_message (canonical_identity_material gn' q') = Inr m"
  proof -
    have "be_bytes 8 (int (length (canonical_identity_material gn' q'))) @ canonical_identity_material gn' q' =
        be_bytes 8 (int (length (canonical_identity_material gn q))) @ canonical_identity_material gn q"
      using that m by (simp add: identity_message_Inr)
    then have "canonical_identity_material gn' q' = canonical_identity_material gn q" by simp
    then show ?thesis by (simp only: material_inject)
  qed
  then show "identity_message (canonical_identity_material gn' q') = Inr m \<longleftrightarrow> gn' = gn \<and> q' = q"
    using assms by blast
  have "m \<noteq> CHOICE_PREFIX @ cs" for cs using m message_prefixes by metis
  then show "hmac_message mat d b \<noteq> Inr m" by (auto simp: hmac_message_def split: sum.splits)
qed

subsection \<open>Runs of a ledger\<close>

datatype LedgerEvent = Allocate IdentityRequest | Record IdentityRequest EntityIdentity

fun ledger_event :: "(byte list \<Rightarrow> byte list) \<Rightarrow> (byte list \<Rightarrow> byte list \<Rightarrow> byte list) \<Rightarrow>
    LedgerEvent \<Rightarrow> EntityIdentity ledger_op" where
  "ledger_event sha256 hmac (Allocate q) = allocate sha256 hmac q"
| "ledger_event sha256 hmac (Record q i) = record_identity sha256 q i"

definition ledger_step :: "(byte list \<Rightarrow> byte list) \<Rightarrow> (byte list \<Rightarrow> byte list \<Rightarrow> byte list) \<Rightarrow>
    IdentityLedger \<Rightarrow> LedgerEvent \<Rightarrow> IdentityLedger \<Rightarrow> bool" where
  "ledger_step sha256 hmac l e l' \<longleftrightarrow> l' = snd (ledger_event sha256 hmac e l)"

definition role_key :: "(byte list \<Rightarrow> byte list) \<Rightarrow> string \<times> IdentityRecord \<Rightarrow> bool" where
  "role_key sha256 x \<longleftrightarrow> fst x = identity_key sha256 (ir_request (snd x))"

definition ledger_ok :: "(byte list \<Rightarrow> byte list) \<Rightarrow> IdentityLedger \<Rightarrow> bool" where
  "ledger_ok sha256 l \<longleftrightarrow> separate (il_records l) \<and> list_all (role_key sha256) (il_records l) \<and>
     l = holding (il_seed l) (il_namespace l) (il_records l)"

definition ledger_extends :: "IdentityLedger \<Rightarrow> IdentityLedger \<Rightarrow> bool" where
  "ledger_extends l l' \<longleftrightarrow> prefix (il_records l) (il_records l') \<and> il_seed l' = il_seed l \<and>
     il_namespace l' = il_namespace l"

lemma ledger_event_cases:
  assumes "ledger_ok sha256 l"
  shows "snd (ledger_event sha256 hmac e l) = l \<or> (\<exists>q i. fst (ledger_event sha256 hmac e l) = Inr i \<and>
    separate (il_records l @ [allotted sha256 q i]) \<and>
    snd (ledger_event sha256 hmac e l) =
      holding (il_seed l) (il_namespace l) (il_records l @ [allotted sha256 q i]))"
proof -
  have sep: "separate (il_records l)"
    and l: "l = holding (il_seed l) (il_namespace l) (il_records l)"
    using assms by (simp_all add: ledger_ok_def)
  obtain a l' where run: "ledger_event sha256 hmac e l = (a, l')" by fastforce
  show ?thesis
  proof (cases a)
    case (Inl x)
    then have "l' = l"
      using run by (cases e) (auto dest: allocate_Inl record_identity_Inl)
    then show ?thesis using run by simp
  next
    case (Inr i)
    have "\<exists>q. separate (il_records l @ [allotted sha256 q i]) \<and>
        l' = holding (il_seed l) (il_namespace l) (il_records l @ [allotted sha256 q i])"
    proof (cases e)
      case (Allocate q)
      then show ?thesis using run Inr l
          allocate_Inr [OF sep, of sha256 hmac q "il_seed l" "il_namespace l" i l'] by auto
    next
      case (Record q j)
      then show ?thesis using run Inr l
          record_identity_Inr [OF sep, of sha256 q j "il_seed l" "il_namespace l" i l'] by auto
    qed
    then show ?thesis using run Inr by auto
  qed
qed

interpretation ledger: governed_machine "ledger_step sha256 hmac" "ledger_ok sha256" ledger_extends
  for sha256 hmac
proof
  fix l e l'
  assume ok: "ledger_ok sha256 l" and step: "ledger_step sha256 hmac l e l'"
  from ledger_event_cases [OF ok, of hmac e] step ok
  show "ledger_ok sha256 l'" and "ledger_extends l l'"
    by (auto simp: ledger_step_def ledger_ok_def ledger_extends_def role_key_def)
qed (auto simp: ledger_extends_def)

lemma new_ledger_ok: "ledger_ok sha256 (identity_ledger seed gn)"
  by (simp add: new_ledger ledger_ok_def separate_def)

text \<open>C22: A ledger keeps roles apart. After any sequence of allocations and recorded identities,
  those that raise included, no two records share a role key, a full digest or a display identifier,
  and every record is what its request resolves to.\<close>

theorem ledger_roles_separate:
  assumes "run_of (ledger_step sha256 hmac) (identity_ledger seed gn) es l"
  shows "distinct (map (\<lambda>r. identity_key sha256 (ir_request r)) (ledger_records l)) \<and>
    distinct (map (\<lambda>r. en_full_digest (ir_identity r)) (ledger_records l)) \<and>
    distinct (map (\<lambda>r. en_display_id (ir_identity r)) (ledger_records l)) \<and>
    (\<forall>r\<in>set (ledger_records l). resolve sha256 (ir_request r) l = Inr (ir_identity r))"
proof -
  have ok: "ledger_ok sha256 l" by (rule ledger.run_inv [OF assms new_ledger_ok])
  then have keys: "map (\<lambda>r. identity_key sha256 (ir_request r)) (map snd (il_records l)) =
      map fst (il_records l)"
    by (auto simp: ledger_ok_def role_key_def list_all_iff)
  have "resolve sha256 (ir_request r) l = Inr (ir_identity r)" if r: "r \<in> snd ` set (il_records l)" for r
  proof -
    have "(identity_key sha256 (ir_request r), r) \<in> set (il_records l)"
      using ok r by (auto simp: ledger_ok_def role_key_def list_all_iff)
    then show ?thesis using ok by (simp add: resolve_def ledger_ok_def separate_def)
  qed
  moreover have "distinct (map (\<lambda>r. identity_key sha256 (ir_request r)) (map snd (il_records l)))"
    unfolding keys using ok by (simp add: ledger_ok_def separate_def)
  ultimately show ?thesis
    using ok by (simp add: ledger_records_def ledger_ok_def separate_def comp_def)
qed

text \<open>An allocation is final. An identity that was allocated is the one derived from the seed;
  whatever is asked of the ledger afterwards, its request resolves to it, and asking for it again is
  refused without a change.\<close>

theorem allocation_is_final:
  assumes "ledger_ok sha256 l" and "allocate sha256 hmac q l = (Inr i, l')"
    and "run_of (ledger_step sha256 hmac) l' es u"
  shows "derive_identity sha256 hmac (il_seed l) (il_namespace l) q = Inr i \<and>
    resolve sha256 q u = Inr i \<and> allocate sha256 hmac q u = (Inl (DuplicateIdentityRoleError
      ''semantic identity role has already been allocated''), u)"
proof -
  have sep: "separate (il_records l)"
    and l: "l = holding (il_seed l) (il_namespace l) (il_records l)"
    using assms(1) by (simp_all add: ledger_ok_def)
  from assms(2) have derived: "derive_identity sha256 hmac (il_seed l) (il_namespace l) q = Inr i"
    and l': "l' = holding (il_seed l) (il_namespace l) (il_records l @ [allotted sha256 q i])"
    using allocate_Inr [OF sep, of sha256 hmac q "il_seed l" "il_namespace l" i l'] l by simp_all
  have "ledger_step sha256 hmac l (Allocate q) l'" by (simp add: ledger_step_def assms(2))
  then have "ledger_ok sha256 l'" by (rule ledger.step_inv [OF assms(1)])
  with assms(3) have u: "ledger_extends l' u" "ledger_ok sha256 u"
    by (rule ledger.run_evolves ledger.run_inv)+
  then have here: "allotted sha256 q i \<in> set (il_records u)"
    by (auto simp: ledger_extends_def l' dest: set_mono_prefix)
  then have "map_of (il_records u) (identity_key sha256 q) =
      Some \<lparr>ir_request = q, ir_identity = i\<rparr>"
    using u(2) by (simp add: ledger_ok_def separate_def allotted_def)
  moreover have "identity_key sha256 q \<in> fst ` set (il_records u)" using here by force
  ultimately show ?thesis using derived u(1)
    by (simp add: resolve_def allocate_def seq_read record_identity_def check_identity_def Let_def
        ledger_extends_def l' and_then_def)
qed

subsection \<open>Batches\<close>

fun allocate_all :: "(byte list \<Rightarrow> byte list) \<Rightarrow> (byte list \<Rightarrow> byte list \<Rightarrow> byte list) \<Rightarrow>
    IdentityRequest list \<Rightarrow> EntityIdentity list ledger_op" where
  "allocate_all sha256 hmac [] = ret []"
| "allocate_all sha256 hmac (q # qs) =
     seq_op (allocate sha256 hmac q) (\<lambda>i.
     seq_op (allocate_all sha256 hmac qs) (\<lambda>is. ret (i # is)))"

abbreviation allot_all :: "(byte list \<Rightarrow> byte list) \<Rightarrow> IdentityRequest list \<Rightarrow>
    EntityIdentity list \<Rightarrow> (string \<times> IdentityRecord) list" where
  "allot_all sha256 qs is \<equiv> map (\<lambda>(q, i). allotted sha256 q i) (zip qs is)"

lemma allocate_all_Inr:
  assumes "separate rs"
  shows "allocate_all sha256 hmac qs (holding seed gn rs) = (Inr is, l) \<longleftrightarrow>
    list_all2 (\<lambda>q i. derive_identity sha256 hmac seed gn q = Inr i) qs is \<and>
    separate (rs @ allot_all sha256 qs is) \<and> l = holding seed gn (rs @ allot_all sha256 qs is)"
  using assms
proof (induction qs arbitrary: rs "is")
  case Nil
  then show ?case by auto
next
  case (Cons q qs)
  show ?case
  proof (cases "is")
    case Nil
    then show ?thesis by (auto simp: seq_op_Inr)
  next
    case (Cons i js)
    have "allocate_all sha256 hmac (q # qs) (holding seed gn rs) = (Inr is, l) \<longleftrightarrow>
        (\<exists>k. allocate sha256 hmac q (holding seed gn rs) = (Inr i, k) \<and>
          allocate_all sha256 hmac qs k = (Inr js, l))"
      by (auto simp: Cons seq_op_Inr)
    also have "\<dots> \<longleftrightarrow> derive_identity sha256 hmac seed gn q = Inr i \<and>
        separate (rs @ [allotted sha256 q i]) \<and> allocate_all sha256 hmac qs
          (holding seed gn (rs @ [allotted sha256 q i])) = (Inr js, l)"
      unfolding allocate_Inr [OF Cons.prems] by blast
    finally show ?thesis
      using Cons.IH [of "rs @ [allotted sha256 q i]" js] separate_append [of "rs @ [allotted sha256 q i]"]
      by (auto simp: Cons)
  qed
qed

lemma separate_permuted: "mset rs = mset rs' \<Longrightarrow> separate rs \<longleftrightarrow> separate rs'"
  using distinct_map_mset [of rs rs' fst] distinct_map_mset [of rs rs' full_of]
    distinct_map_mset [of rs rs' shown_of] by (simp add: separate_def)

lemma same_records_agree:
  assumes "mset rs' = mset rs" and "separate rs" and "list_all (role_key sha256) rs"
  shows "ledger_records (holding seed gn rs') = ledger_records (holding seed gn rs)"
    and "resolve sha256 q (holding seed gn rs') = resolve sha256 q (holding seed gn rs)"
proof -
  have keys: "map fst rs = map (hex \<circ> sha256) (map (json_bytes \<circ> request_json \<circ> ir_request \<circ> snd) rs)"
    using assms(3) by (auto simp: list_all_iff role_key_def identity_key_def json_digest_def)
  have "distinct (map fst rs)" using assms(2) by (simp add: separate_def)
  then have "distinct (map (json_bytes \<circ> request_json \<circ> ir_request \<circ> snd) rs)"
    unfolding keys distinct_map [of _ "map _ rs"] by blast
  moreover have "mset (map snd rs') = mset (map snd rs)" using assms(1) by simp
  ultimately show "ledger_records (holding seed gn rs') = ledger_records (holding seed gn rs)"
    by (simp add: ledger_records_def comp_def sort_key_permuted)
  have "map_of rs' = map_of rs"
    using assms separate_permuted [OF assms(1)] mset_eq_setD [OF assms(1)]
    by (intro map_of_inject_set [THEN iffD2]) (simp_all add: separate_def)
  then show "resolve sha256 q (holding seed gn rs') = resolve sha256 q (holding seed gn rs)"
    by (simp add: resolve_def)
qed

text \<open>C23: The order of allocations is irrelevant. If a batch of requests to a new ledger returns, it
  returns in every order, every request gets the same identity, every request resolves alike
  afterwards, and the records and the digest of the ledger are the same.\<close>

theorem allocation_order_irrelevant:
  assumes "allocate_all sha256 hmac qs (identity_ledger seed gn) = (Inr is, l)"
    and "mset qs' = mset qs"
  shows "\<exists>is' l'. allocate_all sha256 hmac qs' (identity_ledger seed gn) = (Inr is', l') \<and>
    mset (zip qs' is') = mset (zip qs is) \<and> ledger_records l' = ledger_records l \<and>
    identity_ledger_digest sha256 l' = identity_ledger_digest sha256 l \<and>
    (\<forall>q. resolve sha256 q l' = resolve sha256 q l)"
proof -
  define f where "f = (\<lambda>q. projr (derive_identity sha256 hmac seed gn q))"
  note batch = allocate_all_Inr [of "[]" sha256 hmac _ seed gn, folded new_ledger, simplified]
  have "separate []" by (simp add: separate_def)
  note run = batch [OF this]
  have derived: "list_all2 (\<lambda>q i. derive_identity sha256 hmac seed gn q = Inr i) qs is"
    and sep: "separate (allot_all sha256 qs is)"
    and l: "l = holding seed gn (allot_all sha256 qs is)"
    using assms(1) unfolding run by blast+
  have ids: "is = map f qs" "\<forall>q\<in>set qs. derive_identity sha256 hmac seed gn q = Inr (f q)"
    using derived by (auto simp: f_def list_all2_conv_all_nth in_set_conv_nth intro!: nth_equalityI)
  have zips: "zip xs (map f xs) = map (\<lambda>q. (q, f q)) xs" for xs
    by (simp add: zip_map2 zip_same_conv_map)
  have ms: "mset (zip qs' (map f qs')) = mset (zip qs is)"
    using assms(2) by (simp add: zips ids)
  then have perm: "mset (allot_all sha256 qs' (map f qs')) = mset (allot_all sha256 qs is)" by simp
  have "set qs' = set qs" using assms(2) by (rule mset_eq_setD)
  then have "allocate_all sha256 hmac qs' (identity_ledger seed gn) =
      (Inr (map f qs'), holding seed gn (allot_all sha256 qs' (map f qs')))"
    unfolding run using ids(2) sep separate_permuted [OF perm]
    by (auto simp: list.rel_map intro!: list.rel_refl_strong)
  moreover have "list_all (role_key sha256) (allot_all sha256 qs is)"
    by (auto simp: list_all_iff role_key_def)
  note same = same_records_agree [OF perm sep this]
  ultimately show ?thesis using ms by (auto simp: l same identity_ledger_digest_def)
qed

end
