(* ===== verification/Identity_Collisions.thy ===== *)
theory Identity_Collisions
  imports Identity_Policy
begin

section \<open>Collision bounds\<close>

text \<open>
  What the bounds of the identity policy bound: the share of tuples of digests in which a digest
  repeats, for one domain and for a volume that is split over the kinds of entities.
\<close>

text \<open>The tuples of \<open>n\<close> digests of \<open>b\<close> bits, and those with a repetition.\<close>

definition digest_tuples :: "nat \<Rightarrow> nat \<Rightarrow> nat list set" where
  "digest_tuples n b = {ds. set ds \<subseteq> {..<2 ^ b} \<and> length ds = n}"

definition colliding_tuples :: "nat \<Rightarrow> nat \<Rightarrow> nat list set" where
  "colliding_tuples n b = {ds \<in> digest_tuples n b. \<not> distinct ds}"

lemma finite_digest_tuples [simp]: "finite (digest_tuples n b)"
  and card_digest_tuples: "card (digest_tuples n b) = (2 ^ b) ^ n"
  unfolding digest_tuples_def by (simp_all add: finite_lists_length_eq card_lists_length_eq)

lemma colliding_Suc:
  "colliding_tuples (Suc n) b \<subseteq> (\<lambda>(d, ds). d # ds) `
     ({..<2 ^ b} \<times> colliding_tuples n b \<union> (SIGMA ds : digest_tuples n b. set ds)\<inverse>)"
proof
  fix ds assume ds: "ds \<in> colliding_tuples (Suc n) b"
  then obtain d es where "ds = d # es"
    by (auto simp: colliding_tuples_def digest_tuples_def length_Suc_conv)
  moreover from this have "(d, es) \<in> {..<2 ^ b} \<times> colliding_tuples n b \<union>
      (SIGMA ds : digest_tuples n b. set ds)\<inverse>"
    using ds by (auto simp: colliding_tuples_def digest_tuples_def)
  ultimately show "ds \<in> (\<lambda>(d, ds). d # ds) `
     ({..<2 ^ b} \<times> colliding_tuples n b \<union> (SIGMA ds : digest_tuples n b. set ds)\<inverse>)"
    by force
qed

lemma card_colliding:
  "card (colliding_tuples n b) * 2 ^ (b + 1) \<le> n * (n - 1) * card (digest_tuples n b)"
proof (induction n)
  case 0
  then show ?case by (simp add: colliding_tuples_def digest_tuples_def)
next
  case (Suc n)
  let ?m = "2 ^ b :: nat" let ?S = "SIGMA ds : digest_tuples n b. set ds"
  have fin: "finite (colliding_tuples n b)" by (simp add: colliding_tuples_def)
  have "card ?S = (\<Sum>ds\<in>digest_tuples n b. card (set ds))" by (simp add: card_SigmaI)
  also have "\<dots> \<le> (\<Sum>ds\<in>digest_tuples n b. n)"
    by (rule sum_mono) (auto simp: digest_tuples_def intro: card_length [THEN order_trans])
  finally have "card (?S\<inverse>) \<le> n * ?m ^ n" by (simp add: card_digest_tuples mult.commute)
  moreover have "card (colliding_tuples (Suc n) b) \<le>
      card ({..<?m} \<times> colliding_tuples n b \<union> ?S\<inverse>)"
    by (rule order_trans [OF card_mono [OF _ colliding_Suc] card_image_le])
      (use fin in \<open>simp_all add: finite_SigmaI\<close>)
  moreover have "\<dots> \<le> ?m * card (colliding_tuples n b) + card (?S\<inverse>)"
    by (rule card_Un_le [THEN order_trans]) (simp add: card_cartesian_product)
  ultimately have "card (colliding_tuples (Suc n) b) * 2 ^ (b + 1) \<le>
      (?m * card (colliding_tuples n b) + n * ?m ^ n) * 2 ^ (b + 1)" by simp
  also have "\<dots> = ?m * (card (colliding_tuples n b) * 2 ^ (b + 1)) + 2 * n * ?m ^ Suc n"
    by (simp add: algebra_simps)
  also have "\<dots> \<le> ?m * (n * (n - 1) * ?m ^ n) + 2 * n * ?m ^ Suc n"
    using Suc.IH by (simp add: card_digest_tuples)
  also have "\<dots> = Suc n * (Suc n - 1) * ?m ^ Suc n"
    by (cases n) (simp_all add: algebra_simps)
  finally show ?case by (simp add: card_digest_tuples)
qed

lemma birthday_Inr:
  "birthday_collision_bound n bits = Inr r \<longleftrightarrow> 0 \<le> n \<and> 0 < bits \<and>
     r = \<lparr>rb_numerator = n * max 0 (n - 1), rb_denominator = 2 ^ nat (bits + 1)\<rparr>"
  by (auto simp: birthday_collision_bound_def policy_error_def rational_bound_def push_bit_eq_mult)

lemma birthday_bound_sound:
  assumes "birthday_collision_bound (int n) (int b) = Inr r"
  shows "int (card (colliding_tuples n b)) * rb_denominator r \<le>
    rb_numerator r * int (card (digest_tuples n b))"
proof -
  have r: "r = \<lparr>rb_numerator = int (n * (n - 1)), rb_denominator = int (2 ^ (b + 1))\<rparr>"
    using assms by (cases n) (simp_all add: birthday_Inr nat_add_distrib algebra_simps)
  have "int (card (colliding_tuples n b) * 2 ^ (b + 1)) \<le>
      int (n * (n - 1) * card (digest_tuples n b))"
    unfolding of_nat_le_iff by (rule card_colliding)
  then show ?thesis unfolding r by simp
qed

subsection \<open>Several kinds\<close>

text \<open>One tuple of digests per kind, and the families in which some tuple has a repetition.\<close>

definition digest_families :: "nat list \<Rightarrow> nat \<Rightarrow> nat list list set" where
  "digest_families ns b = listset (map (\<lambda>n. digest_tuples n b) ns)"

definition colliding_families :: "nat list \<Rightarrow> nat \<Rightarrow> nat list list set" where
  "colliding_families ns b = {f \<in> digest_families ns b. \<exists>ds\<in>set f. \<not> distinct ds}"

lemma digest_families_Cons:
  "digest_families (n # ns) b = (\<lambda>(ds, f). ds # f) ` (digest_tuples n b \<times> digest_families ns b)"
  by (auto simp: digest_families_def set_Cons_def)

lemma finite_digest_families [simp]: "finite (digest_families ns b)"
  by (induction ns) (simp_all add: digest_families_Cons, simp add: digest_families_def)

lemma card_digest_families_Cons:
  "card (digest_families (n # ns) b) = card (digest_tuples n b) * card (digest_families ns b)"
  unfolding digest_families_Cons
  by (subst card_image) (auto simp: inj_on_def card_cartesian_product)

lemma colliding_families_Cons:
  "colliding_families (n # ns) b \<subseteq> (\<lambda>(ds, f). ds # f) `
     (colliding_tuples n b \<times> digest_families ns b \<union> digest_tuples n b \<times> colliding_families ns b)"
  by (force simp: colliding_families_def digest_families_Cons colliding_tuples_def)

lemma card_colliding_families:
  "card (colliding_families ns b) * 2 ^ (b + 1) \<le>
     (\<Sum>n\<leftarrow>ns. n * (n - 1)) * card (digest_families ns b)"
proof (induction ns)
  case Nil
  then show ?case by (simp add: colliding_families_def digest_families_def)
next
  case (Cons n ns)
  let ?C = "colliding_tuples n b" and ?D = "digest_tuples n b"
    and ?C' = "colliding_families ns b" and ?D' = "digest_families ns b"
  have fin: "finite ?C" "finite ?C'" by (simp_all add: colliding_tuples_def colliding_families_def)
  have "card (colliding_families (n # ns) b) \<le> card (?C \<times> ?D' \<union> ?D \<times> ?C')"
    by (rule order_trans [OF card_mono [OF _ colliding_families_Cons] card_image_le])
      (use fin in simp_all)
  also have "\<dots> \<le> card ?C * card ?D' + card ?D * card ?C'"
    by (rule card_Un_le [THEN order_trans]) (simp add: card_cartesian_product)
  finally have "card (colliding_families (n # ns) b) * 2 ^ (b + 1) \<le>
      (card ?C * card ?D' + card ?D * card ?C') * 2 ^ (b + 1)" by simp
  also have "\<dots> = (card ?C * 2 ^ (b + 1)) * card ?D' + card ?D * (card ?C' * 2 ^ (b + 1))"
    by (simp add: algebra_simps)
  also have "\<dots> \<le> (n * (n - 1) * card ?D) * card ?D' +
      card ?D * ((\<Sum>n\<leftarrow>ns. n * (n - 1)) * card ?D')"
    by (intro add_mono mult_le_mono card_colliding Cons.IH order_refl)
  also have "\<dots> = (\<Sum>n\<leftarrow>n # ns. n * (n - 1)) * card (digest_families (n # ns) b)"
    by (simp add: card_digest_families_Cons algebra_simps)
  finally show ?case .
qed

lemma per_kind_numerator:
  "fold (\<lambda>v k. let c = f v in k + c * max 0 (c - 1)) vs k =
     (k :: int) + (\<Sum>v\<leftarrow>vs. f v * max 0 (f v - 1))"
  by (induction vs arbitrary: k) (simp_all add: Let_def algebra_simps)

lemma sum_list_int: "(\<Sum>x\<leftarrow>xs. int (f x)) = int (\<Sum>x\<leftarrow>xs. f x)"
  by (induction xs) simp_all

lemma margined_count_grows:
  assumes "0 \<le> kv_projected_count v" and "0 < ve_margin_denominator e"
    and "ve_margin_denominator e \<le> ve_margin_numerator e"
  shows "kv_projected_count v \<le> margined_count e v"
proof -
  have "kv_projected_count v * ve_margin_denominator e \<le>
      kv_projected_count v * ve_margin_numerator e"
    using assms by (simp add: mult_left_mono)
  then have "kv_projected_count v * ve_margin_denominator e div ve_margin_denominator e \<le>
      (kv_projected_count v * ve_margin_numerator e + ve_margin_denominator e - 1)
        div ve_margin_denominator e"
    using assms(2) by (intro zdiv_mono1) simp_all
  then show ?thesis using assms(2) by (simp add: margined_count_def)
qed

text \<open>C24: The collision bound is sound. For an accepted envelope the bound over its kinds is at least
  the share of the digest families, one tuple of digests of the given width per kind with its margined
  count of entries, in which two identities of one kind share a digest; and no margin lowers a
  projected count.\<close>

theorem collision_bound_sound:
  assumes "identity_volume_envelope e = Inr e"
    and "\<forall>v\<in>set (ve_per_kind e). identity_kind_volume v = Inr v"
    and "per_kind_collision_bound e (int b) = Inr r"
    and "ns = map (\<lambda>v. nat (margined_count e v)) (ve_per_kind e)"
  shows "int (card (colliding_families ns b)) * rb_denominator r \<le>
      rb_numerator r * int (card (digest_families ns b)) \<and>
    (\<forall>v\<in>set (ve_per_kind e). kv_projected_count v \<le> margined_count e v)"
proof -
  have kinds: "0 \<le> kv_projected_count v \<and> kv_projected_count v \<le> margined_count e v"
    if "v \<in> set (ve_per_kind e)" for v
    using assms(1,2) that margined_count_grows [of v e]
    by (simp add: identity_volume_envelope_def identity_kind_volume_def policy_error_def)
  then have "map (\<lambda>v. margined_count e v * max 0 (margined_count e v - 1)) (ve_per_kind e) =
      map (\<lambda>n. int (n * (n - 1))) ns"
    by (force simp: assms(4) of_nat_diff max_def)
  then have "(\<Sum>v\<leftarrow>ve_per_kind e. margined_count e v * max 0 (margined_count e v - 1)) =
      int (\<Sum>n\<leftarrow>ns. n * (n - 1))"
    by (simp only: sum_list_int)
  moreover have "0 < int b" and bound: "r =
      \<lparr>rb_numerator = \<Sum>v\<leftarrow>ve_per_kind e. margined_count e v * max 0 (margined_count e v - 1),
       rb_denominator = push_bit (nat (int b + 1)) 1\<rparr>"
    using assms(3) by (auto simp: per_kind_collision_bound_def per_kind_numerator policy_error_def
        rational_bound_def)
  ultimately have r: "r = \<lparr>rb_numerator = int (\<Sum>n\<leftarrow>ns. n * (n - 1)), rb_denominator = int (2 ^ (b + 1))\<rparr>"
    by (simp add: push_bit_eq_mult nat_add_distrib)
  have "int (card (colliding_families ns b) * 2 ^ (b + 1)) \<le>
      int ((\<Sum>n\<leftarrow>ns. n * (n - 1)) * card (digest_families ns b))"
    unfolding of_nat_le_iff by (rule card_colliding_families)
  then show ?thesis using kinds unfolding r by simp
qed

text \<open>The packaged envelope is accepted and its bound is below the ceiling of the policy.\<close>

theorem collision_bound_sound_witness:
  "\<exists>r ns. per_kind_collision_bound PROVISIONAL_VOLUME_ENVELOPE (int DISPLAY_DIGEST_BITS) = Inr r \<and>
     no_greater_than r COLLISION_RISK_CEILING \<and> sum_list ns = 10000000 \<and>
     int (card (colliding_families ns DISPLAY_DIGEST_BITS)) * rb_denominator r \<le>
       rb_numerator r * int (card (digest_families ns DISPLAY_DIGEST_BITS))"
proof -
  let ?e = PROVISIONAL_VOLUME_ENVELOPE
  have "identity_volume_envelope ?e = Inr ?e" by code_simp
  moreover have "\<forall>v\<in>set (ve_per_kind ?e). identity_kind_volume v = Inr v" by code_simp
  moreover obtain r where r: "per_kind_collision_bound ?e (int DISPLAY_DIGEST_BITS) = Inr r"
    "no_greater_than r COLLISION_RISK_CEILING"
  proof
    show "per_kind_collision_bound ?e (int DISPLAY_DIGEST_BITS) =
        Inr \<lparr>rb_numerator = 19479990000000, rb_denominator = 2 ^ 129\<rparr>"
      by (simp add: per_kind_collision_bound_def policy_error_def rational_bound_def Let_def
          PROVISIONAL_VOLUME_ENVELOPE_def margined_count_def DISPLAY_DIGEST_BITS_def push_bit_eq_mult)
    show "no_greater_than \<lparr>rb_numerator = 19479990000000, rb_denominator = 2 ^ 129\<rparr>
        COLLISION_RISK_CEILING" by (simp add: no_greater_than_def COLLISION_RISK_CEILING_def)
  qed
  moreover have "sum_list (map (\<lambda>v. nat (margined_count ?e v)) (ve_per_kind ?e)) = 10000000"
    by (simp add: PROVISIONAL_VOLUME_ENVELOPE_def margined_count_def)
  ultimately show ?thesis using collision_bound_sound by blast
qed

end
