(* ===== verification/Choice_Records.thy ===== *)
theory Choice_Records
  imports Deterministic_Choices Synthesis_Values
begin

section \<open>Records of deterministic choices\<close>

text \<open>
  \<^verbatim>\<open>synthesis/v0_4/choice_records.py\<close>: the evidence of a draw and the records of
  the three operations, with every test of their constructors, and the records made from the
  results of the primitives.
\<close>

definition CHOICE_RECORD_SCHEMA_VERSION :: string where
  "CHOICE_RECORD_SCHEMA_VERSION = ''csd-choice-record/0.4''"

datatype session_error =
    ChoiceRecordError string
  | ChoiceSessionError string
  | DuplicateChoicePathError string
  | ChoiceBudgetExceeded int int int int
  | PrimitiveError choice_error

definition h_error :: "string \<Rightarrow> session_error" where
  "h_error m = ChoiceRecordError m"

definition h_digest :: "string \<Rightarrow> string \<Rightarrow> session_error option" where
  "h_digest v name =
     unless (is_hex_256 v) (h_error (name @ '' must be a lowercase SHA-256 digest''))"

definition h_nonnegative :: "int \<Rightarrow> string \<Rightarrow> session_error option" where
  "h_nonnegative v name =
     unless (0 \<le> v) (h_error (name @ '' must be a nonnegative exact integer''))"

definition is_hex_bytes :: "string \<Rightarrow> bool" where
  "is_hex_bytes s = (s \<noteq> '''' \<and> even (length s) \<and> list_all (\<lambda>c. hex_value c \<noteq> None) s)"

text \<open>\<^verbatim>\<open>int(s, 16)\<close> of lowercase hexadecimal digits.\<close>

definition hex_int :: "string \<Rightarrow> int" where
  "hex_int s = foldl (\<lambda>n c. 16 * n + (case hex_value c of Some d \<Rightarrow> int d | None \<Rightarrow> 0)) 0 s"

definition path_json :: "ChoicePath \<Rightarrow> json" where
  "path_json p = (let sample = sample_key (attempt_key p) in
     JObj [(''release'', JStr (release sample)), (''target_id'', JStr (target_id sample)),
       (''sample_index'', JInt (sample_index sample)),
       (''attempt_index'', JInt (AttemptKey.attempt_index (attempt_key p))),
       (''namespace'', JStr (namespace p)),
       (''segments'', JArr (map (\<lambda>s. case s of SegStr t \<Rightarrow> JStr t | SegInt n \<Rightarrow> JInt n)
          (segments p)))])"

subsection \<open>Draws and evidence\<close>

record CandidateDrawRecord =
  dr_draw_index :: int
  dr_candidate_hex :: string
  dr_block_count :: int

definition candidate_draw_record :: "CandidateDrawRecord \<Rightarrow> session_error + CandidateDrawRecord" where
  "candidate_draw_record d = checked
     [h_nonnegative (dr_draw_index d) ''draw_index'',
      unless (is_hex_bytes (dr_candidate_hex d))
        (h_error ''candidate_hex must be nonempty lowercase hexadecimal bytes''),
      unless (0 < dr_block_count d) (h_error ''block_count must be a positive exact integer'')]
     d"

definition draw_json :: "CandidateDrawRecord \<Rightarrow> json" where
  "draw_json d = JObj [(''block_count'', JInt (dr_block_count d)),
     (''candidate_hex'', JStr (dr_candidate_hex d)), (''draw_index'', JInt (dr_draw_index d))]"

record BoundedIntegerEvidence =
  bv_value :: int
  bv_draw_index :: int
  bv_candidate_hex :: string
  bv_candidate :: int
  bv_limit :: int
  bv_width :: int
  bv_block_count :: int
  bv_draws :: "CandidateDrawRecord list"
  bv_domain_digest :: string
  bv_material_digest :: string

text \<open>The last tests look at \<^verbatim>\<open>draws[-1]\<close>, which exists by the test before
  them.\<close>

definition check_draws :: "BoundedIntegerEvidence \<Rightarrow> session_error option list" where
  "check_draws e = (let final = last (bv_draws e) in
     [unless (bv_draws e \<noteq> []) (h_error ''bounded evidence requires an immutable draw tuple''),
      unless (map dr_draw_index (bv_draws e) = [0..int (length (bv_draws e)) - 1])
        (h_error ''draw indices must be contiguous from zero''),
      unless (bv_draw_index e = dr_draw_index final)
        (h_error ''draw_index must identify the final accepted draw''),
      unless (bv_candidate_hex e = dr_candidate_hex final \<and>
          bv_block_count e = dr_block_count final)
        (h_error ''accepted draw metadata must match the final draw''),
      unless (bv_candidate e = hex_int (bv_candidate_hex e))
        (h_error ''candidate integer must match candidate_hex''),
      unless (\<forall>d\<in>set (butlast (bv_draws e)). bv_limit e \<le> hex_int (dr_candidate_hex d))
        (h_error ''every nonfinal draw must be rejected''),
      unless (bv_candidate e < bv_limit e)
        (h_error ''the final draw must be inside the acceptance region'')])"

definition bounded_evidence ::
  "BoundedIntegerEvidence \<Rightarrow> session_error + BoundedIntegerEvidence" where
  "bounded_evidence e = checked
     ([h_nonnegative (bv_value e) ''value'', h_nonnegative (bv_draw_index e) ''draw_index'',
       h_nonnegative (bv_candidate e) ''candidate'', h_nonnegative (bv_limit e) ''limit'',
       h_nonnegative (bv_width e) ''width'', h_nonnegative (bv_block_count e) ''block_count'',
       unless (0 < bv_width e \<and> 0 < bv_block_count e)
         (h_error ''width and block_count must be positive''),
       unless (int (length (bv_candidate_hex e)) = bv_width e * 2)
         (h_error ''candidate_hex length must equal the declared width''),
       unless (is_hex_bytes (bv_candidate_hex e))
         (h_error ''candidate_hex must be lowercase hexadecimal'')] @
      check_draws e @
      [h_digest (bv_domain_digest e) ''domain_digest'',
       h_digest (bv_material_digest e) ''material_digest''])
     e"

definition evidence_from_result ::
  "BoundedIntegerResult \<Rightarrow> session_error + BoundedIntegerEvidence" where
  "evidence_from_result r =
     and_then (map_res (\<lambda>d. candidate_draw_record \<lparr>dr_draw_index = cd_draw_index d,
         dr_candidate_hex = cd_candidate_hex d, dr_block_count = cd_block_count d\<rparr>) (br_draws r))
       (\<lambda>draws. bounded_evidence
         \<lparr>bv_value = br_value r, bv_draw_index = br_draw_index r,
          bv_candidate_hex = br_candidate_hex r, bv_candidate = br_candidate r,
          bv_limit = br_limit r, bv_width = int (br_width r),
          bv_block_count = br_block_count r, bv_draws = draws,
          bv_domain_digest = br_domain_digest r, bv_material_digest = br_material_digest r\<rparr>)"

definition evidence_json :: "BoundedIntegerEvidence \<Rightarrow> json" where
  "evidence_json e = JObj
     [(''block_count'', JInt (bv_block_count e)), (''candidate'', JInt (bv_candidate e)),
      (''candidate_hex'', JStr (bv_candidate_hex e)),
      (''domain_digest'', JStr (bv_domain_digest e)),
      (''draw_index'', JInt (bv_draw_index e)),
      (''draws'', JArr (map draw_json (bv_draws e))), (''limit'', JInt (bv_limit e)),
      (''material_digest'', JStr (bv_material_digest e)), (''value'', JInt (bv_value e)),
      (''width'', JInt (bv_width e))]"

subsection \<open>Records\<close>

text \<open>The fields and tests that the three record classes share.\<close>

record ChoiceRecordFields =
  kr_path :: ChoicePath
  kr_generation_namespace_digest :: string
  kr_seed_commitment :: string
  kr_schema_version :: string

definition check_record_head :: "'a ChoiceRecordFields_scheme \<Rightarrow> session_error option list" where
  "check_record_head r =
     [h_digest (kr_generation_namespace_digest r) ''generation_namespace_digest'',
      h_digest (kr_seed_commitment r) ''seed_commitment'']"

definition check_record_schema ::
  "'a ChoiceRecordFields_scheme \<Rightarrow> session_error option list" where
  "check_record_schema r =
     [unless (kr_schema_version r = CHOICE_RECORD_SCHEMA_VERSION)
        (h_error (''choice record schema must be '' @ CHOICE_RECORD_SCHEMA_VERSION))]"

record BoundedIntegerChoiceRecord = ChoiceRecordFields +
  bi_upper_exclusive :: int
  bi_evidence :: BoundedIntegerEvidence

definition bounded_choice_record ::
  "BoundedIntegerChoiceRecord \<Rightarrow> session_error + BoundedIntegerChoiceRecord" where
  "bounded_choice_record r = checked
     (check_record_head r @
      [unless (0 < bi_upper_exclusive r)
         (h_error ''upper_exclusive must be a positive exact integer''),
       unless (0 \<le> bv_value (bi_evidence r) \<and> bv_value (bi_evidence r) < bi_upper_exclusive r)
         (h_error ''selected value is outside the declared bound''),
       unless (bv_value (bi_evidence r) = bv_candidate (bi_evidence r) mod bi_upper_exclusive r)
         (h_error ''selected value must derive from the accepted candidate'')] @
      check_record_schema r)
     r"

record WeightedChoiceRecord = ChoiceRecordFields +
  wc_values :: CanonicalArray
  wc_weights :: "int list"
  wc_selected_index :: int
  wc_ticket :: BoundedIntegerEvidence

text \<open>The loop that finds the expected index; without a hit it stays 0.\<close>

fun expected_from :: "int \<Rightarrow> int \<Rightarrow> int \<Rightarrow> int list \<Rightarrow> int" where
  "expected_from ticket cumulative index [] = 0"
| "expected_from ticket cumulative index (w # ws) =
     (if ticket < cumulative + w then index
      else expected_from ticket (cumulative + w) (index + 1) ws)"

definition weighted_choice_record ::
  "WeightedChoiceRecord \<Rightarrow> session_error + WeightedChoiceRecord" where
  "weighted_choice_record r = (let values = array_values (wc_values r) in checked
     (check_record_head r @
      [unless (values \<noteq> []) (h_error ''values must be a nonempty exact CanonicalArray''),
       unless (length (wc_weights r) = length values)
         (h_error ''weights must be an equal-length immutable tuple''),
       unless (\<forall>w\<in>set (wc_weights r). 0 < w) (h_error ''weights must be positive exact integers''),
       unless (distinct (map canonical_value_bytes values))
         (h_error ''weighted values must be canonically unique''),
       unless (0 \<le> wc_selected_index r \<and> wc_selected_index r < int (length (wc_weights r)))
         (h_error ''selected_index is outside the weighted domain''),
       unless (bv_value (wc_ticket r) < sum_list (wc_weights r))
         (h_error ''weighted ticket is outside total weight''),
       unless (wc_selected_index r = expected_from (bv_value (wc_ticket r)) 0 0 (wc_weights r))
         (h_error ''selected_index does not match the weighted ticket'')] @
      check_record_schema r)
     r)"

definition selected_value :: "WeightedChoiceRecord \<Rightarrow> CanonicalValue" where
  "selected_value r = array_values (wc_values r) ! nat (wc_selected_index r)"

record BooleanRatioChoiceRecord = ChoiceRecordFields +
  bo_numerator :: int
  bo_denominator :: int
  bo_selected :: bool
  bo_ticket :: BoundedIntegerEvidence

definition boolean_choice_record ::
  "BooleanRatioChoiceRecord \<Rightarrow> session_error + BooleanRatioChoiceRecord" where
  "boolean_choice_record r = checked
     (check_record_head r @
      [unless (0 < bo_denominator r \<and> 0 \<le> bo_numerator r \<and> bo_numerator r \<le> bo_denominator r)
         (h_error ''ratio must satisfy 0 <= numerator <= denominator''),
       unless (bv_value (bo_ticket r) < bo_denominator r)
         (h_error ''ratio ticket is outside its denominator''),
       unless (bo_selected r = (bv_value (bo_ticket r) < bo_numerator r))
         (h_error ''selected Boolean does not match the ratio ticket'')] @
      check_record_schema r)
     r"

datatype ChoiceRecord =
    BoundedRecord BoundedIntegerChoiceRecord
  | WeightedRecord WeightedChoiceRecord
  | BooleanRecord BooleanRatioChoiceRecord

fun record_operation :: "ChoiceRecord \<Rightarrow> ChoiceOperation" where
  "record_operation (BoundedRecord r) = BoundedInteger"
| "record_operation (WeightedRecord r) = IntegerWeightedIndex"
| "record_operation (BooleanRecord r) = BooleanRatio"

fun record_fields :: "ChoiceRecord \<Rightarrow> ChoiceRecordFields" where
  "record_fields (BoundedRecord r) = ChoiceRecordFields.truncate r"
| "record_fields (WeightedRecord r) = ChoiceRecordFields.truncate r"
| "record_fields (BooleanRecord r) = ChoiceRecordFields.truncate r"

abbreviation record_path :: "ChoiceRecord \<Rightarrow> ChoicePath" where
  "record_path r \<equiv> kr_path (record_fields r)"

definition bounded_record_json :: "BoundedIntegerChoiceRecord \<Rightarrow> json" where
  "bounded_record_json r = JObj
     [(''evidence'', evidence_json (bi_evidence r)),
      (''generation_namespace_digest'', JStr (kr_generation_namespace_digest r)),
      (''operation'', JStr (operation_value BoundedInteger)),
      (''path'', path_json (kr_path r)),
      (''schema_version'', JStr (kr_schema_version r)),
      (''seed_commitment'', JStr (kr_seed_commitment r)),
      (''upper_exclusive'', JInt (bi_upper_exclusive r))]"

definition weighted_record_json :: "WeightedChoiceRecord \<Rightarrow> json" where
  "weighted_record_json r = JObj
     [(''generation_namespace_digest'', JStr (kr_generation_namespace_digest r)),
      (''operation'', JStr (operation_value IntegerWeightedIndex)),
      (''path'', path_json (kr_path r)),
      (''schema_version'', JStr (kr_schema_version r)),
      (''seed_commitment'', JStr (kr_seed_commitment r)),
      (''selected_index'', JInt (wc_selected_index r)),
      (''selected_value'', canonical_json (selected_value r)),
      (''ticket'', evidence_json (wc_ticket r)),
      (''values'', array_json (wc_values r)),
      (''weights'', JArr (map JInt (wc_weights r)))]"

definition boolean_record_json :: "BooleanRatioChoiceRecord \<Rightarrow> json" where
  "boolean_record_json r = JObj
     [(''denominator'', JInt (bo_denominator r)),
      (''generation_namespace_digest'', JStr (kr_generation_namespace_digest r)),
      (''numerator'', JInt (bo_numerator r)),
      (''operation'', JStr (operation_value BooleanRatio)),
      (''path'', path_json (kr_path r)),
      (''schema_version'', JStr (kr_schema_version r)),
      (''seed_commitment'', JStr (kr_seed_commitment r)),
      (''selected'', JBool (bo_selected r)),
      (''ticket'', evidence_json (bo_ticket r))]"

fun record_json :: "ChoiceRecord \<Rightarrow> json" where
  "record_json (BoundedRecord r) = bounded_record_json r"
| "record_json (WeightedRecord r) = weighted_record_json r"
| "record_json (BooleanRecord r) = boolean_record_json r"

definition choice_record_digest :: "(byte list \<Rightarrow> byte list) \<Rightarrow> ChoiceRecord \<Rightarrow> string" where
  "choice_record_digest sha256 r = json_digest sha256 (record_json r)"

definition choice_record_bytes :: "ChoiceRecord \<Rightarrow> byte list" where
  "choice_record_bytes r = json_bytes (record_json r)"

subsection \<open>Records of results\<close>

definition record_from_bounded_result ::
  "ChoicePath \<Rightarrow> string \<Rightarrow> string \<Rightarrow> int \<Rightarrow> BoundedIntegerResult \<Rightarrow>
     session_error + BoundedIntegerChoiceRecord" where
  "record_from_bounded_result path namespace_digest commitment upper result =
     and_then (evidence_from_result result) (\<lambda>evidence. bounded_choice_record
       \<lparr>kr_path = path, kr_generation_namespace_digest = namespace_digest,
        kr_seed_commitment = commitment, kr_schema_version = CHOICE_RECORD_SCHEMA_VERSION,
        bi_upper_exclusive = upper, bi_evidence = evidence\<rparr>)"

definition record_from_weighted_result ::
  "ChoicePath \<Rightarrow> string \<Rightarrow> string \<Rightarrow> CanonicalArray \<Rightarrow> int list \<Rightarrow> WeightedChoiceResult \<Rightarrow>
     session_error + WeightedChoiceRecord" where
  "record_from_weighted_result path namespace_digest commitment values weights result =
     and_then (evidence_from_result (wr_ticket result)) (\<lambda>ticket. weighted_choice_record
       \<lparr>kr_path = path, kr_generation_namespace_digest = namespace_digest,
        kr_seed_commitment = commitment, kr_schema_version = CHOICE_RECORD_SCHEMA_VERSION,
        wc_values = values, wc_weights = weights,
        wc_selected_index = int (wr_selected_index result), wc_ticket = ticket\<rparr>)"

definition record_from_boolean_result ::
  "ChoicePath \<Rightarrow> string \<Rightarrow> string \<Rightarrow> int \<Rightarrow> int \<Rightarrow> BooleanChoiceResult \<Rightarrow>
     session_error + BooleanRatioChoiceRecord" where
  "record_from_boolean_result path namespace_digest commitment numerator denominator result =
     and_then (evidence_from_result (bc_ticket result)) (\<lambda>ticket. boolean_choice_record
       \<lparr>kr_path = path, kr_generation_namespace_digest = namespace_digest,
        kr_seed_commitment = commitment, kr_schema_version = CHOICE_RECORD_SCHEMA_VERSION,
        bo_numerator = numerator, bo_denominator = denominator,
        bo_selected = bc_selected result, bo_ticket = ticket\<rparr>)"

end
