(* ===== verification/Choice_Ledger.thy ===== *)
theory Choice_Ledger
  imports Choice_Records Execution_Inventory
begin

section \<open>Choice sessions and ledgers\<close>

text \<open>
  \<^verbatim>\<open>synthesis/v0_4/choice_ledger.py\<close> and the \<^verbatim>\<open>ChoiceBudget\<close> of
  \<^verbatim>\<open>replay_policy.py\<close>: the ledger with the tests of its constructor, and the
  session that produces it as a record of its attributes. Every operation of the session is
  explicit state passing with exceptions; an exception inside the \<^verbatim>\<open>try\<close> block
  poisons an open session.
\<close>

definition CHOICE_LEDGER_SCHEMA_VERSION :: string where
  "CHOICE_LEDGER_SCHEMA_VERSION = ''csd-choice-ledger/0.4''"

datatype ChoiceSessionState = SessionOpen | SessionFrozen | SessionPoisoned

fun session_state_value :: "ChoiceSessionState \<Rightarrow> string" where
  "session_state_value SessionOpen = ''open''"
| "session_state_value SessionFrozen = ''frozen''"
| "session_state_value SessionPoisoned = ''poisoned''"

definition l_token :: "string \<Rightarrow> string \<Rightarrow> session_error option" where
  "l_token v name =
     unless (is_token v) (ChoiceSessionError (name @ '' must be a lowercase ASCII token''))"

definition path_bytes :: "ChoicePath \<Rightarrow> byte list" where
  "path_bytes p = json_bytes (path_json p)"

definition namespace_allowed :: "string \<Rightarrow> string \<Rightarrow> bool" where
  "namespace_allowed allowed_prefix ns = (ns = allowed_prefix \<or> prefix (allowed_prefix @ ''.'') ns)"

subsection \<open>Budgets\<close>

record ChoiceBudget =
  maximum_choices_per_attempt :: int
  maximum_canonical_ledger_bytes :: int

definition choice_budget :: "ChoiceBudget \<Rightarrow> string + ChoiceBudget" where
  "choice_budget b = checked
     [unless (0 < maximum_choices_per_attempt b)
        ''maximum_choices_per_attempt must be a positive exact integer'',
      unless (0 < maximum_canonical_ledger_bytes b)
        ''maximum_canonical_ledger_bytes must be a positive exact integer'']
     b"

subsection \<open>Ledgers\<close>

record ChoiceLedger =
  cl_seed_commitment :: string
  cl_generation_namespace_digest :: string
  cl_attempt_key :: AttemptKey
  cl_producer_contract_id :: string
  cl_allowed_namespace_prefix :: string
  cl_records :: "ChoiceRecord list"
  cl_schema_version :: string

definition ledger_json :: "ChoiceLedger \<Rightarrow> json" where
  "ledger_json l = JObj
     [(''allowed_namespace_prefix'', JStr (cl_allowed_namespace_prefix l)),
      (''attempt_key'', attempt_key_value (cl_attempt_key l)),
      (''generation_namespace_digest'', JStr (cl_generation_namespace_digest l)),
      (''producer_contract_id'', JStr (cl_producer_contract_id l)),
      (''records'', JArr (map record_json (cl_records l))),
      (''schema_version'', JStr (cl_schema_version l)),
      (''seed_commitment'', JStr (cl_seed_commitment l))]"

definition ledger_bytes :: "ChoiceLedger \<Rightarrow> byte list" where
  "ledger_bytes l = json_bytes (ledger_json l)"

definition ledger_digest :: "(byte list \<Rightarrow> byte list) \<Rightarrow> ChoiceLedger \<Rightarrow> string" where
  "ledger_digest sha256 l = json_digest sha256 (ledger_json l)"

text \<open>The loop over the records, with the path bytes seen so far.\<close>

fun check_ledger_records ::
  "ChoiceLedger \<Rightarrow> byte list set \<Rightarrow> ChoiceRecord list \<Rightarrow> session_error option list" where
  "check_ledger_records l seen [] = []"
| "check_ledger_records l seen (r # rs) = (let f = record_fields r; b = path_bytes (kr_path f) in
     [unless (b \<notin> seen) (h_error ''choice ledger contains a duplicate path''),
      unless (attempt_key (kr_path f) = cl_attempt_key l)
        (h_error ''choice record belongs to a different attempt''),
      unless (kr_seed_commitment f = cl_seed_commitment l)
        (h_error ''choice record has a different seed commitment''),
      unless (kr_generation_namespace_digest f = cl_generation_namespace_digest l)
        (h_error ''choice record has a different generation namespace''),
      unless (namespace_allowed (cl_allowed_namespace_prefix l) (namespace (kr_path f)))
        (h_error ''choice record uses an undeclared namespace prefix'')] @
     check_ledger_records l (insert b seen) rs)"

abbreviation record_order :: "ChoiceRecord \<Rightarrow> byte list" where
  "record_order r \<equiv> path_bytes (record_path r)"

definition choice_ledger :: "ChoiceLedger \<Rightarrow> session_error + ChoiceLedger" where
  "choice_ledger l = checked
     ([h_digest (cl_seed_commitment l) ''seed_commitment'',
       h_digest (cl_generation_namespace_digest l) ''generation_namespace_digest'',
       l_token (cl_producer_contract_id l) ''producer_contract_id'',
       l_token (cl_allowed_namespace_prefix l) ''allowed_namespace_prefix'',
       unless (cl_records l = sort_key record_order (cl_records l))
         (h_error ''choice ledger records must use canonical path order'')] @
      check_ledger_records l {} (cl_records l) @
      [unless (cl_schema_version l = CHOICE_LEDGER_SCHEMA_VERSION)
         (h_error (''choice ledger schema must be '' @ CHOICE_LEDGER_SCHEMA_VERSION))])
     l"

subsection \<open>Sessions\<close>

record ChoiceSession =
  cs_seed :: RootSeed
  cs_generation_namespace :: GenerationNamespace
  cs_attempt_key :: AttemptKey
  cs_producer_contract_id :: string
  cs_allowed_namespace_prefix :: string
  cs_budget :: ChoiceBudget
  cs_state :: ChoiceSessionState
  cs_reserved_paths :: "byte list set"
  cs_records :: "ChoiceRecord list"

definition choice_session :: "RootSeed \<Rightarrow> GenerationNamespace \<Rightarrow> AttemptKey \<Rightarrow> string \<Rightarrow> string \<Rightarrow>
    ChoiceBudget \<Rightarrow> session_error + ChoiceSession" where
  "choice_session seed gn key producer allowed_prefix budget = checked
     [l_token producer ''producer_contract_id'', l_token allowed_prefix ''allowed_namespace_prefix'']
     \<lparr>cs_seed = seed, cs_generation_namespace = gn, cs_attempt_key = key,
      cs_producer_contract_id = producer, cs_allowed_namespace_prefix = allowed_prefix,
      cs_budget = budget, cs_state = SessionOpen, cs_reserved_paths = {}, cs_records = []\<rparr>"

type_synonym 'a session_op = "(ChoiceSession, session_error, 'a) op"

definition require_open_path :: "ChoicePath \<Rightarrow> ChoiceSession \<Rightarrow> session_error + byte list" where
  "require_open_path path s = checked
     [unless (cs_state s = SessionOpen)
        (ChoiceSessionError (''choice session is '' @ session_state_value (cs_state s))),
      unless (attempt_key path = cs_attempt_key s)
        (ChoiceSessionError ''choice path belongs to a different attempt''),
      unless (namespace_allowed (cs_allowed_namespace_prefix s) (namespace path))
        (ChoiceSessionError ''choice path uses an undeclared namespace prefix''),
      unless (path_bytes path \<notin> cs_reserved_paths s)
        (DuplicateChoicePathError ''choice path has already been reserved'')]
     (path_bytes path)"

definition reserve :: "ChoicePath \<Rightarrow> unit session_op" where
  "reserve path = seq_op (read_op (require_open_path path)) (\<lambda>b.
     write_op (\<lambda>s. s\<lparr>cs_reserved_paths := insert b (cs_reserved_paths s)\<rparr>))"

text \<open>The ledger that the session would freeze with these records.\<close>

definition session_ledger ::
  "(byte list \<Rightarrow> byte list) \<Rightarrow> ChoiceSession \<Rightarrow> ChoiceRecord list \<Rightarrow> ChoiceLedger" where
  "session_ledger sha256 s rs =
     \<lparr>cl_seed_commitment = seed_commitment sha256 (cs_seed s),
      cl_generation_namespace_digest = namespace_digest sha256 (cs_generation_namespace s),
      cl_attempt_key = cs_attempt_key s, cl_producer_contract_id = cs_producer_contract_id s,
      cl_allowed_namespace_prefix = cs_allowed_namespace_prefix s,
      cl_records = sort_key record_order rs, cl_schema_version = CHOICE_LEDGER_SCHEMA_VERSION\<rparr>"

definition ledger_bytes_for ::
  "(byte list \<Rightarrow> byte list) \<Rightarrow> ChoiceSession \<Rightarrow> ChoiceRecord list \<Rightarrow> int" where
  "ledger_bytes_for sha256 s rs = int (length (ledger_bytes (session_ledger sha256 s rs)))"

definition budget_exceeded ::
  "(byte list \<Rightarrow> byte list) \<Rightarrow> ChoiceSession \<Rightarrow> int \<Rightarrow> ChoiceRecord list \<Rightarrow> session_error" where
  "budget_exceeded sha256 s n rs = ChoiceBudgetExceeded n
     (maximum_choices_per_attempt (cs_budget s)) (ledger_bytes_for sha256 s rs)
     (maximum_canonical_ledger_bytes (cs_budget s))"

definition preflight_choice_count ::
  "(byte list \<Rightarrow> byte list) \<Rightarrow> ChoiceSession \<Rightarrow> session_error + unit" where
  "preflight_choice_count sha256 s = (let n = int (length (cs_records s)) + 1 in checked
     [unless (n \<le> maximum_choices_per_attempt (cs_budget s))
        (budget_exceeded sha256 s n (cs_records s))] ())"

definition commit_record :: "(byte list \<Rightarrow> byte list) \<Rightarrow> ChoiceRecord \<Rightarrow> unit session_op" where
  "commit_record sha256 r =
     seq_op (read_op (\<lambda>s. let rs = cs_records s @ [r] in checked
       [unless (ledger_bytes_for sha256 s rs \<le> maximum_canonical_ledger_bytes (cs_budget s))
          (budget_exceeded sha256 s (int (length rs)) rs)] ())) (\<lambda>_.
     write_op (\<lambda>s. s\<lparr>cs_records := cs_records s @ [r]\<rparr>))"

definition poison_if_open :: "ChoiceSession \<Rightarrow> ChoiceSession" where
  "poison_if_open s =
     (if cs_state s = SessionOpen then s\<lparr>cs_state := SessionPoisoned\<rparr> else s)"

text \<open>\<^verbatim>\<open>try: ... except Exception: self._poison_if_open(); raise\<close>.\<close>

definition guarded :: "'a session_op \<Rightarrow> 'a session_op" where
  "guarded m = catch_op m (\<lambda>e. seq_op (write_op poison_if_open) (\<lambda>_. raise_op e))"

text \<open>The common shape of the three choice operations: reserve the path, check the count, make the
  record from the primitive's result, commit it.\<close>

definition make_choice :: "(byte list \<Rightarrow> byte list) \<Rightarrow> ChoicePath \<Rightarrow>
    (ChoiceSession \<Rightarrow> session_error + ChoiceRecord) \<Rightarrow> ChoiceRecord session_op" where
  "make_choice sha256 path draw = guarded
     (seq_op (reserve path) (\<lambda>_.
      seq_op (read_op (preflight_choice_count sha256)) (\<lambda>_.
      seq_op (read_op draw) (\<lambda>r.
      seq_op (commit_record sha256 r) (\<lambda>_. ret r)))))"

definition primitive :: "choice_error + 'a \<Rightarrow> session_error + 'a" where
  "primitive r = (case r of Inl e \<Rightarrow> Inl (PrimitiveError e) | Inr a \<Rightarrow> Inr a)"

definition make_bounded :: "(byte list \<Rightarrow> byte list) \<Rightarrow> (byte list \<Rightarrow> byte list \<Rightarrow> byte list) \<Rightarrow>
    ChoicePath \<Rightarrow> int \<Rightarrow> ChoiceSession \<Rightarrow> session_error + ChoiceRecord" where
  "make_bounded sha256 hmac path upper s =
     and_then (primitive (bounded_integer sha256 hmac (cs_seed s) path upper)) (\<lambda>result.
     and_then (record_from_bounded_result path
       (namespace_digest sha256 (cs_generation_namespace s)) (seed_commitment sha256 (cs_seed s))
       upper result) (\<lambda>r. Inr (BoundedRecord r)))"

definition make_weighted :: "(byte list \<Rightarrow> byte list) \<Rightarrow> (byte list \<Rightarrow> byte list \<Rightarrow> byte list) \<Rightarrow>
    ChoicePath \<Rightarrow> CanonicalArray \<Rightarrow> int list \<Rightarrow> ChoiceSession \<Rightarrow> session_error + ChoiceRecord" where
  "make_weighted sha256 hmac path values weights s =
     and_then (primitive (weighted_choice sha256 hmac (cs_seed s) path
       (map (py_of \<circ> canonical_json) (array_values values)) weights)) (\<lambda>result.
     and_then (record_from_weighted_result path
       (namespace_digest sha256 (cs_generation_namespace s)) (seed_commitment sha256 (cs_seed s))
       values weights result) (\<lambda>r. Inr (WeightedRecord r)))"

definition make_ratio :: "(byte list \<Rightarrow> byte list) \<Rightarrow> (byte list \<Rightarrow> byte list \<Rightarrow> byte list) \<Rightarrow>
    ChoicePath \<Rightarrow> int \<Rightarrow> int \<Rightarrow> ChoiceSession \<Rightarrow> session_error + ChoiceRecord" where
  "make_ratio sha256 hmac path numerator denominator s =
     and_then (primitive (choose_ratio sha256 hmac (cs_seed s) path numerator denominator))
       (\<lambda>result.
     and_then (record_from_boolean_result path
       (namespace_digest sha256 (cs_generation_namespace s)) (seed_commitment sha256 (cs_seed s))
       numerator denominator result) (\<lambda>r. Inr (BooleanRecord r)))"

fun bounded_value :: "ChoiceRecord \<Rightarrow> int" where
  "bounded_value (BoundedRecord r) = bv_value (bi_evidence r)"
| "bounded_value r = 0"

fun weighted_value :: "ChoiceRecord \<Rightarrow> CanonicalValue" where
  "weighted_value (WeightedRecord r) = selected_value r"
| "weighted_value r = CvNone"

fun boolean_value :: "ChoiceRecord \<Rightarrow> bool" where
  "boolean_value (BooleanRecord r) = bo_selected r"
| "boolean_value r = False"

definition session_bounded_integer :: "(byte list \<Rightarrow> byte list) \<Rightarrow>
    (byte list \<Rightarrow> byte list \<Rightarrow> byte list) \<Rightarrow> ChoicePath \<Rightarrow> int \<Rightarrow> int session_op" where
  "session_bounded_integer sha256 hmac path upper =
     seq_op (make_choice sha256 path (make_bounded sha256 hmac path upper))
       (\<lambda>r. ret (bounded_value r))"

definition session_weighted_choice :: "(byte list \<Rightarrow> byte list) \<Rightarrow>
    (byte list \<Rightarrow> byte list \<Rightarrow> byte list) \<Rightarrow> ChoicePath \<Rightarrow> CanonicalArray \<Rightarrow> int list \<Rightarrow>
    CanonicalValue session_op" where
  "session_weighted_choice sha256 hmac path values weights =
     seq_op (make_choice sha256 path (make_weighted sha256 hmac path values weights))
       (\<lambda>r. ret (weighted_value r))"

definition session_choose_ratio :: "(byte list \<Rightarrow> byte list) \<Rightarrow>
    (byte list \<Rightarrow> byte list \<Rightarrow> byte list) \<Rightarrow> ChoicePath \<Rightarrow> int \<Rightarrow> int \<Rightarrow> bool session_op" where
  "session_choose_ratio sha256 hmac path numerator denominator =
     seq_op (make_choice sha256 path (make_ratio sha256 hmac path numerator denominator))
       (\<lambda>r. ret (boolean_value r))"

definition freeze :: "(byte list \<Rightarrow> byte list) \<Rightarrow> ChoiceLedger session_op" where
  "freeze sha256 =
     seq_op (read_op (\<lambda>s. checked [unless (cs_state s = SessionOpen) (ChoiceSessionError
       (''cannot freeze a '' @ session_state_value (cs_state s) @ '' choice session''))] ())) (\<lambda>_.
     guarded
       (seq_op (read_op (\<lambda>s. choice_ledger (session_ledger sha256 s (cs_records s)))) (\<lambda>l.
        seq_op (read_op (\<lambda>s. checked [unless (int (length (ledger_bytes l)) \<le>
            maximum_canonical_ledger_bytes (cs_budget s)) (ChoiceBudgetExceeded
            (int (length (cl_records l))) (maximum_choices_per_attempt (cs_budget s))
            (int (length (ledger_bytes l))) (maximum_canonical_ledger_bytes (cs_budget s)))] ())) (\<lambda>_.
        seq_op (write_op (\<lambda>s. s\<lparr>cs_state := SessionFrozen\<rparr>)) (\<lambda>_. ret l)))))"

definition diagnostic_record_bytes :: "ChoiceSession \<Rightarrow> session_error + byte list list" where
  "diagnostic_record_bytes s = checked [unless (cs_state s = SessionOpen) (ChoiceSessionError
     ''diagnostic records are available only on an open session'')]
     (map choice_record_bytes (cs_records s))"

end
