(* ===== verification/Choice_Record_Facts.thy ===== *)
theory Choice_Record_Facts
  imports Choice_Records Choice_Properties
begin

section \<open>Recorded results\<close>

text \<open>
  The constructors of the records test a result again, and find the weighted index by another
  loop than the primitive. What a primitive returns passes these tests.
\<close>

subsection \<open>Hexadecimal candidates\<close>

lemma hex_int_snoc:
  "h < 16 \<Longrightarrow> l < 16 \<Longrightarrow>
     hex_int (s @ [hex_digit h, hex_digit l]) = 256 * hex_int s + (16 * int h + int l)"
  by (simp add: hex_int_def hex_value_digit)

lemma hex_int_hex: "hex_int (hex bs) = from_be bs"
proof (induction bs rule: rev_induct)
  case (snoc b bs)
  have h: "unat b div 16 < 16" using unat_byte_less [of b] by simp
  have "int (unat b) = int (16 * (unat b div 16) + unat b mod 16)" by (simp only: mult_div_mod_eq)
  then have "16 * int (unat b div 16) + int (unat b mod 16) = int (unat b)"
    by (simp only: of_nat_add of_nat_mult of_nat_numeral)
  moreover have "hex (bs @ [b]) = hex bs @ [hex_digit (unat b div 16), hex_digit (unat b mod 16)]"
    by (simp add: hex_def)
  moreover have "int (unat b) = uint b" by simp
  ultimately show ?case using snoc hex_int_snoc [OF h, of "unat b mod 16" "hex bs"]
    by (simp only: from_be_snoc mult.commute [of 256])
qed (simp add: hex_int_def hex_def)

lemma hex_Nil_iff: "hex bs = [] \<longleftrightarrow> bs = []"
  by (cases bs) (simp_all add: hex_def)

lemma hex_is_bytes: "is_hex_bytes (hex bs) \<longleftrightarrow> bs \<noteq> []"
  using hex_digits [of bs] by (simp add: is_hex_bytes_def hex_Nil_iff)

lemma candidate_loop_blocks:
  "candidate_loop hmac seed mat d w out b = Inr (bs, n) \<Longrightarrow> b \<le> n \<and> (length out < w \<longrightarrow> b < n)"
proof (induction hmac seed mat d w out b arbitrary: bs n rule: candidate_loop.induct)
  case (1 hmac seed mat d w out b)
  from "1.prems" show ?case
    by (subst (asm) candidate_loop.simps) (fastforce split: if_splits sum.splits dest: "1.IH")
qed

definition draw_recorded :: "nat \<Rightarrow> CandidateDraw \<Rightarrow> bool" where
  "draw_recorded w d \<longleftrightarrow> (\<exists>bs. length bs = w \<and> cd_candidate_hex d = hex bs \<and>
     cd_candidate d = from_be bs \<and> 0 < cd_block_count d)"

lemma candidate_width_pos: "0 < candidate_width u"
  by (simp add: candidate_width_def)

lemma draw_loop_recorded:
  assumes "draw_loop sha256 hmac seed mat dg u draws d = Inr r"
    and "list_all (draw_recorded (candidate_width u)) draws"
  shows "list_all (draw_recorded (candidate_width u)) (br_draws r) \<and>
    br_candidate_hex r = cd_candidate_hex (last (br_draws r)) \<and>
    br_block_count r = cd_block_count (last (br_draws r)) \<and>
    br_material_digest r = hex (sha256 mat)"
  using assms
proof (induction sha256 hmac seed mat dg u draws d rule: draw_loop.induct)
  case (1 sha256 hmac seed mat dg u draws d)
  from "1.prems"(1) have d: "d \<le> MAX_UINT64"
    by (subst (asm) draw_loop.simps) (auto split: if_splits)
  then obtain bs n where c: "candidate_bytes hmac seed mat d (candidate_width u) = Inr (bs, n)"
    using "1.prems"(1) by (subst (asm) draw_loop.simps) (auto split: sum.splits)
  define x where "x = \<lparr>cd_draw_index = d, cd_candidate_hex = hex bs,
    cd_candidate = from_be bs, cd_block_count = n\<rparr>"
  have "0 < n" using candidate_loop_blocks [OF c [unfolded candidate_bytes_def]] candidate_width_pos
    by simp
  then have x: "draw_recorded (candidate_width u) x"
    using candidate_bytes_length [OF c] by (auto simp: draw_recorded_def x_def)
  show ?case
  proof (cases "from_be bs < candidate_limit u")
    case True
    then have "r = \<lparr>br_value = from_be bs mod u, br_draw_index = d,
        br_candidate_hex = hex bs, br_candidate = from_be bs,
        br_limit = candidate_limit u, br_width = candidate_width u,
        br_block_count = n, br_draws = draws @ [x], br_domain_digest = dg,
        br_material_digest = hex (sha256 mat)\<rparr>"
      using "1.prems"(1) c d by (subst (asm) draw_loop.simps) (simp add: Let_def x_def)
    then show ?thesis using x "1.prems"(2) by (simp add: x_def)
  next
    case False
    then have "draw_loop sha256 hmac seed mat dg u (draws @ [x]) (d + 1) = Inr r"
      using "1.prems"(1) c d by (subst (asm) draw_loop.simps) (simp add: Let_def x_def)
    with "1.IH" [OF d c refl refl x_def refl] False x "1.prems"(2) show ?thesis by (simp add: x_def)
  qed
qed

subsection \<open>Evidence\<close>

definition recorded_draw :: "CandidateDraw \<Rightarrow> CandidateDrawRecord" where
  "recorded_draw d = \<lparr>dr_draw_index = cd_draw_index d, dr_candidate_hex = cd_candidate_hex d,
     dr_block_count = cd_block_count d\<rparr>"

lemma recorded_draw_simps [simp]:
  "dr_draw_index (recorded_draw d) = cd_draw_index d"
  "dr_candidate_hex (recorded_draw d) = cd_candidate_hex d"
  "dr_block_count (recorded_draw d) = cd_block_count d"
  by (simp_all add: recorded_draw_def)

lemma draw_recorded_accepted:
  assumes "draw_recorded w d" and "0 < w" and "0 \<le> cd_draw_index d"
  shows "candidate_draw_record (recorded_draw d) = Inr (recorded_draw d)"
  using assms by (auto simp: candidate_draw_record_def draw_recorded_def hex_is_bytes h_nonnegative_def)

lemma evidence_accepted:
  assumes "bounded_integer_for_domain sha256 hmac seed path op u domain = Inr r"
    and hash: "\<forall>bs. is_hex_256 (hex (sha256 bs))"
  obtains e where "evidence_from_result r = Inr e" and "bv_value e = br_value r"
    and "bv_candidate e = br_candidate r" and "0 \<le> br_value r" and "br_value r < u"
    and "br_value r = br_candidate r mod u"
proof -
  obtain dg mat where u: "0 < u" and domain: "canonical_sha256 sha256 domain = Inr dg"
    and loop: "draw_loop sha256 hmac seed mat dg u [] 0 = Inr r"
    using assms(1) by (auto simp: bounded_integer_for_domain_def split: if_splits sum.splits)
  have r: "draws_ok hmac seed mat u (br_draws r) \<and> br_draws r \<noteq> [] \<and>
    list_all (\<lambda>x. candidate_limit u \<le> cd_candidate x) (butlast (br_draws r)) \<and>
    br_draw_index r = int (length (br_draws r)) - 1 \<and>
    br_candidate r = cd_candidate (last (br_draws r)) \<and>
    0 \<le> br_candidate r \<and> br_candidate r < candidate_limit u \<and>
    br_value r = br_candidate r mod u \<and> br_limit r = candidate_limit u \<and>
    br_width r = candidate_width u \<and> br_draw_index r \<le> MAX_UINT64"
    by (rule draw_loop_Inr [OF loop]) simp_all
  note rec = draw_loop_recorded [OF loop, simplified]
  define n where "n = length (br_draws r)"
  have index: "map cd_draw_index (br_draws r) = [0..int n - 1]" "0 < n"
    using r by (simp_all add: draws_ok_def n_def)
  have nth: "cd_draw_index (br_draws r ! i) = int i" if "i < n" for i
    using that arg_cong [OF index(1), where f = "\<lambda>xs. xs ! i"] by (simp add: n_def)
  have "candidate_draw_record (recorded_draw d) = Inr (recorded_draw d)" if d: "d \<in> set (br_draws r)" for d
  proof -
    obtain i where "i < n" "d = br_draws r ! i" using d by (auto simp: in_set_conv_nth n_def)
    then have "0 \<le> cd_draw_index d" using nth by simp
    then show ?thesis using rec d candidate_width_pos
      by (auto intro!: draw_recorded_accepted simp: list_all_iff)
  qed
  then have draws: "map_res (\<lambda>d. candidate_draw_record \<lparr>dr_draw_index = cd_draw_index d,
      dr_candidate_hex = cd_candidate_hex d, dr_block_count = cd_block_count d\<rparr>) (br_draws r) =
      Inr (map recorded_draw (br_draws r))"
    by (intro map_res_all) (simp add: recorded_draw_def)
  have last: "last (br_draws r) \<in> set (br_draws r)" "draw_recorded (candidate_width u) (last (br_draws r))"
    using r rec by (simp_all add: list_all_iff)
  have "last (br_draws r) = br_draws r ! (n - 1)" using index(2) r by (simp add: last_conv_nth n_def)
  then have last_index: "cd_draw_index (last (br_draws r)) = br_draw_index r" "0 \<le> br_draw_index r"
    using nth [of "n - 1"] index(2) r by (auto simp: n_def of_nat_diff Suc_leI)
  obtain bs where bs: "length bs = candidate_width u" "cd_candidate_hex (last (br_draws r)) = hex bs"
    "cd_candidate (last (br_draws r)) = from_be bs" "0 < cd_block_count (last (br_draws r))"
    using last(2) by (auto simp: draw_recorded_def)
  have rejected: "candidate_limit u \<le> hex_int (cd_candidate_hex d)" if "d \<in> set (butlast (br_draws r))" for d
  proof -
    have "draw_recorded (candidate_width u) d" using rec that in_set_butlastD by (fastforce simp: list_all_iff)
    then show ?thesis using r that by (auto simp: list_all_iff draw_recorded_def hex_int_hex)
  qed
  have "is_hex_256 dg" using domain hash by (auto simp: canonical_sha256_def split: sum.splits)
  then have digests: "is_hex_256 (br_domain_digest r)" "is_hex_256 (br_material_digest r)"
    using draw_loop_digest [OF loop] rec hash by simp_all
  define e where "e = \<lparr>bv_value = br_value r, bv_draw_index = br_draw_index r,
    bv_candidate_hex = br_candidate_hex r, bv_candidate = br_candidate r, bv_limit = br_limit r,
    bv_width = int (br_width r), bv_block_count = br_block_count r,
    bv_draws = map recorded_draw (br_draws r), bv_domain_digest = br_domain_digest r,
    bv_material_digest = br_material_digest r\<rparr>"
  have nonempty: "br_draws r \<noteq> []" using r by blast
  have hexes: "br_candidate_hex r = hex bs" "br_block_count r = cd_block_count (last (br_draws r))"
    "br_candidate r = from_be bs"
    using rec r bs(2,3) by metis+
  have "\<forall>d\<in>set (butlast (map recorded_draw (br_draws r))).
      br_limit r \<le> hex_int (dr_candidate_hex d)"
    using rejected r by (simp add: map_butlast [symmetric])
  moreover have "map (dr_draw_index \<circ> recorded_draw) (br_draws r) = [0..int (length (br_draws r)) - 1]"
    using index(1) by (simp add: comp_def n_def)
  moreover have "from_be bs < br_limit r" using r hexes(3) by metis
  ultimately have draws_ok: "\<forall>c\<in>set (check_draws e). c = None"
    using nonempty last_index(1) hexes bs(2)
    by (simp add: check_draws_def e_def last_map hex_int_hex)
  have "0 \<le> br_value r" "0 \<le> br_limit r" "br_width r = candidate_width u"
    using r u by (metis pos_mod_sign, force, blast)
  moreover have "bs \<noteq> []" using bs(1) candidate_width_pos [of u] by auto
  ultimately have "bounded_evidence e = Inr e"
    using draws_ok last_index(2) hexes bs(1,4) digests candidate_width_pos [of u] from_be_nonneg
    by (simp add: bounded_evidence_def ball_Un h_nonnegative_def h_digest_def hex_is_bytes)
      (simp add: e_def hex_is_bytes)
  then have "evidence_from_result r = Inr e"
    using draws by (simp add: evidence_from_result_def e_def)
  then show thesis by (rule that) (use r u in \<open>simp_all add: e_def\<close>)
qed

subsection \<open>Records\<close>

lemma weighted_index_expected:
  assumes "\<forall>w\<in>set ws. 0 < w" and "i < length ws"
    and "before ws i \<le> t" and "t < before ws (Suc i)"
  shows "expected_from (c + t) c k ws = k + int i"
  using assms
proof (induction ws arbitrary: i c k t)
  case (Cons w ws)
  show ?case
  proof (cases i)
    case 0
    then show ?thesis using Cons.prems by (simp add: before_def)
  next
    case (Suc j)
    have "0 \<le> before ws j" using before_mono [of ws 0 j] Cons.prems(1)
      by (simp add: before_def list_all_iff)
    then have "\<not> t < w" using Cons.prems(3) Suc by (simp add: before_def)
    moreover have "expected_from (c + w + (t - w)) (c + w) (k + 1) ws = k + 1 + int j"
      using Cons.prems Suc by (intro Cons.IH) (simp_all add: before_def)
    ultimately show ?thesis using Suc by simp
  qed
qed simp

lemma bounded_recorded:
  assumes "bounded_integer sha256 hmac seed path u = Inr res"
    and hash: "\<forall>bs. is_hex_256 (hex (sha256 bs))"
    and "is_hex_256 ns" and "is_hex_256 commitment"
  shows "\<exists>r. record_from_bounded_result path ns commitment u res = Inr r \<and>
    kr_path r = path \<and> bv_value (bi_evidence r) = br_value res \<and> kr_seed_commitment r = commitment \<and>
    kr_generation_namespace_digest r = ns"
proof -
  obtain e where e: "evidence_from_result res = Inr e" "bv_value e = br_value res"
    "bv_candidate e = br_candidate res" "0 \<le> br_value res" "br_value res < u"
    "br_value res = br_candidate res mod u"
    by (rule evidence_accepted [OF assms(1) [unfolded bounded_integer_def] hash])
  moreover have "0 < u" using e(4,5) by simp
  ultimately show ?thesis using assms(3,4)
    by (simp add: record_from_bounded_result_def bounded_choice_record_def check_record_head_def
        check_record_schema_def h_digest_def)
qed

lemma ratio_recorded:
  assumes "choose_ratio sha256 hmac seed path n d = Inr res"
    and hash: "\<forall>bs. is_hex_256 (hex (sha256 bs))"
    and "is_hex_256 ns" and "is_hex_256 commitment"
  shows "\<exists>r. record_from_boolean_result path ns commitment n d res = Inr r \<and>
    kr_path r = path \<and> bo_selected r = bc_selected res \<and> kr_seed_commitment r = commitment \<and>
    kr_generation_namespace_digest r = ns"
proof -
  obtain ticket where range: "0 < d" "0 \<le> n" "n \<le> d"
    and draw: "bounded_integer_for_domain sha256 hmac seed path BooleanRatio d
      (PyDict [(PyStr ''numerator'', PyInt n), (PyStr ''denominator'', PyInt d)]) = Inr ticket"
    and res: "res = \<lparr>bc_selected = (br_value ticket < n), bc_ticket = ticket\<rparr>"
    using assms(1) by (auto simp: choose_ratio_def split: if_splits sum.splits)
  obtain e where "evidence_from_result ticket = Inr e" "bv_value e = br_value ticket"
    "br_value ticket < d" by (rule evidence_accepted [OF draw hash])
  then show ?thesis using range assms(3,4)
    by (simp add: res record_from_boolean_result_def boolean_choice_record_def
        check_record_head_def check_record_schema_def h_digest_def)
qed

lemma weighted_values_bytes:
  "map_res canonical_json_bytes (map (py_of \<circ> canonical_json) vs) = Inr (map canonical_value_bytes vs)"
  by (induction vs) (simp_all add: canonical_json_bytes_py_of canonical_value_bytes_def)

lemma weighted_recorded:
  assumes choice: "weighted_choice sha256 hmac seed path
      (map (py_of \<circ> canonical_json) (array_values vs)) ws = Inr res"
    and hash: "\<forall>bs. is_hex_256 (hex (sha256 bs))"
    and "is_hex_256 ns" and "is_hex_256 commitment"
  shows "\<exists>r. record_from_weighted_result path ns commitment vs ws res = Inr r \<and>
    kr_path r = path \<and> wc_selected_index r = int (wr_selected_index res) \<and>
    wr_selected_value res = py_of (canonical_json (selected_value r)) \<and>
    kr_seed_commitment r = commitment \<and> kr_generation_namespace_digest r = ns"
proof -
  obtain cs ticket where len: "length (array_values vs) = length ws" and ne: "array_values vs \<noteq> []"
    and distinct: "distinct (map canonical_value_bytes (array_values vs))"
    and cs: "accumulate 0 ws = Inr cs"
    and ticket: "bounded_integer_for_domain sha256 hmac seed path IntegerWeightedIndex (last cs)
      (PyDict [(PyStr ''values'', PyList (map (py_of \<circ> canonical_json) (array_values vs))),
        (PyStr ''weights'', PyList (map PyInt ws))]) = Inr ticket"
    and res: "wr_ticket res = ticket"
    using choice
    by (auto simp: weighted_choice_def weighted_values_bytes Let_def simp del: map_map comp_apply
        split: if_splits sum.splits)
  note correct = weighted_choice_correct [OF choice]
  obtain e where e: "evidence_from_result ticket = Inr e" "bv_value e = br_value ticket"
    by (rule evidence_accepted [OF ticket hash])
  have pos: "\<forall>w\<in>set ws. 0 < w" using accumulate_sorted(4) [OF cs] by (simp add: list_all_iff)
  have "expected_from (0 + br_value ticket) 0 0 ws = 0 + int (wr_selected_index res)"
    using correct len res by (intro weighted_index_expected pos) simp_all
  then have "expected_from (br_value ticket) 0 0 ws = int (wr_selected_index res)" by simp
  then show ?thesis using correct len ne distinct e res pos assms(3,4)
    by (simp add: record_from_weighted_result_def weighted_choice_record_def Let_def
        check_record_head_def check_record_schema_def h_digest_def selected_value_def)
qed

end
