(* ===== verification/Choice_Sessions.thy ===== *)
theory Choice_Sessions
  imports Choice_Ledger Choice_Record_Facts Effects Attempt_Facts
begin

section \<open>Runs of a choice session\<close>

text \<open>
  The three choice operations as requests, what a request does to a session, and sequences of
  requests. A request that returns appends its record and reserves its path; one that raises
  leaves a session that is no longer open.
\<close>

datatype ChoiceRequest =
    AskBounded ChoicePath int
  | AskWeighted ChoicePath CanonicalArray "int list"
  | AskRatio ChoicePath int int

fun request_path :: "ChoiceRequest \<Rightarrow> ChoicePath" where
  "request_path (AskBounded path upper) = path"
| "request_path (AskWeighted path values weights) = path"
| "request_path (AskRatio path n d) = path"

fun request_draw :: "(byte list \<Rightarrow> byte list) \<Rightarrow> (byte list \<Rightarrow> byte list \<Rightarrow> byte list) \<Rightarrow>
    ChoiceRequest \<Rightarrow> ChoiceSession \<Rightarrow> session_error + ChoiceRecord" where
  "request_draw sha256 hmac (AskBounded path upper) = make_bounded sha256 hmac path upper"
| "request_draw sha256 hmac (AskWeighted path values weights) =
     make_weighted sha256 hmac path values weights"
| "request_draw sha256 hmac (AskRatio path n d) = make_ratio sha256 hmac path n d"

definition perform :: "(byte list \<Rightarrow> byte list) \<Rightarrow> (byte list \<Rightarrow> byte list \<Rightarrow> byte list) \<Rightarrow>
    ChoiceRequest \<Rightarrow> ChoiceRecord session_op" where
  "perform sha256 hmac q = make_choice sha256 (request_path q) (request_draw sha256 hmac q)"

lemma session_operations:
  "session_bounded_integer sha256 hmac path upper =
     seq_op (perform sha256 hmac (AskBounded path upper)) (\<lambda>r. ret (bounded_value r))"
  "session_weighted_choice sha256 hmac path values weights =
     seq_op (perform sha256 hmac (AskWeighted path values weights)) (\<lambda>r. ret (weighted_value r))"
  "session_choose_ratio sha256 hmac path n d =
     seq_op (perform sha256 hmac (AskRatio path n d)) (\<lambda>r. ret (boolean_value r))"
  by (simp_all add: perform_def session_bounded_integer_def session_weighted_choice_def
      session_choose_ratio_def)

subsection \<open>Guarded blocks\<close>

lemma guarded_Inr: "guarded m s = (Inr a, t) \<longleftrightarrow> m s = (Inr a, t)"
  by (auto simp: guarded_def catch_op_def split: prod.splits sum.splits)

lemma guarded_Inl: "guarded m s = (Inl e, t) \<longleftrightarrow> (\<exists>u. m s = (Inl e, u) \<and> t = poison_if_open u)"
  by (auto simp: guarded_def catch_op_def split: prod.splits sum.splits)

lemma poison_closes: "cs_state (poison_if_open s) \<noteq> SessionOpen"
  by (simp add: poison_if_open_def)

subsection \<open>One request\<close>

text \<open>What a request draws depends on the seed and the namespace of the session only.\<close>

lemma draw_frame:
  assumes "cs_seed t = cs_seed s" and "cs_generation_namespace t = cs_generation_namespace s"
  shows "request_draw sha256 hmac q t = request_draw sha256 hmac q s"
  using assms by (cases q) (simp_all add: make_bounded_def make_weighted_def make_ratio_def)

definition admits :: "ChoiceSession \<Rightarrow> ChoiceRequest \<Rightarrow> bool" where
  "admits s q \<longleftrightarrow> attempt_key (request_path q) = cs_attempt_key s \<and>
     namespace_allowed (cs_allowed_namespace_prefix s) (namespace (request_path q))"

definition extended :: "ChoiceSession \<Rightarrow> ChoiceRequest list \<Rightarrow> ChoiceRecord list \<Rightarrow> ChoiceSession" where
  "extended s qs rs = s\<lparr>cs_reserved_paths := (path_bytes \<circ> request_path) ` set qs \<union> cs_reserved_paths s,
     cs_records := cs_records s @ rs\<rparr>"

lemma extended_simps [simp]:
  "cs_seed (extended s qs rs) = cs_seed s"
  "cs_generation_namespace (extended s qs rs) = cs_generation_namespace s"
  "cs_attempt_key (extended s qs rs) = cs_attempt_key s"
  "cs_producer_contract_id (extended s qs rs) = cs_producer_contract_id s"
  "cs_allowed_namespace_prefix (extended s qs rs) = cs_allowed_namespace_prefix s"
  "cs_budget (extended s qs rs) = cs_budget s" "cs_state (extended s qs rs) = cs_state s"
  "cs_reserved_paths (extended s qs rs) =
     (path_bytes \<circ> request_path) ` set qs \<union> cs_reserved_paths s"
  "cs_records (extended s qs rs) = cs_records s @ rs"
  "session_ledger sha256 (extended s qs rs) = session_ledger sha256 s"
  "ledger_bytes_for sha256 (extended s qs rs) = ledger_bytes_for sha256 s"
  by (simp_all add: extended_def session_ledger_def ledger_bytes_for_def fun_eq_iff)

lemma extended_extended:
  "extended (extended s qs rs) qs' rs' = extended s (qs @ qs') (rs @ rs')"
  by (simp add: extended_def image_Un ac_simps)

lemma reserved_frame [simp]:
  "session_ledger sha256 (s\<lparr>cs_reserved_paths := p\<rparr>) = session_ledger sha256 s"
  "ledger_bytes_for sha256 (s\<lparr>cs_reserved_paths := p\<rparr>) = ledger_bytes_for sha256 s"
  "request_draw sha256 hmac q (s\<lparr>cs_reserved_paths := p\<rparr>) = request_draw sha256 hmac q s"
  by (simp_all add: session_ledger_def ledger_bytes_for_def fun_eq_iff)
    (rule draw_frame; simp)

lemma reserve_Inr:
  "reserve path s = (Inr u, t) \<longleftrightarrow> cs_state s = SessionOpen \<and> attempt_key path = cs_attempt_key s \<and>
     namespace_allowed (cs_allowed_namespace_prefix s) (namespace path) \<and>
     path_bytes path \<notin> cs_reserved_paths s \<and>
     t = s\<lparr>cs_reserved_paths := insert (path_bytes path) (cs_reserved_paths s)\<rparr>"
  unfolding reserve_def seq_op_Inr by (auto simp: require_open_path_def)

lemma preflight_Inr:
  "preflight_choice_count sha256 s = Inr u \<longleftrightarrow>
     int (length (cs_records s)) + 1 \<le> maximum_choices_per_attempt (cs_budget s)"
  by (simp add: preflight_choice_count_def Let_def)

lemma commit_Inr:
  "commit_record sha256 r s = (Inr u, t) \<longleftrightarrow>
     ledger_bytes_for sha256 s (cs_records s @ [r]) \<le> maximum_canonical_ledger_bytes (cs_budget s) \<and>
     t = s\<lparr>cs_records := cs_records s @ [r]\<rparr>"
  unfolding commit_record_def seq_op_Inr by (auto simp: Let_def)

lemma perform_Inr:
  "perform sha256 hmac q s = (Inr r, t) \<longleftrightarrow>
     cs_state s = SessionOpen \<and> admits s q \<and>
     path_bytes (request_path q) \<notin> cs_reserved_paths s \<and>
     int (length (cs_records s)) + 1 \<le> maximum_choices_per_attempt (cs_budget s) \<and>
     request_draw sha256 hmac q s = Inr r \<and>
     ledger_bytes_for sha256 s (cs_records s @ [r]) \<le> maximum_canonical_ledger_bytes (cs_budget s) \<and>
     t = extended s [q] [r]"
proof -
  let ?u = "s\<lparr>cs_reserved_paths := insert (path_bytes (request_path q)) (cs_reserved_paths s)\<rparr>"
  have "perform sha256 hmac q s = (Inr r, t) \<longleftrightarrow>
      reserve (request_path q) s = (Inr (), ?u) \<and> preflight_choice_count sha256 ?u = Inr () \<and>
      request_draw sha256 hmac q ?u = Inr r \<and> commit_record sha256 r ?u = (Inr (), t)"
    unfolding perform_def make_choice_def guarded_Inr seq_op_Inr op_simps prod.inject
    by (auto simp: reserve_Inr)
  then show ?thesis
    by (simp only: reserve_Inr preflight_Inr commit_Inr reserved_frame)
      (auto simp: admits_def extended_def)
qed

text \<open>A request that raises: the session is not open afterwards and its records are those it had.\<close>

lemma reserve_records: "cs_records (snd (reserve path s)) = cs_records s"
  by (simp add: reserve_def seq_read split: sum.splits)

lemma perform_Inl:
  assumes "perform sha256 hmac q s = (Inl e, t)"
  shows "cs_state t \<noteq> SessionOpen" and "cs_records t = cs_records s"
proof -
  obtain u where block: "seq_op (reserve (request_path q)) (\<lambda>_.
      seq_op (read_op (preflight_choice_count sha256)) (\<lambda>_.
      seq_op (read_op (request_draw sha256 hmac q)) (\<lambda>r.
      seq_op (commit_record sha256 r) (\<lambda>_. ret r)))) s = (Inl e, u)"
    and t: "t = poison_if_open u"
    using assms by (auto simp: perform_def make_choice_def guarded_Inl)
  show "cs_state t \<noteq> SessionOpen" by (simp add: t poison_closes)
  have "cs_records u = cs_records s"
    using block reserve_records [of "request_path q" s]
    by (auto simp: seq_op_Inl commit_record_def)
  then show "cs_records t = cs_records s" by (simp add: t poison_if_open_def)
qed

subsection \<open>The size of a ledger\<close>

lemma join_size:
  "length (utf8 (join '','' xs)) = (\<Sum>x\<leftarrow>xs. length (utf8 x)) + (length xs - 1)"
proof (induction "'',''" xs rule: join.induct)
  case (3 x y ys)
  have "length (utf8_char (CHR '','')) = 1" by code_simp
  then show ?case using 3 by (simp add: utf8_append utf8_Cons)
qed simp_all

definition record_sizes :: "ChoiceRecord list \<Rightarrow> nat" where
  "record_sizes rs = (\<Sum>r\<leftarrow>rs. length (utf8 (json_dumps (record_json r)))) + (length rs - 1)"

lemma ledger_size:
  "length (ledger_bytes l) = length (ledger_bytes (l\<lparr>cl_records := []\<rparr>)) + record_sizes (cl_records l)"
  by (simp add: ledger_bytes_def json_bytes_def ledger_json_def utf8_append utf8_Cons record_sizes_def
      join_size comp_def)

lemma sum_list_permuted:
  "mset xs = mset ys \<Longrightarrow> sum_list (map f xs) = (sum_list (map f ys) :: nat)"
  by (metis mset_map sum_mset_sum_list)

lemma record_sizes_mset:
  assumes "mset rs = mset rs'" shows "record_sizes rs = record_sizes rs'"
  using sum_list_permuted [OF assms] mset_eq_length [OF assms] by (simp add: record_sizes_def)

lemma session_ledger_size:
  "ledger_bytes_for sha256 s rs = ledger_bytes_for sha256 s [] + int (record_sizes rs)"
proof -
  have "record_sizes (sort_key record_order rs) = record_sizes rs"
    by (rule record_sizes_mset) simp
  then show ?thesis using ledger_size [of "session_ledger sha256 s rs"]
    by (simp add: ledger_bytes_for_def session_ledger_def)
qed

lemma record_sizes_append: "record_sizes rs \<le> record_sizes (rs @ rs')"
  by (simp add: record_sizes_def)

subsection \<open>Sequences of requests\<close>

fun perform_all :: "(byte list \<Rightarrow> byte list) \<Rightarrow> (byte list \<Rightarrow> byte list \<Rightarrow> byte list) \<Rightarrow>
    ChoiceRequest list \<Rightarrow> ChoiceRecord list session_op" where
  "perform_all sha256 hmac [] = ret []"
| "perform_all sha256 hmac (q # qs) =
     seq_op (perform sha256 hmac q) (\<lambda>r.
     seq_op (perform_all sha256 hmac qs) (\<lambda>rs. ret (r # rs)))"

abbreviation request_key :: "ChoiceRequest \<Rightarrow> byte list" where
  "request_key q \<equiv> path_bytes (request_path q)"

text \<open>What a sequence of requests needs to return in full.\<close>

definition performable :: "(byte list \<Rightarrow> byte list) \<Rightarrow> (byte list \<Rightarrow> byte list \<Rightarrow> byte list) \<Rightarrow>
    ChoiceSession \<Rightarrow> ChoiceRequest list \<Rightarrow> ChoiceRecord list \<Rightarrow> bool" where
  "performable sha256 hmac s qs rs \<longleftrightarrow>
     list_all2 (\<lambda>q r. request_draw sha256 hmac q s = Inr r) qs rs \<and> (\<forall>q\<in>set qs. admits s q) \<and>
     distinct (map request_key qs) \<and> request_key ` set qs \<inter> cs_reserved_paths s = {} \<and>
     (qs \<noteq> [] \<longrightarrow>
       int (length (cs_records s) + length qs) \<le> maximum_choices_per_attempt (cs_budget s) \<and>
       ledger_bytes_for sha256 s (cs_records s @ rs) \<le> maximum_canonical_ledger_bytes (cs_budget s))"

lemma admits_extended [simp]: "admits (extended s qs rs) = admits s"
  by (simp add: admits_def fun_eq_iff)

lemma performable_Cons:
  "performable sha256 hmac s (q # qs) (r # rs) \<longleftrightarrow> admits s q \<and>
     request_key q \<notin> cs_reserved_paths s \<and>
     int (length (cs_records s)) + 1 \<le> maximum_choices_per_attempt (cs_budget s) \<and>
     request_draw sha256 hmac q s = Inr r \<and>
     ledger_bytes_for sha256 s (cs_records s @ [r]) \<le> maximum_canonical_ledger_bytes (cs_budget s) \<and>
     performable sha256 hmac (extended s [q] [r]) qs rs"
proof -
  have draws: "request_draw sha256 hmac p (extended s [q] [r]) = request_draw sha256 hmac p s" for p
    by (rule draw_frame) simp_all
  have "ledger_bytes_for sha256 s (cs_records s @ [r]) \<le> ledger_bytes_for sha256 s (cs_records s @ r # rs)"
    unfolding session_ledger_size [of _ _ "_ @ _"]
    using record_sizes_append [of "cs_records s @ [r]" rs] by simp
  then show ?thesis
    by (cases "qs = []") (auto simp: performable_def draws)
qed

lemma perform_all_Inr:
  assumes "cs_state s = SessionOpen"
  shows "perform_all sha256 hmac qs s = (Inr rs, t) \<longleftrightarrow>
    performable sha256 hmac s qs rs \<and> t = extended s qs rs"
  using assms
proof (induction qs arbitrary: s rs)
  case Nil
  show ?case by (auto simp: performable_def extended_def)
next
  case (Cons q qs)
  show ?case
  proof (cases rs)
    case Nil
    then show ?thesis by (auto simp: performable_def seq_op_Inr)
  next
    case rs: (Cons r rs')
    have "perform_all sha256 hmac (q # qs) s = (Inr rs, t) \<longleftrightarrow>
        (\<exists>u. perform sha256 hmac q s = (Inr r, u) \<and> perform_all sha256 hmac qs u = (Inr rs', t))"
      by (auto simp: rs seq_op_Inr)
    also have "\<dots> \<longleftrightarrow> perform sha256 hmac q s = (Inr r, extended s [q] [r]) \<and>
        perform_all sha256 hmac qs (extended s [q] [r]) = (Inr rs', t)"
      unfolding perform_Inr by blast
    finally show ?thesis
      using Cons.IH [of "extended s [q] [r]" rs'] Cons.prems
      by (auto simp: rs perform_Inr performable_Cons extended_extended)
  qed
qed

lemma performable_permuted:
  assumes "performable sha256 hmac s qs rs" and "mset qs = mset qs'"
  obtains rs' where "performable sha256 hmac s qs' rs'" and "mset (zip qs' rs') = mset (zip qs rs)"
    and "mset rs' = mset rs"
proof -
  define f where "f = (\<lambda>q. projr (request_draw sha256 hmac q s))"
  have draws: "\<forall>q\<in>set qs. request_draw sha256 hmac q s = Inr (f q)" and rs: "rs = map f qs"
    using assms(1)
    by (auto simp: performable_def f_def list_all2_conv_all_nth in_set_conv_nth intro!: nth_equalityI)
  have sets: "set qs' = set qs" "length qs' = length qs"
    using assms(2) mset_eq_setD mset_eq_length by metis+
  have zips: "mset (zip xs (map f xs)) = image_mset (\<lambda>q. (q, f q)) (mset xs)" for xs
    by (simp add: zip_map2 zip_same_conv_map comp_def flip: mset_map)
  have ms: "mset (map f qs') = mset rs" using assms(2) by (simp add: rs)
  have "performable sha256 hmac s qs' (map f qs')"
    unfolding performable_def
  proof (intro conjI impI)
    show "list_all2 (\<lambda>q r. request_draw sha256 hmac q s = Inr r) qs' (map f qs')"
      using draws sets(1) by (auto simp: list.rel_map intro!: list.rel_refl_strong)
    show "distinct (map request_key qs')"
      using assms distinct_map_mset [OF assms(2), of request_key] by (simp add: performable_def)
    have "record_sizes (cs_records s @ map f qs') = record_sizes (cs_records s @ rs)"
      by (rule record_sizes_mset) (use ms in simp)
    then show "ledger_bytes_for sha256 s (cs_records s @ map f qs')
        \<le> maximum_canonical_ledger_bytes (cs_budget s)" if "qs' \<noteq> []"
      using assms(1) sets that session_ledger_size [of sha256 s "cs_records s @ map f qs'"]
        session_ledger_size [of sha256 s "cs_records s @ rs"] by (auto simp: performable_def)
  qed (use assms(1) sets in \<open>auto simp: performable_def\<close>)
  then show thesis using ms assms(2) by (intro that [of "map f qs'"]) (simp_all add: rs zips)
qed

section \<open>Properties of choice sessions\<close>

text \<open>
  Every primitive result is recorded; a session fails closed; a frozen ledger holds exactly what
  its requests draw from the seed; and a batch of requests can be made in any order.
\<close>

subsection \<open>Records of a session\<close>

lemma draw_fields:
  assumes "request_draw sha256 hmac q s = Inr r"
  shows "record_path r = request_path q"
    and "kr_seed_commitment (record_fields r) = seed_commitment sha256 (cs_seed s)"
    and "kr_generation_namespace_digest (record_fields r) =
      namespace_digest sha256 (cs_generation_namespace s)"
  using assms
  by (cases q; auto simp: make_bounded_def make_weighted_def make_ratio_def
      record_from_bounded_result_def record_from_weighted_result_def
      record_from_boolean_result_def bounded_choice_record_def weighted_choice_record_def
      boolean_choice_record_def Let_def ChoiceRecordFields.defs)+

lemma primitive_Inr: "primitive r = Inr a \<longleftrightarrow> r = Inr a"
  by (cases r) (simp_all add: primitive_def)

lemma seed_commitment_hex:
  "\<forall>bs. is_hex_256 (hex (sha256 bs)) \<Longrightarrow> is_hex_256 (seed_commitment sha256 seed)"
  "\<forall>bs. is_hex_256 (hex (sha256 bs)) \<Longrightarrow> is_hex_256 (namespace_digest sha256 gn)"
  by (simp_all add: seed_commitment_def namespace_digest_def json_digest_def)

text \<open>C19: Every result is recorded, and as it was. For a hash with 32-byte digests, the record of a
  choice exists exactly when the primitive returns, and carries its outcome: the tests of the
  record classes, which find the weighted index by their own loop, never refuse a result of the
  primitives.\<close>

theorem results_are_recorded:
  assumes "\<forall>bs. is_hex_256 (hex (sha256 bs))"
  shows "((\<exists>r. request_draw sha256 hmac (AskBounded path u) s = Inr r \<and> bounded_value r = v) \<longleftrightarrow>
      (\<exists>res. bounded_integer sha256 hmac (cs_seed s) path u = Inr res \<and> br_value res = v)) \<and>
    ((\<exists>r. request_draw sha256 hmac (AskWeighted path vs ws) s = Inr r \<and>
        py_of (canonical_json (weighted_value r)) = x) \<longleftrightarrow>
      (\<exists>res. weighted_choice sha256 hmac (cs_seed s) path
        (map (py_of \<circ> canonical_json) (array_values vs)) ws = Inr res \<and> wr_selected_value res = x)) \<and>
    ((\<exists>r. request_draw sha256 hmac (AskRatio path n d) s = Inr r \<and> boolean_value r = b) \<longleftrightarrow>
      (\<exists>res. choose_ratio sha256 hmac (cs_seed s) path n d = Inr res \<and> bc_selected res = b))"
proof -
  note hex = seed_commitment_hex(1) [OF assms, of "cs_seed s"]
    seed_commitment_hex(2) [OF assms, of "cs_generation_namespace s"]
  have "(\<exists>r. request_draw sha256 hmac (AskBounded path u) s = Inr r \<and> bounded_value r = v) \<longleftrightarrow>
      (\<exists>res. bounded_integer sha256 hmac (cs_seed s) path u = Inr res \<and> br_value res = v)"
    using bounded_recorded [OF _ assms hex(2,1), of hmac "cs_seed s" path u]
    by (fastforce simp: make_bounded_def primitive_Inr)
  moreover have "(\<exists>r. request_draw sha256 hmac (AskRatio path n d) s = Inr r \<and> boolean_value r = b) \<longleftrightarrow>
      (\<exists>res. choose_ratio sha256 hmac (cs_seed s) path n d = Inr res \<and> bc_selected res = b)"
    using ratio_recorded [OF _ assms hex(2,1), of hmac "cs_seed s" path n d]
    by (fastforce simp: make_ratio_def primitive_Inr)
  moreover have "(\<exists>r. request_draw sha256 hmac (AskWeighted path vs ws) s = Inr r \<and>
        py_of (canonical_json (weighted_value r)) = x) \<longleftrightarrow>
      (\<exists>res. weighted_choice sha256 hmac (cs_seed s) path
        (map (py_of \<circ> canonical_json) (array_values vs)) ws = Inr res \<and> wr_selected_value res = x)"
    using weighted_recorded [OF _ assms hex(2,1), of hmac "cs_seed s" path vs ws]
    by (fastforce simp: make_weighted_def primitive_Inr)
  ultimately show ?thesis by blast
qed

subsection \<open>Failing closed\<close>

definition session_step :: "(byte list \<Rightarrow> byte list) \<Rightarrow> (byte list \<Rightarrow> byte list \<Rightarrow> byte list) \<Rightarrow>
    ChoiceSession \<Rightarrow> ChoiceRequest \<Rightarrow> ChoiceSession \<Rightarrow> bool" where
  "session_step sha256 hmac s q t \<longleftrightarrow> t = snd (perform sha256 hmac q s)"

definition session_extends :: "ChoiceSession \<Rightarrow> ChoiceSession \<Rightarrow> bool" where
  "session_extends s t \<longleftrightarrow> prefix (cs_records s) (cs_records t) \<and>
     (cs_state s \<noteq> SessionOpen \<longrightarrow> cs_state t \<noteq> SessionOpen \<and> cs_records t = cs_records s)"

lemma perform_cases:
  obtains r where "perform sha256 hmac q s = (Inr r, extended s [q] [r])" and "cs_state s = SessionOpen"
  | e t where "perform sha256 hmac q s = (Inl e, t)" and "cs_state t \<noteq> SessionOpen"
    and "cs_records t = cs_records s"
proof (cases "perform sha256 hmac q s")
  case (Pair a t)
  show thesis
  proof (cases a)
    case (Inl e)
    then show thesis using perform_Inl [of sha256 hmac q s e t] Pair that(2) by simp
  next
    case (Inr r)
    then show thesis using Pair perform_Inr [of sha256 hmac q s r t] that(1) by simp
  qed
qed

interpretation choosing: absorbing_machine "session_step sha256 hmac" "\<lambda>_. True" session_extends
    "\<lambda>s. cs_state s \<noteq> SessionOpen" for sha256 hmac
proof
  fix s t q
  assume "session_step sha256 hmac s q t"
  then have t: "t = snd (perform sha256 hmac q s)" by (simp add: session_step_def)
  show "session_extends s t"
    by (rule perform_cases [of sha256 hmac q s]) (auto simp: t session_extends_def)
  show "cs_state t \<noteq> SessionOpen" if closed: "cs_state s \<noteq> SessionOpen"
    by (rule perform_cases [of sha256 hmac q s]) (use closed in \<open>auto simp: t\<close>)
qed (auto simp: session_extends_def)


subsection \<open>Frozen ledgers\<close>

lemma check_ledger_records_iff:
  "(\<forall>c\<in>set (check_ledger_records l seen rs). c = None) \<longleftrightarrow>
     distinct (map record_order rs) \<and> record_order ` set rs \<inter> seen = {} \<and>
     (\<forall>r\<in>set rs. attempt_key (record_path r) = cl_attempt_key l \<and>
       kr_seed_commitment (record_fields r) = cl_seed_commitment l \<and>
       kr_generation_namespace_digest (record_fields r) = cl_generation_namespace_digest l \<and>
       namespace_allowed (cl_allowed_namespace_prefix l) (namespace (record_path r)))"
  by (induction rs arbitrary: seen) (auto simp: Let_def)

lemma choice_session_same:
  assumes "choice_session seed gn key producer allowed budget = Inr s"
  shows "cs_state s = SessionOpen" "cs_records s = []" "cs_reserved_paths s = {}"
    "is_token (cs_producer_contract_id s)" "is_token (cs_allowed_namespace_prefix s)"
  using assms by (auto simp: choice_session_def l_token_def)

lemma performed_run:
  assumes "run_of (session_step sha256 hmac) s qs t" and "cs_state t = SessionOpen"
  shows "\<exists>rs. perform_all sha256 hmac qs s = (Inr rs, t)"
  using assms
proof (induction rule: run_of.induct)
  case (more s q t qs u)
  from more.hyps(1) have t: "t = snd (perform sha256 hmac q s)" by (simp add: session_step_def)
  show ?case
  proof (rule perform_cases [of sha256 hmac q s])
    fix r
    assume r: "perform sha256 hmac q s = (Inr r, extended s [q] [r])"
    obtain rs where "perform_all sha256 hmac qs t = (Inr rs, u)" using more by blast
    then show ?thesis using r t by (simp add: seq_op_Inr)
  next
    fix e t'
    assume "perform sha256 hmac q s = (Inl e, t')" "cs_state t' \<noteq> SessionOpen"
    then have "cs_state t \<noteq> SessionOpen" by (simp add: t)
    then show ?thesis using choosing.run_final [OF more.hyps(2)] more.prems by simp
  qed
qed auto

lemma choice_ledger_same: "choice_ledger k = Inr l \<Longrightarrow> l = k"
  by (simp add: choice_ledger_def)

lemma freeze_Inr:
  "freeze sha256 s = (Inr l, t) \<longleftrightarrow> cs_state s = SessionOpen \<and>
     l = session_ledger sha256 s (cs_records s) \<and> choice_ledger l = Inr l \<and>
     ledger_bytes_for sha256 s (cs_records s) \<le> maximum_canonical_ledger_bytes (cs_budget s) \<and>
     t = s\<lparr>cs_state := SessionFrozen\<rparr>"
  unfolding freeze_def seq_op_Inr guarded_Inr op_simps prod.inject ledger_bytes_for_def
  by (auto dest: choice_ledger_same)

lemma freeze_frame:
  assumes "cs_state s = cs_state t" and "cs_budget s = cs_budget t"
    and "session_ledger sha256 s (cs_records s) = session_ledger sha256 t (cs_records t)"
  shows "fst (freeze sha256 s) = fst (freeze sha256 t)"
  using assms
  by (simp add: freeze_def guarded_def catch_op_def seq_read op_simps split: sum.splits)

lemma records_of_requests:
  assumes "performable sha256 hmac s qs rs"
  shows "map record_path rs = map request_path qs"
    and "\<And>r. r \<in> set rs \<Longrightarrow> \<exists>q\<in>set qs. request_draw sha256 hmac q s = Inr r"
proof -
  have draws: "list_all2 (\<lambda>q r. request_draw sha256 hmac q s = Inr r) qs rs"
    using assms by (simp add: performable_def)
  then have "list_all2 (\<lambda>q r. record_path r = request_path q) qs rs"
    by (rule list_all2_mono) (rule draw_fields(1))
  then show "map record_path rs = map request_path qs"
    by (auto simp: list_all2_conv_all_nth intro!: nth_equalityI)
  show "\<exists>q\<in>set qs. request_draw sha256 hmac q s = Inr r" if r: "r \<in> set rs" for r
    using draws r by (fastforce simp: list_all2_conv_all_nth in_set_conv_nth Bex_def)
qed

lemma ledger_accepted:
  assumes new: "choice_session seed gn key producer allowed budget = Inr s"
    and hash: "\<forall>bs. is_hex_256 (hex (sha256 bs))" and "performable sha256 hmac s qs rs"
  shows "choice_ledger (session_ledger sha256 s rs) = Inr (session_ledger sha256 s rs)"
proof -
  let ?l = "session_ledger sha256 s rs"
  have "distinct (map request_key qs)" using assms(3) by (simp add: performable_def)
  also have "map request_key qs = map record_order rs"
    using arg_cong [OF records_of_requests(1) [OF assms(3)], of "map path_bytes"] by (simp add: comp_def)
  finally have distinct: "distinct (map record_order (sort_key record_order rs))" by simp
  have fields: "attempt_key (record_path r) = cs_attempt_key s \<and>
      kr_seed_commitment (record_fields r) = seed_commitment sha256 (cs_seed s) \<and>
      kr_generation_namespace_digest (record_fields r) =
        namespace_digest sha256 (cs_generation_namespace s) \<and>
      namespace_allowed (cs_allowed_namespace_prefix s) (namespace (record_path r))"
    if r: "r \<in> set rs" for r
  proof -
    obtain q where q: "q \<in> set qs" "request_draw sha256 hmac q s = Inr r"
      using records_of_requests(2) [OF assms(3) r] by blast
    then have "admits s q" using assms(3) by (simp add: performable_def)
    then show ?thesis using draw_fields [OF q(2)] by (simp add: admits_def)
  qed
  have "\<forall>c\<in>set (check_ledger_records ?l {} (sort_key record_order rs)). c = None"
    unfolding check_ledger_records_iff using distinct fields by (simp add: session_ledger_def)
  then show ?thesis
    using seed_commitment_hex [OF hash] choice_session_same(4,5) [OF new]
    by (simp add: choice_ledger_def session_ledger_def h_digest_def l_token_def ball_Un sort_key_id_if_sorted)
qed

text \<open>C18: A frozen ledger replays. However a new session was used, when it freezes, every request
  made of it had returned, and the ledger holds exactly the records that these requests draw from
  the seed, one per request, sorted by path; its paths are distinct, its constructor accepts it, and
  it is within both budgets.\<close>

theorem frozen_ledger_replays:
  assumes "choice_session seed gn key producer allowed budget = Inr s"
    and "run_of (session_step sha256 hmac) s qs t" and "freeze sha256 t = (Inr l, u)"
  shows "\<exists>rs. list_all2 (\<lambda>q r. request_draw sha256 hmac q s = Inr r) qs rs \<and>
    cl_records l = sort_key record_order rs \<and> distinct (map record_order (cl_records l)) \<and>
    choice_ledger l = Inr l \<and>
    (cl_records l \<noteq> [] \<longrightarrow>
       int (length (cl_records l)) \<le> maximum_choices_per_attempt (cs_budget s)) \<and>
    int (length (ledger_bytes l)) \<le> maximum_canonical_ledger_bytes (cs_budget s)"
proof -
  note new = choice_session_same [OF assms(1)]
  note frozen = assms(3) [unfolded freeze_Inr]
  obtain rs where "perform_all sha256 hmac qs s = (Inr rs, t)"
    using performed_run [OF assms(2)] frozen by blast
  then have rs: "performable sha256 hmac s qs rs" and t: "t = extended s qs rs"
    using perform_all_Inr [OF new(1)] by blast+
  have l: "l = session_ledger sha256 s rs" using frozen t new by simp
  have "distinct (map request_key qs)" "length rs = length qs"
    using rs by (auto simp: performable_def dest: list_all2_lengthD)
  moreover have "map request_key qs = map record_order rs"
    using arg_cong [OF records_of_requests(1) [OF rs], of "map path_bytes"] by (simp add: comp_def)
  ultimately show ?thesis
    using rs frozen new t by (intro exI [of _ rs])
      (auto simp: l performable_def session_ledger_def ledger_bytes_for_def)
qed

text \<open>C17: The order of the choices is irrelevant. If a batch of requests to a new session returns, it
  returns in every order, every request gets the same record, and the ledger frozen afterwards is the
  same. After a batch of at least one choice the session freezes.\<close>

theorem choice_order_irrelevant:
  assumes new: "choice_session seed gn key producer allowed budget = Inr s"
    and hash: "\<forall>bs. is_hex_256 (hex (sha256 bs))"
    and run: "perform_all sha256 hmac qs s = (Inr rs, t)" and perm: "mset qs = mset qs'"
  shows "\<exists>rs' t'. perform_all sha256 hmac qs' s = (Inr rs', t') \<and>
    mset (zip qs' rs') = mset (zip qs rs) \<and> fst (freeze sha256 t') = fst (freeze sha256 t) \<and>
    (qs \<noteq> [] \<longrightarrow> (\<exists>l. fst (freeze sha256 t) = Inr l))"
proof -
  note fresh = choice_session_same [OF new]
  have rs: "performable sha256 hmac s qs rs" and t: "t = extended s qs rs"
    using run perform_all_Inr [OF fresh(1)] by blast+
  obtain rs' where rs': "performable sha256 hmac s qs' rs'" "mset (zip qs' rs') = mset (zip qs rs)"
    "mset rs' = mset rs" by (rule performable_permuted [OF rs perm])
  have keys: "map request_key qs = map record_order rs"
    using arg_cong [OF records_of_requests(1) [OF rs], of "map path_bytes"] by (simp add: comp_def)
  have "distinct (map request_key qs)" using rs by (simp add: performable_def)
  then have "sort_key record_order rs' = sort_key record_order rs"
    unfolding keys by (rule sort_key_permuted [OF rs'(3)])
  then have ledger: "session_ledger sha256 s rs' = session_ledger sha256 s rs"
    by (simp add: session_ledger_def)
  have frozen: "fst (freeze sha256 (extended s qs' rs')) = fst (freeze sha256 (extended s qs rs))"
    by (rule freeze_frame) (use fresh ledger in simp_all)
  have "\<exists>l. fst (freeze sha256 t) = Inr l" if "qs \<noteq> []"
  proof -
    have "ledger_bytes_for sha256 s rs \<le> maximum_canonical_ledger_bytes (cs_budget s)"
      using rs that fresh by (simp add: performable_def)
    then have "freeze sha256 t =
        (Inr (session_ledger sha256 s rs), t\<lparr>cs_state := SessionFrozen\<rparr>)"
      using ledger_accepted [OF new hash rs] fresh by (simp add: freeze_Inr t)
    then show ?thesis by simp
  qed
  then show ?thesis
    using rs' perform_all_Inr [OF fresh(1), of sha256 hmac qs' rs'] frozen t by blast
qed

end
