(* ===== verification/Choice_Session_Examples.thy ===== *)
theory Choice_Session_Examples
  imports Choice_Sessions Choice_Properties
begin

section \<open>A worked choice session\<close>

text \<open>
  A session that asks for one bounded integer under a budget that its ledger fills exactly, and the
  witnesses of the properties of choice sessions. The hash and the HMAC are constant functions.
\<close>

definition session_namespace :: GenerationNamespace where
  "session_namespace = \<lparr>gn_release = ''v0.4'', gn_choice_algorithm_id = ''a'',
     gn_choice_algorithm_version = 1, gn_identity_algorithm_id = ''b'',
     gn_identity_algorithm_version = 1, gn_identity_schema_version = ''csd-identity/0.4'',
     gn_target_definition_digest = ex_digest, gn_release_policy_digest = ex_digest,
     gn_arithmetic_policy_digest = ex_digest, gn_replay_policy_id = ''c'',
     gn_replay_policy_version = 1, gn_replay_policy_digest = ex_digest,
     gn_shard_policy_id = SHARD_POLICY_ID, gn_shard_policy_version = SHARD_POLICY_VERSION,
     gn_shard_policy_digest = ex_digest\<rparr>"

definition example_evidence :: BoundedIntegerEvidence where
  "example_evidence = \<lparr>bv_value = 1, bv_draw_index = 0, bv_candidate_hex = ''01'',
     bv_candidate = 1, bv_limit = 250, bv_width = 1, bv_block_count = 1,
     bv_draws = [\<lparr>dr_draw_index = 0, dr_candidate_hex = ''01'', dr_block_count = 1\<rparr>],
     bv_domain_digest = ex_digest, bv_material_digest = ex_digest\<rparr>"

definition example_bounded_record :: BoundedIntegerChoiceRecord where
  "example_bounded_record = \<lparr>kr_path = ex_path, kr_generation_namespace_digest = ex_digest,
     kr_seed_commitment = ex_digest, kr_schema_version = CHOICE_RECORD_SCHEMA_VERSION,
     bi_upper_exclusive = 10, bi_evidence = example_evidence\<rparr>"

definition session_of :: "ChoiceBudget \<Rightarrow> ChoiceSession" where
  "session_of budget = \<lparr>cs_seed = ex_seed, cs_generation_namespace = session_namespace,
     cs_attempt_key = attempt_key ex_path, cs_producer_contract_id = ''p'',
     cs_allowed_namespace_prefix = ''n'', cs_budget = budget, cs_state = SessionOpen,
     cs_reserved_paths = {}, cs_records = []\<rparr>"

definition filled_budget :: ChoiceBudget where
  "filled_budget = \<lparr>maximum_choices_per_attempt = 1, maximum_canonical_ledger_bytes =
     ledger_bytes_for ex_sha256 (session_of \<lparr>maximum_choices_per_attempt = 1,
       maximum_canonical_ledger_bytes = 1\<rparr>) [BoundedRecord example_bounded_record]\<rparr>"

definition example_session :: ChoiceSession where
  "example_session = session_of filled_budget"

lemma example_session_new: "choice_session ex_seed session_namespace (attempt_key ex_path) ''p'' ''n''
    filled_budget = Inr example_session"
proof -
  have "is_token ''p'' \<and> is_token ''n''" by code_simp
  then show ?thesis by (simp add: choice_session_def l_token_def example_session_def session_of_def)
qed

lemma example_open: "cs_state example_session = SessionOpen" "cs_records example_session = []"
  by (simp_all add: example_session_def session_of_def)

lemma example_hash: "\<forall>bs. is_hex_256 (hex (ex_sha256 bs))"
proof -
  have "is_hex_256 ex_digest" by code_simp
  then show ?thesis by (simp add: ex_sha256_def ex_digest_def)
qed

lemma example_bounded: "bounded_integer ex_sha256 ex_hmac ex_seed ex_path 10 = Inr
  \<lparr>br_value = 1, br_draw_index = 0, br_candidate_hex = ''01'', br_candidate = 1, br_limit = 250,
   br_width = 1, br_block_count = 1,
   br_draws = [\<lparr>cd_draw_index = 0, cd_candidate_hex = ''01'', cd_candidate = 1, cd_block_count = 1\<rparr>],
   br_domain_digest = ex_digest, br_material_digest = ex_digest\<rparr>"
proof -
  obtain m where "hmac_block ex_hmac ex_seed ex_material 0 0 = Inr (ex_hmac (material ex_seed) m)"
    using hmac_block_Inr [OF ex_material_length, of 0 0 ex_hmac ex_seed] by (auto simp: MAX_UINT64_def)
  then have block: "hmac_block ex_hmac ex_seed ex_material 0 0 = Inr (replicate 32 1)"
    by (simp add: ex_hmac_def)
  have candidate: "candidate_bytes ex_hmac ex_seed ex_material 0 (Suc 0) = Inr ([1], 1)"
    unfolding candidate_bytes_def
    by (subst candidate_loop.simps, simp add: block MAX_UINT64_def,
        subst candidate_loop.simps, simp add: numeral_eq_Suc)
  have "hex [1] = ''01''" by code_simp
  then have "draw_loop ex_sha256 ex_hmac ex_seed ex_material ex_digest 10 [] 0 = Inr
    \<lparr>br_value = 1, br_draw_index = 0, br_candidate_hex = ''01'', br_candidate = 1, br_limit = 250,
     br_width = 1, br_block_count = 1,
     br_draws = [\<lparr>cd_draw_index = 0, cd_candidate_hex = ''01'', cd_candidate = 1, cd_block_count = 1\<rparr>],
     br_domain_digest = ex_digest, br_material_digest = ex_digest\<rparr>"
    by (subst draw_loop.simps)
      (simp add: ex_width ex_limit candidate MAX_UINT64_def from_be_def ex_sha256_def ex_digest_def)
  then show ?thesis
    using ex_domain_digest ex_material
    by (simp add: bounded_integer_def bounded_integer_for_domain_def ex_domain_def)
qed

lemma example_evidence_ok: "bounded_evidence example_evidence = Inr example_evidence"
proof -
  have "is_hex_bytes ''01''" "hex_int ''01'' = 1" by code_simp+
  then show ?thesis
    using example_hash
    by (simp add: bounded_evidence_def check_draws_def h_nonnegative_def h_digest_def
        example_evidence_def ex_digest_def ex_sha256_def)
qed

lemma session_digests:
  "seed_commitment ex_sha256 seed = ex_digest" "namespace_digest ex_sha256 gn = ex_digest"
  by (simp_all add: seed_commitment_def namespace_digest_def json_digest_def ex_sha256_def ex_digest_def)

lemma example_draw: "request_draw ex_sha256 ex_hmac (AskBounded ex_path 10) example_session =
    Inr (BoundedRecord example_bounded_record)"
proof -
  have "candidate_draw_record \<lparr>dr_draw_index = 0, dr_candidate_hex = ''01'', dr_block_count = 1\<rparr> =
      Inr \<lparr>dr_draw_index = 0, dr_candidate_hex = ''01'', dr_block_count = 1\<rparr>" by code_simp
  moreover have "bounded_choice_record example_bounded_record = Inr example_bounded_record"
    using example_hash
    by (simp add: bounded_choice_record_def check_record_head_def check_record_schema_def
        h_digest_def example_bounded_record_def example_evidence_def ex_digest_def ex_sha256_def)
  ultimately show ?thesis
    using example_bounded example_evidence_ok
    by (simp add: make_bounded_def primitive_Inr primitive_def example_session_def session_of_def
        record_from_bounded_result_def evidence_from_result_def session_digests
        example_bounded_record_def example_evidence_def)
qed

lemma example_performed: "perform ex_sha256 ex_hmac (AskBounded ex_path 10) example_session =
    (Inr (BoundedRecord example_bounded_record),
     extended example_session [AskBounded ex_path 10] [BoundedRecord example_bounded_record])"
proof -
  have "ledger_bytes_for ex_sha256 example_session [BoundedRecord example_bounded_record] =
      maximum_canonical_ledger_bytes filled_budget"
    by (simp add: filled_budget_def ledger_bytes_for_def session_ledger_def example_session_def
        session_of_def)
  then show ?thesis
    using example_draw unfolding perform_Inr
    by (simp add: example_session_def session_of_def admits_def namespace_allowed_def
        filled_budget_def ex_path_def)
qed

lemma example_batch: "perform_all ex_sha256 ex_hmac [AskBounded ex_path 10] example_session =
    (Inr [BoundedRecord example_bounded_record],
     extended example_session [AskBounded ex_path 10] [BoundedRecord example_bounded_record])"
  using example_performed by (simp add: seq_op_Inr)

lemma example_frozen: "\<exists>l u. freeze ex_sha256 (extended example_session [AskBounded ex_path 10]
    [BoundedRecord example_bounded_record]) = (Inr l, u)"
proof -
  have "performable ex_sha256 ex_hmac example_session [AskBounded ex_path 10]
      [BoundedRecord example_bounded_record]"
    using example_batch perform_all_Inr [OF example_open(1)] by blast
  from ledger_accepted [OF example_session_new example_hash this] this show ?thesis
    by (simp add: freeze_Inr performable_def example_open)
qed

theorem results_are_recorded_witness:
  "\<exists>r. request_draw ex_sha256 ex_hmac (AskBounded ex_path 10) example_session = Inr r \<and>
     bounded_value r = 1"
  using results_are_recorded [OF example_hash, of ex_hmac ex_path 10 example_session 1]
    example_bounded by (simp add: example_session_def session_of_def)


theorem frozen_ledger_replays_witness:
  "\<exists>l u. freeze ex_sha256 (extended example_session [AskBounded ex_path 10]
      [BoundedRecord example_bounded_record]) = (Inr l, u) \<and>
     cl_records l = [BoundedRecord example_bounded_record]"
proof -
  obtain l u where l: "freeze ex_sha256 (extended example_session [AskBounded ex_path 10]
      [BoundedRecord example_bounded_record]) = (Inr l, u)"
    using example_frozen by blast
  have "run_of (session_step ex_sha256 ex_hmac) example_session [AskBounded ex_path 10]
      (extended example_session [AskBounded ex_path 10] [BoundedRecord example_bounded_record])"
    using example_performed by (simp add: session_step_def)
  from frozen_ledger_replays [OF example_session_new this l] example_draw l
  show ?thesis by (auto simp: list_all2_Cons1)
qed

theorem choice_order_irrelevant_witness:
  "\<exists>l. fst (freeze ex_sha256 (extended example_session [AskBounded ex_path 10]
      [BoundedRecord example_bounded_record])) = Inr l"
  using choice_order_irrelevant [OF example_session_new example_hash example_batch refl] by auto

end
