(* ===== verification/Identity_Examples.thy ===== *)
theory Identity_Examples
  imports Identity_Properties Identity_Collisions Publication_Chains Choice_Session_Examples
begin

section \<open>A worked identity ledger\<close>

text \<open>
  Two roles of one attempt, allocated under a hash and an HMAC whose 32-byte digests tell the first
  role from everything else, and the witnesses of the properties of identities.
\<close>

subsection \<open>A bound on the size of canonical bytes\<close>

fun raw_bound :: "json \<Rightarrow> nat" where
  "raw_bound JNull = 4"
| "raw_bound (JBool b) = 5"
| "raw_bound (JInt n) = length (py_str n)"
| "raw_bound (JStr s) = 6 * length s + 2"
| "raw_bound (JArr xs) = sum_list (map raw_bound xs) + length xs + 2"
| "raw_bound (JObj ps) = sum_list (map (\<lambda>(k, v). 6 * length k + 3 + raw_bound v) ps) + length ps + 2"

lemma quote_bound: "length (quote s) \<le> 6 * length s + 2"
proof -
  have "length (esc_char c) \<le> 6" for c by (simp add: esc_char_def Let_def)
  then have "length (concat (map esc_char s)) \<le> 6 * length s"
    by (induction s) (simp_all add: add_mono)
  then show ?thesis by (simp add: quote_def)
qed

lemma join_bound: "length (join '','' xs) \<le> sum_list (map length xs) + length xs"
  by (induction "'',''" xs rule: join.induct) auto

lemma raw_bound: "length (raw j) \<le> raw_bound j"
proof (induction j)
  case (JStr s)
  show ?case using quote_bound [of s] by simp
next
  case (JArr xs)
  then have "sum_list (map length (map raw xs)) \<le> sum_list (map raw_bound xs)"
    by (simp add: sum_list_mono comp_def)
  then show ?case using join_bound [of "map raw xs"] by simp
next
  case (JObj ps)
  let ?f = "\<lambda>(k, v). quote k @ '':'' @ raw v"
  have "length (?f p) \<le> (case p of (k, v) \<Rightarrow> 6 * length k + 3 + raw_bound v)" if "p \<in> set ps" for p
    using JObj [of p "snd p"] that quote_bound [of "fst p"] by (cases p) fastforce
  then have "sum_list (map length (map ?f ps)) \<le>
      sum_list (map (\<lambda>(k, v). 6 * length k + 3 + raw_bound v) ps)"
    unfolding map_map by (intro sum_list_mono) simp
  then show ?case using join_bound [of "map ?f ps"] by simp
qed simp_all

lemma json_bytes_bound:
  assumes "norm_json j = j" shows "length (json_bytes j) \<le> 2 * raw_bound j + 2"
proof -
  have "length (utf8 s) \<le> 2 * length s" for s
    by (induction s) (simp_all add: utf8_Cons utf8_char_def Let_def)
  from this [of "raw j @ [CHR 0x0A]"] show ?thesis
    using assms raw_bound [of j] by (simp add: json_bytes_def json_dumps_norm)
qed

subsection \<open>Two roles\<close>

definition first_role :: IdentityRequest where
  "first_role = \<lparr>iq_attempt_key = attempt_key ex_path, iq_entity_kind = KindEvidence,
     iq_role_segments = [SegStr ''r''], iq_ordinal = 0\<rparr>"

definition second_role :: IdentityRequest where
  "second_role = first_role\<lparr>iq_ordinal := 1\<rparr>"

definition role_message :: "IdentityRequest \<Rightarrow> byte list" where
  "role_message q = (let mat = canonical_identity_material session_namespace q in
     IDENTITY_PREFIX @ be_bytes 8 (int (length mat)) @ mat)"

definition role_hash :: "byte list \<Rightarrow> byte list" where
  "role_hash m = (if m = json_bytes (request_json first_role) then 1 else 0) # replicate 31 0"

definition role_hmac :: "byte list \<Rightarrow> byte list \<Rightarrow> byte list" where
  "role_hmac k m = (if m = role_message first_role then 1 else 0) # replicate 31 0"

definition role_identity :: "IdentityRequest \<Rightarrow> EntityIdentity" where
  "role_identity q = (let full = hex (role_hmac [] (role_message q)) in
     \<lparr>en_entity_kind = iq_entity_kind q, en_full_digest = full,
      en_display_id = display_of (iq_entity_kind q) full,
      en_material_digest = hex (role_hash (canonical_identity_material session_namespace q)),
      en_generation_namespace_digest = namespace_digest role_hash session_namespace\<rparr>)"

lemma roles_differ: "second_role \<noteq> first_role"
  by (simp add: second_role_def first_role_def)

lemma norm_material_json: "norm_json (identity_material_json gn q) = identity_material_json gn q"
  by (simp add: identity_material_json_def norm_request norm_namespace)

lemma role_material_bound:
  assumes "q \<in> {first_role, second_role}"
  shows "int (length (canonical_identity_material session_namespace q)) \<le> MAX_UINT64"
proof -
  have "length (py_str 0) = 1" "length (py_str 1) = 1" by code_simp+
  moreover have "length ex_digest = 64" by code_simp
  ultimately have "raw_bound (identity_material_json session_namespace q) \<le> 20000"
    using assms by (auto simp: identity_material_json_def namespace_json_def namespace_pairs_def
        session_namespace_def request_json_def Let_def first_role_def second_role_def ex_path_def
        IDENTITY_ALGORITHM_ID_def IDENTITY_ALGORITHM_VERSION_def SHARD_POLICY_ID_def
        SHARD_POLICY_VERSION_def)
  then show ?thesis
    using json_bytes_bound [OF norm_material_json, of session_namespace q]
    by (simp add: canonical_identity_material_def MAX_UINT64_def)
qed

lemma role_message:
  assumes "q \<in> {first_role, second_role}"
  shows "identity_message (canonical_identity_material session_namespace q) = Inr (role_message q)"
  using role_material_bound [OF assms] by (simp add: identity_message_Inr role_message_def Let_def)

lemma role_messages_differ: "role_message second_role \<noteq> role_message first_role"
  using identity_messages_separated [OF role_message [of first_role], of session_namespace second_role]
    role_message [of second_role] roles_differ by simp

lemma role_hash_hex: "is_hex_256 (hex (role_hash m))" "is_hex_256 (hex (role_hmac k m))"
proof -
  have "length (hex bs) = 2 * length bs" for bs by (induction bs) (simp_all add: hex_def)
  then show "is_hex_256 (hex (role_hash m))" "is_hex_256 (hex (role_hmac k m))"
    using hex_digits by (simp_all add: is_hex_256_def role_hash_def role_hmac_def)
qed

lemma role_derived:
  assumes "q \<in> {first_role, second_role}"
  shows "derive_identity role_hash role_hmac ex_seed session_namespace q = Inr (role_identity q)"
proof -
  have "length (role_hmac k m) = 32" for k m by (simp add: role_hmac_def)
  moreover have "role_hmac (material ex_seed) = role_hmac []"
    by (simp add: role_hmac_def fun_eq_iff)
  ultimately show ?thesis
    using role_message [OF assms] role_hash_hex
    by (simp add: derive_identity_def Let_def identity_digest_def and_then_def identity_from_digest_def
        FULL_DIGEST_BITS_def entity_identity_def i_digest_def role_identity_def namespace_digest_def
        json_digest_def)
qed

lemma take_hex: "take (2 * n) (hex bs) = hex (take n bs)"
proof (induction bs arbitrary: n)
  case (Cons b bs)
  then show ?case by (cases n) (simp_all add: hex_def)
qed (simp add: hex_def)

lemma roles_separate: "separate (allot_all role_hash [first_role, second_role]
    (map role_identity [first_role, second_role]))"
proof -
  have "identity_key role_hash second_role \<noteq> identity_key role_hash first_role"
    using request_bytes_inject [of second_role first_role] roles_differ
    by (simp add: identity_key_def json_digest_def role_hash_def)
  moreover have "en_full_digest (role_identity second_role) \<noteq> en_full_digest (role_identity first_role)"
    using role_messages_differ by (simp add: role_identity_def Let_def role_hmac_def)
  moreover have "en_display_id (role_identity second_role) \<noteq> en_display_id (role_identity first_role)"
    using role_messages_differ take_hex [of 16]
    by (simp add: role_identity_def Let_def role_hmac_def display_of_def DISPLAY_DIGEST_BITS_def
        second_role_def first_role_def)
  ultimately show ?thesis by (simp add: separate_def)
qed

abbreviation role_ledger :: IdentityLedger where
  "role_ledger \<equiv> holding ex_seed session_namespace (allot_all role_hash [first_role, second_role]
     (map role_identity [first_role, second_role]))"

lemma roles_allocated:
  "allocate_all role_hash role_hmac [first_role, second_role] (identity_ledger ex_seed session_namespace) =
     (Inr (map role_identity [first_role, second_role]), role_ledger)"
  unfolding new_ledger using roles_separate role_derived
  by (simp only: allocate_all_Inr [OF separate_append [of "[]", simplified]]) (simp add: separate_def)

lemma first_allocated:
  "allocate role_hash role_hmac first_role (identity_ledger ex_seed session_namespace) =
     (Inr (role_identity first_role), holding ex_seed session_namespace
       [allotted role_hash first_role (role_identity first_role)])"
  unfolding new_ledger using role_derived [of first_role]
  by (simp add: allocate_Inr separate_def)

subsection \<open>Witnesses\<close>

theorem identity_messages_separated_witness:
  "identity_message (canonical_identity_material session_namespace second_role) \<noteq>
     Inr (role_message first_role)"
  using identity_messages_separated [OF role_message [of first_role], of session_namespace second_role]
    roles_differ by simp

theorem ledger_roles_separate_witness:
  "resolve role_hash first_role (holding ex_seed session_namespace
     [allotted role_hash first_role (role_identity first_role)]) = Inr (role_identity first_role)"
proof -
  have "run_of (ledger_step role_hash role_hmac) (identity_ledger ex_seed session_namespace)
      [Allocate first_role] (holding ex_seed session_namespace
        [allotted role_hash first_role (role_identity first_role)])"
    using first_allocated by (simp add: ledger_step_def)
  from ledger_roles_separate [OF this] show ?thesis by (simp add: ledger_records_def)
qed

theorem allocation_is_final_witness:
  "resolve role_hash first_role role_ledger = Inr (role_identity first_role)"
proof -
  obtain m where m: "allocate role_hash role_hmac second_role (holding ex_seed session_namespace
      [allotted role_hash first_role (role_identity first_role)]) = m" by blast
  have "snd m = role_ledger"
    using roles_allocated first_allocated m by (auto simp: seq_op_Inr)
  then have "run_of (ledger_step role_hash role_hmac) (holding ex_seed session_namespace
      [allotted role_hash first_role (role_identity first_role)]) [Allocate second_role] role_ledger"
    using m by (simp add: ledger_step_def)
  from allocation_is_final [OF new_ledger_ok first_allocated this] show ?thesis by simp
qed

theorem allocation_order_irrelevant_witness:
  "\<exists>l. allocate_all role_hash role_hmac [second_role, first_role]
      (identity_ledger ex_seed session_namespace) =
      (Inr [role_identity second_role, role_identity first_role], l) \<and>
    ledger_records l = ledger_records role_ledger"
proof -
  obtain js l where l: "allocate_all role_hash role_hmac [second_role, first_role]
      (identity_ledger ex_seed session_namespace) = (Inr js, l)"
    "ledger_records l = ledger_records role_ledger"
    using allocation_order_irrelevant [OF roles_allocated, of "[second_role, first_role]"]
    by (auto simp: add_mset_commute)
  have "separate []" by (simp add: separate_def)
  note batch = allocate_all_Inr [OF this, THEN iffD1, OF l(1) [unfolded new_ledger]]
  then have "js = [role_identity second_role, role_identity first_role]"
    using role_derived by (auto simp: list_all2_Cons1)
  then show ?thesis using l by simp
qed

end
