(* ===== verification/Spec2Isabelle.thy ===== *)
theory Spec2Isabelle
  imports Kernel_Properties Choice_Properties Temporal_Witnesses Reconciliation_Examples Identity_Examples
begin

text \<open>
  A verification development of the CSD Foundry package \<^verbatim>\<open>src/csd_foundry\<close>.
\<close>

end
